(* ===== verification/Prelude.thy ===== *)
theory Prelude
  imports "HOL-Library.Word" "HOL-Library.Multiset"
begin

text \<open>
  Shared ground of the development.

  The Go code is written in the style "call, test the error, go on".  A
  computation is a function from the state of the world to a result and the new
  state; the result is a Go error (\<^verbatim>\<open>Inl\<close>) or the returned value
  (\<^verbatim>\<open>Inr\<close>).  \<^verbatim>\<open>tryM\<close> is the one combinator the handlers are built
  from: run a call, handle its error in one branch, continue with its value in
  the other.

  The locale \<^verbatim>\<open>step_rel\<close> states once what it takes for a computation to
  relate its first and last state by a reflexive and transitive relation, with
  one rule for each combinator; the other theories interpret it ("the responses
  written stay the same", "the tables stay the same", "an invariant of the
  tables is kept", ...) and prove their components with the resulting rules.
\<close>

section \<open>Programs over a state with error results\<close>

type_synonym ('s, 'e, 'a) prog = "'s \<Rightarrow> ('e + 'a) \<times> 's"

definition ok :: "'a \<Rightarrow> ('s, 'e, 'a) prog" where
  "ok x = (\<lambda>w. (Inr x, w))"

definition throw :: "'e \<Rightarrow> ('s, 'e, 'a) prog" where
  "throw e = (\<lambda>w. (Inl e, w))"

definition tryM ::
  "('s, 'e, 'a) prog \<Rightarrow> ('e \<Rightarrow> ('s, 'e, 'b) prog) \<Rightarrow> ('a \<Rightarrow> ('s, 'e, 'b) prog) \<Rightarrow> ('s, 'e, 'b) prog"
where
  "tryM m h k =
     (\<lambda>w. case m w of (Inl e, w') \<Rightarrow> h e w' | (Inr x, w') \<Rightarrow> k x w')"

text \<open>The value of a call, with the error passed on unchanged.\<close>

definition bindM ::
  "('s, 'e, 'a) prog \<Rightarrow> ('a \<Rightarrow> ('s, 'e, 'b) prog) \<Rightarrow> ('s, 'e, 'b) prog"
where
  "bindM m k = tryM m throw k"

text \<open>Result and error of a pure computation, used as a program.\<close>

definition liftR :: "'e + 'a \<Rightarrow> ('s, 'e, 'a) prog" where
  "liftR r = (\<lambda>w. (r, w))"

text \<open>A loop over a slice: the first error ends it.\<close>

fun forM :: "'a list \<Rightarrow> ('a \<Rightarrow> ('s, 'e, unit) prog) \<Rightarrow> ('s, 'e, unit) prog" where
  "forM [] f = ok ()"
| "forM (x # xs) f = bindM (f x) (\<lambda>_. forM xs f)"

text \<open>A loop over a slice that collects one value per element.\<close>

fun mapM :: "'a list \<Rightarrow> ('a \<Rightarrow> ('s, 'e, 'b) prog) \<Rightarrow> ('s, 'e, 'b list) prog" where
  "mapM [] f = ok []"
| "mapM (x # xs) f = bindM (f x) (\<lambda>y. bindM (mapM xs f) (\<lambda>ys. ok (y # ys)))"

named_theorems run_simps \<open>evaluation of programs on a state\<close>

lemma ok_run [run_simps]: "ok x w = (Inr x, w)"
  by (simp add: ok_def)

lemma throw_run [run_simps]: "throw e w = (Inl e, w)"
  by (simp add: throw_def)

lemma tryM_run [run_simps]:
  "tryM m h k w = (case fst (m w) of Inl e \<Rightarrow> h e (snd (m w)) | Inr x \<Rightarrow> k x (snd (m w)))"
  by (auto simp: tryM_def split: prod.splits sum.splits)

lemma bindM_run [run_simps]:
  "bindM m k w = (case fst (m w) of Inl e \<Rightarrow> (Inl e, snd (m w)) | Inr x \<Rightarrow> k x (snd (m w)))"
  by (simp add: bindM_def tryM_run throw_run split: sum.split)

lemma liftR_run [run_simps]: "liftR r w = (r, w)"
  by (simp add: liftR_def)

section \<open>Relations between the first and the last state\<close>

locale step_rel =
  fixes R :: "'s \<Rightarrow> 's \<Rightarrow> bool"
  assumes R_refl: "R w w"
    and R_trans: "R u v \<Longrightarrow> R v w \<Longrightarrow> R u w"
begin

definition rel :: "('s, 'e, 'a) prog \<Rightarrow> bool" where
  "rel m \<longleftrightarrow> (\<forall>w. R w (snd (m w)))"

lemma relI: "(\<And>w. R w (snd (m w))) \<Longrightarrow> rel m"
  by (simp add: rel_def)

lemma relD: "rel m \<Longrightarrow> R w (snd (m w))"
  by (simp add: rel_def)

lemma rel_ok: "rel (ok x)"
  by (simp add: rel_def ok_def R_refl)

lemma rel_throw: "rel (throw e)"
  by (simp add: rel_def throw_def R_refl)

lemma rel_liftR: "rel (liftR r)"
  by (simp add: rel_def liftR_def R_refl)

lemma rel_tryM:
  assumes "rel m" "\<And>e. rel (h e)" "\<And>x. rel (k x)"
  shows "rel (tryM m h k)"
proof (rule relI)
  fix w
  have "R w (snd (m w))" using assms(1) by (rule relD)
  moreover have "R (snd (m w)) (snd (h e (snd (m w))))" for e
    using assms(2) by (rule relD)
  moreover have "R (snd (m w)) (snd (k x (snd (m w))))" for x
    using assms(3) by (rule relD)
  ultimately show "R w (snd (tryM m h k w))"
    by (auto simp: tryM_run split: sum.split intro: R_trans)
qed

lemma rel_bindM: "rel m \<Longrightarrow> (\<And>x. rel (k x)) \<Longrightarrow> rel (bindM m k)"
  unfolding bindM_def by (rule rel_tryM) (auto intro: rel_throw)

lemma rel_if: "(b \<Longrightarrow> rel m) \<Longrightarrow> (\<not> b \<Longrightarrow> rel m') \<Longrightarrow> rel (if b then m else m')"
  by simp

lemma rel_option:
  "(x = None \<Longrightarrow> rel m) \<Longrightarrow> (\<And>y. x = Some y \<Longrightarrow> rel (f y)) \<Longrightarrow>
    rel (case x of None \<Rightarrow> m | Some y \<Rightarrow> f y)"
  by (cases x) auto

lemma rel_sum:
  "(\<And>e. x = Inl e \<Longrightarrow> rel (g e)) \<Longrightarrow> (\<And>y. x = Inr y \<Longrightarrow> rel (f y)) \<Longrightarrow>
    rel (case x of Inl e \<Rightarrow> g e | Inr y \<Rightarrow> f y)"
  by (cases x) auto

lemma rel_prod: "(\<And>a b. x = (a, b) \<Longrightarrow> rel (f a b)) \<Longrightarrow> rel (case x of (a, b) \<Rightarrow> f a b)"
  by (cases x) auto

lemma rel_list:
  "(xs = [] \<Longrightarrow> rel m) \<Longrightarrow> (\<And>y ys. xs = y # ys \<Longrightarrow> rel (f y ys)) \<Longrightarrow>
    rel (case xs of [] \<Rightarrow> m | y # ys \<Rightarrow> f y ys)"
  by (cases xs) auto

lemma rel_let: "rel (f x) \<Longrightarrow> rel (Let x f)"
  by simp

lemma rel_forM: "(\<And>x. rel (f x)) \<Longrightarrow> rel (forM xs f)"
  by (induction xs) (auto intro: rel_ok rel_bindM)

lemma rel_mapM: "(\<And>x. rel (f x)) \<Longrightarrow> rel (mapM xs f)"
  by (induction xs) (auto intro!: rel_ok rel_bindM)

lemmas rel_intros =
  rel_ok rel_throw rel_liftR rel_tryM rel_bindM rel_if rel_option rel_sum rel_prod rel_list
  rel_let rel_forM rel_mapM

end

section \<open>Lists of rows\<close>

text \<open>The first row with a property, as a query with \<^verbatim>\<open>LIMIT 1\<close> returns it.\<close>

definition find_row :: "('a \<Rightarrow> bool) \<Rightarrow> 'a list \<Rightarrow> 'a option" where
  "find_row P xs = (case filter P xs of [] \<Rightarrow> None | x # _ \<Rightarrow> Some x)"

lemma find_row_Some: "find_row P xs = Some x \<Longrightarrow> x \<in> set xs \<and> P x"
proof -
  assume "find_row P xs = Some x"
  then obtain zs where "filter P xs = x # zs"
    by (auto simp: find_row_def split: list.splits)
  then have "x \<in> set (filter P xs)" by (metis list.set_intros(1))
  then show ?thesis by simp
qed

lemma find_row_None: "find_row P xs = None \<longleftrightarrow> (\<forall>x \<in> set xs. \<not> P x)"
  by (cases "filter P xs") (auto simp: find_row_def filter_empty_conv dest: filter_eq_ConsD)

text \<open>With a key that is unique in the table, the row is the only one.\<close>

lemma filter_key_single:
  assumes "distinct (map f xs)" "x \<in> set xs"
  shows "filter (\<lambda>y. f y = f x) xs = [x]"
  using assms
proof (induction xs)
  case (Cons a xs)
  show ?case
  proof (cases "a = x")
    case True
    have "\<forall>y \<in> set xs. f y \<noteq> f x" using Cons.prems True by (auto simp: image_iff)
    then have "filter (\<lambda>y. f y = f x) xs = []" by (simp add: filter_empty_conv)
    then show ?thesis using True by simp
  next
    case False
    have mem: "x \<in> set xs" using Cons.prems False by simp
    moreover have "f a \<noteq> f x" using Cons.prems mem by (auto simp: image_iff)
    ultimately show ?thesis using Cons by simp
  qed
qed simp

lemma find_row_key:
  assumes "distinct (map f xs)" "x \<in> set xs"
  shows "find_row (\<lambda>y. f y = f x) xs = Some x"
  using filter_key_single [OF assms] by (simp add: find_row_def)

lemma key_inj: "distinct (map f xs) \<Longrightarrow> x \<in> set xs \<Longrightarrow> y \<in> set xs \<Longrightarrow> f x = f y \<Longrightarrow> x = y"
  by (auto simp: distinct_map inj_on_def)

text \<open>An update of the rows that satisfy a condition.\<close>

definition update_rows :: "('a \<Rightarrow> bool) \<Rightarrow> ('a \<Rightarrow> 'a) \<Rightarrow> 'a list \<Rightarrow> 'a list" where
  "update_rows P f xs = map (\<lambda>x. if P x then f x else x) xs"

lemma update_rows_set:
  "y \<in> set (update_rows P f xs) \<longleftrightarrow> (\<exists>x \<in> set xs. y = (if P x then f x else x))"
  by (auto simp: update_rows_def)

lemma length_update_rows [simp]: "length (update_rows P f xs) = length xs"
  by (simp add: update_rows_def)

lemma map_update_rows_same:
  "(\<And>x. g (f x) = g x) \<Longrightarrow> map g (update_rows P f xs) = map g xs"
  by (simp add: update_rows_def)

lemma set_update_rows_same:
  "(\<And>x. g (f x) = g x) \<Longrightarrow> g ` set (update_rows P f xs) = g ` set xs"
  by (metis list.set_map map_update_rows_same)

text \<open>Number of rows with a property.\<close>

definition count_rows :: "('a \<Rightarrow> bool) \<Rightarrow> 'a list \<Rightarrow> nat" where
  "count_rows P xs = length (filter P xs)"

lemma count_rows_Nil [simp]: "count_rows P [] = 0"
  by (simp add: count_rows_def)

lemma count_rows_Cons [simp]:
  "count_rows P (x # xs) = (if P x then Suc (count_rows P xs) else count_rows P xs)"
  by (simp add: count_rows_def)

lemma count_rows_append [simp]: "count_rows P (xs @ ys) = count_rows P xs + count_rows P ys"
  by (simp add: count_rows_def)

lemma count_rows_filter: "count_rows P (filter Q xs) = count_rows (\<lambda>x. P x \<and> Q x) xs"
  by (simp add: count_rows_def conj_commute)

lemma count_rows_cong: "(\<And>x. x \<in> set xs \<Longrightarrow> P x = Q x) \<Longrightarrow> count_rows P xs = count_rows Q xs"
  unfolding count_rows_def by (metis filter_cong)

lemma count_rows_split: "count_rows P xs = count_rows (\<lambda>x. P x \<and> Q x) xs + count_rows (\<lambda>x. P x \<and> \<not> Q x) xs"
  by (induction xs) auto

lemma count_rows_le: "count_rows P xs \<le> length xs"
  by (simp add: count_rows_def)

lemma count_rows_mono: "(\<And>x. x \<in> set xs \<Longrightarrow> P x \<Longrightarrow> Q x) \<Longrightarrow> count_rows P xs \<le> count_rows Q xs"
  by (induction xs) auto

lemma count_rows_0: "count_rows P xs = 0 \<longleftrightarrow> (\<forall>x \<in> set xs. \<not> P x)"
  by (simp add: count_rows_def filter_empty_conv)

text \<open>A unique key occurs once or not at all.\<close>

lemma count_rows_key:
  assumes "distinct (map f xs)"
  shows "count_rows (\<lambda>x. f x = k) xs = (if k \<in> f ` set xs then 1 else 0)"
  using assms by (induction xs) (auto simp: image_iff count_rows_0)

end
