(* ===== verification/Errors.thy ===== *)
theory Errors
  imports Prelude
begin

text \<open>
  The error values of the program and how they become responses:
  \<^verbatim>\<open>shared/errors.go\<close> (codes, sentinels, the mapping tables,
  \<^verbatim>\<open>APIError\<close>), the classification part of \<^verbatim>\<open>shared/response.go\<close>,
  the central handler's mapping in \<^verbatim>\<open>api-gateway/error_handler.go\<close> and
  the translation of validator failures in
  \<^verbatim>\<open>api-gateway/request_validator.go\<close>.

  A Go \<^verbatim>\<open>error\<close> is a value of \<^verbatim>\<open>goerr\<close>: a package-level
  \<^verbatim>\<open>errors.New\<close> value, a \<^verbatim>\<open>fmt.Errorf("...%w...", err)\<close> wrapper with
  its rendered text, an \<^verbatim>\<open>*APIError\<close>, an \<^verbatim>\<open>*echo.HTTPError\<close> (its code,
  its message when that is a string, its internal error and its text) or any
  other error, of which only the text is known.
\<close>

section \<open>Codes and sentinels\<close>

type_synonym ErrorCode = string

definition CodeValidationError :: ErrorCode where "CodeValidationError = ''VALIDATION_ERROR''"
definition CodeUnauthorized :: ErrorCode where "CodeUnauthorized = ''UNAUTHORIZED''"
definition CodeForbidden :: ErrorCode where "CodeForbidden = ''FORBIDDEN''"
definition CodeNotFound :: ErrorCode where "CodeNotFound = ''NOT_FOUND''"
definition CodeVideoStatusConflict :: ErrorCode where
  "CodeVideoStatusConflict = ''VIDEO_STATUS_CONFLICT''"
definition CodeVideoNotReady :: ErrorCode where "CodeVideoNotReady = ''VIDEO_NOT_READY''"
definition CodeUploadMissing :: ErrorCode where "CodeUploadMissing = ''UPLOAD_MISSING''"
definition CodeUploadSizeInvalid :: ErrorCode where
  "CodeUploadSizeInvalid = ''UPLOAD_SIZE_INVALID''"
definition CodeSelfFollowNotAllowed :: ErrorCode where
  "CodeSelfFollowNotAllowed = ''SELF_FOLLOW_NOT_ALLOWED''"
definition CodeWebhookInvalidSignature :: ErrorCode where
  "CodeWebhookInvalidSignature = ''WEBHOOK_INVALID_SIGNATURE''"
definition CodeWebhookEventUnsupported :: ErrorCode where
  "CodeWebhookEventUnsupported = ''WEBHOOK_EVENT_UNSUPPORTED''"
definition CodeInternalError :: ErrorCode where "CodeInternalError = ''INTERNAL_ERROR''"
definition CodeRateLimited :: ErrorCode where "CodeRateLimited = ''RATE_LIMITED''"

lemmas code_defs =
  CodeValidationError_def CodeUnauthorized_def CodeForbidden_def CodeNotFound_def
  CodeVideoStatusConflict_def CodeVideoNotReady_def CodeUploadMissing_def
  CodeUploadSizeInvalid_def CodeSelfFollowNotAllowed_def CodeWebhookInvalidSignature_def
  CodeWebhookEventUnsupported_def CodeInternalError_def CodeRateLimited_def

definition knownErrorCodes :: "ErrorCode list" where
  "knownErrorCodes =
     [CodeValidationError, CodeUnauthorized, CodeForbidden, CodeNotFound,
      CodeVideoStatusConflict, CodeVideoNotReady, CodeUploadMissing, CodeUploadSizeInvalid,
      CodeSelfFollowNotAllowed, CodeWebhookInvalidSignature, CodeWebhookEventUnsupported,
      CodeRateLimited, CodeInternalError]"

text \<open>
  The package-level error values: the thirteen of \<^verbatim>\<open>shared/errors.go\<close>, the
  ones of the cursor, the media token and the media probe, the two private ones of
  the account and webhook handlers, \<^verbatim>\<open>sql.ErrNoRows\<close> and \<^verbatim>\<open>context.Canceled\<close>.
\<close>

datatype sentinel =
    ErrValidation | ErrUnauthorized | ErrForbidden | ErrNotFound
  | ErrVideoStatusConflict | ErrVideoNotReady | ErrUploadMissing | ErrUploadSizeInvalid
  | ErrSelfFollow | ErrWebhookSignature | ErrWebhookEvent | ErrInternal | ErrRateLimited
  | ErrInvalidCursor | ErrMediaTokenInvalid | ErrInvalidMedia
  | ErrNoLocalUser | ErrUserNotFound | ErrNoRows | ErrCanceled

record FieldError =
  fe_Field :: string
  fe_Message :: string

datatype goerr =
    Sentinel sentinel
  | Wrapped string goerr
  | APIErr ErrorCode string "FieldError list" "goerr option" int
  | EchoHTTP int "string option" "goerr option" string
  | Opaque string

primrec sentinel_text :: "sentinel \<Rightarrow> string" where
  "sentinel_text ErrValidation = ''validation error''"
| "sentinel_text ErrUnauthorized = ''unauthorized''"
| "sentinel_text ErrForbidden = ''forbidden''"
| "sentinel_text ErrNotFound = ''not found''"
| "sentinel_text ErrVideoStatusConflict = ''video status conflict''"
| "sentinel_text ErrVideoNotReady = ''video not ready''"
| "sentinel_text ErrUploadMissing = ''upload missing''"
| "sentinel_text ErrUploadSizeInvalid = ''upload size invalid''"
| "sentinel_text ErrSelfFollow = ''self follow not allowed''"
| "sentinel_text ErrWebhookSignature = ''webhook invalid signature''"
| "sentinel_text ErrWebhookEvent = ''webhook event unsupported''"
| "sentinel_text ErrInternal = ''internal error''"
| "sentinel_text ErrRateLimited = ''rate limited''"
| "sentinel_text ErrInvalidCursor = ''invalid cursor''"
| "sentinel_text ErrMediaTokenInvalid = ''media token invalid''"
| "sentinel_text ErrInvalidMedia = ''invalid media file''"
| "sentinel_text ErrNoLocalUser = ''no local user row''"
| "sentinel_text ErrUserNotFound = ''local user not found''"
| "sentinel_text ErrNoRows = ''sql: no rows in result set''"
| "sentinel_text ErrCanceled = ''context canceled''"

section \<open>Building, rendering and unwrapping errors\<close>

definition NewAPIError :: "ErrorCode \<Rightarrow> string \<Rightarrow> goerr" where
  "NewAPIError code message = APIErr code message [] None 0"

text \<open>The chaining helpers are methods of \<^verbatim>\<open>*APIError\<close>; on another error they do not apply.\<close>

fun WithCause :: "goerr \<Rightarrow> goerr \<Rightarrow> goerr" where
  "WithCause (APIErr c m d _ s) cause = APIErr c m d (Some cause) s"
| "WithCause e _ = e"

fun WithDetails :: "goerr \<Rightarrow> FieldError list \<Rightarrow> goerr" where
  "WithDetails (APIErr c m d cause s) details = APIErr c m (d @ details) cause s"
| "WithDetails e _ = e"

fun WithStatus :: "goerr \<Rightarrow> int \<Rightarrow> goerr" where
  "WithStatus (APIErr c m d cause _) status = APIErr c m d cause status"
| "WithStatus e _ = e"

fun Error :: "goerr \<Rightarrow> string" where
  "Error (Sentinel s) = sentinel_text s"
| "Error (Wrapped m _) = m"
| "Error (APIErr c m _ (Some e) _) = c @ '': '' @ m @ '': '' @ Error e"
| "Error (APIErr c m _ None _) = c @ '': '' @ m"
| "Error (EchoHTTP _ _ _ t) = t"
| "Error (Opaque m) = m"

definition Wrap :: "sentinel \<Rightarrow> string \<Rightarrow> goerr" where
  "Wrap s msg = Wrapped (msg @ '': '' @ sentinel_text s) (Sentinel s)"

text \<open>\<^verbatim>\<open>fmt.Errorf("%w: ...", sentinel)\<close> and \<^verbatim>\<open>fmt.Errorf("...: %w", err)\<close>.\<close>

definition Errorf_head :: "sentinel \<Rightarrow> string \<Rightarrow> goerr" where
  "Errorf_head s msg = Wrapped (sentinel_text s @ '': '' @ msg) (Sentinel s)"

definition Errorf_tail :: "string \<Rightarrow> goerr \<Rightarrow> goerr" where
  "Errorf_tail msg e = Wrapped (msg @ '': '' @ Error e) e"

text \<open>\<^verbatim>\<open>errors.Is\<close> for a sentinel and the two \<^verbatim>\<open>errors.As\<close> targets of the code.\<close>

fun errors_Is :: "goerr \<Rightarrow> sentinel \<Rightarrow> bool" where
  "errors_Is (Sentinel s) t = (s = t)"
| "errors_Is (Wrapped _ e) t = errors_Is e t"
| "errors_Is (APIErr _ _ _ (Some e) _) t = errors_Is e t"
| "errors_Is (APIErr _ _ _ None _) t = False"
| "errors_Is (EchoHTTP _ _ (Some e) _) t = errors_Is e t"
| "errors_Is (EchoHTTP _ _ None _) t = False"
| "errors_Is (Opaque _) t = False"

fun As_APIError :: "goerr \<Rightarrow> (ErrorCode \<times> string \<times> FieldError list \<times> int) option" where
  "As_APIError (APIErr c m d _ s) = Some (c, m, d, s)"
| "As_APIError (Wrapped _ e) = As_APIError e"
| "As_APIError (EchoHTTP _ _ (Some e) _) = As_APIError e"
| "As_APIError (EchoHTTP _ _ None _) = None"
| "As_APIError (Sentinel _) = None"
| "As_APIError (Opaque _) = None"

fun As_HTTPError :: "goerr \<Rightarrow> (int \<times> string option) option" where
  "As_HTTPError (EchoHTTP c m _ _) = Some (c, m)"
| "As_HTTPError (Wrapped _ e) = As_HTTPError e"
| "As_HTTPError (APIErr _ _ _ (Some e) _) = As_HTTPError e"
| "As_HTTPError (APIErr _ _ _ None _) = None"
| "As_HTTPError (Sentinel _) = None"
| "As_HTTPError (Opaque _) = None"

section \<open>The mapping tables\<close>

definition httpStatusFor :: "goerr \<Rightarrow> int" where
  "httpStatusFor err =
    (if errors_Is err ErrValidation then 400
     else if errors_Is err ErrUnauthorized then 401
     else if errors_Is err ErrForbidden then 403
     else if errors_Is err ErrNotFound then 404
     else if errors_Is err ErrVideoStatusConflict then 409
     else if errors_Is err ErrVideoNotReady then 409
     else if errors_Is err ErrUploadMissing then 409
     else if errors_Is err ErrUploadSizeInvalid then 400
     else if errors_Is err ErrSelfFollow then 400
     else if errors_Is err ErrWebhookSignature then 401
     else if errors_Is err ErrWebhookEvent then 400
     else if errors_Is err ErrRateLimited then 429
     else if errors_Is err ErrInternal then 500
     else 500)"

definition httpStatusForCode :: "ErrorCode \<Rightarrow> int" where
  "httpStatusForCode code =
    (if code \<in> {CodeValidationError, CodeUploadSizeInvalid, CodeSelfFollowNotAllowed,
                 CodeWebhookEventUnsupported} then 400
     else if code \<in> {CodeUnauthorized, CodeWebhookInvalidSignature} then 401
     else if code = CodeForbidden then 403
     else if code = CodeNotFound then 404
     else if code \<in> {CodeVideoStatusConflict, CodeVideoNotReady, CodeUploadMissing} then 409
     else if code = CodeRateLimited then 429
     else 500)"

definition codeFor :: "goerr \<Rightarrow> ErrorCode" where
  "codeFor err =
    (if errors_Is err ErrValidation then CodeValidationError
     else if errors_Is err ErrUnauthorized then CodeUnauthorized
     else if errors_Is err ErrForbidden then CodeForbidden
     else if errors_Is err ErrNotFound then CodeNotFound
     else if errors_Is err ErrVideoStatusConflict then CodeVideoStatusConflict
     else if errors_Is err ErrVideoNotReady then CodeVideoNotReady
     else if errors_Is err ErrUploadMissing then CodeUploadMissing
     else if errors_Is err ErrUploadSizeInvalid then CodeUploadSizeInvalid
     else if errors_Is err ErrSelfFollow then CodeSelfFollowNotAllowed
     else if errors_Is err ErrWebhookSignature then CodeWebhookInvalidSignature
     else if errors_Is err ErrWebhookEvent then CodeWebhookEventUnsupported
     else if errors_Is err ErrRateLimited then CodeRateLimited
     else CodeInternalError)"

definition ClassifyError :: "goerr option \<Rightarrow> int \<times> ErrorCode \<times> string \<times> FieldError list" where
  "ClassifyError e =
    (case e of
       None \<Rightarrow> (500, CodeInternalError, ''internal server error'', [])
     | Some err \<Rightarrow>
        (case As_APIError err of
           Some (acode, amsg, adetails, astatus) \<Rightarrow>
             let code = (if acode = [] then codeFor err else acode);
                 status = (if astatus = 0 then httpStatusForCode code else astatus);
                 msg = (if amsg = [] then ''request failed'' else amsg)
             in (status, code, msg, adetails)
         | None \<Rightarrow> (httpStatusFor err, codeFor err, Error err, [])))"

section \<open>The central error handler\<close>

text \<open>\<^verbatim>\<open>http.StatusText\<close> of the standard library.\<close>

definition StatusText :: "int \<Rightarrow> string" where
  "StatusText c = (case map_of
     [(400, ''Bad Request''), (401, ''Unauthorized''), (402, ''Payment Required''),
      (403, ''Forbidden''), (404, ''Not Found''), (405, ''Method Not Allowed''),
      (406, ''Not Acceptable''), (407, ''Proxy Authentication Required''),
      (408, ''Request Timeout''), (409, ''Conflict''), (410, ''Gone''),
      (411, ''Length Required''), (412, ''Precondition Failed''),
      (413, ''Request Entity Too Large''), (414, ''Request URI Too Long''),
      (415, ''Unsupported Media Type''), (416, ''Requested Range Not Satisfiable''),
      (417, ''Expectation Failed''), (422, ''Unprocessable Entity''),
      (426, ''Upgrade Required''), (428, ''Precondition Required''),
      (429, ''Too Many Requests''), (431, ''Request Header Fields Too Large''),
      (500, ''Internal Server Error''), (501, ''Not Implemented''), (502, ''Bad Gateway''),
      (503, ''Service Unavailable''), (504, ''Gateway Timeout'')] c of
     Some t \<Rightarrow> t | None \<Rightarrow> [])"

definition mapEchoHTTPError ::
  "int \<Rightarrow> string option \<Rightarrow> int \<times> ErrorCode \<times> string \<times> FieldError list"
where
  "mapEchoHTTPError hcode hmsg =
    (let msg = (case hmsg of Some s \<Rightarrow> (if s \<noteq> [] then s else StatusText hcode)
                           | None \<Rightarrow> StatusText hcode)
     in if hcode = 404 then (hcode, CodeNotFound, ''resource not found'', [])
        else if hcode = 405 then (hcode, CodeValidationError, ''method not allowed'', [])
        else if hcode = 400 then (hcode, CodeValidationError, msg, [])
        else if hcode = 408 \<or> hcode = 503 then (hcode, CodeInternalError, msg, [])
        else (hcode, CodeInternalError, msg, []))"

definition mapError :: "goerr \<Rightarrow> int \<times> ErrorCode \<times> string \<times> FieldError list" where
  "mapError err =
    (case As_HTTPError err of
       Some (c, m) \<Rightarrow> mapEchoHTTPError c m
     | None \<Rightarrow> ClassifyError (Some err))"

section \<open>Validator failures\<close>

text \<open>
  One failed rule as the validator library reports it: the namespace of the
  field, the tag, its parameter and the library's own text.
\<close>

record violation =
  vi_Namespace :: string
  vi_Tag :: string
  vi_Param :: string
  vi_Error :: string

definition slice :: "string \<Rightarrow> nat \<Rightarrow> nat \<Rightarrow> string" where
  "slice s i n = take n (drop i s)"

text \<open>The loop of \<^verbatim>\<open>lastIndex\<close>: \<^verbatim>\<open>k\<close> positions are left to try.\<close>

fun lastIndex_from :: "string \<Rightarrow> string \<Rightarrow> nat \<Rightarrow> int" where
  "lastIndex_from s sub 0 = -1"
| "lastIndex_from s sub (Suc i) =
     (if slice s i (length sub) = sub then int i else lastIndex_from s sub i)"

definition lastIndex :: "string \<Rightarrow> string \<Rightarrow> int" where
  "lastIndex s sub =
     (if length s < length sub then -1
      else lastIndex_from s sub (Suc (length s - length sub)))"

definition fieldName :: "violation \<Rightarrow> string" where
  "fieldName fe =
    (let ns = vi_Namespace fe; i = lastIndex ns ''.''
     in if i \<ge> 0 then drop (nat i + 1) ns else ns)"

definition fieldMessage :: "violation \<Rightarrow> string" where
  "fieldMessage fe =
    (let name = fieldName fe; tag = vi_Tag fe
     in if tag = ''required'' then name @ '' is required''
        else if tag = ''min'' then name @ '' must be at least '' @ vi_Param fe
        else if tag = ''max'' then name @ '' must be at most '' @ vi_Param fe
        else if tag = ''oneof'' then name @ '' must be one of: '' @ vi_Param fe
        else if tag = ''uuid'' then name @ '' must be a valid UUID''
        else vi_Error fe)"

text \<open>
  The error of \<^verbatim>\<open>validator.Struct\<close>: a list of failed rules, or another
  error of the library; \<^verbatim>\<open>None\<close> is success.
\<close>

datatype validator_error = ValidationErrors "violation list" | OtherValidatorError goerr

definition translateValidationError :: "validator_error \<Rightarrow> goerr" where
  "translateValidationError v =
    (case v of
       ValidationErrors ves \<Rightarrow>
         foldl (\<lambda>e fe. WithDetails e [\<lparr>fe_Field = fieldName fe, fe_Message = fieldMessage fe\<rparr>])
           (NewAPIError CodeValidationError ''request body failed validation'') ves
     | OtherValidatorError err \<Rightarrow>
         WithCause (NewAPIError CodeInternalError ''validator failed'') err)"

definition Validate :: "validator_error option \<Rightarrow> goerr + unit" where
  "Validate v = (case v of None \<Rightarrow> Inr () | Some err \<Rightarrow> Inl (translateValidationError err))"

end
