(* ===== verification/World.thy ===== *)
theory World
  imports Errors
begin

text \<open>
  The state the program runs on.

  \<^item> The rows are the structs of \<^verbatim>\<open>shared/db/models.go\<close>; the tables and
    their constraints are those of \<^verbatim>\<open>migrations/001_init.sql\<close>.  A table is
    the list of its rows in the order of insertion.
  \<^item> \<^verbatim>\<open>o_size\<close> is the Content-Length the store reports for an object (it may
    leave it out); \<^verbatim>\<open>w_files\<close> are the worker's local files, path and bytes;
    \<^verbatim>\<open>w_limits\<close> are the two in-memory rate limiter stores of the gateway.
  \<^item> The queue holds the tasks of \<^verbatim>\<open>shared/models.go\<close> with the options they
    were enqueued with; the bucket holds the R2 objects (key, size and bytes).
  \<^item> \<^verbatim>\<open>w_faults\<close> is the schedule of the outside world: every call that leaves
    the process (a statement, a commit, an enqueue, an R2 request, writing a
    response, a file operation, a subprocess) takes one entry, and an entry
    \<^verbatim>\<open>Some m\<close> makes that call fail with an error of text \<^verbatim>\<open>m\<close> and
    without effect.  An empty schedule means no failure.  Results that hold for every schedule hold for every pattern of
    failures.
  \<^item> \<^verbatim>\<open>w_out\<close> lists the responses written for the request, oldest first; it
    is a list so that a handler that writes two bodies can be told from one that
    writes one.

  Times are nanoseconds since 1970-01-01T00:00:00Z; the clock does not move inside
  one handler.  Strings are byte strings (UTF-8), as in Go.
\<close>

section \<open>Rows\<close>

type_synonym uuid = "128 word"
type_synonym time = int

abbreviation uuid_Nil :: uuid where "uuid_Nil \<equiv> 0"

datatype json =
    JNull | JBool bool | JInt int | JStr string | JUuid uuid
  | JArr "json list" | JObj "(string \<times> json) list"

datatype video_status = PENDING_UPLOAD | PROCESSING | READY | FAILED | DELETED

primrec status_text :: "video_status \<Rightarrow> string" where
  "status_text PENDING_UPLOAD = ''PENDING_UPLOAD''"
| "status_text PROCESSING = ''PROCESSING''"
| "status_text READY = ''READY''"
| "status_text FAILED = ''FAILED''"
| "status_text DELETED = ''DELETED''"

record User =
  u_ID :: uuid
  u_ZitadelID :: string
  u_Username :: string
  u_DisplayName :: "string option"
  u_Bio :: "string option"
  u_AvatarUrl :: "string option"
  u_IsPrivate :: bool
  u_IsActive :: bool
  u_DeletedAt :: "time option"
  u_CreatedAt :: time

record Video =
  v_ID :: uuid
  v_UserID :: uuid
  v_Title :: "string option"
  v_Description :: "string option"
  v_R2Key :: string
  v_HlsPrefix :: "string option"
  v_ThumbnailKey :: "string option"
  v_DurationSeconds :: "int option"
  v_Status :: video_status
  v_RetryCount :: int
  v_LikesCount :: int
  v_ViewsCount :: int
  v_CommentsCount :: int
  v_CreatedAt :: time
  v_DeletedAt :: "time option"

record Follow =
  f_FollowerID :: uuid
  f_FolloweeID :: uuid
  f_CreatedAt :: time

record Like =
  l_UserID :: uuid
  l_VideoID :: uuid
  l_CreatedAt :: time

record Comment =
  c_ID :: uuid
  c_VideoID :: uuid
  c_UserID :: uuid
  c_ParentID :: "uuid option"
  c_Content :: string
  c_CreatedAt :: time

record Notification =
  n_ID :: uuid
  n_UserID :: uuid
  n_ActorID :: uuid
  n_Type :: string
  n_Payload :: json
  n_IsRead :: bool
  n_CreatedAt :: time

section \<open>Tables and constraints\<close>

record db =
  users :: "User list"
  videos :: "Video list"
  follows :: "Follow list"
  likes :: "Like list"
  comments :: "Comment list"
  notifications :: "Notification list"

definition int32_ok :: "int \<Rightarrow> bool" where
  "int32_ok i \<longleftrightarrow> - 2147483648 \<le> i \<and> i \<le> 2147483647"

text \<open>Characters of a UTF-8 string: the bytes that do not continue a character.\<close>

definition char_length :: "string \<Rightarrow> nat" where
  "char_length s = length (filter (\<lambda>c. of_char c < (128::nat) \<or> 192 \<le> (of_char c :: nat)) s)"

definition user_row_ok :: "User \<Rightarrow> bool" where
  "user_row_ok u \<longleftrightarrow> u_DeletedAt u = None \<or> \<not> u_IsActive u"

definition video_row_ok :: "Video \<Rightarrow> bool" where
  "video_row_ok v \<longleftrightarrow>
     0 \<le> v_RetryCount v \<and> v_RetryCount v \<le> 3 \<and>
     0 \<le> v_LikesCount v \<and> 0 \<le> v_ViewsCount v \<and> 0 \<le> v_CommentsCount v \<and>
     int32_ok (v_LikesCount v) \<and> int32_ok (v_ViewsCount v) \<and> int32_ok (v_CommentsCount v) \<and>
     (case v_DurationSeconds v of None \<Rightarrow> True | Some s \<Rightarrow> 1 \<le> s \<and> s \<le> 180) \<and>
     (if v_Status v = DELETED then v_DeletedAt v \<noteq> None else v_DeletedAt v = None)"

definition comment_row_ok :: "Comment \<Rightarrow> bool" where
  "comment_row_ok c \<longleftrightarrow> 1 \<le> char_length (c_Content c) \<and> char_length (c_Content c) \<le> 1000"

definition notification_row_ok :: "Notification \<Rightarrow> bool" where
  "notification_row_ok n \<longleftrightarrow> n_Type n \<in> {''follow'', ''like'', ''comment''}"

definition users_ok :: "db \<Rightarrow> bool" where
  "users_ok d \<longleftrightarrow>
     distinct (map u_ID (users d)) \<and> distinct (map u_ZitadelID (users d)) \<and>
     distinct (map u_Username (users d)) \<and> list_all user_row_ok (users d)"

definition videos_ok :: "db \<Rightarrow> bool" where
  "videos_ok d \<longleftrightarrow>
     distinct (map v_ID (videos d)) \<and> distinct (map v_R2Key (videos d)) \<and>
     distinct (map v_UserID (filter (\<lambda>v. v_Status v = PENDING_UPLOAD) (videos d))) \<and>
     list_all (\<lambda>v. video_row_ok v \<and> v_UserID v \<in> u_ID ` set (users d)) (videos d)"

definition follows_ok :: "db \<Rightarrow> bool" where
  "follows_ok d \<longleftrightarrow>
     distinct (map (\<lambda>f. (f_FollowerID f, f_FolloweeID f)) (follows d)) \<and>
     list_all (\<lambda>f. f_FollowerID f \<noteq> f_FolloweeID f \<and> f_FollowerID f \<in> u_ID ` set (users d) \<and>
                   f_FolloweeID f \<in> u_ID ` set (users d)) (follows d)"

definition likes_ok :: "db \<Rightarrow> bool" where
  "likes_ok d \<longleftrightarrow>
     distinct (map (\<lambda>l. (l_UserID l, l_VideoID l)) (likes d)) \<and>
     list_all (\<lambda>l. l_UserID l \<in> u_ID ` set (users d) \<and> l_VideoID l \<in> v_ID ` set (videos d))
       (likes d)"

definition comments_ok :: "db \<Rightarrow> bool" where
  "comments_ok d \<longleftrightarrow>
     distinct (map c_ID (comments d)) \<and>
     list_all (\<lambda>c. comment_row_ok c \<and> c_UserID c \<in> u_ID ` set (users d) \<and>
                   c_VideoID c \<in> v_ID ` set (videos d) \<and>
                   (case c_ParentID c of None \<Rightarrow> True
                    | Some p \<Rightarrow> (p, c_VideoID c) \<in> (\<lambda>c. (c_ID c, c_VideoID c)) ` set (comments d)))
       (comments d)"

definition notifications_ok :: "db \<Rightarrow> bool" where
  "notifications_ok d \<longleftrightarrow>
     distinct (map n_ID (notifications d)) \<and>
     list_all (\<lambda>n. notification_row_ok n \<and> n_UserID n \<in> u_ID ` set (users d) \<and>
                   n_ActorID n \<in> u_ID ` set (users d)) (notifications d)"

definition constraints :: "db \<Rightarrow> bool" where
  "constraints d \<longleftrightarrow>
     users_ok d \<and> videos_ok d \<and> follows_ok d \<and> likes_ok d \<and> comments_ok d \<and> notifications_ok d"

section \<open>Tasks, objects, responses\<close>

datatype task =
    TranscodeVideo string
  | CleanupObjects "string list"
  | CleanupVideo string
  | ReconcileTick int bool

primrec task_type :: "task \<Rightarrow> string" where
  "task_type (TranscodeVideo _) = ''transcode:video''"
| "task_type (CleanupObjects _) = ''cleanup:objects''"
| "task_type (CleanupVideo _) = ''cleanup:video''"
| "task_type (ReconcileTick _ _) = ''reconcile:tick''"

record queued =
  q_task :: task
  q_delay :: int
  q_max_retry :: "int option"

record object =
  o_key :: string
  o_size :: "int option"
  o_body :: string

text \<open>
  \<^verbatim>\<open>BodyData d\<close> is the envelope with one field \<^verbatim>\<open>data\<close>, \<^verbatim>\<open>BodyList\<close>
  the one of a list with its cursor, \<^verbatim>\<open>BodyJSON\<close> a body without envelope.
\<close>

datatype body =
    BodyData json
  | BodyJSON json
  | BodyList "json list" "string option"
  | BodyError ErrorCode string "FieldError list"
  | BodyBytes string string
  | NoBody

record response =
  r_status :: int
  r_body :: body

text \<open>
  An entry of a rate limiter store.  The limiter itself (\<^verbatim>\<open>golang.org/x/time/rate\<close>)
  is a deterministic function of the times it has been asked, which stand for it.
\<close>

record rateLimiterEntry =
  rl_asked :: "time list"
  rl_lastSeen :: time

datatype limiter_id = WebhookLimiter | AuthLimiter

record world =
  w_db :: db
  w_queue :: "queued list"
  w_objects :: "object list"
  w_files :: "(string \<times> string) list"
  w_limits :: "limiter_id \<Rightarrow> string \<Rightarrow> rateLimiterEntry option"
  w_clock :: time
  w_faults :: "string option list"
  w_uuids :: "nat \<Rightarrow> uuid"
  w_next :: nat
  w_out :: "response list"

type_synonym 'a io = "(world, goerr, 'a) prog"

section \<open>Configuration and third-party functions\<close>

text \<open>
  What the handlers are constructed with: the configuration values, which
  dependencies are not nil, and the functions of packages outside the repository:
  the textual form of a UUID, the presigned URLs of the S3 client and the shape of
  its errors, HMAC-SHA256, the token verifier and the webhook signature check of the
  identity provider, and the rate limiter's decision.
\<close>

datatype dependency =
  DepQueries | DepRun | DepR2 | DepQueue | DepConfig | DepDelete | DepAsynq | DepLogger

text \<open>
  An error of the S3 client: one with an API error code (\<^verbatim>\<open>smithy.APIError\<close>) or
  any other, with its text.
\<close>

datatype sdk_error = SdkAPIError string string | SdkError string

record env =
  env_uuid_String :: "uuid \<Rightarrow> string"
  env_uuid_Parse :: "string \<Rightarrow> uuid option"
  env_presign_put :: "string \<Rightarrow> string \<Rightarrow> int \<Rightarrow> time \<Rightarrow> string"
  env_presign_get :: "string \<Rightarrow> int \<Rightarrow> time \<Rightarrow> string"
  env_hmac_sha256 :: "string \<Rightarrow> string \<Rightarrow> string"
  env_sdk_error :: "string \<Rightarrow> sdk_error"
  env_CheckToken :: "string \<Rightarrow> goerr + string"
  env_ValidateRequestPayload :: "string \<Rightarrow> (string \<Rightarrow> string) \<Rightarrow> string \<Rightarrow> goerr option"
  env_AllowN :: "limiter_id \<Rightarrow> time list \<Rightarrow> time \<Rightarrow> bool"
  env_wired :: "dependency \<Rightarrow> bool"
  env_APIBaseURL :: string
  env_MediaTokenSecret :: string
  env_MediaTokenTTL :: int
  env_PresignUploadExpiry :: int
  env_WebhookSigningKey :: string
  env_ReconcileBatch :: int

text \<open>
  A request as a handler sees it: the user the middleware stored in the context,
  the path and query parameters, the headers (empty if absent) and the address.  Decoded bodies are separate arguments of the
  handlers that read one.
\<close>

record request =
  req_user :: "User option"
  req_param :: "string \<Rightarrow> string"
  req_query :: "string \<Rightarrow> string"
  req_header :: "string \<Rightarrow> string"
  req_RealIP :: string

text \<open>
  What \<^verbatim>\<open>c.Bind\<close> and the validator make of a body: it does not decode (with
  the error of the decoder), or it decodes to a value, on which the struct tags
  report a failure or none.
\<close>

datatype 'b bound = BindError goerr | Bound 'b "validator_error option"

section \<open>Calls that leave the process\<close>

definition fault :: "unit io" where
  "fault = (\<lambda>w. case w_faults w of
       [] \<Rightarrow> (Inr (), w)
     | None # fs \<Rightarrow> (Inr (), w\<lparr>w_faults := fs\<rparr>)
     | Some m # fs \<Rightarrow> (Inl (Opaque m), w\<lparr>w_faults := fs\<rparr>))"

text \<open>A statement that reads the tables: a value or an error such as \<^verbatim>\<open>sql.ErrNoRows\<close>.\<close>

definition query :: "(db \<Rightarrow> goerr + 'a) \<Rightarrow> 'a io" where
  "query f = bindM fault (\<lambda>_ w. (f (w_db w), w))"

text \<open>
  A statement that writes.  Postgres checks the constraints at the end of the
  statement and undoes it if one is violated.
\<close>

definition constraint_error :: goerr where
  "constraint_error = Opaque ''constraint violation''"

text \<open>\<^verbatim>\<open>NOW()\<close> has microsecond precision.\<close>

definition pg_now :: "world \<Rightarrow> time" where
  "pg_now w = (w_clock w div 1000) * 1000"

definition exec :: "(time \<Rightarrow> db \<Rightarrow> goerr + 'a \<times> db) \<Rightarrow> 'a io" where
  "exec f = bindM fault (\<lambda>_ w.
     case f (pg_now w) (w_db w) of
       Inl e \<Rightarrow> (Inl e, w)
     | Inr (x, d') \<Rightarrow>
         if constraints d' then (Inr x, w\<lparr>w_db := d'\<rparr>) else (Inl constraint_error, w))"

text \<open>\<^verbatim>\<open>gen_random_uuid()\<close> and \<^verbatim>\<open>uuid.New()\<close> draw from one supply.\<close>

definition new_uuid :: "uuid io" where
  "new_uuid = (\<lambda>w. (Inr (w_uuids w (w_next w)), w\<lparr>w_next := Suc (w_next w)\<rparr>))"

definition exec_insert :: "(uuid \<Rightarrow> time \<Rightarrow> db \<Rightarrow> goerr + 'a \<times> db) \<Rightarrow> 'a io" where
  "exec_insert f = bindM new_uuid (\<lambda>i. exec (f i))"

definition now_io :: "time io" where
  "now_io = (\<lambda>w. (Inr (w_clock w), w))"

section \<open>Responses\<close>

text \<open>
  \<^verbatim>\<open>c.JSON\<close>: the response is written; the returned error is that of the
  connection, nil in the normal case.
\<close>

definition write_response :: "int \<Rightarrow> body \<Rightarrow> unit io" where
  "write_response status b = (\<lambda>w.
     fault (w\<lparr>w_out := w_out w @ [\<lparr>r_status = status, r_body = b\<rparr>]\<rparr>))"

definition RespondOK :: "json \<Rightarrow> unit io" where
  "RespondOK d = write_response 200 (BodyData d)"

definition RespondCreated :: "json \<Rightarrow> unit io" where
  "RespondCreated d = write_response 201 (BodyData d)"

definition RespondList :: "json list \<Rightarrow> string option \<Rightarrow> unit io" where
  "RespondList items nextCursor = write_response 200 (BodyList items nextCursor)"

definition RespondNoContent :: "unit io" where
  "RespondNoContent = write_response 204 NoBody"

definition RespondError :: "goerr \<Rightarrow> unit io" where
  "RespondError err =
    (case ClassifyError (Some err) of
       (status, code, message, details) \<Rightarrow> write_response status (BodyError code message details))"

text \<open>
  The safety net Echo calls with the error a handler returned: nothing when a
  response has been written or the error is nil.
\<close>

definition HTTPErrorHandler :: "goerr option \<Rightarrow> unit io" where
  "HTTPErrorHandler e = (\<lambda>w.
     if w_out w \<noteq> [] then (Inr (), w)
     else case e of
       None \<Rightarrow> (Inr (), w)
     | Some err \<Rightarrow>
        (case mapError err of
           (status, code, message, details) \<Rightarrow>
             tryM (write_response status (BodyError code message details)) (\<lambda>_. ok ()) ok w))"

section \<open>Transactions\<close>

text \<open>
  \<^verbatim>\<open>sqlTxRunner.Run\<close>: an error of the body or of the commit leaves the
  tables as they were when the transaction began; everything else the body did
  (an enqueued task, a consumed UUID) stays.
\<close>

definition rollback_to :: "db \<Rightarrow> world \<Rightarrow> world" where
  "rollback_to d w = w\<lparr>w_db := d\<rparr>"

definition runTx :: "'a io \<Rightarrow> 'a io" where
  "runTx fn =
     tryM fault (\<lambda>_. throw (Wrap ErrInternal ''begin transaction''))
       (\<lambda>_ w0. case fn w0 of
          (Inl e, w) \<Rightarrow> (Inl e, rollback_to (w_db w0) w)
        | (Inr x, w) \<Rightarrow>
            (case fault w of
               (Inl _, w') \<Rightarrow> (Inl (Wrap ErrInternal ''commit transaction''), rollback_to (w_db w0) w')
             | (Inr _, w') \<Rightarrow> (Inr x, w')))"

end
