(* ===== verification/Sql.thy ===== *)
theory Sql
  imports World "HOL-Library.Product_Lexorder"
begin

text \<open>
  What the generated query layer (\<^verbatim>\<open>shared/db/*.sql.go\<close>) shares: one row or
  \<^verbatim>\<open>sql.ErrNoRows\<close>, the effect of a statement on a table, the cascades of
  \<^verbatim>\<open>ON DELETE CASCADE\<close>, and the keyset pages
  (\<^verbatim>\<open>WHERE (created_at, id) < cursor ORDER BY created_at DESC, id DESC LIMIT n\<close>)
  of the list queries.  The locale \<^verbatim>\<open>keyset\<close> proves once that walking such
  pages with the cursor of the last row visits every row exactly once, in order;
  each list endpoint interprets it with its own row type.
\<close>

section \<open>Rows and statements\<close>

definition one_row :: "'a option \<Rightarrow> goerr + 'a" where
  "one_row r = (case r of None \<Rightarrow> Inl (Sentinel ErrNoRows) | Some x \<Rightarrow> Inr x)"

definition update_videos :: "(Video \<Rightarrow> bool) \<Rightarrow> (time \<Rightarrow> Video \<Rightarrow> Video) \<Rightarrow> unit io" where
  "update_videos P f =
     exec (\<lambda>now d. Inr ((), d\<lparr>videos := update_rows P (f now) (videos d)\<rparr>))"

text \<open>\<^verbatim>\<open>UPDATE ... RETURNING *\<close> read as one row.\<close>

definition update_video_one :: "(Video \<Rightarrow> bool) \<Rightarrow> (time \<Rightarrow> Video \<Rightarrow> Video) \<Rightarrow> Video io" where
  "update_video_one P f =
     exec (\<lambda>now d. case find_row P (videos d) of
        None \<Rightarrow> Inl (Sentinel ErrNoRows)
      | Some v \<Rightarrow> Inr (f now v, d\<lparr>videos := update_rows P (f now) (videos d)\<rparr>))"

definition update_user_one :: "(User \<Rightarrow> bool) \<Rightarrow> (time \<Rightarrow> User \<Rightarrow> User) \<Rightarrow> User io" where
  "update_user_one P f =
     exec (\<lambda>now d. case find_row P (users d) of
        None \<Rightarrow> Inl (Sentinel ErrNoRows)
      | Some u \<Rightarrow> Inr (f now u, d\<lparr>users := update_rows P (f now) (users d)\<rparr>))"

section \<open>Cascades\<close>

text \<open>
  \<^verbatim>\<open>comments.parent_id\<close> references the table itself.  Deleting rows removes
  the rows that reference them, then the rows that reference those, until none
  is left.
\<close>

definition child_of :: "uuid list \<Rightarrow> Comment \<Rightarrow> bool" where
  "child_of ids c = (case c_ParentID c of None \<Rightarrow> False | Some p \<Rightarrow> p \<in> set ids)"

function cascade :: "uuid list \<Rightarrow> Comment list \<Rightarrow> Comment list" where
  "cascade ids cs =
     (case filter (child_of ids) cs of
        [] \<Rightarrow> cs
      | hit # hits \<Rightarrow> cascade (map c_ID (hit # hits)) (filter (\<lambda>c. \<not> child_of ids c) cs))"
  by pat_completeness auto
termination
proof (relation "measure (\<lambda>(_, cs). length cs)")
  fix ids :: "uuid list" and cs :: "Comment list" and hit hits
  assume hits: "filter (child_of ids) cs = hit # hits"
  have "length (filter (child_of ids) cs) + length (filter (\<lambda>c. \<not> child_of ids c) cs) = length cs"
    by (rule sum_length_filter_compl)
  then show "((map c_ID (hit # hits), filter (\<lambda>c. \<not> child_of ids c) cs), (ids, cs))
      \<in> measure (\<lambda>(_, cs). length cs)"
    using hits by simp
qed auto

declare cascade.simps [simp del]

definition delete_comments_where :: "(Comment \<Rightarrow> bool) \<Rightarrow> Comment list \<Rightarrow> Comment list" where
  "delete_comments_where P cs =
     cascade (map c_ID (filter P cs)) (filter (\<lambda>c. \<not> P c) cs)"

definition delete_comments :: "(Comment \<Rightarrow> bool) \<Rightarrow> db \<Rightarrow> db" where
  "delete_comments P d = d\<lparr>comments := delete_comments_where P (comments d)\<rparr>"

text \<open>Deleting videos takes their likes and comments with them.\<close>

definition delete_videos :: "(Video \<Rightarrow> bool) \<Rightarrow> db \<Rightarrow> db" where
  "delete_videos P d =
    (let gone = map v_ID (filter P (videos d))
     in d\<lparr>videos := filter (\<lambda>v. \<not> P v) (videos d),
          likes := filter (\<lambda>l. l_VideoID l \<notin> set gone) (likes d),
          comments := delete_comments_where (\<lambda>c. c_VideoID c \<in> set gone) (comments d)\<rparr>)"

section \<open>Keyset pages\<close>

type_synonym cursor = "(time \<times> uuid) option"

definition before :: "cursor \<Rightarrow> time \<times> uuid \<Rightarrow> bool" where
  "before cur k = (case cur of None \<Rightarrow> True | Some c \<Rightarrow> k < c)"

definition keyset_page :: "('r \<Rightarrow> time \<times> uuid) \<Rightarrow> cursor \<Rightarrow> nat \<Rightarrow> 'r list \<Rightarrow> 'r list" where
  "keyset_page key cur n rows =
     take n (rev (sort_key key (filter (\<lambda>r. before cur (key r)) rows)))"

text \<open>
  The client's walk: ask for a page, and for the next one with the key of the last
  row as long as the page was full.
\<close>

definition next_cursor :: "('r \<Rightarrow> time \<times> uuid) \<Rightarrow> nat \<Rightarrow> 'r list \<Rightarrow> cursor" where
  "next_cursor key n page =
     (if length page = n \<and> page \<noteq> [] then Some (key (last page)) else None)"

fun walk_pages :: "nat \<Rightarrow> ('r \<Rightarrow> time \<times> uuid) \<Rightarrow> cursor \<Rightarrow> nat \<Rightarrow> 'r list \<Rightarrow> 'r list" where
  "walk_pages 0 key cur n rows = []"
| "walk_pages (Suc fuel) key cur n rows =
     (let page = keyset_page key cur n rows
      in case next_cursor key n page of
           None \<Rightarrow> page
         | Some c \<Rightarrow> page @ walk_pages fuel key (Some c) n rows)"

lemma sort_key_filter: "sort_key k (filter P xs) = filter P (sort_key k xs)"
  by (simp add: filter_sort)

lemma take_filter_rev_split:
  fixes k :: "'r \<Rightarrow> 'k::linorder"
  assumes "sorted_wrt (\<lambda>x y. k x > k y) xs" "n > 0" "length xs \<ge> n"
  shows "filter (\<lambda>r. k r < k (last (take n xs))) xs = drop n xs"
proof -
  have ne: "take n xs \<noteq> []" using assms(2,3) by auto
  define a where "a = last (take n xs)"
  have split: "xs = take n xs @ drop n xs" by simp
  have sw: "sorted_wrt (\<lambda>x y. k x > k y) (take n xs @ drop n xs)" using assms(1) by simp
  have l: "\<forall>x \<in> set (take n xs). \<not> k x < k a"
  proof
    fix x assume x: "x \<in> set (take n xs)"
    have "take n xs = butlast (take n xs) @ [a]" using ne by (simp add: a_def)
    moreover have "sorted_wrt (\<lambda>x y. k x > k y) (take n xs)" using sw by (simp add: sorted_wrt_append)
    ultimately have "x = a \<or> k x > k a" using x
      by (metis Un_iff empty_iff empty_set list.set_cases set_ConsD set_append sorted_wrt_append
          list.set_intros(1))
    then show "\<not> k x < k a" by auto
  qed
  have r: "\<forall>x \<in> set (drop n xs). k x < k a"
    using sw [unfolded sorted_wrt_append] last_in_set [OF ne] by (auto simp only: a_def)
  have "filter (\<lambda>r. k r < k a) (take n xs) = []" using l by (simp add: filter_empty_conv)
  moreover have "filter (\<lambda>r. k r < k a) (drop n xs) = drop n xs" using r by (simp add: filter_id_conv)
  ultimately have "filter (\<lambda>r. k r < k a) (take n xs @ drop n xs) = drop n xs"
    by (simp only: filter_append) simp
  then show ?thesis using split a_def by simp
qed

locale keyset =
  fixes key :: "'r \<Rightarrow> time \<times> uuid" and rows :: "'s \<Rightarrow> 'r list" and valid :: "'s \<Rightarrow> bool"
  assumes key_distinct: "valid s \<Longrightarrow> distinct (map key (rows s))"
begin

definition ordered :: "'s \<Rightarrow> 'r list" where
  "ordered s = rev (sort_key key (rows s))"

lemma ordered_sorted: "valid s \<Longrightarrow> sorted_wrt (\<lambda>x y. key x > key y) (ordered s)"
proof -
  assume v: "valid s"
  have "sorted (map key (sort_key key (rows s)))" by simp
  moreover have "distinct (map key (sort_key key (rows s)))"
    using key_distinct [OF v] by (simp add: distinct_map)
  ultimately have "sorted_wrt (<) (map key (sort_key key (rows s)))"
    by (simp add: strict_sorted_iff)
  then show ?thesis by (simp add: ordered_def sorted_wrt_rev sorted_wrt_map)
qed

lemma page_eq: "keyset_page key cur n (rows s) = take n (filter (\<lambda>r. before cur (key r)) (ordered s))"
  by (simp add: keyset_page_def ordered_def sort_key_filter rev_filter)

lemma walk_eq:
  assumes "valid s" "n > 0"
  shows "length (filter (\<lambda>r. before cur (key r)) (ordered s)) < fuel * n \<Longrightarrow>
    walk_pages fuel key cur n (rows s) = filter (\<lambda>r. before cur (key r)) (ordered s)"
proof (induction fuel arbitrary: cur)
  case 0
  then show ?case by simp
next
  case (Suc fuel)
  define xs where "xs = filter (\<lambda>r. before cur (key r)) (ordered s)"
  have page: "keyset_page key cur n (rows s) = take n xs" by (simp add: page_eq xs_def)
  have srt: "sorted_wrt (\<lambda>x y. key x > key y) xs"
    using ordered_sorted [OF assms(1)] by (simp add: xs_def sorted_wrt_filter)
  show ?case
  proof (cases "length xs < n")
    case True
    then have "next_cursor key n (take n xs) = None" by (simp add: next_cursor_def)
    then show ?thesis using True by (simp add: page xs_def [symmetric])
  next
    case False
    then have len: "length xs \<ge> n" by simp
    let ?k = "key (last (take n xs))"
    have nc: "next_cursor key n (take n xs) = Some ?k"
      using len assms(2) by (auto simp: next_cursor_def min_def)
    have sub: "filter (\<lambda>r. before (Some ?k) (key r)) (ordered s) = drop n xs"
    proof -
      have "take n xs \<noteq> []" using len assms(2) by auto
      then have a: "last (take n xs) \<in> set xs" by (metis in_set_takeD last_in_set)
      then have "before cur ?k" by (simp add: xs_def)
      then have "before cur (key r)" if "key r < ?k" for r
        using that by (cases cur) (simp_all add: before_def)
      then have "before (Some ?k) (key r) \<longleftrightarrow> before cur (key r) \<and> key r < ?k" for r
        unfolding before_def [of "Some ?k"] option.case by blast
      then have "filter (\<lambda>r. before (Some ?k) (key r)) (ordered s) = filter (\<lambda>r. key r < ?k) xs"
        unfolding xs_def filter_filter by simp
      then show ?thesis using take_filter_rev_split [OF srt assms(2) len] by simp
    qed
    have "length (drop n xs) < fuel * n" using Suc.prems len by (simp add: xs_def)
    then have "walk_pages fuel key (Some ?k) n (rows s) = drop n xs"
      using Suc.IH [of "Some ?k"] sub by simp
    then show ?thesis by (simp add: page nc xs_def [symmetric])
  qed
qed

text \<open>From the first page on, the walk visits every row once, newest first.\<close>

lemma walk_complete:
  assumes "valid s" "n > 0" "length (rows s) < fuel * n"
  shows "walk_pages fuel key None n (rows s) = rev (sort_key key (rows s))"
  using walk_eq [OF assms(1,2), of None fuel] assms(3)
  by (simp add: before_def ordered_def)

lemma page_subset: "set (keyset_page key cur n (rows s)) \<subseteq> set (rows s)"
  by (auto simp: page_eq ordered_def dest: in_set_takeD)

end

end
