(* ===== verification/VideoQueries.thy ===== *)
theory VideoQueries
  imports Sql
begin

text \<open>
  The statements of \<^verbatim>\<open>shared/db/videos.sql.go\<close>: one definition per query,
  with the WHERE clause, the assignments and the RETURNING clause of its SQL text.
\<close>

definition GetVideoByID :: "uuid \<Rightarrow> Video io" where
  "GetVideoByID i = query (\<lambda>d. one_row (find_row (\<lambda>v. v_ID v = i) (videos d)))"

definition GetVideoByIDForUpdate :: "uuid \<Rightarrow> Video io" where
  "GetVideoByIDForUpdate i = query (\<lambda>d. one_row (find_row (\<lambda>v. v_ID v = i) (videos d)))"

definition GetPendingVideoByUser :: "uuid \<Rightarrow> Video io" where
  "GetPendingVideoByUser uid =
     query (\<lambda>d. one_row (find_row (\<lambda>v. v_UserID v = uid \<and> v_Status v = PENDING_UPLOAD) (videos d)))"

record VideoStatusRow =
  vs_ID :: uuid
  vs_UserID :: uuid
  vs_Status :: video_status
  vs_RetryCount :: int
  vs_CreatedAt :: time
  vs_DeletedAt :: "time option"

definition GetVideoStatusByID :: "uuid \<Rightarrow> VideoStatusRow io" where
  "GetVideoStatusByID i = query (\<lambda>d. one_row (map_option
     (\<lambda>v. \<lparr>vs_ID = v_ID v, vs_UserID = v_UserID v, vs_Status = v_Status v,
           vs_RetryCount = v_RetryCount v, vs_CreatedAt = v_CreatedAt v,
           vs_DeletedAt = v_DeletedAt v\<rparr>)
     (find_row (\<lambda>v. v_ID v = i) (videos d))))"

text \<open>A video joined with its owner and the viewer's like, as detail, feed and search return it.\<close>

record VideoDetailRow =
  vd_video :: Video
  vd_owner :: User
  vd_LikedByMe :: bool

definition liked_by :: "db \<Rightarrow> uuid option \<Rightarrow> uuid \<Rightarrow> bool" where
  "liked_by d viewer vid =
     (case viewer of None \<Rightarrow> False
      | Some u \<Rightarrow> list_ex (\<lambda>l. l_VideoID l = vid \<and> l_UserID l = u) (likes d))"

definition join_owner :: "db \<Rightarrow> uuid option \<Rightarrow> Video \<Rightarrow> VideoDetailRow option" where
  "join_owner d viewer v =
     map_option (\<lambda>u. \<lparr>vd_video = v, vd_owner = u, vd_LikedByMe = liked_by d viewer (v_ID v)\<rparr>)
       (find_row (\<lambda>u. u_ID u = v_UserID v) (users d))"

definition GetVideoDetail :: "uuid \<Rightarrow> uuid option \<Rightarrow> VideoDetailRow io" where
  "GetVideoDetail i viewer = query (\<lambda>d. one_row
     (case find_row (\<lambda>v. v_ID v = i) (videos d) of
        None \<Rightarrow> None
      | Some v \<Rightarrow> join_owner d viewer v))"

definition InsertVideo ::
  "uuid \<Rightarrow> string \<Rightarrow> string option \<Rightarrow> string option \<Rightarrow> Video io"
where
  "InsertVideo userID r2Key title desc = exec_insert (\<lambda>i now d.
     let v = \<lparr>v_ID = i, v_UserID = userID, v_Title = title, v_Description = desc,
              v_R2Key = r2Key, v_HlsPrefix = None, v_ThumbnailKey = None,
              v_DurationSeconds = None, v_Status = PENDING_UPLOAD, v_RetryCount = 0,
              v_LikesCount = 0, v_ViewsCount = 0, v_CommentsCount = 0,
              v_CreatedAt = now, v_DeletedAt = None\<rparr>
     in Inr (v, d\<lparr>videos := videos d @ [v]\<rparr>))"

definition UpdatePendingVideoR2Key :: "uuid \<Rightarrow> string \<Rightarrow> Video io" where
  "UpdatePendingVideoR2Key i r2Key =
     update_video_one (\<lambda>v. v_ID v = i \<and> v_Status v = PENDING_UPLOAD)
       (\<lambda>_ v. v\<lparr>v_R2Key := r2Key\<rparr>)"

definition UpdatePendingVideoMetadata ::
  "uuid \<Rightarrow> string option \<Rightarrow> string option \<Rightarrow> Video io"
where
  "UpdatePendingVideoMetadata i title desc =
     update_video_one (\<lambda>v. v_ID v = i \<and> v_Status v = PENDING_UPLOAD)
       (\<lambda>_ v. v\<lparr>v_Title := title, v_Description := desc\<rparr>)"

definition ConfirmVideoProcessing :: "uuid \<Rightarrow> uuid \<Rightarrow> string \<Rightarrow> Video io" where
  "ConfirmVideoProcessing i userID r2Key =
     update_video_one
       (\<lambda>v. v_ID v = i \<and> v_UserID v = userID \<and> v_Status v = PENDING_UPLOAD \<and> v_R2Key v = r2Key)
       (\<lambda>_ v. v\<lparr>v_Status := PROCESSING, v_RetryCount := 0\<rparr>)"

definition UpdateVideoToProcessing :: "uuid \<Rightarrow> Video io" where
  "UpdateVideoToProcessing i =
     update_video_one (\<lambda>v. v_ID v = i) (\<lambda>_ v. v\<lparr>v_Status := PROCESSING, v_RetryCount := 0\<rparr>)"

definition IncrementVideoRetry :: "uuid \<Rightarrow> Video io" where
  "IncrementVideoRetry i =
     update_video_one (\<lambda>v. v_ID v = i \<and> v_Status v \<in> {PROCESSING, PENDING_UPLOAD})
       (\<lambda>_ v. v\<lparr>v_RetryCount := v_RetryCount v + 1\<rparr>)"

definition MarkVideoReady ::
  "uuid \<Rightarrow> string option \<Rightarrow> string option \<Rightarrow> int option \<Rightarrow> Video io"
where
  "MarkVideoReady i hlsPrefix thumbnailKey duration =
     update_video_one (\<lambda>v. v_ID v = i \<and> v_Status v = PROCESSING)
       (\<lambda>_ v. v\<lparr>v_Status := READY, v_HlsPrefix := hlsPrefix, v_ThumbnailKey := thumbnailKey,
              v_DurationSeconds := duration\<rparr>)"

definition MarkVideoFailed :: "uuid \<Rightarrow> Video io" where
  "MarkVideoFailed i = update_video_one (\<lambda>v. v_ID v = i) (\<lambda>_ v. v\<lparr>v_Status := FAILED\<rparr>)"

definition MarkVideoDeleted :: "uuid \<Rightarrow> uuid \<Rightarrow> Video io" where
  "MarkVideoDeleted i userID =
     update_video_one (\<lambda>v. v_ID v = i \<and> v_UserID v = userID)
       (\<lambda>now v. v\<lparr>v_Status := DELETED, v_DeletedAt := Some now\<rparr>)"

definition DeleteVideoRow :: "uuid \<Rightarrow> unit io" where
  "DeleteVideoRow i = exec (\<lambda>_ d. Inr ((), delete_videos (\<lambda>v. v_ID v = i) d))"

definition DeleteVideosByUser :: "uuid \<Rightarrow> unit io" where
  "DeleteVideosByUser userID = exec (\<lambda>_ d. Inr ((), delete_videos (\<lambda>v. v_UserID v = userID) d))"

section \<open>Counters\<close>

definition IncrementLikesCount :: "uuid \<Rightarrow> unit io" where
  "IncrementLikesCount i =
     update_videos (\<lambda>v. v_ID v = i) (\<lambda>_ v. v\<lparr>v_LikesCount := v_LikesCount v + 1\<rparr>)"

definition DecrementLikesCount :: "uuid \<Rightarrow> unit io" where
  "DecrementLikesCount i =
     update_videos (\<lambda>v. v_ID v = i \<and> v_LikesCount v > 0)
       (\<lambda>_ v. v\<lparr>v_LikesCount := v_LikesCount v - 1\<rparr>)"

definition IncrementCommentsCount :: "uuid \<Rightarrow> unit io" where
  "IncrementCommentsCount i =
     update_videos (\<lambda>v. v_ID v = i) (\<lambda>_ v. v\<lparr>v_CommentsCount := v_CommentsCount v + 1\<rparr>)"

definition DecrementCommentsCount :: "uuid \<Rightarrow> unit io" where
  "DecrementCommentsCount i =
     update_videos (\<lambda>v. v_ID v = i \<and> v_CommentsCount v > 0)
       (\<lambda>_ v. v\<lparr>v_CommentsCount := v_CommentsCount v - 1\<rparr>)"

definition DecrementCommentsCountBy :: "uuid \<Rightarrow> int \<Rightarrow> unit io" where
  "DecrementCommentsCountBy i n =
     update_videos (\<lambda>v. v_ID v = i)
       (\<lambda>_ v. v\<lparr>v_CommentsCount := max (v_CommentsCount v - n) 0\<rparr>)"

definition IncrementViews :: "uuid \<Rightarrow> unit io" where
  "IncrementViews i =
     update_videos (\<lambda>v. v_ID v = i) (\<lambda>_ v. v\<lparr>v_ViewsCount := v_ViewsCount v + 1\<rparr>)"

text \<open>
  \<^verbatim>\<open>WHERE id IN (SELECT ...)\<close>: a video is updated once, however many rows of
  the subquery name it.
\<close>

definition decrement_likes_for :: "uuid \<Rightarrow> db \<Rightarrow> db" where
  "decrement_likes_for userID d =
     d\<lparr>videos := update_rows
         (\<lambda>v. v_ID v \<in> l_VideoID ` set (filter (\<lambda>l. l_UserID l = userID) (likes d)))
         (\<lambda>v. v\<lparr>v_LikesCount := max (v_LikesCount v - 1) 0\<rparr>) (videos d)\<rparr>"

definition DecrementLikesForUser :: "uuid \<Rightarrow> unit io" where
  "DecrementLikesForUser userID = exec (\<lambda>_ d. Inr ((), decrement_likes_for userID d))"

definition decrement_comments_for :: "uuid \<Rightarrow> db \<Rightarrow> db" where
  "decrement_comments_for userID d =
     d\<lparr>videos := update_rows
         (\<lambda>v. v_ID v \<in> c_VideoID ` set (filter (\<lambda>c. c_UserID c = userID) (comments d)))
         (\<lambda>v. v\<lparr>v_CommentsCount := max (v_CommentsCount v - 1) 0\<rparr>) (videos d)\<rparr>"

definition DecrementCommentsForUser :: "uuid \<Rightarrow> unit io" where
  "DecrementCommentsForUser userID = exec (\<lambda>_ d. Inr ((), decrement_comments_for userID d))"

section \<open>Lists\<close>

definition video_key :: "Video \<Rightarrow> time \<times> uuid" where
  "video_key v = (v_CreatedAt v, v_ID v)"

definition detail_key :: "VideoDetailRow \<Rightarrow> time \<times> uuid" where
  "detail_key r = video_key (vd_video r)"

definition follows_edge :: "db \<Rightarrow> uuid \<Rightarrow> uuid \<Rightarrow> bool" where
  "follows_edge d follower followee =
     list_ex (\<lambda>f. f_FollowerID f = follower \<and> f_FolloweeID f = followee) (follows d)"

definition feed_rows :: "db \<Rightarrow> uuid \<Rightarrow> uuid option \<Rightarrow> VideoDetailRow list" where
  "feed_rows d userID viewer =
     filter (\<lambda>r. v_Status (vd_video r) = READY \<and> v_UserID (vd_video r) \<noteq> userID \<and>
                 u_IsActive (vd_owner r) \<and>
                 (\<not> u_IsPrivate (vd_owner r) \<or> follows_edge d userID (u_ID (vd_owner r))))
       (List.map_filter (join_owner d viewer) (videos d))"

definition ListFeedVideos ::
  "uuid \<Rightarrow> uuid option \<Rightarrow> cursor \<Rightarrow> nat \<Rightarrow> VideoDetailRow list io"
where
  "ListFeedVideos userID viewer cur n =
     query (\<lambda>d. Inr (keyset_page detail_key cur n (feed_rows d userID viewer)))"

definition user_video_rows :: "db \<Rightarrow> uuid \<Rightarrow> bool \<Rightarrow> Video list" where
  "user_video_rows d userID isOwner =
     filter (\<lambda>v. v_UserID v = userID \<and>
                 (isOwner \<and> v_Status v \<noteq> DELETED \<or> \<not> isOwner \<and> v_Status v = READY)) (videos d)"

definition ListVideosByUser :: "uuid \<Rightarrow> bool \<Rightarrow> cursor \<Rightarrow> nat \<Rightarrow> Video list io" where
  "ListVideosByUser userID isOwner cur n =
     query (\<lambda>d. Inr (keyset_page video_key cur n (user_video_rows d userID isOwner)))"

record VideoKeysRow =
  vk_ID :: uuid
  vk_UserID :: uuid
  vk_R2Key :: string
  vk_HlsPrefix :: "string option"
  vk_ThumbnailKey :: "string option"

definition video_keys :: "Video \<Rightarrow> VideoKeysRow" where
  "video_keys v = \<lparr>vk_ID = v_ID v, vk_UserID = v_UserID v, vk_R2Key = v_R2Key v,
                   vk_HlsPrefix = v_HlsPrefix v, vk_ThumbnailKey = v_ThumbnailKey v\<rparr>"

definition ListVideoKeysByUser :: "uuid \<Rightarrow> VideoKeysRow list io" where
  "ListVideoKeysByUser userID =
     query (\<lambda>d. Inr (map video_keys (filter (\<lambda>v. v_UserID v = userID) (videos d))))"

definition hours24 :: int where
  "hours24 = 24 * 3600 * 1000000000"

definition ListVideosEligibleForCleanup :: "nat \<Rightarrow> VideoKeysRow list io" where
  "ListVideosEligibleForCleanup n = bindM fault (\<lambda>_ w.
     let elig = filter (\<lambda>v. v_Status v = DELETED \<and>
                   (case v_DeletedAt v of None \<Rightarrow> False | Some t \<Rightarrow> t < pg_now w - hours24))
                 (videos (w_db w))
     in (Inr (map video_keys (take n (sort_key (\<lambda>v. the (v_DeletedAt v)) elig))), w))"

end
