(* ===== verification/UserQueries.thy ===== *)
theory UserQueries
  imports VideoQueries
begin

text \<open>
  The statements of \<^verbatim>\<open>shared/db/users.sql.go\<close> and
  \<^verbatim>\<open>shared/db/follows.sql.go\<close>.
\<close>

section \<open>Users\<close>

definition GetUserByID :: "uuid \<Rightarrow> User io" where
  "GetUserByID i = query (\<lambda>d. one_row (find_row (\<lambda>u. u_ID u = i) (users d)))"

definition GetUserByZitadelID :: "string \<Rightarrow> User io" where
  "GetUserByZitadelID z = query (\<lambda>d. one_row (find_row (\<lambda>u. u_ZitadelID u = z) (users d)))"

text \<open>
  \<^verbatim>\<open>ON CONFLICT (zitadel_id) DO NOTHING\<close>: no row is returned on that conflict;
  any other constraint still fails the statement.
\<close>

definition CreateUser :: "string \<Rightarrow> string \<Rightarrow> string option \<Rightarrow> User io" where
  "CreateUser zitadelID username displayName = exec_insert (\<lambda>i now d.
     if zitadelID \<in> u_ZitadelID ` set (users d) then Inl (Sentinel ErrNoRows)
     else let u = \<lparr>u_ID = i, u_ZitadelID = zitadelID, u_Username = username,
                   u_DisplayName = displayName, u_Bio = None, u_AvatarUrl = None,
                   u_IsPrivate = False, u_IsActive = True, u_DeletedAt = None,
                   u_CreatedAt = now\<rparr>
          in Inr (u, d\<lparr>users := users d @ [u]\<rparr>))"

definition DeactivateUser :: "uuid \<Rightarrow> User io" where
  "DeactivateUser i =
     update_user_one (\<lambda>u. u_ID u = i)
       (\<lambda>now u. u\<lparr>u_IsActive := False,
                u_DeletedAt := (case u_DeletedAt u of None \<Rightarrow> Some now | Some t \<Rightarrow> Some t)\<rparr>)"

definition TombstoneUser :: "env \<Rightarrow> uuid \<Rightarrow> User io" where
  "TombstoneUser E i =
     update_user_one (\<lambda>u. u_ID u = i)
       (\<lambda>now u. u\<lparr>u_IsActive := False, u_DeletedAt := Some now,
                u_Username := ''deleted_'' @ env_uuid_String E (u_ID u),
                u_DisplayName := None, u_Bio := None, u_AvatarUrl := None\<rparr>)"

definition coalesce :: "'a option \<Rightarrow> 'a option \<Rightarrow> 'a option" where
  "coalesce x y = (case x of None \<Rightarrow> y | Some _ \<Rightarrow> x)"

definition UpdateUserProfile ::
  "uuid \<Rightarrow> string option \<Rightarrow> string option \<Rightarrow> string option \<Rightarrow> bool option \<Rightarrow> User io"
where
  "UpdateUserProfile i displayName bio avatarUrl isPrivate =
     update_user_one (\<lambda>u. u_ID u = i)
       (\<lambda>_ u. u\<lparr>u_DisplayName := coalesce displayName (u_DisplayName u),
              u_Bio := coalesce bio (u_Bio u),
              u_AvatarUrl := coalesce avatarUrl (u_AvatarUrl u),
              u_IsPrivate := (case isPrivate of None \<Rightarrow> u_IsPrivate u | Some b \<Rightarrow> b)\<rparr>)"

record ProfileStatsRow =
  ps_user :: User
  ps_FollowerCount :: int
  ps_FollowingCount :: int
  ps_IsFollowing :: bool

definition GetUserProfileWithStats :: "uuid \<Rightarrow> uuid \<Rightarrow> ProfileStatsRow io" where
  "GetUserProfileWithStats i viewer = query (\<lambda>d. one_row (map_option
     (\<lambda>u. \<lparr>ps_user = u,
           ps_FollowerCount = int (count_rows (\<lambda>f. f_FolloweeID f = u_ID u) (follows d)),
           ps_FollowingCount = int (count_rows (\<lambda>f. f_FollowerID f = u_ID u) (follows d)),
           ps_IsFollowing = follows_edge d viewer (u_ID u)\<rparr>)
     (find_row (\<lambda>u. u_ID u = i) (users d))))"

text \<open>The users whose grace has passed, those deleted first at the front; a negative limit is refused.\<close>

definition eligible_users :: "world \<Rightarrow> User list" where
  "eligible_users w = sort_key (\<lambda>u. the (u_DeletedAt u))
     (filter (\<lambda>u. \<not> u_IsActive u \<and>
         (case u_DeletedAt u of None \<Rightarrow> False | Some t \<Rightarrow> t < pg_now w - hours24)) (users (w_db w)))"

definition ListUsersEligibleForReconcile :: "int \<Rightarrow> uuid list io" where
  "ListUsersEligibleForReconcile n = bindM fault (\<lambda>_ w.
     if n < 0 then (Inl (Opaque ''ERROR: LIMIT must not be negative (SQLSTATE 2201W)''), w)
     else (Inr (map u_ID (take (nat n) (eligible_users w))), w))"

section \<open>Follows\<close>

text \<open>\<^verbatim>\<open>ON CONFLICT DO NOTHING\<close> covers every unique constraint of the table.\<close>

definition FollowUser :: "uuid \<Rightarrow> uuid \<Rightarrow> unit io" where
  "FollowUser follower followee = exec (\<lambda>now d.
     if follows_edge d follower followee then Inr ((), d)
     else Inr ((), d\<lparr>follows := follows d @
       [\<lparr>f_FollowerID = follower, f_FolloweeID = followee, f_CreatedAt = now\<rparr>]\<rparr>))"

definition GetFollow :: "uuid \<Rightarrow> uuid \<Rightarrow> Follow io" where
  "GetFollow follower followee = query (\<lambda>d. one_row
     (find_row (\<lambda>f. f_FollowerID f = follower \<and> f_FolloweeID f = followee) (follows d)))"

definition DeleteFollow :: "uuid \<Rightarrow> uuid \<Rightarrow> unit io" where
  "DeleteFollow follower followee = exec (\<lambda>_ d. Inr ((),
     d\<lparr>follows := filter (\<lambda>f. \<not> (f_FollowerID f = follower \<and> f_FolloweeID f = followee)) (follows d)\<rparr>))"

definition DeleteFollowsByFollower :: "uuid \<Rightarrow> unit io" where
  "DeleteFollowsByFollower follower = exec (\<lambda>_ d. Inr ((),
     d\<lparr>follows := filter (\<lambda>f. f_FollowerID f \<noteq> follower) (follows d)\<rparr>))"

definition DeleteFollowsByFollowee :: "uuid \<Rightarrow> unit io" where
  "DeleteFollowsByFollowee followee = exec (\<lambda>_ d. Inr ((),
     d\<lparr>follows := filter (\<lambda>f. f_FolloweeID f \<noteq> followee) (follows d)\<rparr>))"

definition IsFollowing :: "uuid \<Rightarrow> uuid \<Rightarrow> bool io" where
  "IsFollowing follower followee = query (\<lambda>d. Inr (follows_edge d follower followee))"

definition CountFollowers :: "uuid \<Rightarrow> int io" where
  "CountFollowers followee =
     query (\<lambda>d. Inr (int (count_rows (\<lambda>f. f_FolloweeID f = followee) (follows d))))"

definition CountFollowing :: "uuid \<Rightarrow> int io" where
  "CountFollowing follower =
     query (\<lambda>d. Inr (int (count_rows (\<lambda>f. f_FollowerID f = follower) (follows d))))"

text \<open>A follow edge joined with the user at its other end.\<close>

record FollowRow =
  fr_user :: User
  fr_CreatedAt :: time
  fr_IsFollowingBack :: bool

definition follow_key :: "FollowRow \<Rightarrow> time \<times> uuid" where
  "follow_key r = (fr_CreatedAt r, u_ID (fr_user r))"

definition follower_rows :: "db \<Rightarrow> uuid \<Rightarrow> uuid \<Rightarrow> FollowRow list" where
  "follower_rows d viewer followee =
     List.map_filter (\<lambda>f. map_option
         (\<lambda>u. \<lparr>fr_user = u, fr_CreatedAt = f_CreatedAt f,
               fr_IsFollowingBack = follows_edge d viewer (f_FollowerID f)\<rparr>)
         (find_row (\<lambda>u. u_ID u = f_FollowerID f) (users d)))
       (filter (\<lambda>f. f_FolloweeID f = followee) (follows d))"

definition ListFollowers :: "uuid \<Rightarrow> uuid \<Rightarrow> cursor \<Rightarrow> nat \<Rightarrow> FollowRow list io" where
  "ListFollowers viewer followee cur n =
     query (\<lambda>d. Inr (keyset_page follow_key cur n (follower_rows d viewer followee)))"

definition following_rows :: "db \<Rightarrow> uuid \<Rightarrow> FollowRow list" where
  "following_rows d follower =
     List.map_filter (\<lambda>f. map_option
         (\<lambda>u. \<lparr>fr_user = u, fr_CreatedAt = f_CreatedAt f, fr_IsFollowingBack = False\<rparr>)
         (find_row (\<lambda>u. u_ID u = f_FolloweeID f) (users d)))
       (filter (\<lambda>f. f_FollowerID f = follower) (follows d))"

definition ListFollowing :: "uuid \<Rightarrow> cursor \<Rightarrow> nat \<Rightarrow> FollowRow list io" where
  "ListFollowing follower cur n =
     query (\<lambda>d. Inr (keyset_page follow_key cur n (following_rows d follower)))"

end
