(* ===== verification/SocialQueries.thy ===== *)
theory SocialQueries
  imports UserQueries
begin

text \<open>
  The statements of \<^verbatim>\<open>shared/db/likes.sql.go\<close>,
  \<^verbatim>\<open>shared/db/comments.sql.go\<close> and \<^verbatim>\<open>shared/db/notifications.sql.go\<close>.
\<close>

section \<open>Likes\<close>

definition InsertLike :: "uuid \<Rightarrow> uuid \<Rightarrow> Like io" where
  "InsertLike userID videoID = exec (\<lambda>now d.
     if list_ex (\<lambda>l. l_UserID l = userID \<and> l_VideoID l = videoID) (likes d)
     then Inl (Sentinel ErrNoRows)
     else let l = \<lparr>l_UserID = userID, l_VideoID = videoID, l_CreatedAt = now\<rparr>
          in Inr (l, d\<lparr>likes := likes d @ [l]\<rparr>))"

definition DeleteLike :: "uuid \<Rightarrow> uuid \<Rightarrow> Like io" where
  "DeleteLike userID videoID = exec (\<lambda>_ d.
     let P = (\<lambda>l. l_UserID l = userID \<and> l_VideoID l = videoID) in
     case find_row P (likes d) of
       None \<Rightarrow> Inl (Sentinel ErrNoRows)
     | Some l \<Rightarrow> Inr (l, d\<lparr>likes := filter (\<lambda>l. \<not> P l) (likes d)\<rparr>))"

definition DeleteLikesByUser :: "uuid \<Rightarrow> unit io" where
  "DeleteLikesByUser userID = exec (\<lambda>_ d. Inr ((),
     d\<lparr>likes := filter (\<lambda>l. l_UserID l \<noteq> userID) (likes d)\<rparr>))"

definition IsLiked :: "uuid \<Rightarrow> uuid \<Rightarrow> bool io" where
  "IsLiked userID videoID =
     query (\<lambda>d. Inr (list_ex (\<lambda>l. l_UserID l = userID \<and> l_VideoID l = videoID) (likes d)))"

section \<open>Comments\<close>

definition InsertComment :: "uuid \<Rightarrow> uuid \<Rightarrow> uuid option \<Rightarrow> string \<Rightarrow> Comment io" where
  "InsertComment videoID userID parentID content = exec_insert (\<lambda>i now d.
     let c = \<lparr>c_ID = i, c_VideoID = videoID, c_UserID = userID, c_ParentID = parentID,
              c_Content = content, c_CreatedAt = now\<rparr>
     in Inr (c, d\<lparr>comments := comments d @ [c]\<rparr>))"

text \<open>
  The recursive query: the working table starts with the comment itself; each round
  replaces it by the replies to its rows; the result collects every working table
  (\<^verbatim>\<open>UNION ALL\<close>).  It ends when a working table is empty; on a cyclic
  parent relation it would not end, which is the value \<^verbatim>\<open>None\<close>.
\<close>

definition replies :: "Comment list \<Rightarrow> uuid list \<Rightarrow> uuid list" where
  "replies cs ids = map c_ID (concat (map (\<lambda>i. filter (\<lambda>c. c_ParentID c = Some i) cs) ids))"

partial_function (option) subtree_rows :: "Comment list \<Rightarrow> uuid list \<Rightarrow> uuid list option" where
  [code]: "subtree_rows cs work =
     (if work = [] then Some []
      else Option.bind (subtree_rows cs (replies cs work)) (\<lambda>rest. Some (work @ rest)))"

text \<open>A statement that does not end is cancelled with the request.\<close>

definition CountCommentSubtree :: "uuid \<Rightarrow> int io" where
  "CountCommentSubtree i = query (\<lambda>d.
     case subtree_rows (comments d) (map c_ID (filter (\<lambda>c. c_ID c = i) (comments d))) of
       None \<Rightarrow> Inl (Opaque ''context canceled'')
     | Some rows \<Rightarrow> if int32_ok (int (length rows)) then Inr (int (length rows))
                     else Inl (Opaque ''integer out of range''))"

definition DeleteCommentByID :: "uuid \<Rightarrow> unit io" where
  "DeleteCommentByID i = exec (\<lambda>_ d. Inr ((), delete_comments (\<lambda>c. c_ID c = i) d))"

definition DeleteCommentsByUser :: "uuid \<Rightarrow> unit io" where
  "DeleteCommentsByUser userID = exec (\<lambda>_ d. Inr ((), delete_comments (\<lambda>c. c_UserID c = userID) d))"

record CommentRow =
  cr_comment :: Comment
  cr_author :: User

definition join_author :: "db \<Rightarrow> Comment \<Rightarrow> CommentRow option" where
  "join_author d c =
     map_option (\<lambda>u. \<lparr>cr_comment = c, cr_author = u\<rparr>)
       (find_row (\<lambda>u. u_ID u = c_UserID c) (users d))"

definition GetCommentByID :: "uuid \<Rightarrow> CommentRow io" where
  "GetCommentByID i = query (\<lambda>d. one_row
     (case find_row (\<lambda>c. c_ID c = i) (comments d) of None \<Rightarrow> None | Some c \<Rightarrow> join_author d c))"

definition comment_key :: "CommentRow \<Rightarrow> time \<times> uuid" where
  "comment_key r = (c_CreatedAt (cr_comment r), c_ID (cr_comment r))"

definition video_comment_rows :: "db \<Rightarrow> uuid \<Rightarrow> CommentRow list" where
  "video_comment_rows d videoID =
     List.map_filter (join_author d) (filter (\<lambda>c. c_VideoID c = videoID) (comments d))"

definition ListCommentsByVideo :: "uuid \<Rightarrow> cursor \<Rightarrow> nat \<Rightarrow> CommentRow list io" where
  "ListCommentsByVideo videoID cur n =
     query (\<lambda>d. Inr (keyset_page comment_key cur n (video_comment_rows d videoID)))"

section \<open>Notifications\<close>

definition InsertNotification :: "uuid \<Rightarrow> uuid \<Rightarrow> string \<Rightarrow> json \<Rightarrow> Notification io" where
  "InsertNotification userID actorID typ payload = exec_insert (\<lambda>i now d.
     let n = \<lparr>n_ID = i, n_UserID = userID, n_ActorID = actorID, n_Type = typ,
              n_Payload = payload, n_IsRead = False, n_CreatedAt = now\<rparr>
     in Inr (n, d\<lparr>notifications := notifications d @ [n]\<rparr>))"

definition DeleteNotificationsForUser :: "uuid \<Rightarrow> unit io" where
  "DeleteNotificationsForUser userID = exec (\<lambda>_ d. Inr ((),
     d\<lparr>notifications := filter (\<lambda>n. n_UserID n \<noteq> userID) (notifications d)\<rparr>))"

definition DeleteNotificationsByActor :: "uuid \<Rightarrow> unit io" where
  "DeleteNotificationsByActor actorID = exec (\<lambda>_ d. Inr ((),
     d\<lparr>notifications := filter (\<lambda>n. n_ActorID n \<noteq> actorID) (notifications d)\<rparr>))"

definition notification_key :: "Notification \<Rightarrow> time \<times> uuid" where
  "notification_key n = (n_CreatedAt n, n_ID n)"

definition ListNotifications :: "uuid \<Rightarrow> cursor \<Rightarrow> nat \<Rightarrow> Notification list io" where
  "ListNotifications userID cur n =
     query (\<lambda>d. Inr (keyset_page notification_key cur n
       (filter (\<lambda>n. n_UserID n = userID) (notifications d))))"

definition MarkAllNotificationsRead :: "uuid \<Rightarrow> int io" where
  "MarkAllNotificationsRead userID = exec (\<lambda>_ d.
     let P = (\<lambda>n. n_UserID n = userID \<and> \<not> n_IsRead n)
     in Inr (int (count_rows P (notifications d)),
             d\<lparr>notifications := update_rows P (\<lambda>n. n\<lparr>n_IsRead := True\<rparr>) (notifications d)\<rparr>))"

end
