(* ===== verification/Rules.thy ===== *)
theory Rules
  imports SocialQueries
begin

text \<open>
  Rules for the computations of \<^verbatim>\<open>World\<close>: three interpretations of
  \<^verbatim>\<open>step_rel\<close> (the responses stay, the tables stay, an invariant of the
  tables is kept), the "exactly one response" discipline of a handler, and a
  Hoare triple over the tables with a postcondition for the error exit.
\<close>

section \<open>The interpretations\<close>

interpretation quiet: step_rel "\<lambda>w w'. w_out w' = w_out w"
  by unfold_locales auto

interpretation dbsame: step_rel "\<lambda>w w'. w_db w' = w_db w"
  by unfold_locales auto

interpretation dbinv: step_rel "\<lambda>w w'. I (w_db w) \<longrightarrow> I (w_db w')" for I
  by unfold_locales auto

lemma fault_none: "w_faults w = [] \<Longrightarrow> fault w = (Inr (), w)"
  by (simp add: fault_def)

lemma fault_frame [simp]:
  "w_db (snd (fault w)) = w_db w" "w_out (snd (fault w)) = w_out w"
  "w_queue (snd (fault w)) = w_queue w" "w_objects (snd (fault w)) = w_objects w"
  "w_files (snd (fault w)) = w_files w" "w_limits (snd (fault w)) = w_limits w"
  "w_clock (snd (fault w)) = w_clock w" "w_next (snd (fault w)) = w_next w"
  "w_uuids (snd (fault w)) = w_uuids w"
  by (auto simp: fault_def split: list.split option.split)

lemma fault_error: "fst (fault w) = Inl e \<Longrightarrow> \<exists>m. e = Opaque m"
  by (auto simp: fault_def split: list.splits option.splits)

lemma fault_error_pair: "fault w = (Inl e, w') \<Longrightarrow> \<exists>m. e = Opaque m"
  by (auto simp: fault_def split: list.splits option.splits)

lemma quiet_fault: "quiet.rel fault"
  by (simp add: quiet.rel_def)

lemma quiet_pure: "quiet.rel (\<lambda>w. (f w, w))"
  by (simp add: quiet.rel_def)

lemma quiet_query: "quiet.rel (query f)"
  unfolding query_def by (intro quiet.rel_intros quiet_fault quiet_pure)

lemma quiet_exec: "quiet.rel (exec f)"
proof -
  have "quiet.rel (\<lambda>w. case f (pg_now w) (w_db w) of
       Inl e \<Rightarrow> (Inl e, w)
     | Inr (x, d') \<Rightarrow> if constraints d' then (Inr x, w\<lparr>w_db := d'\<rparr>) else (Inl constraint_error, w))"
    by (auto simp: quiet.rel_def split: sum.split prod.split)
  then show ?thesis unfolding exec_def by (intro quiet.rel_bindM quiet_fault)
qed

lemma quiet_new_uuid: "quiet.rel new_uuid"
  by (simp add: quiet.rel_def new_uuid_def)

lemma quiet_now: "quiet.rel now_io"
  by (simp add: quiet.rel_def now_io_def)

lemma quiet_exec_insert: "quiet.rel (exec_insert f)"
  unfolding exec_insert_def by (intro quiet.rel_bindM quiet_new_uuid quiet_exec)

lemma quiet_runTx: "quiet.rel fn \<Longrightarrow> quiet.rel (runTx fn)"
  unfolding runTx_def
proof (intro quiet.rel_tryM quiet_fault quiet.rel_throw quiet.relI)
  fix u w assume fn: "quiet.rel fn"
  have "w_out (snd (fn w)) = w_out w" using fn by (simp add: quiet.rel_def)
  then show "w_out (snd (case fn w of (Inl e, w') \<Rightarrow> (Inl e, rollback_to (w_db w) w')
       | (Inr x, w') \<Rightarrow> (case fault w' of
            (Inl _, w'') \<Rightarrow> (Inl (Wrap ErrInternal ''commit transaction''), rollback_to (w_db w) w'')
          | (Inr _, w'') \<Rightarrow> (Inr x, w'')))) = w_out w"
    by (auto split: prod.splits sum.splits simp: rollback_to_def)
       (metis fault_frame(2) snd_conv)+
qed

lemma quiet_update_videos: "quiet.rel (update_videos P f)"
  by (simp add: update_videos_def quiet_exec)

lemma quiet_update_video_one: "quiet.rel (update_video_one P f)"
  by (simp add: update_video_one_def quiet_exec)

lemma quiet_update_user_one: "quiet.rel (update_user_one P f)"
  by (simp add: update_user_one_def quiet_exec)

lemmas quiet_base =
  quiet_fault quiet_query quiet_exec quiet_new_uuid quiet_now quiet_exec_insert quiet_runTx
  quiet_update_videos quiet_update_video_one quiet_update_user_one

lemmas video_stmts =
  GetVideoByID_def GetVideoByIDForUpdate_def GetPendingVideoByUser_def GetVideoStatusByID_def
  GetVideoDetail_def InsertVideo_def UpdatePendingVideoR2Key_def UpdatePendingVideoMetadata_def
  ConfirmVideoProcessing_def UpdateVideoToProcessing_def IncrementVideoRetry_def
  MarkVideoReady_def MarkVideoFailed_def MarkVideoDeleted_def DeleteVideoRow_def
  DeleteVideosByUser_def IncrementLikesCount_def DecrementLikesCount_def
  IncrementCommentsCount_def DecrementCommentsCount_def DecrementCommentsCountBy_def
  IncrementViews_def DecrementLikesForUser_def DecrementCommentsForUser_def
  ListFeedVideos_def ListVideosByUser_def ListVideoKeysByUser_def

lemmas user_stmts =
  GetUserByID_def GetUserByZitadelID_def CreateUser_def DeactivateUser_def TombstoneUser_def
  UpdateUserProfile_def GetUserProfileWithStats_def FollowUser_def
  GetFollow_def DeleteFollow_def DeleteFollowsByFollower_def DeleteFollowsByFollowee_def
  IsFollowing_def CountFollowers_def CountFollowing_def ListFollowers_def ListFollowing_def

lemmas social_stmts =
  InsertLike_def DeleteLike_def DeleteLikesByUser_def IsLiked_def InsertComment_def
  CountCommentSubtree_def DeleteCommentByID_def DeleteCommentsByUser_def GetCommentByID_def
  ListCommentsByVideo_def InsertNotification_def DeleteNotificationsForUser_def
  DeleteNotificationsByActor_def ListNotifications_def MarkAllNotificationsRead_def

lemma quiet_video_stmts:
  "quiet.rel (GetVideoByID i)" "quiet.rel (GetVideoByIDForUpdate i)"
  "quiet.rel (GetPendingVideoByUser u)" "quiet.rel (GetVideoStatusByID i)"
  "quiet.rel (GetVideoDetail i vw)" "quiet.rel (InsertVideo u k t de)"
  "quiet.rel (UpdatePendingVideoR2Key i k)" "quiet.rel (UpdatePendingVideoMetadata i t de)"
  "quiet.rel (ConfirmVideoProcessing i u k)" "quiet.rel (UpdateVideoToProcessing i)"
  "quiet.rel (IncrementVideoRetry i)" "quiet.rel (MarkVideoReady i h tk du)"
  "quiet.rel (MarkVideoFailed i)" "quiet.rel (MarkVideoDeleted i u)"
  "quiet.rel (DeleteVideoRow i)" "quiet.rel (DeleteVideosByUser u)"
  "quiet.rel (IncrementLikesCount i)" "quiet.rel (DecrementLikesCount i)"
  "quiet.rel (IncrementCommentsCount i)" "quiet.rel (DecrementCommentsCount i)"
  "quiet.rel (DecrementCommentsCountBy i n)" "quiet.rel (IncrementViews i)"
  "quiet.rel (DecrementLikesForUser u)" "quiet.rel (DecrementCommentsForUser u)"
  "quiet.rel (ListFeedVideos u vw c m)" "quiet.rel (ListVideosByUser u b c m)"
  "quiet.rel (ListVideoKeysByUser u)"
  by (simp_all only: video_stmts quiet_base)

lemma quiet_user_stmts:
  "quiet.rel (GetUserByID i)" "quiet.rel (GetUserByZitadelID z)" "quiet.rel (CreateUser z n dn)"
  "quiet.rel (DeactivateUser i)" "quiet.rel (TombstoneUser E i)"
  "quiet.rel (UpdateUserProfile i dn bi av pr)" "quiet.rel (GetUserProfileWithStats i v)"
  "quiet.rel (FollowUser a b)" "quiet.rel (GetFollow a b)" "quiet.rel (DeleteFollow a b)"
  "quiet.rel (DeleteFollowsByFollower a)" "quiet.rel (DeleteFollowsByFollowee a)"
  "quiet.rel (IsFollowing a b)" "quiet.rel (CountFollowers a)" "quiet.rel (CountFollowing a)"
  "quiet.rel (ListFollowers v a c m)" "quiet.rel (ListFollowing a c m)"
  by (simp_all only: user_stmts quiet_base)

lemma quiet_social_stmts:
  "quiet.rel (InsertLike u v)" "quiet.rel (DeleteLike u v)" "quiet.rel (DeleteLikesByUser u)"
  "quiet.rel (IsLiked u v)" "quiet.rel (InsertComment v u p co)"
  "quiet.rel (CountCommentSubtree i)" "quiet.rel (DeleteCommentByID i)"
  "quiet.rel (DeleteCommentsByUser u)" "quiet.rel (GetCommentByID i)"
  "quiet.rel (ListCommentsByVideo v c m)" "quiet.rel (InsertNotification u a t pl)"
  "quiet.rel (DeleteNotificationsForUser u)" "quiet.rel (DeleteNotificationsByActor u)"
  "quiet.rel (ListNotifications u c m)" "quiet.rel (MarkAllNotificationsRead u)"
  by (simp_all only: social_stmts quiet_base)

lemmas quiet_intros =
  quiet.rel_intros quiet_base quiet_video_stmts quiet_user_stmts quiet_social_stmts

section \<open>Exactly one response\<close>

definition writes1 :: "'a io \<Rightarrow> bool" where
  "writes1 m \<longleftrightarrow> (\<forall>w. \<exists>r. w_out (snd (m w)) = w_out w @ [r])"

lemma writes1_write: "writes1 (write_response s b)"
  by (simp add: writes1_def write_response_def)

lemma writes1_RespondError: "writes1 (RespondError e)"
  by (simp add: RespondError_def writes1_write split: prod.split)

lemma writes1_Respond:
  "writes1 (RespondOK d)" "writes1 (RespondCreated d)" "writes1 (RespondList xs c)"
  "writes1 RespondNoContent"
  by (simp_all add: RespondOK_def RespondCreated_def RespondList_def RespondNoContent_def
      writes1_write)

lemma writes1_tryM:
  assumes "quiet.rel m" "\<And>e. writes1 (h e)" "\<And>x. writes1 (k x)"
  shows "writes1 (tryM m h k)"
  unfolding writes1_def
proof
  fix w
  have m: "w_out (snd (m w)) = w_out w" using assms(1) by (simp add: quiet.rel_def)
  have "\<exists>r. w_out (snd (h e v)) = w_out v @ [r]" for e v
    using assms(2) by (simp add: writes1_def)
  moreover have "\<exists>r. w_out (snd (k x v)) = w_out v @ [r]" for x v
    using assms(3) by (simp add: writes1_def)
  ultimately show "\<exists>r. w_out (snd (tryM m h k w)) = w_out w @ [r]"
    unfolding tryM_run m [symmetric] by (cases "fst (m w)") simp_all
qed

lemma writes1_if: "(b \<Longrightarrow> writes1 m) \<Longrightarrow> (\<not> b \<Longrightarrow> writes1 m') \<Longrightarrow> writes1 (if b then m else m')"
  by simp

lemma writes1_option:
  "(x = None \<Longrightarrow> writes1 m) \<Longrightarrow> (\<And>y. x = Some y \<Longrightarrow> writes1 (f y)) \<Longrightarrow>
    writes1 (case x of None \<Rightarrow> m | Some y \<Rightarrow> f y)"
  by (cases x) auto

lemma writes1_sum:
  "(\<And>e. x = Inl e \<Longrightarrow> writes1 (g e)) \<Longrightarrow> (\<And>y. x = Inr y \<Longrightarrow> writes1 (f y)) \<Longrightarrow>
    writes1 (case x of Inl e \<Rightarrow> g e | Inr y \<Rightarrow> f y)"
  by (cases x) auto

lemma writes1_prod: "(\<And>a b. x = (a, b) \<Longrightarrow> writes1 (f a b)) \<Longrightarrow> writes1 (case x of (a, b) \<Rightarrow> f a b)"
  by (cases x) auto

lemma writes1_let: "writes1 (f x) \<Longrightarrow> writes1 (Let x f)"
  by simp

lemmas writes1_intros =
  writes1_write writes1_RespondError writes1_Respond writes1_tryM writes1_if writes1_option
  writes1_sum writes1_prod writes1_let

end
