(* ===== verification/Subtree.thy ===== *)
theory Subtree
  imports SocialQueries
begin

text \<open>
  The reply forest.  \<^verbatim>\<open>CountCommentSubtree\<close> counts with a recursive query what
  \<^verbatim>\<open>DeleteCommentByID\<close> removes by cascade; this theory shows that the query ends
  and that the two agree, for a table whose parent references are ranked (every
  reply has a higher rank than its parent).  \<^verbatim>\<open>ranked_rows\<close> is kept by every
  statement of the program: rows are only inserted as replies to existing rows, and
  parents are never updated.
\<close>

definition ranks :: "(uuid \<Rightarrow> nat) \<Rightarrow> Comment list \<Rightarrow> bool" where
  "ranks rk cs \<longleftrightarrow> (\<forall>c \<in> set cs. \<forall>p. c_ParentID c = Some p \<longrightarrow> rk p < rk (c_ID c))"

definition ranked_rows :: "Comment list \<Rightarrow> bool" where
  "ranked_rows cs \<longleftrightarrow> (\<exists>rk. ranks rk cs)"

lemma ranks_filter: "ranks rk cs \<Longrightarrow> ranks rk (filter P cs)"
  by (auto simp: ranks_def)

lemma ranks_subset: "ranks rk cs \<Longrightarrow> set cs' \<subseteq> set cs \<Longrightarrow> ranks rk cs'"
  by (auto simp: ranks_def)

lemma ranked_subset: "ranked_rows cs \<Longrightarrow> set cs' \<subseteq> set cs \<Longrightarrow> ranked_rows cs'"
  unfolding ranked_rows_def using ranks_subset by blast

text \<open>A new row whose parent, if any, is an older row.\<close>

lemma ranked_snoc:
  assumes "ranked_rows cs" "c_ID c \<notin> c_ID ` set cs"
    "\<forall>r \<in> set cs. c_ParentID r \<noteq> Some (c_ID c)"
    "\<forall>p. c_ParentID c = Some p \<longrightarrow> p \<in> c_ID ` set cs"
  shows "ranked_rows (cs @ [c])"
proof -
  obtain rk where rk: "ranks rk cs" using assms(1) by (auto simp: ranked_rows_def)
  define rk' where "rk' = rk (c_ID c := Suc (case c_ParentID c of None \<Rightarrow> 0 | Some p \<Rightarrow> rk p))"
  have "ranks rk' cs"
    unfolding ranks_def
  proof (intro ballI allI impI)
    fix r p assume r: "r \<in> set cs" and p: "c_ParentID r = Some p"
    have "c_ID r \<noteq> c_ID c" using r assms(2) by (metis imageI)
    moreover have "p \<noteq> c_ID c" using r p assms(3) by auto
    ultimately show "rk' p < rk' (c_ID r)" using rk r p by (simp add: rk'_def ranks_def)
  qed
  moreover have "rk' p < rk' (c_ID c)" if "c_ParentID c = Some p" for p
  proof -
    have "p \<noteq> c_ID c" using that assms(2,4) by blast
    then show ?thesis using that by (simp add: rk'_def)
  qed
  ultimately show ?thesis by (auto simp: ranked_rows_def ranks_def)
qed

section \<open>The replies of a set of rows\<close>

lemma replies_Nil [simp]: "replies cs [] = []"
  by (simp add: replies_def)

lemma replies_Cons:
  "replies cs (i # ids) = map c_ID (filter (\<lambda>c. c_ParentID c = Some i) cs) @ replies cs ids"
  by (simp add: replies_def)

lemma set_replies: "set (replies cs ids) = c_ID ` set (filter (child_of ids) cs)"
  by (induction ids) (auto simp: replies_Cons child_of_def split: option.splits)

lemma distinct_replies:
  assumes "distinct (map c_ID cs)"
  shows "distinct ids \<Longrightarrow> distinct (replies cs ids)"
proof (induction ids)
  case (Cons i ids)
  have "distinct (map c_ID (filter (\<lambda>c. c_ParentID c = Some i) cs))"
    using assms by (rule distinct_map_filter)
  moreover have "set (map c_ID (filter (\<lambda>c. c_ParentID c = Some i) cs)) \<inter> set (replies cs ids) = {}"
  proof (rule ccontr)
    assume "\<not> ?thesis"
    then obtain a b where ab: "a \<in> set cs" "c_ParentID a = Some i" "b \<in> set cs" "child_of ids b"
      "c_ID a = c_ID b"
      unfolding set_replies by auto
    then have "a = b" using key_inj [OF assms] by blast
    then show False using ab Cons.prems by (auto simp: child_of_def)
  qed
  ultimately show ?case using Cons by (simp add: replies_Cons)
qed simp

lemma length_replies:
  assumes "distinct (map c_ID cs)" "distinct ids"
  shows "length (replies cs ids) = length (filter (child_of ids) cs)"
proof -
  have "distinct (map c_ID (filter (child_of ids) cs))" using assms(1) by (rule distinct_map_filter)
  then have "card (set (replies cs ids)) = length (map c_ID (filter (child_of ids) cs))"
    unfolding set_replies by (metis distinct_card list.set_map)
  moreover have "card (set (replies cs ids)) = length (replies cs ids)"
    using distinct_replies [OF assms] by (rule distinct_card)
  ultimately show ?thesis by simp
qed

lemma child_of_cong: "set ids = set ids' \<Longrightarrow> child_of ids = child_of ids'"
  by (auto simp: child_of_def fun_eq_iff split: option.splits)

lemma cascade_cong:
  assumes "set ids = set ids'"
  shows "cascade ids cs = cascade ids' cs"
  unfolding cascade.simps [of ids cs] cascade.simps [of ids' cs] child_of_cong [OF assms] ..

section \<open>The query and the cascade\<close>

text \<open>
  One step of the argument: \<^verbatim>\<open>done\<close> are the rows already taken, \<^verbatim>\<open>ids\<close> the
  working table.  What the query still returns is what the cascade still removes.
\<close>

lemma subtree_cascade:
  assumes dist: "distinct (map c_ID cs)" and rk: "ranks rk cs"
  shows "distinct ids \<Longrightarrow> set ids \<subseteq> done \<Longrightarrow>
    rest = filter (\<lambda>c. c_ID c \<notin> done) cs \<Longrightarrow>
    \<forall>c \<in> set cs. c_ID c \<in> done \<and> c_ID c \<noteq> root \<longrightarrow> (\<exists>p \<in> done. c_ParentID c = Some p) \<Longrightarrow>
    \<forall>x \<in> done. rk root \<le> rk x \<Longrightarrow>
    filter (child_of ids) cs = filter (child_of ids) rest \<Longrightarrow>
    \<exists>rows. subtree_rows cs (replies cs ids) = Some rows \<and> distinct rows \<and>
      set rows \<subseteq> c_ID ` set rest \<and>
      cascade ids rest = filter (\<lambda>c. c_ID c \<notin> set rows) rest \<and>
      (\<forall>c \<in> set rest. c_ID c \<in> set rows \<longrightarrow>
         (\<exists>p. c_ParentID c = Some p \<and> (p \<in> set ids \<or> p \<in> set rows)))"
proof (induction "length rest" arbitrary: ids "done" rest rule: less_induct)
  case less
  note d = less.prems
  define W where "W = replies cs ids"
  define hits where "hits = filter (child_of ids) rest"
  have setW: "set W = c_ID ` set hits" using d(6) by (simp add: W_def set_replies hits_def del: set_filter)
  show ?case
  proof (cases "hits = []")
    case True
    then have "W = []" using setW by simp
    moreover have "subtree_rows cs [] = Some []" by (subst subtree_rows.simps) simp
    moreover have "cascade ids rest = rest"
      using True by (subst cascade.simps) (simp add: hits_def [symmetric])
    ultimately show ?thesis by (simp add: W_def [symmetric])
  next
    case False
    define rest' where "rest' = filter (\<lambda>c. \<not> child_of ids c) rest"
    define done' where "done' = done \<union> set W"
    have Wne: "W \<noteq> []" using setW False by auto
    have hit_in: "h \<in> set hits \<Longrightarrow> h \<in> set cs \<and> c_ID h \<notin> done \<and> child_of ids h" for h
      using d(3) by (auto simp: hits_def)
    have rest': "rest' = filter (\<lambda>c. c_ID c \<notin> done') cs"
    proof -
      have "c_ID c \<in> set W \<longleftrightarrow> child_of ids c" if "c \<in> set rest" for c
      proof
        assume "c_ID c \<in> set W"
        then obtain h where h: "h \<in> set hits" "c_ID h = c_ID c" using setW by auto
        then have "h = c" using hit_in that d(3) key_inj [OF dist] by auto
        then show "child_of ids c" using h hit_in by auto
      next
        assume "child_of ids c"
        then show "c_ID c \<in> set W" using that setW by (auto simp: hits_def)
      qed
      then have "rest' = filter (\<lambda>c. c_ID c \<notin> set W) rest"
        unfolding rest'_def by (intro filter_cong) auto
      then show ?thesis using d(3) by (simp add: done'_def conj_commute)
    qed
    have len: "length rest' < length rest"
    proof -
      have "length hits > 0" using False by simp
      then show ?thesis
        using sum_length_filter_compl [of "child_of ids" rest] unfolding rest'_def hits_def by linarith
    qed
    have parents: "\<forall>c \<in> set cs. c_ID c \<in> done' \<and> c_ID c \<noteq> root \<longrightarrow>
        (\<exists>p \<in> done. c_ParentID c = Some p)"
    proof (intro ballI impI)
      fix c assume c: "c \<in> set cs" "c_ID c \<in> done' \<and> c_ID c \<noteq> root"
      show "\<exists>p \<in> done. c_ParentID c = Some p"
      proof (cases "c_ID c \<in> done")
        case True
        then show ?thesis using c d(4) by blast
      next
        case False
        then obtain h where "h \<in> set hits" "c_ID h = c_ID c" using c setW by (auto simp: done'_def)
        then have "child_of ids c" using hit_in c key_inj [OF dist] by blast
        then show ?thesis using d(2) by (auto simp: child_of_def split: option.splits)
      qed
    qed
    have rank': "\<forall>x \<in> done'. rk root \<le> rk x"
    proof
      fix x assume "x \<in> done'"
      then consider "x \<in> done" | h where "h \<in> set hits" "x = c_ID h"
        using setW by (auto simp: done'_def)
      then show "rk root \<le> rk x"
      proof cases
        case 2
        then obtain p where p: "c_ParentID h = Some p" "p \<in> done"
          using hit_in d(2) by (fastforce simp: child_of_def split: option.splits)
        then have "rk p < rk x" using rk 2 hit_in by (auto simp: ranks_def)
        then show ?thesis using d(5) p by (metis le_less_trans less_imp_le_nat)
      qed (use d(5) in blast)
    qed
    have fresh: "filter (child_of W) cs = filter (child_of W) rest'"
    proof -
      have "c_ID c \<notin> done'" if c: "c \<in> set cs" "child_of W c" for c
      proof
        assume cd: "c_ID c \<in> done'"
        obtain w where w: "c_ParentID c = Some w" "w \<in> set W"
          using c by (auto simp: child_of_def split: option.splits)
        have wn: "w \<notin> done" using w setW hit_in by auto
        show False
        proof (cases "c_ID c = root")
          case True
          have "rk w < rk root" using rk c w True by (auto simp: ranks_def)
          moreover have "rk root \<le> rk w" using rank' w by (simp add: done'_def)
          ultimately show False by simp
        next
          case False
          then obtain p where "p \<in> done" "c_ParentID c = Some p" using parents c cd by blast
          then show False using w wn by simp
        qed
      qed
      then show ?thesis unfolding rest' filter_filter by (intro filter_cong) auto
    qed
    have "\<exists>rows. subtree_rows cs (replies cs W) = Some rows \<and> distinct rows \<and>
        set rows \<subseteq> c_ID ` set rest' \<and>
        cascade W rest' = filter (\<lambda>c. c_ID c \<notin> set rows) rest' \<and>
        (\<forall>c \<in> set rest'. c_ID c \<in> set rows \<longrightarrow>
           (\<exists>p. c_ParentID c = Some p \<and> (p \<in> set W \<or> p \<in> set rows)))"
    proof (rule less.hyps [OF len _ _ rest'])
      show "distinct W" unfolding W_def using dist d(1) by (rule distinct_replies)
      show "set W \<subseteq> done'" by (simp add: done'_def)
      show "\<forall>c \<in> set cs. c_ID c \<in> done' \<and> c_ID c \<noteq> root \<longrightarrow> (\<exists>p \<in> done'. c_ParentID c = Some p)"
        using parents by (auto simp: done'_def)
    qed (use rank' fresh in auto)
    then obtain rows where rows: "subtree_rows cs (replies cs W) = Some rows" "distinct rows"
      "set rows \<subseteq> c_ID ` set rest'" "cascade W rest' = filter (\<lambda>c. c_ID c \<notin> set rows) rest'"
      "\<forall>c \<in> set rest'. c_ID c \<in> set rows \<longrightarrow>
         (\<exists>p. c_ParentID c = Some p \<and> (p \<in> set W \<or> p \<in> set rows))" by blast
    have q: "subtree_rows cs W = Some (W @ rows)"
      using Wne rows(1) by (subst subtree_rows.simps) simp
    have disj: "set W \<inter> set rows = {}" using rows(3) unfolding rest' done'_def by auto
    have cas: "cascade ids rest = cascade W rest'"
    proof -
      obtain h hs where hs: "hits = h # hs" using False by (cases hits) auto
      have "cascade ids rest = cascade (map c_ID hits) rest'"
        by (subst cascade.simps) (simp add: hits_def [symmetric] rest'_def hs)
      also have "\<dots> = cascade W rest'" by (rule cascade_cong) (simp add: setW)
      finally show ?thesis .
    qed
    have "rest' = filter (\<lambda>c. c_ID c \<notin> set W) rest"
      using rest' d(3) by (simp add: done'_def conj_commute)
    then have "cascade ids rest = filter (\<lambda>c. c_ID c \<notin> set (W @ rows)) rest"
      using cas rows(4) by (simp add: conj_commute)
    moreover have "set (W @ rows) \<subseteq> c_ID ` set rest"
      using rows(3) setW by (auto simp: hits_def rest'_def)
    moreover have "distinct (W @ rows)"
      using disj rows(2) dist d(1) by (simp add: W_def distinct_replies)
    moreover have "\<forall>c \<in> set rest. c_ID c \<in> set (W @ rows) \<longrightarrow>
        (\<exists>p. c_ParentID c = Some p \<and> (p \<in> set ids \<or> p \<in> set (W @ rows)))"
    proof (intro ballI impI)
      fix c assume c: "c \<in> set rest" "c_ID c \<in> set (W @ rows)"
      show "\<exists>p. c_ParentID c = Some p \<and> (p \<in> set ids \<or> p \<in> set (W @ rows))"
      proof (cases "c_ID c \<in> set W")
        case True
        then obtain h where "h \<in> set hits" "c_ID h = c_ID c" using setW by auto
        then have "child_of ids c" using hit_in c d(3) key_inj [OF dist] by auto
        then show ?thesis by (auto simp: child_of_def split: option.splits)
      next
        case False
        then have "c \<in> set rest'" "c_ID c \<in> set rows"
          using c \<open>rest' = filter (\<lambda>c. c_ID c \<notin> set W) rest\<close> by auto
        then show ?thesis using rows(5) by auto
      qed
    qed
    ultimately show ?thesis using q by (auto simp: W_def [symmetric])
  qed
qed

text \<open>
  For a comment of the table: the recursive query ends with some rows, among them the
  comment, each once; deleting the comment removes exactly those rows; and all
  of them belong to the video of the comment.
\<close>

lemma subtree_delete:
  assumes dist: "distinct (map c_ID cs)" and rk: "ranked_rows cs" and c: "c \<in> set cs"
  obtains rows where "subtree_rows cs [c_ID c] = Some rows" "distinct rows" "c_ID c \<in> set rows"
    "set rows \<subseteq> c_ID ` set cs"
    "delete_comments_where (\<lambda>x. c_ID x = c_ID c) cs = filter (\<lambda>x. c_ID x \<notin> set rows) cs"
    "\<forall>x \<in> set cs. c_ID x \<in> set rows \<longrightarrow> x = c \<or> (\<exists>p \<in> set rows. c_ParentID x = Some p)"
proof -
  obtain r where r: "ranks r cs" using rk by (auto simp: ranked_rows_def)
  define rest where "rest = filter (\<lambda>x. c_ID x \<noteq> c_ID c) cs"
  have noself: "filter (child_of [c_ID c]) cs = filter (child_of [c_ID c]) rest"
    unfolding rest_def filter_filter
    by (intro filter_cong refl) (use r in \<open>auto simp: child_of_def ranks_def split: option.splits\<close>)
  have "\<exists>rows. subtree_rows cs (replies cs [c_ID c]) = Some rows \<and> distinct rows \<and>
      set rows \<subseteq> c_ID ` set rest \<and>
      cascade [c_ID c] rest = filter (\<lambda>x. c_ID x \<notin> set rows) rest \<and>
      (\<forall>x \<in> set rest. c_ID x \<in> set rows \<longrightarrow>
         (\<exists>p. c_ParentID x = Some p \<and> (p \<in> set [c_ID c] \<or> p \<in> set rows)))"
    by (rule subtree_cascade [OF dist r, of "[c_ID c]" "{c_ID c}" rest "c_ID c"])
       (use noself in \<open>auto simp: rest_def\<close>)
  then obtain rows where rows: "subtree_rows cs (replies cs [c_ID c]) = Some rows" "distinct rows"
    "set rows \<subseteq> c_ID ` set rest" "cascade [c_ID c] rest = filter (\<lambda>x. c_ID x \<notin> set rows) rest"
    "\<forall>x \<in> set rest. c_ID x \<in> set rows \<longrightarrow>
       (\<exists>p. c_ParentID x = Some p \<and> (p \<in> set [c_ID c] \<or> p \<in> set rows))" by blast
  have "subtree_rows cs [c_ID c] = Some (c_ID c # rows)"
    using rows(1) by (subst subtree_rows.simps) simp
  moreover have "c_ID c \<notin> set rows" using rows(3) by (auto simp: rest_def)
  moreover have "delete_comments_where (\<lambda>x. c_ID x = c_ID c) cs = filter (\<lambda>x. c_ID x \<notin> set (c_ID c # rows)) cs"
  proof -
    have "map c_ID (filter (\<lambda>x. c_ID x = c_ID c) cs) = [c_ID c]"
      using filter_key_single [OF dist c] by simp
    then show ?thesis using rows(4) by (simp add: delete_comments_where_def rest_def conj_commute)
  qed
  moreover have "\<forall>x \<in> set cs. c_ID x \<in> set (c_ID c # rows) \<longrightarrow>
      x = c \<or> (\<exists>p \<in> set (c_ID c # rows). c_ParentID x = Some p)"
  proof (intro ballI impI)
    fix x assume x: "x \<in> set cs" "c_ID x \<in> set (c_ID c # rows)"
    show "x = c \<or> (\<exists>p \<in> set (c_ID c # rows). c_ParentID x = Some p)"
    proof (cases "c_ID x = c_ID c")
      case True
      then show ?thesis using key_inj [OF dist] x c by blast
    next
      case False
      then show ?thesis using x rows(5) by (auto simp: rest_def)
    qed
  qed
  ultimately show ?thesis using that [of "c_ID c # rows"] rows(2,3) c by (auto simp: rest_def)
qed

text \<open>With the composite foreign key, the whole subtree is in one video.\<close>

lemma subtree_one_video:
  assumes ok: "comments_ok d" and rk: "ranked_rows (comments d)" and c: "c \<in> set (comments d)"
    and par: "\<forall>x \<in> set (comments d). c_ID x \<in> R \<longrightarrow> x = c \<or> (\<exists>p \<in> R. c_ParentID x = Some p)"
    and x: "x \<in> set (comments d)" "c_ID x \<in> R"
  shows "c_VideoID x = c_VideoID c"
proof -
  obtain r where r: "ranks r (comments d)" using rk by (auto simp: ranked_rows_def)
  have dist: "distinct (map c_ID (comments d))" using ok by (simp add: comments_ok_def)
  show ?thesis using x
  proof (induction "r (c_ID x)" arbitrary: x rule: less_induct)
    case less
    show ?case
    proof (cases "x = c")
      case False
      then obtain p where p: "p \<in> R" "c_ParentID x = Some p" using par less.prems by blast
      then have "(p, c_VideoID x) \<in> (\<lambda>c. (c_ID c, c_VideoID c)) ` set (comments d)"
        using ok less.prems by (auto simp: comments_ok_def list_all_iff split: option.splits)
      then obtain y where y: "y \<in> set (comments d)" "c_ID y = p" "c_VideoID y = c_VideoID x" by auto
      have "r (c_ID y) < r (c_ID x)" using r less.prems p y by (auto simp: ranks_def)
      then have "c_VideoID y = c_VideoID c" using less.hyps y p by auto
      then show ?thesis using y by simp
    qed simp
  qed
qed

end
