(* ===== verification/Triples.thy ===== *)
theory Triples
  imports Rules Subtree
begin

text \<open>
  Hoare triples over the tables.  \<^verbatim>\<open>triple P m Q E\<close>: started with tables that
  satisfy \<^verbatim>\<open>P\<close>, the computation returns a value \<^verbatim>\<open>x\<close> with tables satisfying
  \<^verbatim>\<open>Q x\<close>, or an error \<^verbatim>\<open>e\<close> with tables satisfying \<^verbatim>\<open>E e\<close>, whatever
  the fault schedule.  Statements that fail leave the tables alone, transactions roll
  back; the rules say so once for \<^verbatim>\<open>query\<close>, \<^verbatim>\<open>exec\<close> and \<^verbatim>\<open>runTx\<close>.
\<close>

definition triple ::
  "(db \<Rightarrow> bool) \<Rightarrow> 'a io \<Rightarrow> ('a \<Rightarrow> db \<Rightarrow> bool) \<Rightarrow> (goerr \<Rightarrow> db \<Rightarrow> bool) \<Rightarrow> bool"
where
  "triple P m Q E \<longleftrightarrow> (\<forall>w. P (w_db w) \<longrightarrow>
     (case fst (m w) of Inl e \<Rightarrow> E e (w_db (snd (m w))) | Inr x \<Rightarrow> Q x (w_db (snd (m w)))))"

lemma tripleI:
  assumes "\<And>w x. P (w_db w) \<Longrightarrow> fst (m w) = Inr x \<Longrightarrow> Q x (w_db (snd (m w)))"
    "\<And>w e. P (w_db w) \<Longrightarrow> fst (m w) = Inl e \<Longrightarrow> E e (w_db (snd (m w)))"
  shows "triple P m Q E"
  using assms by (auto simp: triple_def split: sum.split)

lemma tripleD:
  assumes "triple P m Q E" "P (w_db w)"
  shows "fst (m w) = Inr x \<Longrightarrow> Q x (w_db (snd (m w)))"
    and "fst (m w) = Inl e \<Longrightarrow> E e (w_db (snd (m w)))"
proof -
  have "case fst (m w) of Inl e \<Rightarrow> E e (w_db (snd (m w))) | Inr x \<Rightarrow> Q x (w_db (snd (m w)))"
    using assms by (simp add: triple_def)
  then show "fst (m w) = Inr x \<Longrightarrow> Q x (w_db (snd (m w)))"
    and "fst (m w) = Inl e \<Longrightarrow> E e (w_db (snd (m w)))" by auto
qed

lemma triple_weaken:
  assumes "triple P' m Q' E'" "\<And>d. P d \<Longrightarrow> P' d" "\<And>x d. Q' x d \<Longrightarrow> Q x d" "\<And>e d. E' e d \<Longrightarrow> E e d"
  shows "triple P m Q E"
proof (rule tripleI)
  fix w x assume "P (w_db w)" "fst (m w) = Inr x"
  then show "Q x (w_db (snd (m w)))" using tripleD(1) [OF assms(1)] assms(2,3) by blast
next
  fix w e assume "P (w_db w)" "fst (m w) = Inl e"
  then show "E e (w_db (snd (m w)))" using tripleD(2) [OF assms(1)] assms(2,4) by blast
qed

lemma triple_ok: "(\<And>d. P d \<Longrightarrow> Q x d) \<Longrightarrow> triple P (ok x) Q E"
  by (simp add: triple_def ok_def)

lemma triple_throw: "(\<And>d. P d \<Longrightarrow> E e d) \<Longrightarrow> triple P (throw e) Q E"
  by (simp add: triple_def throw_def)

lemma triple_tryM:
  assumes m: "triple P m Q' E'" and h: "\<And>e. triple (E' e) (h e) Q E"
    and k: "\<And>x. triple (Q' x) (k x) Q E"
  shows "triple P (tryM m h k) Q E"
proof (rule tripleI)
  fix w x assume P: "P (w_db w)" and r: "fst (tryM m h k w) = Inr x"
  show "Q x (w_db (snd (tryM m h k w)))"
    using r tripleD [OF m P] tripleD(1) [OF h] tripleD(1) [OF k]
    by (cases "fst (m w)") (auto simp: tryM_run)
next
  fix w e assume P: "P (w_db w)" and r: "fst (tryM m h k w) = Inl e"
  show "E e (w_db (snd (tryM m h k w)))"
    using r tripleD [OF m P] tripleD(2) [OF h] tripleD(2) [OF k]
    by (cases "fst (m w)") (auto simp: tryM_run)
qed

lemma triple_bindM:
  assumes "triple P m Q' E" "\<And>x. triple (Q' x) (k x) Q E"
  shows "triple P (bindM m k) Q E"
  unfolding bindM_def by (rule triple_tryM [OF assms(1) _ assms(2)]) (simp add: triple_throw)

lemma triple_if:
  "(b \<Longrightarrow> triple P m Q E) \<Longrightarrow> (\<not> b \<Longrightarrow> triple P m' Q E) \<Longrightarrow> triple P (if b then m else m') Q E"
  by simp

lemma triple_option:
  "(x = None \<Longrightarrow> triple P m Q E) \<Longrightarrow> (\<And>y. x = Some y \<Longrightarrow> triple P (f y) Q E) \<Longrightarrow>
    triple P (case x of None \<Rightarrow> m | Some y \<Rightarrow> f y) Q E"
  by (cases x) auto

lemma triple_sum:
  "(\<And>e. x = Inl e \<Longrightarrow> triple P (g e) Q E) \<Longrightarrow> (\<And>y. x = Inr y \<Longrightarrow> triple P (f y) Q E) \<Longrightarrow>
    triple P (case x of Inl e \<Rightarrow> g e | Inr y \<Rightarrow> f y) Q E"
  by (cases x) auto

lemma triple_forM: "(\<And>x. triple P (f x) (\<lambda>_. P) (\<lambda>_. P)) \<Longrightarrow> triple P (forM xs f) (\<lambda>_. P) (\<lambda>_. P)"
  by (induction xs) (auto intro: triple_ok triple_bindM)

text \<open>A computation that does not touch the tables.\<close>

lemma triple_dbsame:
  assumes "dbsame.rel m"
  shows "triple P m (\<lambda>_. P) (\<lambda>_. P)"
proof -
  have "w_db (snd (m w)) = w_db w" for w using assms by (simp add: dbsame.rel_def)
  then show ?thesis by (auto intro: tripleI)
qed

lemma dbsame_fault: "dbsame.rel fault"
  by (simp add: dbsame.rel_def)

lemma dbsame_pure: "dbsame.rel (\<lambda>w. (f w, w))"
  by (simp add: dbsame.rel_def)

lemma dbsame_query: "dbsame.rel (query f)"
  unfolding query_def by (intro dbsame.rel_bindM dbsame_fault dbsame_pure)

lemma dbsame_new_uuid: "dbsame.rel new_uuid"
  by (simp add: dbsame.rel_def new_uuid_def)

lemma dbsame_now: "dbsame.rel now_io"
  by (simp add: dbsame.rel_def now_io_def)

lemma dbsame_write: "dbsame.rel (write_response s b)"
  by (simp add: dbsame.rel_def write_response_def)

lemma dbsame_Respond:
  "dbsame.rel (RespondOK d)" "dbsame.rel (RespondCreated d)" "dbsame.rel (RespondList xs c)"
  "dbsame.rel RespondNoContent" "dbsame.rel (RespondError e)"
  by (simp_all add: RespondOK_def RespondCreated_def RespondList_def RespondNoContent_def
      RespondError_def dbsame_write split: prod.split)

lemma dbsame_reads:
  "dbsame.rel (GetVideoByID i)" "dbsame.rel (GetVideoByIDForUpdate i)"
  "dbsame.rel (GetPendingVideoByUser u)" "dbsame.rel (GetVideoStatusByID i)"
  "dbsame.rel (GetVideoDetail i vw)" "dbsame.rel (ListFeedVideos u vw c m)"
  "dbsame.rel (ListVideosByUser u ow c m)" "dbsame.rel (ListVideoKeysByUser u)"
  "dbsame.rel (GetUserByID i)" "dbsame.rel (GetUserByZitadelID z)"
  "dbsame.rel (GetUserProfileWithStats i v)" "dbsame.rel (GetFollow a b)"
  "dbsame.rel (IsFollowing a b)" "dbsame.rel (CountFollowers a)" "dbsame.rel (CountFollowing a)"
  "dbsame.rel (ListFollowers v a c m)" "dbsame.rel (ListFollowing a c m)"
  "dbsame.rel (IsLiked u v)" "dbsame.rel (CountCommentSubtree i)" "dbsame.rel (GetCommentByID i)"
  "dbsame.rel (ListCommentsByVideo v c m)" "dbsame.rel (ListNotifications u c m)"
  by (simp_all only: video_stmts user_stmts social_stmts dbsame_query)

lemmas dbsame_intros = dbsame.rel_intros dbsame_fault dbsame_query dbsame_new_uuid dbsame_now
  dbsame_write dbsame_Respond dbsame_reads

text \<open>Reading: the value is that of the current tables.\<close>

lemma triple_query:
  assumes "\<And>d x. P d \<Longrightarrow> f d = Inr x \<Longrightarrow> Q x d" "\<And>d e. P d \<Longrightarrow> E e d"
  shows "triple P (query f) Q E"
proof (rule tripleI)
  fix w x assume "P (w_db w)" "fst (query f w) = Inr x"
  then show "Q x (w_db (snd (query f w)))"
    by (auto simp: query_def bindM_run assms(1) split: sum.splits)
next
  fix w e assume "P (w_db w)" "fst (query f w) = Inl e"
  then show "E e (w_db (snd (query f w)))"
    by (auto simp: query_def bindM_run assms(2) split: sum.splits)
qed

text \<open>Writing: a statement that succeeds has established the constraints.\<close>

lemma triple_exec:
  assumes "\<And>now d x d'. P d \<Longrightarrow> f now d = Inr (x, d') \<Longrightarrow> constraints d' \<Longrightarrow> Q x d'"
    "\<And>d e. P d \<Longrightarrow> E e d"
  shows "triple P (exec f) Q E"
proof (rule tripleI)
  fix w x assume P: "P (w_db w)" "fst (exec f w) = Inr x"
  then show "Q x (w_db (snd (exec f w)))"
    by (auto simp: exec_def bindM_run intro: assms(1) split: sum.splits prod.splits if_splits)
next
  fix w e assume P: "P (w_db w)" "fst (exec f w) = Inl e"
  then show "E e (w_db (snd (exec f w)))"
    by (auto simp: exec_def bindM_run intro: assms(2) split: sum.splits prod.splits if_splits)
qed

lemma triple_exec_insert:
  assumes "\<And>i now d x d'. P d \<Longrightarrow> f i now d = Inr (x, d') \<Longrightarrow> constraints d' \<Longrightarrow> Q x d'"
    "\<And>d e. P d \<Longrightarrow> E e d"
  shows "triple P (exec_insert f) Q E"
  unfolding exec_insert_def
proof (rule triple_bindM [where Q' = "\<lambda>_. P"])
  show "triple P new_uuid (\<lambda>_. P) E" by (simp add: triple_def new_uuid_def)
qed (rule triple_exec, auto intro: assms)

lemma triple_update_videos:
  assumes "\<And>now d. P d \<Longrightarrow> constraints (d\<lparr>videos := update_rows c (f now) (videos d)\<rparr>) \<Longrightarrow>
      Q () (d\<lparr>videos := update_rows c (f now) (videos d)\<rparr>)" "\<And>d e. P d \<Longrightarrow> E e d"
  shows "triple P (update_videos c f) Q E"
  unfolding update_videos_def by (rule triple_exec) (auto intro: assms)

lemma triple_update_video_one:
  assumes "\<And>now d v. P d \<Longrightarrow> find_row c (videos d) = Some v \<Longrightarrow>
      constraints (d\<lparr>videos := update_rows c (f now) (videos d)\<rparr>) \<Longrightarrow>
      Q (f now v) (d\<lparr>videos := update_rows c (f now) (videos d)\<rparr>)" "\<And>d e. P d \<Longrightarrow> E e d"
  shows "triple P (update_video_one c f) Q E"
  unfolding update_video_one_def by (rule triple_exec) (auto intro: assms split: option.splits)

lemma triple_update_user_one:
  assumes "\<And>now d u. P d \<Longrightarrow> find_row c (users d) = Some u \<Longrightarrow>
      constraints (d\<lparr>users := update_rows c (f now) (users d)\<rparr>) \<Longrightarrow>
      Q (f now u) (d\<lparr>users := update_rows c (f now) (users d)\<rparr>)" "\<And>d e. P d \<Longrightarrow> E e d"
  shows "triple P (update_user_one c f) Q E"
  unfolding update_user_one_def by (rule triple_exec) (auto intro: assms split: option.splits)

text \<open>
  A transaction needs the invariant only where its body returns without error;
  every other exit restores the tables it began with.
\<close>

lemma triple_runTx:
  assumes "triple P fn Q (\<lambda>_ _. True)" "\<And>d e. P d \<Longrightarrow> E e d"
  shows "triple P (runTx fn) Q E"
proof -
  have "triple P (\<lambda>w0. case fn w0 of
          (Inl e, w) \<Rightarrow> (Inl e, rollback_to (w_db w0) w)
        | (Inr x, w) \<Rightarrow>
            (case fault w of
               (Inl _, w') \<Rightarrow> (Inl (Wrap ErrInternal ''commit transaction''), rollback_to (w_db w0) w')
             | (Inr _, w') \<Rightarrow> (Inr x, w'))) Q E" (is "triple P ?body Q E")
  proof -
    have *: "case fst (?body w) of Inl e \<Rightarrow> E e (w_db (snd (?body w))) | Inr x \<Rightarrow> Q x (w_db (snd (?body w)))"
      if P: "P (w_db w)" for w
    proof (cases "fn w")
      case (Pair r w1)
      show ?thesis
      proof (cases r)
        case (Inl e)
        then show ?thesis using Pair P assms(2) by (simp add: rollback_to_def)
      next
        case (Inr x)
        then have "Q x (w_db w1)" using tripleD(1) [OF assms(1) P, of x] Pair by simp
        moreover obtain fr w2 where f: "fault w1 = (fr, w2)" by (cases "fault w1")
        moreover have "w_db w2 = w_db w1" using fault_frame(1) [of w1] f by simp
        ultimately show ?thesis using Pair Inr P assms(2)
          by (cases fr) (simp_all add: rollback_to_def)
      qed
    qed
    then show ?thesis unfolding triple_def by blast
  qed
  then show ?thesis
    unfolding runTx_def
    by (intro triple_tryM [where E' = "\<lambda>_. P" and Q' = "\<lambda>_. P"] triple_dbsame dbsame_fault
        triple_throw assms(2))
qed

text \<open>Invariants are triples; on invariants the combinators of \<^verbatim>\<open>step_rel\<close> apply.\<close>

definition preserves :: "(db \<Rightarrow> bool) \<Rightarrow> 'a io \<Rightarrow> bool" where
  "preserves I m \<longleftrightarrow> triple I m (\<lambda>_. I) (\<lambda>_. I)"

lemma preserves_rel: "preserves I m \<longleftrightarrow> step_rel.rel (\<lambda>w w'. I (w_db w) \<longrightarrow> I (w_db w')) m"
  by (auto simp: preserves_def triple_def dbinv.rel_def split: sum.splits)

lemma preserves_dbsame: "dbsame.rel m \<Longrightarrow> preserves I m"
  unfolding preserves_def by (rule triple_dbsame)

lemma preserves_ok: "preserves I (ok x)"
  by (simp add: preserves_def triple_ok)

lemma preserves_throw: "preserves I (throw e)"
  by (simp add: preserves_def triple_throw)

lemma preserves_tryM:
  "preserves I m \<Longrightarrow> (\<And>e. preserves I (h e)) \<Longrightarrow> (\<And>x. preserves I (k x)) \<Longrightarrow> preserves I (tryM m h k)"
  unfolding preserves_def by (rule triple_tryM)

lemma preserves_bindM:
  "preserves I m \<Longrightarrow> (\<And>x. preserves I (k x)) \<Longrightarrow> preserves I (bindM m k)"
  unfolding preserves_def by (rule triple_bindM)

lemma preserves_if:
  "(b \<Longrightarrow> preserves I m) \<Longrightarrow> (\<not> b \<Longrightarrow> preserves I m') \<Longrightarrow> preserves I (if b then m else m')"
  by simp

lemma preserves_option:
  "(x = None \<Longrightarrow> preserves I m) \<Longrightarrow> (\<And>y. x = Some y \<Longrightarrow> preserves I (f y)) \<Longrightarrow>
    preserves I (case x of None \<Rightarrow> m | Some y \<Rightarrow> f y)"
  by (cases x) auto

lemma preserves_sum:
  "(\<And>e. x = Inl e \<Longrightarrow> preserves I (g e)) \<Longrightarrow> (\<And>y. x = Inr y \<Longrightarrow> preserves I (f y)) \<Longrightarrow>
    preserves I (case x of Inl e \<Rightarrow> g e | Inr y \<Rightarrow> f y)"
  by (cases x) auto

lemma preserves_prod:
  "(\<And>a b. x = (a, b) \<Longrightarrow> preserves I (f a b)) \<Longrightarrow> preserves I (case x of (a, b) \<Rightarrow> f a b)"
  by (cases x) auto

lemma preserves_let: "preserves I (f x) \<Longrightarrow> preserves I (Let x f)"
  by simp

lemma preserves_forM: "(\<And>x. preserves I (f x)) \<Longrightarrow> preserves I (forM xs f)"
  unfolding preserves_def by (rule triple_forM)

lemma preserves_runTx: "triple I fn (\<lambda>_. I) (\<lambda>_ _. True) \<Longrightarrow> preserves I (runTx fn)"
  unfolding preserves_def by (rule triple_runTx)

lemmas preserves_intros =
  preserves_ok preserves_throw preserves_tryM preserves_bindM preserves_if preserves_option
  preserves_sum preserves_prod preserves_let preserves_forM
  preserves_dbsame [OF dbsame_query] preserves_dbsame [OF dbsame_fault]
  preserves_dbsame [OF dbsame_new_uuid] preserves_dbsame [OF dbsame_now]
  preserves_dbsame [OF dbsame_write] dbsame_Respond [THEN preserves_dbsame]
  dbsame_reads [THEN preserves_dbsame]

lemma preserves_exec:
  assumes "\<And>now d x d'. I d \<Longrightarrow> f now d = Inr (x, d') \<Longrightarrow> constraints d' \<Longrightarrow> I d'"
  shows "preserves I (exec f)"
  unfolding preserves_def by (rule triple_exec) (auto intro: assms)

lemma preserves_exec_insert:
  assumes "\<And>i now d x d'. I d \<Longrightarrow> f i now d = Inr (x, d') \<Longrightarrow> constraints d' \<Longrightarrow> I d'"
  shows "preserves I (exec_insert f)"
  unfolding preserves_def by (rule triple_exec_insert) (auto intro: assms)

end
