(* ===== verification/GoStd.thy ===== *)
theory GoStd
  imports Errors
begin

text \<open>
  The parts of Go's standard library the program's own encodings rest on:
  \<^verbatim>\<open>strings.TrimSpace\<close> and \<^verbatim>\<open>SplitN\<close>, \<^verbatim>\<open>strconv\<close> for decimal
  integers, \<^verbatim>\<open>encoding/hex\<close>, \<^verbatim>\<open>encoding/base64\<close> (raw URL alphabet),
  and \<^verbatim>\<open>time\<close> formatting and parsing of RFC 3339 timestamps in UTC.
  Strings are byte strings; a byte is read as a number with \<^verbatim>\<open>byte\<close>.
\<close>

section \<open>Bytes and text\<close>

definition byte :: "char \<Rightarrow> nat" where
  "byte c = of_char c"

definition of_byte :: "nat \<Rightarrow> char" where
  "of_byte n = char_of n"

lemma byte_of_byte [simp]: "n < 256 \<Longrightarrow> byte (of_byte n) = n"
  by (simp add: byte_def of_byte_def)

lemma of_byte_byte [simp]: "of_byte (byte c) = c"
  by (simp add: byte_def of_byte_def)

lemma byte_less [simp]: "byte c < 256"
  by (simp add: byte_def)

text \<open>The UTF-8 forms of the characters \<^verbatim>\<open>unicode.IsSpace\<close> accepts.\<close>

definition space_seqs :: "string list" where
  "space_seqs =
     [[CHR 0x09], [CHR 0x0A], [CHR 0x0B], [CHR 0x0C], [CHR 0x0D], [CHR 0x20],
      [CHR 0xC2, CHR 0x85], [CHR 0xC2, CHR 0xA0], [CHR 0xE1, CHR 0x9A, CHR 0x80]] @
     map (\<lambda>n. [CHR 0xE2, CHR 0x80, of_byte n]) ([128 ..< 139] @ [168, 169, 175]) @
     [[CHR 0xE2, CHR 0x81, CHR 0x9F], [CHR 0xE3, CHR 0x80, CHR 0x80]]"

definition prefix_of :: "string \<Rightarrow> string \<Rightarrow> bool" where
  "prefix_of p s \<longleftrightarrow> take (length p) s = p"

function trim_left :: "string list \<Rightarrow> string \<Rightarrow> string" where
  "trim_left seqs s =
     (case find (\<lambda>p. p \<noteq> [] \<and> prefix_of p s) seqs of
        None \<Rightarrow> s
      | Some p \<Rightarrow> trim_left seqs (drop (length p) s))"
  by pat_completeness auto
termination
proof (relation "measure (\<lambda>(_, s). length s)")
  fix seqs s p assume "find (\<lambda>p. p \<noteq> [] \<and> prefix_of p s) seqs = Some p"
  then have "p \<noteq> []" "take (length p) s = p" by (auto simp: find_Some_iff prefix_of_def)
  then show "((seqs, drop (length p) s), (seqs, s)) \<in> measure (\<lambda>(_, s). length s)"
    by (cases s) auto
qed auto

declare trim_left.simps [simp del]

definition TrimSpace :: "string \<Rightarrow> string" where
  "TrimSpace s = rev (trim_left (map rev space_seqs) (rev (trim_left space_seqs s)))"

text \<open>\<^verbatim>\<open>strings.SplitN(s, sep, 2)\<close> for a one-byte separator: both parts, if there is one.\<close>

fun split2 :: "char \<Rightarrow> string \<Rightarrow> (string \<times> string) option" where
  "split2 sep [] = None"
| "split2 sep (c # cs) =
     (if c = sep then Some ([], cs)
      else map_option (\<lambda>(a, b). (c # a, b)) (split2 sep cs))"

text \<open>\<^verbatim>\<open>strings.Split\<close> and \<^verbatim>\<open>ReplaceAll\<close> for one-byte separators, \<^verbatim>\<open>TrimSuffix\<close>, \<^verbatim>\<open>ToLower\<close> on ASCII.\<close>

fun split_on :: "char \<Rightarrow> string \<Rightarrow> string list" where
  "split_on sep [] = [[]]"
| "split_on sep (c # cs) =
     (if c = sep then [] # split_on sep cs
      else case split_on sep cs of
        [] \<Rightarrow> [[c]]
      | w # ws \<Rightarrow> (c # w) # ws)"

definition suffix_of :: "string \<Rightarrow> string \<Rightarrow> bool" where
  "suffix_of p s \<longleftrightarrow> prefix_of (rev p) (rev s)"

definition TrimSuffix :: "string \<Rightarrow> string \<Rightarrow> string" where
  "TrimSuffix s p = (if suffix_of p s then take (length s - length p) s else s)"

definition ascii_lower :: "char \<Rightarrow> char" where
  "ascii_lower c = (if 65 \<le> byte c \<and> byte c \<le> 90 then of_byte (byte c + 32) else c)"

definition replace_char :: "char \<Rightarrow> string \<Rightarrow> string \<Rightarrow> string" where
  "replace_char c r s = concat (map (\<lambda>x. if x = c then r else [x]) s)"

text \<open>\<^verbatim>\<open>%q\<close> on text: quotes and backslashes are escaped, control bytes written in hex.\<close>

definition nibble :: "nat \<Rightarrow> char" where
  "nibble n = of_byte (if n < 10 then 48 + n else 87 + n)"

definition Quote :: "string \<Rightarrow> string" where
  "Quote s = [CHR 0x22] @ concat (map (\<lambda>c.
     if c = CHR 0x22 \<or> c = CHR 0x5C then [CHR 0x5C, c]
     else if c = CHR 0x0A then [CHR 0x5C, CHR ''n'']
     else if c = CHR 0x0D then [CHR 0x5C, CHR ''r'']
     else if c = CHR 0x09 then [CHR 0x5C, CHR ''t'']
     else if byte c < 32 \<or> byte c = 127
       then [CHR 0x5C, CHR ''x'', nibble (byte c div 16), nibble (byte c mod 16)]
     else [c]) s) @ [CHR 0x22]"

section \<open>Decimal integers\<close>

definition digit :: "nat \<Rightarrow> char" where
  "digit n = of_byte (48 + n)"

definition is_digit :: "char \<Rightarrow> bool" where
  "is_digit c \<longleftrightarrow> 48 \<le> byte c \<and> byte c \<le> 57"

definition digit_val :: "char \<Rightarrow> nat" where
  "digit_val c = byte c - 48"

fun nat_text :: "nat \<Rightarrow> string" where
  "nat_text n = (if n < 10 then [digit n] else nat_text (n div 10) @ [digit (n mod 10)])"

declare nat_text.simps [simp del]

definition FormatInt :: "int \<Rightarrow> string" where
  "FormatInt i = (if i < 0 then ''-'' @ nat_text (nat (- i)) else nat_text (nat i))"

definition digits_val :: "string \<Rightarrow> nat" where
  "digits_val s = foldl (\<lambda>v c. 10 * v + digit_val c) 0 s"

definition parse_nat :: "string \<Rightarrow> nat option" where
  "parse_nat s = (if s \<noteq> [] \<and> list_all is_digit s then Some (digits_val s) else None)"

text \<open>\<^verbatim>\<open>strconv.ParseInt(s, 10, 64)\<close>: an optional sign, digits, the range of int64.\<close>

definition ParseInt64 :: "string \<Rightarrow> int option" where
  "ParseInt64 s =
    (let (neg, ds) = (case s of
           [] \<Rightarrow> (False, [])
         | c # cs \<Rightarrow> if c = CHR ''+'' then (False, cs)
                     else if c = CHR ''-'' then (True, cs) else (False, s))
     in case parse_nat ds of
          None \<Rightarrow> None
        | Some n \<Rightarrow>
            let v = (if neg then - int n else int n)
            in if - (2 ^ 63) \<le> v \<and> v < 2 ^ 63 then Some v else None)"

section \<open>Hexadecimal\<close>

definition hex_digit :: "nat \<Rightarrow> char" where
  "hex_digit n = (if n < 10 then of_byte (48 + n) else of_byte (87 + n))"

definition hex_val :: "char \<Rightarrow> nat option" where
  "hex_val c =
    (let n = byte c in
     if 48 \<le> n \<and> n \<le> 57 then Some (n - 48)
     else if 97 \<le> n \<and> n \<le> 102 then Some (n - 87)
     else if 65 \<le> n \<and> n \<le> 70 then Some (n - 55) else None)"

fun hex_encode :: "string \<Rightarrow> string" where
  "hex_encode [] = []"
| "hex_encode (c # cs) = hex_digit (byte c div 16) # hex_digit (byte c mod 16) # hex_encode cs"

fun hex_decode :: "string \<Rightarrow> string option" where
  "hex_decode [] = Some []"
| "hex_decode [_] = None"
| "hex_decode (a # b # cs) =
     (case (hex_val a, hex_val b, hex_decode cs) of
        (Some x, Some y, Some r) \<Rightarrow> Some (of_byte (16 * x + y) # r)
      | _ \<Rightarrow> None)"

section \<open>Base64, raw URL alphabet\<close>

definition b64_char :: "nat \<Rightarrow> char" where
  "b64_char n =
    (if n < 26 then of_byte (65 + n)
     else if n < 52 then of_byte (71 + n)
     else if n < 62 then of_byte (n - 4)
     else if n = 62 then CHR ''-'' else CHR ''_'')"

definition b64_val :: "char \<Rightarrow> nat option" where
  "b64_val c =
    (let n = byte c in
     if 65 \<le> n \<and> n \<le> 90 then Some (n - 65)
     else if 97 \<le> n \<and> n \<le> 122 then Some (n - 71)
     else if 48 \<le> n \<and> n \<le> 57 then Some (n + 4)
     else if n = 45 then Some 62 else if n = 95 then Some 63 else None)"

fun b64_encode :: "string \<Rightarrow> string" where
  "b64_encode [] = []"
| "b64_encode [a] =
     [b64_char (byte a div 4), b64_char (byte a mod 4 * 16)]"
| "b64_encode [a, b] =
     [b64_char (byte a div 4), b64_char (byte a mod 4 * 16 + byte b div 16),
      b64_char (byte b mod 16 * 4)]"
| "b64_encode (a # b # c # cs) =
     b64_char (byte a div 4) # b64_char (byte a mod 4 * 16 + byte b div 16) #
     b64_char (byte b mod 16 * 4 + byte c div 64) # b64_char (byte c mod 64) # b64_encode cs"

fun b64_quads :: "nat list \<Rightarrow> string option" where
  "b64_quads [] = Some []"
| "b64_quads [_] = None"
| "b64_quads [x, y] = Some [of_byte (x * 4 + y div 16)]"
| "b64_quads [x, y, z] = Some [of_byte (x * 4 + y div 16), of_byte (y mod 16 * 16 + z div 4)]"
| "b64_quads (x # y # z # u # r) =
     map_option (\<lambda>s. of_byte (x * 4 + y div 16) # of_byte (y mod 16 * 16 + z div 4) #
                     of_byte (z mod 4 * 64 + u) # s) (b64_quads r)"

text \<open>The decoder skips line ends; any other byte outside the alphabet is an error.\<close>

fun b64_vals :: "string \<Rightarrow> nat list option" where
  "b64_vals [] = Some []"
| "b64_vals (c # cs) =
     (if c = CHR 0x0A \<or> c = CHR 0x0D then b64_vals cs
      else case (b64_val c, b64_vals cs) of (Some v, Some vs) \<Rightarrow> Some (v # vs) | _ \<Rightarrow> None)"

definition b64_decode :: "string \<Rightarrow> string option" where
  "b64_decode s = (case b64_vals s of None \<Rightarrow> None | Some vs \<Rightarrow> b64_quads vs)"

section \<open>Timestamps\<close>

definition is_leap :: "int \<Rightarrow> bool" where
  "is_leap y \<longleftrightarrow> y mod 4 = 0 \<and> (y mod 100 \<noteq> 0 \<or> y mod 400 = 0)"

text \<open>Days before month \<^verbatim>\<open>m\<close> (1 to 13) in a year.\<close>

definition days_before :: "bool \<Rightarrow> nat \<Rightarrow> int" where
  "days_before leap m =
     ([0, 31, 59, 90, 120, 151, 181, 212, 243, 273, 304, 334, 365] ! (m - 1)) +
     (if leap \<and> m > 2 then 1 else 0)"

definition days_to_year :: "int \<Rightarrow> int" where
  "days_to_year y = 365 * (y - 1) + (y - 1) div 4 - (y - 1) div 100 + (y - 1) div 400"

text \<open>Days from 1970-01-01 to a date, and back.\<close>

definition days_of_date :: "int \<Rightarrow> nat \<Rightarrow> nat \<Rightarrow> int" where
  "days_of_date y m d = days_to_year y + days_before (is_leap y) m + int d - 1 - 719162"

definition year_day :: "int \<Rightarrow> int \<times> int" where
  "year_day n =
    (let a = n div 146097; r0 = n mod 146097;
         b = min 3 (r0 div 36524); r1 = r0 - 36524 * b;
         c = r1 div 1461; r2 = r1 mod 1461;
         e = min 3 (r2 div 365)
     in (400 * a + 100 * b + 4 * c + e + 1, r2 - 365 * e))"

definition month_of :: "bool \<Rightarrow> int \<Rightarrow> nat" where
  "month_of leap yd = (case find (\<lambda>m. yd < days_before leap (m + 1)) [1 ..< 13] of
     Some m \<Rightarrow> m | None \<Rightarrow> 12)"

definition date_of_days :: "int \<Rightarrow> int \<times> nat \<times> nat" where
  "date_of_days n =
    (let (y, yd) = year_day (n + 719162); m = month_of (is_leap y) yd
     in (y, m, nat (yd - days_before (is_leap y) m) + 1))"

definition days_in_month :: "int \<Rightarrow> nat \<Rightarrow> int" where
  "days_in_month y m = days_before (is_leap y) (m + 1) - days_before (is_leap y) m"

text \<open>\<^verbatim>\<open>appendInt\<close> with a minimal width.\<close>

definition pad :: "nat \<Rightarrow> string \<Rightarrow> string" where
  "pad k s = replicate (k - length s) (CHR ''0'') @ s"

definition append_int :: "int \<Rightarrow> nat \<Rightarrow> string" where
  "append_int i k =
    (if i < 0 then ''-'' @ pad k (nat_text (nat (- i))) else pad k (nat_text (nat i)))"

definition strip_zeros :: "string \<Rightarrow> string" where
  "strip_zeros s = rev (dropWhile (\<lambda>c. c = CHR ''0'') (rev s))"

text \<open>The layout element \<^verbatim>\<open>.999...\<close> of \<^verbatim>\<open>k\<close> digits: trailing zeros are dropped.\<close>

definition frac_text :: "nat \<Rightarrow> nat \<Rightarrow> string" where
  "frac_text k nanos =
    (let ds = strip_zeros (take k (pad 9 (nat_text nanos)))
     in if ds = [] then [] else ''.'' @ ds)"

definition date_text :: "int \<Rightarrow> string" where
  "date_text days =
    (let (y, m, d) = date_of_days days
     in append_int y 4 @ ''-'' @ append_int (int m) 2 @ ''-'' @ append_int (int d) 2)"

definition clock_text :: "int \<Rightarrow> string" where
  "clock_text secs =
     append_int (secs div 3600) 2 @ '':'' @ append_int (secs div 60 mod 60) 2 @ '':'' @
     append_int (secs mod 60) 2"

definition format_time :: "nat \<Rightarrow> int \<Rightarrow> string" where
  "format_time k t =
    (let secs = t div 1000000000; nanos = t mod 1000000000
     in date_text (secs div 86400) @ ''T'' @ clock_text (secs mod 86400) @
        frac_text k (nat nanos) @ ''Z'')"

text \<open>\<^verbatim>\<open>t.UTC().Format(time.RFC3339Nano)\<close>.\<close>

definition Format_RFC3339Nano :: "int \<Rightarrow> string" where
  "Format_RFC3339Nano t = format_time 9 t"

text \<open>Parsers consume a prefix and return the rest.\<close>

definition take_digits :: "nat \<Rightarrow> string \<Rightarrow> (nat \<times> string) option" where
  "take_digits k s =
    (if length s \<ge> k \<and> list_all is_digit (take k s)
     then Some (digits_val (take k s), drop k s) else None)"

definition take_char :: "char \<Rightarrow> string \<Rightarrow> string option" where
  "take_char c s = (case s of [] \<Rightarrow> None | x # xs \<Rightarrow> if x = c then Some xs else None)"

text \<open>The hour may have one digit.\<close>

definition take_hour :: "string \<Rightarrow> (nat \<times> string) option" where
  "take_hour s = (case take_digits 2 s of Some r \<Rightarrow> Some r | None \<Rightarrow> take_digits 1 s)"

text \<open>A fraction after \<^verbatim>\<open>.\<close> or \<^verbatim>\<open>,\<close>; digits after the ninth are dropped.\<close>

definition take_frac :: "string \<Rightarrow> nat \<times> string" where
  "take_frac s = (case s of
      c # cs \<Rightarrow>
        if (c = CHR ''.'' \<or> c = CHR '','') \<and> takeWhile is_digit cs \<noteq> []
        then let ds = takeWhile is_digit cs
             in (digits_val (take 9 (ds @ replicate 9 (CHR ''0''))), dropWhile is_digit cs)
        else (0, s)
    | [] \<Rightarrow> (0, []))"

text \<open>\<^verbatim>\<open>Z\<close> or an offset \<^verbatim>\<open>+hh:mm\<close>: seconds east of UTC.\<close>

definition take_zone :: "string \<Rightarrow> (int \<times> string) option" where
  "take_zone s = (case s of
      [] \<Rightarrow> None
    | c # cs \<Rightarrow>
        if c = CHR ''Z'' then Some (0, cs)
        else if c = CHR ''+'' \<or> c = CHR ''-'' then
          (case take_digits 2 cs of
             None \<Rightarrow> None
           | Some (h, r) \<Rightarrow>
              (case take_char (CHR '':'') r of
                 None \<Rightarrow> None
               | Some r' \<Rightarrow>
                  (case take_digits 2 r' of
                     None \<Rightarrow> None
                   | Some (m, r'') \<Rightarrow>
                       if h \<le> 24 \<and> m < 60
                       then let off = int h * 3600 + int m * 60
                            in Some (if c = CHR ''-'' then - off else off, r'')
                       else None)))
        else None)"

definition parse_date :: "string \<Rightarrow> (int \<times> string) option" where
  "parse_date s =
    Option.bind (take_digits 4 s) (\<lambda>(y, s).
    Option.bind (take_char (CHR ''-'') s) (\<lambda>s.
    Option.bind (take_digits 2 s) (\<lambda>(m, s).
    Option.bind (take_char (CHR ''-'') s) (\<lambda>s.
    Option.bind (take_digits 2 s) (\<lambda>(d, s).
      if 1 \<le> m \<and> m \<le> 12 \<and> 1 \<le> d \<and> int d \<le> days_in_month (int y) m
      then Some (days_of_date (int y) m d, s) else None)))))"

definition parse_clock :: "string \<Rightarrow> (int \<times> string) option" where
  "parse_clock s =
    Option.bind (take_hour s) (\<lambda>(h, s).
    Option.bind (take_char (CHR '':'') s) (\<lambda>s.
    Option.bind (take_digits 2 s) (\<lambda>(m, s).
    Option.bind (take_char (CHR '':'') s) (\<lambda>s.
    Option.bind (take_digits 2 s) (\<lambda>(sec, s).
      if h < 24 \<and> m < 60 \<and> sec < 60
      then Some (int h * 3600 + int m * 60 + int sec, s) else None)))))"

text \<open>\<^verbatim>\<open>time.Parse(time.RFC3339Nano, s)\<close>.\<close>

definition Parse_RFC3339Nano :: "string \<Rightarrow> int option" where
  "Parse_RFC3339Nano s =
    Option.bind (parse_date s) (\<lambda>(days, s).
    Option.bind (take_char (CHR ''T'') s) (\<lambda>s.
    Option.bind (parse_clock s) (\<lambda>(secs, s).
    (let (nanos, s) = take_frac s in
    Option.bind (take_zone s) (\<lambda>(off, s).
      if s = [] then Some ((days * 86400 + secs - off) * 1000000000 + int nanos) else None)))))"

text \<open>\<^verbatim>\<open>time.Time{}\<close>: 0001-01-01T00:00:00Z.\<close>

definition zero_time :: int where
  "zero_time = - 719162 * 86400 * 1000000000"

end
