(* ===== verification/StdLemmas.thy ===== *)
theory StdLemmas
  imports GoStd
begin

text \<open>
  Round trips of the standard-library encodings.  A text encoding is an interface:
  an encoder, a decoder and a set of values on which decoding undoes encoding.
  The locale \<^verbatim>\<open>codec\<close> states it and what follows from it; hexadecimal, raw URL
  base64, decimal integers and RFC 3339 timestamps are its interpretations.
\<close>

locale codec =
  fixes enc :: "'a \<Rightarrow> string" and dec :: "string \<Rightarrow> 'a option" and valid :: "'a \<Rightarrow> bool"
  assumes dec_enc: "valid x \<Longrightarrow> dec (enc x) = Some x"
begin

lemma enc_inj: "valid x \<Longrightarrow> valid y \<Longrightarrow> enc x = enc y \<Longrightarrow> x = y"
  by (metis dec_enc option.inject)

lemma enc_eq_iff: "valid x \<Longrightarrow> valid y \<Longrightarrow> enc x = enc y \<longleftrightarrow> x = y"
  using enc_inj by blast

end

section \<open>Hexadecimal\<close>

lemma hex_val_digit [simp]: "n < 16 \<Longrightarrow> hex_val (hex_digit n) = Some n"
  by (auto simp: hex_val_def hex_digit_def Let_def)

lemma hex_decode_encode: "hex_decode (hex_encode s) = Some s"
  by (induction s) (simp_all add: less_mult_imp_div_less mult.commute)

interpretation hex: codec hex_encode hex_decode "\<lambda>_. True"
  by unfold_locales (rule hex_decode_encode)

section \<open>Base64\<close>

fun sextets :: "string \<Rightarrow> nat list" where
  "sextets [] = []"
| "sextets [a] = [byte a div 4, byte a mod 4 * 16]"
| "sextets [a, b] = [byte a div 4, byte a mod 4 * 16 + byte b div 16, byte b mod 16 * 4]"
| "sextets (a # b # c # cs) =
     byte a div 4 # (byte a mod 4 * 16 + byte b div 16) # (byte b mod 16 * 4 + byte c div 64) #
     byte c mod 64 # sextets cs"

lemma b64_encode_sextets: "b64_encode s = map b64_char (sextets s)"
  by (induction s rule: b64_encode.induct) simp_all

lemma byte_div:
  "byte a div 4 < 64" "byte a mod 4 * 16 + byte b div 16 < 64" "byte b mod 16 * 4 + byte c div 64 < 64"
  "byte a mod 4 * 16 < 64" "byte b mod 16 * 4 < 64"
  using byte_less [of a] byte_less [of b] byte_less [of c] by linarith+

lemma sextets_less: "n \<in> set (sextets s) \<Longrightarrow> n < 64"
  by (induction s rule: sextets.induct) (auto simp: byte_div)

lemma byte_punct: "byte (CHR ''-'') = 45" "byte (CHR ''_'') = 95"
  by (simp_all add: byte_def)

lemma b64_val_char [simp]: "n < 64 \<Longrightarrow> b64_val (b64_char n) = Some n"
proof -
  assume n: "n < 64"
  consider "n < 26" | "26 \<le> n" "n < 52" | "52 \<le> n" "n < 62" | "n = 62" | "n = 63" using n by linarith
  then show ?thesis
    by cases (simp_all add: b64_val_def b64_char_def Let_def byte_punct, linarith)
qed

lemma b64_char_graph: "n < 64 \<Longrightarrow> b64_char n \<noteq> CHR 0x0A \<and> b64_char n \<noteq> CHR 0x0D"
proof -
  assume "n < 64"
  then have "b64_val (b64_char n) = Some n" by simp
  moreover have "b64_val (CHR 0x0A) = None" "b64_val (CHR 0x0D) = None"
    by (simp_all add: b64_val_def byte_def Let_def)
  ultimately show ?thesis by auto
qed

lemma b64_vals_map: "(\<And>n. n \<in> set ns \<Longrightarrow> n < 64) \<Longrightarrow> b64_vals (map b64_char ns) = Some ns"
  by (induction ns) (simp_all add: b64_char_graph)

lemma b64_quads_sextets: "b64_quads (sextets s) = Some s"
proof (induction s rule: sextets.induct)
  case (2 a)
  have "byte a div 4 * 4 + byte a mod 4 * 16 div 16 = byte a" by simp
  then show ?case by simp
next
  case (3 a b)
  have "byte a div 4 * 4 + (byte a mod 4 * 16 + byte b div 16) div 16 = byte a"
    using byte_less [of b] by (simp add: less_mult_imp_div_less)
  moreover have "(byte a mod 4 * 16 + byte b div 16) mod 16 * 16 + byte b mod 16 * 4 div 4 = byte b"
    using byte_less [of b] by (simp add: less_mult_imp_div_less)
  ultimately show ?case by simp
next
  case (4 a b c cs)
  have "byte a div 4 * 4 + (byte a mod 4 * 16 + byte b div 16) div 16 = byte a"
    using byte_less [of b] by (simp add: less_mult_imp_div_less)
  moreover have "(byte a mod 4 * 16 + byte b div 16) mod 16 * 16 + (byte b mod 16 * 4 + byte c div 64) div 4 = byte b"
    using byte_less [of b] byte_less [of c] by (simp add: less_mult_imp_div_less)
  moreover have "(byte b mod 16 * 4 + byte c div 64) mod 4 * 64 + byte c mod 64 = byte c"
    using byte_less [of c] by (simp add: less_mult_imp_div_less)
  ultimately show ?case using 4 by simp
qed simp

lemma b64_decode_encode: "b64_decode (b64_encode s) = Some s"
  by (simp add: b64_decode_def b64_encode_sextets b64_vals_map sextets_less b64_quads_sextets)

interpretation b64: codec b64_encode b64_decode "\<lambda>_. True"
  by unfold_locales (rule b64_decode_encode)

section \<open>Decimal\<close>

lemma byte_digit [simp]: "n < 10 \<Longrightarrow> byte (digit n) = 48 + n"
  by (simp add: digit_def)

lemma digit_val_digit [simp]: "n < 10 \<Longrightarrow> digit_val (digit n) = n"
  by (simp add: digit_val_def)

lemma is_digit_digit [simp]: "n < 10 \<Longrightarrow> is_digit (digit n)"
  by (simp add: is_digit_def)

lemma digits_val_snoc [simp]: "digits_val (s @ [c]) = 10 * digits_val s + digit_val c"
  by (simp add: digits_val_def)

lemma digits_val_Nil [simp]: "digits_val [] = 0"
  by (simp add: digits_val_def)

lemma digits_val_single [simp]: "digits_val [c] = digit_val c"
  by (simp add: digits_val_def)

lemma digits_val_nat_text [simp]: "digits_val (nat_text n) = n"
proof (induction n rule: nat_text.induct)
  case (1 n)
  then show ?case by (subst nat_text.simps) (auto simp: Let_def)
qed

lemma nat_text_digits [simp]: "list_all is_digit (nat_text n)"
proof (induction n rule: nat_text.induct)
  case (1 n)
  then show ?case by (subst nat_text.simps) auto
qed

lemma nat_text_nonempty [simp]: "nat_text n \<noteq> []"
  by (subst nat_text.simps) simp

lemma nat_text_length: "n < 10 ^ k \<Longrightarrow> 0 < k \<Longrightarrow> length (nat_text n) \<le> k"
proof (induction k arbitrary: n)
  case (Suc k)
  show ?case
  proof (cases "n < 10")
    case True
    then show ?thesis by (subst nat_text.simps) simp
  next
    case False
    then have "k \<noteq> 0" using Suc.prems by (cases k) auto
    have "n div 10 < 10 ^ k" using Suc.prems by (simp add: less_mult_imp_div_less mult.commute)
    then have "length (nat_text (n div 10)) \<le> k" using Suc.IH \<open>k \<noteq> 0\<close> by simp
    then show ?thesis using False by (subst nat_text.simps) simp
  qed
qed simp

lemma parse_nat_text [simp]: "parse_nat (nat_text n) = Some n"
  by (simp add: parse_nat_def)

lemma nat_text_no_sign:
  "\<exists>c cs. nat_text n = c # cs \<and> c \<noteq> CHR ''+'' \<and> c \<noteq> CHR ''-''"
proof (cases "nat_text n")
  case (Cons c cs)
  then have "is_digit c" using nat_text_digits [of n] by simp
  then have "c \<noteq> CHR ''+''" "c \<noteq> CHR ''-''" by (auto simp: is_digit_def byte_def)
  then show ?thesis using Cons by blast
qed simp

definition int64_ok :: "int \<Rightarrow> bool" where
  "int64_ok i \<longleftrightarrow> - (2 ^ 63) \<le> i \<and> i < 2 ^ 63"

lemma ParseInt64_FormatInt: "int64_ok i \<Longrightarrow> ParseInt64 (FormatInt i) = Some i"
proof (cases "i < 0")
  case True
  assume "int64_ok i"
  then show ?thesis using True by (simp add: FormatInt_def ParseInt64_def int64_ok_def)
next
  case False
  assume ok: "int64_ok i"
  obtain c cs where t: "nat_text (nat i) = c # cs" "c \<noteq> CHR ''+''" "c \<noteq> CHR ''-''"
    using nat_text_no_sign by blast
  then have "parse_nat (c # cs) = Some (nat i)" by (metis parse_nat_text)
  then show ?thesis using t False ok by (simp add: FormatInt_def ParseInt64_def int64_ok_def)
qed

interpretation dec64: codec FormatInt ParseInt64 int64_ok
  by unfold_locales (rule ParseInt64_FormatInt)

lemma FormatInt_chars: "c \<in> set (FormatInt i) \<Longrightarrow> is_digit c \<or> c = CHR ''-''"
  using nat_text_digits [of "nat i"] nat_text_digits [of "nat (- i)"]
  by (auto simp: FormatInt_def list_all_iff split: if_splits)

section \<open>Calendar\<close>

lemma year_day_parts:
  assumes "year_day n = (y, yd)"
  obtains a b c e r where "a = n div 146097" "y = 400 * a + 100 * b + 4 * c + e + 1"
    "yd = r - 365 * e" "n = 146097 * a + 36524 * b + 1461 * c + r"
    "0 \<le> b" "b \<le> 3" "0 \<le> c" "c \<le> 24" "0 \<le> e" "e \<le> 3" "0 \<le> r" "r < 1461"
    "365 * e \<le> r" "e < 3 \<longrightarrow> r < 365 * e + 365" "1461 * c + r \<le> 36524"
    "b < 3 \<longrightarrow> 1461 * c + r < 36524"
proof -
  define a r0 where "a = n div 146097" and "r0 = n mod 146097"
  define b where "b = min 3 (r0 div 36524)"
  define r1 where "r1 = r0 - 36524 * b"
  define c r where "c = r1 div 1461" and "r = r1 mod 1461"
  define e where "e = min 3 (r div 365)"
  have eq: "year_day n = (400 * a + 100 * b + 4 * c + e + 1, r - 365 * e)"
    by (simp only: year_day_def Let_def a_def r0_def b_def r1_def c_def r_def e_def)
  have r0: "0 \<le> r0" "r0 < 146097" by (simp_all add: r0_def)
  have b: "0 \<le> b" "b \<le> 3" "36524 * b \<le> r0" "b < 3 \<longrightarrow> r0 < 36524 * b + 36524"
    using r0 unfolding b_def by linarith+
  have r1: "0 \<le> r1" "b < 3 \<longrightarrow> r1 < 36524" "r1 \<le> 36524"
    using r0 b unfolding r1_def by linarith+
  have c: "0 \<le> c" "c \<le> 24" using r1 unfolding c_def by linarith+
  have r: "0 \<le> r" "r < 1461" by (simp_all add: r_def)
  have e: "0 \<le> e" "e \<le> 3" "365 * e \<le> r" "e < 3 \<longrightarrow> r < 365 * e + 365"
    using r unfolding e_def by linarith+
  have cr: "1461 * c + r = r1" by (simp add: c_def r_def)
  have n: "n = 146097 * a + 36524 * b + 1461 * c + r"
  proof -
    have "n = 146097 * a + r0" by (simp add: a_def r0_def)
    then show ?thesis using cr r1_def by linarith
  qed
  have y: "y = 400 * a + 100 * b + 4 * c + e + 1" and yd: "yd = r - 365 * e"
    using assms eq by simp_all
  have le: "1461 * c + r \<le> 36524" "b < 3 \<longrightarrow> 1461 * c + r < 36524" using r1 cr by simp_all
  show thesis
    by (rule that [OF a_def y yd n b(1,2) c e(1,2) r e(3,4) le])
qed

lemma year_day_days:
  assumes "year_day n = (y, yd)"
  shows "days_to_year y + yd = n"
  using assms
proof (rule year_day_parts)
  fix a b c e r :: int
  assume y: "y = 400 * a + 100 * b + 4 * c + e + 1" and yd: "yd = r - 365 * e"
    and n: "n = 146097 * a + 36524 * b + 1461 * c + r"
    and bd: "0 \<le> b" "b \<le> 3" "0 \<le> c" "c \<le> 24" "0 \<le> e" "e \<le> 3"
  have "(y - 1) div 4 = 100 * a + 25 * b + c" using y bd by linarith
  moreover have "(y - 1) div 100 = 4 * a + b" using y bd by linarith
  moreover have "(y - 1) div 400 = a" using y bd by linarith
  ultimately show ?thesis using y yd n by (simp add: days_to_year_def)
qed

lemma year_day_range:
  assumes "year_day n = (y, yd)"
  shows "0 \<le> yd \<and> yd < 365 + (if is_leap y then 1 else 0)"
  using assms
proof (rule year_day_parts)
  fix a b c e r :: int
  assume y: "y = 400 * a + 100 * b + 4 * c + e + 1" and yd: "yd = r - 365 * e"
    and bd: "0 \<le> b" "b \<le> 3" "0 \<le> c" "c \<le> 24" "0 \<le> e" "e \<le> 3" "0 \<le> r" "r < 1461"
    and e: "365 * e \<le> r" "e < 3 \<longrightarrow> r < 365 * e + 365" and cb: "b < 3 \<longrightarrow> 1461 * c + r < 36524"
  have le: "0 \<le> yd" "yd \<le> 365" "e < 3 \<longrightarrow> yd < 365" using e bd yd by linarith+
  have "is_leap y" if "yd = 365"
  proof -
    have e3: "e = 3" using le that bd by linarith
    then have r: "r = 1460" using that yd by simp
    have y4: "y mod 4 = 0" using y e3 by presburger
    have "c = 24 \<longrightarrow> b = 3" using cb r bd by linarith
    have "y mod 100 \<noteq> 0 \<or> y mod 400 = 0"
    proof (cases "c = 24")
      case True
      then have "y = 400 * (a + 1)" using y e3 \<open>c = 24 \<longrightarrow> b = 3\<close> by simp
      then show ?thesis by simp
    next
      case False
      have "y = 4 * (c + 1) + 100 * (4 * a + b)" using y e3 by simp
      then have "y mod 100 = (4 * (c + 1)) mod 100" by (metis mod_mult_self2)
      then have "y mod 100 = 4 * (c + 1)" using False bd by (simp add: mod_pos_pos_trivial)
      then have "y mod 100 \<noteq> 0" using bd by simp
      then show ?thesis ..
    qed
    then show ?thesis using y4 by (simp add: is_leap_def)
  qed
  then show ?thesis using le by force
qed

lemma days_before_vals:
  "days_before l (Suc 0) = 0" "days_before l (Suc (Suc 0)) = 31"
  "days_before l 1 = 0" "days_before l 2 = 31" "days_before l 3 = (if l then 60 else 59)"
  "days_before l 4 = (if l then 91 else 90)" "days_before l 5 = (if l then 121 else 120)"
  "days_before l 6 = (if l then 152 else 151)" "days_before l 7 = (if l then 182 else 181)"
  "days_before l 8 = (if l then 213 else 212)" "days_before l 9 = (if l then 244 else 243)"
  "days_before l 10 = (if l then 274 else 273)" "days_before l 11 = (if l then 305 else 304)"
  "days_before l 12 = (if l then 335 else 334)" "days_before l 13 = (if l then 366 else 365)"
  by (simp_all add: days_before_def)

lemma month_of_range:
  assumes "0 \<le> yd" "yd < 365 + (if l then 1 else 0)"
  shows "1 \<le> month_of l yd \<and> month_of l yd \<le> 12 \<and>
     days_before l (month_of l yd) \<le> yd \<and> yd < days_before l (month_of l yd + 1)"
proof -
  have up: "[1..<13] = [1, 2, 3, 4, 5, 6, 7, 8, 9, 10, 11, 12::nat]" by (simp add: upt_rec)
  show ?thesis
    using assms unfolding month_of_def up
    by (cases l) (simp_all add: days_before_vals)
qed

lemma date_roundtrip:
  assumes "date_of_days n = (y, m, d)"
  shows "days_of_date y m d = n \<and> 1 \<le> m \<and> m \<le> 12 \<and> 1 \<le> d \<and> int d \<le> days_in_month y m \<and> d \<le> 31"
proof -
  obtain yd where yd: "year_day (n + 719162) = (y, yd)"
    and m: "m = month_of (is_leap y) yd" and d: "d = nat (yd - days_before (is_leap y) m) + 1"
    using assms by (auto simp: date_of_days_def Let_def split: prod.splits)
  note r = month_of_range [of yd "is_leap y"] year_day_range [OF yd]
  have days: "days_to_year y + yd = n + 719162" by (rule year_day_days [OF yd])
  have m1: "1 \<le> m" "m \<le> 12" and lo: "days_before (is_leap y) m \<le> yd"
    and hi: "yd < days_before (is_leap y) (m + 1)" using r m by auto
  have dv: "int d = yd - days_before (is_leap y) m + 1" using lo d by simp
  have "days_in_month y m \<le> 31"
  proof -
    have "m = 1 \<or> m = 2 \<or> m = 3 \<or> m = 4 \<or> m = 5 \<or> m = 6 \<or> m = 7 \<or> m = 8 \<or> m = 9 \<or> m = 10 \<or> m = 11 \<or> m = 12"
      using m1 by presburger
    then show ?thesis by (elim disjE) (simp_all add: days_in_month_def days_before_vals)
  qed
  then show ?thesis using days dv hi lo m1
    by (simp add: days_of_date_def days_in_month_def)
qed

section \<open>Timestamps\<close>

lemma digits_val_zeros: "digits_val (replicate k (CHR ''0'') @ s) = digits_val s"
proof -
  have z: "digit_val (CHR ''0'') = 0" by (simp add: digit_val_def byte_def)
  have "foldl (\<lambda>v c. 10 * v + digit_val c) 0 (replicate k (CHR ''0'')) = 0"
    by (induction k) (simp_all add: z)
  then show ?thesis by (simp add: digits_val_def)
qed

lemma digits_val_pad [simp]: "digits_val (pad k s) = digits_val s"
  by (simp add: pad_def digits_val_zeros)

lemma is_digit_0 [simp]: "is_digit (CHR ''0'')"
  by (simp add: is_digit_def byte_def)

lemma pad_digits: "list_all is_digit s \<Longrightarrow> list_all is_digit (pad k s)"
  by (simp add: pad_def list_all_iff ball_Un set_replicate_conv_if)

lemma pad_length: "length s \<le> k \<Longrightarrow> length (pad k s) = k"
  by (simp add: pad_def)

lemma take_digits_pad:
  assumes "n < 10 ^ k" "0 < k"
  shows "take_digits k (pad k (nat_text n) @ s) = Some (n, s)"
proof -
  have "length (pad k (nat_text n)) = k" using assms by (intro pad_length nat_text_length)
  then show ?thesis by (simp add: take_digits_def pad_digits)
qed

lemma append_int_nat: "append_int (int n) k = pad k (nat_text n)"
  by (simp add: append_int_def)

lemma take_char_Cons [simp]: "take_char c (c # s) = Some s"
  by (simp add: take_char_def)

lemma parse_date_text:
  assumes "date_of_days days = (y, m, d)" "0 \<le> y" "y < 10000"
  shows "parse_date (date_text days @ s) = Some (days, s)"
proof -
  note r = date_roundtrip [OF assms(1)]
  have y: "append_int y 4 = pad 4 (nat_text (nat y))" using append_int_nat [of "nat y" 4] assms by simp
  have "nat y < 10 ^ 4" "m < 10 ^ 2" "d < 10 ^ 2" using assms r by auto
  then show ?thesis using assms r
    by (simp add: parse_date_def date_text_def y append_int_nat take_digits_pad)
qed

lemma parse_clock_text:
  assumes "0 \<le> secs" "secs < 86400"
  shows "parse_clock (clock_text secs @ s) = Some (secs, s)"
proof -
  define h m c where "h = nat (secs div 3600)" and "m = nat (secs div 60 mod 60)"
    and "c = nat (secs mod 60)"
  have i: "secs div 3600 = int h" "secs div 60 mod 60 = int m" "secs mod 60 = int c"
    using assms by (simp_all add: h_def m_def c_def)
  have b: "h < 24" "m < 60" "c < 60"
    using assms i by linarith+
  have "h < 10 ^ 2" "m < 10 ^ 2" "c < 10 ^ 2" using b by simp_all
  moreover have "int h * 3600 + int m * 60 + int c = secs"
  proof -
    have "secs div 3600 = secs div 60 div 60" by (simp add: zdiv_zmult2_eq [symmetric])
    moreover have "secs = 60 * (secs div 60) + secs mod 60"
      and "secs div 60 = 60 * (secs div 60 div 60) + secs div 60 mod 60" by simp_all
    ultimately show ?thesis using i by linarith
  qed
  ultimately show ?thesis using b
    by (simp add: parse_clock_def clock_text_def i append_int_nat take_digits_pad take_hour_def)
qed

lemma strip_zeros_split: "\<exists>k. s = strip_zeros s @ replicate k (CHR ''0'')"
proof -
  have "rev s = takeWhile (\<lambda>c. c = CHR ''0'') (rev s) @ dropWhile (\<lambda>c. c = CHR ''0'') (rev s)"
    by simp
  then have "s = strip_zeros s @ rev (takeWhile (\<lambda>c. c = CHR ''0'') (rev s))"
    unfolding strip_zeros_def by (metis rev_append rev_rev_ident)
  moreover have "replicate (length (takeWhile (\<lambda>c. c = CHR ''0'') (rev s))) (CHR ''0'') =
      takeWhile (\<lambda>c. c = CHR ''0'') (rev s)"
    by (rule replicate_length_same) (auto dest: set_takeWhileD)
  ultimately show ?thesis by (metis rev_replicate)
qed

lemma takeWhile_digits: "list_all is_digit ds \<Longrightarrow> takeWhile is_digit (ds @ ''Z'') = ds"
  by (induction ds) (simp_all add: is_digit_def byte_def)

lemma dropWhile_digits: "list_all is_digit ds \<Longrightarrow> dropWhile is_digit (ds @ ''Z'') = ''Z''"
  by (induction ds) (simp_all add: is_digit_def byte_def)

lemma take_frac_text:
  assumes "n < 10 ^ 9"
  shows "take_frac (frac_text 9 n @ ''Z'') = (n, ''Z'')"
proof -
  define p where "p = pad 9 (nat_text n)"
  define ds where "ds = strip_zeros p"
  obtain k where k: "p = ds @ replicate k (CHR ''0'')" using strip_zeros_split ds_def by blast
  have len: "length p = 9" using assms by (simp add: p_def pad_length nat_text_length)
  have dig: "list_all is_digit ds" using pad_digits [OF nat_text_digits, of 9 n] k
    by (simp add: p_def [symmetric])
  have val: "digits_val p = n" by (simp add: p_def)
  have f: "frac_text 9 n = (if ds = [] then [] else ''.'' @ ds)"
    using len by (simp add: frac_text_def Let_def p_def [symmetric] ds_def)
  show ?thesis
  proof (cases "ds = []")
    case True
    then have "n = 0" using k val digits_val_zeros [of k "[]"] by simp
    then show ?thesis using True f by (simp add: take_frac_def)
  next
    case False
    have "take 9 (ds @ replicate 9 (CHR ''0'')) = p"
      using k len by (metis (no_types, opaque_lifting) append_take_drop_id diff_le_self length_append
          length_replicate take_append take_all take_replicate min.absorb1 diff_add_inverse
          nle_le le_add1)
    then show ?thesis using False f dig val
      by (simp add: take_frac_def takeWhile_digits dropWhile_digits)
  qed
qed

definition rfc3339_ok :: "int \<Rightarrow> bool" where
  "rfc3339_ok t \<longleftrightarrow> zero_time \<le> t \<and> t < 253402300800 * 1000000000"

lemma year_bounds:
  assumes "rfc3339_ok t" "date_of_days (t div 1000000000 div 86400) = (y, m, d)"
  shows "0 \<le> y \<and> y < 10000"
proof -
  define n where "n = t div 1000000000 div 86400 + 719162"
  have nb: "0 \<le> n" "n < 3652059" using assms(1) by (auto simp: n_def rfc3339_ok_def zero_time_def)
  obtain yd where "year_day n = (y, yd)"
    using assms(2) by (auto simp: date_of_days_def Let_def n_def split: prod.splits)
  then show ?thesis
  proof (rule year_day_parts)
    fix a b c e r :: int
    assume y: "y = 400 * a + 100 * b + 4 * c + e + 1" and a: "a = n div 146097"
      and n: "n = 146097 * a + 36524 * b + 1461 * c + r"
      and bd: "0 \<le> b" "b \<le> 3" "0 \<le> c" "c \<le> 24" "0 \<le> e" "e \<le> 3" "365 * e \<le> r"
    have a24: "0 \<le> a" "a \<le> 24" using nb unfolding a by linarith+
    have "y \<noteq> 10000"
    proof
      assume "y = 10000"
      then have "a = 24" "b = 3" "c = 24" "e = 3" using y a24 bd by linarith+
      then show False using nb n bd by simp
    qed
    then show ?thesis using y a24 bd by linarith
  qed
qed

lemma Parse_Format_RFC3339Nano:
  assumes "rfc3339_ok t"
  shows "Parse_RFC3339Nano (Format_RFC3339Nano t) = Some t"
proof -
  define secs where "secs = t div 1000000000"
  define n where "n = nat (t mod 1000000000)"
  obtain y m d where date: "date_of_days (secs div 86400) = (y, m, d)"
    by (cases "date_of_days (secs div 86400)")
  have "0 \<le> y \<and> y < 10000" by (rule year_bounds [OF assms date [unfolded secs_def]])
  then have yb: "0 \<le> y" "y < 10000" by simp_all
  have n9: "n < 10 ^ 9" by (simp add: n_def nat_less_iff)
  have c: "parse_clock (clock_text (secs mod 86400) @ s) = Some (secs mod 86400, s)" for s
    by (rule parse_clock_text) simp_all
  have "(secs div 86400 * 86400 + secs mod 86400) * 1000000000 + int n = t"
    by (simp add: secs_def n_def)
  then show ?thesis
    by (simp add: Parse_RFC3339Nano_def Format_RFC3339Nano_def format_time_def Let_def
        secs_def [symmetric] n_def [symmetric] parse_date_text [OF date yb] c take_frac_text [OF n9]
        take_zone_def)
qed

interpretation rfc3339: codec Format_RFC3339Nano Parse_RFC3339Nano rfc3339_ok
  by unfold_locales (rule Parse_Format_RFC3339Nano)

section \<open>Splitting at a separator\<close>

lemma split2_append: "sep \<notin> set a \<Longrightarrow> split2 sep (a @ sep # b) = Some (a, b)"
  by (induction a) auto

lemma split2_SomeD: "split2 sep s = Some (a, b) \<Longrightarrow> s = a @ sep # b \<and> sep \<notin> set a"
  by (induction s arbitrary: a) (auto split: if_splits)

lemma append_int_chars: "c \<in> set (append_int i k) \<Longrightarrow> is_digit c \<or> c = CHR ''-''"
  using pad_digits [OF nat_text_digits, of k "nat i"] pad_digits [OF nat_text_digits, of k "nat (- i)"]
  by (auto simp: append_int_def list_all_iff split: if_splits)

lemma Format_no_bar: "CHR ''|'' \<notin> set (Format_RFC3339Nano t)"
proof -
  have nb: "CHR ''|'' \<notin> set (append_int i k)" for i k
  proof
    assume "CHR ''|'' \<in> set (append_int i k)"
    from append_int_chars [OF this] show False by (simp add: is_digit_def byte_def)
  qed
  have "CHR ''|'' \<notin> set (strip_zeros (take 9 (pad 9 (nat_text k))))" for k
  proof
    assume "CHR ''|'' \<in> set (strip_zeros (take 9 (pad 9 (nat_text k))))"
    then have "CHR ''|'' \<in> set (pad 9 (nat_text k))"
      unfolding strip_zeros_def by (metis in_set_takeD set_dropWhileD set_rev)
    then have "is_digit (CHR ''|'')" using pad_digits [OF nat_text_digits, of 9 k] by (simp add: list_all_iff)
    then show False by (simp add: is_digit_def byte_def)
  qed
  then have "CHR ''|'' \<notin> set (frac_text 9 k)" for k
    by (simp add: frac_text_def Let_def)
  then show ?thesis using nb
    by (simp add: Format_RFC3339Nano_def format_time_def Let_def date_text_def clock_text_def
        split: prod.split)
qed

end
