(* ===== verification/Codec.thy ===== *)
theory Codec
  imports StdLemmas World
begin

text \<open>
  The program's own encodings: the keyset cursor of \<^verbatim>\<open>shared/cursor.go\<close> and
  the media token of \<^verbatim>\<open>shared/mediatoken.go\<close>, over the standard-library
  encodings of \<^verbatim>\<open>GoStd\<close>.  The textual form of a UUID and HMAC-SHA256 come from
  the environment record.  Texts of standard-library errors after \<^verbatim>\<open>%v\<close> are
  abridged; no caller reads them.
\<close>

section \<open>Cursors\<close>

definition EncodeCursor :: "env \<Rightarrow> time \<Rightarrow> uuid \<Rightarrow> string" where
  "EncodeCursor E createdAt i =
    (if createdAt = zero_time \<or> i = uuid_Nil then []
     else let raw = Format_RFC3339Nano createdAt @ ''|'' @ env_uuid_String E i
          in b64_encode raw)"

definition DecodeCursor :: "env \<Rightarrow> string \<Rightarrow> goerr + (time \<times> uuid)" where
  "DecodeCursor E cursor =
    (if cursor = [] then Inr (zero_time, uuid_Nil)
     else case b64_decode cursor of
       None \<Rightarrow> Inl (Errorf_head ErrInvalidCursor ''illegal base64 data'')
     | Some raw \<Rightarrow>
        (case split2 (CHR ''|'') raw of
           None \<Rightarrow> Inl (Errorf_head ErrInvalidCursor ''missing separator'')
         | Some (p0, p1) \<Rightarrow>
            (case Parse_RFC3339Nano p0 of
               None \<Rightarrow> Inl (Errorf_head ErrInvalidCursor ''bad timestamp'')
             | Some ts \<Rightarrow>
                (case env_uuid_Parse E p1 of
                   None \<Rightarrow> Inl (Errorf_head ErrInvalidCursor ''bad uuid'')
                 | Some i \<Rightarrow> Inr (ts, i)))))"

text \<open>The documented behaviour of the UUID package: parsing undoes printing.\<close>

definition uuid_codec :: "env \<Rightarrow> bool" where
  "uuid_codec E \<longleftrightarrow> (\<forall>i. env_uuid_Parse E (env_uuid_String E i) = Some i)"

lemma b64_encode_Nil_iff: "b64_encode s = [] \<longleftrightarrow> s = []"
  by (induction s rule: b64_encode.induct) simp_all

lemma cursor_roundtrip:
  assumes "uuid_codec E" "rfc3339_ok t" "t \<noteq> zero_time" "i \<noteq> uuid_Nil"
  shows "DecodeCursor E (EncodeCursor E t i) = Inr (t, i)"
proof -
  have "env_uuid_Parse E (env_uuid_String E i) = Some i" using assms(1) by (simp add: uuid_codec_def)
  then show ?thesis
    using assms(2-4)
    by (simp add: EncodeCursor_def DecodeCursor_def Let_def b64_encode_Nil_iff b64_decode_encode
        split2_append Format_no_bar Parse_Format_RFC3339Nano)
qed

lemma DecodeCursor_error: "DecodeCursor E s = Inl e \<Longrightarrow> errors_Is e ErrInvalidCursor"
  by (auto simp: DecodeCursor_def Errorf_head_def split: if_splits option.splits prod.splits)

section \<open>Media tokens\<close>

definition unix_of :: "time \<Rightarrow> int" where
  "unix_of t = t div 1000000000"

definition token_payload :: "string \<Rightarrow> string \<Rightarrow> string" where
  "token_payload videoID expiryUnix = ''video_id:'' @ videoID @ '':'' @ expiryUnix"

definition SignMediaToken :: "env \<Rightarrow> string \<Rightarrow> string \<Rightarrow> time \<Rightarrow> string" where
  "SignMediaToken E videoID secret expiry =
    (let expiryUnix = FormatInt (unix_of expiry);
         sig = hex_encode (env_hmac_sha256 E secret (token_payload videoID expiryUnix));
         raw = expiryUnix @ ''.'' @ sig
     in b64_encode raw)"

definition NewMediaToken :: "env \<Rightarrow> string \<Rightarrow> string \<Rightarrow> int \<Rightarrow> time \<Rightarrow> goerr + (string \<times> time)" where
  "NewMediaToken E videoID secret ttl now =
    (if videoID = [] then Inl (Errorf_head ErrMediaTokenInvalid ''empty videoID'')
     else if secret = [] then Inl (Errorf_head ErrMediaTokenInvalid ''empty secret'')
     else if ttl \<le> 0 then Inl (Errorf_head ErrMediaTokenInvalid ''ttl must be > 0'')
     else let expiry = now + ttl in Inr (SignMediaToken E videoID secret expiry, expiry))"

definition VerifyMediaToken :: "env \<Rightarrow> string \<Rightarrow> string \<Rightarrow> string \<Rightarrow> time \<Rightarrow> goerr + unit" where
  "VerifyMediaToken E token videoID secret now =
    (if token = [] then Inl (Errorf_head ErrMediaTokenInvalid ''empty token'')
     else case b64_decode token of
       None \<Rightarrow> Inl (Errorf_head ErrMediaTokenInvalid ''illegal base64 data'')
     | Some raw \<Rightarrow>
        (case split2 (CHR ''.'') raw of
           None \<Rightarrow> Inl (Errorf_head ErrMediaTokenInvalid ''bad format'')
         | Some (p0, p1) \<Rightarrow>
            (case ParseInt64 p0 of
               None \<Rightarrow> Inl (Errorf_head ErrMediaTokenInvalid ''bad expiry'')
             | Some expiryUnix \<Rightarrow>
                if unix_of now > expiryUnix
                then Inl (Errorf_head ErrMediaTokenInvalid ''expired'')
                else let expected = env_hmac_sha256 E secret (token_payload videoID p0)
                     in case hex_decode p1 of
                          None \<Rightarrow> Inl (Errorf_head ErrMediaTokenInvalid ''bad signature encoding'')
                        | Some got \<Rightarrow>
                            if expected = got then Inr ()
                            else Inl (Errorf_head ErrMediaTokenInvalid ''signature mismatch''))))"

lemma FormatInt_no_dot: "CHR ''.'' \<notin> set (FormatInt i)"
proof
  assume "CHR ''.'' \<in> set (FormatInt i)"
  from FormatInt_chars [OF this] show False by (simp add: is_digit_def byte_def)
qed

lemma FormatInt_no_colon: "CHR '':'' \<notin> set (FormatInt i)"
proof
  assume "CHR '':'' \<in> set (FormatInt i)"
  from FormatInt_chars [OF this] show False by (simp add: is_digit_def byte_def)
qed

text \<open>
  What verification of an issued token amounts to: the expiry and the equality of
  the two MACs.
\<close>

lemma verify_signed:
  assumes "int64_ok (unix_of expiry)"
  shows "VerifyMediaToken E (SignMediaToken E a secret expiry) b secret' now =
    (if unix_of now > unix_of expiry then Inl (Errorf_head ErrMediaTokenInvalid ''expired'')
     else if env_hmac_sha256 E secret' (token_payload b (FormatInt (unix_of expiry))) =
             env_hmac_sha256 E secret (token_payload a (FormatInt (unix_of expiry)))
     then Inr () else Inl (Errorf_head ErrMediaTokenInvalid ''signature mismatch''))"
  using assms
  by (simp add: VerifyMediaToken_def SignMediaToken_def Let_def b64_encode_Nil_iff b64_decode_encode
      split2_append FormatInt_no_dot ParseInt64_FormatInt hex_decode_encode)

text \<open>The MAC input determines the video and the expiry: the last colon separates them.\<close>

lemma last_sep_unique:
  assumes "a @ c # x = b @ c # y" "c \<notin> set x" "c \<notin> set y"
  shows "a = b \<and> x = y"
proof -
  from assms(1) obtain us where "a = b @ us \<and> us @ c # x = c # y \<or> a @ us = b \<and> c # x = us @ c # y"
    by (auto simp: append_eq_append_conv2)
  then show ?thesis using assms(2,3) by (cases us) auto
qed

lemma token_payload_inj:
  assumes "token_payload a (FormatInt i) = token_payload b (FormatInt j)" "int64_ok i" "int64_ok j"
  shows "a = b \<and> i = j"
proof -
  have "(''video_id:'' @ a) @ CHR '':'' # FormatInt i = (''video_id:'' @ b) @ CHR '':'' # FormatInt j"
    using assms(1) by (simp add: token_payload_def)
  from last_sep_unique [OF this FormatInt_no_colon FormatInt_no_colon]
  show ?thesis using dec64.enc_inj assms(2,3) by auto
qed

lemma VerifyMediaToken_error:
  "VerifyMediaToken E token v secret now = Inl e \<Longrightarrow> errors_Is e ErrMediaTokenInvalid"
  by (auto simp: VerifyMediaToken_def Errorf_head_def Let_def split: if_splits option.splits prod.splits)

end
