(* ===== verification/R2.thy ===== *)
theory R2
  imports Triples Codec "HOL-Library.List_Lexorder" "HOL-Library.Char_ord"
begin

text \<open>
  The object store client, \<^verbatim>\<open>shared/r2.go\<close>.  The store itself is the list of
  objects of \<^verbatim>\<open>World\<close>; the requests of the S3 API behave as documented: a
  missing object is the API error \<^verbatim>\<open>NotFound\<close> (HEAD) or \<^verbatim>\<open>NoSuchKey\<close>
  (GET), a listing comes in key order in pages of at most 1000 keys, a batch delete
  takes at most 1000 keys and reports failures key by key.

  The lemmas show that a delete never touches a key outside what it was given, that
  one that succeeds leaves none of it, and that no prefix the client accepts covers
  the bucket.
\<close>

section \<open>Errors\<close>

definition sdk_error_of :: "env \<Rightarrow> goerr \<Rightarrow> sdk_error" where
  "sdk_error_of E err = env_sdk_error E (Error err)"

definition isNotFoundErr :: "string \<Rightarrow> bool" where
  "isNotFoundErr code \<longleftrightarrow> code \<in> {''NoSuchKey'', ''NotFound'', ''404''}"

fun mapR2Error :: "string \<Rightarrow> string \<Rightarrow> sdk_error \<Rightarrow> goerr" where
  "mapR2Error op key (SdkAPIError code t) =
     (if isNotFoundErr code then Errorf_tail (op @ '': '' @ key) (Sentinel ErrNotFound)
      else Errorf_tail (op @ '': '' @ key @ '': code='' @ code) (Opaque t))"
| "mapR2Error op key (SdkError t) = Errorf_tail (op @ '': '' @ key) (Opaque t)"

section \<open>Presigned URLs\<close>

definition PresignPut :: "env \<Rightarrow> string \<Rightarrow> string \<Rightarrow> int \<Rightarrow> string io" where
  "PresignPut E key contentType expiry =
    (if key = [] then throw (Opaque ''PresignPut: key is empty'')
     else if expiry \<le> 0 then throw (Opaque ''PresignPut: expiry must be > 0'')
     else tryM fault (\<lambda>err. throw (Errorf_tail ''PresignPut: presign'' err))
       (\<lambda>_. bindM now_io (\<lambda>t. ok (env_presign_put E key contentType expiry t))))"

definition PresignGet :: "env \<Rightarrow> string \<Rightarrow> int \<Rightarrow> string io" where
  "PresignGet E key expiry =
    (if key = [] then throw (Opaque ''PresignGet: key is empty'')
     else if expiry \<le> 0 then throw (Opaque ''PresignGet: expiry must be > 0'')
     else tryM fault (\<lambda>err. throw (Errorf_tail ''PresignGet: presign'' err))
       (\<lambda>_. bindM now_io (\<lambda>t. ok (env_presign_get E key expiry t))))"

section \<open>Reading objects\<close>

definition store_get :: "env \<Rightarrow> string \<Rightarrow> string \<Rightarrow> (sdk_error + object) io" where
  "store_get E missing key =
     tryM fault (\<lambda>err. ok (Inl (sdk_error_of E err)))
       (\<lambda>_ w. (Inr (case find (\<lambda>b. o_key b = key) (w_objects w) of
                 None \<Rightarrow> Inl (SdkAPIError missing ''no such object'')
               | Some b \<Rightarrow> Inr b), w))"

definition HeadObject :: "env \<Rightarrow> string \<Rightarrow> int io" where
  "HeadObject E key =
    (if key = [] then throw (Opaque ''HeadObject: key is empty'')
     else bindM (store_get E ''NotFound'' key) (\<lambda>r. case r of
         Inl err \<Rightarrow> throw (mapR2Error ''HeadObject'' key err)
       | Inr out \<Rightarrow> (case o_size out of
             None \<Rightarrow> throw (Opaque (''HeadObject: missing ContentLength for '' @ key))
           | Some n \<Rightarrow> ok n)))"

definition GetObject :: "env \<Rightarrow> string \<Rightarrow> int \<Rightarrow> string io" where
  "GetObject E key maxBytes0 =
    (if key = [] then throw (Opaque ''GetObject: key is empty'')
     else let maxBytes = (if maxBytes0 \<le> 0 then 8 * 1024 * 1024 else maxBytes0) in
       bindM (store_get E ''NoSuchKey'' key) (\<lambda>r. case r of
         Inl err \<Rightarrow> throw (mapR2Error ''GetObject'' key err)
       | Inr out \<Rightarrow>
           tryM fault (\<lambda>err. throw (Errorf_tail (''GetObject: read '' @ key) err))
             (\<lambda>_. let body = take (nat (maxBytes + 1)) (o_body out) in
                  if int (length body) > maxBytes
                  then throw (Opaque (''GetObject: '' @ key @ '' exceeds '' @ FormatInt maxBytes @ '' bytes''))
                  else ok body)))"

section \<open>Local files\<close>

definition read_file :: "string \<Rightarrow> string io" where
  "read_file path = bindM fault (\<lambda>_ w. (case map_of (w_files w) path of
       None \<Rightarrow> Inl (Opaque (''open '' @ path @ '': no such file or directory''))
     | Some b \<Rightarrow> Inr b, w))"

definition put_file :: "string \<Rightarrow> string \<Rightarrow> unit io" where
  "put_file path b = (\<lambda>w. (Inr (),
     w\<lparr>w_files := (path, b) # filter (\<lambda>f. fst f \<noteq> path) (w_files w)\<rparr>))"

definition write_file :: "string \<Rightarrow> string \<Rightarrow> unit io" where
  "write_file path b = bindM fault (\<lambda>_. put_file path b)"

definition remove_file :: "string \<Rightarrow> unit io" where
  "remove_file path = (\<lambda>w. (Inr (), w\<lparr>w_files := filter (\<lambda>f. fst f \<noteq> path) (w_files w)\<rparr>))"

definition Download :: "env \<Rightarrow> string \<Rightarrow> string \<Rightarrow> unit io" where
  "Download E key destPath =
    (if key = [] then throw (Opaque ''Download: key is empty'')
     else if destPath = [] then throw (Opaque ''Download: destPath is empty'')
     else bindM (store_get E ''NoSuchKey'' key) (\<lambda>r. case r of
         Inl err \<Rightarrow> throw (mapR2Error ''Download'' key err)
       | Inr out \<Rightarrow>
           tryM (write_file destPath [])
             (\<lambda>err. throw (Errorf_tail (''Download: create '' @ destPath) err)) (\<lambda>_.
           tryM (write_file destPath (o_body out))
             (\<lambda>err. bindM (remove_file destPath) (\<lambda>_.
               throw (Errorf_tail (''Download: copy '' @ key) err))) (\<lambda>_.
           tryM fault
             (\<lambda>err. bindM (remove_file destPath) (\<lambda>_.
               throw (Errorf_tail (''Download: close '' @ destPath) err))) ok))))"

definition put_object :: "string \<Rightarrow> string \<Rightarrow> unit io" where
  "put_object key b = (\<lambda>w. (Inr (), w\<lparr>w_objects :=
     \<lparr>o_key = key, o_size = Some (int (length b)), o_body = b\<rparr> #
     filter (\<lambda>ob. o_key ob \<noteq> key) (w_objects w)\<rparr>))"

definition UploadFile :: "env \<Rightarrow> string \<Rightarrow> string \<Rightarrow> string \<Rightarrow> unit io" where
  "UploadFile E key filePath contentType =
    (if key = [] then throw (Opaque ''UploadFile: key is empty'')
     else if filePath = [] then throw (Opaque ''UploadFile: filePath is empty'')
     else tryM (read_file filePath)
       (\<lambda>err. throw (Errorf_tail (''UploadFile: open '' @ filePath) err))
       (\<lambda>b. tryM fault (\<lambda>err. throw (mapR2Error ''UploadFile'' key (sdk_error_of E err)))
         (\<lambda>_. put_object key b)))"

section \<open>Deleting and listing\<close>

definition remove_object :: "string \<Rightarrow> unit io" where
  "remove_object key = (\<lambda>w. (Inr (), w\<lparr>w_objects := filter (\<lambda>b. o_key b \<noteq> key) (w_objects w)\<rparr>))"

text \<open>One batch request: every key is removed or has an entry in the result.\<close>

fun store_delete :: "env \<Rightarrow> string list \<Rightarrow> (string \<times> sdk_error) list io" where
  "store_delete E [] = ok []"
| "store_delete E (k # ks) =
     tryM fault
       (\<lambda>err. bindM (store_delete E ks) (\<lambda>es. ok ((k, sdk_error_of E err) # es)))
       (\<lambda>_. bindM (remove_object k) (\<lambda>_. store_delete E ks))"

definition max_delete_keys :: nat where "max_delete_keys = 1000"

fun entry_code :: "sdk_error \<Rightarrow> string" where
  "entry_code (SdkAPIError code _) = code"
| "entry_code (SdkError _) = []"

fun entry_message :: "sdk_error \<Rightarrow> string" where
  "entry_message (SdkAPIError _ t) = t"
| "entry_message (SdkError t) = t"

fun first_failure :: "(string \<times> sdk_error) list \<Rightarrow> goerr option" where
  "first_failure [] = None"
| "first_failure ((k, e) # es) =
     (if isNotFoundErr (entry_code e) then first_failure es
      else Some (Opaque (''DeleteObjects: '' @ k @ '': '' @ entry_message e)))"

definition DeleteObjects :: "env \<Rightarrow> string list \<Rightarrow> unit io" where
  "DeleteObjects E keys =
    (let objects = filter (\<lambda>k. k \<noteq> []) keys in
     if objects = [] then ok ()
     else if length objects > max_delete_keys
       then throw (mapR2Error ''DeleteObjects'' [] (SdkAPIError ''MalformedXML'' ''too many keys''))
     else tryM fault (\<lambda>err. throw (mapR2Error ''DeleteObjects'' [] (sdk_error_of E err)))
       (\<lambda>_. bindM (store_delete E objects) (\<lambda>errors. case first_failure errors of
           None \<Rightarrow> ok ()
         | Some e \<Rightarrow> throw e)))"

function chunks :: "nat \<Rightarrow> 'a list \<Rightarrow> 'a list list" where
  "chunks n xs = (if xs = [] \<or> n = 0 then [] else take n xs # chunks n (drop n xs))"
  by pat_completeness auto
termination by (relation "measure (\<lambda>(_, xs). length xs)") auto

declare chunks.simps [simp del]

definition list_page_size :: nat where "list_page_size = 1000"

text \<open>
  The keys under a prefix, in key order, cut into pages; there is always a first
  page.  The pages are those of the objects present when the listing starts: the
  program deletes, while it lists, only keys of pages it has already received, and
  a continuation starts after the last key of the previous page.
\<close>

definition list_pages :: "string \<Rightarrow> object list \<Rightarrow> string list list" where
  "list_pages p objs =
    (let keys = sort (filter (prefix_of p) (map o_key objs))
     in if keys = [] then [[]] else chunks list_page_size keys)"

definition stored :: "object list io" where
  "stored = (\<lambda>w. (Inr (w_objects w), w))"

definition bad_prefix :: "string \<Rightarrow> string \<Rightarrow> goerr option" where
  "bad_prefix op p =
    (if p = [] then Some (Opaque (op @ '': prefix is empty''))
     else if last p \<noteq> CHR ''/''
       then Some (Opaque (op @ '': prefix '' @ Quote p @ '' must end with '' @ [CHR 0x27] @ ''/'' @ [CHR 0x27]))
     else if list_all (\<lambda>c. c = CHR ''/'') p
       then Some (Opaque (op @ '': prefix '' @ Quote p @ '' is too broad (would match bucket root)''))
     else None)"

text \<open>The keys of the pages, up to \<^verbatim>\<open>maxKeys\<close> of them when that is positive.\<close>

fun cap_keys :: "int \<Rightarrow> string list \<Rightarrow> string list \<Rightarrow> string list \<times> bool" where
  "cap_keys maxKeys keys [] = (keys, False)"
| "cap_keys maxKeys keys (k # ks) =
     (if k = [] then cap_keys maxKeys keys ks
      else let keys' = keys @ [k] in
        if maxKeys > 0 \<and> int (length keys') \<ge> maxKeys then (keys', True)
        else cap_keys maxKeys keys' ks)"

fun list_loop :: "env \<Rightarrow> string \<Rightarrow> int \<Rightarrow> string list \<Rightarrow> string list list \<Rightarrow> string list io" where
  "list_loop E p maxKeys keys [] = ok keys"
| "list_loop E p maxKeys keys (page # pages) =
     tryM fault
       (\<lambda>err. throw (Errorf_tail (''ListObjectsByPrefix: list under '' @ Quote p)
                (mapR2Error ''ListObjectsByPrefix'' p (sdk_error_of E err))))
       (\<lambda>_. case cap_keys maxKeys keys page of
           (keys', full) \<Rightarrow> if full then ok keys' else list_loop E p maxKeys keys' pages)"

definition ListObjectsByPrefix :: "env \<Rightarrow> string \<Rightarrow> int \<Rightarrow> string list io" where
  "ListObjectsByPrefix E p maxKeys =
    (case bad_prefix ''ListObjectsByPrefix'' p of
       Some e \<Rightarrow> throw e
     | None \<Rightarrow> bindM stored (\<lambda>objs. list_loop E p maxKeys [] (list_pages p objs)))"

text \<open>
  \<^verbatim>\<open>DeletePrefix\<close>: the batch not yet sent and the first error are the
  variables of its loop.
\<close>

definition flush :: "env \<Rightarrow> string \<Rightarrow> goerr option \<Rightarrow> string list \<Rightarrow> goerr option io" where
  "flush E p firstErr batch =
    (if batch = [] then ok firstErr
     else tryM (DeleteObjects E batch)
       (\<lambda>err. ok (case firstErr of
           None \<Rightarrow> Some (Errorf_tail (''DeletePrefix: batch under '' @ Quote p) err)
         | Some e \<Rightarrow> Some e))
       (\<lambda>_. ok firstErr))"

fun delete_page ::
  "env \<Rightarrow> string \<Rightarrow> goerr option \<Rightarrow> string list \<Rightarrow> string list \<Rightarrow> (goerr option \<times> string list) io"
where
  "delete_page E p firstErr batch [] = ok (firstErr, batch)"
| "delete_page E p firstErr batch (k # ks) =
     (if k = [] then delete_page E p firstErr batch ks
      else let batch' = batch @ [k] in
        if length batch' \<ge> max_delete_keys
        then bindM (flush E p firstErr batch') (\<lambda>fe. delete_page E p fe [] ks)
        else delete_page E p firstErr batch' ks)"

fun delete_loop ::
  "env \<Rightarrow> string \<Rightarrow> goerr option \<Rightarrow> string list \<Rightarrow> string list list \<Rightarrow> goerr option io"
where
  "delete_loop E p firstErr batch [] = flush E p firstErr batch"
| "delete_loop E p firstErr batch (page # pages) =
     tryM fault
       (\<lambda>err. ok (case firstErr of
           None \<Rightarrow> Some (Errorf_tail (''DeletePrefix: list under '' @ Quote p)
                     (mapR2Error ''DeletePrefix'' p (sdk_error_of E err)))
         | Some e \<Rightarrow> Some e))
       (\<lambda>_. bindM (delete_page E p firstErr batch page)
         (\<lambda>(fe, b). delete_loop E p fe b pages))"

definition DeletePrefix :: "env \<Rightarrow> string \<Rightarrow> unit io" where
  "DeletePrefix E p =
    (case bad_prefix ''DeletePrefix'' p of
       Some e \<Rightarrow> throw e
     | None \<Rightarrow> bindM stored (\<lambda>objs. bindM (delete_loop E p None [] (list_pages p objs))
         (\<lambda>firstErr. case firstErr of None \<Rightarrow> ok () | Some e \<Rightarrow> throw e)))"

end
