(* ===== verification/Hoare.thy ===== *)
theory Hoare
  imports R2
begin

text \<open>
  Hoare triples over the whole world, for the programs whose effect is not only on
  the tables (the store, the queue, the local files).  \<^verbatim>\<open>hoare P m Q E\<close>: from a
  world satisfying \<^verbatim>\<open>P\<close> the computation ends with a value and \<^verbatim>\<open>Q\<close>, or
  with an error and \<^verbatim>\<open>E\<close>.
\<close>

definition hoare ::
  "('s \<Rightarrow> bool) \<Rightarrow> ('s, 'e, 'a) prog \<Rightarrow> ('a \<Rightarrow> 's \<Rightarrow> bool) \<Rightarrow> ('e \<Rightarrow> 's \<Rightarrow> bool) \<Rightarrow> bool"
where
  "hoare P m Q E \<longleftrightarrow> (\<forall>w. P w \<longrightarrow>
     (case fst (m w) of Inl e \<Rightarrow> E e (snd (m w)) | Inr x \<Rightarrow> Q x (snd (m w))))"

lemma hoareI:
  assumes "\<And>w x. P w \<Longrightarrow> fst (m w) = Inr x \<Longrightarrow> Q x (snd (m w))"
    "\<And>w e. P w \<Longrightarrow> fst (m w) = Inl e \<Longrightarrow> E e (snd (m w))"
  shows "hoare P m Q E"
  using assms by (auto simp: hoare_def split: sum.split)

lemma hoareD:
  assumes "hoare P m Q E" "P w"
  shows "fst (m w) = Inr x \<Longrightarrow> Q x (snd (m w))" and "fst (m w) = Inl e \<Longrightarrow> E e (snd (m w))"
  using assms unfolding hoare_def by (auto dest: spec [of _ w])

lemma hoare_weaken:
  assumes "hoare P' m Q' E'" "\<And>w. P w \<Longrightarrow> P' w" "\<And>x w. Q' x w \<Longrightarrow> Q x w" "\<And>e w. E' e w \<Longrightarrow> E e w"
  shows "hoare P m Q E"
proof (rule hoareI)
  fix w x assume "P w" "fst (m w) = Inr x"
  then show "Q x (snd (m w))" using hoareD(1) [OF assms(1)] assms(2,3) by blast
next
  fix w e assume "P w" "fst (m w) = Inl e"
  then show "E e (snd (m w))" using hoareD(2) [OF assms(1)] assms(2,4) by blast
qed

lemma hoare_ok: "(\<And>w. P w \<Longrightarrow> Q x w) \<Longrightarrow> hoare P (ok x) Q E"
  by (simp add: hoare_def ok_def)

lemma hoare_throw: "(\<And>w. P w \<Longrightarrow> E e w) \<Longrightarrow> hoare P (throw e) Q E"
  by (simp add: hoare_def throw_def)

lemma hoare_tryM:
  assumes m: "hoare P m Q' E'" and h: "\<And>e. hoare (E' e) (h e) Q E"
    and k: "\<And>x. hoare (Q' x) (k x) Q E"
  shows "hoare P (tryM m h k) Q E"
proof (rule hoareI)
  fix w x assume P: "P w" and r: "fst (tryM m h k w) = Inr x"
  show "Q x (snd (tryM m h k w))"
    using r hoareD [OF m P] hoareD(1) [OF h] hoareD(1) [OF k]
    by (cases "fst (m w)") (auto simp: tryM_run)
next
  fix w e assume P: "P w" and r: "fst (tryM m h k w) = Inl e"
  show "E e (snd (tryM m h k w))"
    using r hoareD [OF m P] hoareD(2) [OF h] hoareD(2) [OF k]
    by (cases "fst (m w)") (auto simp: tryM_run)
qed

lemma hoare_bindM:
  assumes "hoare P m Q' E" "\<And>x. hoare (Q' x) (k x) Q E"
  shows "hoare P (bindM m k) Q E"
  unfolding bindM_def by (rule hoare_tryM [OF assms(1) _ assms(2)]) (simp add: hoare_throw)

lemma hoare_if:
  "(b \<Longrightarrow> hoare P m Q E) \<Longrightarrow> (\<not> b \<Longrightarrow> hoare P m' Q E) \<Longrightarrow> hoare P (if b then m else m') Q E"
  by simp

lemma hoare_option:
  "(x = None \<Longrightarrow> hoare P m Q E) \<Longrightarrow> (\<And>y. x = Some y \<Longrightarrow> hoare P (f y) Q E) \<Longrightarrow>
    hoare P (case x of None \<Rightarrow> m | Some y \<Rightarrow> f y) Q E"
  by (cases x) auto

lemma hoare_sum:
  "(\<And>e. x = Inl e \<Longrightarrow> hoare P (g e) Q E) \<Longrightarrow> (\<And>y. x = Inr y \<Longrightarrow> hoare P (f y) Q E) \<Longrightarrow>
    hoare P (case x of Inl e \<Rightarrow> g e | Inr y \<Rightarrow> f y) Q E"
  by (cases x) auto

lemma hoare_prod:
  "(\<And>a b. x = (a, b) \<Longrightarrow> hoare P (f a b) Q E) \<Longrightarrow> hoare P (case x of (a, b) \<Rightarrow> f a b) Q E"
  by (cases x) auto

lemmas hoare_intros = hoare_if hoare_option hoare_sum hoare_prod

text \<open>An invariant of the world: kept on the normal and on the error exit.\<close>

definition keeps :: "('s \<Rightarrow> bool) \<Rightarrow> ('s, 'e, 'a) prog \<Rightarrow> bool" where
  "keeps P m \<longleftrightarrow> (\<forall>w. P w \<longrightarrow> P (snd (m w)))"

interpretation kept: step_rel "\<lambda>w w'. P w \<longrightarrow> P w'" for P
  by unfold_locales auto

lemma keeps_rel: "keeps P m \<longleftrightarrow> step_rel.rel (\<lambda>w w'. P w \<longrightarrow> P w') m"
  by (simp add: keeps_def kept.rel_def)

lemma hoare_keeps: "keeps P m \<Longrightarrow> hoare P m (\<lambda>_. P) (\<lambda>_. P)"
  by (auto simp: keeps_def hoare_def split: sum.split)

lemma keepsI: "(\<And>w. P w \<Longrightarrow> P (snd (m w))) \<Longrightarrow> keeps P m"
  by (simp add: keeps_def)

lemmas keeps_intros = kept.rel_intros [folded keeps_rel]

text \<open>A predicate that does not look at the fault schedule is kept by a fault.\<close>

definition fault_free :: "(world \<Rightarrow> bool) \<Rightarrow> bool" where
  "fault_free P \<longleftrightarrow> (\<forall>w fs. P w \<longrightarrow> P (w\<lparr>w_faults := fs\<rparr>))"

lemma keeps_fault: "fault_free P \<Longrightarrow> keeps P fault"
  by (auto simp: keeps_def fault_def fault_free_def split: list.split option.split)

lemma hoare_fault: "fault_free P \<Longrightarrow> hoare P fault (\<lambda>_. P) (\<lambda>_. P)"
  by (rule hoare_keeps) (rule keeps_fault)

end
