(* ===== verification/Store.thy ===== *)
theory Store
  imports Hoare
begin

text \<open>
  What the store client guarantees.  \<^verbatim>\<open>loses K\<close> relates two worlds whose
  objects outside \<^verbatim>\<open>K\<close> are the same; it is an instance of \<^verbatim>\<open>step_rel\<close>,
  so every deleting operation is shown to lose only what it was given, for every
  schedule of failures.  The second half shows that a delete that reports success has
  removed everything.
\<close>

section \<open>Nothing else is lost\<close>

definition loses :: "(string \<Rightarrow> bool) \<Rightarrow> world \<Rightarrow> world \<Rightarrow> bool" where
  "loses K w w' \<longleftrightarrow>
     filter (\<lambda>b. \<not> K (o_key b)) (w_objects w') = filter (\<lambda>b. \<not> K (o_key b)) (w_objects w) \<and>
     set (w_objects w') \<subseteq> set (w_objects w)"

interpretation deletes: step_rel "loses K" for K
  by unfold_locales (auto simp: loses_def)

lemma loses_mono: "loses K w w' \<Longrightarrow> (\<And>k. K k \<Longrightarrow> K' k) \<Longrightarrow> loses K' w w'"
proof -
  assume l: "loses K w w'" and m: "\<And>k. K k \<Longrightarrow> K' k"
  have "filter (\<lambda>b. \<not> K' (o_key b)) xs =
      filter (\<lambda>b. \<not> K' (o_key b)) (filter (\<lambda>b. \<not> K (o_key b)) xs)" for xs
    using m by (auto simp: filter_filter intro: filter_cong)
  then show ?thesis using l unfolding loses_def by metis
qed

lemma deletes_mono: "deletes.rel K m \<Longrightarrow> (\<And>k. K k \<Longrightarrow> K' k) \<Longrightarrow> deletes.rel K' m"
  by (auto simp: deletes.rel_def intro: loses_mono)

lemma deletes_fault: "deletes.rel K fault"
  by (simp add: deletes.rel_def loses_def)

lemma deletes_remove: "K k \<Longrightarrow> deletes.rel K (remove_object k)"
  by (auto simp: deletes.rel_def loses_def remove_object_def intro: filter_cong)

lemmas deletes_intros = deletes.rel_intros deletes_fault

lemma deletes_store_delete:
  "(\<And>k. k \<in> set ks \<Longrightarrow> K k) \<Longrightarrow> deletes.rel K (store_delete E ks)"
proof (induction ks)
  case (Cons k ks)
  then have "K k" "deletes.rel K (store_delete E ks)" by auto
  then show ?case by (simp, intro deletes_intros deletes_remove) auto
qed (simp add: deletes.rel_ok)

lemma deletes_DeleteObjects:
  assumes "\<And>k. k \<in> set keys \<Longrightarrow> k \<noteq> [] \<Longrightarrow> K k"
  shows "deletes.rel K (DeleteObjects E keys)"
  unfolding DeleteObjects_def Let_def
  by (intro deletes_intros deletes_store_delete) (auto intro: assms)

lemma deletes_flush:
  "(\<And>k. k \<in> set batch \<Longrightarrow> K k) \<Longrightarrow> deletes.rel K (flush E p fe batch)"
  unfolding flush_def by (intro deletes_intros deletes_DeleteObjects)

lemma deletes_page:
  "(\<And>k. k \<in> set batch \<union> set page \<Longrightarrow> K k) \<Longrightarrow> deletes.rel K (delete_page E p fe batch page)"
proof (induction page arbitrary: fe batch)
  case (Cons k ks)
  then show ?case
    by (auto simp: Let_def intro!: deletes_intros deletes_flush Cons.IH)
qed (simp add: deletes.rel_ok)

lemma delete_page_keys:
  "fst (delete_page E p fe batch page w) = Inr (fe', b') \<Longrightarrow> set b' \<subseteq> set batch \<union> set page"
proof (induction page arbitrary: fe batch w)
  case (Cons k ks)
  show ?case
  proof (cases "k = [] \<or> \<not> length (batch @ [k]) \<ge> max_delete_keys")
    case True
    then show ?thesis using Cons.prems by (auto simp: Let_def split: if_splits dest!: Cons.IH)
  next
    case False
    then show ?thesis
      using Cons.prems by (auto simp: Let_def bindM_run split: sum.splits dest!: Cons.IH)
  qed
qed (simp add: ok_def)

lemma deletes_loop:
  "(\<And>k. k \<in> set batch \<union> set (concat pages) \<Longrightarrow> K k) \<Longrightarrow>
    deletes.rel K (delete_loop E p fe batch pages)"
proof (induction pages arbitrary: fe batch)
  case (Cons page pages)
  have "deletes.rel K (bindM (delete_page E p fe batch page) (\<lambda>(fe, b). delete_loop E p fe b pages))"
  proof (rule deletes.relI)
    fix w
    let ?m = "delete_page E p fe batch page"
    have a: "loses K w (snd (?m w))"
      using Cons.prems by (intro deletes.relD deletes_page) auto
    show "loses K w (snd (bindM ?m (\<lambda>(fe, b). delete_loop E p fe b pages) w))"
    proof (cases "fst (?m w)")
      case (Inl e)
      then show ?thesis using a by (simp add: bindM_run)
    next
      case (Inr r)
      obtain fe' b' where r: "r = (fe', b')" by (cases r)
      have "set b' \<subseteq> set batch \<union> set page"
        by (rule delete_page_keys) (use Inr r in simp)
      then have "deletes.rel K (delete_loop E p fe' b' pages)"
        using Cons.prems by (intro Cons.IH) auto
      then show ?thesis using a Inr r by (auto simp: bindM_run dest: deletes.relD intro: deletes.R_trans)
    qed
  qed
  then show ?case unfolding delete_loop.simps
    by (intro deletes.rel_tryM deletes_fault deletes.rel_ok)
qed (simp add: deletes_flush)

lemma concat_chunks: "n > 0 \<Longrightarrow> concat (chunks n xs) = xs"
  by (induction n xs rule: chunks.induct) (subst chunks.simps, auto)

lemma concat_list_pages: "concat (list_pages p objs) = sort (filter (prefix_of p) (map o_key objs))"
  by (simp add: list_pages_def Let_def concat_chunks list_page_size_def)

lemma deletes_stored: "deletes.rel K stored"
  by (simp add: deletes.rel_def stored_def loses_def)

lemma deletes_DeletePrefix: "deletes.rel (prefix_of p) (DeletePrefix E p)"
proof -
  have "deletes.rel (prefix_of p) (delete_loop E p None [] (list_pages p objs))" for objs
    by (rule deletes_loop) (auto simp: concat_list_pages simp del: set_concat)
  then show ?thesis unfolding DeletePrefix_def by (intro deletes_intros deletes_stored)
qed

section \<open>A delete that succeeds is complete\<close>

text \<open>The store calls a key missing only when it is.\<close>

definition honest_store :: "env \<Rightarrow> bool" where
  "honest_store E \<longleftrightarrow> (\<forall>m. \<not> isNotFoundErr (entry_code (env_sdk_error E m)))"

definition gone :: "string set \<Rightarrow> world \<Rightarrow> bool" where
  "gone ks w \<longleftrightarrow> (\<forall>k \<in> ks. k \<noteq> [] \<longrightarrow> k \<notin> o_key ` set (w_objects w))"

lemma gone_loses: "gone ks w \<Longrightarrow> loses K w w' \<Longrightarrow> gone ks w'"
  by (auto simp: gone_def loses_def)

lemma gone_rel: "gone ks w \<Longrightarrow> deletes.rel K m \<Longrightarrow> gone ks (snd (m w))"
  by (erule gone_loses) (rule deletes.relD)

lemma store_delete_gone:
  assumes "honest_store E"
  shows "fst (store_delete E ks w) = Inr es \<Longrightarrow> first_failure es = None \<Longrightarrow>
    gone (set ks) (snd (store_delete E ks w))"
proof (induction ks arbitrary: w es)
  case Nil
  then show ?case by (simp add: gone_def)
next
  case (Cons k ks)
  show ?case
  proof (cases "fst (fault w)")
    case (Inl err)
    then obtain es' where "es = (k, sdk_error_of E err) # es'"
      using Cons.prems(1) by (auto simp: tryM_run bindM_run ok_run split: sum.splits)
    then show ?thesis
      using Cons.prems(2) assms by (simp add: sdk_error_of_def honest_store_def split: if_splits)
  next
    case (Inr u)
    let ?v = "snd (remove_object k (snd (fault w)))"
    have run: "store_delete E (k # ks) w = store_delete E ks ?v"
      using Inr by (simp add: tryM_run bindM_run remove_object_def)
    have "gone (set ks) (snd (store_delete E ks ?v))"
      using Cons.prems unfolding run by (intro Cons.IH) auto
    moreover have "gone {k} ?v" by (auto simp: gone_def remove_object_def)
    then have "gone {k} (snd (store_delete E ks ?v))"
      by (rule gone_rel [where K = "\<lambda>_. True"]) (simp add: deletes_store_delete)
    ultimately show ?thesis unfolding run by (auto simp: gone_def)
  qed
qed

lemma DeleteObjects_gone:
  assumes "honest_store E" "fst (DeleteObjects E keys w) = Inr ()"
  shows "gone (set keys) (snd (DeleteObjects E keys w))"
proof -
  let ?ks = "filter (\<lambda>k. k \<noteq> []) keys"
  have eq: "gone (set keys) v = gone (set ?ks) v" for v by (auto simp: gone_def)
  show ?thesis
  proof (cases "?ks = []")
    case True
    then show ?thesis unfolding eq by (simp add: gone_def)
  next
    case False
    let ?v = "snd (fault w)"
    obtain es where es: "fst (store_delete E ?ks ?v) = Inr es" "first_failure es = None"
      and run: "snd (DeleteObjects E keys w) = snd (store_delete E ?ks ?v)"
      using assms(2) False
      by (auto simp: DeleteObjects_def Let_def tryM_run bindM_run run_simps
          split: if_splits sum.splits option.splits)
    show ?thesis unfolding eq run by (rule store_delete_gone [OF assms(1) es])
  qed
qed

definition pending :: "string set \<Rightarrow> goerr option \<Rightarrow> string list \<Rightarrow> world \<Rightarrow> bool" where
  "pending seen fe batch w \<longleftrightarrow> fe = None \<longrightarrow> gone (seen - set batch) w"

lemma flush_pending:
  assumes "honest_store E" "pending seen fe batch w" "fst (flush E p fe batch w) = Inr fe'"
  shows "pending seen fe' [] (snd (flush E p fe batch w))"
proof (cases "batch = []")
  case True
  then show ?thesis using assms by (simp add: flush_def run_simps)
next
  case False
  let ?m = "DeleteObjects E batch"
  show ?thesis
  proof (cases "fe' = None")
    case True
    then have r: "fe = None" "fst (?m w) = Inr ()"
      using assms(3) False by (auto simp: flush_def run_simps split: sum.splits option.splits)
    then have run: "snd (flush E p fe batch w) = snd (?m w)"
      using False by (simp add: flush_def run_simps)
    have "gone (set batch) (snd (?m w))" using r(2) by (intro DeleteObjects_gone assms(1))
    moreover have "gone (seen - set batch) (snd (?m w))"
      using assms(2) r(1) unfolding pending_def
      by (intro gone_rel [where K = "\<lambda>_. True"] deletes_DeleteObjects) auto
    ultimately show ?thesis unfolding run by (auto simp: pending_def gone_def)
  qed (simp add: pending_def del: not_None_eq)
qed

lemma page_pending:
  assumes "honest_store E"
  shows "pending seen fe batch w \<Longrightarrow> fst (delete_page E p fe batch page w) = Inr (fe', b') \<Longrightarrow>
    pending (seen \<union> set page) fe' b' (snd (delete_page E p fe batch page w))"
proof (induction page arbitrary: seen fe batch w)
  case Nil
  then show ?case by (simp add: run_simps)
next
  case (Cons k ks)
  have un: "seen \<union> set (k # ks) = (seen \<union> {k}) \<union> set ks" by auto
  show ?case
  proof (cases "k = []")
    case True
    have "pending (seen \<union> {k}) fe batch w"
      using Cons.prems(1) True by (auto simp: pending_def gone_def)
    moreover have run: "delete_page E p fe batch (k # ks) w = delete_page E p fe batch ks w"
      using True by simp
    ultimately show ?thesis using Cons.prems(2) unfolding run un by (intro Cons.IH)
  next
    case False
    let ?b = "batch @ [k]"
    have pb: "pending (seen \<union> {k}) fe ?b w"
      using Cons.prems(1) by (auto simp: pending_def gone_def)
    show ?thesis
    proof (cases "length ?b \<ge> max_delete_keys")
      case True
      let ?f = "flush E p fe ?b"
      obtain fe1 where f: "fst (?f w) = Inr fe1"
        using Cons.prems(2) False True by (auto simp: Let_def bindM_run split: sum.splits)
      then have run: "delete_page E p fe batch (k # ks) w = delete_page E p fe1 [] ks (snd (?f w))"
        using False True by (simp add: Let_def bindM_run)
      show ?thesis using Cons.prems(2) unfolding run un
        by (intro Cons.IH flush_pending [OF assms pb f])
    next
      case short: False
      then have run: "delete_page E p fe batch (k # ks) w = delete_page E p fe ?b ks w"
        using False by (simp add: Let_def)
      show ?thesis using Cons.prems(2) unfolding run un by (intro Cons.IH pb)
    qed
  qed
qed

lemma loop_pending:
  assumes "honest_store E"
  shows "pending seen fe batch w \<Longrightarrow> fst (delete_loop E p fe batch pages w) = Inr None \<Longrightarrow>
    gone (seen \<union> set (concat pages)) (snd (delete_loop E p fe batch pages w))"
proof (induction pages arbitrary: seen fe batch w)
  case Nil
  then show ?case using flush_pending [OF assms, of seen fe batch w p None]
    by (simp add: pending_def)
next
  case (Cons page pages)
  let ?v = "snd (fault w)"
  have ff: "fst (fault w) = Inr ()" using Cons.prems(2)
    by (cases "fst (fault w)") (simp_all add: run_simps split: option.splits)
  have p: "pending seen fe batch ?v" using Cons.prems(1) by (simp add: pending_def gone_def)
  obtain fe1 b1 where pg: "fst (delete_page E p fe batch page ?v) = Inr (fe1, b1)"
    using Cons.prems(2) ff by (auto simp: tryM_run bindM_run split: sum.splits)
  let ?u = "snd (delete_page E p fe batch page ?v)"
  have run: "delete_loop E p fe batch (page # pages) w = delete_loop E p fe1 b1 pages ?u"
    using ff pg by (simp add: tryM_run bindM_run)
  have "seen \<union> set (concat (page # pages)) = (seen \<union> set page) \<union> set (concat pages)" by auto
  then show ?case using Cons.prems(2) unfolding run
    by (simp only:) (intro Cons.IH page_pending [OF assms p pg])
qed

lemma DeletePrefix_gone:
  assumes "honest_store E" "fst (DeletePrefix E p w) = Inr ()"
  shows "\<forall>b \<in> set (w_objects (snd (DeletePrefix E p w))). o_key b \<noteq> [] \<longrightarrow> \<not> prefix_of p (o_key b)"
proof -
  have n: "bad_prefix ''DeletePrefix'' p = None"
    using assms(2) by (auto simp: DeletePrefix_def run_simps split: option.splits)
  let ?l = "delete_loop E p None [] (list_pages p (w_objects w))"
  have r: "fst (?l w) = Inr None" and run: "snd (DeletePrefix E p w) = snd (?l w)"
    using assms(2) n
    by (auto simp: DeletePrefix_def run_simps stored_def split: option.splits sum.splits)
  have "gone ({} \<union> set (concat (list_pages p (w_objects w)))) (snd (?l w))"
    by (rule loop_pending [OF assms(1) _ r]) (simp add: pending_def gone_def)
  moreover have "set (w_objects (snd (?l w))) \<subseteq> set (w_objects w)"
    using deletes.relD [OF deletes_DeletePrefix [of p E], of w] unfolding run [symmetric]
    by (simp add: loses_def)
  ultimately show ?thesis unfolding run
    by (auto simp: gone_def concat_list_pages simp del: set_concat)
qed

text \<open>No accepted prefix covers the bucket: it contains a key character and ends a segment.\<close>

lemma accepted_prefix:
  "bad_prefix op p = None \<Longrightarrow> last p = CHR ''/'' \<and> (\<exists>c \<in> set p. c \<noteq> CHR ''/'')"
  by (auto simp: bad_prefix_def list_all_iff split: if_splits)

section \<open>The rest of the world\<close>

lemma quiet_files:
  "quiet.rel (put_file p b)" "quiet.rel (remove_file p)" "quiet.rel (remove_object k)"
  "quiet.rel (put_object k b)" "quiet.rel (read_file p)" "quiet.rel (write_file p b)"
  unfolding read_file_def write_file_def
  by ((intro quiet_intros quiet_pure | simp add: quiet.rel_def put_file_def remove_file_def
      remove_object_def put_object_def)+)

lemma dbsame_files:
  "dbsame.rel (put_file p b)" "dbsame.rel (remove_file p)" "dbsame.rel (remove_object k)"
  "dbsame.rel (put_object k b)" "dbsame.rel (read_file p)" "dbsame.rel (write_file p b)"
  unfolding read_file_def write_file_def
  by ((intro dbsame_intros dbsame_pure | simp add: dbsame.rel_def put_file_def remove_file_def
      remove_object_def put_object_def)+)

lemma quiet_store_get: "quiet.rel (store_get E m k)"
  unfolding store_get_def by (intro quiet_intros quiet_pure)

lemma dbsame_store_get: "dbsame.rel (store_get E m k)"
  unfolding store_get_def by (intro dbsame_intros dbsame_pure)

lemma quiet_store_delete: "quiet.rel (store_delete E ks)"
  by (induction ks) (simp_all, (intro quiet_intros quiet_files)+)

lemma dbsame_store_delete: "dbsame.rel (store_delete E ks)"
  by (induction ks) (simp_all, (intro dbsame_intros dbsame_files)+)

lemma quiet_DeleteObjects: "quiet.rel (DeleteObjects E ks)"
  unfolding DeleteObjects_def Let_def by (intro quiet_intros quiet_store_delete)

lemma dbsame_DeleteObjects: "dbsame.rel (DeleteObjects E ks)"
  unfolding DeleteObjects_def Let_def by (intro dbsame_intros dbsame_store_delete)

lemma dbsame_flush: "dbsame.rel (flush E p fe b)"
  unfolding flush_def by (intro dbsame_intros dbsame_DeleteObjects)

lemma dbsame_page: "dbsame.rel (delete_page E p fe b ks)"
  by (induction ks arbitrary: fe b) (auto simp: Let_def intro!: dbsame_intros dbsame_flush)

lemma dbsame_loop: "dbsame.rel (delete_loop E p fe b pages)"
proof (induction pages arbitrary: fe b)
  case (Cons page pages)
  then show ?case unfolding delete_loop.simps by (intro dbsame_intros dbsame_page)
qed (simp add: dbsame_flush)

lemma dbsame_stored: "dbsame.rel stored"
  by (simp add: dbsame.rel_def stored_def)

lemma dbsame_DeletePrefix: "dbsame.rel (DeletePrefix E p)"
  unfolding DeletePrefix_def by (intro dbsame_intros dbsame_stored dbsame_loop)

lemma dbsame_list_loop: "dbsame.rel (list_loop E p m ks pages)"
proof (induction pages arbitrary: ks)
  case (Cons page pages)
  then show ?case unfolding list_loop.simps by (intro dbsame_intros)
qed (simp add: dbsame.rel_ok)

lemma dbsame_ListObjectsByPrefix: "dbsame.rel (ListObjectsByPrefix E p m)"
  unfolding ListObjectsByPrefix_def by (intro dbsame_intros dbsame_stored dbsame_list_loop)

lemma quiet_R2:
  "quiet.rel (PresignPut E k t x)" "quiet.rel (PresignGet E k x)" "quiet.rel (HeadObject E k)"
  "quiet.rel (GetObject E k m)" "quiet.rel (Download E k f)" "quiet.rel (UploadFile E k f t)"
  unfolding PresignPut_def PresignGet_def HeadObject_def GetObject_def Download_def UploadFile_def
    Let_def by (intro quiet_intros quiet_store_get quiet_files)+

lemma dbsame_R2:
  "dbsame.rel (PresignPut E k t x)" "dbsame.rel (PresignGet E k x)" "dbsame.rel (HeadObject E k)"
  "dbsame.rel (GetObject E k m)" "dbsame.rel (Download E k f)" "dbsame.rel (UploadFile E k f t)"
  unfolding PresignPut_def PresignGet_def HeadObject_def GetObject_def Download_def UploadFile_def
    Let_def by (intro dbsame_intros dbsame_store_get dbsame_files)+

lemmas dbsame_store = dbsame_R2 dbsame_DeleteObjects dbsame_DeletePrefix dbsame_ListObjectsByPrefix
lemmas preserves_store = dbsame_store [THEN preserves_dbsame]

end
