(* ===== verification/Counters.thy ===== *)
theory Counters
  imports Triples
begin

text \<open>
  The denormalised counters.  \<^verbatim>\<open>likes_exact\<close> and \<^verbatim>\<open>comments_exact\<close> say that
  \<^verbatim>\<open>likes_count\<close> and \<^verbatim>\<open>comments_count\<close> of every video are the numbers of its
  rows in \<^verbatim>\<open>likes\<close> and \<^verbatim>\<open>comments\<close>.  Inside a transaction a counter may be
  off by a known amount; the \<^verbatim>\<open>gap\<close> predicates carry that amount from the row
  statement to the counter statement.
\<close>

definition like_rows :: "db \<Rightarrow> uuid \<Rightarrow> int" where
  "like_rows d vid = int (count_rows (\<lambda>l. l_VideoID l = vid) (likes d))"

definition comment_rows :: "db \<Rightarrow> uuid \<Rightarrow> int" where
  "comment_rows d vid = int (count_rows (\<lambda>c. c_VideoID c = vid) (comments d))"

definition likes_gap :: "uuid \<Rightarrow> int \<Rightarrow> db \<Rightarrow> bool" where
  "likes_gap vid k d \<longleftrightarrow>
     (\<forall>v \<in> set (videos d). v_LikesCount v + (if v_ID v = vid then k else 0) = like_rows d (v_ID v))"

definition comments_gap :: "uuid \<Rightarrow> int \<Rightarrow> db \<Rightarrow> bool" where
  "comments_gap vid k d \<longleftrightarrow>
     (\<forall>v \<in> set (videos d). v_CommentsCount v + (if v_ID v = vid then k else 0) = comment_rows d (v_ID v))"

definition likes_exact :: "db \<Rightarrow> bool" where
  "likes_exact d \<longleftrightarrow> (\<forall>v \<in> set (videos d). v_LikesCount v = like_rows d (v_ID v))"

definition comments_exact :: "db \<Rightarrow> bool" where
  "comments_exact d \<longleftrightarrow> (\<forall>v \<in> set (videos d). v_CommentsCount v = comment_rows d (v_ID v))"

lemma likes_gap_0: "likes_gap vid 0 d = likes_exact d"
  by (simp add: likes_gap_def likes_exact_def)

lemma comments_gap_0: "comments_gap vid 0 d = comments_exact d"
  by (simp add: comments_gap_def comments_exact_def)

text \<open>The two invariants the handlers keep.\<close>

definition likes_inv :: "db \<Rightarrow> bool" where
  "likes_inv d \<longleftrightarrow> constraints d \<and> likes_exact d"

definition replies_inv :: "db \<Rightarrow> bool" where
  "replies_inv d \<longleftrightarrow> constraints d \<and> ranked_rows (comments d)"

definition comments_inv :: "db \<Rightarrow> bool" where
  "comments_inv d \<longleftrightarrow> constraints d \<and> ranked_rows (comments d) \<and> comments_exact d"

section \<open>What the invariants depend on\<close>

definition like_view :: "db \<Rightarrow> (uuid \<times> int) list \<times> Like list" where
  "like_view d = (map (\<lambda>v. (v_ID v, v_LikesCount v)) (videos d), likes d)"

definition comment_view :: "db \<Rightarrow> (uuid \<times> int) list \<times> Comment list" where
  "comment_view d = (map (\<lambda>v. (v_ID v, v_CommentsCount v)) (videos d), comments d)"

lemma likes_gap_view:
  "likes_gap vid k d \<longleftrightarrow> (\<forall>(i, n) \<in> set (fst (like_view d)).
      n + (if i = vid then k else 0) = int (count_rows (\<lambda>l. l_VideoID l = i) (snd (like_view d))))"
  by (auto simp: likes_gap_def like_view_def like_rows_def)

lemma comments_gap_view:
  "comments_gap vid k d \<longleftrightarrow> (\<forall>(i, n) \<in> set (fst (comment_view d)).
      n + (if i = vid then k else 0) = int (count_rows (\<lambda>c. c_VideoID c = i) (snd (comment_view d))))"
  by (auto simp: comments_gap_def comment_view_def comment_rows_def)

lemma likes_gap_frame: "like_view d' = like_view d \<Longrightarrow> likes_gap vid k d' = likes_gap vid k d"
  by (simp add: likes_gap_view)

lemma comments_gap_frame: "comment_view d' = comment_view d \<Longrightarrow> comments_gap vid k d' = comments_gap vid k d"
  by (simp add: comments_gap_view)

lemma likes_exact_frame: "like_view d' = like_view d \<Longrightarrow> likes_exact d' = likes_exact d"
  using likes_gap_frame [of d' d undefined 0] by (simp add: likes_gap_0)

lemma comments_exact_frame: "comment_view d' = comment_view d \<Longrightarrow> comments_exact d' = comments_exact d"
  using comments_gap_frame [of d' d undefined 0] by (simp add: comments_gap_0)

lemma like_view_updates [simp]:
  "like_view (d\<lparr>users := us\<rparr>) = like_view d" "like_view (d\<lparr>follows := fs\<rparr>) = like_view d"
  "like_view (d\<lparr>comments := cs\<rparr>) = like_view d" "like_view (d\<lparr>notifications := ns\<rparr>) = like_view d"
  by (simp_all add: like_view_def)

lemma comment_view_updates [simp]:
  "comment_view (d\<lparr>users := us\<rparr>) = comment_view d" "comment_view (d\<lparr>follows := fs\<rparr>) = comment_view d"
  "comment_view (d\<lparr>likes := ls\<rparr>) = comment_view d"
  "comment_view (d\<lparr>notifications := ns\<rparr>) = comment_view d"
  by (simp_all add: comment_view_def)

lemma like_view_update_videos:
  "(\<And>v. v_ID (f v) = v_ID v \<and> v_LikesCount (f v) = v_LikesCount v) \<Longrightarrow>
    like_view (d\<lparr>videos := update_rows P f (videos d)\<rparr>) = like_view d"
  by (simp add: like_view_def map_update_rows_same)

lemma comment_view_update_videos:
  "(\<And>v. v_ID (f v) = v_ID v \<and> v_CommentsCount (f v) = v_CommentsCount v) \<Longrightarrow>
    comment_view (d\<lparr>videos := update_rows P f (videos d)\<rparr>) = comment_view d"
  by (simp add: comment_view_def map_update_rows_same)

section \<open>The counter statements close the gap\<close>

lemma update_rows_all:
  assumes "\<And>v. v \<in> set vs \<Longrightarrow> Q (if P v then f v else v)"
  shows "\<forall>v \<in> set (update_rows P f vs). Q v"
  using assms by (auto simp only: update_rows_set)

lemma like_rows_videos [simp]: "like_rows (d\<lparr>videos := vs\<rparr>) i = like_rows d i"
  by (simp add: like_rows_def)

lemma comment_rows_videos [simp]: "comment_rows (d\<lparr>videos := vs\<rparr>) i = comment_rows d i"
  by (simp add: comment_rows_def)

lemma like_rows_nonneg: "0 \<le> like_rows d i"
  by (simp add: like_rows_def)

lemma comment_rows_nonneg: "0 \<le> comment_rows d i"
  by (simp add: comment_rows_def)

lemma likes_gap_increment:
  assumes "likes_gap vid 1 d"
  shows "likes_exact (d\<lparr>videos := update_rows (\<lambda>v. v_ID v = vid)
     (\<lambda>v. v\<lparr>v_LikesCount := v_LikesCount v + 1\<rparr>) (videos d)\<rparr>)"
  unfolding likes_exact_def db.select_convs db.update_convs like_rows_videos
  by (simp, rule update_rows_all) (use assms in \<open>auto simp: likes_gap_def\<close>)

lemma likes_gap_decrement:
  assumes "likes_gap vid (-1) d"
  shows "likes_exact (d\<lparr>videos := update_rows (\<lambda>v. v_ID v = vid \<and> v_LikesCount v > 0)
     (\<lambda>v. v\<lparr>v_LikesCount := v_LikesCount v - 1\<rparr>) (videos d)\<rparr>)"
  unfolding likes_exact_def db.select_convs db.update_convs like_rows_videos
proof (simp, rule update_rows_all)
  fix v assume "v \<in> set (videos d)"
  then have "v_LikesCount v + (if v_ID v = vid then -1 else 0) = like_rows d (v_ID v)"
    using assms unfolding likes_gap_def by blast
  then show "v_LikesCount (if v_ID v = vid \<and> 0 < v_LikesCount v then v\<lparr>v_LikesCount := v_LikesCount v - 1\<rparr> else v) =
     like_rows d (v_ID (if v_ID v = vid \<and> 0 < v_LikesCount v then v\<lparr>v_LikesCount := v_LikesCount v - 1\<rparr> else v))"
    using like_rows_nonneg [of d "v_ID v"] by (auto split: if_splits)
qed

lemma comments_gap_increment:
  assumes "comments_gap vid 1 d"
  shows "comments_exact (d\<lparr>videos := update_rows (\<lambda>v. v_ID v = vid)
     (\<lambda>v. v\<lparr>v_CommentsCount := v_CommentsCount v + 1\<rparr>) (videos d)\<rparr>)"
  unfolding comments_exact_def db.select_convs db.update_convs comment_rows_videos
  by (simp, rule update_rows_all) (use assms in \<open>auto simp: comments_gap_def\<close>)

lemma comments_gap_decrement:
  assumes "comments_gap vid (- n) d"
  shows "comments_exact (d\<lparr>videos := update_rows (\<lambda>v. v_ID v = vid)
     (\<lambda>v. v\<lparr>v_CommentsCount := max (v_CommentsCount v - n) 0\<rparr>) (videos d)\<rparr>)"
  unfolding comments_exact_def db.select_convs db.update_convs comment_rows_videos
proof (simp, rule update_rows_all)
  fix v assume "v \<in> set (videos d)"
  then have "v_CommentsCount v + (if v_ID v = vid then - n else 0) = comment_rows d (v_ID v)"
    using assms unfolding comments_gap_def by blast
  then show "v_CommentsCount (if v_ID v = vid then v\<lparr>v_CommentsCount := max (v_CommentsCount v - n) 0\<rparr> else v) =
     comment_rows d (v_ID (if v_ID v = vid then v\<lparr>v_CommentsCount := max (v_CommentsCount v - n) 0\<rparr> else v))"
    using comment_rows_nonneg [of d "v_ID v"] by (auto split: if_splits)
qed

section \<open>The row statements open it\<close>

lemma insert_like_gap:
  "likes_exact d \<Longrightarrow> l_VideoID l = vid \<Longrightarrow> likes_gap vid 1 (d\<lparr>likes := likes d @ [l]\<rparr>)"
  by (auto simp: likes_exact_def likes_gap_def like_rows_def)

lemma insert_comment_gap:
  "comments_exact d \<Longrightarrow> c_VideoID c = vid \<Longrightarrow> comments_gap vid 1 (d\<lparr>comments := comments d @ [c]\<rparr>)"
  by (auto simp: comments_exact_def comments_gap_def comment_rows_def)

lemma delete_like_gap:
  assumes "likes_exact d" "likes_ok d" "l \<in> set (likes d)" "l_UserID l = uid" "l_VideoID l = vid"
  shows "likes_gap vid (-1)
     (d\<lparr>likes := filter (\<lambda>l. \<not> (l_UserID l = uid \<and> l_VideoID l = vid)) (likes d)\<rparr>)"
proof -
  let ?key = "\<lambda>l. (l_UserID l, l_VideoID l)"
  have dist: "distinct (map ?key (likes d))" using assms(2) by (simp add: likes_ok_def)
  have one: "count_rows (\<lambda>l. l_UserID l = uid \<and> l_VideoID l = vid) (likes d) = 1"
  proof -
    have "count_rows (\<lambda>l. ?key l = (uid, vid)) (likes d) = 1"
      using count_rows_key [OF dist, of "(uid, vid)"] assms(3-5) by force
    then show ?thesis by simp
  qed
  have "count_rows (\<lambda>l. l_VideoID l = i) (likes d) =
      count_rows (\<lambda>l. l_VideoID l = i \<and> \<not> (l_UserID l = uid \<and> l_VideoID l = vid)) (likes d)
      + (if i = vid then 1 else 0)" for i
  proof -
    have "count_rows (\<lambda>l. l_VideoID l = i \<and> l_UserID l = uid \<and> l_VideoID l = vid) (likes d) =
        (if i = vid then 1 else 0)"
    proof (cases "i = vid")
      case True
      then have "count_rows (\<lambda>l. l_VideoID l = i \<and> l_UserID l = uid \<and> l_VideoID l = vid) (likes d) =
          count_rows (\<lambda>l. l_UserID l = uid \<and> l_VideoID l = vid) (likes d)"
        by (intro count_rows_cong) auto
      then show ?thesis using one True by simp
    next
      case False
      then show ?thesis by (auto simp: count_rows_0)
    qed
    then show ?thesis
      using count_rows_split [of "\<lambda>l. l_VideoID l = i" "likes d" "\<lambda>l. l_UserID l = uid \<and> l_VideoID l = vid"]
      by simp
  qed
  then show ?thesis
    using assms(1) by (auto simp: likes_exact_def likes_gap_def like_rows_def count_rows_filter)
qed

text \<open>Deleting a comment opens a gap of exactly the size the recursive query returns.\<close>

lemma count_rows_distinct:
  assumes "distinct (map f cs)" "distinct R" "set R \<subseteq> f ` set cs"
  shows "count_rows (\<lambda>c. f c \<in> set R) cs = length R"
proof -
  have "distinct (map f (filter (\<lambda>c. f c \<in> set R) cs))" using assms(1) by (rule distinct_map_filter)
  moreover have "set (map f (filter (\<lambda>c. f c \<in> set R) cs)) = set R" using assms(3) by auto
  ultimately have "length (map f (filter (\<lambda>c. f c \<in> set R) cs)) = length R"
    using assms(2) by (metis distinct_card)
  then show ?thesis by (simp add: count_rows_def)
qed

lemma delete_comment_gap:
  assumes inv: "comments_inv d" and c: "c \<in> set (comments d)"
  obtains rows where "subtree_rows (comments d) [c_ID c] = Some rows"
    "comments_gap (c_VideoID c) (- int (length rows)) (delete_comments (\<lambda>x. c_ID x = c_ID c) d)"
    "length rows > 0"
proof -
  have ok: "comments_ok d" and rk: "ranked_rows (comments d)" and ex: "comments_exact d"
    using inv by (auto simp: comments_inv_def constraints_def)
  have dist: "distinct (map c_ID (comments d))" using ok by (simp add: comments_ok_def)
  obtain rows where rows: "subtree_rows (comments d) [c_ID c] = Some rows" "distinct rows"
    "c_ID c \<in> set rows" "set rows \<subseteq> c_ID ` set (comments d)"
    "delete_comments_where (\<lambda>x. c_ID x = c_ID c) (comments d) =
       filter (\<lambda>x. c_ID x \<notin> set rows) (comments d)"
    "\<forall>x \<in> set (comments d). c_ID x \<in> set rows \<longrightarrow> x = c \<or> (\<exists>p \<in> set rows. c_ParentID x = Some p)"
    using subtree_delete [OF dist rk c] by blast
  have vid: "c_VideoID x = c_VideoID c" if "x \<in> set (comments d)" "c_ID x \<in> set rows" for x
    using subtree_one_video [OF ok rk c rows(6)] that by blast
  have all: "count_rows (\<lambda>x. c_ID x \<in> set rows) (comments d) = length rows"
    by (rule count_rows_distinct [OF dist rows(2,4)])
  have "count_rows (\<lambda>x. c_VideoID x = i) (comments d) =
      count_rows (\<lambda>x. c_VideoID x = i \<and> c_ID x \<notin> set rows) (comments d)
      + (if i = c_VideoID c then length rows else 0)" for i
  proof -
    have "count_rows (\<lambda>x. c_VideoID x = i \<and> c_ID x \<in> set rows) (comments d) =
        (if i = c_VideoID c then length rows else 0)"
    proof (cases "i = c_VideoID c")
      case True
      then have "count_rows (\<lambda>x. c_VideoID x = i \<and> c_ID x \<in> set rows) (comments d) =
          count_rows (\<lambda>x. c_ID x \<in> set rows) (comments d)"
        by (intro count_rows_cong) (use vid in auto)
      then show ?thesis using all True by simp
    next
      case False
      then show ?thesis using vid by (auto simp: count_rows_0)
    qed
    then show ?thesis
      using count_rows_split [of "\<lambda>x. c_VideoID x = i" "comments d" "\<lambda>x. c_ID x \<in> set rows"] by simp
  qed
  then have "comments_gap (c_VideoID c) (- int (length rows)) (delete_comments (\<lambda>x. c_ID x = c_ID c) d)"
    using ex by (auto simp: comments_exact_def comments_gap_def comment_rows_def delete_comments_def
        rows(5) count_rows_filter)
  moreover have "length rows > 0" using rows(3) by (cases rows) auto
  ultimately show ?thesis using that rows(1) by blast
qed

section \<open>Deleting videos\<close>

lemma cascade_subset: "set (cascade ids cs) \<subseteq> set cs"
proof (induction ids cs rule: cascade.induct)
  case (1 ids cs)
  show ?case
  proof (cases "filter (child_of ids) cs")
    case Nil
    then show ?thesis by (subst cascade.simps) simp
  next
    case (Cons h hs)
    then show ?thesis using 1 [OF Cons] by (subst cascade.simps) auto
  qed
qed

lemma delete_comments_subset: "set (delete_comments_where P cs) \<subseteq> set cs"
  unfolding delete_comments_where_def using cascade_subset by fastforce

text \<open>
  Deleting comments by a condition that replies inherit from their parents (here:
  belonging to a video) cascades to nothing else.
\<close>

lemma delete_comments_closed:
  assumes "\<forall>c \<in> set cs. \<forall>p \<in> set cs. c_ParentID c = Some (c_ID p) \<and> P p \<longrightarrow> P c"
  shows "delete_comments_where P cs = filter (\<lambda>c. \<not> P c) cs"
proof -
  have "filter (child_of (map c_ID (filter P cs))) (filter (\<lambda>c. \<not> P c) cs) = []"
    using assms by (auto simp: filter_empty_conv child_of_def split: option.splits)
  then show ?thesis unfolding delete_comments_where_def by (subst cascade.simps) simp
qed

lemma delete_videos_comments:
  assumes "comments_ok d"
  shows "comments (delete_videos P d) =
     filter (\<lambda>c. c_VideoID c \<notin> v_ID ` set (filter P (videos d))) (comments d)"
proof -
  let ?gone = "map v_ID (filter P (videos d))"
  have "delete_comments_where (\<lambda>c. c_VideoID c \<in> set ?gone) (comments d) =
      filter (\<lambda>c. \<not> c_VideoID c \<in> set ?gone) (comments d)"
  proof (rule delete_comments_closed, intro ballI impI)
    fix c p assume cp: "c \<in> set (comments d)" "p \<in> set (comments d)"
      "c_ParentID c = Some (c_ID p) \<and> c_VideoID p \<in> set ?gone"
    have "(c_ID p, c_VideoID c) \<in> (\<lambda>c. (c_ID c, c_VideoID c)) ` set (comments d)"
      using assms cp by (auto simp: comments_ok_def list_all_iff split: option.splits)
    then obtain q where "q \<in> set (comments d)" "c_ID q = c_ID p" "c_VideoID q = c_VideoID c" by auto
    moreover have "q = p"
      using calculation cp assms key_inj [of c_ID "comments d"] by (auto simp: comments_ok_def)
    ultimately show "c_VideoID c \<in> set ?gone" using cp by simp
  qed
  then show ?thesis by (simp add: delete_videos_def Let_def)
qed

lemma delete_videos_likes:
  "likes (delete_videos P d) =
     filter (\<lambda>l. l_VideoID l \<notin> v_ID ` set (filter P (videos d))) (likes d)"
  by (simp add: delete_videos_def Let_def)

lemma delete_videos_videos: "videos (delete_videos P d) = filter (\<lambda>v. \<not> P v) (videos d)"
  by (simp add: delete_videos_def Let_def)

lemma kept_not_gone:
  assumes "videos_ok d" "v \<in> set (videos d)" "\<not> P v"
  shows "v_ID v \<notin> v_ID ` set (filter P (videos d))"
proof
  assume "v_ID v \<in> v_ID ` set (filter P (videos d))"
  then obtain w where "w \<in> set (videos d)" "P w" "v_ID w = v_ID v" by auto
  then show False using assms key_inj [of v_ID "videos d" w v] by (auto simp: videos_ok_def)
qed

lemma delete_videos_likes_exact:
  assumes "constraints d" "likes_exact d"
  shows "likes_exact (delete_videos P d)"
  unfolding likes_exact_def
proof
  fix v assume "v \<in> set (videos (delete_videos P d))"
  then have v: "v \<in> set (videos d)" "\<not> P v" by (auto simp: delete_videos_videos)
  then have ng: "v_ID v \<notin> v_ID ` set (filter P (videos d))"
    using kept_not_gone assms(1) by (auto simp: constraints_def)
  have "count_rows (\<lambda>l. l_VideoID l = v_ID v \<and> l_VideoID l \<notin> v_ID ` set (filter P (videos d))) (likes d) =
      count_rows (\<lambda>l. l_VideoID l = v_ID v) (likes d)"
    by (intro count_rows_cong) (metis ng)
  then show "v_LikesCount v = like_rows (delete_videos P d) (v_ID v)"
    using assms(2) v by (simp add: likes_exact_def like_rows_def delete_videos_likes count_rows_filter)
qed

lemma delete_videos_comments_exact:
  assumes "constraints d" "comments_exact d"
  shows "comments_exact (delete_videos P d)"
  unfolding comments_exact_def
proof
  fix v assume "v \<in> set (videos (delete_videos P d))"
  then have v: "v \<in> set (videos d)" "\<not> P v" by (auto simp: delete_videos_videos)
  then have ng: "v_ID v \<notin> v_ID ` set (filter P (videos d))"
    using kept_not_gone assms(1) by (auto simp: constraints_def)
  have cok: "comments_ok d" using assms(1) by (simp add: constraints_def)
  have "count_rows (\<lambda>c. c_VideoID c = v_ID v \<and> c_VideoID c \<notin> v_ID ` set (filter P (videos d))) (comments d) =
      count_rows (\<lambda>c. c_VideoID c = v_ID v) (comments d)"
    by (intro count_rows_cong) (metis ng)
  then show "v_CommentsCount v = comment_rows (delete_videos P d) (v_ID v)"
    using assms(2) v
    by (simp add: comments_exact_def comment_rows_def delete_videos_comments [OF cok] count_rows_filter)
qed

end
