(* ===== verification/Visibility.thy ===== *)
theory Visibility
  imports Codec Rules
begin

text \<open>
  What the handlers share: the page parameters of the list endpoints
  (\<^verbatim>\<open>parseLimit\<close> of \<^verbatim>\<open>handlers/user.go\<close>, the cursor), the wire form of
  times and user summaries (\<^verbatim>\<open>handlers/video_object.go\<close>), the notification
  insert, and the visibility rule of \<^verbatim>\<open>handlers/visibility.go\<close> in its two
  modes.
\<close>

section \<open>Request parameters\<close>

text \<open>\<^verbatim>\<open>fmt.Sscanf(raw, "%d", &n)\<close>: leading blanks, a sign, digits; the rest is not read.\<close>

definition Sscanf_d :: "string \<Rightarrow> int option" where
  "Sscanf_d raw =
    (let s = trim_left (filter (\<lambda>p. p \<noteq> [CHR 0x0A]) space_seqs) raw;
         (sign, r) = (case s of
             [] \<Rightarrow> ([], [])
           | c # cs \<Rightarrow> if c = CHR ''+'' \<or> c = CHR ''-'' then ([c], cs) else ([], s));
         ds = takeWhile is_digit r
     in if ds = [] then None else ParseInt64 (sign @ ds))"

definition videoListDefaultLimit :: int where "videoListDefaultLimit = 20"
definition videoListMaxLimit :: int where "videoListMaxLimit = 50"

definition parseLimit :: "string \<Rightarrow> goerr + int" where
  "parseLimit raw =
    (if raw = [] then Inr videoListDefaultLimit
     else case Sscanf_d raw of
       None \<Rightarrow> Inl (Opaque ''limit must be an integer'')
     | Some n \<Rightarrow>
         if n \<le> 0 then Inl (Opaque ''limit must be > 0'')
         else Inr (if n > videoListMaxLimit then videoListMaxLimit else n))"

text \<open>The cursor parameter of a list query is set when the decoded time is not the zero time.\<close>

definition cursor_arg :: "time \<times> uuid \<Rightarrow> cursor" where
  "cursor_arg p = (if fst p = zero_time then None else Some p)"

text \<open>The cursor of the response: that of the last row, when the page is full.\<close>

definition response_cursor ::
  "env \<Rightarrow> ('r \<Rightarrow> time \<times> uuid) \<Rightarrow> int \<Rightarrow> 'r list \<Rightarrow> string option"
where
  "response_cursor E key limit rows =
    (if int (length rows) = limit
     then Some (EncodeCursor E (fst (key (last rows))) (snd (key (last rows)))) else None)"

section \<open>Wire forms\<close>

definition formatVideoTime :: "time \<Rightarrow> string" where
  "formatVideoTime t = format_time 6 t"

definition json_opt :: "string option \<Rightarrow> json" where
  "json_opt s = (case s of None \<Rightarrow> JNull | Some t \<Rightarrow> JStr t)"

text \<open>
  \<^verbatim>\<open>UserSummary\<close>, built alike by \<^verbatim>\<open>userSummaryFromRow\<close>,
  \<^verbatim>\<open>commentObjectFromRow\<close> and the two follow-list mappers.
\<close>

definition UserSummary :: "User \<Rightarrow> json" where
  "UserSummary u = JObj
     [(''id'', JUuid (u_ID u)), (''username'', JStr (u_Username u)),
      (''display_name'', json_opt (u_DisplayName u)), (''avatar_url'', json_opt (u_AvatarUrl u)),
      (''is_private'', JBool (u_IsPrivate u))]"

section \<open>Notifications\<close>

text \<open>A \<^verbatim>\<open>map[string]string\<close> as JSON: the keys are written in order.\<close>

definition json_map :: "(string \<times> string) list \<Rightarrow> json" where
  "json_map kvs = JObj (map (\<lambda>(k, v). (k, JStr v)) kvs)"

definition insertSocialNotification ::
  "uuid \<Rightarrow> uuid \<Rightarrow> string \<Rightarrow> (string \<times> string) list \<Rightarrow> unit io"
where
  "insertSocialNotification userID actorID notifType payload =
     tryM (InsertNotification userID actorID notifType (json_map payload)) throw (\<lambda>_. ok ())"

section \<open>The visibility rule\<close>

definition assertOwnerActiveVisible :: "uuid \<Rightarrow> uuid \<Rightarrow> unit io" where
  "assertOwnerActiveVisible ownerID viewerID =
    tryM (GetUserByID ownerID)
      (\<lambda>err. if errors_Is err ErrNoRows then throw (Wrap ErrNotFound ''video not found'')
             else throw (Wrap ErrInternal ''load owner''))
      (\<lambda>owner.
        if \<not> u_IsActive owner then throw (Wrap ErrNotFound ''video not found'')
        else if u_IsPrivate owner then
          tryM (IsFollowing viewerID ownerID)
            (\<lambda>_. throw (Wrap ErrInternal ''load follow state''))
            (\<lambda>following.
              if \<not> following then throw (Wrap ErrNotFound ''video not found'') else ok ())
        else ok ())"

definition assertVideoOwnerOrVisible :: "uuid \<Rightarrow> uuid \<Rightarrow> Video io" where
  "assertVideoOwnerOrVisible viewerID videoID =
    tryM (GetVideoByID videoID)
      (\<lambda>err. if errors_Is err ErrNoRows then throw (Wrap ErrNotFound ''video not found'')
             else throw (Wrap ErrInternal ''load video''))
      (\<lambda>video.
        if v_UserID video = viewerID then ok video
        else if v_Status video \<noteq> READY then throw (Wrap ErrNotFound ''video not found'')
        else tryM (assertOwnerActiveVisible (v_UserID video) viewerID) throw (\<lambda>_. ok video))"

definition assertVideoReadyVisible :: "uuid \<Rightarrow> uuid \<Rightarrow> unit io" where
  "assertVideoReadyVisible ownerID viewerID = assertOwnerActiveVisible ownerID viewerID"

text \<open>
  The rule as a predicate on the tables: who may see the videos of an owner, and
  which video a viewer may act on.
\<close>

definition owner_visible :: "db \<Rightarrow> uuid \<Rightarrow> uuid \<Rightarrow> bool" where
  "owner_visible d ownerID viewerID \<longleftrightarrow>
     (case find_row (\<lambda>u. u_ID u = ownerID) (users d) of
        None \<Rightarrow> False
      | Some u \<Rightarrow> u_IsActive u \<and> (u_IsPrivate u \<longrightarrow> follows_edge d viewerID ownerID))"

definition may_access :: "db \<Rightarrow> uuid \<Rightarrow> Video \<Rightarrow> bool" where
  "may_access d viewerID v \<longleftrightarrow>
     v_UserID v = viewerID \<or> v_Status v = READY \<and> owner_visible d (v_UserID v) viewerID"

lemma quiet_insertSocialNotification: "quiet.rel (insertSocialNotification u a t p)"
  unfolding insertSocialNotification_def by (intro quiet_intros)

lemma quiet_assertOwnerActiveVisible: "quiet.rel (assertOwnerActiveVisible o' v)"
  unfolding assertOwnerActiveVisible_def by (intro quiet_intros)

lemma quiet_assertVideoOwnerOrVisible: "quiet.rel (assertVideoOwnerOrVisible v i)"
  unfolding assertVideoOwnerOrVisible_def
  by (intro quiet_intros quiet_assertOwnerActiveVisible)

lemmas quiet_visibility =
  quiet_insertSocialNotification quiet_assertOwnerActiveVisible quiet_assertVideoOwnerOrVisible

end
