(* ===== verification/Social.thy ===== *)
theory Social
  imports Visibility
begin

text \<open>
  The social endpoints of \<^verbatim>\<open>api-gateway/handlers/social.go\<close>: like, unlike,
  view, and the comments.  Each handler is the whole Go function: its guards in
  order, the transaction it runs, and the response of every branch.
\<close>

section \<open>Wire forms and parameters\<close>

definition commentContentMax :: nat where "commentContentMax = 1000"

definition LikeObject :: "uuid \<Rightarrow> bool \<Rightarrow> int \<Rightarrow> json" where
  "LikeObject videoID liked n = JObj
     [(''video_id'', JUuid videoID), (''liked'', JBool liked), (''likes_count'', JInt n)]"

definition viewObject :: "uuid \<Rightarrow> int \<Rightarrow> json" where
  "viewObject videoID n = JObj [(''video_id'', JUuid videoID), (''views_count'', JInt n)]"

definition commentObjectFromRow :: "CommentRow \<Rightarrow> json" where
  "commentObjectFromRow r =
    (let c = cr_comment r in JObj
     [(''id'', JUuid (c_ID c)), (''video_id'', JUuid (c_VideoID c)),
      (''user_id'', JUuid (c_UserID c)),
      (''parent_id'', (case c_ParentID c of None \<Rightarrow> JNull | Some p \<Rightarrow> JUuid p)),
      (''content'', JStr (c_Content c)), (''created_at'', JStr (formatVideoTime (c_CreatedAt c))),
      (''user'', UserSummary (cr_author r))])"

definition parseAuthVideoParam :: "env \<Rightarrow> request \<Rightarrow> goerr + (User \<times> uuid)" where
  "parseAuthVideoParam E q =
    (case req_user q of
       None \<Rightarrow> Inl (Wrap ErrUnauthorized ''no authenticated user'')
     | Some user \<Rightarrow>
        (case env_uuid_Parse E (req_param q ''id'') of
           None \<Rightarrow> Inl (Wrap ErrValidation ''invalid video id'')
         | Some videoID \<Rightarrow> Inr (user, videoID)))"

record commentRequestBody =
  crb_Content :: string

definition bindCommentContent :: "commentRequestBody bound \<Rightarrow> goerr + string" where
  "bindCommentContent b =
    (case b of
       BindError _ \<Rightarrow>
         Inl (WithDetails (NewAPIError CodeValidationError ''invalid JSON body'')
           [\<lparr>fe_Field = ''content'', fe_Message = ''body must be JSON''\<rparr>])
     | Bound body v \<Rightarrow>
        (case Validate v of
           Inl e \<Rightarrow> Inl e
         | Inr _ \<Rightarrow>
            let content = TrimSpace (crb_Content body)
            in if content = []
               then Inl (WithDetails (NewAPIError CodeValidationError ''content is required'')
                 [\<lparr>fe_Field = ''content'', fe_Message = ''must be 1-1000 non-whitespace characters''\<rparr>])
               else Inr content))"

definition not_configured :: "unit io" where
  "not_configured = RespondError (Wrap ErrInternal ''social handler not configured'')"

section \<open>Likes and views\<close>

definition like_tx :: "env \<Rightarrow> User \<Rightarrow> uuid \<Rightarrow> Video \<Rightarrow> unit io" where
  "like_tx E user videoID video =
    tryM (InsertLike (u_ID user) videoID)
      (\<lambda>lerr. if errors_Is lerr ErrNoRows then ok ()
              else throw (Wrap ErrInternal ''insert like''))
      (\<lambda>_. tryM (IncrementLikesCount videoID)
        (\<lambda>_. throw (Wrap ErrInternal ''update likes count''))
        (\<lambda>_. if u_ID user \<noteq> v_UserID video then
               tryM (insertSocialNotification (v_UserID video) (u_ID user) ''like''
                      [(''username'', u_Username user), (''video_id'', env_uuid_String E videoID)])
                 (\<lambda>_. throw (Wrap ErrInternal ''insert notification'')) ok
             else ok ()))"

definition LikeVideo :: "env \<Rightarrow> request \<Rightarrow> unit io" where
  "LikeVideo E q =
    (if \<not> env_wired E DepQueries \<or> \<not> env_wired E DepRun then not_configured
     else case parseAuthVideoParam E q of
       Inl err \<Rightarrow> RespondError err
     | Inr (user, videoID) \<Rightarrow>
        tryM (assertVideoOwnerOrVisible (u_ID user) videoID) RespondError (\<lambda>video.
        tryM (runTx (like_tx E user videoID video)) RespondError (\<lambda>_.
        tryM (GetVideoByID videoID) (\<lambda>_. RespondError (Wrap ErrInternal ''load video''))
          (\<lambda>refreshed. RespondOK (LikeObject videoID True (v_LikesCount refreshed))))))"

definition unlike_tx :: "User \<Rightarrow> uuid \<Rightarrow> unit io" where
  "unlike_tx user videoID =
    tryM (DeleteLike (u_ID user) videoID)
      (\<lambda>derr. if errors_Is derr ErrNoRows then ok ()
              else throw (Wrap ErrInternal ''delete like''))
      (\<lambda>_. tryM (DecrementLikesCount videoID)
        (\<lambda>_. throw (Wrap ErrInternal ''update likes count'')) ok)"

definition UnlikeVideo :: "env \<Rightarrow> request \<Rightarrow> unit io" where
  "UnlikeVideo E q =
    (if \<not> env_wired E DepQueries \<or> \<not> env_wired E DepRun then not_configured
     else case parseAuthVideoParam E q of
       Inl err \<Rightarrow> RespondError err
     | Inr (user, videoID) \<Rightarrow>
        tryM (assertVideoOwnerOrVisible (u_ID user) videoID) RespondError (\<lambda>_.
        tryM (runTx (unlike_tx user videoID)) RespondError (\<lambda>_.
        tryM (GetVideoByID videoID) (\<lambda>_. RespondError (Wrap ErrInternal ''load video''))
          (\<lambda>refreshed. RespondOK (LikeObject videoID False (v_LikesCount refreshed))))))"

definition TrackView :: "env \<Rightarrow> request \<Rightarrow> unit io" where
  "TrackView E q =
    (if \<not> env_wired E DepQueries then not_configured
     else case parseAuthVideoParam E q of
       Inl err \<Rightarrow> RespondError err
     | Inr (user, videoID) \<Rightarrow>
        tryM (assertVideoOwnerOrVisible (u_ID user) videoID) RespondError (\<lambda>_.
        tryM (IncrementViews videoID) (\<lambda>_. RespondError (Wrap ErrInternal ''track view'')) (\<lambda>_.
        tryM (GetVideoByID videoID) (\<lambda>_. RespondError (Wrap ErrInternal ''load video''))
          (\<lambda>refreshed. RespondOK (viewObject videoID (v_ViewsCount refreshed))))))"

section \<open>Comments\<close>

definition comment_payload :: "env \<Rightarrow> User \<Rightarrow> uuid \<Rightarrow> uuid \<Rightarrow> (string \<times> string) list" where
  "comment_payload E user videoID commentID =
     [(''comment_id'', env_uuid_String E commentID), (''username'', u_Username user),
      (''video_id'', env_uuid_String E videoID)]"

definition create_comment_tx :: "env \<Rightarrow> User \<Rightarrow> uuid \<Rightarrow> Video \<Rightarrow> string \<Rightarrow> uuid io" where
  "create_comment_tx E user videoID video content =
    tryM (InsertComment videoID (u_ID user) None content)
      (\<lambda>_. throw (Wrap ErrInternal ''create comment''))
      (\<lambda>comment. tryM (IncrementCommentsCount videoID)
        (\<lambda>_. throw (Wrap ErrInternal ''update comments count''))
        (\<lambda>_. if u_ID user \<noteq> v_UserID video then
               tryM (insertSocialNotification (v_UserID video) (u_ID user) ''comment''
                      (comment_payload E user videoID (c_ID comment)))
                 (\<lambda>_. throw (Wrap ErrInternal ''insert notification'')) (\<lambda>_. ok (c_ID comment))
             else ok (c_ID comment)))"

definition CreateComment :: "env \<Rightarrow> request \<Rightarrow> commentRequestBody bound \<Rightarrow> unit io" where
  "CreateComment E q b =
    (if \<not> env_wired E DepQueries \<or> \<not> env_wired E DepRun then not_configured
     else case parseAuthVideoParam E q of
       Inl err \<Rightarrow> RespondError err
     | Inr (user, videoID) \<Rightarrow>
        (case bindCommentContent b of
           Inl err \<Rightarrow> RespondError err
         | Inr content \<Rightarrow>
            tryM (assertVideoOwnerOrVisible (u_ID user) videoID) RespondError (\<lambda>video.
            tryM (runTx (create_comment_tx E user videoID video content)) RespondError (\<lambda>commentID.
            tryM (GetCommentByID commentID) (\<lambda>_. RespondError (Wrap ErrInternal ''load comment''))
              (\<lambda>row. RespondCreated (commentObjectFromRow row))))))"

definition ListComments :: "env \<Rightarrow> request \<Rightarrow> unit io" where
  "ListComments E q =
    (if \<not> env_wired E DepQueries then not_configured
     else case parseAuthVideoParam E q of
       Inl err \<Rightarrow> RespondError err
     | Inr (user, videoID) \<Rightarrow>
        tryM (assertVideoOwnerOrVisible (u_ID user) videoID) RespondError (\<lambda>_.
          case parseLimit (req_query q ''limit'') of
            Inl err \<Rightarrow> RespondError (Wrap ErrValidation (Error err))
          | Inr limit \<Rightarrow>
             (case DecodeCursor E (req_query q ''cursor'') of
                Inl _ \<Rightarrow> RespondError (Wrap ErrValidation ''invalid cursor'')
              | Inr cur \<Rightarrow>
                 tryM (ListCommentsByVideo videoID (cursor_arg cur) (nat limit))
                   (\<lambda>_. RespondError (Wrap ErrInternal ''list comments''))
                   (\<lambda>rows. RespondList (map commentObjectFromRow rows)
                             (response_cursor E comment_key limit rows)))))"

definition delete_comment_tx :: "uuid \<Rightarrow> uuid \<Rightarrow> unit io" where
  "delete_comment_tx commentID videoID =
    tryM (CountCommentSubtree commentID)
      (\<lambda>_. throw (Wrap ErrInternal ''count comment subtree''))
      (\<lambda>subtree. tryM (DeleteCommentByID commentID)
        (\<lambda>_. throw (Wrap ErrInternal ''delete comment''))
        (\<lambda>_. if subtree > 0 then
               tryM (DecrementCommentsCountBy videoID subtree)
                 (\<lambda>_. throw (Wrap ErrInternal ''update comments count'')) ok
             else ok ()))"

definition DeleteComment :: "env \<Rightarrow> request \<Rightarrow> unit io" where
  "DeleteComment E q =
    (if \<not> env_wired E DepQueries \<or> \<not> env_wired E DepRun then not_configured
     else case req_user q of
       None \<Rightarrow> RespondError (Wrap ErrUnauthorized ''no authenticated user'')
     | Some user \<Rightarrow>
        (case env_uuid_Parse E (req_param q ''id'') of
           None \<Rightarrow> RespondError (Wrap ErrValidation ''invalid comment id'')
         | Some commentID \<Rightarrow>
            tryM (GetCommentByID commentID)
              (\<lambda>err. if errors_Is err ErrNoRows
                     then RespondError (Wrap ErrNotFound ''comment not found'')
                     else RespondError (Wrap ErrInternal ''load comment''))
              (\<lambda>row. let comment = cr_comment row in
                if c_UserID comment \<noteq> u_ID user
                then RespondError (Wrap ErrNotFound ''comment not found'')
                else tryM (runTx (delete_comment_tx commentID (c_VideoID comment))) RespondError
                       (\<lambda>_. RespondNoContent))))"

text \<open>
  The recipients of a reply's notification.  The Go code iterates over a map of at
  most two entries; the order of the two inserts does not matter to any caller and
  is fixed here.
\<close>

definition reply_recipients :: "uuid \<Rightarrow> uuid \<Rightarrow> uuid \<Rightarrow> uuid list" where
  "reply_recipients actor videoOwner parentAuthor =
    (let a = (if videoOwner \<noteq> actor then [videoOwner] else [])
     in if parentAuthor \<noteq> actor \<and> parentAuthor \<notin> set a then a @ [parentAuthor] else a)"

definition reply_tx :: "env \<Rightarrow> User \<Rightarrow> Comment \<Rightarrow> Video \<Rightarrow> string \<Rightarrow> uuid io" where
  "reply_tx E user parent video content =
    tryM (InsertComment (c_VideoID parent) (u_ID user) (Some (c_ID parent)) content)
      (\<lambda>_. throw (Wrap ErrInternal ''create reply''))
      (\<lambda>reply. tryM (IncrementCommentsCount (c_VideoID parent))
        (\<lambda>_. throw (Wrap ErrInternal ''update comments count''))
        (\<lambda>_. tryM (forM (reply_recipients (u_ID user) (v_UserID video) (c_UserID parent))
                 (\<lambda>recipient. insertSocialNotification recipient (u_ID user) ''comment''
                    (comment_payload E user (c_VideoID parent) (c_ID reply))))
               (\<lambda>_. throw (Wrap ErrInternal ''insert notification''))
               (\<lambda>_. ok (c_ID reply))))"

definition ReplyComment :: "env \<Rightarrow> request \<Rightarrow> commentRequestBody bound \<Rightarrow> unit io" where
  "ReplyComment E q b =
    (if \<not> env_wired E DepQueries \<or> \<not> env_wired E DepRun then not_configured
     else case req_user q of
       None \<Rightarrow> RespondError (Wrap ErrUnauthorized ''no authenticated user'')
     | Some user \<Rightarrow>
        (case env_uuid_Parse E (req_param q ''id'') of
           None \<Rightarrow> RespondError (Wrap ErrValidation ''invalid comment id'')
         | Some parentID \<Rightarrow>
            (case bindCommentContent b of
               Inl err \<Rightarrow> RespondError err
             | Inr content \<Rightarrow>
                tryM (GetCommentByID parentID)
                  (\<lambda>err. if errors_Is err ErrNoRows
                         then RespondError (Wrap ErrNotFound ''comment not found'')
                         else RespondError (Wrap ErrInternal ''load parent comment''))
                  (\<lambda>row. let parent = cr_comment row in
                    tryM (assertVideoOwnerOrVisible (u_ID user) (c_VideoID parent)) RespondError (\<lambda>video.
                    tryM (runTx (reply_tx E user parent video content)) RespondError (\<lambda>replyID.
                    tryM (GetCommentByID replyID) (\<lambda>_. RespondError (Wrap ErrInternal ''load reply''))
                      (\<lambda>row. RespondCreated (commentObjectFromRow row))))))))"

section \<open>Each request is answered once\<close>

lemmas social_txs =
  like_tx_def unlike_tx_def create_comment_tx_def delete_comment_tx_def reply_tx_def

lemma quiet_social_txs:
  "quiet.rel (like_tx E u i v)" "quiet.rel (unlike_tx u i)"
  "quiet.rel (create_comment_tx E u i v s)" "quiet.rel (delete_comment_tx i j)"
  "quiet.rel (reply_tx E u c v s)"
  unfolding social_txs by (intro quiet_intros quiet_visibility)+

lemmas social_writes = writes1_intros quiet_intros quiet_visibility quiet_social_txs

lemma writes1_not_configured: "writes1 not_configured"
  by (simp add: not_configured_def writes1_RespondError)

lemma social_writes1:
  "writes1 (LikeVideo E q)" "writes1 (UnlikeVideo E q)" "writes1 (TrackView E q)"
  "writes1 (CreateComment E q b)" "writes1 (ListComments E q)" "writes1 (DeleteComment E q)"
  "writes1 (ReplyComment E q b)"
  unfolding LikeVideo_def UnlikeVideo_def TrackView_def CreateComment_def ListComments_def
    DeleteComment_def ReplyComment_def Let_def
  by (intro social_writes writes1_not_configured)+

end
