(* ===== verification/SocialInv.thy ===== *)
theory SocialInv
  imports Counters Social
begin

text \<open>
  The counters under the social endpoints: every statement either leaves the
  counted rows and the counters alone (a frame lemma) or opens or closes a gap, and
  every handler keeps \<^verbatim>\<open>likes_inv\<close>, \<^verbatim>\<open>comments_inv\<close> and
  \<^verbatim>\<open>replies_inv\<close>, whichever of its calls fail.
\<close>

section \<open>Frames\<close>

lemma likes_frame_exec:
  assumes "\<And>now d x d'. f now d = Inr (x, d') \<Longrightarrow> like_view d' = like_view d"
  shows "preserves likes_inv (exec f)"
proof (rule preserves_exec)
  fix now d x d' assume a: "likes_inv d" "f now d = Inr (x, d')" "constraints d'"
  show "likes_inv d'" using a likes_exact_frame [OF assms [OF a(2)]] by (simp add: likes_inv_def)
qed

lemma likes_frame_exec_insert:
  assumes "\<And>i now d x d'. f i now d = Inr (x, d') \<Longrightarrow> like_view d' = like_view d"
  shows "preserves likes_inv (exec_insert f)"
proof (rule preserves_exec_insert)
  fix i now d x d' assume a: "likes_inv d" "f i now d = Inr (x, d')" "constraints d'"
  show "likes_inv d'" using a likes_exact_frame [OF assms [OF a(2)]] by (simp add: likes_inv_def)
qed

lemma comments_frame_exec:
  assumes "\<And>now d x d'. f now d = Inr (x, d') \<Longrightarrow> comment_view d' = comment_view d"
  shows "preserves comments_inv (exec f)"
proof (rule preserves_exec)
  fix now d x d' assume a: "comments_inv d" "f now d = Inr (x, d')" "constraints d'"
  have v: "comment_view d' = comment_view d" by (rule assms [OF a(2)])
  then have "comments d' = comments d" by (simp add: comment_view_def)
  then show "comments_inv d'" using a comments_exact_frame [OF v] by (simp add: comments_inv_def)
qed

lemma comments_frame_exec_insert:
  assumes "\<And>i now d x d'. f i now d = Inr (x, d') \<Longrightarrow> comment_view d' = comment_view d"
  shows "preserves comments_inv (exec_insert f)"
proof (rule preserves_exec_insert)
  fix i now d x d' assume a: "comments_inv d" "f i now d = Inr (x, d')" "constraints d'"
  have v: "comment_view d' = comment_view d" by (rule assms [OF a(2)])
  then have "comments d' = comments d" by (simp add: comment_view_def)
  then show "comments_inv d'" using a comments_exact_frame [OF v] by (simp add: comments_inv_def)
qed

lemma replies_frame_exec:
  assumes "\<And>now d x d'. f now d = Inr (x, d') \<Longrightarrow> set (comments d') \<subseteq> set (comments d)"
  shows "preserves replies_inv (exec f)"
proof (rule preserves_exec)
  fix now d x d' assume a: "replies_inv d" "f now d = Inr (x, d')" "constraints d'"
  then show "replies_inv d'" using assms [OF a(2)] ranked_subset by (auto simp: replies_inv_def)
qed

lemma replies_frame_exec_insert:
  assumes "\<And>i now d x d'. f i now d = Inr (x, d') \<Longrightarrow> set (comments d') \<subseteq> set (comments d)"
  shows "preserves replies_inv (exec_insert f)"
proof (rule preserves_exec_insert)
  fix i now d x d' assume a: "replies_inv d" "f i now d = Inr (x, d')" "constraints d'"
  then show "replies_inv d'" using assms [OF a(2)] ranked_subset by (auto simp: replies_inv_def)
qed

lemma frame_Notification:
  "preserves likes_inv (InsertNotification u a t p)"
  "preserves comments_inv (InsertNotification u a t p)"
  "preserves replies_inv (InsertNotification u a t p)"
  unfolding InsertNotification_def
  by (rule likes_frame_exec_insert comments_frame_exec_insert replies_frame_exec_insert,
      auto simp: Let_def)+

lemma frame_socialNotification:
  "preserves likes_inv (insertSocialNotification u a t p)"
  "preserves comments_inv (insertSocialNotification u a t p)"
  "preserves replies_inv (insertSocialNotification u a t p)"
  unfolding insertSocialNotification_def by (intro preserves_intros frame_Notification)+

lemma likes_frame_stmts:
  "preserves likes_inv (InsertComment v u p co)" "preserves likes_inv (DeleteCommentByID i)"
  "preserves likes_inv (IncrementCommentsCount i)" "preserves likes_inv (DecrementCommentsCountBy i n)"
  "preserves likes_inv (IncrementViews i)"
  unfolding InsertComment_def DeleteCommentByID_def IncrementCommentsCount_def
    DecrementCommentsCountBy_def IncrementViews_def update_videos_def delete_comments_def
  by (rule likes_frame_exec likes_frame_exec_insert,
      auto simp: Let_def like_view_update_videos)+

lemma comments_frame_stmts:
  "preserves comments_inv (InsertLike u v)" "preserves comments_inv (DeleteLike u v)"
  "preserves comments_inv (IncrementLikesCount i)" "preserves comments_inv (DecrementLikesCount i)"
  "preserves comments_inv (IncrementViews i)"
  unfolding InsertLike_def DeleteLike_def IncrementLikesCount_def DecrementLikesCount_def
    IncrementViews_def update_videos_def
  by (rule comments_frame_exec,
      auto simp: Let_def comment_view_update_videos split: if_splits option.splits)+

lemma replies_frame_stmts:
  "preserves replies_inv (InsertLike u v)" "preserves replies_inv (DeleteLike u v)"
  "preserves replies_inv (IncrementLikesCount i)" "preserves replies_inv (DecrementLikesCount i)"
  "preserves replies_inv (IncrementViews i)" "preserves replies_inv (IncrementCommentsCount i)"
  "preserves replies_inv (DecrementCommentsCountBy i n)" "preserves replies_inv (DeleteCommentByID i)"
  unfolding InsertLike_def DeleteLike_def IncrementLikesCount_def DecrementLikesCount_def
    IncrementViews_def IncrementCommentsCount_def DecrementCommentsCountBy_def update_videos_def
    DeleteCommentByID_def delete_comments_def
  by (rule replies_frame_exec,
      auto simp: Let_def dest: delete_comments_subset [THEN subsetD] split: if_splits option.splits)+

section \<open>Reading\<close>

lemma dbsame_assertOwner: "dbsame.rel (assertOwnerActiveVisible o' v)"
  unfolding assertOwnerActiveVisible_def by (intro dbsame_intros)

lemma dbsame_assertVideo: "dbsame.rel (assertVideoOwnerOrVisible v i)"
  unfolding assertVideoOwnerOrVisible_def by (intro dbsame_intros dbsame_assertOwner)

lemmas preserves_visibility =
  dbsame_assertOwner [THEN preserves_dbsame] dbsame_assertVideo [THEN preserves_dbsame]

lemma preserves_not_configured: "preserves I not_configured"
  unfolding not_configured_def by (intro preserves_intros)

lemmas social_rules = preserves_intros preserves_visibility preserves_not_configured

section \<open>Likes\<close>

definition like_open :: "uuid \<Rightarrow> int \<Rightarrow> db \<Rightarrow> bool" where
  "like_open vid k d \<longleftrightarrow> constraints d \<and> likes_gap vid k d"

lemma InsertLike_open:
  "triple likes_inv (InsertLike u v) (\<lambda>_. like_open v 1) (\<lambda>_. likes_inv)"
  unfolding InsertLike_def
  by (rule triple_exec)
     (auto simp: like_open_def likes_inv_def Let_def intro: insert_like_gap split: if_splits)

lemma IncrementLikesCount_close:
  "triple (like_open v 1) (IncrementLikesCount v) (\<lambda>_. likes_inv) (\<lambda>_ _. True)"
  unfolding IncrementLikesCount_def
  by (rule triple_update_videos) (auto simp: like_open_def likes_inv_def intro: likes_gap_increment)

lemma DeleteLike_open:
  "triple likes_inv (DeleteLike u v) (\<lambda>_. like_open v (-1)) (\<lambda>_. likes_inv)"
  unfolding DeleteLike_def
proof (rule triple_exec)
  fix now d x d'
  assume inv: "likes_inv d" and d': "constraints d'" and
    r: "(let P = \<lambda>l. l_UserID l = u \<and> l_VideoID l = v in
         case find_row P (likes d) of None \<Rightarrow> Inl (Sentinel ErrNoRows)
         | Some l \<Rightarrow> Inr (l, d\<lparr>likes := filter (\<lambda>l. \<not> P l) (likes d)\<rparr>)) = Inr (x, d')"
  then have f: "find_row (\<lambda>l. l_UserID l = u \<and> l_VideoID l = v) (likes d) = Some x"
    and e: "d' = d\<lparr>likes := filter (\<lambda>l. \<not> (l_UserID l = u \<and> l_VideoID l = v)) (likes d)\<rparr>"
    by (auto simp: Let_def split: option.splits)
  have "x \<in> set (likes d)" "l_UserID x = u" "l_VideoID x = v" using find_row_Some [OF f] by auto
  then have "likes_gap v (-1) d'"
    unfolding e using inv by (intro delete_like_gap) (auto simp: likes_inv_def constraints_def)
  then show "like_open v (-1) d'" using d' by (simp add: like_open_def)
qed

lemma DecrementLikesCount_close:
  "triple (like_open v (-1)) (DecrementLikesCount v) (\<lambda>_. likes_inv) (\<lambda>_ _. True)"
  unfolding DecrementLikesCount_def
  by (rule triple_update_videos) (auto simp: like_open_def likes_inv_def intro: likes_gap_decrement)

lemma triple_True: "triple (\<lambda>_. True) m (\<lambda>_ _. True) (\<lambda>_ _. True)"
  by (auto intro: tripleI)

lemma preserves_triple: "preserves I m \<Longrightarrow> triple I m (\<lambda>_. I) (\<lambda>_ _. True)"
  unfolding preserves_def by (erule triple_weaken) auto

lemma triple_any_error: "triple P (throw e) Q (\<lambda>_ _. True)"
  by (rule triple_throw) simp

lemma like_tx_likes: "triple likes_inv (like_tx E user v video) (\<lambda>_. likes_inv) (\<lambda>_ _. True)"
  unfolding like_tx_def
proof (rule triple_tryM [OF InsertLike_open], goal_cases)
  case (1 e)
  then show ?case by (intro triple_if triple_ok triple_any_error)
next
  case (2 l)
  then show ?case
    by (rule triple_tryM [OF IncrementLikesCount_close triple_any_error])
       (intro preserves_triple social_rules frame_socialNotification)
qed

lemma unlike_tx_likes: "triple likes_inv (unlike_tx user v) (\<lambda>_. likes_inv) (\<lambda>_ _. True)"
  unfolding unlike_tx_def
proof (rule triple_tryM [OF DeleteLike_open], goal_cases)
  case (1 e)
  then show ?case by (intro triple_if triple_ok triple_any_error)
next
  case (2 l)
  then show ?case
    by (rule triple_tryM [OF DecrementLikesCount_close triple_any_error]) (rule triple_ok)
qed

lemma other_tx_likes:
  "preserves likes_inv (create_comment_tx E user v video co)"
  "preserves likes_inv (delete_comment_tx i v)"
  "preserves likes_inv (reply_tx E user c video co)"
  unfolding create_comment_tx_def delete_comment_tx_def reply_tx_def
  by (intro social_rules likes_frame_stmts frame_socialNotification)+

lemmas social_handlers =
  LikeVideo_def UnlikeVideo_def TrackView_def CreateComment_def ListComments_def
  DeleteComment_def ReplyComment_def

lemma social_likes_inv:
  "preserves likes_inv (LikeVideo E q)" "preserves likes_inv (UnlikeVideo E q)"
  "preserves likes_inv (TrackView E q)" "preserves likes_inv (CreateComment E q b)"
  "preserves likes_inv (ListComments E q)" "preserves likes_inv (DeleteComment E q)"
  "preserves likes_inv (ReplyComment E q b)"
  unfolding social_handlers Let_def
  by (intro social_rules preserves_runTx like_tx_likes unlike_tx_likes
      other_tx_likes [THEN preserves_triple] likes_frame_stmts)+

section \<open>Comments\<close>

definition comment_open :: "uuid \<Rightarrow> int \<Rightarrow> db \<Rightarrow> bool" where
  "comment_open vid k d \<longleftrightarrow> constraints d \<and> ranked_rows (comments d) \<and> comments_gap vid k d"

text \<open>
  A new row is ranked: its id is fresh (the primary key), and its parent, where it
  has one, was there before.
\<close>

lemma insert_ranked:
  assumes d: "constraints d" "ranked_rows (comments d)" and d': "constraints (d\<lparr>comments := comments d @ [c]\<rparr>)"
    and p: "\<forall>p. c_ParentID c = Some p \<longrightarrow> p \<in> c_ID ` set (comments d)"
  shows "ranked_rows (comments d @ [c])"
proof (rule ranked_snoc [OF d(2) _ _ p])
  show fresh: "c_ID c \<notin> c_ID ` set (comments d)"
    using d' by (auto simp: constraints_def comments_ok_def)
  show "\<forall>r \<in> set (comments d). c_ParentID r \<noteq> Some (c_ID c)"
  proof (intro ballI notI)
    fix r assume "r \<in> set (comments d)" "c_ParentID r = Some (c_ID c)"
    then have "(c_ID c, c_VideoID r) \<in> (\<lambda>c. (c_ID c, c_VideoID c)) ` set (comments d)"
      using d(1) by (auto simp: constraints_def comments_ok_def list_all_iff split: option.splits)
    then show False using fresh by auto
  qed
qed

lemma InsertComment_open:
  "triple (\<lambda>d. comments_inv d \<and> (\<forall>p'. p = Some p' \<longrightarrow> p' \<in> c_ID ` set (comments d)))
     (InsertComment v u p co) (\<lambda>_. comment_open v 1) (\<lambda>_ _. True)"
  unfolding InsertComment_def
proof (rule triple_exec_insert)
  fix i now d x d'
  assume pre: "comments_inv d \<and> (\<forall>p'. p = Some p' \<longrightarrow> p' \<in> c_ID ` set (comments d))"
    and d': "constraints d'"
    and r: "(let c = \<lparr>c_ID = i, c_VideoID = v, c_UserID = u, c_ParentID = p, c_Content = co, c_CreatedAt = now\<rparr>
         in Inr (c, d\<lparr>comments := comments d @ [c]\<rparr>)) = Inr (x, d')"
  then have e: "d' = d\<lparr>comments := comments d @ [x]\<rparr>" and x: "c_VideoID x = v" "c_ParentID x = p"
    by (auto simp: Let_def)
  have "ranked_rows (comments d @ [x])"
    using insert_ranked [of d x] pre d' x unfolding e by (auto simp: comments_inv_def)
  moreover have "comments_gap v 1 d'"
    unfolding e using pre x by (intro insert_comment_gap) (auto simp: comments_inv_def)
  ultimately show "comment_open v 1 d'" using d' by (simp add: comment_open_def e)
qed simp

lemma InsertComment_ranked:
  "triple (\<lambda>d. replies_inv d \<and> (\<forall>p'. p = Some p' \<longrightarrow> p' \<in> c_ID ` set (comments d)))
     (InsertComment v u p co) (\<lambda>_. replies_inv) (\<lambda>_ _. True)"
  unfolding InsertComment_def
proof (rule triple_exec_insert)
  fix i now d x d'
  assume pre: "replies_inv d \<and> (\<forall>p'. p = Some p' \<longrightarrow> p' \<in> c_ID ` set (comments d))"
    and d': "constraints d'"
    and r: "(let c = \<lparr>c_ID = i, c_VideoID = v, c_UserID = u, c_ParentID = p, c_Content = co, c_CreatedAt = now\<rparr>
         in Inr (c, d\<lparr>comments := comments d @ [c]\<rparr>)) = Inr (x, d')"
  then have e: "d' = d\<lparr>comments := comments d @ [x]\<rparr>" and x: "c_ParentID x = p"
    by (auto simp: Let_def)
  have "ranked_rows (comments d @ [x])"
    using insert_ranked [of d x] pre d' x unfolding e by (auto simp: replies_inv_def)
  then show "replies_inv d'" using d' by (simp add: replies_inv_def e)
qed simp

lemma IncrementCommentsCount_close:
  "triple (comment_open v 1) (IncrementCommentsCount v) (\<lambda>_. comments_inv) (\<lambda>_ _. True)"
  unfolding IncrementCommentsCount_def
  by (rule triple_update_videos)
     (auto simp: comment_open_def comments_inv_def intro: comments_gap_increment)

lemma create_comment_tx_comments:
  "triple comments_inv (create_comment_tx E user v video co) (\<lambda>_. comments_inv) (\<lambda>_ _. True)"
  unfolding create_comment_tx_def
proof (rule triple_tryM [where Q' = "\<lambda>_. comment_open v 1" and E' = "\<lambda>_ _. True"], goal_cases)
  case 1
  show ?case by (rule triple_weaken [OF InsertComment_open]) auto
next
  case (3 x)
  show ?case
    by (rule triple_tryM [OF IncrementCommentsCount_close triple_any_error])
       (intro preserves_triple social_rules frame_socialNotification)
qed (rule triple_any_error)

lemma create_comment_tx_replies:
  "triple replies_inv (create_comment_tx E user v video co) (\<lambda>_. replies_inv) (\<lambda>_ _. True)"
  unfolding create_comment_tx_def
proof (rule triple_tryM [where Q' = "\<lambda>_. replies_inv" and E' = "\<lambda>_ _. True"], goal_cases)
  case 1
  show ?case by (rule triple_weaken [OF InsertComment_ranked]) auto
qed (intro triple_any_error preserves_triple social_rules frame_socialNotification
      replies_frame_stmts)+

lemma reply_tx_comments:
  "triple (\<lambda>d. comments_inv d \<and> c_ID c \<in> c_ID ` set (comments d))
     (reply_tx E user c video co) (\<lambda>_. comments_inv) (\<lambda>_ _. True)"
  unfolding reply_tx_def
proof (rule triple_tryM [where Q' = "\<lambda>_. comment_open (c_VideoID c) 1" and E' = "\<lambda>_ _. True"], goal_cases)
  case 1
  show ?case by (rule triple_weaken [OF InsertComment_open]) auto
next
  case (3 x)
  show ?case
    by (rule triple_tryM [OF IncrementCommentsCount_close triple_any_error])
       (intro preserves_triple social_rules frame_socialNotification)
qed (rule triple_any_error)

lemma reply_tx_replies:
  "triple (\<lambda>d. replies_inv d \<and> c_ID c \<in> c_ID ` set (comments d))
     (reply_tx E user c video co) (\<lambda>_. replies_inv) (\<lambda>_ _. True)"
  unfolding reply_tx_def
proof (rule triple_tryM [where Q' = "\<lambda>_. replies_inv" and E' = "\<lambda>_ _. True"], goal_cases)
  case 1
  show ?case by (rule triple_weaken [OF InsertComment_ranked]) auto
qed (intro triple_any_error preserves_triple social_rules frame_socialNotification
      replies_frame_stmts)+

text \<open>The comment a handler has loaded is a row of the table.\<close>

lemma GetCommentByID_row:
  "triple P (GetCommentByID i)
     (\<lambda>row d. P d \<and> cr_comment row \<in> set (comments d) \<and> c_ID (cr_comment row) = i) (\<lambda>_. P)"
  unfolding GetCommentByID_def
proof (rule triple_query)
  fix d x assume "P d" "one_row (case find_row (\<lambda>c. c_ID c = i) (comments d) of None \<Rightarrow> None
      | Some c \<Rightarrow> join_author d c) = Inr x"
  moreover from this obtain c where c: "find_row (\<lambda>c. c_ID c = i) (comments d) = Some c"
    "cr_comment x = c"
    by (auto simp: one_row_def join_author_def split: option.splits)
  ultimately show "P d \<and> cr_comment x \<in> set (comments d) \<and> c_ID (cr_comment x) = i"
    using find_row_Some [OF c(1)] by simp
qed simp

text \<open>
  Deleting a comment: the count, the cascade and the counter are one number.
\<close>

lemma delete_comment_tx_comments:
  "triple (\<lambda>d. comments_inv d \<and> c \<in> set (comments d))
     (delete_comment_tx (c_ID c) (c_VideoID c)) (\<lambda>_. comments_inv) (\<lambda>_ _. True)"
  unfolding delete_comment_tx_def
proof (rule triple_tryM [where E' = "\<lambda>_ _. True" and
    Q' = "\<lambda>n d. comments_inv d \<and> 0 < n \<and> ranked_rows (comments (delete_comments (\<lambda>x. c_ID x = c_ID c) d)) \<and>
            comments_gap (c_VideoID c) (- n) (delete_comments (\<lambda>x. c_ID x = c_ID c) d)"], goal_cases)
  case 1
  show ?case
    unfolding CountCommentSubtree_def
  proof (rule triple_query)
    fix d n
    assume pre: "comments_inv d \<and> c \<in> set (comments d)"
      and r: "(case subtree_rows (comments d) (map c_ID (filter (\<lambda>x. c_ID x = c_ID c) (comments d))) of
        None \<Rightarrow> Inl (Opaque ''context canceled'')
      | Some rows \<Rightarrow> if int32_ok (int (length rows)) then Inr (int (length rows))
                     else Inl (Opaque ''integer out of range'')) = Inr n"
    have dist: "distinct (map c_ID (comments d))"
      using pre by (auto simp: comments_inv_def constraints_def comments_ok_def)
    have one: "map c_ID (filter (\<lambda>x. c_ID x = c_ID c) (comments d)) = [c_ID c]"
      using filter_key_single [OF dist] pre by simp
    obtain rows where rows: "subtree_rows (comments d) [c_ID c] = Some rows"
      "comments_gap (c_VideoID c) (- int (length rows)) (delete_comments (\<lambda>x. c_ID x = c_ID c) d)"
      "length rows > 0" using delete_comment_gap [of d c thesis] pre by blast
    have n: "n = int (length rows)" using r unfolding one rows(1) by (simp split: if_splits)
    have rk: "ranked_rows (comments (delete_comments (\<lambda>x. c_ID x = c_ID c) d))"
      using pre ranked_subset [OF _ delete_comments_subset]
      by (simp add: comments_inv_def delete_comments_def)
    show "comments_inv d \<and> 0 < n \<and> ranked_rows (comments (delete_comments (\<lambda>x. c_ID x = c_ID c) d)) \<and>
        comments_gap (c_VideoID c) (- n) (delete_comments (\<lambda>x. c_ID x = c_ID c) d)"
    proof (intro conjI)
      show "comments_inv d" using pre ..
      show "0 < n" using rows(3) by (simp add: n)
      show "comments_gap (c_VideoID c) (- n) (delete_comments (\<lambda>x. c_ID x = c_ID c) d)"
        unfolding n by (rule rows(2))
    qed (rule rk)
  qed simp
next
  case (3 n)
  have del: "triple (\<lambda>d. comments_inv d \<and> 0 < n \<and>
            ranked_rows (comments (delete_comments (\<lambda>x. c_ID x = c_ID c) d)) \<and>
            comments_gap (c_VideoID c) (- n) (delete_comments (\<lambda>x. c_ID x = c_ID c) d))
      (DeleteCommentByID (c_ID c)) (\<lambda>_ d. comment_open (c_VideoID c) (- n) d \<and> 0 < n) (\<lambda>_ _. True)"
    unfolding DeleteCommentByID_def by (rule triple_exec) (auto simp: comment_open_def)
  show ?case
  proof (rule triple_tryM [OF del triple_any_error], rule triple_if, goal_cases)
    case 1
    show ?case
    proof (rule triple_tryM [where Q' = "\<lambda>_. comments_inv" and E' = "\<lambda>_ _. True"])
      show "triple (\<lambda>d. comment_open (c_VideoID c) (- n) d \<and> 0 < n)
          (DecrementCommentsCountBy (c_VideoID c) n) (\<lambda>_. comments_inv) (\<lambda>_ _. True)"
        unfolding DecrementCommentsCountBy_def
        by (rule triple_update_videos)
           (auto simp: comment_open_def comments_inv_def intro: comments_gap_decrement)
    qed (intro triple_any_error triple_ok)+
  next
    case 2
    then show ?case by (intro triple_ok) simp
  qed
qed (rule triple_any_error)

lemma delete_comment_tx_replies: "preserves replies_inv (delete_comment_tx i v)"
  unfolding delete_comment_tx_def by (intro social_rules replies_frame_stmts)

lemma like_tx_frames:
  "preserves comments_inv (like_tx E user v video)" "preserves comments_inv (unlike_tx user v)"
  "preserves replies_inv (like_tx E user v video)" "preserves replies_inv (unlike_tx user v)"
  unfolding like_tx_def unlike_tx_def
  by (intro social_rules comments_frame_stmts replies_frame_stmts frame_socialNotification)+

lemma preserves_DeleteComment:
  assumes "\<And>c. triple (\<lambda>d. I d \<and> c \<in> set (comments d)) (delete_comment_tx (c_ID c) (c_VideoID c))
     (\<lambda>_. I) (\<lambda>_ _. True)"
  shows "preserves I (DeleteComment E q)"
  unfolding DeleteComment_def
proof (intro preserves_if preserves_not_configured preserves_option, goal_cases)
  case (3 user cid)
  show ?case
    unfolding preserves_def
  proof (rule triple_tryM [OF GetCommentByID_row], goal_cases)
    case (1 e)
    show ?case unfolding preserves_def [symmetric] by (intro social_rules)
  next
    case (2 row)
    let ?P = "\<lambda>d. I d \<and> cr_comment row \<in> set (comments d) \<and> c_ID (cr_comment row) = cid"
    have err: "triple ?P (RespondError e) (\<lambda>_. I) (\<lambda>_. I)" for e
      by (rule triple_weaken [OF triple_dbsame [OF dbsame_Respond(5)]]) auto
    have tx: "triple ?P (runTx (delete_comment_tx cid (c_VideoID (cr_comment row)))) (\<lambda>_. I) (\<lambda>_. I)"
    proof (cases "c_ID (cr_comment row) = cid")
      case True
      then show ?thesis
        by (intro triple_runTx) (auto intro: triple_weaken [OF assms [of "cr_comment row"]])
    qed (simp add: triple_def)
    show ?case
      unfolding Let_def
      by (rule triple_if [OF err triple_tryM [OF tx]])
         (auto simp: preserves_def [symmetric] intro!: social_rules)
  qed
qed (intro social_rules)+

lemma preserves_ReplyComment:
  assumes "\<And>c E user video co. triple (\<lambda>d. I d \<and> c_ID c \<in> c_ID ` set (comments d))
     (reply_tx E user c video co) (\<lambda>_. I) (\<lambda>_ _. True)"
  shows "preserves I (ReplyComment E q b)"
  unfolding ReplyComment_def
proof (intro preserves_if preserves_not_configured preserves_option preserves_sum, goal_cases)
  case (4 user pid content)
  show ?case
    unfolding preserves_def
  proof (rule triple_tryM [OF GetCommentByID_row], goal_cases)
    case (1 e)
    show ?case unfolding preserves_def [symmetric] by (intro social_rules)
  next
    case (2 row)
    let ?P = "\<lambda>d. I d \<and> cr_comment row \<in> set (comments d) \<and> c_ID (cr_comment row) = pid"
    have err: "triple ?P (RespondError e) (\<lambda>_. I) (\<lambda>_. I)" for e
      by (rule triple_weaken [OF triple_dbsame [OF dbsame_Respond(5)]]) auto
    have tx: "triple ?P (runTx (reply_tx E user (cr_comment row) video content)) (\<lambda>_. I) (\<lambda>_. I)" for video
      by (intro triple_runTx) (auto intro: triple_weaken [OF assms])
    show ?case
      unfolding Let_def
    proof (rule triple_tryM [OF triple_dbsame [OF dbsame_assertVideo] err], rule triple_tryM [OF tx])
    qed (auto simp: preserves_def [symmetric] intro!: social_rules)
  qed
qed (intro social_rules)+

lemma social_comments_inv:
  "preserves comments_inv (LikeVideo E q)" "preserves comments_inv (UnlikeVideo E q)"
  "preserves comments_inv (TrackView E q)" "preserves comments_inv (CreateComment E q b)"
  "preserves comments_inv (ListComments E q)" "preserves comments_inv (DeleteComment E q)"
  "preserves comments_inv (ReplyComment E q b)"
  by (unfold LikeVideo_def UnlikeVideo_def TrackView_def CreateComment_def ListComments_def)
     (intro social_rules preserves_runTx like_tx_frames [THEN preserves_triple]
      create_comment_tx_comments comments_frame_stmts preserves_DeleteComment
      delete_comment_tx_comments preserves_ReplyComment reply_tx_comments)+

lemma social_replies_inv:
  "preserves replies_inv (LikeVideo E q)" "preserves replies_inv (UnlikeVideo E q)"
  "preserves replies_inv (TrackView E q)" "preserves replies_inv (CreateComment E q b)"
  "preserves replies_inv (ListComments E q)" "preserves replies_inv (DeleteComment E q)"
  "preserves replies_inv (ReplyComment E q b)"
proof -
  have del: "triple (\<lambda>d. replies_inv d \<and> c \<in> set (comments d))
      (delete_comment_tx (c_ID c) (c_VideoID c)) (\<lambda>_. replies_inv) (\<lambda>_ _. True)" for c
    by (rule triple_weaken [OF preserves_triple [OF delete_comment_tx_replies]]) auto
  show "preserves replies_inv (LikeVideo E q)" "preserves replies_inv (UnlikeVideo E q)"
    "preserves replies_inv (TrackView E q)" "preserves replies_inv (CreateComment E q b)"
    "preserves replies_inv (ListComments E q)" "preserves replies_inv (DeleteComment E q)"
    "preserves replies_inv (ReplyComment E q b)"
    by (unfold LikeVideo_def UnlikeVideo_def TrackView_def CreateComment_def ListComments_def)
       (intro social_rules preserves_runTx like_tx_frames [THEN preserves_triple]
        create_comment_tx_replies replies_frame_stmts preserves_DeleteComment del
        preserves_ReplyComment reply_tx_replies)+
qed

end
