(* ===== verification/Queue.thy ===== *)
theory Queue
  imports SocialInv
begin

text \<open>
  Handing work to the worker: \<^verbatim>\<open>shared/redis.go\<close> and the adapter in
  \<^verbatim>\<open>api-gateway/handlers/queue.go\<close>.  The queue library is outside the
  repository; an enqueue appends the task with its options or fails.
\<close>

definition client_Enqueue :: "task \<Rightarrow> int \<Rightarrow> int option \<Rightarrow> unit io" where
  "client_Enqueue t delay max_retry = bindM fault (\<lambda>_ w.
     (Inr (), w\<lparr>w_queue := w_queue w @
        [\<lparr>q_task = t, q_delay = delay, q_max_retry = max_retry\<rparr>]\<rparr>))"

definition NewTranscodeTask :: "string \<Rightarrow> goerr + task" where
  "NewTranscodeTask videoID =
    (if videoID = [] then Inl (Opaque ''NewTranscodeTask: VideoID is empty'')
     else Inr (TranscodeVideo videoID))"

definition NewCleanupVideoTask :: "string \<Rightarrow> goerr + task" where
  "NewCleanupVideoTask videoID =
    (if videoID = [] then Inl (Opaque ''NewCleanupVideoTask: VideoID is empty'')
     else Inr (CleanupVideo videoID))"

text \<open>The api-gateway's adapter: one retry for a transcode, a delay for a video cleanup.\<close>

definition EnqueueTranscode :: "string \<Rightarrow> unit io" where
  "EnqueueTranscode videoID =
    (case NewTranscodeTask videoID of
       Inl err \<Rightarrow> throw (Errorf_tail ''EnqueueTranscode: build task'' err)
     | Inr t \<Rightarrow> tryM (client_Enqueue t 0 (Some 1))
         (\<lambda>err. throw (Errorf_tail ''EnqueueTranscode: enqueue'' err)) ok)"

definition EnqueueCleanupObjects :: "string list \<Rightarrow> unit io" where
  "EnqueueCleanupObjects keys =
    (if keys = [] then ok ()
     else tryM (client_Enqueue (CleanupObjects keys) 0 None)
       (\<lambda>err. throw (Errorf_tail ''EnqueueCleanupObjects: enqueue'' err)) ok)"

definition EnqueueCleanupVideo :: "string \<Rightarrow> int \<Rightarrow> unit io" where
  "EnqueueCleanupVideo videoID delay =
    (if videoID = [] then throw (Opaque ''EnqueueCleanupVideo: VideoID is empty'')
     else case NewCleanupVideoTask videoID of
       Inl err \<Rightarrow> throw (Errorf_tail ''EnqueueCleanupVideo: build task'' err)
     | Inr t \<Rightarrow> tryM (client_Enqueue t delay None)
         (\<lambda>err. throw (Errorf_tail ''EnqueueCleanupVideo: enqueue'' err)) ok)"

definition EnqueueReconcileTick :: "int \<Rightarrow> bool \<Rightarrow> unit io" where
  "EnqueueReconcileTick batchSize dryRun =
    (if batchSize \<le> 0 then throw (Opaque ''EnqueueReconcileTick: BatchSize must be > 0'')
     else tryM (client_Enqueue (ReconcileTick batchSize dryRun) 0 None)
       (\<lambda>err. throw (Errorf_tail ''EnqueueReconcileTick: enqueue'' err)) ok)"

lemma quiet_client: "quiet.rel (client_Enqueue t d r)"
  unfolding client_Enqueue_def by (intro quiet.rel_bindM quiet_fault) (simp add: quiet.rel_def)

lemma dbsame_client: "dbsame.rel (client_Enqueue t d r)"
  unfolding client_Enqueue_def by (intro dbsame.rel_bindM dbsame_fault) (simp add: dbsame.rel_def)

lemma quiet_enqueue:
  "quiet.rel (EnqueueTranscode v)" "quiet.rel (EnqueueCleanupObjects ks)"
  "quiet.rel (EnqueueCleanupVideo v d)" "quiet.rel (EnqueueReconcileTick n b)"
  unfolding EnqueueTranscode_def EnqueueCleanupObjects_def EnqueueCleanupVideo_def
    EnqueueReconcileTick_def by (intro quiet_intros quiet_client)+

lemma dbsame_enqueue:
  "dbsame.rel (EnqueueTranscode v)" "dbsame.rel (EnqueueCleanupObjects ks)"
  "dbsame.rel (EnqueueCleanupVideo v d)" "dbsame.rel (EnqueueReconcileTick n b)"
  unfolding EnqueueTranscode_def EnqueueCleanupObjects_def EnqueueCleanupVideo_def
    EnqueueReconcileTick_def by (intro dbsame_intros dbsame_client)+

lemmas preserves_enqueue = dbsame_enqueue [THEN preserves_dbsame]

end
