(* ===== verification/Account.thy ===== *)
theory Account
  imports Queue
begin

text \<open>
  Account deletion, \<^verbatim>\<open>api-gateway/handlers/account.go\<close>: the cascade of ten
  statements in one transaction, the R2 keys collected before the rows go, and the
  cleanup task enqueued after the commit.  The lemmas show what the transaction
  erases, that it keeps \<^verbatim>\<open>likes_count\<close> exact and the reply forest ranked,
  and that a failure leaves the tables as they were.  \<^verbatim>\<open>comments_count\<close> is
  another matter: see the root theory.
\<close>

section \<open>The code\<close>

definition collect_keys :: "VideoKeysRow list \<Rightarrow> string list" where
  "collect_keys rows = concat (map (\<lambda>r.
     vk_R2Key r # (case vk_ThumbnailKey r of
        None \<Rightarrow> [] | Some k \<Rightarrow> (if k \<noteq> [] then [k] else []))) rows)"

definition delete_user_tx :: "env \<Rightarrow> uuid \<Rightarrow> string list io" where
  "delete_user_tx E userID =
    (let failed = (\<lambda>what err. throw (Wrap ErrInternal (what @ '': '' @ Error err))) in
     tryM (ListVideoKeysByUser userID) (failed ''list video keys'') (\<lambda>rows.
     tryM (DecrementLikesForUser userID) (failed ''decrement likes'') (\<lambda>_.
     tryM (DecrementCommentsForUser userID) (failed ''decrement comments'') (\<lambda>_.
     tryM (DeleteVideosByUser userID) (failed ''delete videos'') (\<lambda>_.
     tryM (DeleteFollowsByFollower userID) (failed ''delete follows (follower)'') (\<lambda>_.
     tryM (DeleteFollowsByFollowee userID) (failed ''delete follows (followee)'') (\<lambda>_.
     tryM (DeleteLikesByUser userID) (failed ''delete likes'') (\<lambda>_.
     tryM (DeleteCommentsByUser userID) (failed ''delete comments'') (\<lambda>_.
     tryM (DeleteNotificationsForUser userID) (failed ''delete notifications (user)'') (\<lambda>_.
     tryM (DeleteNotificationsByActor userID) (failed ''delete notifications (actor)'') (\<lambda>_.
     tryM (TombstoneUser E userID)
       (\<lambda>err. if errors_Is err ErrNoRows then throw (Sentinel ErrNoLocalUser)
              else throw (Wrap ErrInternal (''tombstone user: '' @ Error err)))
       (\<lambda>_. ok (collect_keys rows)))))))))))))"

text \<open>The keys, or \<^verbatim>\<open>None\<close> (a nil slice) when the user has no local row.\<close>

definition collectUserR2Keys :: "env \<Rightarrow> uuid \<Rightarrow> string list option io" where
  "collectUserR2Keys E userID =
    tryM (runTx (delete_user_tx E userID))
      (\<lambda>err. if errors_Is err ErrNoLocalUser then ok None else throw err)
      (\<lambda>keys. ok (Some keys))"

definition deleteUserData :: "env \<Rightarrow> uuid \<Rightarrow> unit io" where
  "deleteUserData E userID =
    tryM (collectUserR2Keys E userID) throw (\<lambda>r2Keys.
      case r2Keys of
        None \<Rightarrow> ok ()
      | Some keys \<Rightarrow> tryM (EnqueueCleanupObjects keys) (\<lambda>_. ok ()) (\<lambda>_. ok ()))"

definition DeleteUserData :: "env \<Rightarrow> uuid \<Rightarrow> unit io" where
  "DeleteUserData E userID =
    (if \<not> env_wired E DepQueries then throw (Wrap ErrInternal ''DeleteUserData: queries is nil'')
     else if \<not> env_wired E DepRun then throw (Wrap ErrInternal ''DeleteUserData: db is nil'')
     else if \<not> env_wired E DepQueue then throw (Wrap ErrInternal ''DeleteUserData: queue is nil'')
     else deleteUserData E userID)"

definition DeleteMe :: "env \<Rightarrow> request \<Rightarrow> unit io" where
  "DeleteMe E q =
    (if \<not> env_wired E DepRun \<or> \<not> env_wired E DepQueue
     then RespondError (Wrap ErrInternal ''account handler not configured'')
     else case req_user q of
       None \<Rightarrow> RespondError (Wrap ErrUnauthorized ''no authenticated user'')
     | Some user \<Rightarrow>
        tryM (deleteUserData E (u_ID user)) RespondError (\<lambda>_. write_response 204 NoBody))"

section \<open>One response\<close>

lemma quiet_delete_user_tx: "quiet.rel (delete_user_tx E u)"
  unfolding delete_user_tx_def Let_def by (intro quiet_intros)

lemma quiet_deleteUserData: "quiet.rel (deleteUserData E u)" "quiet.rel (DeleteUserData E u)"
  unfolding DeleteUserData_def deleteUserData_def collectUserR2Keys_def
  by (intro quiet_intros quiet_delete_user_tx quiet_enqueue)+

lemma writes1_DeleteMe: "writes1 (DeleteMe E q)"
  unfolding DeleteMe_def by (intro writes1_intros quiet_deleteUserData)

section \<open>Likes stay exact\<close>

text \<open>In the middle of the cascade the counters already leave the user's likes out.\<close>

definition likes_without :: "uuid \<Rightarrow> db \<Rightarrow> bool" where
  "likes_without u d \<longleftrightarrow> (\<forall>v \<in> set (videos d).
     v_LikesCount v = int (count_rows (\<lambda>l. l_VideoID l = v_ID v \<and> l_UserID l \<noteq> u) (likes d)))"

definition likes_mid :: "uuid \<Rightarrow> db \<Rightarrow> bool" where
  "likes_mid u d \<longleftrightarrow> constraints d \<and> likes_without u d"

lemma user_like_count:
  assumes "likes_ok d"
  shows "count_rows (\<lambda>l. l_VideoID l = vid \<and> l_UserID l = u) (likes d) =
    (if vid \<in> l_VideoID ` set (filter (\<lambda>l. l_UserID l = u) (likes d)) then 1 else 0)"
proof -
  let ?key = "\<lambda>l. (l_UserID l, l_VideoID l)"
  have "count_rows (\<lambda>l. ?key l = (u, vid)) (likes d) = (if (u, vid) \<in> ?key ` set (likes d) then 1 else 0)"
    using assms by (intro count_rows_key) (simp add: likes_ok_def)
  moreover have "count_rows (\<lambda>l. ?key l = (u, vid)) (likes d) =
      count_rows (\<lambda>l. l_VideoID l = vid \<and> l_UserID l = u) (likes d)"
    by (intro count_rows_cong) auto
  moreover have "(u, vid) \<in> ?key ` set (likes d) \<longleftrightarrow>
      vid \<in> l_VideoID ` set (filter (\<lambda>l. l_UserID l = u) (likes d))" by auto
  ultimately show ?thesis by simp
qed

lemma decrement_likes_without:
  assumes "constraints d" "likes_exact d"
  shows "likes_without u (decrement_likes_for u d)"
  unfolding likes_without_def decrement_likes_for_def db.select_convs db.update_convs
proof (simp, rule update_rows_all, goal_cases)
  case (1 v)
  let ?P = "v_ID v \<in> l_VideoID ` set (filter (\<lambda>l. l_UserID l = u) (likes d))"
  have "count_rows (\<lambda>l. l_VideoID l = v_ID v) (likes d) =
      count_rows (\<lambda>l. l_VideoID l = v_ID v \<and> l_UserID l = u) (likes d) +
      count_rows (\<lambda>l. l_VideoID l = v_ID v \<and> l_UserID l \<noteq> u) (likes d)"
    by (rule count_rows_split)
  moreover have "count_rows (\<lambda>l. l_VideoID l = v_ID v \<and> l_UserID l = u) (likes d) = (if ?P then 1 else 0)"
    using assms(1) by (intro user_like_count) (simp add: constraints_def)
  moreover have "v_LikesCount v = int (count_rows (\<lambda>l. l_VideoID l = v_ID v) (likes d))"
    using assms(2) 1 by (simp add: likes_exact_def like_rows_def)
  ultimately show ?case by (auto simp: image_iff split: if_splits)
qed

lemma likes_without_frame:
  assumes "like_view d' = like_view d"
  shows "likes_without u d' = likes_without u d"
proof -
  have "likes_without u d \<longleftrightarrow> (\<forall>(i, n) \<in> set (fst (like_view d)).
      n = int (count_rows (\<lambda>l. l_VideoID l = i \<and> l_UserID l \<noteq> u) (snd (like_view d))))" for d
    by (auto simp: likes_without_def like_view_def)
  then show ?thesis using assms by simp
qed

lemma likes_mid_frame:
  assumes "\<And>now d x d'. f now d = Inr (x, d') \<Longrightarrow> like_view d' = like_view d"
  shows "preserves (likes_mid u) (exec f)"
proof (rule preserves_exec)
  fix now d x d' assume a: "likes_mid u d" "f now d = Inr (x, d')" "constraints d'"
  show "likes_mid u d'" using a likes_without_frame [OF assms [OF a(2)]] by (simp add: likes_mid_def)
qed

lemma likes_mid_videos: "preserves (likes_mid u) (DeleteVideosByUser w)"
  unfolding DeleteVideosByUser_def
proof (rule preserves_exec)
  fix now d x d'
  assume a: "likes_mid u d" "constraints d'"
    and "Inr ((), delete_videos (\<lambda>v. v_UserID v = w) d) = Inr (x, d')"
  then have d': "d' = delete_videos (\<lambda>v. v_UserID v = w) d" by simp
  have "v_LikesCount v = int (count_rows (\<lambda>l. l_VideoID l = v_ID v \<and> l_UserID l \<noteq> u) (likes d'))"
    if "v \<in> set (videos d')" for v
  proof -
    have v: "v \<in> set (videos d)" "v_UserID v \<noteq> w" using that by (auto simp: d' delete_videos_videos)
    then have ng: "v_ID v \<notin> v_ID ` set (filter (\<lambda>v. v_UserID v = w) (videos d))"
      using kept_not_gone a(1) by (auto simp: likes_mid_def constraints_def)
    have "count_rows (\<lambda>l. (l_VideoID l = v_ID v \<and> l_UserID l \<noteq> u) \<and>
         l_VideoID l \<notin> v_ID ` set (filter (\<lambda>v. v_UserID v = w) (videos d))) (likes d) =
        count_rows (\<lambda>l. l_VideoID l = v_ID v \<and> l_UserID l \<noteq> u) (likes d)"
      by (intro count_rows_cong) (metis ng)
    then show ?thesis
      using a(1) v by (simp add: likes_mid_def likes_without_def d' delete_videos_likes count_rows_filter)
  qed
  then show "likes_mid u d'" using a(2) by (simp add: likes_mid_def likes_without_def)
qed

lemma likes_mid_stmts:
  "preserves (likes_mid u) (DecrementCommentsForUser w)"
  "preserves (likes_mid u) (DeleteFollowsByFollower w)"
  "preserves (likes_mid u) (DeleteFollowsByFollowee w)"
  unfolding DecrementCommentsForUser_def DeleteFollowsByFollower_def DeleteFollowsByFollowee_def
  by (rule likes_mid_frame, auto simp: decrement_comments_for_def like_view_update_videos)+

lemma likes_inv_stmts:
  "preserves likes_inv (DeleteCommentsByUser w)" "preserves likes_inv (DeleteNotificationsForUser w)"
  "preserves likes_inv (DeleteNotificationsByActor w)" "preserves likes_inv (TombstoneUser E w)"
  unfolding DeleteCommentsByUser_def DeleteNotificationsForUser_def DeleteNotificationsByActor_def
    TombstoneUser_def update_user_one_def delete_comments_def
  by (rule likes_frame_exec, auto split: option.splits)+

lemma DecrementLikesForUser_mid:
  "triple likes_inv (DecrementLikesForUser u) (\<lambda>_. likes_mid u) (\<lambda>_ _. True)"
  unfolding DecrementLikesForUser_def
  by (rule triple_exec)
     (auto simp: likes_inv_def likes_mid_def decrement_likes_without)

lemma DeleteLikesByUser_exact:
  "triple (likes_mid u) (DeleteLikesByUser u) (\<lambda>_. likes_inv) (\<lambda>_ _. True)"
  unfolding DeleteLikesByUser_def
  by (rule triple_exec)
     (auto simp: likes_mid_def likes_inv_def likes_without_def likes_exact_def like_rows_def
       count_rows_filter)

lemma delete_user_tx_likes:
  "triple likes_inv (delete_user_tx E u) (\<lambda>_. likes_inv) (\<lambda>_ _. True)"
proof -
  note inv = preserves_triple
  note t = triple_tryM [OF _ triple_any_error]
  show ?thesis
    unfolding delete_user_tx_def Let_def
    apply (rule t, rule inv, rule preserves_dbsame [OF dbsame_reads(8)])
    apply (rule t, rule DecrementLikesForUser_mid)
    apply (rule t, rule inv, rule likes_mid_stmts)
    apply (rule t, rule inv, rule likes_mid_videos)
    apply (rule t, rule inv, rule likes_mid_stmts)
    apply (rule t, rule inv, rule likes_mid_stmts)
    apply (rule t, rule DeleteLikesByUser_exact)
    apply (intro inv preserves_intros likes_inv_stmts)
    done
qed

lemma deleteUserData_likes:
  "preserves likes_inv (deleteUserData E u)" "preserves likes_inv (DeleteUserData E u)"
  unfolding DeleteUserData_def deleteUserData_def collectUserR2Keys_def
  by (intro social_rules preserves_runTx delete_user_tx_likes preserves_enqueue)+

lemma DeleteMe_likes: "preserves likes_inv (DeleteMe E q)"
  unfolding DeleteMe_def by (intro social_rules deleteUserData_likes)

section \<open>Replies stay ranked\<close>

lemma replies_delete_videos: "preserves replies_inv (DeleteVideosByUser w)" "preserves replies_inv (DeleteVideoRow w)"
  unfolding DeleteVideosByUser_def DeleteVideoRow_def
  by (rule replies_frame_exec,
      auto simp: delete_videos_def Let_def dest: delete_comments_subset [THEN subsetD])+

lemma replies_user_stmts:
  "preserves replies_inv (DecrementLikesForUser w)" "preserves replies_inv (DecrementCommentsForUser w)"
  "preserves replies_inv (DeleteFollowsByFollower w)" "preserves replies_inv (DeleteFollowsByFollowee w)"
  "preserves replies_inv (DeleteLikesByUser w)" "preserves replies_inv (DeleteCommentsByUser w)"
  "preserves replies_inv (DeleteNotificationsForUser w)"
  "preserves replies_inv (DeleteNotificationsByActor w)" "preserves replies_inv (TombstoneUser E w)"
  unfolding DecrementLikesForUser_def DecrementCommentsForUser_def DeleteFollowsByFollower_def
    DeleteFollowsByFollowee_def DeleteLikesByUser_def DeleteCommentsByUser_def
    DeleteNotificationsForUser_def DeleteNotificationsByActor_def TombstoneUser_def
    update_user_one_def delete_comments_def decrement_likes_for_def decrement_comments_for_def
  by (rule replies_frame_exec,
      auto dest: delete_comments_subset [THEN subsetD] split: option.splits)+

lemma delete_user_tx_replies: "preserves replies_inv (delete_user_tx E u)"
  unfolding delete_user_tx_def Let_def
  by (intro preserves_intros replies_delete_videos replies_user_stmts)

lemma deleteUserData_replies:
  "preserves replies_inv (deleteUserData E u)" "preserves replies_inv (DeleteUserData E u)"
  unfolding DeleteUserData_def deleteUserData_def collectUserR2Keys_def
  by (intro social_rules preserves_runTx preserves_triple delete_user_tx_replies preserves_enqueue)+

lemma DeleteMe_replies: "preserves replies_inv (DeleteMe E q)"
  unfolding DeleteMe_def by (intro social_rules deleteUserData_replies)

section \<open>What a deletion erases\<close>

text \<open>Nothing refers to the user any more, and the row that is left says nothing about them.\<close>

definition erased_videos :: "uuid \<Rightarrow> db \<Rightarrow> bool" where
  "erased_videos u d \<longleftrightarrow> list_all (\<lambda>v. v_UserID v \<noteq> u) (videos d)"

definition erased_follows :: "uuid \<Rightarrow> db \<Rightarrow> bool" where
  "erased_follows u d \<longleftrightarrow> list_all (\<lambda>f. f_FollowerID f \<noteq> u \<and> f_FolloweeID f \<noteq> u) (follows d)"

definition erased_likes :: "uuid \<Rightarrow> db \<Rightarrow> bool" where
  "erased_likes u d \<longleftrightarrow> list_all (\<lambda>l. l_UserID l \<noteq> u) (likes d)"

definition erased_comments :: "uuid \<Rightarrow> db \<Rightarrow> bool" where
  "erased_comments u d \<longleftrightarrow> list_all (\<lambda>c. c_UserID c \<noteq> u) (comments d)"

definition erased_notifications :: "uuid \<Rightarrow> db \<Rightarrow> bool" where
  "erased_notifications u d \<longleftrightarrow> list_all (\<lambda>n. n_UserID n \<noteq> u \<and> n_ActorID n \<noteq> u) (notifications d)"

definition tombstoned :: "env \<Rightarrow> uuid \<Rightarrow> db \<Rightarrow> bool" where
  "tombstoned E u d \<longleftrightarrow> list_all (\<lambda>r. u_ID r = u \<longrightarrow> \<not> u_IsActive r \<and> u_DeletedAt r \<noteq> None \<and>
     u_Username r = ''deleted_'' @ env_uuid_String E u \<and> u_DisplayName r = None \<and>
     u_Bio r = None \<and> u_AvatarUrl r = None) (users d) \<and> u \<in> u_ID ` set (users d)"

definition account_erased :: "env \<Rightarrow> uuid \<Rightarrow> db \<Rightarrow> bool" where
  "account_erased E u d \<longleftrightarrow> erased_videos u d \<and> erased_follows u d \<and> erased_likes u d \<and>
     erased_comments u d \<and> erased_notifications u d \<and> tombstoned E u d"

lemma delete_comments_none:
  "c \<in> set (delete_comments_where P cs) \<Longrightarrow> \<not> P c"
  unfolding delete_comments_where_def using cascade_subset by fastforce

lemma delete_user_tx_erases:
  "triple (\<lambda>_. True) (delete_user_tx E u) (\<lambda>_. account_erased E u) (\<lambda>_ _. True)"
proof -
  note t = triple_tryM [OF _ triple_any_error]
  have ex: "triple P (exec f) (\<lambda>_. Q) (\<lambda>_ _. True)"
    if "\<And>now d x d'. P d \<Longrightarrow> f now d = Inr (x, d') \<Longrightarrow> Q d'" for P Q and f :: "time \<Rightarrow> db \<Rightarrow> goerr + 'x \<times> db"
    by (rule triple_exec) (use that in auto)
  let ?v = "erased_videos u" let ?f = "erased_follows u" let ?l = "erased_likes u"
  let ?c = "erased_comments u" let ?n = "erased_notifications u"
  let ?fo = "\<lambda>d. list_all (\<lambda>f. f_FollowerID f \<noteq> u) (follows d)"
  let ?nu = "\<lambda>d. list_all (\<lambda>n. n_UserID n \<noteq> u) (notifications d)"
  have a1: "triple (\<lambda>_. True) (DeleteVideosByUser u) (\<lambda>_. ?v) (\<lambda>_ _. True)"
    unfolding DeleteVideosByUser_def
    by (rule ex) (auto simp: erased_videos_def delete_videos_videos list_all_iff)
  have a2: "triple ?v (DeleteFollowsByFollower u) (\<lambda>_ d. ?v d \<and> ?fo d) (\<lambda>_ _. True)"
    unfolding DeleteFollowsByFollower_def by (rule ex) (auto simp: erased_videos_def list_all_iff)
  have a3: "triple (\<lambda>d. ?v d \<and> ?fo d) (DeleteFollowsByFollowee u) (\<lambda>_ d. ?v d \<and> ?f d) (\<lambda>_ _. True)"
    unfolding DeleteFollowsByFollowee_def
    by (rule ex) (auto simp: erased_videos_def erased_follows_def list_all_iff)
  have a4: "triple (\<lambda>d. ?v d \<and> ?f d) (DeleteLikesByUser u) (\<lambda>_ d. ?v d \<and> ?f d \<and> ?l d) (\<lambda>_ _. True)"
    unfolding DeleteLikesByUser_def
    by (rule ex) (auto simp: erased_videos_def erased_follows_def erased_likes_def list_all_iff)
  have a5: "triple (\<lambda>d. ?v d \<and> ?f d \<and> ?l d) (DeleteCommentsByUser u)
      (\<lambda>_ d. ?v d \<and> ?f d \<and> ?l d \<and> ?c d) (\<lambda>_ _. True)"
    unfolding DeleteCommentsByUser_def
    by (rule ex) (auto simp: erased_videos_def erased_follows_def erased_likes_def
        erased_comments_def delete_comments_def list_all_iff dest: delete_comments_none)
  have a6: "triple (\<lambda>d. ?v d \<and> ?f d \<and> ?l d \<and> ?c d) (DeleteNotificationsForUser u)
      (\<lambda>_ d. ?v d \<and> ?f d \<and> ?l d \<and> ?c d \<and> ?nu d) (\<lambda>_ _. True)"
    unfolding DeleteNotificationsForUser_def
    by (rule ex) (auto simp: erased_videos_def erased_follows_def erased_likes_def
        erased_comments_def list_all_iff)
  have a7: "triple (\<lambda>d. ?v d \<and> ?f d \<and> ?l d \<and> ?c d \<and> ?nu d) (DeleteNotificationsByActor u)
      (\<lambda>_ d. ?v d \<and> ?f d \<and> ?l d \<and> ?c d \<and> ?n d) (\<lambda>_ _. True)"
    unfolding DeleteNotificationsByActor_def
    by (rule ex) (auto simp: erased_videos_def erased_follows_def erased_likes_def
        erased_comments_def erased_notifications_def list_all_iff)
  have a8: "triple (\<lambda>d. ?v d \<and> ?f d \<and> ?l d \<and> ?c d \<and> ?n d) (TombstoneUser E u)
      (\<lambda>_. account_erased E u) (\<lambda>_ _. True)"
    unfolding TombstoneUser_def
  proof (rule triple_update_user_one)
    fix now d r
    assume pre: "?v d \<and> ?f d \<and> ?l d \<and> ?c d \<and> ?n d" and r: "find_row (\<lambda>r. u_ID r = u) (users d) = Some r"
    let ?g = "\<lambda>r. r\<lparr>u_IsActive := False, u_DeletedAt := Some now,
        u_Username := ''deleted_'' @ env_uuid_String E (u_ID r), u_DisplayName := None,
        u_Bio := None, u_AvatarUrl := None\<rparr>"
    have "r \<in> set (users d)" "u_ID r = u" using find_row_Some [OF r] by auto
    then have "u \<in> u_ID ` set (update_rows (\<lambda>r. u_ID r = u) ?g (users d))"
      by (subst set_update_rows_same) auto
    moreover have "list_all (\<lambda>r. u_ID r = u \<longrightarrow> \<not> u_IsActive r \<and> u_DeletedAt r \<noteq> None \<and>
       u_Username r = ''deleted_'' @ env_uuid_String E u \<and> u_DisplayName r = None \<and>
       u_Bio r = None \<and> u_AvatarUrl r = None) (update_rows (\<lambda>r. u_ID r = u) ?g (users d))"
      unfolding list_all_iff by (rule update_rows_all) auto
    ultimately show "account_erased E u (d\<lparr>users := update_rows (\<lambda>r. u_ID r = u) ?g (users d)\<rparr>)"
      using pre by (simp add: account_erased_def erased_videos_def erased_follows_def
          erased_likes_def erased_comments_def erased_notifications_def tombstoned_def)
  qed simp
  show ?thesis
    unfolding delete_user_tx_def Let_def
    by (intro t [OF triple_True] t [OF a1] t [OF a2] t [OF a3] t [OF a4] t [OF a5] t [OF a6]
        t [OF a7] triple_tryM [OF a8] triple_if triple_any_error triple_ok)
qed

end
