(* ===== verification/Profiles.thy ===== *)
theory Profiles
  imports Store Account
begin

text \<open>
  The wire form of videos (\<^verbatim>\<open>handlers/video_object.go\<close>), the profile endpoints of
  \<^verbatim>\<open>handlers/user.go\<close> and the follow endpoints of \<^verbatim>\<open>handlers/user_follow.go\<close>.
\<close>

section \<open>Video objects\<close>

definition presignTTL :: "env \<Rightarrow> int" where
  "presignTTL E =
    (if env_wired E DepConfig \<and> env_MediaTokenTTL E > 0 then env_MediaTokenTTL E
     else 15 * 60 * 1000000000)"

definition buildThumbnailURL :: "env \<Rightarrow> string option \<Rightarrow> video_status \<Rightarrow> string option io" where
  "buildThumbnailURL E thumbKey status =
    (if status \<noteq> READY then ok None
     else if \<not> env_wired E DepR2 then ok None
     else case thumbKey of
       None \<Rightarrow> ok None
     | Some key \<Rightarrow>
        if key = [] then ok None
        else tryM (PresignGet E key (presignTTL E)) (\<lambda>_. ok None)
               (\<lambda>url. ok (if url = [] then None else Some url)))"

definition playlist_url :: "env \<Rightarrow> uuid \<Rightarrow> string \<Rightarrow> string" where
  "playlist_url E videoID token =
     env_APIBaseURL E @ ''/api/videos/'' @ env_uuid_String E videoID @ ''/playlist.m3u8?token='' @ token"

definition buildPlaylistURL :: "env \<Rightarrow> uuid \<Rightarrow> video_status \<Rightarrow> string option io" where
  "buildPlaylistURL E videoID status =
    (if status \<noteq> READY then ok None
     else if \<not> env_wired E DepConfig \<or> env_APIBaseURL E = [] \<or> env_MediaTokenSecret E = [] then ok None
     else bindM now_io (\<lambda>now.
       case NewMediaToken E (env_uuid_String E videoID) (env_MediaTokenSecret E) (presignTTL E) now of
         Inl _ \<Rightarrow> ok None
       | Inr (token, _) \<Rightarrow> ok (if token = [] then None else Some (playlist_url E videoID token))))"

definition json_int_opt :: "int option \<Rightarrow> json" where
  "json_int_opt x = (case x of None \<Rightarrow> JNull | Some i \<Rightarrow> JInt i)"

definition video_fields :: "Video \<Rightarrow> (string \<times> json) list" where
  "video_fields v =
     [(''id'', JUuid (v_ID v)), (''user_id'', JUuid (v_UserID v)),
      (''title'', json_opt (v_Title v)), (''description'', json_opt (v_Description v)),
      (''duration_seconds'', json_int_opt (v_DurationSeconds v)),
      (''status'', JStr (status_text (v_Status v))), (''retry_count'', JInt (v_RetryCount v)),
      (''likes_count'', JInt (v_LikesCount v)), (''views_count'', JInt (v_ViewsCount v)),
      (''comments_count'', JInt (v_CommentsCount v)),
      (''created_at'', JStr (formatVideoTime (v_CreatedAt v)))]"

text \<open>
  \<^verbatim>\<open>videoObjectFromDetail\<close>, \<^verbatim>\<open>videoObjectFromFeedRow\<close> and
  \<^verbatim>\<open>videoObjectFromSearchRow\<close> differ in \<^verbatim>\<open>is_owner\<close> only.
\<close>

definition VideoObject :: "env \<Rightarrow> VideoDetailRow \<Rightarrow> bool \<Rightarrow> json io" where
  "VideoObject E r isOwner =
    (let v = vd_video r in
     bindM (buildThumbnailURL E (v_ThumbnailKey v) (v_Status v)) (\<lambda>thumb.
     bindM (buildPlaylistURL E (v_ID v) (v_Status v)) (\<lambda>playlist.
       ok (JObj (video_fields v @
         [(''thumbnail_url'', json_opt thumb), (''hls_playlist_url'', json_opt playlist),
          (''liked_by_me'', JBool (vd_LikedByMe r)), (''is_owner'', JBool isOwner),
          (''user'', UserSummary (vd_owner r))])))))"

definition videoObjectFromDetail :: "env \<Rightarrow> VideoDetailRow \<Rightarrow> bool \<Rightarrow> json io" where
  "videoObjectFromDetail E r isOwner = VideoObject E r isOwner"

definition videoObjectFromFeedRow :: "env \<Rightarrow> VideoDetailRow \<Rightarrow> json io" where
  "videoObjectFromFeedRow E r = VideoObject E r False"

definition videoObjectFromSearchRow :: "env \<Rightarrow> uuid \<Rightarrow> VideoDetailRow \<Rightarrow> json io" where
  "videoObjectFromSearchRow E viewerID r = VideoObject E r (v_UserID (vd_video r) = viewerID)"

section \<open>Profiles\<close>

definition profile_fields :: "User \<Rightarrow> (string \<times> json) list" where
  "profile_fields u =
     [(''id'', JUuid (u_ID u)), (''username'', JStr (u_Username u)),
      (''display_name'', json_opt (u_DisplayName u)), (''bio'', json_opt (u_Bio u)),
      (''avatar_url'', json_opt (u_AvatarUrl u)), (''is_private'', JBool (u_IsPrivate u)),
      (''is_active'', JBool (u_IsActive u)), (''created_at'', JStr (formatVideoTime (u_CreatedAt u)))]"

definition userFromDB :: "User \<Rightarrow> json" where
  "userFromDB u = JObj (profile_fields u)"

definition HealthHandler :: "unit io" where
  "HealthHandler = write_response 200 (BodyJSON (JObj [(''status'', JStr ''ok'')]))"

definition GetMe :: "request \<Rightarrow> unit io" where
  "GetMe q = (case req_user q of
      None \<Rightarrow> RespondError (Wrap ErrUnauthorized ''no authenticated user'')
    | Some user \<Rightarrow> RespondOK (userFromDB user))"

record updateMeRequest =
  um_DisplayName :: "string option"
  um_Bio :: "string option"
  um_AvatarURL :: "string option"
  um_IsPrivate :: "bool option"

definition UpdateMe :: "request \<Rightarrow> updateMeRequest bound \<Rightarrow> unit io" where
  "UpdateMe q b = (case req_user q of
      None \<Rightarrow> RespondError (Wrap ErrUnauthorized ''no authenticated user'')
    | Some user \<Rightarrow>
       (case b of
          BindError _ \<Rightarrow> RespondError (Wrap ErrValidation ''invalid JSON body'')
        | Bound body v \<Rightarrow>
           (case Validate v of
              Inl err \<Rightarrow> RespondError err
            | Inr _ \<Rightarrow>
               tryM (UpdateUserProfile (u_ID user) (um_DisplayName body) (um_Bio body)
                      (um_AvatarURL body) (um_IsPrivate body))
                 (\<lambda>_. RespondError (Wrap ErrInternal ''update profile''))
                 (\<lambda>updated. RespondOK (userFromDB updated)))))"

definition profile_with_stats :: "ProfileStatsRow \<Rightarrow> json" where
  "profile_with_stats row = JObj (profile_fields (ps_user row) @
     [(''is_following'', JBool (ps_IsFollowing row)),
      (''follower_count'', JInt (ps_FollowerCount row)),
      (''following_count'', JInt (ps_FollowingCount row))])"

definition GetUserProfile :: "env \<Rightarrow> request \<Rightarrow> unit io" where
  "GetUserProfile E q = (case req_user q of
      None \<Rightarrow> RespondError (Wrap ErrUnauthorized ''no authenticated user'')
    | Some viewer \<Rightarrow>
       (case env_uuid_Parse E (req_param q ''id'') of
          None \<Rightarrow> RespondError (Wrap ErrValidation ''invalid user id'')
        | Some targetID \<Rightarrow>
           tryM (GetUserProfileWithStats targetID (u_ID viewer))
             (\<lambda>err. if errors_Is err ErrNoRows then RespondError (Wrap ErrNotFound ''user not found'')
                    else RespondError (Wrap ErrInternal ''load user profile''))
             (\<lambda>row. if \<not> u_IsActive (ps_user row)
                    then RespondError (Wrap ErrNotFound ''user not found'')
                    else RespondOK (profile_with_stats row))))"

text \<open>The limit and cursor parameters, read alike by every list endpoint.\<close>

definition page_params :: "env \<Rightarrow> request \<Rightarrow> goerr + (int \<times> cursor)" where
  "page_params E q =
    (case parseLimit (req_query q ''limit'') of
       Inl err \<Rightarrow> Inl (Wrap ErrValidation (Error err))
     | Inr limit \<Rightarrow>
        (case DecodeCursor E (req_query q ''cursor'') of
           Inl _ \<Rightarrow> Inl (Wrap ErrValidation ''invalid cursor'')
         | Inr cur \<Rightarrow> Inr (limit, cursor_arg cur)))"

definition videoToItem :: "bool \<Rightarrow> Video \<Rightarrow> json" where
  "videoToItem isOwner v = JObj (video_fields v @
     [(''thumbnail_url'', JNull), (''hls_playlist_url'', JNull), (''liked_by_me'', JNull),
      (''is_owner'', JBool isOwner)])"

definition user_videos_page :: "env \<Rightarrow> request \<Rightarrow> User \<Rightarrow> bool \<Rightarrow> unit io" where
  "user_videos_page E q target isOwner =
    (case page_params E q of
       Inl err \<Rightarrow> RespondError err
     | Inr (limit, cur) \<Rightarrow>
        tryM (ListVideosByUser (u_ID target) isOwner cur (nat limit))
          (\<lambda>_. RespondError (Wrap ErrInternal ''load videos''))
          (\<lambda>videos. RespondList (map (videoToItem isOwner) videos)
                      (response_cursor E video_key limit videos)))"

definition GetUserVideos :: "env \<Rightarrow> request \<Rightarrow> unit io" where
  "GetUserVideos E q = (case req_user q of
      None \<Rightarrow> RespondError (Wrap ErrUnauthorized ''no authenticated user'')
    | Some viewer \<Rightarrow>
       (case env_uuid_Parse E (req_param q ''id'') of
          None \<Rightarrow> RespondError (Wrap ErrValidation ''invalid user id'')
        | Some targetID \<Rightarrow>
           tryM (GetUserByID targetID)
             (\<lambda>err. if errors_Is err ErrNoRows then RespondError (Wrap ErrNotFound ''user not found'')
                    else RespondError (Wrap ErrInternal ''load target user''))
             (\<lambda>target.
               if \<not> u_IsActive target then RespondError (Wrap ErrNotFound ''user not found'')
               else let isOwner = (u_ID target = u_ID viewer) in
                 if \<not> isOwner \<and> u_IsPrivate target then
                   tryM (IsFollowing (u_ID viewer) (u_ID target))
                     (\<lambda>_. RespondError (Wrap ErrInternal ''load follow state''))
                     (\<lambda>following.
                       if \<not> following then RespondError (Wrap ErrNotFound ''user not found'')
                       else user_videos_page E q target isOwner)
                 else user_videos_page E q target isOwner)))"

section \<open>Follows\<close>

definition user_not_configured :: "unit io" where
  "user_not_configured = RespondError (Wrap ErrInternal ''user handler not configured'')"

definition followObject :: "uuid \<Rightarrow> uuid \<Rightarrow> bool \<Rightarrow> string \<Rightarrow> json" where
  "followObject follower followee isFollowing createdAt = JObj
     [(''follower_id'', JUuid follower), (''followee_id'', JUuid followee),
      (''is_following'', JBool isFollowing), (''created_at'', JStr createdAt)]"

definition insertFollowNotification :: "env \<Rightarrow> User \<Rightarrow> User \<Rightarrow> unit io" where
  "insertFollowNotification E target actor =
    (if \<not> env_wired E DepQueries then throw (Opaque ''insertFollowNotification: queries is nil'')
     else tryM (InsertNotification (u_ID target) (u_ID actor) ''follow''
                  (json_map [(''username'', u_Username actor)])) throw (\<lambda>_. ok ()))"

definition UserHandler_FollowUser :: "env \<Rightarrow> request \<Rightarrow> unit io" where
  "UserHandler_FollowUser E q =
    (if \<not> env_wired E DepQueries then user_not_configured
     else case req_user q of
       None \<Rightarrow> RespondError (Wrap ErrUnauthorized ''no authenticated user'')
     | Some currentUser \<Rightarrow>
        (case env_uuid_Parse E (req_param q ''id'') of
           None \<Rightarrow> RespondError (Wrap ErrValidation ''invalid user id'')
         | Some targetID \<Rightarrow>
            if u_ID currentUser = targetID then RespondError (Wrap ErrSelfFollow ''cannot follow yourself'')
            else tryM (GetUserByID targetID)
              (\<lambda>err. if errors_Is err ErrNoRows then RespondError (Wrap ErrNotFound ''user not found'')
                     else RespondError (Wrap ErrInternal ''load target user''))
              (\<lambda>target.
                if \<not> u_IsActive target then RespondError (Wrap ErrNotFound ''user not found'')
                else tryM (FollowUser (u_ID currentUser) targetID)
                  (\<lambda>_. RespondError (Wrap ErrInternal ''create follow'')) (\<lambda>_.
                tryM (GetFollow (u_ID currentUser) targetID)
                  (\<lambda>_. RespondError (Wrap ErrInternal ''load follow'')) (\<lambda>follow.
                let respond = RespondOK (followObject (f_FollowerID follow) (f_FolloweeID follow) True
                      (formatVideoTime (f_CreatedAt follow)))
                in tryM (insertFollowNotification E target currentUser)
                     (\<lambda>_. respond) (\<lambda>_. respond))))))"

definition UnfollowUser :: "env \<Rightarrow> request \<Rightarrow> unit io" where
  "UnfollowUser E q =
    (if \<not> env_wired E DepQueries then user_not_configured
     else case req_user q of
       None \<Rightarrow> RespondError (Wrap ErrUnauthorized ''no authenticated user'')
     | Some currentUser \<Rightarrow>
        (case env_uuid_Parse E (req_param q ''id'') of
           None \<Rightarrow> RespondError (Wrap ErrValidation ''invalid user id'')
         | Some targetID \<Rightarrow>
            tryM (DeleteFollow (u_ID currentUser) targetID)
              (\<lambda>_. RespondError (Wrap ErrInternal ''delete follow''))
              (\<lambda>_. RespondOK (followObject (u_ID currentUser) targetID False []))))"

text \<open>
  The guard of the two follow lists returns what \<^verbatim>\<open>RespondError\<close> returns: nil once
  the error response has been written.
\<close>

definition assertCanSeeFollowList :: "uuid \<Rightarrow> uuid \<Rightarrow> unit io" where
  "assertCanSeeFollowList viewerID targetID =
    tryM (GetUserByID targetID)
      (\<lambda>err. if errors_Is err ErrNoRows then RespondError (Wrap ErrNotFound ''user not found'')
             else RespondError (Wrap ErrInternal ''load user''))
      (\<lambda>target.
        if \<not> u_IsActive target then RespondError (Wrap ErrNotFound ''user not found'')
        else if targetID = viewerID then ok ()
        else if \<not> u_IsPrivate target then ok ()
        else tryM (IsFollowing viewerID targetID)
          (\<lambda>_. RespondError (Wrap ErrInternal ''load follow state''))
          (\<lambda>following.
            if \<not> following then RespondError (Wrap ErrNotFound ''user not found'') else ok ()))"

definition followListItem :: "FollowRow \<Rightarrow> json" where
  "followListItem r = JObj
     [(''user'', UserSummary (fr_user r)), (''created_at'', JStr (formatVideoTime (fr_CreatedAt r)))]"

definition UserHandler_ListFollowers :: "env \<Rightarrow> request \<Rightarrow> unit io" where
  "UserHandler_ListFollowers E q =
    (if \<not> env_wired E DepQueries then user_not_configured
     else case req_user q of
       None \<Rightarrow> RespondError (Wrap ErrUnauthorized ''no authenticated user'')
     | Some viewer \<Rightarrow>
        (case env_uuid_Parse E (req_param q ''id'') of
           None \<Rightarrow> RespondError (Wrap ErrValidation ''invalid user id'')
         | Some targetID \<Rightarrow>
            tryM (assertCanSeeFollowList (u_ID viewer) targetID) throw (\<lambda>_.
            case page_params E q of
              Inl err \<Rightarrow> RespondError err
            | Inr (limit, cur) \<Rightarrow>
               tryM (ListFollowers (u_ID viewer) targetID cur (nat limit))
                 (\<lambda>_. RespondError (Wrap ErrInternal ''load followers''))
                 (\<lambda>rows. RespondList (map followListItem rows)
                           (response_cursor E follow_key limit rows)))))"

definition UserHandler_ListFollowing :: "env \<Rightarrow> request \<Rightarrow> unit io" where
  "UserHandler_ListFollowing E q =
    (if \<not> env_wired E DepQueries then user_not_configured
     else case req_user q of
       None \<Rightarrow> RespondError (Wrap ErrUnauthorized ''no authenticated user'')
     | Some viewer \<Rightarrow>
        (case env_uuid_Parse E (req_param q ''id'') of
           None \<Rightarrow> RespondError (Wrap ErrValidation ''invalid user id'')
         | Some targetID \<Rightarrow>
            tryM (assertCanSeeFollowList (u_ID viewer) targetID) throw (\<lambda>_.
            case page_params E q of
              Inl err \<Rightarrow> RespondError err
            | Inr (limit, cur) \<Rightarrow>
               tryM (ListFollowing targetID cur (nat limit))
                 (\<lambda>_. RespondError (Wrap ErrInternal ''load following''))
                 (\<lambda>rows. RespondList (map followListItem rows)
                           (response_cursor E follow_key limit rows)))))"

end
