(* ===== verification/Lists.thy ===== *)
theory Lists
  imports Profiles
begin

text \<open>
  The remaining reading endpoints: notifications
  (\<^verbatim>\<open>handlers/notification.go\<close>), the home feed (\<^verbatim>\<open>handlers/feed.go\<close>) and
  search (\<^verbatim>\<open>handlers/search.go\<close>, \<^verbatim>\<open>shared/db/search.sql.go\<close>).
\<close>

section \<open>Notifications\<close>

definition notification_not_configured :: "unit io" where
  "notification_not_configured = RespondError (Wrap ErrInternal ''notification handler not configured'')"

definition notificationObjectFromRow :: "Notification \<Rightarrow> json" where
  "notificationObjectFromRow n = JObj
     [(''id'', JUuid (n_ID n)), (''user_id'', JUuid (n_UserID n)), (''actor_id'', JUuid (n_ActorID n)),
      (''type'', JStr (n_Type n)), (''payload'', n_Payload n), (''is_read'', JBool (n_IsRead n)),
      (''created_at'', JStr (formatVideoTime (n_CreatedAt n)))]"

definition NotificationHandler_List :: "env \<Rightarrow> request \<Rightarrow> unit io" where
  "NotificationHandler_List E q =
    (if \<not> env_wired E DepQueries then notification_not_configured
     else case req_user q of
       None \<Rightarrow> RespondError (Wrap ErrUnauthorized ''no authenticated user'')
     | Some user \<Rightarrow>
        (case page_params E q of
           Inl err \<Rightarrow> RespondError err
         | Inr (limit, cur) \<Rightarrow>
            tryM (ListNotifications (u_ID user) cur (nat limit))
              (\<lambda>_. RespondError (Wrap ErrInternal ''list notifications''))
              (\<lambda>rows. RespondList (map notificationObjectFromRow rows)
                        (response_cursor E notification_key limit rows))))"

definition MarkAllRead :: "env \<Rightarrow> request \<Rightarrow> unit io" where
  "MarkAllRead E q =
    (if \<not> env_wired E DepQueries then notification_not_configured
     else case req_user q of
       None \<Rightarrow> RespondError (Wrap ErrUnauthorized ''no authenticated user'')
     | Some user \<Rightarrow>
        tryM (MarkAllNotificationsRead (u_ID user))
          (\<lambda>_. RespondError (Wrap ErrInternal ''mark notifications read''))
          (\<lambda>updated. RespondOK (JObj [(''updated_count'', JInt updated)])))"

section \<open>The home feed\<close>

definition HomeFeed :: "env \<Rightarrow> request \<Rightarrow> unit io" where
  "HomeFeed E q =
    (if \<not> env_wired E DepQueries \<or> \<not> env_wired E DepR2 \<or> \<not> env_wired E DepConfig
     then RespondError (Wrap ErrInternal ''feed handler not configured'')
     else case req_user q of
       None \<Rightarrow> RespondError (Wrap ErrUnauthorized ''no authenticated user'')
     | Some viewer \<Rightarrow>
        (case page_params E q of
           Inl err \<Rightarrow> RespondError err
         | Inr (limit, cur) \<Rightarrow>
            tryM (ListFeedVideos (u_ID viewer) (Some (u_ID viewer)) cur (nat limit))
              (\<lambda>err. if errors_Is err ErrNoRows then RespondList [] None
                     else RespondError (Wrap ErrInternal ''load feed''))
              (\<lambda>rows. bindM (mapM rows (videoObjectFromFeedRow E)) (\<lambda>items.
                 RespondList items (response_cursor E detail_key limit rows)))))"

section \<open>Search: patterns\<close>

text \<open>The bytes of the first character of a UTF-8 string; an invalid byte counts as one character.\<close>

definition cont_byte :: "nat \<Rightarrow> nat \<Rightarrow> char \<Rightarrow> bool" where
  "cont_byte lo hi c \<longleftrightarrow> lo \<le> byte c \<and> byte c \<le> hi"

definition rune_width :: "string \<Rightarrow> nat" where
  "rune_width s =
    (case s of
       [] \<Rightarrow> 0
     | c # cs \<Rightarrow>
        (let b = byte c;
             (n, lo, hi) = (if 194 \<le> b \<and> b \<le> 223 then (1::nat, 128, 191)
                            else if b = 224 then (2, 160, 191)
                            else if b = 237 then (2, 128, 159)
                            else if 225 \<le> b \<and> b \<le> 239 then (2, 128, 191)
                            else if b = 240 then (3, 144, 191)
                            else if 241 \<le> b \<and> b \<le> 243 then (3, 128, 191)
                            else if b = 244 then (3, 128, 143)
                            else (0, 0, 0));
             tail = take n cs
         in if n > 0 \<and> length tail = n \<and> cont_byte lo hi (hd tail) \<and>
               list_all (cont_byte 128 191) (List.tl tail)
            then Suc n else 1))"

lemma rune_width_pos: "s \<noteq> [] \<Longrightarrow> 0 < rune_width s"
  by (cases s) (auto simp: rune_width_def Let_def)

function RuneCount :: "string \<Rightarrow> nat" where
  "RuneCount s = (if s = [] then 0 else Suc (RuneCount (drop (rune_width s) s)))"
  by pat_completeness auto
termination
  by (relation "measure length") (simp_all add: rune_width_pos)

declare RuneCount.simps [simp del]

text \<open>
  \<^verbatim>\<open>strings.ToLower\<close>, as far as ASCII results go: besides A-Z two characters
  have an ASCII lower case, U+0130 (i) and U+212A (k).
\<close>

fun ToLower :: "string \<Rightarrow> string" where
  "ToLower [] = []"
| "ToLower (c # cs) =
    (if prefix_of [CHR 0xC4, CHR 0xB0] (c # cs) then CHR ''i'' # ToLower (drop 1 cs)
     else if prefix_of [CHR 0xE2, CHR 0x84, CHR 0xAA] (c # cs) then CHR ''k'' # ToLower (drop 2 cs)
     else ascii_lower c # ToLower cs)"


definition escapeSQLWildcards :: "string \<Rightarrow> string" where
  "escapeSQLWildcards s0 =
    (let s1 = replace_char (CHR 0x5C) [CHR 0x5C, CHR 0x5C] s0;
         s2 = replace_char (CHR ''%'') [CHR 0x5C, CHR ''%''] s1
     in replace_char (CHR ''_'') [CHR 0x5C, CHR ''_''] s2)"

text \<open>
  The LIKE pattern language of Postgres, with its default escape character; a
  pattern that ends in the escape character does not match anything (Postgres
  reports it).  ILIKE folds ASCII letters here; folding of other letters depends on
  the locale of the database.
\<close>

function like_match :: "string \<Rightarrow> string \<Rightarrow> bool" where
  "like_match [] s = (s = [])"
| "like_match (x # p) s =
    (if x = CHR ''%'' then like_match p s \<or> (case s of [] \<Rightarrow> False | _ # cs \<Rightarrow> like_match (x # p) cs)
     else if x = CHR ''_'' then s \<noteq> [] \<and> like_match p (drop (rune_width s) s)
     else if x = CHR 0x5C then
       (case p of [] \<Rightarrow> False
        | y # p' \<Rightarrow> (case s of [] \<Rightarrow> False | c # cs \<Rightarrow> c = y \<and> like_match p' cs))
     else (case s of [] \<Rightarrow> False | c # cs \<Rightarrow> c = x \<and> like_match p cs))"
  by pat_completeness auto
termination by (relation "measure (\<lambda>(p, s). length p + length s)") auto

declare like_match.simps(2) [simp del]

definition ilike :: "string \<Rightarrow> string \<Rightarrow> bool" where
  "ilike s p = like_match (map ascii_lower p) (map ascii_lower s)"

definition ilike_opt :: "string option \<Rightarrow> string \<Rightarrow> bool" where
  "ilike_opt s p = (case s of None \<Rightarrow> False | Some t \<Rightarrow> ilike t p)"

definition around :: "string \<Rightarrow> string" where
  "around p = ''%'' @ p @ ''%''"

section \<open>Search: queries\<close>

definition page_offset :: "nat \<Rightarrow> nat \<Rightarrow> 'a list \<Rightarrow> 'a list" where
  "page_offset off n xs = take n (drop off xs)"

definition user_rank :: "db \<Rightarrow> string \<Rightarrow> User \<Rightarrow> bool \<times> nat \<times> int \<times> string" where
  "user_rank d raw u =
     (map ascii_lower (u_Username u) \<noteq> map ascii_lower raw, char_length (u_Username u),
      - int (count_rows (\<lambda>f. f_FolloweeID f = u_ID u) (follows d)), u_Username u)"

definition search_user_rows :: "db \<Rightarrow> uuid \<Rightarrow> string \<Rightarrow> string \<Rightarrow> User list" where
  "search_user_rows d viewer pat raw =
     sort_key (user_rank d raw) (filter (\<lambda>u. u_IsActive u \<and> u_ID u \<noteq> viewer \<and>
       (ilike (u_Username u) (around pat) \<or> ilike_opt (u_DisplayName u) (around pat))) (users d))"

definition SearchUsers :: "uuid \<Rightarrow> string \<Rightarrow> string \<Rightarrow> nat \<Rightarrow> nat \<Rightarrow> User list io" where
  "SearchUsers viewer pat raw off n =
     query (\<lambda>d. Inr (page_offset off n (search_user_rows d viewer pat raw)))"

definition search_video_rows :: "db \<Rightarrow> uuid \<Rightarrow> string \<Rightarrow> VideoDetailRow list" where
  "search_video_rows d viewer pat =
     rev (sort_key (\<lambda>r. (v_ViewsCount (vd_video r), v_CreatedAt (vd_video r), v_ID (vd_video r)))
       (filter (\<lambda>r. v_Status (vd_video r) = READY \<and> v_DeletedAt (vd_video r) = None \<and>
            u_IsActive (vd_owner r) \<and>
            (ilike_opt (v_Title (vd_video r)) (around pat) \<or>
             ilike_opt (v_Description (vd_video r)) (around pat)) \<and>
            (\<not> u_IsPrivate (vd_owner r) \<or> u_ID (vd_owner r) = viewer \<or>
             follows_edge d viewer (u_ID (vd_owner r))))
          (List.map_filter (join_owner d (Some viewer)) (videos d))))"

definition SearchVideos :: "uuid \<Rightarrow> string \<Rightarrow> nat \<Rightarrow> nat \<Rightarrow> VideoDetailRow list io" where
  "SearchVideos viewer pat off n =
     query (\<lambda>d. Inr (page_offset off n (search_video_rows d viewer pat)))"

section \<open>Search: the handler\<close>

definition maxOffset :: int where "maxOffset = 100000"

definition offset_text :: "string \<Rightarrow> string" where
  "offset_text s = (if prefix_of ''offset:'' s then drop 7 s else s)"

definition parseOffsetCursor :: "string \<Rightarrow> goerr + int" where
  "parseOffsetCursor raw =
    (if raw = [] then Inr 0
     else let rawStr = (case b64_decode raw of None \<Rightarrow> raw | Some decoded \<Rightarrow> decoded) in
       case ParseInt64 (offset_text rawStr) of
         None \<Rightarrow> Inl (Opaque ''invalid cursor format'')
       | Some val \<Rightarrow> if val < 0 \<or> val > maxOffset then Inl (Opaque ''invalid cursor format'')
                     else Inr val)"

definition encodeOffsetCursor :: "int \<Rightarrow> string" where
  "encodeOffsetCursor offset = b64_encode (''offset:'' @ FormatInt offset)"

definition field_error :: "string \<Rightarrow> string \<Rightarrow> string \<Rightarrow> goerr" where
  "field_error message field detail =
     WithDetails (NewAPIError CodeValidationError message)
       [\<lparr>fe_Field = field, fe_Message = detail\<rparr>]"

definition next_offset :: "int \<Rightarrow> int \<Rightarrow> 'a list \<Rightarrow> string option" where
  "next_offset offset limit rows =
     (if int (length rows) > limit then Some (encodeOffsetCursor (offset + limit)) else None)"

text \<open>One row more than the page is asked for; it decides whether there is a next page.\<close>

definition search_users_part ::
  "uuid \<Rightarrow> string \<Rightarrow> int \<Rightarrow> int \<Rightarrow> (json list \<times> string option) io"
where
  "search_users_part viewer q offset limit =
    (let page = (\<lambda>rows. ok (map UserSummary (take (nat limit) rows), next_offset offset limit rows)) in
     tryM (SearchUsers viewer (escapeSQLWildcards q) q (nat offset) (nat (limit + 1)))
       (\<lambda>err. if errors_Is err ErrNoRows then page [] else throw (Wrap ErrInternal ''search users failed''))
       page)"

definition search_videos_part ::
  "env \<Rightarrow> uuid \<Rightarrow> string \<Rightarrow> int \<Rightarrow> int \<Rightarrow> (json list \<times> string option) io"
where
  "search_videos_part E viewer q offset limit =
    (let page = (\<lambda>rows. bindM (mapM (take (nat limit) rows) (videoObjectFromSearchRow E viewer))
                   (\<lambda>items. ok (items, next_offset offset limit rows))) in
     tryM (SearchVideos viewer (escapeSQLWildcards q) (nat offset) (nat (limit + 1)))
       (\<lambda>err. if errors_Is err ErrNoRows then page [] else throw (Wrap ErrInternal ''search videos failed''))
       page)"

definition search_envelope ::
  "json list \<times> string option \<Rightarrow> json list \<times> string option \<Rightarrow> json"
where
  "search_envelope us vs = JObj
     [(''data'', JObj [(''users'', JArr (fst us)), (''videos'', JArr (fst vs))]),
      (''pagination'', JObj
         ((case snd us of None \<Rightarrow> [] | Some c \<Rightarrow> [(''users_next_cursor'', JStr c)]) @
          (case snd vs of None \<Rightarrow> [] | Some c \<Rightarrow> [(''videos_next_cursor'', JStr c)])))]"

definition Search :: "env \<Rightarrow> request \<Rightarrow> unit io" where
  "Search E q =
    (if \<not> env_wired E DepQueries \<or> \<not> env_wired E DepR2 \<or> \<not> env_wired E DepConfig
     then RespondError (Wrap ErrInternal ''search handler not configured'')
     else case req_user q of
       None \<Rightarrow> RespondError (Wrap ErrUnauthorized ''no authenticated user'')
     | Some viewer \<Rightarrow>
        (let qs = TrimSpace (req_query q ''q'') in
         if qs = [] then RespondError (field_error ''query must not be empty'' ''q'' ''query must not be empty'')
         else if RuneCount qs > 100
           then RespondError (field_error ''query must not exceed 100 characters'' ''q''
                  ''query must not exceed 100 characters'')
         else let typ0 = ToLower (TrimSpace (req_query q ''type''));
                  searchType = (if typ0 = [] then ''all'' else typ0) in
           if searchType \<notin> {''all'', ''users'', ''videos''}
             then RespondError (field_error ''invalid search type'' ''type''
                    ''type must be one of: all, users, videos'')
           else case parseLimit (req_query q ''limit'') of
             Inl err \<Rightarrow> RespondError (Wrap ErrValidation (Error err))
           | Inr limit \<Rightarrow>
              (case parseOffsetCursor (req_query q ''cursor'') of
                 Inl _ \<Rightarrow> RespondError (Wrap ErrValidation ''invalid cursor'')
               | Inr offset \<Rightarrow>
                  tryM (if searchType \<in> {''all'', ''users''}
                        then search_users_part (u_ID viewer) qs offset limit else ok ([], None))
                    RespondError (\<lambda>us.
                  tryM (if searchType \<in> {''all'', ''videos''}
                        then search_videos_part E (u_ID viewer) qs offset limit else ok ([], None))
                    RespondError (\<lambda>vs.
                  write_response 200 (BodyJSON (search_envelope us vs)))))))"

end
