(* ===== verification/Upload.thy ===== *)
theory Upload
  imports Profiles
begin

text \<open>
  The upload path of \<^verbatim>\<open>handlers/video.go\<close>: the intent (a pending row and a
  presigned URL), the confirmation (the row goes to \<^verbatim>\<open>PROCESSING\<close> and a
  transcode task is enqueued, in one transaction) and the deletion.

  A required pointer field of a request body stands for its target: the validator
  rejects a body in which it is nil.
\<close>

section \<open>Intent\<close>

definition MinUploadBytes :: int where "MinUploadBytes = 1024"
definition MaxUploadBytes :: int where "MaxUploadBytes = 200 * 1024 * 1024"

definition uploadContentType :: string where
  "uploadContentType = ''application/octet-stream''"

definition nullString :: "string \<Rightarrow> string option" where
  "nullString s = (if s = [] then None else Some s)"

definition uploadKey :: "env \<Rightarrow> uuid \<Rightarrow> uuid \<Rightarrow> string" where
  "uploadKey E userID videoID =
     ''uploads/'' @ env_uuid_String E userID @ ''/'' @ env_uuid_String E videoID @ ''/source.mp4''"

record uploadIntentRequest =
  ui_Title :: string
  ui_Description :: "string option"

definition uploadIntentResponse :: "env \<Rightarrow> uuid \<Rightarrow> string \<Rightarrow> string \<Rightarrow> time \<Rightarrow> json" where
  "uploadIntentResponse E videoID r2Key uploadURL expiresAt = JObj
     [(''video_id'', JStr (env_uuid_String E videoID)), (''r2_key'', JStr r2Key),
      (''http_method'', JStr ''PUT''), (''upload_url'', JStr uploadURL),
      (''upload_headers'', JObj [(''Content-Type'', JStr uploadContentType)]),
      (''min_size_bytes'', JInt MinUploadBytes), (''max_size_bytes'', JInt MaxUploadBytes),
      (''expires_at'', JStr (format_time 0 expiresAt))]"

definition upload_expiry :: "env \<Rightarrow> int" where
  "upload_expiry E =
     (if env_PresignUploadExpiry E \<le> 0 then 15 * 60 * 1000000000 else env_PresignUploadExpiry E)"

text \<open>
  The pending row the intent answers for: the video, its key, the key it had before
  (empty for a new row) and whether it was created.
\<close>

record pending_upload =
  pu_VideoID :: uuid
  pu_Key :: string
  pu_OldKey :: string
  pu_Created :: bool

definition create_pending :: "env \<Rightarrow> User \<Rightarrow> string \<Rightarrow> string \<Rightarrow> pending_upload io" where
  "create_pending E user title desc =
    bindM new_uuid (\<lambda>i.
      let r2Key = uploadKey E (u_ID user) i in
      tryM (InsertVideo (u_ID user) r2Key (nullString title) (nullString desc))
        (\<lambda>_. throw (Wrap ErrInternal ''create pending video''))
        (\<lambda>inserted. ok \<lparr>pu_VideoID = v_ID inserted, pu_Key = r2Key, pu_OldKey = [], pu_Created = True\<rparr>))"

definition reuse_pending :: "env \<Rightarrow> User \<Rightarrow> Video \<Rightarrow> string \<Rightarrow> string \<Rightarrow> pending_upload io" where
  "reuse_pending E user existing title desc =
    (let oldKey = v_R2Key existing;
         r2Key = uploadKey E (u_ID user) (v_ID existing);
         changed = (\<lambda>err msg. if errors_Is err ErrNoRows
                     then Wrap ErrVideoStatusConflict ''video state changed concurrently''
                     else Wrap ErrInternal msg) in
     bindM (if oldKey \<noteq> r2Key
            then tryM (UpdatePendingVideoR2Key (v_ID existing) r2Key)
                   (\<lambda>err. throw (changed err ''rotate pending video key'')) (\<lambda>updated. ok (v_ID updated))
            else ok (v_ID existing)) (\<lambda>videoID.
     tryM (UpdatePendingVideoMetadata (v_ID existing) (nullString title) (nullString desc))
       (\<lambda>err. throw (changed err ''update pending video metadata''))
       (\<lambda>_. ok \<lparr>pu_VideoID = videoID, pu_Key = r2Key, pu_OldKey = oldKey, pu_Created = False\<rparr>)))"

definition pending_for :: "env \<Rightarrow> User \<Rightarrow> string \<Rightarrow> string \<Rightarrow> pending_upload io" where
  "pending_for E user title desc =
    tryM (GetPendingVideoByUser (u_ID user))
      (\<lambda>err. if errors_Is err ErrNoRows then create_pending E user title desc
             else throw (Wrap ErrInternal ''load pending video''))
      (\<lambda>existing. reuse_pending E user existing title desc)"

definition UploadIntent :: "env \<Rightarrow> request \<Rightarrow> uploadIntentRequest bound \<Rightarrow> unit io" where
  "UploadIntent E q b = (case req_user q of
      None \<Rightarrow> RespondError (Wrap ErrUnauthorized ''no authenticated user'')
    | Some user \<Rightarrow>
       (case b of
          BindError _ \<Rightarrow> RespondError (Wrap ErrValidation ''invalid JSON body'')
        | Bound body v \<Rightarrow>
           (case Validate v of
              Inl err \<Rightarrow> RespondError err
            | Inr _ \<Rightarrow>
               (let title = TrimSpace (ui_Title body);
                    desc = (case ui_Description body of None \<Rightarrow> [] | Some d \<Rightarrow> TrimSpace d) in
                if title = [] then RespondError (WithDetails
                   (NewAPIError CodeValidationError ''title is required'')
                   [\<lparr>fe_Field = ''title'', fe_Message = ''must be between 1 and 200 characters''\<rparr>])
                else tryM (pending_for E user title desc) RespondError (\<lambda>p.
                  let expiry = upload_expiry E in
                  tryM (PresignPut E (pu_Key p) uploadContentType expiry)
                    (\<lambda>_. RespondError (Wrap ErrInternal ''presign upload url'')) (\<lambda>uploadURL.
                  let cleanup = (if \<not> pu_Created p \<and> pu_OldKey p \<noteq> [] \<and> pu_OldKey p \<noteq> pu_Key p
                                 then EnqueueCleanupObjects [pu_OldKey p] else ok ());
                      respond = bindM now_io (\<lambda>now.
                        let resp = uploadIntentResponse E (pu_VideoID p) (pu_Key p) uploadURL (now + expiry)
                        in if pu_Created p then RespondCreated resp else RespondOK resp)
                  in tryM cleanup (\<lambda>_. respond) (\<lambda>_. respond)))))))"

section \<open>Confirmation\<close>

record confirmRequest =
  cf_VideoID :: string
  cf_R2Key :: string

definition confirm_tx :: "env \<Rightarrow> User \<Rightarrow> uuid \<Rightarrow> string \<Rightarrow> Video io" where
  "confirm_tx E user videoID bodyR2Key =
    tryM (GetVideoByIDForUpdate videoID)
      (\<lambda>err. if errors_Is err ErrNoRows then throw (Wrap ErrNotFound ''video not found'')
             else throw (Wrap ErrInternal ''load video''))
      (\<lambda>video.
        if v_UserID video \<noteq> u_ID user then throw (Wrap ErrNotFound ''video not found'')
        else if v_Status video \<noteq> PENDING_UPLOAD
          then throw (Wrap ErrVideoStatusConflict ''video is not in a confirmable state'')
        else if v_R2Key video \<noteq> bodyR2Key
          then throw (WithDetails (NewAPIError CodeValidationError ''r2_key does not match video'')
                 [\<lparr>fe_Field = ''r2_key'', fe_Message = ''does not match the key on file''\<rparr>])
        else tryM (HeadObject E (v_R2Key video))
          (\<lambda>herr. if errors_Is herr ErrNotFound
                  then throw (Wrap ErrUploadMissing ''uploaded object not found in storage'')
                  else throw (Wrap ErrInternal ''inspect uploaded object''))
          (\<lambda>size.
            if size < MinUploadBytes \<or> size > MaxUploadBytes then
              (let e = WithDetails
                     (NewAPIError CodeUploadSizeInvalid
                        (''uploaded object size '' @ FormatInt size @ '' is outside the allowed range''))
                     [\<lparr>fe_Field = ''r2_key'', fe_Message = ''size must be between '' @
                        FormatInt MinUploadBytes @ '' and '' @ FormatInt MaxUploadBytes @ '' bytes''\<rparr>]
               in tryM (EnqueueCleanupObjects [v_R2Key video]) (\<lambda>_. throw e) (\<lambda>_. throw e))
            else tryM (ConfirmVideoProcessing (v_ID video) (v_UserID video) (v_R2Key video))
              (\<lambda>cerr. if errors_Is cerr ErrNoRows
                      then throw (Wrap ErrVideoStatusConflict ''video state changed concurrently'')
                      else throw (Wrap ErrInternal ''confirm video''))
              (\<lambda>confirmed.
                tryM (EnqueueTranscode (env_uuid_String E (v_ID confirmed)))
                  (\<lambda>_. throw (Wrap ErrInternal ''enqueue transcode''))
                  (\<lambda>_. ok confirmed))))"

definition confirmResponse :: "env \<Rightarrow> Video \<Rightarrow> json" where
  "confirmResponse E v = JObj
     [(''video_id'', JStr (env_uuid_String E (v_ID v))), (''status'', JStr (status_text (v_Status v))),
      (''retry_count'', JInt (v_RetryCount v))]"

definition ConfirmUpload :: "env \<Rightarrow> request \<Rightarrow> confirmRequest bound \<Rightarrow> unit io" where
  "ConfirmUpload E q b = (case req_user q of
      None \<Rightarrow> RespondError (Wrap ErrUnauthorized ''no authenticated user'')
    | Some user \<Rightarrow>
       (case b of
          BindError _ \<Rightarrow> RespondError (Wrap ErrValidation ''invalid JSON body'')
        | Bound body v \<Rightarrow>
           (case Validate v of
              Inl err \<Rightarrow> RespondError err
            | Inr _ \<Rightarrow>
               (case env_uuid_Parse E (cf_VideoID body) of
                  None \<Rightarrow> RespondError (WithDetails
                     (NewAPIError CodeValidationError ''invalid video_id'')
                     [\<lparr>fe_Field = ''video_id'', fe_Message = ''must be a valid UUID''\<rparr>])
                | Some videoID \<Rightarrow>
                   tryM (runTx (confirm_tx E user videoID (TrimSpace (cf_R2Key body)))) RespondError
                     (\<lambda>confirmed. RespondOK (confirmResponse E confirmed))))))"

section \<open>Deletion\<close>

definition cleanup_delay :: int where
  "cleanup_delay = 24 * 3600 * 1000000000"

definition video_not_configured :: "unit io" where
  "video_not_configured = RespondError (Wrap ErrInternal ''video handler not configured'')"

definition DeleteVideo :: "env \<Rightarrow> request \<Rightarrow> unit io" where
  "DeleteVideo E q =
    (if \<not> env_wired E DepQueries \<or> \<not> env_wired E DepQueue then video_not_configured
     else case parseAuthVideoParam E q of
       Inl err \<Rightarrow> RespondError err
     | Inr (user, videoID) \<Rightarrow>
        tryM (GetVideoByID videoID)
          (\<lambda>err. if errors_Is err ErrNoRows then RespondError (Wrap ErrNotFound ''video not found'')
                 else RespondError (Wrap ErrInternal ''load video''))
          (\<lambda>video.
            if v_UserID video \<noteq> u_ID user then RespondError (Wrap ErrNotFound ''video not found'')
            else if v_Status video = DELETED then write_response 204 NoBody
            else tryM (MarkVideoDeleted videoID (u_ID user))
              (\<lambda>err. if errors_Is err ErrNoRows then write_response 204 NoBody
                     else RespondError (Wrap ErrInternal ''mark video deleted''))
              (\<lambda>updated.
                tryM (EnqueueCleanupVideo (env_uuid_String E (v_ID updated)) cleanup_delay)
                  (\<lambda>_. write_response 204 NoBody) (\<lambda>_. write_response 204 NoBody))))"

end
