(* ===== verification/Playback.thy ===== *)
theory Playback
  imports Upload
begin

text \<open>
  The playback side of \<^verbatim>\<open>handlers/video_detail.go\<close>: the detail and status of a
  video, and the playlist endpoint with its two rewriters.  A playlist is read line
  by line as \<^verbatim>\<open>bufio.Scanner\<close> does.
\<close>

section \<open>Detail and status\<close>

definition VideoHandler_GetVideoDetail :: "env \<Rightarrow> request \<Rightarrow> unit io" where
  "VideoHandler_GetVideoDetail E q =
    (if \<not> env_wired E DepQueries \<or> \<not> env_wired E DepR2 \<or> \<not> env_wired E DepConfig
     then video_not_configured
     else case env_uuid_Parse E (req_param q ''id'') of
       None \<Rightarrow> RespondError (Wrap ErrValidation ''invalid video id'')
     | Some videoID \<Rightarrow>
        (let viewerID = (case req_user q of None \<Rightarrow> uuid_Nil | Some viewer \<Rightarrow> u_ID viewer);
             not_found = RespondError (Wrap ErrNotFound ''video not found'') in
         tryM (GetVideoDetail videoID (if viewerID \<noteq> uuid_Nil then Some viewerID else None))
           (\<lambda>err. if errors_Is err ErrNoRows then not_found
                  else RespondError (Wrap ErrInternal ''load video detail''))
           (\<lambda>row.
             let ownerID = v_UserID (vd_video row);
                 isOwner = (viewerID = ownerID);
                 show_it = bindM (videoObjectFromDetail E row isOwner) RespondOK in
             if isOwner then show_it
             else tryM (GetUserByID ownerID)
               (\<lambda>uerr. if errors_Is uerr ErrNoRows then not_found
                       else RespondError (Wrap ErrInternal ''load owner''))
               (\<lambda>owner.
                 if \<not> u_IsActive owner then not_found
                 else if v_Status (vd_video row) \<noteq> READY then not_found
                 else if u_IsPrivate (vd_owner row) \<and> viewerID \<noteq> uuid_Nil then
                   tryM (IsFollowing viewerID ownerID)
                     (\<lambda>_. RespondError (Wrap ErrInternal ''load follow state''))
                     (\<lambda>following. if \<not> following then not_found else show_it)
                 else show_it))))"

definition videoStatusResponse :: "env \<Rightarrow> Video \<Rightarrow> json" where
  "videoStatusResponse E v = JObj
     [(''id'', JStr (env_uuid_String E (v_ID v))), (''status'', JStr (status_text (v_Status v))),
      (''retry_count'', JInt (v_RetryCount v)),
      (''duration_seconds'', json_int_opt (v_DurationSeconds v))]"

definition GetVideoStatus :: "env \<Rightarrow> request \<Rightarrow> unit io" where
  "GetVideoStatus E q =
    (if \<not> env_wired E DepQueries then video_not_configured
     else case req_user q of
       None \<Rightarrow> RespondError (Wrap ErrUnauthorized ''no authenticated user'')
     | Some viewer \<Rightarrow>
        (case env_uuid_Parse E (req_param q ''id'') of
           None \<Rightarrow> RespondError (Wrap ErrValidation ''invalid video id'')
         | Some videoID \<Rightarrow>
            tryM (GetVideoByID videoID)
              (\<lambda>err. if errors_Is err ErrNoRows then RespondError (Wrap ErrNotFound ''video not found'')
                     else RespondError (Wrap ErrInternal ''load video status''))
              (\<lambda>row. if v_UserID row \<noteq> u_ID viewer
                     then RespondError (Wrap ErrNotFound ''video not found'')
                     else RespondOK (videoStatusResponse E row))))"

section \<open>Reading a playlist\<close>

definition newline :: char where "newline = CHR 0x0A"

definition drop_CR :: "string \<Rightarrow> string" where
  "drop_CR l = (if l \<noteq> [] \<and> last l = CHR 0x0D then butlast l else l)"

text \<open>The lines with their terminators cut off; a last line that is empty is none.\<close>

definition raw_lines :: "string \<Rightarrow> string list" where
  "raw_lines body =
     (let ls = split_on newline body in if last ls = [] then butlast ls else ls)"

text \<open>The scanner's buffer: a line of this many bytes does not fit.\<close>

definition scan_limit :: nat where "scan_limit = 1048576"

definition unlines :: "string list \<Rightarrow> string" where
  "unlines ls = concat (map (\<lambda>l. l @ [newline]) ls)"

definition plain_line :: "string \<Rightarrow> bool" where
  "plain_line trimmed \<longleftrightarrow>
     trimmed = [] \<or> prefix_of ''#'' trimmed \<or> prefix_of ''http://'' trimmed \<or>
     prefix_of ''https://'' trimmed"

text \<open>The variant of a URI line: its last but one path segment.\<close>

definition line_variant :: "string \<Rightarrow> string" where
  "line_variant trimmed =
     (let parts = split_on (CHR ''/'') (TrimSuffix trimmed ''/'')
      in if length parts \<ge> 2 then parts ! (length parts - 2) else [])"

definition variant_url :: "env \<Rightarrow> string \<Rightarrow> uuid \<Rightarrow> string \<Rightarrow> string \<Rightarrow> string" where
  "variant_url E apiBaseURL videoID variant token =
     apiBaseURL @ ''/api/videos/'' @ env_uuid_String E videoID @ ''/playlist.m3u8?variant='' @
     variant @ ''&token='' @ token"

definition master_line :: "env \<Rightarrow> string \<Rightarrow> uuid \<Rightarrow> string \<Rightarrow> string \<Rightarrow> string" where
  "master_line E apiBaseURL videoID token line =
     (let trimmed = TrimSpace line; variant = line_variant trimmed
      in if plain_line trimmed \<or> variant = [] then line
         else variant_url E apiBaseURL videoID variant token)"

definition RewriteMasterPlaylist ::
  "env \<Rightarrow> string \<Rightarrow> string \<Rightarrow> uuid \<Rightarrow> string \<Rightarrow> int \<Rightarrow> time \<Rightarrow> goerr + string"
where
  "RewriteMasterPlaylist E body apiBaseURL videoID secret ttl now =
    (if apiBaseURL = [] \<or> secret = []
     then Inl (Opaque ''rewriteMasterPlaylist: apiBaseURL or secret empty'')
     else case NewMediaToken E (env_uuid_String E videoID) secret ttl now of
       Inl err \<Rightarrow> Inl (Errorf_tail ''rewriteMasterPlaylist: sign token'' err)
     | Inr (token, _) \<Rightarrow>
        if list_ex (\<lambda>l. length l \<ge> scan_limit) (raw_lines body)
        then Inl (Opaque ''rewriteMasterPlaylist: scan: bufio.Scanner: token too long'')
        else Inr (unlines (map (\<lambda>l. master_line E apiBaseURL videoID token (drop_CR l)) (raw_lines body))))"

fun variant_lines :: "env \<Rightarrow> string \<Rightarrow> int \<Rightarrow> string list \<Rightarrow> string list io" where
  "variant_lines E base ttl [] = ok []"
| "variant_lines E base ttl (l # ls) =
    (if length l \<ge> scan_limit
     then throw (Opaque ''rewriteVariantPlaylist: scan: bufio.Scanner: token too long'')
     else let line = drop_CR l; trimmed = TrimSpace line; key = base @ trimmed in
       bindM (if plain_line trimmed then ok line
              else tryM (PresignGet E key ttl)
                (\<lambda>err. throw (Errorf_tail (''rewriteVariantPlaylist: presign '' @ key) err)) ok)
         (\<lambda>out. bindM (variant_lines E base ttl ls) (\<lambda>outs. ok (out # outs))))"

definition RewriteVariantPlaylist ::
  "env \<Rightarrow> string \<Rightarrow> string \<Rightarrow> string \<Rightarrow> int \<Rightarrow> string io"
where
  "RewriteVariantPlaylist E body hlsPrefix variant ttl =
    (if \<not> env_wired E DepR2 then throw (Opaque ''RewriteVariantPlaylist: r2 client is nil'')
     else if \<not> suffix_of ''/'' hlsPrefix \<and> \<not> prefix_of ''hls/'' hlsPrefix
       then throw (Opaque (''rewriteVariantPlaylist: hls_prefix '' @ Quote hlsPrefix @
              '' is not a canonical hls key prefix''))
     else bindM (variant_lines E (hlsPrefix @ ''/'' @ variant @ ''/'') ttl (raw_lines body))
       (\<lambda>out. ok (unlines out)))"

section \<open>The playlist endpoint\<close>

definition hlsVariantCap :: int where "hlsVariantCap = 256 * 1024"
definition hlsMaxVariant :: string where "hlsMaxVariant = ''720p''"
definition allowedVariants :: "string list" where "allowedVariants = [''480p'', ''720p'']"

definition hls_content_type :: string where
  "hls_content_type = ''application/vnd.apple.mpegurl''"

definition serveMasterPlaylist :: "env \<Rightarrow> string \<Rightarrow> uuid \<Rightarrow> unit io" where
  "serveMasterPlaylist E hlsPrefix videoID =
    tryM (GetObject E (hlsPrefix @ ''/master.m3u8'') hlsVariantCap)
      (\<lambda>err. if errors_Is err ErrNotFound then RespondError (Wrap ErrNotFound ''playlist not found'')
             else RespondError (Wrap ErrInternal ''load master playlist''))
      (\<lambda>body. bindM now_io (\<lambda>now.
        case RewriteMasterPlaylist E body (env_APIBaseURL E) videoID (env_MediaTokenSecret E)
               (presignTTL E) now of
          Inl _ \<Rightarrow> RespondError (Wrap ErrInternal ''rewrite master playlist'')
        | Inr rewritten \<Rightarrow> write_response 200 (BodyBytes hls_content_type rewritten)))"

definition serveVariantPlaylist :: "env \<Rightarrow> string \<Rightarrow> string \<Rightarrow> unit io" where
  "serveVariantPlaylist E hlsPrefix variant =
    tryM (GetObject E (hlsPrefix @ ''/'' @ variant @ ''/index.m3u8'') hlsVariantCap)
      (\<lambda>err. if errors_Is err ErrNotFound
             then RespondError (Wrap ErrNotFound ''variant playlist not found'')
             else RespondError (Wrap ErrInternal ''load variant playlist''))
      (\<lambda>body. tryM (RewriteVariantPlaylist E body hlsPrefix variant (presignTTL E))
        (\<lambda>_. RespondError (Wrap ErrInternal ''rewrite variant playlist''))
        (\<lambda>rewritten. write_response 200 (BodyBytes hls_content_type rewritten)))"

definition variant_error :: "string \<Rightarrow> unit io" where
  "variant_error detail = RespondError (WithDetails
     (NewAPIError CodeValidationError ''unsupported variant'')
     [\<lparr>fe_Field = ''variant'', fe_Message = detail\<rparr>])"

definition choose_playlist :: "env \<Rightarrow> request \<Rightarrow> string \<Rightarrow> uuid \<Rightarrow> unit io" where
  "choose_playlist E q hlsPrefix videoID =
    (let variant = TrimSpace (req_query q ''variant'') in
     if variant = [] then serveMasterPlaylist E hlsPrefix videoID
     else if variant \<notin> set allowedVariants then variant_error ''must be one of 480p, 720p''
     else if variant > hlsMaxVariant then variant_error (''must be at most '' @ hlsMaxVariant)
     else serveVariantPlaylist E hlsPrefix variant)"

text \<open>Without a user the token decides; the visibility rule applies to the other path only.\<close>

definition playlist_authorized :: "env \<Rightarrow> request \<Rightarrow> uuid \<Rightarrow> unit io" where
  "playlist_authorized E q videoID = (case req_user q of
      Some _ \<Rightarrow> ok ()
    | None \<Rightarrow>
       (let rawToken = req_query q ''token'' in
        if rawToken = [] then throw (Wrap ErrUnauthorized ''missing token'')
        else bindM now_io (\<lambda>now.
          case VerifyMediaToken E rawToken (env_uuid_String E videoID) (env_MediaTokenSecret E) now of
            Inl _ \<Rightarrow> throw (Wrap ErrUnauthorized ''invalid media token'')
          | Inr _ \<Rightarrow> ok ())))"

definition GetPlaylist :: "env \<Rightarrow> request \<Rightarrow> unit io" where
  "GetPlaylist E q =
    (if \<not> env_wired E DepQueries \<or> \<not> env_wired E DepR2 \<or> \<not> env_wired E DepConfig
     then video_not_configured
     else case env_uuid_Parse E (req_param q ''id'') of
       None \<Rightarrow> RespondError (Wrap ErrValidation ''invalid video id'')
     | Some videoID \<Rightarrow>
        tryM (playlist_authorized E q videoID) RespondError (\<lambda>_.
        tryM (GetVideoByID videoID)
          (\<lambda>err. if errors_Is err ErrNoRows then RespondError (Wrap ErrNotFound ''video not found'')
                 else RespondError (Wrap ErrInternal ''load video''))
          (\<lambda>row.
            if v_Status row \<noteq> READY then RespondError (Wrap ErrNotFound ''video not ready'')
            else case v_HlsPrefix row of
              None \<Rightarrow> RespondError (Wrap ErrNotFound ''video not ready'')
            | Some hlsPrefix \<Rightarrow>
               if hlsPrefix = [] then RespondError (Wrap ErrNotFound ''video not ready'')
               else (case req_user q of
                   None \<Rightarrow> choose_playlist E q hlsPrefix videoID
                 | Some viewer \<Rightarrow>
                    tryM (assertVideoReadyVisible (v_UserID row) (u_ID viewer)) RespondError
                      (\<lambda>_. choose_playlist E q hlsPrefix videoID)))))"

end
