(* ===== verification/Middleware.thy ===== *)
theory Middleware
  imports Lists Playback
begin

text \<open>
  What runs before the handlers: the bearer-token middleware
  (\<^verbatim>\<open>middleware/auth.go\<close>), the rate limiters
  (\<^verbatim>\<open>middleware/ratelimit.go\<close>), and the identity provider's webhook
  (\<^verbatim>\<open>handlers/webhook.go\<close>).  A middleware takes the next handler, a function of
  the request, as an argument; the echo context's user is the request's
  \<^verbatim>\<open>req_user\<close>.
\<close>

section \<open>Authentication\<close>

definition bearer_prefix :: string where "bearer_prefix = ''Bearer ''"

definition extractBearer :: "request \<Rightarrow> goerr + string" where
  "extractBearer q =
    (let h = req_header q ''Authorization'' in
     if h = [] then Inl (Opaque ''missing Authorization header'')
     else if length h \<le> length bearer_prefix \<or> \<not> prefix_of bearer_prefix h
       then Inl (Opaque ''malformed Authorization header'')
     else let token = drop (length bearer_prefix) h in
       if token = [] then Inl (Opaque ''empty bearer token'') else Inr token)"

text \<open>Six random bytes, drawn from the same supply as the UUIDs.\<close>

definition random_bytes :: "nat \<Rightarrow> uuid \<Rightarrow> string" where
  "random_bytes n i = map (\<lambda>k. of_byte (unat (drop_bit (8 * k) i) mod 256)) (rev [0 ..< n])"

definition newUsername :: "string io" where
  "newUsername = tryM fault (\<lambda>err. throw (Errorf_tail ''rand.Read'' err))
     (\<lambda>_. bindM new_uuid (\<lambda>i. ok (''user_'' @ hex_encode (random_bytes 6 i))))"

definition getOrCreateUser :: "string \<Rightarrow> User io" where
  "getOrCreateUser sub =
    tryM (GetUserByZitadelID sub)
      (\<lambda>err. if \<not> errors_Is err ErrNoRows then throw (Errorf_tail ''get user by zitadel id'' err)
        else tryM newUsername (\<lambda>err. throw (Errorf_tail ''generate username'' err)) (\<lambda>username.
          tryM (CreateUser sub username (Some username))
            (\<lambda>err. if \<not> errors_Is err ErrNoRows then throw (Errorf_tail ''create user'' err)
              else tryM (GetUserByZitadelID sub)
                (\<lambda>err. throw (Errorf_tail ''re-select user after race'' err)) ok)
            ok))
      ok"

definition CheckToken :: "env \<Rightarrow> string \<Rightarrow> string io" where
  "CheckToken E rawToken = bindM fault (\<lambda>_. liftR (env_CheckToken E rawToken))"

text \<open>
  The error return of the Go function is that of \<^verbatim>\<open>RespondError\<close>: nil once the
  error response is written.  The value is the request as the next handler sees it:
  with a user only if one was resolved.
\<close>

definition resolveUser :: "env \<Rightarrow> request \<Rightarrow> request io" where
  "resolveUser E q =
    (let reject = (\<lambda>e. bindM (RespondError e) (\<lambda>_. ok q)) in
     case extractBearer q of
       Inl err \<Rightarrow> reject (Wrap ErrUnauthorized (Error err))
     | Inr rawToken \<Rightarrow>
        tryM (CheckToken E rawToken) (\<lambda>_. reject (Wrap ErrUnauthorized ''invalid access token'')) (\<lambda>sub.
          if sub = [] then reject (Wrap ErrUnauthorized ''invalid access token'')
          else tryM (getOrCreateUser sub) (\<lambda>_. reject (Wrap ErrInternal ''resolve user'')) (\<lambda>user.
            if \<not> u_IsActive user then reject (Wrap ErrUnauthorized ''user is inactive'')
            else ok (q\<lparr>req_user := Some user\<rparr>))))"

definition Authenticate :: "env \<Rightarrow> (request \<Rightarrow> unit io) \<Rightarrow> request \<Rightarrow> unit io" where
  "Authenticate E next_handler q = tryM (resolveUser E q) throw next_handler"

definition AuthenticateOptional :: "env \<Rightarrow> (request \<Rightarrow> unit io) \<Rightarrow> request \<Rightarrow> unit io" where
  "AuthenticateOptional E next_handler q =
    (if req_header q ''Authorization'' = [] then next_handler q
     else tryM (resolveUser E q) throw next_handler)"

section \<open>Rate limiting\<close>

text \<open>Rates are in thousandths of an event per second.\<close>

record RateLimitConfig =
  rc_Rate :: int
  rc_Burst :: int
  rc_TTL :: int
  rc_SweepInterval :: int

definition RateLimitConfig_validate :: "RateLimitConfig \<Rightarrow> goerr + unit" where
  "RateLimitConfig_validate c =
    (if rc_Rate c \<le> 0 then Inl (Opaque ''rate must be > 0'')
     else if rc_Burst c \<le> 0 then Inl (Opaque ''burst must be > 0'')
     else if rc_TTL c \<le> 0 then Inl (Opaque ''ttl must be > 0'')
     else if rc_SweepInterval c \<le> 0 then Inl (Opaque ''sweep interval must be > 0'')
     else Inr ())"

definition set_entry ::
  "limiter_id \<Rightarrow> string \<Rightarrow> rateLimiterEntry option \<Rightarrow> world \<Rightarrow> world"
where
  "set_entry l identity e w =
     w\<lparr>w_limits := (w_limits w)(l := (w_limits w l)(identity := e))\<rparr>"

definition allow :: "env \<Rightarrow> limiter_id \<Rightarrow> string \<Rightarrow> bool io" where
  "allow E l identity = (\<lambda>w.
     let now = w_clock w;
         asked = (case w_limits w l identity of None \<Rightarrow> [] | Some e \<Rightarrow> rl_asked e)
     in (Inr (env_AllowN E l asked now),
         set_entry l identity (Some \<lparr>rl_asked = asked @ [now], rl_lastSeen = now\<rparr>) w))"

definition sweep :: "limiter_id \<Rightarrow> int \<Rightarrow> unit io" where
  "sweep l ttl = (\<lambda>w. (Inr (), w\<lparr>w_limits := (w_limits w)(l := (\<lambda>identity.
     case w_limits w l identity of
       None \<Rightarrow> None
     | Some e \<Rightarrow> if w_clock w - rl_lastSeen e > ttl then None else Some e))\<rparr>))"

definition RateLimitAuth :: "env \<Rightarrow> (request \<Rightarrow> unit io) \<Rightarrow> request \<Rightarrow> unit io" where
  "RateLimitAuth E next_handler q =
    (let userID = (case req_user q of None \<Rightarrow> uuid_Nil | Some u \<Rightarrow> u_ID u) in
     if userID = uuid_Nil
     then RespondError (Wrap ErrUnauthorized ''rate limit requires authenticated user'')
     else bindM (allow E AuthLimiter (env_uuid_String E userID)) (\<lambda>allowed.
       if \<not> allowed then RespondError (Wrap ErrRateLimited ''per-user rate limit exceeded'')
       else next_handler q))"

definition RateLimitWebhook :: "env \<Rightarrow> (request \<Rightarrow> unit io) \<Rightarrow> request \<Rightarrow> unit io" where
  "RateLimitWebhook E next_handler q =
    (let ip = req_RealIP q in
     if ip = [] then RespondError (Wrap ErrUnauthorized ''rate limit requires source IP'')
     else bindM (allow E WebhookLimiter ip) (\<lambda>allowed.
       if \<not> allowed then RespondError (Wrap ErrRateLimited ''per-IP rate limit exceeded'')
       else next_handler q))"

section \<open>The webhook\<close>

text \<open>The fields of the event the handler reads; a body that is not JSON is \<^verbatim>\<open>None\<close>.\<close>

record zitadelActionV2Event =
  ev_AggregateID :: string
  ev_EventType :: string
  ev_UserID :: string

definition EventUserDeactivated :: string where "EventUserDeactivated = ''user.deactivated''"
definition EventUserRemoved :: string where "EventUserRemoved = ''user.removed''"

definition processed :: "unit io" where
  "processed = RespondOK (JObj [(''status'', JStr ''processed'')])"

definition lookupUserIDByZitadelID :: "string \<Rightarrow> uuid io" where
  "lookupUserIDByZitadelID sub =
    tryM (GetUserByZitadelID sub)
      (\<lambda>err. if errors_Is err ErrNoRows then throw (Sentinel ErrUserNotFound)
             else throw (Errorf_tail ''GetUserByZitadelID'' err))
      (\<lambda>row. ok (u_ID row))"

definition handleUserRemoved :: "env \<Rightarrow> string \<Rightarrow> unit io" where
  "handleUserRemoved E zitadelSub =
    (if \<not> env_wired E DepDelete
     then RespondError (Wrap ErrInternal ''webhook missing delete-cascade wiring for user.removed'')
     else tryM (lookupUserIDByZitadelID zitadelSub)
       (\<lambda>err. if errors_Is err ErrUserNotFound then processed
              else RespondError (Wrap ErrInternal ''lookup user''))
       (\<lambda>userID. tryM (DeleteUserData E userID) RespondError (\<lambda>_. processed)))"

definition handleUserDeactivated :: "string \<Rightarrow> unit io" where
  "handleUserDeactivated zitadelSub =
    tryM (lookupUserIDByZitadelID zitadelSub)
      (\<lambda>err. if errors_Is err ErrUserNotFound then processed
             else RespondError (Wrap ErrInternal ''lookup user''))
      (\<lambda>userID. tryM (DeactivateUser userID)
        (\<lambda>_. RespondError (Wrap ErrInternal ''deactivate user'')) (\<lambda>_. processed))"

definition WebhookHandler_Handle ::
  "env \<Rightarrow> string \<Rightarrow> zitadelActionV2Event option \<Rightarrow> request \<Rightarrow> unit io"
where
  "WebhookHandler_Handle E rawBody decoded q =
    (if env_WebhookSigningKey E = []
     then RespondError (Wrap ErrInternal ''webhook signing key not configured'')
     else if \<not> env_wired E DepQueries
       then RespondError (Wrap ErrInternal ''webhook queries not configured'')
     else tryM fault (\<lambda>_. RespondError (Wrap ErrValidation ''read request body'')) (\<lambda>_.
       case env_ValidateRequestPayload E rawBody (req_header q) (env_WebhookSigningKey E) of
         Some _ \<Rightarrow> RespondError (Wrap ErrWebhookSignature ''signature verification failed'')
       | None \<Rightarrow>
          (case decoded of
             None \<Rightarrow> RespondError (Wrap ErrValidation ''invalid JSON body'')
           | Some evt \<Rightarrow>
              if ev_EventType evt = []
              then RespondError (Wrap ErrValidation ''missing event_type'')
              else let targetUser = (if ev_AggregateID evt = [] then ev_UserID evt else ev_AggregateID evt) in
                if targetUser = []
                then RespondError (Wrap ErrValidation ''missing aggregateID/userID'')
                else if ev_EventType evt = EventUserDeactivated then handleUserDeactivated targetUser
                else if ev_EventType evt = EventUserRemoved then handleUserRemoved E targetUser
                else RespondError (Wrap ErrWebhookEvent
                       (''event_type '' @ Quote (ev_EventType evt) @ '' is not supported'')))))"

end
