(* ===== verification/Router.thy ===== *)
theory Router
  imports Middleware
begin

text \<open>
  The HTTP surface, \<^verbatim>\<open>api-gateway/routes.go\<close>: one constructor per route, the
  handler it names and the middleware in front of it.  The decoded body of a request
  is an argument of the route.  \<^verbatim>\<open>serve\<close> is one request from beginning to end:
  a new context has no user, and the central error handler takes an error the chain
  returns.
\<close>

datatype route =
    HealthRoute
  | WebhookRoute string "zitadelActionV2Event option"
  | GetMeRoute | UpdateMeRoute "updateMeRequest bound" | GetUserRoute | UserVideosRoute
  | FollowRoute | UnfollowRoute | FollowersRoute | FollowingRoute
  | UploadIntentRoute "uploadIntentRequest bound" | ConfirmRoute "confirmRequest bound"
  | FeedRoute | SearchRoute | VideoDetailRoute | VideoStatusRoute | PlaylistRoute | DeleteVideoRoute
  | LikeRoute | UnlikeRoute | ViewRoute
  | CreateCommentRoute "commentRequestBody bound" | ListCommentsRoute | DeleteCommentRoute
  | ReplyRoute "commentRequestBody bound"
  | NotificationsRoute | ReadAllRoute | DeleteMeRoute

fun route_handler :: "env \<Rightarrow> route \<Rightarrow> request \<Rightarrow> unit io" where
  "route_handler E HealthRoute q = HealthHandler"
| "route_handler E (WebhookRoute raw evt) q = WebhookHandler_Handle E raw evt q"
| "route_handler E GetMeRoute q = GetMe q"
| "route_handler E (UpdateMeRoute b) q = UpdateMe q b"
| "route_handler E GetUserRoute q = GetUserProfile E q"
| "route_handler E UserVideosRoute q = GetUserVideos E q"
| "route_handler E FollowRoute q = UserHandler_FollowUser E q"
| "route_handler E UnfollowRoute q = UnfollowUser E q"
| "route_handler E FollowersRoute q = UserHandler_ListFollowers E q"
| "route_handler E FollowingRoute q = UserHandler_ListFollowing E q"
| "route_handler E (UploadIntentRoute b) q = UploadIntent E q b"
| "route_handler E (ConfirmRoute b) q = ConfirmUpload E q b"
| "route_handler E FeedRoute q = HomeFeed E q"
| "route_handler E SearchRoute q = Search E q"
| "route_handler E VideoDetailRoute q = VideoHandler_GetVideoDetail E q"
| "route_handler E VideoStatusRoute q = GetVideoStatus E q"
| "route_handler E PlaylistRoute q = GetPlaylist E q"
| "route_handler E DeleteVideoRoute q = DeleteVideo E q"
| "route_handler E LikeRoute q = LikeVideo E q"
| "route_handler E UnlikeRoute q = UnlikeVideo E q"
| "route_handler E ViewRoute q = TrackView E q"
| "route_handler E (CreateCommentRoute b) q = CreateComment E q b"
| "route_handler E ListCommentsRoute q = ListComments E q"
| "route_handler E DeleteCommentRoute q = DeleteComment E q"
| "route_handler E (ReplyRoute b) q = ReplyComment E q b"
| "route_handler E NotificationsRoute q = NotificationHandler_List E q"
| "route_handler E ReadAllRoute q = MarkAllRead E q"
| "route_handler E DeleteMeRoute q = DeleteMe E q"

text \<open>The configurations of the two limiters; an invalid one would stop the process at startup.\<close>

definition minute :: int where "minute = 60 * 1000000000"

definition webhookLimit :: RateLimitConfig where
  "webhookLimit = \<lparr>rc_Rate = 500, rc_Burst = 30, rc_TTL = 10 * minute, rc_SweepInterval = 5 * minute\<rparr>"

definition authLimit :: RateLimitConfig where
  "authLimit = \<lparr>rc_Rate = 1000, rc_Burst = 60, rc_TTL = 10 * minute, rc_SweepInterval = 5 * minute\<rparr>"

fun grouped :: "route \<Rightarrow> bool" where
  "grouped HealthRoute = False"
| "grouped (WebhookRoute _ _) = False"
| "grouped PlaylistRoute = False"
| "grouped _ = True"

definition NewRouter :: "env \<Rightarrow> route \<Rightarrow> request \<Rightarrow> unit io" where
  "NewRouter E r q =
    (case r of
       HealthRoute \<Rightarrow> route_handler E r q
     | WebhookRoute _ _ \<Rightarrow> RateLimitWebhook E (route_handler E r) q
     | PlaylistRoute \<Rightarrow> AuthenticateOptional E (RateLimitWebhook E (route_handler E r)) q
     | _ \<Rightarrow> Authenticate E (RateLimitAuth E (route_handler E r)) q)"

definition serve :: "env \<Rightarrow> route \<Rightarrow> request \<Rightarrow> unit io" where
  "serve E r q = tryM (NewRouter E r (q\<lparr>req_user := None\<rparr>))
     (\<lambda>err. HTTPErrorHandler (Some err)) ok"

lemma NewRouter_grouped:
  "grouped r \<Longrightarrow> NewRouter E r q = Authenticate E (RateLimitAuth E (route_handler E r)) q"
  by (cases r) (simp_all add: NewRouter_def)

end
