(* ===== verification/Media.thy ===== *)
theory Media
  imports Upload
begin

text \<open>
  Media validation, \<^verbatim>\<open>transcoder-worker/ffprobe.go\<close>, and the numbers it reads:
  \<^verbatim>\<open>strconv.ParseFloat\<close> on decimal notation with correct rounding to 53 bits,
  infinities and NaN included (hexadecimal notation, which ffprobe does not print, is
  read as an error).
\<close>

section \<open>Floating-point numbers\<close>

text \<open>\<^verbatim>\<open>Fin neg m s\<close> is the number of magnitude \<^verbatim>\<open>m * 2^s\<close>.\<close>

datatype float64 = NaN | Inf bool | Fin bool nat int

fun bits :: "nat \<Rightarrow> nat" where
  "bits n = (if n = 0 then 0 else Suc (bits (n div 2)))"

declare bits.simps [simp del]

definition round_half_even :: "nat \<Rightarrow> nat \<Rightarrow> nat" where
  "round_half_even p q =
     (let d = p div q; r = p mod q in if 2 * r > q \<or> 2 * r = q \<and> odd d then d + 1 else d)"

definition scaled :: "nat \<Rightarrow> nat \<Rightarrow> int \<Rightarrow> nat \<times> nat" where
  "scaled p q s = (p * 2 ^ nat (- s), q * 2 ^ nat s)"

text \<open>The float nearest to \<^verbatim>\<open>p / q\<close>, or \<^verbatim>\<open>None\<close> when it is out of range.\<close>

definition nearest_float :: "bool \<Rightarrow> nat \<Rightarrow> nat \<Rightarrow> float64 option" where
  "nearest_float neg p q =
    (if p = 0 then Some (Fin neg 0 0)
     else let a = int (bits p) - int (bits q) - 53;
              big = (case scaled p q a of (p', q') \<Rightarrow> p' \<ge> 2 ^ 53 * q');
              s = max (- 1074) (if big then a + 1 else a);
              m = (case scaled p q s of (p', q') \<Rightarrow> round_half_even p' q')
          in if s > 971 \<or> s = 971 \<and> m \<ge> 2 ^ 53 then None else Some (Fin neg m s))"

text \<open>Digits, an optional fraction, an optional exponent (which stops growing at 10000).\<close>

definition exponent_val :: "string \<Rightarrow> nat" where
  "exponent_val ds = foldl (\<lambda>e c. if e < 10000 then 10 * e + digit_val c else e) 0 ds"

definition signed :: "string \<Rightarrow> bool \<times> string" where
  "signed s = (case s of
      [] \<Rightarrow> (False, [])
    | c # cs \<Rightarrow> if c = CHR ''-'' then (True, cs) else if c = CHR ''+'' then (False, cs) else (False, s))"

definition parse_decimal :: "string \<Rightarrow> (nat \<times> int) option" where
  "parse_decimal s =
    (let ip = takeWhile is_digit s; r = dropWhile is_digit s;
         (fp, r2) = (case r of
             c # cs \<Rightarrow> if c = CHR ''.'' then (takeWhile is_digit cs, dropWhile is_digit cs) else ([], r)
           | [] \<Rightarrow> ([], []));
         m = digits_val (ip @ fp); k = - int (length fp)
     in if ip @ fp = [] then None
        else case r2 of
          [] \<Rightarrow> Some (m, k)
        | c # cs \<Rightarrow>
           if c = CHR ''e'' \<or> c = CHR ''E'' then
             (let (neg, ds) = signed cs in
              if ds \<noteq> [] \<and> list_all is_digit ds
              then Some (m, k + (if neg then - int (exponent_val ds) else int (exponent_val ds)))
              else None)
           else None)"

definition ParseFloat :: "string \<Rightarrow> float64 option" where
  "ParseFloat s =
    (let (neg, r) = signed s; low = map ascii_lower r in
     if low = ''inf'' \<or> low = ''infinity'' then Some (Inf neg)
     else if map ascii_lower s = ''nan'' then Some NaN
     else case parse_decimal r of
       None \<Rightarrow> None
     | Some (m, k) \<Rightarrow> nearest_float neg (m * 10 ^ nat k) (10 ^ nat (- k)))"

text \<open>Comparisons with a natural number; with NaN they are false.\<close>

fun fl_less :: "float64 \<Rightarrow> nat \<Rightarrow> bool" where
  "fl_less NaN n = False"
| "fl_less (Inf neg) n = neg"
| "fl_less (Fin neg m s) n =
     (if neg then m > 0 \<or> n > 0 else m * 2 ^ nat s < n * 2 ^ nat (- s))"

fun fl_greater :: "float64 \<Rightarrow> nat \<Rightarrow> bool" where
  "fl_greater NaN n = False"
| "fl_greater (Inf neg) n = (\<not> neg)"
| "fl_greater (Fin neg m s) n = (\<not> neg \<and> m * 2 ^ nat s > n * 2 ^ nat (- s))"

fun fl_le_zero :: "float64 \<Rightarrow> bool" where
  "fl_le_zero NaN = False"
| "fl_le_zero (Inf neg) = neg"
| "fl_le_zero (Fin neg m s) = (neg \<or> m = 0)"

text \<open>
  \<^verbatim>\<open>int32(math.Round(f))\<close>: halves away from zero.  The conversion of NaN or of a
  number that does not fit is left to the platform, the first argument.
\<close>

fun round_int32 :: "int \<Rightarrow> float64 \<Rightarrow> int" where
  "round_int32 odd_value NaN = odd_value"
| "round_int32 odd_value (Inf _) = odd_value"
| "round_int32 odd_value (Fin neg m s) =
     (let r = int ((2 * m * 2 ^ nat s + 2 ^ nat (- s)) div (2 * 2 ^ nat (- s)));
          v = (if neg then - r else r)
      in if int32_ok v then v else odd_value)"

section \<open>Validation\<close>

record ffprobeStream =
  fs_CodecName :: string
  fs_CodecType :: string
  fs_Width :: int
  fs_Height :: int
  fs_BitRate :: string

record ffprobeFormat =
  ff_Duration :: string
  ff_Size :: string
  ff_BitRate :: string

record ffprobeResult =
  fr_Streams :: "ffprobeStream list"
  fr_Format :: ffprobeFormat

definition videoCodecAllowlist :: "string list" where
  "videoCodecAllowlist = [''h264'', ''hevc'', ''vp9'', ''av1'']"

definition audioCodecAllowlist :: "string list" where
  "audioCodecAllowlist = [''aac'', ''opus'', ''mp3'']"

definition minDuration :: nat where "minDuration = 1"
definition maxDuration :: nat where "maxDuration = 180"
definition minDimension :: int where "minDimension = 16"
definition maxDimension :: int where "maxDimension = 4096"
definition maxBitRate :: int where "maxBitRate = 25000000"

text \<open>Texts of these errors reach the log only; the numbers they quote are left out.\<close>

definition invalid_media :: "string \<Rightarrow> goerr + 'a" where
  "invalid_media msg = Inl (Errorf_head ErrInvalidMedia msg)"

definition check_video_stream :: "ffprobeStream \<Rightarrow> goerr + unit" where
  "check_video_stream s =
    (if fs_CodecName s = [] then invalid_media ''video stream has empty codec_name''
     else if fs_CodecName s \<notin> set videoCodecAllowlist
       then invalid_media (''video codec '' @ Quote (fs_CodecName s) @
              '' not in allowlist (h264, hevc, vp9, av1)'')
     else if fs_Width s < minDimension \<or> fs_Width s > maxDimension
       then invalid_media ''video width outside allowed range''
     else if fs_Height s < minDimension \<or> fs_Height s > maxDimension
       then invalid_media ''video height outside allowed range''
     else if fs_BitRate s \<noteq> [] then
       (case ParseInt64 (fs_BitRate s) of
          None \<Rightarrow> invalid_media (''video bit_rate '' @ Quote (fs_BitRate s))
        | Some br \<Rightarrow> if br > maxBitRate then invalid_media ''video bit_rate exceeds limit'' else Inr ())
     else Inr ())"

fun check_video_streams :: "ffprobeStream list \<Rightarrow> nat \<Rightarrow> goerr + nat" where
  "check_video_streams [] n = Inr n"
| "check_video_streams (s # ss) n =
    (if fs_CodecType s = ''video'' then
       (case check_video_stream s of
          Inl e \<Rightarrow> Inl e
        | Inr _ \<Rightarrow> check_video_streams ss (Suc n))
     else check_video_streams ss n)"

fun check_audio_streams :: "ffprobeStream list \<Rightarrow> goerr + unit" where
  "check_audio_streams [] = Inr ()"
| "check_audio_streams (s # ss) =
    (if fs_CodecType s = ''audio'' \<and> fs_CodecName s \<notin> set audioCodecAllowlist
     then invalid_media (''audio codec '' @ Quote (fs_CodecName s) @
            '' not in allowlist (aac, opus, mp3)'')
     else check_audio_streams ss)"

definition check_duration :: "string \<Rightarrow> goerr + unit" where
  "check_duration d =
    (if d = [] then invalid_media ''missing duration in format''
     else case ParseFloat d of
       None \<Rightarrow> invalid_media (''parse duration '' @ Quote d)
     | Some dur \<Rightarrow>
         if fl_less dur minDuration \<or> fl_greater dur maxDuration
         then invalid_media ''duration outside allowed range''
         else Inr ())"

definition ValidateMedia :: "ffprobeResult \<Rightarrow> int \<Rightarrow> goerr + unit" where
  "ValidateMedia r sizeBytes =
    (if sizeBytes < MinUploadBytes \<or> sizeBytes > MaxUploadBytes
     then invalid_media ''object size outside allowed range''
     else case check_video_streams (fr_Streams r) 0 of
       Inl e \<Rightarrow> Inl e
     | Inr n \<Rightarrow>
        if n = 0 then invalid_media ''no video stream in file''
        else case check_audio_streams (fr_Streams r) of
          Inl e \<Rightarrow> Inl e
        | Inr _ \<Rightarrow> check_duration (ff_Duration (fr_Format r)))"

definition parseFFmpegDuration :: "string \<Rightarrow> float64" where
  "parseFFmpegDuration s =
    (if s = [] then Fin False 0 0
     else case ParseFloat s of None \<Rightarrow> Fin False 0 0 | Some f \<Rightarrow> f)"

end
