(* ===== verification/Transcode.thy ===== *)
theory Transcode
  imports Media Store
begin

text \<open>
  The transcode task, \<^verbatim>\<open>transcoder-worker/transcode.go\<close>.  The subprocesses are
  parameters: what ffprobe prints for a file's bytes, what files ffmpeg writes for an
  argument list.  While the pipeline runs, other processes work on the tables:
  \<^verbatim>\<open>wk_others stage\<close> is what they do to them during a stage, any function that
  keeps the constraints.  A transaction that fails has no effect, so it is enough to
  let it act at the stages where the worker is not inside a statement.

  The components of the paths the worker joins are clean, so \<^verbatim>\<open>filepath.Join\<close>
  puts slashes between them.
\<close>

section \<open>The worker\<close>

datatype probe_outcome =
    ProbeExit string
  | ProbeGarbage string
  | ProbeJSON ffprobeResult

record worker =
  wk_ffprobe :: "string \<Rightarrow> probe_outcome"
  wk_ffmpeg :: "string list \<Rightarrow> (string \<times> string) list \<Rightarrow> string + (string \<times> string) list"
  wk_odd_int32 :: int
  wk_others :: "string \<Rightarrow> db \<Rightarrow> db"

text \<open>Interference that breaks a constraint does not commit.\<close>

definition interfere :: "worker \<Rightarrow> string \<Rightarrow> unit io" where
  "interfere K stage = (\<lambda>w.
     let d' = wk_others K stage (w_db w)
     in (Inr (), if constraints d' then w\<lparr>w_db := d'\<rparr> else w))"

definition MaxRetries :: int where "MaxRetries = 3"

record transcode_variant =
  tv_Dir :: string
  tv_Resolution :: string
  tv_Bandwidth :: int

definition transcodeVariants :: "transcode_variant list" where
  "transcodeVariants =
     [\<lparr>tv_Dir = ''480p'', tv_Resolution = ''640x480'', tv_Bandwidth = 800000\<rparr>,
      \<lparr>tv_Dir = ''720p'', tv_Resolution = ''1280x720'', tv_Bandwidth = 1500000\<rparr>]"

definition retryDelayFor :: "int \<Rightarrow> int" where
  "retryDelayFor retryCount = retryCount * 30 * 1000000000"

definition EnqueueWithDelay :: "task \<Rightarrow> int \<Rightarrow> unit io" where
  "EnqueueWithDelay t d = client_Enqueue t d None"

section \<open>Failure handling\<close>

definition markFailedDetached :: "uuid \<Rightarrow> unit io" where
  "markFailedDetached videoID = tryM (MarkVideoFailed videoID) throw (\<lambda>_. ok ())"

text \<open>A call whose error is logged and dropped.\<close>

definition logged :: "'a io \<Rightarrow> unit io" where
  "logged m = tryM m (\<lambda>_. ok ()) (\<lambda>_. ok ())"

text \<open>The terminal branches: mark the row FAILED, ask for the raw upload to be deleted.\<close>

definition fail_permanently :: "uuid \<Rightarrow> string \<Rightarrow> unit io" where
  "fail_permanently videoID r2Key =
     bindM (logged (markFailedDetached videoID)) (\<lambda>_. logged (EnqueueCleanupObjects [r2Key]))"

definition handleTransient :: "env \<Rightarrow> Video \<Rightarrow> unit io" where
  "handleTransient E v =
    (if v_RetryCount v \<ge> MaxRetries then fail_permanently (v_ID v) (v_R2Key v)
     else case NewTranscodeTask (env_uuid_String E (v_ID v)) of
       Inl _ \<Rightarrow> ok ()
     | Inr t \<Rightarrow> logged (EnqueueWithDelay t (retryDelayFor (v_RetryCount v))))"

section \<open>Subprocesses and files\<close>

definition join_path :: "string \<Rightarrow> string \<Rightarrow> string" where
  "join_path a b = a @ ''/'' @ b"

definition ProbeFile :: "worker \<Rightarrow> string \<Rightarrow> ffprobeResult io" where
  "ProbeFile K filePath =
    (if filePath = [] then throw (Opaque ''ProbeFile: filePath is empty'')
     else let failed = (\<lambda>t. throw (Errorf_head ErrInvalidMedia (''ffprobe '' @ filePath @ '': '' @ t))) in
       tryM (read_file filePath) (\<lambda>err. failed (Error err)) (\<lambda>b.
         case wk_ffprobe K b of
           ProbeExit t \<Rightarrow> failed t
         | ProbeGarbage t \<Rightarrow> throw (Errorf_tail ''ProbeFile: parse ffprobe output'' (Opaque t))
         | ProbeJSON r \<Rightarrow> ok r))"

definition buildVariantArgs :: "string \<Rightarrow> string \<Rightarrow> string \<Rightarrow> transcode_variant \<Rightarrow> string list" where
  "buildVariantArgs sourcePath indexPath segmentPattern v =
     [''-y'', ''-i'', sourcePath, ''-vf'', ''scale=-2:'' @ TrimSuffix (tv_Dir v) ''p'',
      ''-c:v'', ''libx264'', ''-preset'', ''veryfast'', ''-crf'', ''23'', ''-c:a'', ''aac'',
      ''-b:a'', ''128k'', ''-hls_time'', ''6'', ''-hls_playlist_type'', ''vod'',
      ''-hls_segment_filename'', segmentPattern, indexPath]"

definition buildThumbnailArgs :: "string \<Rightarrow> string \<Rightarrow> string list" where
  "buildThumbnailArgs sourcePath thumbPath =
     [''-y'', ''-i'', sourcePath, ''-ss'', ''00:00:01'', ''-frames:v'', ''1'', ''-vf'', ''scale=480:-1'',
      thumbPath]"

fun put_files :: "(string \<times> string) list \<Rightarrow> unit io" where
  "put_files [] = ok ()"
| "put_files ((p, b) # fs) = bindM (put_file p b) (\<lambda>_. put_files fs)"

definition runFFmpeg :: "worker \<Rightarrow> string \<Rightarrow> string list \<Rightarrow> unit io" where
  "runFFmpeg K stage args =
    bindM (interfere K stage) (\<lambda>_.
    tryM fault (\<lambda>err. throw (Errorf_tail ''ffmpeg'' err)) (\<lambda>_.
    bindM (\<lambda>w. (Inr (wk_ffmpeg K args (w_files w)), w)) (\<lambda>r. case r of
        Inl stderr \<Rightarrow> throw (Errorf_tail ''ffmpeg'' (Opaque stderr))
      | Inr fs \<Rightarrow> put_files fs)))"

text \<open>The files of a directory in name order (\<^verbatim>\<open>os.ReadDir\<close>), as names.\<close>

definition dir_names :: "string \<Rightarrow> (string \<times> string) list \<Rightarrow> string list" where
  "dir_names dir fs =
     (let p = dir @ ''/'';
          names = map (\<lambda>f. drop (length p) (fst f)) (filter (\<lambda>f. prefix_of p (fst f)) fs)
      in sort (filter (\<lambda>n. n \<noteq> [] \<and> CHR ''/'' \<notin> set n) names))"

definition read_dir :: "string \<Rightarrow> string list io" where
  "read_dir dir = bindM fault (\<lambda>_ w. (Inr (dir_names dir (w_files w)), w))"

definition content_type :: "string \<Rightarrow> string" where
  "content_type name =
     (if suffix_of ''.m3u8'' name then ''application/vnd.apple.mpegurl''
      else if suffix_of ''.ts'' name then ''video/mp2t'' else ''application/octet-stream'')"

text \<open>
  The result of \<^verbatim>\<open>uploadVariant\<close>: the keys uploaded so far, with the error if
  there was one.
\<close>

fun upload_names ::
  "env \<Rightarrow> string \<Rightarrow> string \<Rightarrow> string list \<Rightarrow> string list \<Rightarrow> (string list \<times> goerr option) io"
where
  "upload_names E variantPath keyDir uploaded [] = ok (uploaded, None)"
| "upload_names E variantPath keyDir uploaded (n # ns) =
    (let key = join_path keyDir n in
     tryM (UploadFile E key (join_path variantPath n) (content_type n))
       (\<lambda>err. ok (uploaded, Some (Errorf_tail (''upload '' @ key) err)))
       (\<lambda>_. upload_names E variantPath keyDir (uploaded @ [key]) ns))"

definition uploadVariant ::
  "env \<Rightarrow> string \<Rightarrow> string \<Rightarrow> string \<Rightarrow> (string list \<times> goerr option) io"
where
  "uploadVariant E workDir hlsPrefix dir =
    (let keyDir = join_path hlsPrefix dir; variantPath = join_path workDir keyDir in
     tryM (read_dir variantPath) (\<lambda>err. ok ([], Some (Errorf_tail ''read variant dir'' err)))
       (\<lambda>names. upload_names E variantPath keyDir [] names))"

definition master_playlist :: "string \<Rightarrow> transcode_variant list \<Rightarrow> string" where
  "master_playlist hlsPrefix variants =
     ''#EXTM3U'' @ [CHR 0x0A] @ ''#EXT-X-VERSION:3'' @ [CHR 0x0A] @
     concat (map (\<lambda>v.
       ''#EXT-X-STREAM-INF:BANDWIDTH='' @ FormatInt (tv_Bandwidth v) @ '',RESOLUTION='' @
       tv_Resolution v @ [CHR 0x0A] @ hlsPrefix @ ''/'' @ tv_Dir v @ ''/index.m3u8'' @ [CHR 0x0A]) variants)"

definition writeMasterPlaylist :: "string \<Rightarrow> string \<Rightarrow> transcode_variant list \<Rightarrow> unit io" where
  "writeMasterPlaylist path hlsPrefix variants = write_file path (master_playlist hlsPrefix variants)"

definition fileSize :: "string \<Rightarrow> int io" where
  "fileSize path = bindM (read_file path) (\<lambda>b. ok (int (length b)))"

definition MkdirAll :: "string \<Rightarrow> unit io" where
  "MkdirAll path = fault"

definition RemoveAll :: "string \<Rightarrow> unit io" where
  "RemoveAll dir = bindM fault (\<lambda>_ w. (Inr (),
     w\<lparr>w_files := filter (\<lambda>f. \<not> prefix_of (dir @ ''/'') (fst f)) (w_files w)\<rparr>))"

section \<open>The pipeline\<close>

text \<open>Best effort: the keys uploaded so far are handed to the cleanup task.\<close>

definition cleanupOnFailure :: "string list \<Rightarrow> unit io" where
  "cleanupOnFailure uploadedKeys =
     (if uploadedKeys \<noteq> [] then logged (EnqueueCleanupObjects uploadedKeys) else ok ())"

definition give_up :: "env \<Rightarrow> Video \<Rightarrow> string list \<Rightarrow> unit io" where
  "give_up E v keys = bindM (cleanupOnFailure keys) (\<lambda>_. handleTransient E v)"

text \<open>The variants in order: the continuation gets the keys of all of them.\<close>

fun run_variants ::
  "env \<Rightarrow> worker \<Rightarrow> Video \<Rightarrow> string \<Rightarrow> string \<Rightarrow> string \<Rightarrow> transcode_variant list \<Rightarrow> string list \<Rightarrow>
    (string list \<Rightarrow> unit io) \<Rightarrow> unit io"
where
  "run_variants E K v workDir sourcePath hlsPrefix [] keys cont = cont keys"
| "run_variants E K v workDir sourcePath hlsPrefix (tv # tvs) keys cont =
    (let variantDir = join_path (join_path workDir hlsPrefix) (tv_Dir tv) in
     tryM (MkdirAll variantDir) (\<lambda>_. give_up E v keys) (\<lambda>_.
     let args = buildVariantArgs sourcePath (join_path variantDir ''index.m3u8'')
                  (join_path variantDir ''segment_%04d.ts'') tv in
     tryM (runFFmpeg K (''ffmpeg '' @ tv_Dir tv) args) (\<lambda>_. give_up E v keys) (\<lambda>_.
     bindM (uploadVariant E workDir hlsPrefix (tv_Dir tv)) (\<lambda>(new, err). case err of
         Some _ \<Rightarrow> give_up E v (keys @ new)
       | None \<Rightarrow> run_variants E K v workDir sourcePath hlsPrefix tvs (keys @ new) cont))))"

definition publish :: "env \<Rightarrow> worker \<Rightarrow> Video \<Rightarrow> string \<Rightarrow> string \<Rightarrow> float64 \<Rightarrow> string list \<Rightarrow> unit io"
where
  "publish E K v hlsPrefix thumbnailKey duration keys =
    bindM (interfere K ''recheck'') (\<lambda>_.
    tryM (GetVideoByID (v_ID v))
      (\<lambda>err. if errors_Is err ErrNoRows then cleanupOnFailure keys else give_up E v keys)
      (\<lambda>fresh.
        if v_Status fresh \<noteq> PROCESSING then cleanupOnFailure keys
        else bindM (interfere K ''mark ready'') (\<lambda>_.
          tryM (MarkVideoReady (v_ID v) (Some hlsPrefix) (Some thumbnailKey)
                 (Some (round_int32 (wk_odd_int32 K) duration)))
            (\<lambda>err. if errors_Is err ErrNoRows then cleanupOnFailure keys else give_up E v keys)
            (\<lambda>_. logged (EnqueueCleanupObjects [v_R2Key v])))))"

definition transcode_outputs ::
  "env \<Rightarrow> worker \<Rightarrow> Video \<Rightarrow> string \<Rightarrow> string \<Rightarrow> float64 \<Rightarrow> unit io"
where
  "transcode_outputs E K v workDir sourcePath duration =
    (let uid = env_uuid_String E (v_UserID v); vid = env_uuid_String E (v_ID v);
         hlsPrefix = ''hls/'' @ uid @ ''/'' @ vid;
         thumbnailKey = ''thumbs/'' @ uid @ ''/'' @ vid @ ''/thumb.jpg'' in
     run_variants E K v workDir sourcePath hlsPrefix transcodeVariants [] (\<lambda>keys.
       let thumbPath = join_path workDir ''thumb.jpg'' in
       tryM (runFFmpeg K ''ffmpeg thumb'' (buildThumbnailArgs sourcePath thumbPath))
         (\<lambda>_. give_up E v keys) (\<lambda>_.
       let keys1 = keys @ [thumbnailKey] in
       tryM (UploadFile E thumbnailKey thumbPath ''image/jpeg'') (\<lambda>_. give_up E v keys1) (\<lambda>_.
       let masterPath = join_path workDir ''master.m3u8''; masterKey = join_path hlsPrefix ''master.m3u8'';
           keys2 = keys1 @ [masterKey] in
       tryM (writeMasterPlaylist masterPath hlsPrefix transcodeVariants) (\<lambda>_. give_up E v keys1) (\<lambda>_.
       tryM (UploadFile E masterKey masterPath ''application/vnd.apple.mpegurl'')
         (\<lambda>_. give_up E v keys2) (\<lambda>_.
       publish E K v hlsPrefix thumbnailKey duration keys2))))))"

definition process_source :: "env \<Rightarrow> worker \<Rightarrow> Video \<Rightarrow> string \<Rightarrow> unit io" where
  "process_source E K v workDir =
    (let sourcePath = join_path workDir ''source.bin'' in
     bindM (interfere K ''download'') (\<lambda>_.
     tryM (Download E (v_R2Key v) sourcePath) (\<lambda>_. handleTransient E v) (\<lambda>_.
     tryM (fileSize sourcePath) (\<lambda>_. handleTransient E v) (\<lambda>size.
     tryM (ProbeFile K sourcePath)
       (\<lambda>err. if errors_Is err ErrInvalidMedia then fail_permanently (v_ID v) (v_R2Key v)
              else handleTransient E v)
       (\<lambda>probe. case ValidateMedia probe size of
           Inl _ \<Rightarrow> fail_permanently (v_ID v) (v_R2Key v)
         | Inr _ \<Rightarrow>
             (let duration = parseFFmpegDuration (ff_Duration (fr_Format probe)) in
              if fl_le_zero duration then handleTransient E v
              else transcode_outputs E K v workDir sourcePath duration))))))"

text \<open>\<^verbatim>\<open>defer\<close>: the cleanup runs on every exit; its own failure is logged.\<close>

definition deferred :: "unit io \<Rightarrow> unit io \<Rightarrow> unit io" where
  "deferred m final = (\<lambda>w. case m w of (r, w') \<Rightarrow> (r, snd (final w')))"

definition transcode_attempt :: "env \<Rightarrow> worker \<Rightarrow> Video \<Rightarrow> unit io" where
  "transcode_attempt E K v =
    tryM fault (\<lambda>_. ok ()) (\<lambda>_. bindM new_uuid (\<lambda>i.
      let workDir = ''/tmp/transcode/'' @ env_uuid_String E (v_ID v) @ ''-'' @
            hex_encode (map (\<lambda>k. of_byte (unat (drop_bit (8 * k) i) mod 256)) (rev [0 ..< 8])) in
      tryM (MkdirAll workDir) (\<lambda>_. ok ())
        (\<lambda>_. deferred (process_source E K v workDir) (RemoveAll workDir))))"

text \<open>The argument is the payload's video id, \<^verbatim>\<open>None\<close> when it does not decode.\<close>

definition HandleTranscode :: "env \<Rightarrow> worker \<Rightarrow> string option \<Rightarrow> unit io" where
  "HandleTranscode E K payload =
    (if \<not> env_wired E DepQueries \<or> \<not> env_wired E DepR2 \<or> \<not> env_wired E DepAsynq then ok ()
     else case payload of
       None \<Rightarrow> ok ()
     | Some raw \<Rightarrow>
        (case env_uuid_Parse E raw of
           None \<Rightarrow> ok ()
         | Some videoID \<Rightarrow>
            tryM (GetVideoByID videoID) (\<lambda>_. ok ()) (\<lambda>video.
              if v_Status video \<noteq> PROCESSING then ok ()
              else if v_RetryCount video \<ge> MaxRetries
                then bindM (interfere K ''budget'') (\<lambda>_. fail_permanently videoID (v_R2Key video))
              else bindM (interfere K ''increment'') (\<lambda>_.
                tryM (IncrementVideoRetry videoID) (\<lambda>_. ok ())
                  (\<lambda>incremented. transcode_attempt E K incremented)))))"

end
