(* ===== verification/Cleanup.thy ===== *)
theory Cleanup
  imports Transcode
begin

text \<open>
  The other tasks of the worker: \<^verbatim>\<open>transcoder-worker/cleanup.go\<close> (deleting named
  objects, finishing a video deleted more than 24 hours ago) and
  \<^verbatim>\<open>transcoder-worker/reconcile.go\<close> (the sweep over the objects of tombstoned
  users).  A task's payload is an argument, \<^verbatim>\<open>None\<close> when it does not decode; an
  error result makes the queue retry the task.
\<close>

section \<open>Cleanup\<close>

definition HandleCleanupObjects :: "env \<Rightarrow> string list option \<Rightarrow> unit io" where
  "HandleCleanupObjects E payload =
    (if \<not> env_wired E DepR2 \<or> \<not> env_wired E DepLogger then ok ()
     else case payload of
       None \<Rightarrow> ok ()
     | Some keys \<Rightarrow>
        if keys = [] then ok () else tryM (DeleteObjects E keys) throw ok)"

definition cleanupGrace :: int where
  "cleanupGrace = 24 * 3600 * 1000000000"

definition delete_outputs :: "env \<Rightarrow> Video \<Rightarrow> unit io" where
  "delete_outputs E video =
    (let keys = v_R2Key video # (case v_ThumbnailKey video of
           None \<Rightarrow> [] | Some k \<Rightarrow> if k \<noteq> [] then [k] else []) in
     tryM (DeleteObjects E keys) throw (\<lambda>_. DeleteVideoRow (v_ID video)))"

definition finish_video :: "env \<Rightarrow> Video \<Rightarrow> unit io" where
  "finish_video E video =
    (case v_HlsPrefix video of
       None \<Rightarrow> delete_outputs E video
     | Some hls \<Rightarrow>
        if hls = [] then delete_outputs E video
        else let prefix = hls @ ''/'' in
          if \<not> prefix_of ''hls/'' prefix then ok ()
          else tryM (DeletePrefix E prefix) throw (\<lambda>_. delete_outputs E video))"

definition HandleCleanupVideo :: "env \<Rightarrow> string option \<Rightarrow> unit io" where
  "HandleCleanupVideo E payload =
    (if \<not> env_wired E DepQueries \<or> \<not> env_wired E DepR2 \<or> \<not> env_wired E DepAsynq \<or>
        \<not> env_wired E DepLogger then ok ()
     else case payload of
       None \<Rightarrow> ok ()
     | Some raw \<Rightarrow>
        (case env_uuid_Parse E raw of
           None \<Rightarrow> ok ()
         | Some videoID \<Rightarrow>
            tryM (GetVideoByID videoID) (\<lambda>_. ok ()) (\<lambda>video.
              if v_Status video \<noteq> DELETED then ok ()
              else case v_DeletedAt video of
                None \<Rightarrow> ok ()
              | Some deletedAt \<Rightarrow> bindM now_io (\<lambda>now.
                  let elapsed = now - deletedAt in
                  if elapsed < cleanupGrace then
                    (case NewCleanupVideoTask (env_uuid_String E videoID) of
                       Inl _ \<Rightarrow> ok ()
                     | Inr t \<Rightarrow> logged (EnqueueWithDelay t (cleanupGrace - elapsed)))
                  else finish_video E video))))"

section \<open>Reconciliation\<close>

definition reconcilePrefixes :: "string list" where
  "reconcilePrefixes = [''uploads'', ''thumbs'', ''hls'']"

fun list_prefixes :: "env \<Rightarrow> uuid \<Rightarrow> string list \<Rightarrow> string list \<Rightarrow> string list io" where
  "list_prefixes E userID [] keys = ok keys"
| "list_prefixes E userID (root # roots) keys =
    (let prefix = root @ ''/'' @ env_uuid_String E userID @ ''/'' in
     tryM (ListObjectsByPrefix E prefix 0) (\<lambda>err. throw (Errorf_tail (''list '' @ prefix) err))
       (\<lambda>found. list_prefixes E userID roots (keys @ found)))"

definition listUserOrphanKeys :: "env \<Rightarrow> uuid \<Rightarrow> string list io" where
  "listUserOrphanKeys E userID = list_prefixes E userID reconcilePrefixes []"

definition sampleKeys :: "string list \<Rightarrow> nat \<Rightarrow> string list" where
  "sampleKeys keys n = (if length keys \<le> n then keys else take n keys)"

definition reconcile_user :: "env \<Rightarrow> bool \<Rightarrow> uuid \<Rightarrow> unit io" where
  "reconcile_user E dryRun uid =
    tryM (listUserOrphanKeys E uid) (\<lambda>_. ok ()) (\<lambda>keys.
      if keys = [] then ok ()
      else if dryRun then ok ()
      else logged (EnqueueCleanupObjects keys))"

text \<open>The tick budget: when the context is done the sweep stops, which is a fault here.\<close>

fun reconcile_users :: "env \<Rightarrow> bool \<Rightarrow> uuid list \<Rightarrow> unit io" where
  "reconcile_users E dryRun [] = ok ()"
| "reconcile_users E dryRun (uid # uids) =
    tryM fault (\<lambda>_. ok ())
      (\<lambda>_. bindM (reconcile_user E dryRun uid) (\<lambda>_. reconcile_users E dryRun uids))"

text \<open>The conversion to \<^verbatim>\<open>int32\<close> wraps.\<close>

definition HandleReconcileTick :: "env \<Rightarrow> (int \<times> bool) option \<Rightarrow> unit io" where
  "HandleReconcileTick E payload =
    (if \<not> env_wired E DepQueries \<or> \<not> env_wired E DepR2 \<or> \<not> env_wired E DepAsynq \<or>
        \<not> env_wired E DepLogger then ok ()
     else case payload of
       None \<Rightarrow> ok ()
     | Some (batchSize0, dryRun) \<Rightarrow>
        (let batchSize = (if batchSize0 \<le> 0 then env_ReconcileBatch E else batchSize0) in
         tryM (ListUsersEligibleForReconcile (signed_take_bit 31 batchSize)) throw
           (\<lambda>userIDs. reconcile_users E dryRun userIDs)))"

section \<open>The worker's dispatch\<close>

fun HandleTask :: "env \<Rightarrow> worker \<Rightarrow> task \<Rightarrow> unit io" where
  "HandleTask E K (TranscodeVideo videoID) = HandleTranscode E K (Some videoID)"
| "HandleTask E K (CleanupObjects keys) = HandleCleanupObjects E (Some keys)"
| "HandleTask E K (CleanupVideo videoID) = HandleCleanupVideo E (Some videoID)"
| "HandleTask E K (ReconcileTick batchSize dryRun) = HandleReconcileTick E (Some (batchSize, dryRun))"

end
