(* ===== verification/Systems.thy ===== *)
theory Systems
  imports Router Cleanup
begin

text \<open>
  Proving something about every request and every task at once.

  \<^verbatim>\<open>table_rel\<close> is the contract of a relation between worlds that only the
  tables (and the supply of identifiers) matter to; reading, answering, enqueuing and
  the object store satisfy any such relation, and so does a transaction whose body
  does.  \<^verbatim>\<open>task_rel\<close> adds what the tasks of the worker write, \<^verbatim>\<open>handler_rel\<close>
  the writing statements and the counter transactions of the gateway; they derive the same
  for every task and every route.  \<^verbatim>\<open>statement_rel\<close> is the stronger contract in which
  each counter statement satisfies the relation on its own; it gives
  \<^verbatim>\<open>handler_rel\<close>.
\<close>

section \<open>The supply of identifiers\<close>

definition supply_le :: "world \<Rightarrow> world \<Rightarrow> bool" where
  "supply_le w w' \<longleftrightarrow> w_uuids w' = w_uuids w \<and> w_next w \<le> w_next w'"

interpretation supplied: step_rel supply_le
  by unfold_locales (auto simp: supply_le_def)

lemma supplied_fault: "supplied.rel fault"
  by (simp add: supplied.rel_def supply_le_def)

lemma supplied_same:
  "(\<And>w. w_uuids (snd (m w)) = w_uuids w \<and> w_next (snd (m w)) = w_next w) \<Longrightarrow> supplied.rel m"
  by (simp add: supplied.rel_def supply_le_def)

lemma supplied_query: "supplied.rel (query f)"
  unfolding query_def by (intro supplied.rel_bindM supplied_fault supplied_same) simp

lemma supplied_exec: "supplied.rel (exec f)"
  unfolding exec_def
  by (intro supplied.rel_bindM supplied_fault supplied_same) (simp split: sum.split prod.split)

lemma supplied_new_uuid: "supplied.rel new_uuid"
  by (simp add: supplied.rel_def supply_le_def new_uuid_def)

lemma supplied_exec_insert: "supplied.rel (exec_insert f)"
  unfolding exec_insert_def by (intro supplied.rel_bindM supplied_new_uuid supplied_exec)

lemma supplied_now: "supplied.rel now_io"
  by (rule supplied_same) (simp add: now_io_def)

lemma supplied_write: "supplied.rel (write_response s b)"
  by (rule supplied_same) (simp add: write_response_def)

lemma supplied_client: "supplied.rel (client_Enqueue t d r)"
  unfolding client_Enqueue_def by (intro supplied.rel_bindM supplied_fault supplied_same) simp

section \<open>Relations on the tables\<close>

locale table_rel = step_rel R for R :: "world \<Rightarrow> world \<Rightarrow> bool" +
  assumes R_supply: "R w w' \<Longrightarrow> supply_le w w'"
    and R_frame: "w_db w' = w_db w \<Longrightarrow> supply_le w w' \<Longrightarrow> R w w'"
begin

lemma rel_same: "dbsame.rel m \<Longrightarrow> supplied.rel m \<Longrightarrow> rel m"
  by (simp add: rel_def dbsame.rel_def supplied.rel_def R_frame)

lemma rel_fault: "rel fault"
  by (intro rel_same dbsame_fault supplied_fault)

lemma rel_query: "rel (query f)"
  by (intro rel_same dbsame_query supplied_query)

lemma rel_new_uuid: "rel new_uuid"
  by (intro rel_same dbsame_new_uuid supplied_new_uuid)

lemma rel_now: "rel now_io"
  by (intro rel_same dbsame_now supplied_now)

lemma rel_write: "rel (write_response s b)"
  by (intro rel_same dbsame_write supplied_write)

lemma rel_Respond:
  "rel (RespondOK d)" "rel (RespondCreated d)" "rel (RespondList xs c)" "rel RespondNoContent"
  "rel (RespondError e)"
  by (simp_all add: RespondOK_def RespondCreated_def RespondList_def RespondNoContent_def
      RespondError_def rel_write split: prod.split)

lemma rel_client: "rel (client_Enqueue t d r)"
  by (intro rel_same dbsame_client supplied_client)

lemma rel_local:
  assumes "\<And>w. w_db (snd (m w)) = w_db w \<and> w_uuids (snd (m w)) = w_uuids w \<and> w_next (snd (m w)) = w_next w"
  shows "rel m"
  using assms by (simp add: rel_def R_frame supply_le_def)

lemma rel_runTx:
  assumes "rel fn"
  shows "rel (runTx fn)"
proof -
  have a: "R w (snd (fn w))" for w using assms by (rule relD)
  have b: "R w (rollback_to (w_db w) v)" if "supply_le w v" for w v
    using that by (intro R_frame) (simp_all add: rollback_to_def supply_le_def)
  have c: "R v (snd (fault v))" for v by (rule relD) (rule rel_fault)
  have d: "supply_le w (snd (fn w))" "supply_le w (snd (fault (snd (fn w))))" for w
    using R_supply a R_trans [OF a c] by blast+
  have "rel (\<lambda>w0. case fn w0 of
          (Inl e, w) \<Rightarrow> (Inl e, rollback_to (w_db w0) w)
        | (Inr x, w) \<Rightarrow>
            (case fault w of
               (Inl _, w') \<Rightarrow> (Inl (Wrap ErrInternal ''commit transaction''), rollback_to (w_db w0) w')
             | (Inr _, w') \<Rightarrow> (Inr x, w')))"
  proof (rule relI, goal_cases)
    case (1 w)
    show ?case
    proof (cases "fn w")
      case (Pair r v)
      obtain g u where f: "fault v = (g, u)" by (cases "fault v")
      have v: "v = snd (fn w)" and u: "u = snd (fault (snd (fn w)))" using Pair f by simp_all
      have "R w (rollback_to (w_db w) v)" "R w (rollback_to (w_db w) u)" "R w u"
        unfolding v u using b d R_trans [OF a c] by blast+
      then show ?thesis by (cases r; cases g) (simp_all add: Pair f)
    qed
  qed
  then show ?thesis unfolding runTx_def by (intro rel_tryM rel_fault rel_throw)
qed

lemma rel_bound:
  "(\<And>e. b = BindError e \<Longrightarrow> rel (g e)) \<Longrightarrow> (\<And>x v. b = Bound x v \<Longrightarrow> rel (f x v)) \<Longrightarrow>
    rel (case b of BindError e \<Rightarrow> g e | Bound x v \<Rightarrow> f x v)"
  by (cases b) auto

lemma rel_probe:
  "(\<And>t. p = ProbeExit t \<Longrightarrow> rel (g t)) \<Longrightarrow> (\<And>t. p = ProbeGarbage t \<Longrightarrow> rel (h t)) \<Longrightarrow>
    (\<And>r. p = ProbeJSON r \<Longrightarrow> rel (f r)) \<Longrightarrow>
    rel (case p of ProbeExit t \<Rightarrow> g t | ProbeGarbage t \<Rightarrow> h t | ProbeJSON r \<Rightarrow> f r)"
  by (cases p) auto

lemmas base_intros = rel_intros rel_bound rel_probe rel_fault rel_query rel_new_uuid rel_now rel_write rel_Respond
  rel_client rel_runTx

lemma rel_reads:
  "rel (GetVideoByID i)" "rel (GetVideoByIDForUpdate i)"
  "rel (GetPendingVideoByUser u)" "rel (GetVideoStatusByID i)"
  "rel (GetVideoDetail i vw)" "rel (ListFeedVideos u vw c m)"
  "rel (ListVideosByUser u ow c m)" "rel (ListVideoKeysByUser u)"
  "rel (GetUserByID i)" "rel (GetUserByZitadelID z)"
  "rel (GetUserProfileWithStats i v)" "rel (GetFollow a b)"
  "rel (IsFollowing a b)" "rel (CountFollowers a)" "rel (CountFollowing a)"
  "rel (ListFollowers v a c m)" "rel (ListFollowing a c m)"
  "rel (IsLiked u v)" "rel (CountCommentSubtree i)" "rel (GetCommentByID i)"
  "rel (ListCommentsByVideo v c m)" "rel (ListNotifications u c m)"
  "rel (SearchUsers v pat raw off m)" "rel (SearchVideos v pat off m)"
  by (simp_all only: video_stmts user_stmts social_stmts SearchUsers_def SearchVideos_def rel_query)

lemma rel_eligible: "rel (ListUsersEligibleForReconcile n)"
  unfolding ListUsersEligibleForReconcile_def
  by (intro rel_bindM rel_fault rel_local) simp

lemma rel_files:
  "rel (put_file p b)" "rel (remove_file p)" "rel (remove_object k)" "rel (put_object k b)"
  "rel (read_file p)" "rel (write_file p b)" "rel stored" "rel (read_dir p)" "rel (RemoveAll p)"
  "rel (MkdirAll p)" "rel (allow E l i)"
  unfolding read_file_def write_file_def read_dir_def RemoveAll_def MkdirAll_def
  by ((intro base_intros rel_local | simp add: put_file_def remove_file_def remove_object_def
      put_object_def stored_def allow_def set_entry_def Let_def)+)

lemma rel_enqueue:
  "rel (EnqueueTranscode v)" "rel (EnqueueCleanupObjects ks)" "rel (EnqueueCleanupVideo v d)"
  "rel (EnqueueReconcileTick n b)" "rel (EnqueueWithDelay t d)"
  unfolding EnqueueTranscode_def EnqueueCleanupObjects_def EnqueueCleanupVideo_def
    EnqueueReconcileTick_def EnqueueWithDelay_def by (intro base_intros)+

lemma rel_store_get: "rel (store_get E m k)"
  unfolding store_get_def by (intro base_intros rel_local) simp

lemma rel_store_delete: "rel (store_delete E ks)"
  by (induction ks) (simp_all, (intro base_intros rel_files)+)

lemma rel_DeleteObjects: "rel (DeleteObjects E ks)"
  unfolding DeleteObjects_def Let_def by (intro base_intros rel_store_delete)

lemma rel_flush: "rel (flush E p fe b)"
  unfolding flush_def by (intro base_intros rel_DeleteObjects)

lemma rel_page: "rel (delete_page E p fe b ks)"
  by (induction ks arbitrary: fe b) (auto simp: Let_def intro!: base_intros rel_flush)

lemma rel_loop: "rel (delete_loop E p fe b pages)"
proof (induction pages arbitrary: fe b)
  case (Cons page pages)
  then show ?case unfolding delete_loop.simps by (intro base_intros rel_page)
qed (simp add: rel_flush)

lemma rel_DeletePrefix: "rel (DeletePrefix E p)"
  unfolding DeletePrefix_def by (intro base_intros rel_files rel_loop)

lemma rel_list_loop: "rel (list_loop E p m ks pages)"
proof (induction pages arbitrary: ks)
  case (Cons page pages)
  then show ?case unfolding list_loop.simps by (intro base_intros)
qed (simp add: rel_ok)

lemma rel_ListObjects: "rel (ListObjectsByPrefix E p m)"
  unfolding ListObjectsByPrefix_def by (intro base_intros rel_files rel_list_loop)

lemma rel_R2:
  "rel (PresignPut E k t x)" "rel (PresignGet E k x)" "rel (HeadObject E k)"
  "rel (GetObject E k m)" "rel (Download E k f)" "rel (UploadFile E k f t)"
  unfolding PresignPut_def PresignGet_def HeadObject_def GetObject_def Download_def UploadFile_def
    Let_def by (intro base_intros rel_store_get rel_files)+

lemma rel_visibility:
  "rel (assertOwnerActiveVisible o' v)" "rel (assertVideoOwnerOrVisible v i)"
  "rel (assertVideoReadyVisible o' v)"
  unfolding assertVideoReadyVisible_def assertVideoOwnerOrVisible_def assertOwnerActiveVisible_def
  by (intro base_intros rel_reads)+

lemmas read_intros = base_intros rel_reads rel_eligible rel_files rel_enqueue rel_DeleteObjects
  rel_DeletePrefix rel_ListObjects rel_R2 rel_visibility

section \<open>Handlers that only read\<close>

lemma rel_VideoObject: "rel (VideoObject E r b)"
  unfolding VideoObject_def buildThumbnailURL_def buildPlaylistURL_def Let_def
  by (intro read_intros)

lemmas rel_objects = rel_VideoObject
  rel_VideoObject [folded videoObjectFromDetail_def]
  rel_VideoObject [where b = False, folded videoObjectFromFeedRow_def]
  rel_VideoObject [where b = "v_UserID (vd_video r) = u" and r = r for u r,
    folded videoObjectFromSearchRow_def]

lemma rel_variant_lines: "rel (variant_lines E base ttl ls)"
proof (induction ls)
  case (Cons l ls)
  then show ?case unfolding variant_lines.simps Let_def by (intro read_intros)
qed (simp add: rel_ok)

lemma rel_playlists:
  "rel (RewriteVariantPlaylist E b h v t)" "rel (serveMasterPlaylist E h i)"
  "rel (serveVariantPlaylist E h v)" "rel (choose_playlist E q h i)" "rel (playlist_authorized E q i)"
  unfolding RewriteVariantPlaylist_def serveMasterPlaylist_def serveVariantPlaylist_def
    choose_playlist_def variant_error_def playlist_authorized_def Let_def
  by (intro read_intros rel_variant_lines)+

lemma rel_reading_handlers:
  "rel HealthHandler" "rel (GetMe q)" "rel (GetUserProfile E q)" "rel (GetUserVideos E q)"
  "rel (UserHandler_ListFollowers E q)" "rel (UserHandler_ListFollowing E q)"
  "rel (NotificationHandler_List E q)" "rel (HomeFeed E q)" "rel (Search E q)"
  "rel (VideoHandler_GetVideoDetail E q)" "rel (GetVideoStatus E q)" "rel (GetPlaylist E q)"
  "rel (ListComments E q)"
  unfolding HealthHandler_def GetMe_def GetUserProfile_def GetUserVideos_def user_videos_page_def
    UserHandler_ListFollowers_def UserHandler_ListFollowing_def assertCanSeeFollowList_def
    user_not_configured_def notification_not_configured_def NotificationHandler_List_def HomeFeed_def
    Search_def search_users_part_def search_videos_part_def VideoHandler_GetVideoDetail_def
    GetVideoStatus_def GetPlaylist_def ListComments_def video_not_configured_def not_configured_def
    Let_def
  by (intro read_intros rel_objects rel_playlists)+

lemma rel_HTTPErrorHandler: "rel (HTTPErrorHandler e)"
proof (rule relI)
  fix w
  have "rel (tryM (write_response s (BodyError c m d)) (\<lambda>_. ok ()) ok)" for s c m d
    by (intro base_intros)
  then show "R w (snd (HTTPErrorHandler e w))"
    by (auto simp: HTTPErrorHandler_def R_refl relD split: option.split prod.split)
qed

end

section \<open>Every task\<close>

locale task_rel = table_rel R for R :: "world \<Rightarrow> world \<Rightarrow> bool" and E :: env +
  assumes worker_writes: "rel (IncrementVideoRetry i)" "rel (MarkVideoReady i h th du)"
      "rel (MarkVideoFailed i)"
    and cleanup_write: "rel (HandleCleanupVideo E pv)"
begin

lemmas task_intros = read_intros worker_writes cleanup_write

text \<open>The worker, when what the other processes do satisfies the relation.\<close>

definition others_ok :: "worker \<Rightarrow> bool" where
  "others_ok K \<longleftrightarrow> (\<forall>stage. rel (interfere K stage))"

lemma rel_failure: "rel (fail_permanently i k)" "rel (handleTransient E v)"
  unfolding handleTransient_def fail_permanently_def logged_def markFailedDetached_def
  by (intro task_intros)+

lemma rel_give_up: "rel (cleanupOnFailure ks)" "rel (give_up E v ks)"
  unfolding give_up_def cleanupOnFailure_def logged_def by (intro task_intros rel_failure)+

lemma rel_ffmpeg: "others_ok K \<Longrightarrow> rel (runFFmpeg K st args)"
proof -
  assume o: "others_ok K"
  have "rel (put_files fs)" for fs
    by (induction fs) (auto intro!: task_intros)
  moreover have "rel (\<lambda>w. (Inr (wk_ffmpeg K args (w_files w)), w))" by (rule rel_local) simp
  ultimately show ?thesis using o unfolding runFFmpeg_def others_ok_def
    by (intro task_intros) auto
qed

lemma rel_uploadVariant: "rel (uploadVariant E wd h d)"
proof -
  have "rel (upload_names E vp kd us ns)" for vp kd us ns
    by (induction ns arbitrary: us) (auto simp: Let_def intro!: task_intros)
  then show ?thesis unfolding uploadVariant_def Let_def by (intro task_intros)
qed

lemma rel_variants:
  assumes "others_ok K" "\<And>ks. rel (cont ks)"
  shows "rel (run_variants E K v wd sp h tvs ks cont)"
proof (induction tvs arbitrary: ks)
  case (Cons tv tvs)
  then show ?case unfolding run_variants.simps Let_def
    by (intro task_intros rel_give_up rel_ffmpeg rel_uploadVariant assms)
qed (simp add: assms)

lemma rel_deferred: "rel m \<Longrightarrow> rel f \<Longrightarrow> rel (deferred m f)"
  unfolding rel_def deferred_def by (auto split: prod.split) (metis R_trans snd_conv)

lemma rel_transcode:
  assumes "others_ok K"
  shows "rel (HandleTranscode E K p)"
proof -
  have i: "rel (interfere K st)" for st using assms by (simp add: others_ok_def)
  show ?thesis
    unfolding HandleTranscode_def transcode_attempt_def process_source_def transcode_outputs_def
      publish_def ProbeFile_def fileSize_def writeMasterPlaylist_def logged_def Let_def
    by (intro task_intros rel_failure rel_give_up rel_ffmpeg rel_variants rel_deferred i assms)
qed

lemma rel_cleanup: "rel (HandleCleanupObjects E pk)"
  unfolding HandleCleanupObjects_def by (intro task_intros)

lemma rel_reconcile: "rel (HandleReconcileTick E p)"
proof -
  have "rel (list_prefixes E u rs ks)" for u rs ks
    by (induction rs arbitrary: ks) (auto simp: Let_def intro!: task_intros)
  then have "rel (reconcile_user E dr u)" for dr u
    unfolding reconcile_user_def listUserOrphanKeys_def logged_def by (intro task_intros)
  then have "rel (reconcile_users E dr us)" for dr us
    by (induction us) (auto intro!: task_intros)
  then show ?thesis unfolding HandleReconcileTick_def Let_def by (intro task_intros)
qed

lemma rel_HandleTask: "others_ok K \<Longrightarrow> rel (HandleTask E K t)"
  by (cases t) (simp_all add: rel_transcode rel_cleanup cleanup_write rel_reconcile)

end

section \<open>Every route\<close>

locale handler_rel = table_rel R for R :: "world \<Rightarrow> world \<Rightarrow> bool" and E :: env +
  assumes video_writes: "rel (InsertVideo u k t de)" "rel (UpdatePendingVideoR2Key i k)"
      "rel (UpdatePendingVideoMetadata i t de)" "rel (ConfirmVideoProcessing i u k)"
      "rel (MarkVideoDeleted i u)" "rel (IncrementVideoRetry i)" "rel (MarkVideoReady i h th du)"
      "rel (MarkVideoFailed i)" "rel (DeleteVideoRow i)"
    and user_writes: "rel (CreateUser z n dn)" "rel (DeactivateUser i)"
      "rel (UpdateUserProfile i dn bi av pr)" "rel (FollowUser a b)" "rel (DeleteFollow a b)"
      "rel (InsertNotification u a ty pl)" "rel (MarkAllNotificationsRead u)"
    and counter_writes: "rel (LikeVideo E q)" "rel (UnlikeVideo E q)" "rel (TrackView E q)"
      "rel (CreateComment E q cb)" "rel (DeleteComment E q)" "rel (ReplyComment E q cb)"
      "rel (deleteUserData E u)"
begin

lemmas write_intros = read_intros video_writes user_writes counter_writes

lemma rel_upload:
  "rel (UploadIntent E q bi)" "rel (ConfirmUpload E q bc)" "rel (DeleteVideo E q)"
  unfolding UploadIntent_def ConfirmUpload_def DeleteVideo_def pending_for_def create_pending_def
    reuse_pending_def confirm_tx_def video_not_configured_def Let_def
  by (intro write_intros)+

lemma rel_profile_writes:
  "rel (UpdateMe q bu)" "rel (UserHandler_FollowUser E q)" "rel (UnfollowUser E q)"
  "rel (MarkAllRead E q)" "rel (DeleteMe E q)"
  unfolding UpdateMe_def UserHandler_FollowUser_def UnfollowUser_def MarkAllRead_def DeleteMe_def
    insertFollowNotification_def user_not_configured_def notification_not_configured_def Let_def
  by (intro write_intros)+

lemma rel_webhook: "rel (WebhookHandler_Handle E raw evt q)"
  unfolding WebhookHandler_Handle_def handleUserDeactivated_def handleUserRemoved_def
    lookupUserIDByZitadelID_def processed_def DeleteUserData_def Let_def
  by (intro write_intros)

lemma rel_route_handler: "rel (route_handler E r q)"
  by (cases r)
    (simp_all add: rel_reading_handlers rel_upload rel_profile_writes rel_webhook counter_writes)

lemma rel_resolveUser: "rel (resolveUser E q)"
  unfolding resolveUser_def getOrCreateUser_def newUsername_def CheckToken_def Let_def
  by (intro write_intros)

lemma rel_NewRouter: "rel (NewRouter E r q)"
proof -
  have l: "rel (RateLimitAuth E (route_handler E r) q')" "rel (RateLimitWebhook E (route_handler E r) q')"
    for q' unfolding RateLimitAuth_def RateLimitWebhook_def Let_def
    by (intro write_intros rel_route_handler)+
  have "rel (Authenticate E (RateLimitAuth E (route_handler E r)) q)"
    "rel (AuthenticateOptional E (RateLimitWebhook E (route_handler E r)) q)"
    unfolding Authenticate_def AuthenticateOptional_def by (intro write_intros rel_resolveUser l)+
  then show ?thesis using l rel_route_handler [of r q]
    unfolding NewRouter_def by (cases r) (simp_all only: route.case)
qed

lemma rel_serve: "rel (serve E r q)"
  unfolding serve_def by (intro write_intros rel_NewRouter rel_HTTPErrorHandler)

lemma rel_cleanup_video: "rel (HandleCleanupVideo E pv)"
  unfolding HandleCleanupVideo_def finish_video_def delete_outputs_def logged_def Let_def
  by (intro write_intros)

end

sublocale handler_rel \<subseteq> task_rel R E
  by unfold_locales (intro video_writes rel_cleanup_video)+

section \<open>Statement by statement\<close>

locale statement_rel = table_rel R for R :: "world \<Rightarrow> world \<Rightarrow> bool" and E :: env +
  assumes S_video: "rel (InsertVideo u k t de)" "rel (UpdatePendingVideoR2Key i k)"
      "rel (UpdatePendingVideoMetadata i t de)" "rel (ConfirmVideoProcessing i u k)"
      "rel (MarkVideoDeleted i u)" "rel (IncrementVideoRetry i)" "rel (MarkVideoReady i h th du)"
      "rel (MarkVideoFailed i)" "rel (DeleteVideoRow i)" "rel (DeleteVideosByUser u)"
    and S_user: "rel (CreateUser z n dn)" "rel (DeactivateUser i)" "rel (TombstoneUser E i)"
      "rel (UpdateUserProfile i dn bi av pr)" "rel (FollowUser a b)" "rel (DeleteFollow a b)"
      "rel (DeleteFollowsByFollower a)" "rel (DeleteFollowsByFollowee a)"
    and S_social: "rel (InsertLike u v)" "rel (DeleteLike u v)" "rel (DeleteLikesByUser u)"
      "rel (InsertComment v u p co)" "rel (DeleteCommentByID i)" "rel (DeleteCommentsByUser u)"
      "rel (InsertNotification u a ty pl)" "rel (DeleteNotificationsForUser u)"
      "rel (DeleteNotificationsByActor u)" "rel (MarkAllNotificationsRead u)"
    and S_count: "rel (IncrementLikesCount i)" "rel (DecrementLikesCount i)"
      "rel (IncrementCommentsCount i)" "rel (DecrementCommentsCountBy i m)" "rel (IncrementViews i)"
      "rel (DecrementLikesForUser u)" "rel (DecrementCommentsForUser u)"
begin

lemmas S_intros = read_intros S_video S_user S_social S_count

lemma S_handlers:
  "rel (LikeVideo E q)" "rel (UnlikeVideo E q)" "rel (TrackView E q)" "rel (CreateComment E q cb)"
  "rel (DeleteComment E q)" "rel (ReplyComment E q cb)"
  unfolding LikeVideo_def UnlikeVideo_def TrackView_def CreateComment_def DeleteComment_def
    ReplyComment_def social_txs insertSocialNotification_def not_configured_def Let_def
  by (intro S_intros)+

lemma S_deleteUserData: "rel (deleteUserData E u)"
  unfolding deleteUserData_def collectUserR2Keys_def delete_user_tx_def Let_def
  by (intro S_intros)

end

sublocale statement_rel \<subseteq> handler_rel R E
  by unfold_locales
    (intro S_video S_user S_social S_handlers S_deleteUserData)+

lemmas supplied_base = supplied_query supplied_exec supplied_exec_insert

lemmas all_stmts = video_stmts user_stmts social_stmts update_videos_def update_video_one_def
  update_user_one_def

interpretation supply_tables: table_rel supply_le
  by unfold_locales auto

interpretation supply_sys: statement_rel supply_le E for E
  by unfold_locales (simp_all only: all_stmts supplied_base)

end
