(* ===== verification/Reach.thy ===== *)
theory Reach
  imports Systems
begin

text \<open>
  The system as a whole: requests and tasks in any order, with any failures, from
  the empty tables; and what holds in every state it reaches.
\<close>

section \<open>Invariants of the tables as relations\<close>

definition inv_rel :: "(db \<Rightarrow> bool) \<Rightarrow> world \<Rightarrow> world \<Rightarrow> bool" where
  "inv_rel I w w' \<longleftrightarrow> supply_le w w' \<and> (I (w_db w) \<longrightarrow> I (w_db w'))"

interpretation inv: table_rel "inv_rel I" for I
  by unfold_locales (auto simp: inv_rel_def supply_le_def)

lemma inv_rel_of: "preserves I m \<Longrightarrow> supplied.rel m \<Longrightarrow> inv.rel I m"
  by (simp add: preserves_rel dbinv.rel_def supplied.rel_def inv.rel_def inv_rel_def)

lemma preserves_of_inv: "inv.rel I m \<Longrightarrow> preserves I m"
  by (simp add: preserves_rel dbinv.rel_def inv.rel_def inv_rel_def)

section \<open>Likes\<close>

lemma likes_InsertVideo: "preserves likes_inv (InsertVideo u k t de)"
  unfolding InsertVideo_def
proof (rule preserves_exec_insert)
  fix i now d x d'
  assume a: "likes_inv d" "constraints d'"
    and eq: "(let v = \<lparr>v_ID = i, v_UserID = u, v_Title = t, v_Description = de, v_R2Key = k,
         v_HlsPrefix = None, v_ThumbnailKey = None, v_DurationSeconds = None,
         v_Status = PENDING_UPLOAD, v_RetryCount = 0, v_LikesCount = 0, v_ViewsCount = 0,
         v_CommentsCount = 0, v_CreatedAt = now, v_DeletedAt = None\<rparr>
       in Inr (v, d\<lparr>videos := videos d @ [v]\<rparr>)) = (Inr (x, d') :: goerr + Video \<times> db)"
  have d': "videos d' = videos d @ [x]" "likes d' = likes d" "v_ID x = i" "v_LikesCount x = 0"
    using eq by (auto simp: Let_def)
  have "i \<notin> v_ID ` set (videos d)" using a(2) d' by (auto simp: constraints_def videos_ok_def)
  moreover have "l_VideoID ` set (likes d) \<subseteq> v_ID ` set (videos d)"
    using a(1) by (auto simp: likes_inv_def constraints_def likes_ok_def list_all_iff)
  ultimately have "count_rows (\<lambda>l. l_VideoID l = i) (likes d) = 0"
    by (auto simp: count_rows_def filter_empty_conv)
  then have "likes_exact d'"
    using a(1) d' by (auto simp: likes_inv_def likes_exact_def like_rows_def)
  then show "likes_inv d'" using a(2) by (simp add: likes_inv_def)
qed

lemma likes_DeleteVideoRow: "preserves likes_inv (DeleteVideoRow i)"
  unfolding DeleteVideoRow_def
  by (rule preserves_exec) (auto simp: likes_inv_def intro: delete_videos_likes_exact)

lemma likes_writes:
  "preserves likes_inv (UpdatePendingVideoR2Key i k)" "preserves likes_inv (UpdatePendingVideoMetadata i t de)"
  "preserves likes_inv (ConfirmVideoProcessing i u k)" "preserves likes_inv (MarkVideoDeleted i u)"
  "preserves likes_inv (IncrementVideoRetry i)" "preserves likes_inv (MarkVideoReady i h th du)"
  "preserves likes_inv (MarkVideoFailed i)" "preserves likes_inv (DeactivateUser i)"
  "preserves likes_inv (UpdateUserProfile i dn bi av pr)" "preserves likes_inv (FollowUser a b)"
  "preserves likes_inv (DeleteFollow a b)" "preserves likes_inv (MarkAllNotificationsRead u)"
  unfolding video_stmts user_stmts social_stmts update_video_one_def update_user_one_def
  by (rule likes_frame_exec, auto simp: Let_def like_view_update_videos split: option.splits if_splits)+

lemma likes_CreateUser: "preserves likes_inv (CreateUser z n dn)"
  unfolding CreateUser_def
  by (rule likes_frame_exec_insert, auto simp: Let_def split: if_splits)

interpretation likes_sys: handler_rel "inv_rel likes_inv" E for E
  by unfold_locales
    (rule inv_rel_of, rule likes_InsertVideo likes_writes likes_CreateUser likes_DeleteVideoRow
      frame_Notification social_likes_inv deleteUserData_likes,
     rule supply_sys.video_writes supply_sys.user_writes supply_sys.counter_writes)+

section \<open>Replies\<close>

lemma replies_writes:
  "preserves replies_inv (UpdatePendingVideoR2Key i k)" "preserves replies_inv (UpdatePendingVideoMetadata i t de)"
  "preserves replies_inv (ConfirmVideoProcessing i u k)" "preserves replies_inv (MarkVideoDeleted i u)"
  "preserves replies_inv (IncrementVideoRetry i)" "preserves replies_inv (MarkVideoReady i h th du)"
  "preserves replies_inv (MarkVideoFailed i)" "preserves replies_inv (DeactivateUser i)"
  "preserves replies_inv (UpdateUserProfile i dn bi av pr)" "preserves replies_inv (FollowUser a b)"
  "preserves replies_inv (DeleteFollow a b)" "preserves replies_inv (MarkAllNotificationsRead u)"
  unfolding video_stmts user_stmts social_stmts update_video_one_def update_user_one_def
  by (rule replies_frame_exec, auto simp: Let_def split: option.splits if_splits)+

lemma replies_inserts:
  "preserves replies_inv (InsertVideo u k t de)" "preserves replies_inv (CreateUser z n dn)"
  unfolding InsertVideo_def CreateUser_def
  by (rule replies_frame_exec_insert, auto simp: Let_def split: if_splits)+

interpretation replies_sys: handler_rel "inv_rel replies_inv" E for E
  by unfold_locales
    (rule inv_rel_of, rule replies_writes replies_inserts replies_delete_videos
      frame_Notification social_replies_inv deleteUserData_replies,
     rule supply_sys.video_writes supply_sys.user_writes supply_sys.counter_writes)+

section \<open>Reachable states\<close>

text \<open>
  Between two steps the clock moves and the outside world decides which calls will
  fail.  A queued task may be run again: the queue delivers at least once.
\<close>

definition at_step :: "time \<Rightarrow> string option list \<Rightarrow> world \<Rightarrow> world" where
  "at_step t fs w = w\<lparr>w_clock := t, w_faults := fs, w_out := []\<rparr>"

inductive system_step :: "env \<Rightarrow> worker \<Rightarrow> world \<Rightarrow> world \<Rightarrow> bool" for E K where
  request: "w_clock w \<le> t \<Longrightarrow>
    system_step E K w (snd (serve E r q (at_step t fs w)))"
| task: "x \<in> set (w_queue w) \<Longrightarrow> w_clock w + q_delay x \<le> t \<Longrightarrow>
    system_step E K w (snd (HandleTask E K (q_task x) (at_step t fs w)))"
| dequeue: "system_step E K w (w\<lparr>w_queue := remove1 x (w_queue w)\<rparr>)"
| janitor: "system_step E K w (snd (sweep l ttl w))"

inductive_cases system_stepE: "system_step E K w w'"

definition empty_db :: db where
  "empty_db = \<lparr>users = [], videos = [], follows = [], likes = [], comments = [], notifications = []\<rparr>"

inductive reachable :: "env \<Rightarrow> worker \<Rightarrow> world \<Rightarrow> bool" for E K where
  start: "w_db w = empty_db \<Longrightarrow> w_queue w = [] \<Longrightarrow> reachable E K w"
| step: "reachable E K w \<Longrightarrow> system_step E K w w' \<Longrightarrow> reachable E K w'"

text \<open>A relation kept by every request and every task is kept by every step.\<close>

lemma at_step_db [simp]:
  "w_db (at_step t fs w) = w_db w" "w_uuids (at_step t fs w) = w_uuids w"
  "w_next (at_step t fs w) = w_next w"
  by (simp_all add: at_step_def)

context handler_rel
begin

lemma rel_step:
  assumes "system_step E K w w'" "others_ok K"
  shows "R w w'"
  using assms(1)
proof cases
  case (request t r q fs)
  have "R w (at_step t fs w)" by (rule R_frame) (simp_all add: supply_le_def)
  moreover have "R (at_step t fs w) w'" unfolding request(1) by (rule relD) (rule rel_serve)
  ultimately show ?thesis by (rule R_trans)
next
  case (task x t fs)
  have "R w (at_step t fs w)" by (rule R_frame) (simp_all add: supply_le_def)
  moreover have "R (at_step t fs w) w'" unfolding task(1)
    by (rule relD) (rule rel_HandleTask [OF assms(2)])
  ultimately show ?thesis by (rule R_trans)
next
  case (dequeue x)
  then show ?thesis by (intro R_frame) (simp_all add: supply_le_def)
next
  case (janitor l ttl)
  then show ?thesis by (intro R_frame) (simp_all add: supply_le_def sweep_def)
qed

end

lemma empty_db_invs: "likes_inv empty_db" "replies_inv empty_db" "constraints empty_db"
  by (simp_all add: likes_inv_def replies_inv_def constraints_def empty_db_def users_ok_def
      videos_ok_def follows_ok_def likes_ok_def comments_ok_def notifications_ok_def likes_exact_def
      ranked_rows_def ranks_def)

lemma reachable_inv:
  assumes "reachable E K w" "\<And>w w'. system_step E K w w' \<Longrightarrow> inv_rel I w w'" "I empty_db"
  shows "I (w_db w)"
  using assms(1) by induction (auto simp: assms(3) inv_rel_def dest!: assms(2))

end
