(* ===== verification/Lifecycle.thy ===== *)
theory Lifecycle
  imports Reach
begin

text \<open>
  The life of a video.  The statuses are ordered by how far along they are; the
  relation \<^verbatim>\<open>evolves\<close> says that every video of the second world comes from one of
  the first with the same identifier and owner and a status not before, or has an
  identifier drawn in between.  The statements satisfy it one by one (marking a deleted
  video FAILED would break a table constraint), so every route and every task does.
\<close>

section \<open>The order of statuses\<close>

instantiation video_status :: linorder
begin

primrec stage :: "video_status \<Rightarrow> nat" where
  "stage PENDING_UPLOAD = 0"
| "stage PROCESSING = 1"
| "stage READY = 2"
| "stage FAILED = 3"
| "stage DELETED = 4"

definition less_eq_video_status :: "video_status \<Rightarrow> video_status \<Rightarrow> bool" where
  "less_eq_video_status a b \<longleftrightarrow> stage a \<le> stage b"

definition less_video_status :: "video_status \<Rightarrow> video_status \<Rightarrow> bool" where
  "less_video_status a b \<longleftrightarrow> stage a < stage b"

lemma stage_inj: "stage a = stage b \<Longrightarrow> a = b"
  by (cases a; cases b) auto

instance
  by standard (auto simp: less_eq_video_status_def less_video_status_def intro: stage_inj)

end

lemma stage_le [simp]: "stage s \<le> 4"
  by (cases s) simp_all

lemmas status_order = less_eq_video_status_def less_video_status_def

lemma DELETED_top [simp]: "s \<le> DELETED" "DELETED \<le> s \<longleftrightarrow> s = DELETED"
  by (cases s; simp add: status_order)+

section \<open>The relation\<close>

definition older :: "Video \<Rightarrow> Video \<Rightarrow> bool" where
  "older v v' \<longleftrightarrow> v_ID v = v_ID v' \<and> v_UserID v = v_UserID v' \<and> v_Status v \<le> v_Status v'"

lemma older_refl [simp]: "older v v"
  by (simp add: older_def)

lemma older_in: "v \<in> A \<Longrightarrow> \<exists>u \<in> A. older u v"
  by (rule bexI) simp_all

lemma older_trans: "older u v \<Longrightarrow> older v w \<Longrightarrow> older u w"
  by (auto simp: older_def)

definition videos_from :: "db \<Rightarrow> db \<Rightarrow> bool" where
  "videos_from d d' \<longleftrightarrow> (\<forall>v' \<in> set (videos d'). \<exists>v \<in> set (videos d). older v v')"

definition drawn :: "world \<Rightarrow> world \<Rightarrow> uuid set" where
  "drawn w w' = w_uuids w ` {w_next w ..< w_next w'}"

definition evolves :: "world \<Rightarrow> world \<Rightarrow> bool" where
  "evolves w w' \<longleftrightarrow> supply_le w w' \<and> (constraints (w_db w) \<longrightarrow> constraints (w_db w') \<and>
     (\<forall>v' \<in> set (videos (w_db w')).
        (\<exists>v \<in> set (videos (w_db w)). older v v') \<or> v_ID v' \<in> drawn w w'))"

lemma drawn_trans:
  assumes "supply_le u v" "supply_le v w"
  shows "drawn u v \<union> drawn v w \<subseteq> drawn u w"
proof -
  have "{w_next u ..< w_next v} \<union> {w_next v ..< w_next w} \<subseteq> {w_next u ..< w_next w}"
    using assms by (auto simp: supply_le_def)
  then show ?thesis using assms unfolding drawn_def supply_le_def by (simp, blast)
qed

interpretation life: table_rel evolves
proof
  fix u v w assume uv: "evolves u v" and vw: "evolves v w"
  have s: "supply_le u v" "supply_le v w" using uv vw by (simp_all add: evolves_def)
  show "evolves u w"
    unfolding evolves_def
  proof (intro conjI impI ballI)
    show "supply_le u w" using s by (rule supplied.R_trans)
    assume c: "constraints (w_db u)"
    then show "constraints (w_db w)" using uv vw by (simp add: evolves_def)
    fix x assume x: "x \<in> set (videos (w_db w))"
    have cv: "constraints (w_db v)" using uv c by (simp add: evolves_def)
    consider y where "y \<in> set (videos (w_db v))" "older y x" | "v_ID x \<in> drawn v w"
      using vw cv x by (auto simp: evolves_def)
    then show "(\<exists>y \<in> set (videos (w_db u)). older y x) \<or> v_ID x \<in> drawn u w"
    proof cases
      case 1
      then have "(\<exists>z \<in> set (videos (w_db u)). older z y) \<or> v_ID y \<in> drawn u v"
        using uv c by (auto simp: evolves_def)
      then show ?thesis using 1(2) older_trans drawn_trans [OF s] by (auto simp: older_def)
    next
      case 2
      then show ?thesis using drawn_trans [OF s] by blast
    qed
  qed
qed (auto simp: evolves_def supplied.R_refl intro: older_in)

section \<open>The statements\<close>

lemma evolves_exec:
  assumes "\<And>now d x d'. constraints d \<Longrightarrow> f now d = Inr (x, d') \<Longrightarrow> constraints d' \<Longrightarrow> videos_from d d'"
  shows "life.rel (exec f)"
proof -
  have same: "videos_from d d" for d by (auto simp: videos_from_def intro: older_in)
  have "triple (\<lambda>d. d = d0 \<and> constraints d) (exec f)
      (\<lambda>_ d. constraints d \<and> videos_from d0 d) (\<lambda>_ d. constraints d \<and> videos_from d0 d)" for d0
    by (rule triple_exec) (auto intro: assms same)
  then have "constraints (w_db w) \<Longrightarrow> constraints (w_db (snd (exec f w))) \<and>
      videos_from (w_db w) (w_db (snd (exec f w)))" for w
    unfolding triple_def by (auto dest!: spec [of _ w] split: sum.splits)
  then show ?thesis
    using supplied_exec [of f] unfolding life.rel_def supplied.rel_def evolves_def videos_from_def
    by blast
qed

lemma evolves_insert:
  assumes "\<And>i now d x d'. constraints d \<Longrightarrow> f i now d = Inr (x, d') \<Longrightarrow>
      \<forall>v' \<in> set (videos d'). v' \<in> set (videos d) \<or> v_ID v' = i"
  shows "life.rel (exec_insert f)"
proof (rule life.relI)
  fix w :: world
  let ?i = "w_uuids w (w_next w)" and ?v = "w\<lparr>w_next := Suc (w_next w)\<rparr>"
  have run: "exec_insert f w = exec (f ?i) ?v"
    by (simp add: exec_insert_def bindM_run new_uuid_def)
  have "triple (\<lambda>d. d = d0 \<and> constraints d) (exec (f ?i))
      (\<lambda>_ d. constraints d \<and> (\<forall>v' \<in> set (videos d). v' \<in> set (videos d0) \<or> v_ID v' = ?i))
      (\<lambda>_ d. constraints d \<and> (\<forall>v' \<in> set (videos d). v' \<in> set (videos d0) \<or> v_ID v' = ?i))" for d0
    by (rule triple_exec) (auto dest: assms)
  from this [of "w_db ?v"] have t: "constraints (w_db w) \<Longrightarrow> constraints (w_db (snd (exec (f ?i) ?v))) \<and>
      (\<forall>v' \<in> set (videos (w_db (snd (exec (f ?i) ?v)))). v' \<in> set (videos (w_db w)) \<or> v_ID v' = ?i)"
    unfolding triple_def by (auto dest!: spec [of _ ?v] split: sum.splits)
  have s: "supply_le ?v (snd (exec (f ?i) ?v))" using supplied_exec by (rule supplied.relD)
  then have "?i \<in> drawn w (snd (exec (f ?i) ?v))" "supply_le w (snd (exec (f ?i) ?v))"
    by (auto simp: drawn_def supply_le_def)
  then show "evolves w (snd (exec_insert f w))"
    using t unfolding run evolves_def by (metis older_refl)
qed

lemma videos_from_subset: "set (videos d') \<subseteq> set (videos d) \<Longrightarrow> videos_from d d'"
  by (auto simp: videos_from_def intro: older_in)

lemma videos_from_update:
  assumes "\<And>v. v \<in> set (videos d) \<Longrightarrow> P v \<Longrightarrow> older v (f v)"
  shows "videos_from d (d\<lparr>videos := update_rows P f (videos d)\<rparr>)"
  using assms by (auto simp: videos_from_def update_rows_def intro: older_refl)

text \<open>Updates that do not touch the status.\<close>

lemma life_update_one:
  assumes "\<And>now v. older v (f now v)"
  shows "life.rel (update_video_one P f)"
  unfolding update_video_one_def
  by (rule evolves_exec) (auto intro: videos_from_update assms split: option.splits)

lemma life_update:
  assumes "\<And>now v. older v (f now v)"
  shows "life.rel (update_videos P f)"
  unfolding update_videos_def by (rule evolves_exec) (auto intro: videos_from_update assms)

text \<open>Guarded updates of the status.\<close>

lemma life_guarded:
  assumes "\<And>now v. P v \<Longrightarrow> older v (f now v)"
  shows "life.rel (update_video_one P f)"
  unfolding update_video_one_def
  by (rule evolves_exec) (auto intro: videos_from_update assms split: option.splits)

text \<open>The constraint on \<^verbatim>\<open>deleted_at\<close> stops \<^verbatim>\<open>MarkVideoFailed\<close> on a deleted video.\<close>

lemma life_failed: "life.rel (MarkVideoFailed i)"
  unfolding MarkVideoFailed_def update_video_one_def
proof (rule evolves_exec)
  fix now d x d'
  assume c: "constraints d" "constraints d'"
    and eq: "(case find_row (\<lambda>v. v_ID v = i) (videos d) of
        None \<Rightarrow> Inl (Sentinel ErrNoRows)
      | Some v \<Rightarrow> Inr (v\<lparr>v_Status := FAILED\<rparr>,
          d\<lparr>videos := update_rows (\<lambda>v. v_ID v = i) (\<lambda>v. v\<lparr>v_Status := FAILED\<rparr>) (videos d)\<rparr>)) =
      (Inr (x, d') :: goerr + Video \<times> db)"
  then have d': "d' = d\<lparr>videos := update_rows (\<lambda>v. v_ID v = i) (\<lambda>v. v\<lparr>v_Status := FAILED\<rparr>) (videos d)\<rparr>"
    by (auto split: option.splits)
  have "older v (v\<lparr>v_Status := FAILED\<rparr>)" if v: "v \<in> set (videos d)" "v_ID v = i" for v
  proof -
    have "v\<lparr>v_Status := FAILED\<rparr> \<in> set (videos d')" using v by (force simp: d' update_rows_def)
    then have "v_DeletedAt v = None"
      using c(2) by (auto simp: constraints_def videos_ok_def list_all_iff video_row_ok_def)
    then have "v_Status v \<noteq> DELETED"
      using c(1) v by (auto simp: constraints_def videos_ok_def list_all_iff video_row_ok_def)
    then show ?thesis by (cases "v_Status v") (auto simp: older_def status_order)
  qed
  then show "videos_from d d'" unfolding d' by (intro videos_from_update)
qed

lemma life_video:
  "life.rel (InsertVideo u k t de)" "life.rel (UpdatePendingVideoR2Key i k)"
  "life.rel (UpdatePendingVideoMetadata i t de)" "life.rel (ConfirmVideoProcessing i u k)"
  "life.rel (MarkVideoDeleted i u)" "life.rel (IncrementVideoRetry i)" "life.rel (MarkVideoReady i h th du)"
  "life.rel (DeleteVideoRow i)" "life.rel (DeleteVideosByUser u)"
  "life.rel (IncrementLikesCount i)" "life.rel (DecrementLikesCount i)"
  "life.rel (IncrementCommentsCount i)" "life.rel (DecrementCommentsCountBy i m)"
  "life.rel (IncrementViews i)" "life.rel (DecrementLikesForUser u)" "life.rel (DecrementCommentsForUser u)"
  unfolding InsertVideo_def UpdatePendingVideoR2Key_def UpdatePendingVideoMetadata_def
    ConfirmVideoProcessing_def MarkVideoDeleted_def IncrementVideoRetry_def MarkVideoReady_def
    DeleteVideoRow_def DeleteVideosByUser_def IncrementLikesCount_def DecrementLikesCount_def
    IncrementCommentsCount_def DecrementCommentsCountBy_def IncrementViews_def
    DecrementLikesForUser_def DecrementCommentsForUser_def decrement_likes_for_def
    decrement_comments_for_def
  by ((rule evolves_insert life_guarded life_update evolves_exec,
      auto simp: Let_def older_def status_order delete_videos_videos
        intro: videos_from_subset intro!: videos_from_update)+)

lemma life_same_videos:
  assumes "\<And>now d x d'. f now d = Inr (x, d') \<Longrightarrow> videos d' = videos d"
  shows "life.rel (exec f)"
  by (rule evolves_exec) (auto intro: videos_from_subset dest!: assms)

lemma life_insert_other:
  assumes "\<And>i now d x d'. f i now d = Inr (x, d') \<Longrightarrow> videos d' = videos d"
  shows "life.rel (exec_insert f)"
  by (rule evolves_insert) (auto dest!: assms)

lemma life_other:
  "life.rel (DeactivateUser i)" "life.rel (TombstoneUser E i)"
  "life.rel (UpdateUserProfile i dn bi av pr)" "life.rel (FollowUser a b)" "life.rel (DeleteFollow a b)"
  "life.rel (DeleteFollowsByFollower a)" "life.rel (DeleteFollowsByFollowee a)"
  "life.rel (InsertLike u v)" "life.rel (DeleteLike u v)" "life.rel (DeleteLikesByUser u)"
  "life.rel (DeleteCommentByID i)" "life.rel (DeleteCommentsByUser u)"
  "life.rel (DeleteNotificationsForUser u)"
  "life.rel (DeleteNotificationsByActor u)" "life.rel (MarkAllNotificationsRead u)"
  unfolding user_stmts social_stmts update_user_one_def
  by (rule life_same_videos, auto simp: Let_def delete_comments_def split: option.splits if_splits)+

lemma life_inserts:
  "life.rel (CreateUser z n dn)" "life.rel (InsertComment v u p co)" "life.rel (InsertNotification u a ty pl)"
  unfolding CreateUser_def InsertComment_def InsertNotification_def
  by (rule life_insert_other, auto simp: Let_def split: if_splits)+

interpretation life_sys: statement_rel evolves E for E
  by unfold_locales (intro life_video life_failed life_other life_inserts)+

end
