(* ===== verification/Access.thy ===== *)
theory Access
  imports Lifecycle
begin

text \<open>
  Who gets to see what.  Without failures the visibility checks compute the predicates
  of \<^verbatim>\<open>Visibility\<close>; with failures they can only refuse more.
\<close>

section \<open>Runs without failures\<close>

named_theorems calm \<open>calls in a world without scheduled failures\<close>

lemma calm_fault [calm]: "w_faults w = [] \<Longrightarrow> fault w = (Inr (), w)"
  by (rule fault_none)

lemma calm_query [calm]: "w_faults w = [] \<Longrightarrow> query f w = (f (w_db w), w)"
  by (simp add: query_def bindM_run calm_fault)

lemma calm_exec [calm]:
  "w_faults w = [] \<Longrightarrow> exec f w =
    (case f (pg_now w) (w_db w) of
       Inl e \<Rightarrow> (Inl e, w)
     | Inr (x, d') \<Rightarrow> if constraints d' then (Inr x, w\<lparr>w_db := d'\<rparr>) else (Inl constraint_error, w))"
  by (auto simp: exec_def bindM_run calm_fault split: sum.split prod.split)

lemma calm_write [calm]:
  "w_faults w = [] \<Longrightarrow> write_response s b w =
    (Inr (), w\<lparr>w_out := w_out w @ [\<lparr>r_status = s, r_body = b\<rparr>]\<rparr>)"
  by (simp add: write_response_def calm_fault)

lemma calm_client [calm]:
  "w_faults w = [] \<Longrightarrow> client_Enqueue t dl r w =
    (Inr (), w\<lparr>w_queue := w_queue w @ [\<lparr>q_task = t, q_delay = dl, q_max_retry = r\<rparr>]\<rparr>)"
  by (simp add: client_Enqueue_def bindM_run calm_fault)

lemma calm_now [calm]: "now_io w = (Inr (w_clock w), w)"
  by (simp add: now_io_def)

definition error_response :: "goerr \<Rightarrow> response" where
  "error_response e =
    (case ClassifyError (Some e) of
       (status, code, message, details) \<Rightarrow> \<lparr>r_status = status, r_body = BodyError code message details\<rparr>)"

lemma calm_RespondError [calm]:
  "w_faults w = [] \<Longrightarrow> RespondError e w = (Inr (), w\<lparr>w_out := w_out w @ [error_response e]\<rparr>)"
  by (simp add: RespondError_def error_response_def calm_write split: prod.split)

section \<open>The visibility rule\<close>

definition video_hidden :: goerr where
  "video_hidden = Wrap ErrNotFound ''video not found''"

lemma owner_visible_calm [calm]:
  assumes "w_faults w = []"
  shows "assertOwnerActiveVisible ownerID viewerID w =
    ((if owner_visible (w_db w) ownerID viewerID then Inr () else Inl video_hidden), w)"
  using assms
  by (auto simp: assertOwnerActiveVisible_def owner_visible_def GetUserByID_def IsFollowing_def
      run_simps calm_query one_row_def video_hidden_def split: option.split)

definition access_result :: "db \<Rightarrow> uuid \<Rightarrow> uuid \<Rightarrow> goerr + Video" where
  "access_result d viewerID videoID =
    (case find_row (\<lambda>v. v_ID v = videoID) (videos d) of
       None \<Rightarrow> Inl video_hidden
     | Some v \<Rightarrow> if may_access d viewerID v then Inr v else Inl video_hidden)"

lemma video_access_calm [calm]:
  assumes "w_faults w = []"
  shows "assertVideoOwnerOrVisible viewerID videoID w = (access_result (w_db w) viewerID videoID, w)"
  using assms
  by (auto simp: assertVideoOwnerOrVisible_def access_result_def may_access_def GetVideoByID_def
      run_simps calm_query owner_visible_calm one_row_def video_hidden_def
      split: option.split)

text \<open>With failures: an accepted request is one the rule accepts, and no table has changed.\<close>

lemma owner_visible_sound:
  "triple (\<lambda>d. d = d0) (assertOwnerActiveVisible ownerID viewerID)
     (\<lambda>_ d. d = d0 \<and> owner_visible d0 ownerID viewerID) (\<lambda>_ d. d = d0)"
proof -
  let ?found = "\<lambda>u. find_row (\<lambda>u. u_ID u = ownerID) (users d0) = Some u"
  have g: "triple (\<lambda>d. d = d0) (GetUserByID ownerID) (\<lambda>u d. d = d0 \<and> ?found u) (\<lambda>_ d. d = d0)"
    unfolding GetUserByID_def by (rule triple_query) (auto simp: one_row_def split: option.splits)
  have f: "triple (\<lambda>d. d = d0 \<and> P) (IsFollowing viewerID ownerID)
      (\<lambda>b d. d = d0 \<and> P \<and> b = follows_edge d0 viewerID ownerID) (\<lambda>_ d. d = d0)" for P
    unfolding IsFollowing_def by (rule triple_query) auto
  show ?thesis
    unfolding assertOwnerActiveVisible_def
    by (rule triple_tryM [OF g])
       (auto intro!: triple_if triple_throw triple_ok triple_tryM [OF f] simp: owner_visible_def)
qed

lemma video_access_sound:
  "triple (\<lambda>d. d = d0) (assertVideoOwnerOrVisible viewerID videoID)
     (\<lambda>v d. d = d0 \<and> find_row (\<lambda>v. v_ID v = videoID) (videos d0) = Some v \<and> may_access d0 viewerID v)
     (\<lambda>_ d. d = d0)"
proof -
  let ?found = "\<lambda>v. find_row (\<lambda>v. v_ID v = videoID) (videos d0) = Some v"
  have g: "triple (\<lambda>d. d = d0) (GetVideoByID videoID) (\<lambda>v d. d = d0 \<and> ?found v) (\<lambda>_ d. d = d0)"
    unfolding GetVideoByID_def by (rule triple_query) (auto simp: one_row_def split: option.splits)
  have o': "triple (\<lambda>d. d = d0 \<and> P) (assertOwnerActiveVisible ownerID viewerID)
     (\<lambda>_ d. d = d0 \<and> P \<and> owner_visible d0 ownerID viewerID) (\<lambda>_ d. d = d0)" for P ownerID
    using owner_visible_sound [of d0 ownerID viewerID]
    by (auto simp: triple_def split: sum.splits)
  show ?thesis
    unfolding assertVideoOwnerOrVisible_def
    by (rule triple_tryM [OF g])
       (auto intro!: triple_if triple_throw triple_ok triple_tryM [OF o'] simp: may_access_def)
qed

text \<open>A handler whose access check fails leaves the tables alone.\<close>

lemma hidden_blocks:
  assumes hidden: "\<And>v. find_row (\<lambda>v. v_ID v = videoID) (videos (w_db w)) = Some v \<Longrightarrow>
      \<not> may_access (w_db w) viewerID v"
  shows "w_db (snd (tryM (assertVideoOwnerOrVisible viewerID videoID) RespondError k w)) = w_db w"
proof -
  let ?m = "assertVideoOwnerOrVisible viewerID videoID"
  have t: "triple (\<lambda>d. d = w_db w) ?m (\<lambda>_ _. False) (\<lambda>_ d. d = w_db w)"
    by (rule triple_weaken [OF video_access_sound]) (auto dest: hidden)
  have r: "dbsame.rel (RespondError e)" for e by (rule dbsame_Respond)
  show ?thesis
    using tripleD [OF t, of w] r by (cases "fst (?m w)") (auto simp: tryM_run dbsame.rel_def)
qed

lemmas hidden_handlers = LikeVideo_def UnlikeVideo_def TrackView_def

end
