(* ===== verification/Answers.thy ===== *)
theory Answers
  imports Access
begin

text \<open>
  How many responses a request gets.  A handler is built from calls that write nothing
  and ends in one response; the two follow lists are the exception, because their guard
  answers by itself and reports success.
\<close>

section \<open>Calls that cannot fail\<close>

definition succeeds :: "'a io \<Rightarrow> bool" where
  "succeeds m \<longleftrightarrow> (\<forall>w. \<exists>x. fst (m w) = Inr x)"

lemma succeeds_ok: "succeeds (ok x)"
  by (simp add: succeeds_def ok_def)

lemma succeeds_now: "succeeds now_io"
  by (simp add: succeeds_def now_io_def)

lemma succeeds_new_uuid: "succeeds new_uuid"
  by (simp add: succeeds_def new_uuid_def)

lemma succeeds_tryM:
  "(\<And>e. succeeds (h e)) \<Longrightarrow> (\<And>x. succeeds (k x)) \<Longrightarrow> succeeds (tryM m h k)"
  by (auto simp: succeeds_def tryM_run split: sum.split)

lemma succeeds_bindM: "succeeds m \<Longrightarrow> (\<And>x. succeeds (k x)) \<Longrightarrow> succeeds (bindM m k)"
  unfolding succeeds_def bindM_run by (metis old.sum.simps(6))

lemma succeeds_if: "succeeds m \<Longrightarrow> succeeds m' \<Longrightarrow> succeeds (if b then m else m')"
  by simp

lemma succeeds_option:
  "succeeds m \<Longrightarrow> (\<And>y. succeeds (f y)) \<Longrightarrow> succeeds (case x of None \<Rightarrow> m | Some y \<Rightarrow> f y)"
  by (cases x) auto

lemma succeeds_sum:
  "(\<And>e. succeeds (g e)) \<Longrightarrow> (\<And>y. succeeds (f y)) \<Longrightarrow>
    succeeds (case x of Inl e \<Rightarrow> g e | Inr y \<Rightarrow> f y)"
  by (cases x) auto

lemma succeeds_prod: "(\<And>a b. succeeds (f a b)) \<Longrightarrow> succeeds (case x of (a, b) \<Rightarrow> f a b)"
  by (cases x) auto

lemma succeeds_mapM: "(\<And>x. succeeds (f x)) \<Longrightarrow> succeeds (mapM xs f)"
  by (induction xs) (auto intro: succeeds_ok succeeds_bindM)

lemmas succeeds_intros = succeeds_ok succeeds_now succeeds_new_uuid succeeds_tryM succeeds_bindM
  succeeds_if succeeds_option succeeds_sum succeeds_prod succeeds_mapM

lemma succeeds_VideoObject: "succeeds (VideoObject E r b)"
  unfolding VideoObject_def buildThumbnailURL_def buildPlaylistURL_def Let_def
  by (intro succeeds_intros)

lemma quiet_VideoObject: "quiet.rel (VideoObject E r b)"
  unfolding VideoObject_def buildThumbnailURL_def buildPlaylistURL_def Let_def
  by (intro quiet_intros quiet_R2)

lemma writes1_bindM:
  assumes "quiet.rel m" "succeeds m" "\<And>x. writes1 (k x)"
  shows "writes1 (bindM m k)"
  unfolding writes1_def
proof
  fix w
  obtain x where x: "fst (m w) = Inr x" using assms(2) by (auto simp: succeeds_def)
  obtain r where "w_out (snd (k x (snd (m w)))) = w_out (snd (m w)) @ [r]"
    using assms(3) [of x] by (auto simp: writes1_def)
  then show "\<exists>r. w_out (snd (bindM m k w)) = w_out w @ [r]"
    using assms(1) by (simp add: bindM_run x quiet.rel_def)
qed

lemma writes1_bound:
  "(\<And>e. b = BindError e \<Longrightarrow> writes1 (g e)) \<Longrightarrow> (\<And>x v. b = Bound x v \<Longrightarrow> writes1 (f x v)) \<Longrightarrow>
    writes1 (case b of BindError e \<Rightarrow> g e | Bound x v \<Rightarrow> f x v)"
  by (cases b) auto

section \<open>The handlers\<close>

lemmas objects = videoObjectFromDetail_def videoObjectFromFeedRow_def videoObjectFromSearchRow_def

lemma quiet_search: "quiet.rel (SearchUsers v pat raw off m)" "quiet.rel (SearchVideos v pat off m)"
  unfolding SearchUsers_def SearchVideos_def by (rule quiet_query)+

lemma quiet_parts:
  "quiet.rel (search_users_part u s off m)" "quiet.rel (search_videos_part E u s off m)"
  unfolding search_users_part_def search_videos_part_def objects Let_def
  by (intro quiet_intros quiet_search quiet_VideoObject)+

lemma quiet_upload:
  "quiet.rel (pending_for E u t d)" "quiet.rel (confirm_tx E u i k)"
  unfolding pending_for_def create_pending_def reuse_pending_def confirm_tx_def Let_def
  by (intro quiet_intros quiet_R2 quiet_enqueue)+

lemma quiet_variant_lines: "quiet.rel (variant_lines E base ttl ls)"
proof (induction ls)
  case (Cons l ls)
  then show ?case unfolding variant_lines.simps Let_def by (intro quiet_intros quiet_R2)
qed (simp add: quiet.rel_ok)

lemma quiet_playlist:
  "quiet.rel (RewriteVariantPlaylist E b h v t)" "quiet.rel (playlist_authorized E q i)"
  "quiet.rel (assertVideoReadyVisible o' u)"
  unfolding RewriteVariantPlaylist_def playlist_authorized_def assertVideoReadyVisible_def Let_def
  by (intro quiet_intros quiet_variant_lines quiet_visibility)+

lemma quiet_lookup: "quiet.rel (lookupUserIDByZitadelID s)"
  unfolding lookupUserIDByZitadelID_def by (intro quiet_intros)

lemma quiet_follow: "quiet.rel (insertFollowNotification E t a)"
  unfolding insertFollowNotification_def by (intro quiet_intros)

lemmas once_intros = writes1_intros writes1_bindM writes1_bound quiet_intros quiet_visibility
  quiet_R2 quiet_enqueue quiet_search quiet_parts quiet_upload quiet_playlist quiet_lookup
  quiet_follow quiet_deleteUserData quiet_VideoObject succeeds_intros succeeds_VideoObject

lemmas not_configured_defs = user_not_configured_def notification_not_configured_def
  video_not_configured_def

lemma profiles_once:
  "writes1 HealthHandler" "writes1 (GetMe q)" "writes1 (UpdateMe q bu)" "writes1 (GetUserProfile E q)"
  "writes1 (GetUserVideos E q)" "writes1 (UserHandler_FollowUser E q)" "writes1 (UnfollowUser E q)"
  unfolding HealthHandler_def GetMe_def UpdateMe_def GetUserProfile_def GetUserVideos_def
    user_videos_page_def UserHandler_FollowUser_def UnfollowUser_def not_configured_defs Let_def
  by (intro once_intros)+

lemma lists_once:
  "writes1 (NotificationHandler_List E q)" "writes1 (MarkAllRead E q)" "writes1 (HomeFeed E q)"
  "writes1 (Search E q)"
  unfolding NotificationHandler_List_def MarkAllRead_def HomeFeed_def Search_def objects
    not_configured_defs Let_def
  by (intro once_intros)+

lemma videos_once:
  "writes1 (UploadIntent E q bi)" "writes1 (ConfirmUpload E q bc)" "writes1 (DeleteVideo E q)"
  "writes1 (VideoHandler_GetVideoDetail E q)" "writes1 (GetVideoStatus E q)"
  unfolding UploadIntent_def ConfirmUpload_def DeleteVideo_def VideoHandler_GetVideoDetail_def
    GetVideoStatus_def objects not_configured_defs Let_def
  by (intro once_intros)+

lemma playlist_once: "writes1 (GetPlaylist E q)"
  unfolding GetPlaylist_def choose_playlist_def serveMasterPlaylist_def serveVariantPlaylist_def
    variant_error_def not_configured_defs Let_def
  by (intro once_intros)

lemma webhook_once: "writes1 (WebhookHandler_Handle E raw evt q)"
  unfolding WebhookHandler_Handle_def handleUserDeactivated_def handleUserRemoved_def
    processed_def Let_def
  by (intro once_intros)

definition follow_list :: "route \<Rightarrow> bool" where
  "follow_list r \<longleftrightarrow> r = FollowersRoute \<or> r = FollowingRoute"

lemma handlers_once: "\<not> follow_list r \<Longrightarrow> writes1 (route_handler E r q)"
  by (cases r) (simp_all add: follow_list_def profiles_once lists_once videos_once playlist_once
      webhook_once social_writes1 writes1_DeleteMe)

section \<open>The middleware\<close>

lemma hoare_quiet: "quiet.rel m \<Longrightarrow> hoare (\<lambda>w. w_out w = os) m (\<lambda>_ w. w_out w = os) (\<lambda>_ w. w_out w = os)"
  by (rule hoareI) (simp_all add: quiet.rel_def)

lemma hoare_RespondError:
  "hoare (\<lambda>w. w_out w = os) (RespondError e) (\<lambda>_ w. \<exists>r. w_out w = os @ [r]) (\<lambda>_ w. \<exists>r. w_out w = os @ [r])"
  using writes1_RespondError [of e] by (intro hoareI) (auto simp: writes1_def)

lemma quiet_account: "quiet.rel (getOrCreateUser sub)" "quiet.rel (CheckToken E t)"
  unfolding getOrCreateUser_def newUsername_def CheckToken_def by (intro quiet_intros)+

text \<open>
  A token is accepted silently, or it is rejected with one response; the request goes
  on either way.
\<close>

lemma resolveUser_out:
  "hoare (\<lambda>w. w_out w = os) (resolveUser E q)
     (\<lambda>q' w. w_out w = os \<and> (\<exists>u. q' = q\<lparr>req_user := Some u\<rparr>) \<or> q' = q \<and> (\<exists>r. w_out w = os @ [r]))
     (\<lambda>_ w. \<exists>r. w_out w = os @ [r])"
proof -
  have reject: "hoare (\<lambda>w. w_out w = os) (bindM (RespondError e) (\<lambda>_. ok q))
     (\<lambda>q' w. w_out w = os \<and> (\<exists>u. q' = q\<lparr>req_user := Some u\<rparr>) \<or> q' = q \<and> (\<exists>r. w_out w = os @ [r]))
     (\<lambda>_ w. \<exists>r. w_out w = os @ [r])" for e
    by (rule hoare_bindM [OF hoare_RespondError]) (rule hoare_ok, simp)
  show ?thesis
    unfolding resolveUser_def Let_def
    by (intro hoare_intros reject hoare_tryM [OF hoare_quiet] quiet_account hoare_ok) auto
qed

lemma allow_once: "quiet.rel (allow E l i)" "succeeds (allow E l i)"
  by (simp_all add: quiet.rel_def succeeds_def allow_def set_entry_def Let_def)

lemma limited_once:
  assumes "\<And>q. writes1 (h q)"
  shows "writes1 (RateLimitAuth E h q)" "writes1 (RateLimitWebhook E h q)"
  unfolding RateLimitAuth_def RateLimitWebhook_def Let_def
  by (intro writes1_intros writes1_bindM allow_once assms)+

section \<open>The two follow lists\<close>

definition writes12 :: "'a io \<Rightarrow> bool" where
  "writes12 m \<longleftrightarrow> (\<forall>w. \<exists>rs. w_out (snd (m w)) = w_out w @ rs \<and> 1 \<le> length rs \<and> length rs \<le> 2)"

lemma writes12D:
  "writes12 m \<Longrightarrow> \<exists>rs. w_out (snd (m w)) = w_out w @ rs \<and> 1 \<le> length rs \<and> length rs \<le> 2"
  by (simp add: writes12_def)

lemma writes12_of: "writes1 m \<Longrightarrow> writes12 m"
  unfolding writes1_def writes12_def
  by (metis One_nat_def Suc_1 le_SucI length_Cons list.size(3) order_refl)

lemma writes1_not12: "writes1 m \<Longrightarrow> w_out (snd (m w)) \<noteq> []"
  unfolding writes1_def by (metis snoc_eq_iff_butlast)

text \<open>The guard answers a refused request and reports success.\<close>

lemma guard_out:
  "hoare (\<lambda>w. w_out w = os) (assertCanSeeFollowList v t)
     (\<lambda>_ w. w_out w = os \<or> (\<exists>r. w_out w = os @ [r])) (\<lambda>_ w. \<exists>r. w_out w = os @ [r])"
proof -
  have e: "hoare (\<lambda>w. w_out w = os) (RespondError e)
     (\<lambda>_ w. w_out w = os \<or> (\<exists>r. w_out w = os @ [r])) (\<lambda>_ w. \<exists>r. w_out w = os @ [r])" for e
    by (rule hoare_weaken [OF hoare_RespondError]) auto
  show ?thesis
    unfolding assertCanSeeFollowList_def
    by (intro hoare_intros e hoare_tryM [OF hoare_quiet] quiet_user_stmts hoare_ok) auto
qed

lemma guarded12:
  assumes "\<And>x. writes1 (k x)"
  shows "writes12 (tryM (assertCanSeeFollowList v t) throw k)"
  unfolding writes12_def
proof
  fix w
  note g = hoareD [OF guard_out [of "w_out w" v t] refl]
  show "\<exists>rs. w_out (snd (tryM (assertCanSeeFollowList v t) throw k w)) = w_out w @ rs \<and>
      1 \<le> length rs \<and> length rs \<le> 2"
  proof (cases "fst (assertCanSeeFollowList v t w)")
    case (Inl e)
    then obtain r where "w_out (snd (assertCanSeeFollowList v t w)) = w_out w @ [r]" using g(2) by blast
    then show ?thesis using Inl by (auto simp: run_simps)
  next
    case (Inr x)
    let ?v = "snd (assertCanSeeFollowList v t w)"
    obtain r where r: "w_out (snd (k x ?v)) = w_out ?v @ [r]"
      using assms [of x] by (auto simp: writes1_def)
    from g(1) [OF Inr] r Inr show ?thesis by (auto simp: run_simps)
  qed
qed

lemma writes12_cases:
  "(b \<Longrightarrow> writes12 m) \<Longrightarrow> (\<not> b \<Longrightarrow> writes12 m') \<Longrightarrow> writes12 (if b then m else m')"
  "(x = None \<Longrightarrow> writes12 m) \<Longrightarrow> (\<And>y. x = Some y \<Longrightarrow> writes12 (f y)) \<Longrightarrow>
    writes12 (case x of None \<Rightarrow> m | Some y \<Rightarrow> f y)"
  by (simp, cases x) auto

lemma follow_lists12: "writes12 (UserHandler_ListFollowers E q)" "writes12 (UserHandler_ListFollowing E q)"
  unfolding UserHandler_ListFollowers_def UserHandler_ListFollowing_def not_configured_defs
  by (intro writes12_cases guarded12 writes12_of once_intros)+

lemma handlers12: "writes12 (route_handler E r q)"
proof (cases "follow_list r")
  case True
  then show ?thesis by (auto simp: follow_list_def follow_lists12)
qed (simp add: writes12_of handlers_once)

section \<open>A whole request\<close>

definition needs_token :: "route \<Rightarrow> request \<Rightarrow> bool" where
  "needs_token r q \<longleftrightarrow> grouped r \<or> r = PlaylistRoute \<and> req_header q ''Authorization'' \<noteq> []"

definition identified :: "env \<Rightarrow> request \<Rightarrow> world \<Rightarrow> bool" where
  "identified E q w \<longleftrightarrow> (\<exists>q' u. fst (resolveUser E q w) = Inr q' \<and> req_user q' = Some u)"

text \<open>A chain that has answered is not answered again by the error handler.\<close>

lemma serve_out:
  assumes "w_out w = []" "w_out (snd (NewRouter E r (q\<lparr>req_user := None\<rparr>) w)) \<noteq> []"
  shows "w_out (snd (serve E r q w)) = w_out (snd (NewRouter E r (q\<lparr>req_user := None\<rparr>) w))"
  using assms by (simp add: serve_def run_simps HTTPErrorHandler_def split: sum.split)

text \<open>The two shapes of a chain.\<close>

lemma chain_token:
  assumes "needs_token r q"
  obtains "NewRouter E r q = tryM (resolveUser E q) throw (RateLimitAuth E (route_handler E r))"
  | "r = PlaylistRoute" "NewRouter E r q = tryM (resolveUser E q) throw (RateLimitWebhook E (route_handler E r))"
proof (cases "grouped r")
  case True
  then have "NewRouter E r q = tryM (resolveUser E q) throw (RateLimitAuth E (route_handler E r))"
    by (simp only: NewRouter_grouped Authenticate_def)
  then show ?thesis by (rule that(1))
next
  case False
  then have "r = PlaylistRoute" "req_header q ''Authorization'' \<noteq> []"
    using assms by (simp_all add: needs_token_def)
  then show ?thesis using that(2) by (simp add: NewRouter_def AuthenticateOptional_def)
qed

lemma chain_open:
  assumes "\<not> needs_token r q"
  obtains "NewRouter E r q = route_handler E r q"
  | "NewRouter E r q = RateLimitWebhook E (route_handler E r) q"
  using assms by (cases r) (simp_all add: needs_token_def NewRouter_def AuthenticateOptional_def)

lemma authenticated_out:
  assumes "\<And>q. writes1 (h q)" "w_out w = []" "req_user q = None" "identified E q w"
  shows "\<exists>r. w_out (snd (tryM (resolveUser E q) throw h w)) = [r]"
proof -
  obtain q' u where q': "fst (resolveUser E q w) = Inr q'" "req_user q' = Some u"
    using assms(4) by (auto simp: identified_def)
  have "w_out (snd (resolveUser E q w)) = []"
    using hoareD(1) [OF resolveUser_out assms(2) q'(1)] q'(2) assms(3) by auto
  moreover obtain r where "w_out (snd (h q' (snd (resolveUser E q w)))) =
      w_out (snd (resolveUser E q w)) @ [r]"
    using assms(1) [of q'] by (auto simp: writes1_def)
  ultimately show ?thesis using q'(1) by (simp add: run_simps)
qed

lemma chain_once:
  assumes "\<not> follow_list r" "w_out w = []" "req_user q = None" "needs_token r q \<Longrightarrow> identified E q w"
  shows "\<exists>a. w_out (snd (NewRouter E r q w)) = [a]"
proof -
  have h: "writes1 (route_handler E r q)" for q by (rule handlers_once [OF assms(1)])
  note l = limited_once [OF h]
  have direct: "\<exists>a. w_out (snd (m w)) = [a]" if "writes1 m" for m :: "unit io"
    using that assms(2) by (auto simp: writes1_def dest: spec [of _ w])
  show ?thesis
  proof (cases "needs_token r q")
    case True
    then have "identified E q w" by (rule assms(4))
    note a = authenticated_out [OF _ assms(2,3) this]
    from True show ?thesis
    proof (rule chain_token [of r q E])
      assume e: "NewRouter E r q = tryM (resolveUser E q) throw (RateLimitAuth E (route_handler E r))"
      show ?thesis unfolding e by (rule a) (rule l)
    next
      assume e: "NewRouter E r q = tryM (resolveUser E q) throw (RateLimitWebhook E (route_handler E r))"
      show ?thesis unfolding e by (rule a) (rule l)
    qed
  next
    case False
    then show ?thesis
      by (rule chain_open [of r q E]) (simp_all only: direct h l)
  qed
qed

lemma serve_once:
  assumes "\<not> follow_list r" "w_out w = []"
    "needs_token r q \<Longrightarrow> identified E (q\<lparr>req_user := None\<rparr>) w"
  shows "\<exists>a. w_out (snd (serve E r q w)) = [a]"
proof -
  obtain a where a: "w_out (snd (NewRouter E r (q\<lparr>req_user := None\<rparr>) w)) = [a]"
    using chain_once [OF assms(1,2), of "q\<lparr>req_user := None\<rparr>"] assms(3)
    by (auto simp: needs_token_def)
  then show ?thesis using serve_out [OF assms(2), of E r q] by simp
qed

text \<open>Whatever happens, the client gets an answer, and never more than two.\<close>

lemma resolved12:
  assumes "\<And>q. writes12 (h q)" "\<And>q. req_user q = None \<Longrightarrow> writes1 (h q)" "req_user q = None"
  shows "writes12 (tryM (resolveUser E q) throw h)"
  unfolding writes12_def
proof
  fix w
  note g = hoareD [OF resolveUser_out [of "w_out w" E q] refl]
  let ?v = "snd (resolveUser E q w)"
  show "\<exists>rs. w_out (snd (tryM (resolveUser E q) throw h w)) = w_out w @ rs \<and>
      1 \<le> length rs \<and> length rs \<le> 2"
  proof (cases "fst (resolveUser E q w)")
    case (Inl e)
    then obtain r where "w_out ?v = w_out w @ [r]" using g(2) by blast
    then show ?thesis using Inl by (auto simp: run_simps)
  next
    case (Inr q')
    from g(1) [OF Inr] show ?thesis
    proof
      assume "w_out ?v = w_out w \<and> (\<exists>u. q' = q\<lparr>req_user := Some u\<rparr>)"
      then show ?thesis using Inr writes12D [OF assms(1), of q' ?v] by (simp add: run_simps)
    next
      assume q': "q' = q \<and> (\<exists>r. w_out ?v = w_out w @ [r])"
      then obtain r where "w_out ?v = w_out w @ [r]" by blast
      moreover obtain r' where "w_out (snd (h q ?v)) = w_out ?v @ [r']"
        using assms(2) [OF assms(3)] by (auto simp: writes1_def)
      ultimately show ?thesis using Inr q' by (auto simp: run_simps)
    qed
  qed
qed

lemma limited12:
  assumes "\<And>q. writes12 (h q)"
  shows "writes12 (RateLimitAuth E h q)" "req_user q = None \<Longrightarrow> writes1 (RateLimitAuth E h q)"
proof -
  have "writes12 (bindM (allow E l i) k)" if "\<And>x. writes12 (k x)" for l i and k :: "bool \<Rightarrow> unit io"
    unfolding writes12_def
  proof
    fix w
    obtain x where x: "fst (allow E l i w) = Inr x" and o': "w_out (snd (allow E l i w)) = w_out w"
      using allow_once [of E l i] by (metis quiet.rel_def succeeds_def)
    show "\<exists>rs. w_out (snd (bindM (allow E l i) k w)) = w_out w @ rs \<and> 1 \<le> length rs \<and> length rs \<le> 2"
      using writes12D [OF that [of x], of "snd (allow E l i w)"] by (simp add: bindM_run x o')
  qed
  then have bind: "(\<And>x. writes12 (k x)) \<Longrightarrow> writes12 (bindM (allow E l i) k)" for l i and k :: "bool \<Rightarrow> unit io" .
  show "writes12 (RateLimitAuth E h q)"
    unfolding RateLimitAuth_def Let_def
    by (intro writes12_cases bind writes12_of [OF writes1_RespondError] assms)
  show "writes1 (RateLimitAuth E h q)" if "req_user q = None"
    using that by (simp add: RateLimitAuth_def writes1_RespondError)
qed

lemma chain12:
  assumes "req_user q = None"
  shows "writes12 (NewRouter E r q)"
proof (cases "needs_token r q")
  case True
  then show ?thesis
  proof (rule chain_token [of r q E])
    assume a: "NewRouter E r q = tryM (resolveUser E q) throw (RateLimitAuth E (route_handler E r))"
    show ?thesis unfolding a by (intro resolved12 limited12 handlers12 assms)
  next
    assume r: "r = PlaylistRoute"
      and a: "NewRouter E r q = tryM (resolveUser E q) throw (RateLimitWebhook E (route_handler E r))"
    have "\<not> follow_list r" by (simp add: r follow_list_def)
    note l = limited_once(2) [OF handlers_once [OF this]]
    show ?thesis unfolding a by (intro resolved12 writes12_of l assms)
  qed
next
  case False
  then have "\<not> follow_list r" by (auto simp: needs_token_def follow_list_def)
  note h = handlers_once [OF this]
  from False show ?thesis
    by (rule chain_open [of r q E]) (simp_all only: writes12_of h limited_once(2) [OF h])
qed

lemma serve12:
  assumes "w_out w = []"
  shows "1 \<le> length (w_out (snd (serve E r q w)))" "length (w_out (snd (serve E r q w))) \<le> 2"
proof -
  obtain rs where rs: "w_out (snd (NewRouter E r (q\<lparr>req_user := None\<rparr>) w)) = rs" "1 \<le> length rs" "length rs \<le> 2"
    using chain12 [of "q\<lparr>req_user := None\<rparr>" E r] assms by (auto simp: writes12_def dest: spec [of _ w])
  then have "w_out (snd (serve E r q w)) = rs"
    using serve_out [OF assms, of E r q] by (cases rs) simp_all
  then show "1 \<le> length (w_out (snd (serve E r q w)))" "length (w_out (snd (serve E r q w))) \<le> 2"
    using rs by simp_all
qed

end
