(* ===== verification/Refusals.thy ===== *)
theory Refusals
  imports Answers
begin

text \<open>
  Requests that must not have an effect: reading routes, requests without a valid
  token, and the two places where a refusal is answered twice.
\<close>

section \<open>Reading routes leave the tables alone\<close>

definition unchanged :: "world \<Rightarrow> world \<Rightarrow> bool" where
  "unchanged w w' \<longleftrightarrow> w_db w' = w_db w \<and> supply_le w w'"

interpretation reads: table_rel unchanged
  by unfold_locales (auto simp: unchanged_def supply_le_def)

fun read_only :: "route \<Rightarrow> bool" where
  "read_only HealthRoute = True"
| "read_only GetMeRoute = True"
| "read_only GetUserRoute = True"
| "read_only UserVideosRoute = True"
| "read_only FollowersRoute = True"
| "read_only FollowingRoute = True"
| "read_only FeedRoute = True"
| "read_only SearchRoute = True"
| "read_only VideoDetailRoute = True"
| "read_only VideoStatusRoute = True"
| "read_only PlaylistRoute = True"
| "read_only ListCommentsRoute = True"
| "read_only NotificationsRoute = True"
| "read_only _ = False"

lemma read_only_unchanged:
  assumes "read_only r"
  shows "w_db (snd (route_handler E r q w)) = w_db w"
proof -
  have "reads.rel (route_handler E r q)"
    using assms by (cases r) (simp_all add: reads.rel_reading_handlers)
  then show ?thesis using reads.relD by (auto simp: unchanged_def)
qed

section \<open>Without a valid token nothing happens\<close>

definition idle :: "world \<Rightarrow> world \<Rightarrow> bool" where
  "idle w w' \<longleftrightarrow> w_db w' = w_db w \<and> w_queue w' = w_queue w \<and> w_objects w' = w_objects w"

interpretation still: step_rel idle
  by unfold_locales (auto simp: idle_def)

lemma still_base: "still.rel fault" "still.rel (write_response s b)" "still.rel (RespondError e)"
  by (auto simp: still.rel_def idle_def write_response_def RespondError_def split: prod.split)

definition no_subject :: "env \<Rightarrow> request \<Rightarrow> bool" where
  "no_subject E q \<longleftrightarrow>
     (case extractBearer q of
        Inl _ \<Rightarrow> True
      | Inr t \<Rightarrow> (case env_CheckToken E t of Inl _ \<Rightarrow> True | Inr s \<Rightarrow> s = []))"

lemma still_reject: "still.rel (bindM (RespondError e) (\<lambda>_. ok q))"
  by (intro still.rel_intros still_base)

text \<open>The check fails, or yields an empty subject: the request goes on as it came.\<close>

lemma no_subject_run:
  assumes "no_subject E q"
  shows "idle w (snd (resolveUser E q w)) \<and>
    (\<forall>q'. fst (resolveUser E q w) = Inr q' \<longrightarrow> q' = q)"
proof -
  let ?reject = "\<lambda>e. bindM (RespondError e) (\<lambda>_. ok q)"
  have q': "fst (?reject e v) = Inr q' \<Longrightarrow> q' = q" for e v q'
    by (auto simp: run_simps split: sum.splits)
  have r: "idle v (snd (?reject e v))" for e v using still_reject by (rule still.relD)
  show ?thesis
  proof (cases "extractBearer q")
    case (Inl err)
    then show ?thesis using q' r by (auto simp: resolveUser_def Let_def)
  next
    case (Inr t)
    have i: "idle w (snd (CheckToken E t w))"
      unfolding CheckToken_def by (intro still.relD still.rel_intros still_base)
    have "\<exists>e. resolveUser E q w = ?reject e (snd (CheckToken E t w))"
    proof (cases "fst (CheckToken E t w)")
      case Inl': (Inl e)
      then have "resolveUser E q w = ?reject (Wrap ErrUnauthorized ''invalid access token'') (snd (CheckToken E t w))"
        by (simp add: resolveUser_def Inr Let_def tryM_run)
      then show ?thesis ..
    next
      case Inr': (Inr s)
      then have "env_CheckToken E t = Inr s"
        by (auto simp: CheckToken_def run_simps split: sum.splits)
      then have "s = []" using assms Inr by (simp add: no_subject_def)
      then have "resolveUser E q w = ?reject (Wrap ErrUnauthorized ''invalid access token'') (snd (CheckToken E t w))"
        using Inr' by (simp add: resolveUser_def Inr Let_def tryM_run)
      then show ?thesis ..
    qed
    then obtain e where e: "resolveUser E q w = ?reject e (snd (CheckToken E t w))" ..
    show ?thesis unfolding e using q' r i still.R_trans by blast
  qed
qed

lemma still_HTTPErrorHandler: "still.rel (HTTPErrorHandler e)"
proof (rule still.relI)
  fix w
  have "still.rel (tryM (write_response s (BodyError c m d)) (\<lambda>_. ok ()) ok)" for s c m d
    by (intro still.rel_intros still_base)
  then show "idle w (snd (HTTPErrorHandler e w))"
    by (auto simp: HTTPErrorHandler_def still.R_refl still.relD split: option.split prod.split)
qed

lemma no_subject_extract: "no_subject E (q\<lparr>req_user := x\<rparr>) = no_subject E q"
  by (simp add: no_subject_def extractBearer_def Let_def)

lemma unauthenticated_idle:
  assumes "grouped r" "no_subject E q"
  shows "idle w (snd (serve E r q w))"
proof -
  let ?q = "q\<lparr>req_user := None\<rparr>"
  have n: "no_subject E ?q" using assms(2) by (simp add: no_subject_extract)
  have l: "still.rel (RateLimitAuth E h ?q)" for h
    by (simp add: RateLimitAuth_def still_base)
  have "idle w (snd (NewRouter E r ?q w))"
  proof (cases "fst (resolveUser E ?q w)")
    case (Inl e)
    then show ?thesis using no_subject_run [OF n, of w]
      by (simp add: NewRouter_grouped [OF assms(1)] Authenticate_def run_simps)
  next
    case (Inr q')
    then have "q' = ?q" using no_subject_run [OF n, of w] by simp
    then show ?thesis
      using Inr no_subject_run [OF n, of w] still.relD [OF l]
      by (auto simp: NewRouter_grouped [OF assms(1)] Authenticate_def run_simps intro: still.R_trans)
  qed
  then show ?thesis
    using still.relD [OF still_HTTPErrorHandler]
    by (auto simp: serve_def run_simps split: sum.split intro: still.R_trans)
qed

section \<open>Answered twice\<close>

lemma missing_token_calm:
  assumes "w_faults w = []" "w_out w = []" "grouped r" "extractBearer q = Inl err"
  shows "w_out (snd (serve E r q w)) =
    [error_response (Wrap ErrUnauthorized (Error err)),
     error_response (Wrap ErrUnauthorized ''rate limit requires authenticated user'')]"
proof -
  have "extractBearer (q\<lparr>req_user := None\<rparr>) = Inl err"
    using assms(4) by (simp add: extractBearer_def Let_def)
  then show ?thesis
    using assms(1-3)
    by (simp add: serve_def NewRouter_grouped Authenticate_def resolveUser_def RateLimitAuth_def
        Let_def run_simps calm_RespondError)
qed

text \<open>Who may see the follow lists of a user.\<close>

definition may_list_follows :: "db \<Rightarrow> uuid \<Rightarrow> User \<Rightarrow> bool" where
  "may_list_follows d viewer u \<longleftrightarrow>
     u_IsActive u \<and> (u_ID u = viewer \<or> \<not> u_IsPrivate u \<or> follows_edge d viewer (u_ID u))"

lemma guard_calm:
  assumes "w_faults w = []" "find_row (\<lambda>u. u_ID u = t) (users (w_db w)) = Some u"
  shows "assertCanSeeFollowList viewer t w =
    (if may_list_follows (w_db w) viewer u then (Inr (), w)
     else (Inr (), w\<lparr>w_out := w_out w @ [error_response (Wrap ErrNotFound ''user not found'')]\<rparr>))"
proof -
  have "u_ID u = t" using find_row_Some [OF assms(2)] by simp
  then show ?thesis
    using assms
    by (auto simp: assertCanSeeFollowList_def may_list_follows_def GetUserByID_def IsFollowing_def
        run_simps calm_query calm_RespondError one_row_def)
qed

text \<open>A refused list: the refusal, and then the list.\<close>

definition followers_response :: "env \<Rightarrow> request \<Rightarrow> db \<Rightarrow> uuid \<Rightarrow> uuid \<Rightarrow> int \<Rightarrow> cursor \<Rightarrow> response" where
  "followers_response E q d viewer t limit cur =
    (let rows = keyset_page follow_key cur (nat limit) (follower_rows d viewer t)
     in \<lparr>r_status = 200,
         r_body = BodyList (map followListItem rows) (response_cursor E follow_key limit rows)\<rparr>)"

lemma followers_calm:
  assumes "w_faults w = []" "env_wired E DepQueries" "req_user q = Some viewer"
    "env_uuid_Parse E (req_param q ''id'') = Some t" "page_params E q = Inr (limit, cur)"
    "find_row (\<lambda>u. u_ID u = t) (users (w_db w)) = Some u"
  shows "w_out (snd (UserHandler_ListFollowers E q w)) =
    w_out w @ (if may_list_follows (w_db w) (u_ID viewer) u then []
               else [error_response (Wrap ErrNotFound ''user not found'')]) @
    [followers_response E q (w_db w) (u_ID viewer) t limit cur]"
  using assms
  by (simp add: UserHandler_ListFollowers_def run_simps guard_calm ListFollowers_def calm_query
      RespondList_def calm_write followers_response_def Let_def)

section \<open>Videos the viewer may not access\<close>

fun acts_on_video :: "route \<Rightarrow> bool" where
  "acts_on_video LikeRoute = True"
| "acts_on_video UnlikeRoute = True"
| "acts_on_video ViewRoute = True"
| "acts_on_video (CreateCommentRoute _) = True"
| "acts_on_video _ = False"

fun body_ok :: "route \<Rightarrow> bool" where
  "body_ok (CreateCommentRoute b) = (case bindCommentContent b of Inl _ \<Rightarrow> False | Inr _ \<Rightarrow> True)"
| "body_ok _ = True"

lemma hidden_untouched:
  assumes "acts_on_video r" "parseAuthVideoParam E q = Inr (user, i)"
    "list_all (\<lambda>v. v_ID v = i \<longrightarrow> \<not> may_access (w_db w) (u_ID user) v) (videos (w_db w))"
  shows "w_db (snd (route_handler E r q w)) = w_db w"
proof -
  have hidden: "\<And>v. find_row (\<lambda>v. v_ID v = i) (videos (w_db w)) = Some v \<Longrightarrow> \<not> may_access (w_db w) (u_ID user) v"
    using assms(3) by (auto simp: list_all_iff dest: find_row_Some)
  note block = hidden_blocks [of i w "u_ID user", OF hidden]
  have same: "w_db (snd (RespondError e w)) = w_db w" for e
    using dbsame.relD [OF dbsame_Respond(5)] by simp
  show ?thesis
    using assms(1,2) block same
    by (cases r) (simp_all add: hidden_handlers CreateComment_def not_configured_def split: sum.split)
qed

lemma hidden_calm:
  assumes "w_faults w = []" "env_wired E DepQueries" "env_wired E DepRun" "acts_on_video r"
    "parseAuthVideoParam E q = Inr (user, i)" "body_ok r"
    "list_all (\<lambda>v. v_ID v = i \<longrightarrow> \<not> may_access (w_db w) (u_ID user) v) (videos (w_db w))"
  shows "route_handler E r q w = (Inr (), w\<lparr>w_out := w_out w @ [error_response video_hidden]\<rparr>)"
proof -
  have "access_result (w_db w) (u_ID user) i = Inl video_hidden"
    using assms(7)
    by (auto simp: access_result_def list_all_iff dest: find_row_Some split: option.split)
  then have a: "assertVideoOwnerOrVisible (u_ID user) i w = (Inl video_hidden, w)"
    using assms(1) by (simp add: video_access_calm)
  show ?thesis
    using assms(2-6) a
    by (cases r) (simp_all add: hidden_handlers CreateComment_def tryM_run
        calm_RespondError [OF assms(1)] split: sum.splits)
qed

lemma hidden_response:
  "error_response video_hidden = \<lparr>r_status = 404,
     r_body = BodyError ''NOT_FOUND'' ''video not found: not found'' []\<rparr>"
  by (simp add: error_response_def video_hidden_def Wrap_def ClassifyError_def httpStatusFor_def
      codeFor_def CodeNotFound_def)

lemma feed_rows_accessible:
  assumes "r \<in> set (feed_rows d u vw)"
  shows "v_Status (vd_video r) = READY" "v_UserID (vd_video r) \<noteq> u" "may_access d u (vd_video r)"
proof -
  obtain v where v: "v \<in> set (videos d)" "join_owner d vw v = Some r"
    and c: "v_Status (vd_video r) = READY" "v_UserID (vd_video r) \<noteq> u" "u_IsActive (vd_owner r)"
      "\<not> u_IsPrivate (vd_owner r) \<or> follows_edge d u (u_ID (vd_owner r))"
    using assms by (auto simp: feed_rows_def List.map_filter_def)
  obtain o' where o': "find_row (\<lambda>u. u_ID u = v_UserID v) (users d) = Some o'"
    "vd_video r = v" "vd_owner r = o'"
    using v(2) by (auto simp: join_owner_def)
  have "u_ID o' = v_UserID v" using find_row_Some [OF o'(1)] by simp
  then show "v_Status (vd_video r) = READY" "v_UserID (vd_video r) \<noteq> u" "may_access d u (vd_video r)"
    using c o' by (auto simp: may_access_def owner_visible_def)
qed

lemma parseLimit_bounds: "parseLimit s = Inr n \<Longrightarrow> 1 \<le> n \<and> n \<le> videoListMaxLimit"
  by (auto simp: parseLimit_def videoListDefaultLimit_def videoListMaxLimit_def split: if_splits option.splits)

lemma parseLimit_pos: "parseLimit s = Inr n \<Longrightarrow> n > 0"
  using parseLimit_bounds by fastforce

section \<open>Forged webhooks\<close>

lemma RespondError_out: "w_out (snd (RespondError e w)) = w_out w @ [error_response e]"
  by (simp add: RespondError_def error_response_def write_response_def split: prod.split)

lemma forged_idle:
  assumes "env_ValidateRequestPayload E raw (req_header q) (env_WebhookSigningKey E) = Some err"
  shows "idle w (snd (WebhookHandler_Handle E raw evt q w)) \<and>
    (\<exists>e. w_out (snd (WebhookHandler_Handle E raw evt q w)) = w_out w @ [error_response e])"
proof -
  have r: "idle v (snd (RespondError e v))" for e v using still_base(3) by (rule still.relD)
  show ?thesis
    using r still.relD [OF still_base(1)] fault_frame(2) [of w]
    by (auto simp: WebhookHandler_Handle_def assms tryM_run RespondError_out split: sum.split
        intro: still.R_trans)
qed

section \<open>Codes and statuses\<close>

lemma codeFor_consistent: "httpStatusFor err = httpStatusForCode (codeFor err)" "codeFor err \<in> set knownErrorCodes"
  by (simp_all add: httpStatusFor_def codeFor_def httpStatusForCode_def knownErrorCodes_def code_defs)

lemma classify_consistent:
  assumes "\<And>c m d s. As_APIError err = Some (c, m, d, s) \<Longrightarrow> (c = [] \<or> c \<in> set knownErrorCodes) \<and> s = 0"
    "ClassifyError (Some err) = (status, code, msg, details)"
  shows "status = httpStatusForCode code \<and> code \<in> set knownErrorCodes"
proof (cases "As_APIError err")
  case None
  then show ?thesis using assms(2) codeFor_consistent by (auto simp: ClassifyError_def)
next
  case (Some a)
  obtain c m d s where a: "a = (c, m, d, s)" by (cases a)
  have "c = [] \<or> c \<in> set knownErrorCodes" "s = 0" using assms(1) Some a by auto
  then show ?thesis
    using assms(2) Some a codeFor_consistent(2) [of err] by (auto simp: ClassifyError_def Let_def)
qed

end
