(* ===== verification/Samples.thy ===== *)
theory Samples
  imports SocialInv
begin

text \<open>
  A small concrete world for the witnesses: two active users, a third one who is
  private, one finished video with a comment and a reply, and an environment whose
  third-party functions are concrete (UUIDs print as decimal numbers, the MAC is the
  key followed by the message).
\<close>

definition E0 :: env where
  "E0 = \<lparr>env_uuid_String = (\<lambda>i. nat_text (unat i)),
         env_uuid_Parse = (\<lambda>s. map_option word_of_nat (parse_nat s)),
         env_presign_put = (\<lambda>key ct ttl now. ''https://put/'' @ key),
         env_presign_get = (\<lambda>key ttl now. ''https://get/'' @ key),
         env_hmac_sha256 = (\<lambda>key msg. key @ msg),
         env_sdk_error = SdkError,
         env_CheckToken = (\<lambda>t. if t = ''good'' then Inr ''zalice'' else Inl (Opaque ''bad token'')),
         env_ValidateRequestPayload = (\<lambda>body h key.
            if h ''ZITADEL-Signature'' = key @ body then None else Some (Opaque ''bad signature'')),
         env_AllowN = (\<lambda>_ asked now. length asked < 60),
         env_wired = (\<lambda>_. True),
         env_APIBaseURL = ''https://api'',
         env_MediaTokenSecret = ''secret'',
         env_MediaTokenTTL = 900000000000,
         env_PresignUploadExpiry = 900000000000,
         env_WebhookSigningKey = ''wkey'',
         env_ReconcileBatch = 100\<rparr>"

lemma E0_uuid_codec: "uuid_codec E0"
  by (simp add: uuid_codec_def E0_def)

definition user0 :: "nat \<Rightarrow> string \<Rightarrow> bool \<Rightarrow> User" where
  "user0 i name private = \<lparr>u_ID = word_of_nat i, u_ZitadelID = ''z'' @ name, u_Username = name,
     u_DisplayName = None, u_Bio = None, u_AvatarUrl = None, u_IsPrivate = private,
     u_IsActive = True, u_DeletedAt = None, u_CreatedAt = 1000\<rparr>"

definition alice :: User where "alice = user0 1 ''alice'' False"
definition bob :: User where "bob = user0 2 ''bob'' False"
definition carol :: User where "carol = user0 3 ''carol'' True"

definition video0 :: Video where
  "video0 = \<lparr>v_ID = 10, v_UserID = 1, v_Title = Some ''t'', v_Description = None,
     v_R2Key = ''uploads/1/10'', v_HlsPrefix = Some ''hls/1/10/'', v_ThumbnailKey = None,
     v_DurationSeconds = Some 30, v_Status = READY, v_RetryCount = 0, v_LikesCount = 0,
     v_ViewsCount = 0, v_CommentsCount = 2, v_CreatedAt = 2000, v_DeletedAt = None\<rparr>"

definition comment0 :: "uuid \<Rightarrow> uuid \<Rightarrow> uuid option \<Rightarrow> Comment" where
  "comment0 i u p = \<lparr>c_ID = i, c_VideoID = 10, c_UserID = u, c_ParentID = p,
     c_Content = ''hi'', c_CreatedAt = 3000\<rparr>"

definition db0 :: db where
  "db0 = \<lparr>users = [alice, bob, carol], videos = [video0], follows = [], likes = [],
         comments = [comment0 20 2 None, comment0 21 1 (Some 20)], notifications = []\<rparr>"

definition world0 :: world where
  "world0 = \<lparr>w_db = db0, w_queue = [], w_objects = [], w_files = [], w_limits = (\<lambda>_ _. None), w_clock = 4000, w_faults = [],
            w_uuids = (\<lambda>n. word_of_nat (100 + n)), w_next = 0, w_out = []\<rparr>"

definition request0 :: "User option \<Rightarrow> string \<Rightarrow> request" where
  "request0 u i = \<lparr>req_user = u, req_param = (\<lambda>_. i), req_query = (\<lambda>_. []),
     req_header = (\<lambda>_. []), req_RealIP = ''10.0.0.1''\<rparr>"

lemmas sample_defs = db0_def alice_def bob_def carol_def user0_def video0_def comment0_def

lemma db0_constraints: "constraints db0"
  by (simp add: constraints_def users_ok_def videos_ok_def follows_ok_def likes_ok_def comments_ok_def
      notifications_ok_def sample_defs user_row_ok_def video_row_ok_def comment_row_ok_def
      char_length_def int32_ok_def)

lemma db0_exact: "likes_exact db0" "comments_exact db0"
  by (simp_all add: likes_exact_def comments_exact_def like_rows_def comment_rows_def sample_defs)

lemma db0_ranked: "ranked_rows (comments db0)"
  unfolding ranked_rows_def ranks_def
  by (rule exI [of _ "\<lambda>i. if i = 21 then 1 else 0"]) (simp add: sample_defs)

lemma db0_invs: "likes_inv db0" "comments_inv db0" "replies_inv db0"
  by (simp_all add: likes_inv_def comments_inv_def replies_inv_def db0_constraints db0_exact db0_ranked)

end
