(* ===== verification/Cleaning.thy ===== *)
theory Cleaning
  imports Refusals Samples
begin

text \<open>
  What the cleanup tasks achieve: a delete that reports success has removed exactly what
  it was asked to remove, and the row of a deleted video goes last, after the grace period
  and after everything stored for it.
\<close>

section \<open>Successful deletes are exact\<close>

lemma loses_exact:
  assumes "loses K w w'" "\<And>b. b \<in> set (w_objects w') \<Longrightarrow> \<not> K (o_key b)"
  shows "w_objects w' = filter (\<lambda>b. \<not> K (o_key b)) (w_objects w)"
proof -
  have "filter (\<lambda>b. \<not> K (o_key b)) (w_objects w') = w_objects w'"
    using assms(2) by (simp add: filter_id_conv)
  then show ?thesis using assms(1) by (simp add: loses_def)
qed

lemma DeletePrefix_exact:
  assumes "honest_store E" "fst (DeletePrefix E p w) = Inr ()"
  shows "w_objects (snd (DeletePrefix E p w)) = filter (\<lambda>b. \<not> prefix_of p (o_key b)) (w_objects w)"
proof -
  have "p \<noteq> []"
    using assms(2) by (auto simp: DeletePrefix_def bad_prefix_def run_simps)
  then have "\<not> prefix_of p []" by (simp add: prefix_of_def)
  then show ?thesis
    using DeletePrefix_gone [OF assms]
    by (intro loses_exact deletes.relD [OF deletes_DeletePrefix]) auto
qed

lemma DeleteObjects_exact:
  assumes "honest_store E" "fst (DeleteObjects E keys w) = Inr ()"
  shows "w_objects (snd (DeleteObjects E keys w)) =
    filter (\<lambda>b. \<not> (o_key b \<noteq> [] \<and> o_key b \<in> set keys)) (w_objects w)"
proof (rule loses_exact)
  show "loses (\<lambda>k. k \<noteq> [] \<and> k \<in> set keys) w (snd (DeleteObjects E keys w))"
    by (intro deletes.relD deletes_DeleteObjects) simp
  show "\<not> (o_key b \<noteq> [] \<and> o_key b \<in> set keys)" if "b \<in> set (w_objects (snd (DeleteObjects E keys w)))" for b
    using DeleteObjects_gone [OF assms] that by (auto simp: gone_def)
qed

text \<open>More keys than one request takes: nothing is removed, now or on any retry.\<close>

lemma DeleteObjects_too_many:
  assumes "length (filter (\<lambda>k. k \<noteq> []) keys) > max_delete_keys"
  shows "\<exists>e. DeleteObjects E keys w = (Inl e, w)"
  using assms by (auto simp: DeleteObjects_def Let_def throw_run)

section \<open>The row goes last\<close>

text \<open>The objects stored for a video.\<close>

definition stored_for :: "Video \<Rightarrow> string \<Rightarrow> bool" where
  "stored_for v k \<longleftrightarrow> k \<noteq> [] \<and> (k = v_R2Key v \<or> v_ThumbnailKey v = Some k \<or>
     (case v_HlsPrefix v of None \<Rightarrow> False | Some h \<Rightarrow> h \<noteq> [] \<and> prefix_of (h @ ''/'') k))"

lemma DeleteVideoRow_objects: "w_objects (snd (DeleteVideoRow i w)) = w_objects w"
  by (auto simp: DeleteVideoRow_def exec_def bindM_run split: sum.split)

lemma same_tables: "dbsame.rel m \<Longrightarrow> w_db (snd (m w)) = w_db w"
  by (simp add: dbsame.rel_def)

definition present :: "uuid \<Rightarrow> world \<Rightarrow> bool" where
  "present i w \<longleftrightarrow> i \<in> v_ID ` set (videos (w_db w))"

definition named_keys :: "Video \<Rightarrow> string list" where
  "named_keys v = v_R2Key v # (case v_ThumbnailKey v of
     None \<Rightarrow> [] | Some k \<Rightarrow> if k \<noteq> [] then [k] else [])"

lemma delete_outputs_last:
  assumes "honest_store E" "present (v_ID v) w" "\<not> present (v_ID v) (snd (delete_outputs E v w))"
  shows "w_objects (snd (delete_outputs E v w)) =
    filter (\<lambda>b. \<not> (o_key b \<noteq> [] \<and> o_key b \<in> set (named_keys v))) (w_objects w)"
proof (cases "fst (DeleteObjects E (named_keys v) w)")
  case (Inl e)
  then have "snd (delete_outputs E v w) = snd (DeleteObjects E (named_keys v) w)"
    by (simp add: delete_outputs_def named_keys_def tryM_run throw_run)
  then show ?thesis
    using assms(2,3) same_tables [OF dbsame_DeleteObjects] by (simp add: present_def)
next
  case (Inr u)
  then have "snd (delete_outputs E v w) =
      snd (DeleteVideoRow (v_ID v) (snd (DeleteObjects E (named_keys v) w)))"
    by (simp add: delete_outputs_def named_keys_def tryM_run)
  then show ?thesis using DeleteObjects_exact [OF assms(1)] Inr by (simp add: DeleteVideoRow_objects)
qed

lemma finish_video_last:
  assumes "honest_store E" "present (v_ID v) w" "\<not> present (v_ID v) (snd (finish_video E v w))"
  shows "list_all (\<lambda>b. \<not> stored_for v (o_key b)) (w_objects (snd (finish_video E v w)))"
proof (cases "case v_HlsPrefix v of None \<Rightarrow> True | Some h \<Rightarrow> h = []")
  case True
  then have "finish_video E v w = delete_outputs E v w"
    by (auto simp: finish_video_def split: option.splits)
  then show ?thesis
    using delete_outputs_last [OF assms(1,2)] assms(3) True
    by (auto simp: list_all_iff stored_for_def named_keys_def split: option.splits)
next
  case False
  then obtain h where h: "v_HlsPrefix v = Some h" "h \<noteq> []" by (auto split: option.splits)
  let ?p = "h @ ''/''" let ?d = "DeletePrefix E (h @ ''/'')"
  have same: "w_db (snd (?d w)) = w_db w" by (rule same_tables [OF dbsame_DeletePrefix])
  have ok: "prefix_of ''hls/'' ?p" "fst (?d w) = Inr ()"
    using assms(2,3) h same
    by (auto simp: finish_video_def Let_def tryM_run run_simps present_def split: if_splits sum.splits)
  have run: "finish_video E v w = delete_outputs E v (snd (?d w))"
    using ok h by (simp add: finish_video_def Let_def tryM_run)
  have "present (v_ID v) (snd (?d w))" using assms(2) same by (simp add: present_def)
  then have "w_objects (snd (finish_video E v w)) = filter (\<lambda>b. \<not> (o_key b \<noteq> [] \<and> o_key b \<in> set (named_keys v)))
      (filter (\<lambda>b. \<not> prefix_of ?p (o_key b)) (w_objects w))"
    using delete_outputs_last [OF assms(1)] assms(3) DeletePrefix_exact [OF assms(1) ok(2)]
    unfolding run by simp
  then show ?thesis
    by (auto simp: list_all_iff stored_for_def named_keys_def h split: option.splits)
qed

lemma GetVideoByID_value:
  "fst (GetVideoByID i w) = Inr v \<Longrightarrow> find_row (\<lambda>v. v_ID v = i) (videos (w_db w)) = Some v"
  by (auto simp: GetVideoByID_def query_def bindM_run one_row_def split: sum.splits option.splits)

lemma GetVideoByID_frame:
  "w_db (snd (GetVideoByID i w)) = w_db w" "w_objects (snd (GetVideoByID i w)) = w_objects w"
  "w_clock (snd (GetVideoByID i w)) = w_clock w" "w_queue (snd (GetVideoByID i w)) = w_queue w"
  by (auto simp: GetVideoByID_def query_def bindM_run split: sum.splits)

text \<open>A video is due when it was deleted long enough ago.\<close>

definition due :: "time \<Rightarrow> Video \<Rightarrow> bool" where
  "due now v \<longleftrightarrow> v_Status v = DELETED \<and>
     (case v_DeletedAt v of None \<Rightarrow> False | Some t \<Rightarrow> now - t \<ge> cleanupGrace)"

lemma logged_enqueue:
  "w_db (snd (logged (EnqueueWithDelay t d) w)) = w_db w"
  "w_objects (snd (logged (EnqueueWithDelay t d) w)) = w_objects w"
  by (auto simp: logged_def EnqueueWithDelay_def client_Enqueue_def tryM_run bindM_run ok_run split: sum.split)

text \<open>The task finishes a video that is due and otherwise leaves tables and bucket alone.\<close>

lemma HandleCleanupVideo_cases:
  fixes E raw w
  defines "after \<equiv> snd (HandleCleanupVideo E (Some raw) w)"
  obtains "w_db after = w_db w" "w_objects after = w_objects w"
  | i v where "env_uuid_Parse E raw = Some i" "find_row (\<lambda>v. v_ID v = i) (videos (w_db w)) = Some v"
      "due (w_clock w) v" "after = snd (finish_video E v (snd (GetVideoByID i w)))"
proof (cases "env_uuid_Parse E raw")
  case None
  then show ?thesis using that(1) by (simp add: after_def HandleCleanupVideo_def ok_run)
next
  case (Some i)
  note step = Some that
  show ?thesis
  proof (cases "fst (GetVideoByID i w)")
    case (Inl e)
    then show ?thesis
      using step(1,2) by (simp add: after_def HandleCleanupVideo_def tryM_run ok_run GetVideoByID_frame)
  next
    case (Inr v)
    show ?thesis
    proof (cases "due (w_clock w) v \<and> env_wired E DepQueries \<and> env_wired E DepR2 \<and>
        env_wired E DepAsynq \<and> env_wired E DepLogger")
      case True
      then have "after = snd (finish_video E v (snd (GetVideoByID i w)))"
        using step(1) Inr
        by (auto simp: after_def HandleCleanupVideo_def tryM_run bindM_run now_io_def due_def
            GetVideoByID_frame split: option.splits)
      then show ?thesis using step True GetVideoByID_value [OF Inr] by blast
    next
      case False
      then show ?thesis
        using step(1,2) Inr
        by (auto simp: after_def HandleCleanupVideo_def tryM_run bindM_run now_io_def due_def ok_run Let_def
            GetVideoByID_frame logged_enqueue split: option.splits sum.splits if_splits)
    qed
  qed
qed

lemma cleanup_waits:
  assumes "env_uuid_Parse E raw = Some i"
    "list_all (\<lambda>v. v_ID v = i \<longrightarrow> \<not> due (w_clock w) v) (videos (w_db w))"
  shows "w_db (snd (HandleCleanupVideo E (Some raw) w)) = w_db w \<and>
    w_objects (snd (HandleCleanupVideo E (Some raw) w)) = w_objects w"
  by (rule HandleCleanupVideo_cases [of E raw w])
     (use assms in \<open>auto simp: list_all_iff dest!: find_row_Some\<close>)

lemma cleanup_row_last:
  assumes "honest_store E" "env_uuid_Parse E raw = Some i"
    "find_row (\<lambda>v. v_ID v = i) (videos (w_db w)) = Some v"
    "\<not> present i (snd (HandleCleanupVideo E (Some raw) w))"
  shows "due (w_clock w) v \<and>
    list_all (\<lambda>b. \<not> stored_for v (o_key b)) (w_objects (snd (HandleCleanupVideo E (Some raw) w)))"
proof (rule HandleCleanupVideo_cases [of E raw w])
  have p: "present i w" "v_ID v = i" using find_row_Some [OF assms(3)] by (auto simp: present_def)
  assume "w_db (snd (HandleCleanupVideo E (Some raw) w)) = w_db w"
  then show ?thesis using assms(4) p by (simp add: present_def)
next
  fix i' v'
  have p: "present i w" "v_ID v = i" using find_row_Some [OF assms(3)] by (auto simp: present_def)
  assume a: "env_uuid_Parse E raw = Some i'" "find_row (\<lambda>v. v_ID v = i') (videos (w_db w)) = Some v'"
    "due (w_clock w) v'"
    "snd (HandleCleanupVideo E (Some raw) w) = snd (finish_video E v' (snd (GetVideoByID i' w)))"
  then have eq: "i' = i" "v' = v" using assms(2,3) by simp_all
  have "present (v_ID v) (snd (GetVideoByID i w))" using p by (simp add: present_def GetVideoByID_frame)
  then show ?thesis
    using finish_video_last [OF assms(1)] a(3,4) assms(4) p(2) unfolding eq by simp
qed

section \<open>An example\<close>

definition object0 :: "string \<Rightarrow> object" where
  "object0 k = \<lparr>o_key = k, o_size = Some 3, o_body = ''abc''\<rparr>"

definition old_video :: Video where
  "old_video = video0\<lparr>v_Status := DELETED, v_DeletedAt := Some 0, v_HlsPrefix := Some ''hls/1/10''\<rparr>"

text \<open>A video deleted two days ago, with two objects of its own and one of a neighbour.\<close>

definition due_world :: world where
  "due_world = world0\<lparr>w_db := db0\<lparr>videos := [old_video]\<rparr>, w_clock := 2 * cleanupGrace,
     w_objects := [object0 ''uploads/1/10'', object0 ''hls/1/10/a'', object0 ''hls/1/100/a'']\<rparr>"

lemma E0_honest: "honest_store E0"
  by (simp add: honest_store_def E0_def isNotFoundErr_def)

lemma due_prefix:
  "DeletePrefix E0 ''hls/1/10/'' due_world =
    (Inr (), due_world\<lparr>w_objects := [object0 ''uploads/1/10'', object0 ''hls/1/100/a'']\<rparr>)"
proof -
  let ?o = "[object0 ''uploads/1/10'', object0 ''hls/1/10/a'', object0 ''hls/1/100/a'']"
  have o: "w_objects due_world = ?o" "w_faults due_world = []" by (simp_all add: due_world_def world0_def)
  have pages: "list_pages ''hls/1/10/'' ?o = [[''hls/1/10/a'']]"
    by (simp add: list_pages_def object0_def prefix_of_def chunks.simps list_page_size_def)
  have p: "bad_prefix op ''hls/1/10/'' = None" for op by (simp add: bad_prefix_def)
  show ?thesis
    by (simp add: DeletePrefix_def p stored_def bindM_run o pages tryM_run calm_fault ok_run max_delete_keys_def
        flush_def DeleteObjects_def remove_object_def) (simp add: object0_def)
qed

lemma due_constraints: "constraints (delete_videos (\<lambda>v. v_ID v = 10) (db0\<lparr>videos := [old_video]\<rparr>))"
  by (simp add: delete_videos_def delete_comments_where_def cascade.simps child_of_def constraints_def users_ok_def
      videos_ok_def follows_ok_def likes_ok_def comments_ok_def notifications_ok_def old_video_def
      sample_defs user_row_ok_def Let_def char_length_def)

lemma due_video:
  "find_row (\<lambda>v. v_ID v = 10) (videos (w_db due_world)) = Some old_video"
  "env_uuid_Parse E0 ''10'' = Some 10" "due (w_clock due_world) old_video"
  by (simp_all add: due_world_def find_row_def old_video_def video0_def due_def cleanupGrace_def
      E0_def parse_nat_def is_digit_def digits_val_def digit_val_def byte_def)

lemma due_gone: "\<not> present 10 (snd (HandleCleanupVideo E0 (Some ''10'') due_world))"
proof -
  let ?w = "due_world\<lparr>w_objects := [object0 ''uploads/1/10'', object0 ''hls/1/100/a'']\<rparr>"
  let ?v = "due_world\<lparr>w_objects := [object0 ''hls/1/100/a'']\<rparr>"
  have w: "w_faults due_world = []" "w_db due_world = db0\<lparr>videos := [old_video]\<rparr>"
    "w_clock due_world = 2 * cleanupGrace" by (simp_all add: due_world_def world0_def)
  have get: "GetVideoByID 10 due_world = (Inr old_video, due_world)"
    using w(1) due_video(1) by (simp add: GetVideoByID_def calm_query one_row_def)
  have objects: "DeleteObjects E0 [''uploads/1/10''] ?w = (Inr (), ?v)"
    using w(1)
    by (simp add: DeleteObjects_def tryM_run bindM_run calm_fault ok_run max_delete_keys_def
        remove_object_def object0_def)
  have row: "videos (w_db (snd (DeleteVideoRow 10 ?v))) = []"
    using w(1,2) due_constraints
    by (simp add: DeleteVideoRow_def calm_exec delete_videos_videos old_video_def video0_def)
  have out: "snd (delete_outputs E0 old_video ?w) = snd (DeleteVideoRow 10 ?v)"
    by (simp add: delete_outputs_def tryM_run objects old_video_def video0_def)
  have "v_Status old_video = DELETED" "v_DeletedAt old_video = Some 0" "v_HlsPrefix old_video = Some ''hls/1/10''"
    "env_wired E0 x" "\<not> 2 * cleanupGrace < cleanupGrace" for x
    by (simp_all add: old_video_def E0_def cleanupGrace_def)
  then have "snd (HandleCleanupVideo E0 (Some ''10'') due_world) = snd (DeleteVideoRow 10 ?v)"
    by (simp add: HandleCleanupVideo_def due_video(2) tryM_run get bindM_run now_io_def w(3)
        finish_video_def due_prefix [simplified] prefix_of_def out)
  then show ?thesis by (simp add: present_def row)
qed

end
