(* ===== verification/Lockout.thy ===== *)
theory Lockout
  imports Access
begin

text \<open>
  Two more relations that hold statement by statement and so for the whole system: the
  table constraints are never broken, and an account that has been deactivated or
  deleted stays so under the same subject of the identity provider, which keeps its
  owner out for good.
\<close>

section \<open>Constraints\<close>

lemma constraints_exec: "preserves constraints (exec f)"
  by (rule preserves_exec)

lemma constraints_exec_insert: "preserves constraints (exec_insert f)"
  by (rule preserves_exec_insert)

lemma constraints_rel:
  "inv.rel constraints (exec f)" "inv.rel constraints (exec_insert g)"
  by (intro inv_rel_of constraints_exec constraints_exec_insert supplied_exec supplied_exec_insert)+

interpretation constraints_sys: statement_rel "inv_rel constraints" E for E
  by unfold_locales (simp_all only: all_stmts constraints_rel)

section \<open>Accounts\<close>

definition same_account :: "User \<Rightarrow> User \<Rightarrow> bool" where
  "same_account u u' \<longleftrightarrow> u_ID u = u_ID u' \<and> u_ZitadelID u = u_ZitadelID u' \<and>
     (u_IsActive u' \<longrightarrow> u_IsActive u)"

lemma same_account_refl [simp]: "same_account u u"
  by (simp add: same_account_def)

lemma same_account_trans: "same_account u v \<Longrightarrow> same_account v w \<Longrightarrow> same_account u w"
  by (auto simp: same_account_def)

definition users_kept :: "db \<Rightarrow> db \<Rightarrow> bool" where
  "users_kept d d' \<longleftrightarrow> (\<forall>u \<in> set (users d). \<exists>u' \<in> set (users d'). same_account u u')"

lemma users_kept_refl: "users_kept d d"
  by (auto simp: users_kept_def intro: same_account_refl)

lemma users_kept_trans: "users_kept d e \<Longrightarrow> users_kept e f \<Longrightarrow> users_kept d f"
  unfolding users_kept_def using same_account_trans by blast

lemma users_kept_same: "set (users d) \<subseteq> set (users d') \<Longrightarrow> users_kept d d'"
  by (auto simp: users_kept_def intro: same_account_refl)

lemma users_kept_update:
  "(\<And>u. same_account u (f u)) \<Longrightarrow> users_kept d (d\<lparr>users := update_rows P f (users d)\<rparr>)"
proof -
  assume f: "\<And>u. same_account u (f u)"
  have "\<exists>u' \<in> set (update_rows P f (users d)). same_account u u'" if "u \<in> set (users d)" for u
    using that f by (intro bexI [of _ "if P u then f u else u"]) (auto simp: update_rows_set)
  then show ?thesis by (simp add: users_kept_def)
qed

definition keeps_users :: "world \<Rightarrow> world \<Rightarrow> bool" where
  "keeps_users w w' \<longleftrightarrow> supply_le w w' \<and> users_kept (w_db w) (w_db w')"

interpretation accounts: table_rel keeps_users
  by unfold_locales
    (auto simp: keeps_users_def users_kept_refl supplied.R_refl intro: users_kept_trans users_kept_same
      dest: supplied.R_trans)

lemma keeps_exec:
  assumes "\<And>now d x d'. f now d = Inr (x, d') \<Longrightarrow> users_kept d d'"
  shows "accounts.rel (exec f)"
proof -
  have t: "triple (\<lambda>d. d = d0) (exec f) (\<lambda>_ d. users_kept d0 d) (\<lambda>_ d. users_kept d0 d)" for d0
    by (rule triple_exec) (auto intro: assms users_kept_refl)
  then have "users_kept (w_db w) (w_db (snd (exec f w)))" for w
    using tripleD [OF t [of "w_db w"] refl] by (cases "fst (exec f w)") auto
  then show ?thesis
    using supplied_exec [of f] by (simp add: accounts.rel_def supplied.rel_def keeps_users_def)
qed

lemma keeps_exec_insert:
  assumes "\<And>i now d x d'. f i now d = Inr (x, d') \<Longrightarrow> users_kept d d'"
  shows "accounts.rel (exec_insert f)"
  unfolding exec_insert_def by (intro accounts.rel_bindM accounts.rel_new_uuid keeps_exec) (rule assms)

lemma delete_users [simp]:
  "users (delete_videos P d) = users d" "users (delete_comments Q d) = users d"
  by (simp_all add: delete_videos_def delete_comments_def Let_def)

lemma accounts_video:
  "accounts.rel (update_video_one P f)" "accounts.rel (update_videos P g)"
  unfolding update_video_one_def update_videos_def
  by (rule keeps_exec, auto intro: users_kept_same split: option.splits)+

lemma accounts_user:
  "accounts.rel (DeactivateUser i)" "accounts.rel (TombstoneUser E i)"
  "accounts.rel (UpdateUserProfile i dn bi av pr)"
  unfolding user_stmts update_user_one_def
  by (rule keeps_exec, auto simp: same_account_def intro!: users_kept_update split: option.splits)+

lemma accounts_inserts:
  "accounts.rel (CreateUser z n dn)" "accounts.rel (InsertComment v u p co)"
  "accounts.rel (InsertNotification u a ty pl)" "accounts.rel (InsertVideo u k t de)"
  unfolding CreateUser_def InsertComment_def InsertNotification_def InsertVideo_def
  by (rule keeps_exec_insert, auto simp: Let_def intro!: users_kept_same split: if_splits)+

lemma accounts_other:
  "accounts.rel (FollowUser a b)" "accounts.rel (DeleteFollow a b)"
  "accounts.rel (DeleteFollowsByFollower a)" "accounts.rel (DeleteFollowsByFollowee a)"
  "accounts.rel (InsertLike u v)" "accounts.rel (DeleteLike u v)" "accounts.rel (DeleteLikesByUser u)"
  "accounts.rel (DeleteCommentByID i)" "accounts.rel (DeleteCommentsByUser u)"
  "accounts.rel (DeleteNotificationsForUser u)" "accounts.rel (DeleteNotificationsByActor u)"
  "accounts.rel (MarkAllNotificationsRead u)" "accounts.rel (DeleteVideoRow i)"
  "accounts.rel (DeleteVideosByUser u)" "accounts.rel (DecrementLikesForUser u)"
  "accounts.rel (DecrementCommentsForUser u)"
  unfolding video_stmts user_stmts social_stmts decrement_likes_for_def decrement_comments_for_def
  by (rule keeps_exec, auto simp: Let_def intro!: users_kept_same split: option.splits if_splits)+

lemma accounts_video_stmts:
  "accounts.rel (UpdatePendingVideoR2Key i k)" "accounts.rel (UpdatePendingVideoMetadata i t de)"
  "accounts.rel (ConfirmVideoProcessing i u k)" "accounts.rel (MarkVideoDeleted i u)"
  "accounts.rel (IncrementVideoRetry i)" "accounts.rel (MarkVideoReady i h th du)"
  "accounts.rel (MarkVideoFailed i)" "accounts.rel (IncrementLikesCount i)"
  "accounts.rel (DecrementLikesCount i)" "accounts.rel (IncrementCommentsCount i)"
  "accounts.rel (DecrementCommentsCountBy i m)" "accounts.rel (IncrementViews i)"
  by (simp_all only: video_stmts accounts_video)

interpretation accounts_sys: statement_rel keeps_users E for E
  by unfold_locales (intro accounts_video_stmts accounts_user accounts_inserts accounts_other)+

section \<open>What other processes do\<close>

definition others_respect :: "(db \<Rightarrow> db \<Rightarrow> bool) \<Rightarrow> worker \<Rightarrow> bool" where
  "others_respect P K \<longleftrightarrow>
     (\<forall>stage d. constraints (wk_others K stage d) \<longrightarrow> P d (wk_others K stage d))"

definition alone :: "worker \<Rightarrow> bool" where
  "alone K \<longleftrightarrow> (\<forall>stage d. wk_others K stage d = d)"

lemma alone_respects: "alone K \<Longrightarrow> (\<And>d. P d d) \<Longrightarrow> others_respect P K"
  by (simp add: alone_def others_respect_def)

lemma accounts_others: "others_respect users_kept K \<Longrightarrow> accounts_sys.others_ok K"
  by (auto simp: accounts_sys.others_ok_def accounts.rel_def interfere_def Let_def keeps_users_def
      others_respect_def supply_le_def users_kept_refl)

lemma constraints_others: "constraints_sys.others_ok K"
  by (auto simp: constraints_sys.others_ok_def inv.rel_def interfere_def Let_def inv_rel_def supply_le_def)

lemma likes_others:
  "others_respect (\<lambda>d d'. likes_inv d \<longrightarrow> likes_inv d') K \<Longrightarrow> likes_sys.others_ok K"
  by (auto simp: likes_sys.others_ok_def inv.rel_def interfere_def Let_def inv_rel_def
      others_respect_def supply_le_def)

lemma replies_others:
  "others_respect (\<lambda>d d'. replies_inv d \<longrightarrow> replies_inv d') K \<Longrightarrow> replies_sys.others_ok K"
  by (auto simp: replies_sys.others_ok_def inv.rel_def interfere_def Let_def inv_rel_def
      others_respect_def supply_le_def)

lemma life_others: "others_respect videos_from K \<Longrightarrow> life_sys.others_ok K"
  by (auto simp: life_sys.others_ok_def life.rel_def interfere_def Let_def evolves_def
      others_respect_def supply_le_def videos_from_def intro: older_in)

section \<open>Runs\<close>

abbreviation run :: "env \<Rightarrow> worker \<Rightarrow> world \<Rightarrow> world \<Rightarrow> bool" where
  "run E K \<equiv> (system_step E K)\<^sup>*\<^sup>*"

context handler_rel
begin

lemma rel_run: "run E K w w' \<Longrightarrow> others_ok K \<Longrightarrow> R w w'"
  by (induction rule: rtranclp_induct) (auto intro: R_refl rel_step R_trans)

end

lemma run_constraints: "run E K w w' \<Longrightarrow> constraints (w_db w) \<Longrightarrow> constraints (w_db w')"
  using constraints_sys.rel_run [OF _ constraints_others] by (auto simp: inv_rel_def)

lemma reachable_constraints: "reachable E K w \<Longrightarrow> constraints (w_db w)"
  by (erule reachable_inv, erule constraints_sys.rel_step [OF _ constraints_others], rule empty_db_invs)

lemma run_accounts:
  "run E K w w' \<Longrightarrow> others_respect users_kept K \<Longrightarrow> users_kept (w_db w) (w_db w')"
  using accounts_sys.rel_run [OF _ accounts_others] by (simp add: keeps_users_def)

lemma run_life:
  assumes "run E K w w'" "others_respect videos_from K" "constraints (w_db w)" "v' \<in> set (videos (w_db w'))"
  shows "(\<exists>v \<in> set (videos (w_db w)). older v v') \<or> v_ID v' \<in> drawn w w'"
  using life_sys.rel_run [OF assms(1) life_others [OF assms(2)]] assms(3,4) by (simp add: evolves_def)

section \<open>The owner of an inactive account is kept out\<close>

definition stays_out :: "db \<Rightarrow> (goerr + request) \<times> world \<Rightarrow> bool" where
  "stays_out d r \<longleftrightarrow> w_db (snd r) = d \<and> (\<forall>q'. fst r = Inr q' \<longrightarrow> req_user q' = None)"

lemma stays_out_reject:
  "req_user q = None \<Longrightarrow> w_db w = d \<Longrightarrow> stays_out d (bindM (RespondError e) (\<lambda>_. ok q) w)"
  using dbsame_Respond(5) [of e]
  by (auto simp: stays_out_def run_simps dbsame.rel_def split: sum.splits)

lemma known_user_run:
  assumes "find_row (\<lambda>u. u_ZitadelID u = sub) (users (w_db w)) = Some u"
  shows "fst (getOrCreateUser sub w) = Inr v \<Longrightarrow> v = u" "w_db (snd (getOrCreateUser sub w)) = w_db w"
  using assms fault_error [of w]
  by (auto simp: getOrCreateUser_def GetUserByZitadelID_def query_def one_row_def run_simps
      split: sum.splits)

lemma resolve_inactive:
  assumes "u \<in> set (users (w_db w))" "\<not> u_IsActive u" "users_ok (w_db w)"
    "extractBearer q = Inr t" "env_CheckToken E t = Inr (u_ZitadelID u)" "req_user q = None"
  shows "stays_out (w_db w) (resolveUser E q w)"
proof -
  let ?d = "w_db w" and ?v = "snd (CheckToken E t w)"
  have f: "find_row (\<lambda>x. u_ZitadelID x = u_ZitadelID u) (users ?d) = Some u"
    using assms(1,3) by (intro find_row_key) (simp_all add: users_ok_def)
  have v: "w_db ?v = ?d" by (simp add: CheckToken_def run_simps split: sum.split)
  note out = stays_out_reject [OF assms(6)]
  show ?thesis
  proof (cases "fst (CheckToken E t w)")
    case (Inl e)
    then show ?thesis by (simp add: resolveUser_def assms(4) Let_def tryM_run out v)
  next
    case (Inr s)
    then have s: "s = u_ZitadelID u"
      using assms(5) by (auto simp: CheckToken_def run_simps split: sum.splits)
    note k = known_user_run [where w = ?v and sub = s and u = u]
    have d: "w_db (snd (getOrCreateUser s ?v)) = ?d" using k(2) f v s by simp
    show ?thesis
    proof (cases "fst (getOrCreateUser s ?v)")
      case Inl': (Inl e)
      then show ?thesis using Inr d by (simp add: resolveUser_def assms(4) Let_def tryM_run out v)
    next
      case Inr': (Inr x)
      then have "x = u" using k(1) f v s by simp
      then show ?thesis
        using Inr Inr' d assms(2) by (simp add: resolveUser_def assms(4) Let_def tryM_run out v)
    qed
  qed
qed

lemma locked_out:
  assumes "run E K w w'" "others_respect users_kept K" "constraints (w_db w)"
    "u \<in> set (users (w_db w))" "\<not> u_IsActive u"
    "extractBearer q = Inr t" "env_CheckToken E t = Inr (u_ZitadelID u)" "req_user q = None"
  shows "stays_out (w_db w') (resolveUser E q w')"
proof -
  have "users_kept (w_db w) (w_db w')" using assms(1,2) by (rule run_accounts)
  then obtain u' where u': "u' \<in> set (users (w_db w'))" "same_account u u'"
    using assms(4) by (auto simp: users_kept_def)
  have "users_ok (w_db w')" using run_constraints [OF assms(1,3)] by (simp add: constraints_def)
  then show ?thesis
    using u' assms(5-8) by (intro resolve_inactive [where u = u' and t = t]) (auto simp: same_account_def)
qed

end
