(* ===== verification/Publishing.thy ===== *)
theory Publishing
  imports Cleaning Lockout
begin

text \<open>
  What the transcode task guarantees: it acts only on a video in \<^verbatim>\<open>PROCESSING\<close>,
  and a video it publishes has its master playlist and its thumbnail in the bucket, the
  playlist being the one for the prefix in the row.
\<close>

section \<open>Only processing videos\<close>

text \<open>Everything but the fault schedule and the supply of random identifiers.\<close>

definition untouched :: "world \<Rightarrow> world \<Rightarrow> bool" where
  "untouched w w' \<longleftrightarrow> w_db w' = w_db w \<and> w_queue w' = w_queue w \<and> w_objects w' = w_objects w \<and>
     w_files w' = w_files w"

lemma untouched_fault [simp]: "untouched w (snd (fault w))"
  by (simp add: untouched_def)

lemma untouched_get [simp]: "untouched w (snd (GetVideoByID i w))"
  by (auto simp: GetVideoByID_def query_def bindM_run split: sum.split)

lemma transcode_skips:
  assumes "env_uuid_Parse E raw = Some i"
    "list_all (\<lambda>v. v_ID v = i \<longrightarrow> v_Status v \<noteq> PROCESSING) (videos (w_db w))"
  shows "untouched w (snd (HandleTranscode E K (Some raw) w))"
proof (cases "fst (GetVideoByID i w)")
  case (Inl e)
  then show ?thesis
    using assms(1) by (simp add: HandleTranscode_def tryM_run ok_run untouched_def [of w w])
next
  case (Inr v)
  then have "v \<in> set (videos (w_db w))" "v_ID v = i"
    using find_row_Some [OF GetVideoByID_value] by auto
  then have "v_Status v \<noteq> PROCESSING" using assms(2) by (auto simp: list_all_iff)
  then show ?thesis
    using assms(1) Inr by (simp add: HandleTranscode_def tryM_run ok_run untouched_def [of w w])
qed

section \<open>A published video is complete\<close>

definition none_ready :: "uuid \<Rightarrow> db \<Rightarrow> bool" where
  "none_ready i d \<longleftrightarrow> (\<forall>v \<in> set (videos d). v_ID v = i \<longrightarrow> v_Status v \<noteq> READY)"

abbreviation not_ready :: "uuid \<Rightarrow> world \<Rightarrow> bool" where
  "not_ready i w \<equiv> none_ready i (w_db w)"

definition stored_as :: "string \<Rightarrow> string \<Rightarrow> world \<Rightarrow> bool" where
  "stored_as k b w \<longleftrightarrow> (\<exists>ob \<in> set (w_objects w). o_key ob = k \<and> o_body ob = b)"

definition holds_key :: "string \<Rightarrow> world \<Rightarrow> bool" where
  "holds_key k w \<longleftrightarrow> k \<in> o_key ` set (w_objects w)"

text \<open>The row names a prefix and a thumbnail, and they are there.\<close>

definition complete :: "world \<Rightarrow> Video \<Rightarrow> bool" where
  "complete w v \<longleftrightarrow> (\<exists>h t. v_HlsPrefix v = Some h \<and> v_ThumbnailKey v = Some t \<and> holds_key t w \<and>
     stored_as (h @ ''/master.m3u8'') (master_playlist h transcodeVariants) w)"

definition published_ok :: "uuid \<Rightarrow> world \<Rightarrow> bool" where
  "published_ok i w \<longleftrightarrow> (\<forall>v \<in> set (videos (w_db w)). v_ID v = i \<and> v_Status v = READY \<longrightarrow> complete w v)"

lemma published_not_ready: "not_ready i w \<Longrightarrow> published_ok i w"
  by (auto simp: none_ready_def published_ok_def)

text \<open>Calls that leave the tables alone.\<close>

lemma keeps_tables: "preserves I m \<Longrightarrow> keeps (\<lambda>w. I (w_db w)) m"
  by (simp add: preserves_rel keeps_rel)

lemma not_ready_db:
  fixes m :: "'a io"
  shows "dbsame.rel m \<Longrightarrow> keeps (not_ready i) m"
  by (rule keeps_tables [of "none_ready i"]) (rule preserves_dbsame)

lemma not_ready_update:
  assumes "\<And>now v. v_ID (f now v) = v_ID v"
    "\<And>now v. c v \<Longrightarrow> v_Status v \<noteq> READY \<Longrightarrow> v_Status (f now v) \<noteq> READY"
  shows "keeps (not_ready i) (update_video_one c f)"
proof (rule keeps_tables [of "none_ready i"], unfold preserves_def, rule triple_update_video_one)
  fix now d v assume n: "none_ready i d"
  show "none_ready i (d\<lparr>videos := update_rows c (f now) (videos d)\<rparr>)"
    unfolding none_ready_def
  proof (intro ballI impI)
    fix y assume y: "y \<in> set (videos (d\<lparr>videos := update_rows c (f now) (videos d)\<rparr>))" "v_ID y = i"
    then obtain x where x: "x \<in> set (videos d)" "y = (if c x then f now x else x)"
      by (auto simp: update_rows_set)
    have "v_ID x = i" using x(2) y(2) assms(1) by (simp split: if_splits)
    then show "v_Status y \<noteq> READY"
      using x n assms(2) by (simp add: none_ready_def)
  qed
qed simp

lemma not_ready_marks:
  "keeps (not_ready i) (MarkVideoFailed j)" "keeps (not_ready i) (IncrementVideoRetry j)"
  unfolding MarkVideoFailed_def IncrementVideoRetry_def by (rule not_ready_update, auto)+

lemma not_ready_failures:
  "keeps (not_ready i) (fail_permanently j k)" "keeps (not_ready i) (handleTransient E v)"
  "keeps (not_ready i) (cleanupOnFailure ks)" "keeps (not_ready i) (give_up E v ks)"
proof -
  have l: "keeps (not_ready i) (logged m)" if "keeps (not_ready i) m" for m :: "'x io"
    unfolding logged_def by (intro keeps_intros that)
  note e = dbsame_enqueue [THEN not_ready_db] dbsame_client [THEN not_ready_db]
  show a: "keeps (not_ready i) (fail_permanently j k)" for j k
    unfolding fail_permanently_def markFailedDetached_def by (intro keeps_intros l not_ready_marks e)
  show b: "keeps (not_ready i) (handleTransient E v)" for E v
    unfolding handleTransient_def EnqueueWithDelay_def by (intro keeps_intros l a e)
  show c: "keeps (not_ready i) (cleanupOnFailure ks)" for ks
    unfolding cleanupOnFailure_def by (intro keeps_intros l e)
  show "keeps (not_ready i) (give_up E v ks)"
    unfolding give_up_def by (intro keeps_intros b c)
qed

text \<open>Nobody else works on the tables in between.\<close>

lemma dbsame_interfere: "alone K \<Longrightarrow> dbsame.rel (interfere K st)"
  by (simp add: dbsame.rel_def interfere_def alone_def Let_def)

lemma dbsame_runFFmpeg: "alone K \<Longrightarrow> dbsame.rel (runFFmpeg K st args)"
proof -
  assume a: "alone K"
  have "dbsame.rel (put_files fs)" for fs
    by (induction fs) (auto intro!: dbsame_intros dbsame_files)
  moreover have "dbsame.rel (\<lambda>w. (Inr (wk_ffmpeg K args (w_files w)), w))" by (simp add: dbsame.rel_def)
  ultimately show ?thesis unfolding runFFmpeg_def
    by (intro dbsame_intros dbsame_interfere [OF a])
qed

lemma dbsame_uploadVariant: "dbsame.rel (uploadVariant E wd h d)"
proof -
  have "dbsame.rel (upload_names E vp kd us ns)" for vp kd us ns
    by (induction ns arbitrary: us) (auto simp: Let_def intro!: dbsame_intros dbsame_R2)
  moreover have "dbsame.rel (read_dir p)" for p
    unfolding read_dir_def by (intro dbsame_intros dbsame_pure)
  ultimately show ?thesis unfolding uploadVariant_def Let_def by (intro dbsame_intros)
qed

lemma UploadFile_value:
  assumes "fst (UploadFile E key path ct w) = Inr ()"
  shows "\<exists>b. map_of (w_files w) path = Some b \<and> stored_as key b (snd (UploadFile E key path ct w))"
    "holds_key k w \<or> k = key \<Longrightarrow> holds_key k (snd (UploadFile E key path ct w))"
  using assms
  by (auto simp: UploadFile_def read_file_def tryM_run bindM_run put_object_def stored_as_def holds_key_def
      throw_run split: if_splits sum.splits option.splits)

lemma write_file_value:
  "fst (write_file p b w) = Inr () \<Longrightarrow> map_of (w_files (snd (write_file p b w))) p = Some b"
  by (auto simp: write_file_def put_file_def bindM_run split: sum.splits)

lemma write_file_objects: "w_objects (snd (write_file p b w)) = w_objects w"
  by (auto simp: write_file_def put_file_def bindM_run split: sum.splits)

text \<open>Calls that leave the tables, the bucket and the local files alone.\<close>

definition shelved :: "world \<Rightarrow> world \<Rightarrow> bool" where
  "shelved w w' \<longleftrightarrow> w_db w' = w_db w \<and> w_objects w' = w_objects w \<and> w_files w' = w_files w"

interpretation shelf: step_rel shelved
  by unfold_locales (auto simp: shelved_def)

lemma shelf_calls:
  "shelf.rel fault" "shelf.rel (GetVideoByID i)" "shelf.rel (client_Enqueue t d r)"
  "alone K \<Longrightarrow> shelf.rel (interfere K st)"
  by (auto simp: shelf.rel_def shelved_def GetVideoByID_def query_def client_Enqueue_def bindM_run
      interfere_def alone_def Let_def split: sum.split)

lemma shelf_cleanup: "shelf.rel (logged (EnqueueCleanupObjects ks))" "shelf.rel (cleanupOnFailure ks)"
  unfolding logged_def EnqueueCleanupObjects_def cleanupOnFailure_def
  by (intro shelf.rel_intros shelf_calls)+

lemma shelf_keeps:
  assumes "shelf.rel m" "\<And>w w'. P w \<Longrightarrow> shelved w w' \<Longrightarrow> P w'"
  shows "keeps P m"
  using assms by (auto simp: keeps_def shelf.rel_def)

lemma shelf_hoare:
  assumes "shelf.rel m" "\<And>w w'. P w \<Longrightarrow> shelved w w' \<Longrightarrow> P w'"
  shows "hoare P m (\<lambda>_. P) (\<lambda>_. P)"
  by (rule hoare_keeps) (rule shelf_keeps [OF assms])

lemma hoare_not_ready:
  assumes "keeps (not_ready i) m" "\<And>w. P w \<Longrightarrow> not_ready i w"
  shows "hoare P m (\<lambda>_. published_ok i) (\<lambda>_. published_ok i)"
  by (rule hoare_weaken [OF hoare_keeps [OF assms(1)] assms(2)]) (simp_all add: published_not_ready)

text \<open>Thumbnail and master playlist are in the bucket, the video is not published yet.\<close>

definition outputs_in :: "uuid \<Rightarrow> string \<Rightarrow> string \<Rightarrow> world \<Rightarrow> bool" where
  "outputs_in i h t w \<longleftrightarrow> not_ready i w \<and> holds_key t w \<and>
     stored_as (h @ ''/master.m3u8'') (master_playlist h transcodeVariants) w"

lemma outputs_shelved: "outputs_in i h t w \<Longrightarrow> shelved w w' \<Longrightarrow> outputs_in i h t w'"
  by (simp add: outputs_in_def shelved_def holds_key_def stored_as_def)

lemma published_shelved: "published_ok i w \<Longrightarrow> shelved w w' \<Longrightarrow> published_ok i w'"
  by (simp add: published_ok_def shelved_def complete_def holds_key_def stored_as_def)

lemma update_video_one_frame:
  "w_objects (snd (update_video_one c f w)) = w_objects w" "w_files (snd (update_video_one c f w)) = w_files w"
  by (auto simp: update_video_one_def exec_def bindM_run split: sum.split option.split prod.split)

lemma update_video_one_value:
  "fst (update_video_one c f w) = Inr x \<Longrightarrow>
    videos (w_db (snd (update_video_one c f w))) = update_rows c (f (pg_now w)) (videos (w_db w))"
  by (auto simp: update_video_one_def exec_def bindM_run pg_now_def split: sum.splits option.splits prod.splits if_splits)

lemma update_video_one_error:
  "fst (update_video_one c f w) = Inl e \<Longrightarrow> w_db (snd (update_video_one c f w)) = w_db w"
  by (auto simp: update_video_one_def exec_def bindM_run split: sum.splits option.splits prod.splits if_splits)

lemma MarkVideoReady_publishes:
  "hoare (outputs_in i h t) (MarkVideoReady i (Some h) (Some t) d) (\<lambda>_. published_ok i) (\<lambda>_. outputs_in i h t)"
proof (rule hoareI)
  fix w x assume o: "outputs_in i h t w" and r: "fst (MarkVideoReady i (Some h) (Some t) d w) = Inr x"
  let ?w = "snd (MarkVideoReady i (Some h) (Some t) d w)"
  have vs: "videos (w_db ?w) = update_rows (\<lambda>v. v_ID v = i \<and> v_Status v = PROCESSING)
       (\<lambda>v. v\<lparr>v_Status := READY, v_HlsPrefix := Some h, v_ThumbnailKey := Some t,
              v_DurationSeconds := d\<rparr>) (videos (w_db w))"
    using update_video_one_value [OF r [unfolded MarkVideoReady_def]] by (simp add: MarkVideoReady_def)
  have "w_objects ?w = w_objects w" by (simp add: MarkVideoReady_def update_video_one_frame)
  then have "holds_key t ?w" "stored_as (h @ ''/master.m3u8'') (master_playlist h transcodeVariants) ?w"
    using o by (simp_all add: outputs_in_def holds_key_def stored_as_def)
  then have c: "complete ?w y" if "v_HlsPrefix y = Some h" "v_ThumbnailKey y = Some t" for y
    using that by (simp add: complete_def)
  show "published_ok i ?w"
    unfolding published_ok_def
  proof (intro ballI impI)
    fix y assume "y \<in> set (videos (w_db ?w))" and y: "v_ID y = i \<and> v_Status y = READY"
    then obtain x where x: "x \<in> set (videos (w_db w))"
      "y = (if v_ID x = i \<and> v_Status x = PROCESSING then x\<lparr>v_Status := READY, v_HlsPrefix := Some h,
         v_ThumbnailKey := Some t, v_DurationSeconds := d\<rparr> else x)"
      by (auto simp: vs update_rows_set)
    show "complete ?w y"
    proof (cases "v_ID x = i \<and> v_Status x = PROCESSING")
      case True
      then show ?thesis using x(2) by (intro c) simp_all
    next
      case False
      then have "y = x" using x(2) by (simp only: if_False)
      then show ?thesis using x(1) y o by (auto simp: outputs_in_def none_ready_def)
    qed
  qed
next
  fix w e assume o: "outputs_in i h t w" and r: "fst (MarkVideoReady i (Some h) (Some t) d w) = Inl e"
  then show "outputs_in i h t (snd (MarkVideoReady i (Some h) (Some t) d w))"
    using update_video_one_error [OF r [unfolded MarkVideoReady_def]]
    by (simp add: outputs_in_def MarkVideoReady_def update_video_one_frame holds_key_def stored_as_def)
qed

lemma publish_ok:
  assumes "alone K"
  shows "hoare (outputs_in (v_ID v) h t) (publish E K v h t du keys)
    (\<lambda>_. published_ok (v_ID v)) (\<lambda>_. published_ok (v_ID v))"
proof -
  let ?P = "outputs_in (v_ID v) h t" and ?R = "published_ok (v_ID v)"
  have PR: "?P w \<Longrightarrow> ?R w" for w
    using published_not_ready [of "v_ID v" w] by (simp add: outputs_in_def)
  have give_up: "hoare ?P (give_up E v keys) (\<lambda>_. ?R) (\<lambda>_. ?R)"
    by (rule hoare_not_ready [OF not_ready_failures(4)]) (simp add: outputs_in_def)
  have drop: "hoare ?P (cleanupOnFailure keys) (\<lambda>_. ?R) (\<lambda>_. ?R)"
    by (rule hoare_not_ready [OF not_ready_failures(3)]) (simp add: outputs_in_def)
  have wait: "hoare ?P (interfere K st) (\<lambda>_. ?P) (\<lambda>_. ?R)" for st
    by (rule hoare_weaken [OF shelf_hoare [OF shelf_calls(4) [OF assms] outputs_shelved]]) (auto intro: PR)
  have get: "hoare ?P (GetVideoByID j) (\<lambda>_. ?P) (\<lambda>_. ?P)" for j
    by (rule shelf_hoare [OF shelf_calls(2) outputs_shelved])
  have clean: "hoare ?R (logged (EnqueueCleanupObjects ks)) (\<lambda>_. ?R) (\<lambda>_. ?R)" for ks
    by (rule shelf_hoare [OF shelf_cleanup(1) published_shelved])
  show ?thesis
    unfolding publish_def
    by (intro hoare_bindM [OF wait] hoare_tryM [OF get] hoare_tryM [OF MarkVideoReady_publishes]
        hoare_if give_up drop clean)
qed

section \<open>The pipeline\<close>

abbreviation delivers :: "uuid \<Rightarrow> (world \<Rightarrow> bool) \<Rightarrow> unit io \<Rightarrow> bool" where
  "delivers i P m \<equiv> hoare P m (\<lambda>_. published_ok i) (\<lambda>_. published_ok i)"

lemma delivers_failure:
  "delivers i (not_ready i) (fail_permanently j k)" "delivers i (not_ready i) (handleTransient E v)"
  "delivers i (not_ready i) (give_up E v ks)" "delivers i (not_ready i) (ok ())"
  by (rule hoare_not_ready [OF not_ready_failures(1)] hoare_not_ready [OF not_ready_failures(2)]
      hoare_not_ready [OF not_ready_failures(4)], assumption)+
     (simp add: hoare_ok published_not_ready)

lemma tables_same:
  fixes m :: "'a io"
  assumes "dbsame.rel m"
  shows "hoare (not_ready i) m (\<lambda>_. not_ready i) (\<lambda>_. not_ready i)"
  by (rule hoare_keeps) (rule not_ready_db [OF assms])

lemma delivers_variants:
  assumes "alone K" "\<And>ks. delivers i (not_ready i) (cont ks)"
  shows "delivers i (not_ready i) (run_variants E K v wd sp h tvs ks cont)"
proof (induction tvs arbitrary: ks)
  case (Cons tv tvs)
  have up: "hoare (not_ready i) (uploadVariant E wd h d) (\<lambda>_. not_ready i) (\<lambda>_. published_ok i)" for d
    by (rule hoare_weaken [OF tables_same [OF dbsame_uploadVariant]]) (auto intro: published_not_ready)
  show ?case
    unfolding run_variants.simps Let_def MkdirAll_def
    by (intro hoare_tryM [OF tables_same] dbsame_fault dbsame_runFFmpeg assms(1) delivers_failure
        hoare_bindM [OF up] hoare_prod hoare_option Cons.IH)
qed (simp add: assms(2))

lemma upload_thumb:
  "hoare (not_ready i) (UploadFile E t p ct) (\<lambda>_ w. not_ready i w \<and> holds_key t w) (\<lambda>_. not_ready i)"
proof (rule hoareI)
  have same: "w_db (snd (UploadFile E t p ct w)) = w_db w" for w by (rule same_tables [OF dbsame_R2(6)])
  show "not_ready i (snd (UploadFile E t p ct w)) \<and> holds_key t (snd (UploadFile E t p ct w))"
    if "not_ready i w" "fst (UploadFile E t p ct w) = Inr x" for w x
    using that UploadFile_value(2) [of E t p ct w t] same by simp
  show "not_ready i (snd (UploadFile E t p ct w))" if "not_ready i w" for w
    using that same by simp
qed

lemma write_master:
  "hoare (\<lambda>w. not_ready i w \<and> holds_key t w) (write_file p b)
     (\<lambda>_ w. not_ready i w \<and> holds_key t w \<and> map_of (w_files w) p = Some b) (\<lambda>_. not_ready i)"
proof (rule hoareI)
  have same: "w_db (snd (write_file p b w)) = w_db w" for w by (rule same_tables [OF dbsame_files(6)])
  show "not_ready i (snd (write_file p b w)) \<and> holds_key t (snd (write_file p b w)) \<and>
      map_of (w_files (snd (write_file p b w))) p = Some b"
    if "not_ready i w \<and> holds_key t w" "fst (write_file p b w) = Inr x" for w x
    using that write_file_value [of p b w] same by (simp add: holds_key_def write_file_objects)
  show "not_ready i (snd (write_file p b w))" if "not_ready i w \<and> holds_key t w" for w
    using that same by simp
qed

lemma upload_master:
  "hoare (\<lambda>w. not_ready i w \<and> holds_key t w \<and> map_of (w_files w) p = Some (master_playlist h transcodeVariants))
     (UploadFile E (h @ ''/master.m3u8'') p ct) (\<lambda>_. outputs_in i h t) (\<lambda>_. not_ready i)"
proof (rule hoareI)
  let ?m = "UploadFile E (h @ ''/master.m3u8'') p ct"
  have same: "w_db (snd (?m w)) = w_db w" for w by (rule same_tables [OF dbsame_R2(6)])
  show "outputs_in i h t (snd (?m w))"
    if "not_ready i w \<and> holds_key t w \<and> map_of (w_files w) p = Some (master_playlist h transcodeVariants)"
      "fst (?m w) = Inr x" for w x
    using that UploadFile_value [of E "h @ ''/master.m3u8''" p ct w] same by (auto simp: outputs_in_def)
  show "not_ready i (snd (?m w))"
    if "not_ready i w \<and> holds_key t w \<and> map_of (w_files w) p = Some (master_playlist h transcodeVariants)" for w
    using that same by simp
qed

lemma weaker_failure:
  assumes "delivers i (not_ready i) m" "\<And>w. P w \<Longrightarrow> not_ready i w"
  shows "delivers i P m"
  by (rule hoare_weaken [OF assms])

lemma delivers_outputs:
  assumes "alone K" "v_ID v = i"
  shows "delivers i (not_ready i) (transcode_outputs E K v wd sp du)"
proof -
  have join: "join_path h ''master.m3u8'' = h @ ''/master.m3u8''" for h by (simp add: join_path_def)
  show ?thesis
    unfolding transcode_outputs_def Let_def writeMasterPlaylist_def join
    by (intro delivers_variants assms(1) hoare_tryM [OF tables_same] dbsame_runFFmpeg delivers_failure
        hoare_tryM [OF upload_thumb] hoare_tryM [OF write_master] hoare_tryM [OF upload_master]
        publish_ok [where v = v, unfolded assms(2)])
qed

lemma delivers_source:
  assumes "alone K" "v_ID v = i"
  shows "delivers i (not_ready i) (process_source E K v wd)"
proof -
  have wait: "hoare (not_ready i) (interfere K st) (\<lambda>_. not_ready i) (\<lambda>_. published_ok i)" for st
    by (rule hoare_weaken [OF tables_same [OF dbsame_interfere [OF assms(1)]]]) (auto intro: published_not_ready)
  have f: "dbsame.rel (fileSize p)" "dbsame.rel (ProbeFile K p)" for p
    unfolding fileSize_def ProbeFile_def Let_def
    by (intro dbsame_intros dbsame_files | simp split: probe_outcome.split | intro conjI allI impI)+
  show ?thesis
    unfolding process_source_def Let_def
    by (intro hoare_bindM [OF wait] hoare_tryM [OF tables_same] dbsame_R2 f delivers_failure hoare_if
        hoare_sum delivers_outputs assms)
qed

lemma delivers_attempt:
  assumes "alone K" "v_ID v = i"
  shows "delivers i (not_ready i) (transcode_attempt E K v)"
proof -
  have remove: "w_db (snd (RemoveAll d w)) = w_db w \<and> w_objects (snd (RemoveAll d w)) = w_objects w" for d w
    by (auto simp: RemoveAll_def bindM_run split: sum.split)
  have d: "delivers i (not_ready i) (deferred m (RemoveAll d))" if "delivers i (not_ready i) m" for m d
  proof (rule hoareI)
    fix w assume "not_ready i w"
    then have "published_ok i (snd (m w))"
      using hoareD [OF that] by (cases "fst (m w)") auto
    then have "published_ok i (snd (RemoveAll d (snd (m w))))"
      using remove by (simp add: published_ok_def complete_def holds_key_def stored_as_def)
    then show "published_ok i (snd (deferred m (RemoveAll d) w))" "published_ok i (snd (deferred m (RemoveAll d) w))"
      by (cases "m w", simp add: deferred_def)+
  qed
  have u: "hoare (not_ready i) new_uuid (\<lambda>_. not_ready i) (\<lambda>_. published_ok i)"
    by (rule hoare_weaken [OF tables_same [OF dbsame_new_uuid]]) (auto intro: published_not_ready)
  show ?thesis
    unfolding transcode_attempt_def Let_def MkdirAll_def
    by (intro hoare_tryM [OF tables_same] dbsame_fault delivers_failure hoare_bindM [OF u] d
        delivers_source assms)
qed

lemma transcode_publishes:
  assumes "alone K" "env_uuid_Parse E raw = Some i" "not_ready i w"
  shows "published_ok i (snd (HandleTranscode E K (Some raw) w))"
proof -
  have wait: "hoare (not_ready i) (interfere K st) (\<lambda>_. not_ready i) (\<lambda>_. published_ok i)" for st
    by (rule hoare_weaken [OF tables_same [OF dbsame_interfere [OF assms(1)]]]) (auto intro: published_not_ready)
  have inc: "hoare (not_ready i) (IncrementVideoRetry i) (\<lambda>v w. not_ready i w \<and> v_ID v = i) (\<lambda>_. not_ready i)"
  proof (rule hoareI)
    fix w v assume n: "not_ready i w" and r: "fst (IncrementVideoRetry i w) = Inr v"
    have "v_ID v = i"
      using r by (auto simp: IncrementVideoRetry_def update_video_one_def exec_def bindM_run
          split: sum.splits option.splits prod.splits if_splits dest!: find_row_Some)
    then show "not_ready i (snd (IncrementVideoRetry i w)) \<and> v_ID v = i"
      using not_ready_marks(2) [of i i] n by (simp add: keeps_def)
  next
    fix w e assume "not_ready i w"
    then show "not_ready i (snd (IncrementVideoRetry i w))"
      using not_ready_marks(2) [of i i] by (simp add: keeps_def)
  qed
  have att: "delivers i (\<lambda>w. not_ready i w \<and> v_ID v = i) (transcode_attempt E K v)" for v
  proof (cases "v_ID v = i")
    case True
    show ?thesis by (rule weaker_failure [OF delivers_attempt [OF assms(1) True]]) simp
  qed (simp add: hoare_def)
  have "delivers i (not_ready i) (HandleTranscode E K (Some raw))"
    unfolding HandleTranscode_def option.case assms(2)
    by (intro hoare_if delivers_failure hoare_tryM [OF tables_same] dbsame_reads hoare_bindM [OF wait]
        hoare_tryM [OF inc] att)
  from hoareD [OF this assms(3)] show ?thesis
    by (cases "fst (HandleTranscode E K (Some raw) w)") auto
qed

end
