(* ===== verification/Delivery.thy ===== *)
theory Delivery
  imports Publishing
begin

text \<open>
  The transcode task succeeds when it should: a processing video whose upload is in the
  bucket and passes the validation is published by one undisturbed run.  \<^verbatim>\<open>runs P m Q\<close>
  is total correctness: from \<^verbatim>\<open>P\<close> the call returns a value, with \<^verbatim>\<open>Q\<close>.
\<close>

section \<open>Undisturbed runs\<close>

definition runs :: "(world \<Rightarrow> bool) \<Rightarrow> 'a io \<Rightarrow> ('a \<Rightarrow> world \<Rightarrow> bool) \<Rightarrow> bool" where
  "runs P m Q \<longleftrightarrow> (\<forall>w. P w \<longrightarrow> (\<exists>x. fst (m w) = Inr x \<and> Q x (snd (m w))))"

lemma runsI: "(\<And>w. P w \<Longrightarrow> \<exists>x w'. m w = (Inr x, w') \<and> Q x w') \<Longrightarrow> runs P m Q"
  by (fastforce simp: runs_def)

lemma runsD: "runs P m Q \<Longrightarrow> P w \<Longrightarrow> \<exists>x. fst (m w) = Inr x \<and> Q x (snd (m w))"
  by (simp add: runs_def)

lemma runs_ok: "(\<And>w. P w \<Longrightarrow> Q x w) \<Longrightarrow> runs P (ok x) Q"
  by (simp add: runs_def ok_def)

lemma runs_tryM:
  assumes "runs P m Q'" "\<And>x. runs (Q' x) (k x) Q"
  shows "runs P (tryM m h k) Q"
  unfolding runs_def
proof (intro allI impI)
  fix w assume "P w"
  then obtain x where "fst (m w) = Inr x" "Q' x (snd (m w))" using runsD [OF assms(1)] by blast
  then show "\<exists>y. fst (tryM m h k w) = Inr y \<and> Q y (snd (tryM m h k w))"
    using runsD [OF assms(2)] by (simp add: tryM_run)
qed

lemma runs_bindM: "runs P m Q' \<Longrightarrow> (\<And>x. runs (Q' x) (k x) Q) \<Longrightarrow> runs P (bindM m k) Q"
  unfolding bindM_def by (rule runs_tryM)

lemma runs_weaken:
  "runs P' m Q' \<Longrightarrow> (\<And>w. P w \<Longrightarrow> P' w) \<Longrightarrow> (\<And>x w. Q' x w \<Longrightarrow> Q x w) \<Longrightarrow> runs P m Q"
  unfolding runs_def by meson

text \<open>No call fails, the tables are \<^verbatim>\<open>d\<close>, the local files are those given.\<close>

definition calm_in :: "db \<Rightarrow> world \<Rightarrow> bool" where
  "calm_in d w \<longleftrightarrow> w_faults w = [] \<and> w_db w = d"

definition has_file :: "string \<Rightarrow> world \<Rightarrow> bool" where
  "has_file p w \<longleftrightarrow> p \<in> fst ` set (w_files w)"

lemma has_file_read: "has_file p w \<Longrightarrow> \<exists>b. map_of (w_files w) p = Some b"
  using map_of_eq_None_iff [of "w_files w" p] by (cases "map_of (w_files w) p") (auto simp: has_file_def)

section \<open>The subprocesses\<close>

text \<open>An encoder that succeeds on every call and writes the file named last.\<close>

definition ffmpeg_ok :: "worker \<Rightarrow> bool" where
  "ffmpeg_ok K \<longleftrightarrow> (\<forall>args fs. case wk_ffmpeg K args fs of
     Inl _ \<Rightarrow> False | Inr out \<Rightarrow> last args \<in> fst ` set out)"

lemma put_files_run:
  "\<exists>w'. put_files fs w = (Inr (), w') \<and> w_faults w' = w_faults w \<and> w_db w' = w_db w \<and>
     w_objects w' = w_objects w \<and> (\<forall>p. has_file p w \<or> p \<in> fst ` set fs \<longrightarrow> has_file p w')"
proof (induction fs arbitrary: w)
  case (Cons f fs)
  obtain p b where f: "f = (p, b)" by (cases f)
  let ?v = "snd (put_file p b w)"
  have v: "w_faults ?v = w_faults w" "w_db ?v = w_db w" "w_objects ?v = w_objects w"
    "has_file p ?v" "\<And>q. has_file q w \<Longrightarrow> has_file q ?v"
    by (auto simp: put_file_def has_file_def image_iff)
  have "put_files (f # fs) w = put_files fs ?v"
    by (simp add: f bindM_run put_file_def)
  then show ?case using Cons.IH [of ?v] v by (auto simp: f)
qed (simp add: ok_def)

lemma runs_ffmpeg:
  assumes "alone K" "ffmpeg_ok K"
  shows "runs (\<lambda>w. calm_in d w \<and> A w) (runFFmpeg K st args)
    (\<lambda>_ w. calm_in d w \<and> has_file (last args) w)"
proof (rule runsI)
  fix w assume w: "calm_in d w \<and> A w"
  obtain out where out: "wk_ffmpeg K args (w_files w) = Inr out" "last args \<in> fst ` set out"
    using assms(2) unfolding ffmpeg_ok_def by (metis (no_types, lifting) old.sum.exhaust old.sum.simps(5,6))
  have i: "interfere K st w = (Inr (), w)"
    using assms(1) by (simp add: interfere_def alone_def Let_def)
  obtain w' where "put_files out w = (Inr (), w')" "w_faults w' = []" "w_db w' = d" "has_file (last args) w'"
    using put_files_run [of out w] w out(2) by (auto simp: calm_in_def)
  then show "\<exists>x w'. runFFmpeg K st args w = (Inr x, w') \<and> calm_in d w' \<and> has_file (last args) w'"
    using w by (simp add: runFFmpeg_def bindM_run tryM_run i calm_fault calm_in_def out(1))
qed

section \<open>Uploads\<close>

lemma runs_upload:
  assumes "key \<noteq> []" "path \<noteq> []"
  shows "runs (\<lambda>w. calm_in d w \<and> has_file path w \<and> w_files w = fs) (UploadFile E key path ct)
    (\<lambda>_ w. calm_in d w \<and> w_files w = fs)"
proof (rule runsI)
  fix w assume w: "calm_in d w \<and> has_file path w \<and> w_files w = fs"
  then obtain b where "map_of (w_files w) path = Some b" using has_file_read by blast
  then show "\<exists>x w'. UploadFile E key path ct w = (Inr x, w') \<and> calm_in d w' \<and> w_files w' = fs"
    using w assms by (simp add: UploadFile_def read_file_def tryM_run bindM_run put_object_def calm_in_def calm_fault)
qed

lemma runs_names:
  assumes "\<And>n. n \<in> set ns \<Longrightarrow> join_path vp n \<in> fst ` set fs"
  shows "runs (\<lambda>w. calm_in d w \<and> w_files w = fs) (upload_names E vp kd us ns)
    (\<lambda>r w. snd r = None \<and> calm_in d w)"
  using assms
proof (induction ns arbitrary: us)
  case Nil
  show ?case unfolding upload_names.simps by (rule runs_ok) simp
next
  case (Cons n ns)
  have "runs (\<lambda>w. calm_in d w \<and> w_files w = fs) (UploadFile E (join_path kd n) (join_path vp n) (content_type n))
      (\<lambda>_ w. calm_in d w \<and> w_files w = fs)"
    by (rule runs_weaken [OF runs_upload]) (use Cons.prems in \<open>auto simp: join_path_def has_file_def\<close>)
  then show ?case
    unfolding upload_names.simps Let_def
    by (rule runs_tryM) (rule Cons.IH, rule Cons.prems, simp)
qed

lemma dir_names_file:
  assumes "n \<in> set (dir_names dir fs)"
  shows "join_path dir n \<in> fst ` set fs"
proof -
  obtain f where "f \<in> set fs" "prefix_of (dir @ ''/'') (fst f)" "n = drop (length (dir @ ''/'')) (fst f)"
    using assms by (auto simp: dir_names_def Let_def)
  then show ?thesis
    by (auto simp: prefix_of_def join_path_def image_iff intro!: bexI [of _ f])
       (metis append.assoc append_Cons append_Nil append_take_drop_id)
qed

lemma runs_variant:
  "runs (calm_in d) (uploadVariant E wd h dir) (\<lambda>r w. snd r = None \<and> calm_in d w)"
proof -
  let ?vp = "join_path wd (join_path h dir)"
  have "runs (calm_in d) (read_dir ?vp) (\<lambda>ns w. calm_in d w \<and> ns = dir_names ?vp (w_files w))"
    by (rule runsI) (auto simp: read_dir_def bindM_run calm_in_def calm_fault)
  moreover have "runs (\<lambda>w. calm_in d w \<and> ns = dir_names ?vp (w_files w))
      (upload_names E ?vp kd [] ns) (\<lambda>r w. snd r = None \<and> calm_in d w)" for ns kd
    unfolding runs_def
  proof (intro allI impI)
    fix w assume w: "calm_in d w \<and> ns = dir_names ?vp (w_files w)"
    show "\<exists>x. fst (upload_names E ?vp kd [] ns w) = Inr x \<and> snd x = None \<and>
        calm_in d (snd (upload_names E ?vp kd [] ns w))"
      by (rule runsD [OF runs_names [where fs = "w_files w"]]) (use w dir_names_file in auto)
  qed
  ultimately show ?thesis unfolding uploadVariant_def Let_def by (rule runs_tryM)
qed

lemma runs_variants:
  assumes "alone K" "ffmpeg_ok K" "\<And>ks. runs (calm_in d) (cont ks) Q"
  shows "runs (calm_in d) (run_variants E K v wd sp h tvs ks cont) Q"
proof (induction tvs arbitrary: ks)
  case (Cons tv tvs)
  have mk: "runs (calm_in d) fault (\<lambda>_. calm_in d)"
    by (rule runsI) (simp add: calm_in_def calm_fault)
  have ff: "runs (calm_in d) (runFFmpeg K st args) (\<lambda>_. calm_in d)" for st args
    by (rule runs_weaken [OF runs_ffmpeg [OF assms(1,2), where A = "\<lambda>_. True"]]) auto
  have next_variant: "runs (\<lambda>w. snd r = None \<and> calm_in d w)
     (case r of (new, err) \<Rightarrow> (case err of Some _ \<Rightarrow> give_up E v (ks @ new)
        | None \<Rightarrow> run_variants E K v wd sp h tvs (ks @ new) cont)) Q" for r
  proof (cases "snd r")
    case None
    then show ?thesis using Cons.IH by (cases r) (auto intro: runs_weaken)
  qed (simp add: runs_def)
  show ?case
    unfolding run_variants.simps Let_def MkdirAll_def
    by (intro runs_tryM [OF mk] runs_tryM [OF ff] runs_bindM [OF runs_variant] next_variant)
qed (simp add: assms(3))

section \<open>Durations\<close>

lemma round_range:
  assumes "\<not> fl_less f 1" "\<not> fl_greater f 180" "f \<noteq> NaN"
  shows "1 \<le> round_int32 k f \<and> round_int32 k f \<le> 180 \<and> \<not> fl_le_zero f"
proof (cases f)
  case (Fin neg m s)
  let ?M = "m * 2 ^ nat s" let ?N = "(2::nat) ^ nat (- s)"
  have neg: "\<not> neg" and lo: "?N \<le> ?M" and hi: "?M \<le> 180 * ?N"
    using assms(1,2) Fin by (auto split: if_splits)
  have N: "0 < ?N" by simp
  let ?r = "(2 * ?M + ?N) div (2 * ?N)"
  have "1 * (2 * ?N) \<le> 2 * ?M + ?N" using lo by linarith
  then have r1: "1 \<le> ?r" using N by (simp add: less_eq_div_iff_mult_less_eq)
  have "2 * ?M + ?N < 181 * (2 * ?N)" using hi N by linarith
  then have r2: "?r < 181" using N by (simp add: div_less_iff_less_mult)
  have "m > 0" using lo N by (cases m) auto
  then show ?thesis using Fin neg r1 r2 by (simp add: Let_def int32_ok_def mult.assoc)
qed (use assms in auto)

lemma valid_duration:
  assumes "check_duration s = Inr ()" "parseFFmpegDuration s \<noteq> NaN"
  shows "1 \<le> round_int32 k (parseFFmpegDuration s) \<and> round_int32 k (parseFFmpegDuration s) \<le> 180 \<and>
    \<not> fl_le_zero (parseFFmpegDuration s)"
proof -
  obtain f where f: "s \<noteq> []" "ParseFloat s = Some f" "\<not> fl_less f 1" "\<not> fl_greater f 180"
    using assms(1)
    by (auto simp: check_duration_def invalid_media_def minDuration_def maxDuration_def
        split: if_splits option.splits)
  then have "parseFFmpegDuration s = f" by (simp add: parseFFmpegDuration_def)
  then show ?thesis using round_range [OF f(3,4)] assms(2) by simp
qed

lemma valid_media_duration:
  "ValidateMedia r n = Inr () \<Longrightarrow> check_duration (ff_Duration (fr_Format r)) = Inr ()"
  by (auto simp: ValidateMedia_def invalid_media_def split: if_splits sum.splits)

section \<open>Updates that keep the constraints\<close>

lemma map_filter_update:
  assumes "\<And>x. c x \<Longrightarrow> P (f x) = P x" "\<And>x. g (f x) = g x"
  shows "map g (filter P (update_rows c f xs)) = map g (filter P xs)"
  using assms by (induction xs) (auto simp: update_rows_def)

lemma constraints_update_videos:
  assumes "constraints d" "\<And>v. v_ID (f v) = v_ID v" "\<And>v. v_R2Key (f v) = v_R2Key v"
    "\<And>v. v_UserID (f v) = v_UserID v"
    "\<And>v. c v \<Longrightarrow> (v_Status (f v) = PENDING_UPLOAD) = (v_Status v = PENDING_UPLOAD)"
    "\<And>v. v \<in> set (videos d) \<Longrightarrow> c v \<Longrightarrow> video_row_ok v \<Longrightarrow> video_row_ok (f v)"
  shows "constraints (d\<lparr>videos := update_rows c f (videos d)\<rparr>)"
proof -
  let ?vs = "update_rows c f (videos d)"
  have ids: "map v_ID ?vs = map v_ID (videos d)" "map v_R2Key ?vs = map v_R2Key (videos d)"
    "v_ID ` set ?vs = v_ID ` set (videos d)"
    using assms(2,3) by (simp_all add: map_update_rows_same set_update_rows_same)
  have pending: "map v_UserID (filter (\<lambda>v. v_Status v = PENDING_UPLOAD) ?vs) =
      map v_UserID (filter (\<lambda>v. v_Status v = PENDING_UPLOAD) (videos d))"
    using assms(4,5) by (intro map_filter_update)
  have rows: "list_all (\<lambda>v. video_row_ok v \<and> v_UserID v \<in> u_ID ` set (users d)) ?vs"
    using assms(1,4,6) by (auto simp: constraints_def videos_ok_def list_all_iff update_rows_set split: if_splits)
  show ?thesis
    using assms(1) rows
    by (simp add: constraints_def users_ok_def videos_ok_def follows_ok_def likes_ok_def comments_ok_def
        notifications_ok_def ids pending cong: option.case_cong)
qed

lemma ready_constraints:
  assumes "constraints d" "1 \<le> s" "s \<le> 180"
  shows "constraints (d\<lparr>videos := update_rows (\<lambda>v. v_ID v = i \<and> v_Status v = PROCESSING)
    (\<lambda>v. v\<lparr>v_Status := READY, v_HlsPrefix := h, v_ThumbnailKey := t, v_DurationSeconds := Some s\<rparr>) (videos d)\<rparr>)"
  by (rule constraints_update_videos) (use assms in \<open>auto simp: video_row_ok_def\<close>)

lemma retry_constraints:
  assumes "constraints d" "v \<in> set (videos d)" "v_ID v = i" "v_RetryCount v < MaxRetries"
  shows "constraints (d\<lparr>videos := update_rows (\<lambda>v. v_ID v = i \<and> v_Status v \<in> {PROCESSING, PENDING_UPLOAD})
    (\<lambda>v. v\<lparr>v_RetryCount := v_RetryCount v + 1\<rparr>) (videos d)\<rparr>)"
proof (rule constraints_update_videos)
  fix x assume x: "x \<in> set (videos d)" "v_ID x = i \<and> v_Status x \<in> {PROCESSING, PENDING_UPLOAD}" "video_row_ok x"
  have "distinct (map v_ID (videos d))" using assms(1) by (simp add: constraints_def videos_ok_def)
  then have "x = v" using x(1,2) assms(2,3) by (intro key_inj [of v_ID]) auto
  then show "video_row_ok (x\<lparr>v_RetryCount := v_RetryCount x + 1\<rparr>)"
    using x(3) assms(4) by (simp add: video_row_ok_def MaxRetries_def)
qed (use assms in auto)

section \<open>The pipeline\<close>

definition has_ready :: "uuid \<Rightarrow> db \<Rightarrow> bool" where
  "has_ready i d \<longleftrightarrow> (\<exists>v \<in> set (videos d). v_ID v = i \<and> v_Status v = READY)"

text \<open>A processing row and the constraints: what the last step needs of the tables.\<close>

definition ripe :: "uuid \<Rightarrow> db \<Rightarrow> bool" where
  "ripe i d \<longleftrightarrow> constraints d \<and> (\<exists>v. find_row (\<lambda>v. v_ID v = i) (videos d) = Some v \<and> v_Status v = PROCESSING)"

abbreviation delivered :: "uuid \<Rightarrow> world \<Rightarrow> bool" where
  "delivered i w \<equiv> has_ready i (w_db w)"

lemma runs_logged:
  fixes m :: "'a io"
  assumes "\<And>w. w_db (snd (m w)) = w_db w"
  shows "runs (delivered i) (logged m) (\<lambda>_. delivered i)"
proof -
  have "fst (logged m w) = Inr () \<and> w_db (snd (logged m w)) = w_db w" for w
    using assms by (simp add: logged_def run_simps split: sum.split)
  then show ?thesis by (simp add: runs_def)
qed

lemma MarkVideoReady_calm:
  assumes "ripe i d" "1 \<le> s" "s \<le> 180"
  shows "runs (calm_in d) (MarkVideoReady i h t (Some s)) (\<lambda>_. delivered i)"
proof (rule runsI)
  fix w assume w: "calm_in d w"
  let ?c = "\<lambda>v. v_ID v = i \<and> v_Status v = PROCESSING"
  let ?f = "\<lambda>v. v\<lparr>v_Status := READY, v_HlsPrefix := h, v_ThumbnailKey := t, v_DurationSeconds := Some s\<rparr>"
  obtain v where v: "v \<in> set (videos d)" "?c v"
    using assms(1) find_row_Some by (fastforce simp: ripe_def)
  then obtain x where x: "find_row ?c (videos d) = Some x"
    using find_row_None [of ?c "videos d"] by (cases "find_row ?c (videos d)") auto
  have "constraints (d\<lparr>videos := update_rows ?c ?f (videos d)\<rparr>)"
    using assms by (intro ready_constraints) (simp_all add: ripe_def)
  then have run: "MarkVideoReady i h t (Some s) w = (Inr (?f x), w\<lparr>w_db := d\<lparr>videos := update_rows ?c ?f (videos d)\<rparr>\<rparr>)"
    using w x by (simp add: MarkVideoReady_def update_video_one_def calm_exec calm_in_def)
  have "?f v \<in> set (update_rows ?c ?f (videos d))"
    using v by (auto simp: update_rows_set intro!: bexI [of _ v])
  then have "has_ready i (d\<lparr>videos := update_rows ?c ?f (videos d)\<rparr>)"
    using v(2) unfolding has_ready_def by (intro bexI [of _ "?f v"]) simp_all
  then show "\<exists>x w'. MarkVideoReady i h t (Some s) w = (Inr x, w') \<and> delivered i w'"
    using run by simp
qed

lemma runs_interfere: "alone K \<Longrightarrow> runs P (interfere K st) (\<lambda>_. P)"
  by (rule runsI) (simp add: interfere_def alone_def Let_def)

lemma runs_publish:
  assumes "alone K" "ripe (v_ID v) d"
    "1 \<le> round_int32 (wk_odd_int32 K) du" "round_int32 (wk_odd_int32 K) du \<le> 180"
  shows "runs (calm_in d) (publish E K v h t du keys) (\<lambda>_. delivered (v_ID v))"
proof -
  obtain x where x: "find_row (\<lambda>x. v_ID x = v_ID v) (videos d) = Some x" "v_Status x = PROCESSING"
    using assms(2) by (auto simp: ripe_def)
  have get: "runs (calm_in d) (GetVideoByID (v_ID v)) (\<lambda>r w. calm_in d w \<and> r = x)"
    using x(1) by (intro runsI) (simp add: GetVideoByID_def calm_query calm_in_def one_row_def)
  have enq: "w_db (snd (EnqueueCleanupObjects ks w)) = w_db w" for ks w
    by (rule same_tables [OF dbsame_enqueue(2)])
  show ?thesis
    unfolding publish_def
  proof (rule runs_bindM [OF runs_interfere [OF assms(1)]], rule runs_tryM [OF get], goal_cases)
    case (1 _ fresh)
    show ?case
    proof (cases "fresh = x")
      case True
      have "runs (calm_in d) (if v_Status x \<noteq> PROCESSING then cleanupOnFailure keys
         else bindM (interfere K ''mark ready'') (\<lambda>_.
          tryM (MarkVideoReady (v_ID v) (Some h) (Some t) (Some (round_int32 (wk_odd_int32 K) du)))
            (\<lambda>err. if errors_Is err ErrNoRows then cleanupOnFailure keys else give_up E v keys)
            (\<lambda>_. logged (EnqueueCleanupObjects [v_R2Key v])))) (\<lambda>_. delivered (v_ID v))"
        using x(2)
        by (simp, intro runs_bindM [OF runs_interfere [OF assms(1)]]
            runs_tryM [OF MarkVideoReady_calm [OF assms(2-4)]] runs_logged enq)
      then show ?thesis unfolding True by (rule runs_weaken) simp_all
    qed (simp add: runs_def)
  qed
qed

lemma runs_outputs:
  assumes "alone K" "ffmpeg_ok K" "ripe (v_ID v) d"
    "1 \<le> round_int32 (wk_odd_int32 K) du" "round_int32 (wk_odd_int32 K) du \<le> 180"
  shows "runs (calm_in d) (transcode_outputs E K v wd sp du) (\<lambda>_. delivered (v_ID v))"
proof -
  have thumb: "runs (calm_in d) (runFFmpeg K st (buildThumbnailArgs sp p)) (\<lambda>_ w. calm_in d w \<and> has_file p w)" for st p
    by (rule runs_weaken [OF runs_ffmpeg [OF assms(1,2), where A = "\<lambda>_. True"]]) (auto simp: buildThumbnailArgs_def)
  have up: "runs (\<lambda>w. calm_in d w \<and> has_file p w) (UploadFile E k p ct) (\<lambda>_. calm_in d)"
    if "k \<noteq> []" "p \<noteq> []" for k p ct
    unfolding runs_def
  proof (intro allI impI)
    fix w assume "calm_in d w \<and> has_file p w"
    then show "\<exists>x. fst (UploadFile E k p ct w) = Inr x \<and> calm_in d (snd (UploadFile E k p ct w))"
      using runsD [OF runs_upload [OF that, where fs = "w_files w"], of d w] by auto
  qed
  have wr: "runs (calm_in d) (writeMasterPlaylist p h tvs) (\<lambda>_ w. calm_in d w \<and> has_file p w)" for p h tvs
    by (rule runsI) (simp add: writeMasterPlaylist_def write_file_def bindM_run put_file_def calm_in_def calm_fault has_file_def)
  show ?thesis
    unfolding transcode_outputs_def Let_def
    by (intro runs_variants assms runs_tryM [OF thumb] runs_tryM [OF up] runs_tryM [OF wr] runs_publish)
       (simp_all add: join_path_def)
qed

text \<open>The upload is in the bucket, and the probe of its bytes passes the validation.\<close>

definition upload_valid :: "worker \<Rightarrow> string \<Rightarrow> world \<Rightarrow> bool" where
  "upload_valid K key w \<longleftrightarrow> key \<noteq> [] \<and>
     (case find (\<lambda>b. o_key b = key) (w_objects w) of
        None \<Rightarrow> False
      | Some b \<Rightarrow> (case wk_ffprobe K (o_body b) of
            ProbeJSON r \<Rightarrow> ValidateMedia r (int (length (o_body b))) = Inr () \<and>
              parseFFmpegDuration (ff_Duration (fr_Format r)) \<noteq> NaN
          | _ \<Rightarrow> False))"

lemma runs_source:
  assumes "alone K" "ffmpeg_ok K" "ripe (v_ID v) d" "wd \<noteq> []"
  shows "runs (\<lambda>w. calm_in d w \<and> upload_valid K (v_R2Key v) w) (process_source E K v wd) (\<lambda>_. delivered (v_ID v))"
  unfolding runs_def
proof (intro allI impI)
  fix w assume w: "calm_in d w \<and> upload_valid K (v_R2Key v) w"
  let ?src = "join_path wd ''source.bin''"
  obtain b r where b: "find (\<lambda>b. o_key b = v_R2Key v) (w_objects w) = Some b" "wk_ffprobe K (o_body b) = ProbeJSON r"
      "ValidateMedia r (int (length (o_body b))) = Inr ()" and k: "v_R2Key v \<noteq> []"
      and n: "parseFFmpegDuration (ff_Duration (fr_Format r)) \<noteq> NaN"
    using w by (auto simp: upload_valid_def split: option.splits probe_outcome.splits)
  let ?du = "parseFFmpegDuration (ff_Duration (fr_Format r))"
  note du = valid_duration [OF valid_media_duration [OF b(3)] n]
  obtain v1 where v1: "Download E (v_R2Key v) ?src w = (Inr (), v1)" "calm_in d v1"
      "map_of (w_files v1) ?src = Some (o_body b)"
    using w k b(1)
    by (simp add: Download_def store_get_def tryM_run bindM_run calm_in_def calm_fault write_file_def
        put_file_def ok_run join_path_def)
  have i: "interfere K ''download'' w = (Inr (), w)"
    using assms(1) by (simp add: interfere_def alone_def Let_def)
  have size: "fileSize ?src v1 = (Inr (int (length (o_body b))), v1)"
    using v1 by (simp add: fileSize_def read_file_def bindM_run calm_in_def calm_fault ok_run)
  have probe: "ProbeFile K ?src v1 = (Inr r, v1)"
    using v1 b(2) by (simp add: ProbeFile_def read_file_def bindM_run tryM_run calm_in_def calm_fault ok_run
        join_path_def)
  have run: "process_source E K v wd w = transcode_outputs E K v wd ?src ?du v1"
    using du by (simp add: process_source_def Let_def bindM_run tryM_run i v1(1) size probe b(3))
  have "runs (calm_in d) (transcode_outputs E K v wd ?src ?du) (\<lambda>_. delivered (v_ID v))"
    using du by (intro runs_outputs assms) simp_all
  then show "\<exists>x. fst (process_source E K v wd w) = Inr x \<and> delivered (v_ID v) (snd (process_source E K v wd w))"
    using v1(2) unfolding run by (rule runsD)
qed

lemma runs_attempt:
  assumes "alone K" "ffmpeg_ok K" "ripe (v_ID v) d"
  shows "runs (\<lambda>w. calm_in d w \<and> upload_valid K (v_R2Key v) w) (transcode_attempt E K v) (\<lambda>_. delivered (v_ID v))"
proof -
  let ?P = "\<lambda>w. calm_in d w \<and> upload_valid K (v_R2Key v) w"
  have f: "runs ?P fault (\<lambda>_. ?P)" by (rule runsI) (simp add: calm_in_def calm_fault)
  have u: "runs ?P new_uuid (\<lambda>_. ?P)"
    by (rule runsI) (simp add: calm_in_def new_uuid_def upload_valid_def)
  have d: "runs ?P (deferred (process_source E K v wd) (RemoveAll wd)) (\<lambda>_. delivered (v_ID v))" if "wd \<noteq> []" for wd
    unfolding runs_def
  proof (intro allI impI)
    fix w assume "?P w"
    from runsD [OF runs_source [OF assms that] this]
    obtain x where x: "fst (process_source E K v wd w) = Inr x" "delivered (v_ID v) (snd (process_source E K v wd w))"
      by blast
    have "w_db (snd (RemoveAll wd u)) = w_db u" for u
      by (auto simp: RemoveAll_def bindM_run split: sum.split)
    then show "\<exists>x. fst (deferred (process_source E K v wd) (RemoveAll wd) w) = Inr x \<and>
        delivered (v_ID v) (snd (deferred (process_source E K v wd) (RemoveAll wd) w))"
      using x by (cases "process_source E K v wd w") (simp add: deferred_def)
  qed
  show ?thesis
    unfolding transcode_attempt_def Let_def MkdirAll_def
    by (intro runs_tryM [OF f] runs_bindM [OF u] d) simp
qed

lemma IncrementVideoRetry_calm:
  assumes "constraints d" "find_row (\<lambda>v. v_ID v = i) (videos d) = Some v" "v_Status v = PROCESSING"
    "v_RetryCount v < MaxRetries"
  obtains d' where "ripe i d'"
    "\<And>w. calm_in d w \<Longrightarrow> IncrementVideoRetry i w = (Inr (v\<lparr>v_RetryCount := v_RetryCount v + 1\<rparr>), w\<lparr>w_db := d'\<rparr>)"
proof -
  let ?c = "\<lambda>v. v_ID v = i \<and> v_Status v \<in> {PROCESSING, PENDING_UPLOAD}"
  let ?f = "\<lambda>v. v\<lparr>v_RetryCount := v_RetryCount v + 1\<rparr>"
  let ?d = "d\<lparr>videos := update_rows ?c ?f (videos d)\<rparr>"
  have v: "v \<in> set (videos d)" "v_ID v = i" using find_row_Some [OF assms(2)] by auto
  have dist: "distinct (map v_ID (videos d))" using assms(1) by (simp add: constraints_def videos_ok_def)
  have c: "constraints ?d" by (rule retry_constraints [OF assms(1) v assms(4)])
  have row: "find_row ?c (videos d) = Some v"
  proof (cases "find_row ?c (videos d)")
    case None
    then show ?thesis using v assms(3) by (auto simp: find_row_None)
  next
    case (Some x)
    then have "x = v" using find_row_Some [OF Some] v dist by (intro key_inj [of v_ID]) auto
    then show ?thesis using Some by simp
  qed
  have dist': "distinct (map v_ID (videos ?d))" using dist by (simp add: map_update_rows_same)
  have mem: "?f v \<in> set (videos ?d)" "v_ID (?f v) = i"
    using v assms(3) by (auto simp: update_rows_set intro!: bexI [of _ v])
  have "find_row (\<lambda>x. v_ID x = i) (videos ?d) = Some (?f v)"
    using find_row_key [OF dist' mem(1)] mem(2) by simp
  then have "ripe i ?d" using c assms(3) by (simp add: ripe_def)
  moreover have "IncrementVideoRetry i w = (Inr (?f v), w\<lparr>w_db := ?d\<rparr>)" if "calm_in d w" for w
    using that c row by (simp add: IncrementVideoRetry_def update_video_one_def calm_exec calm_in_def)
  ultimately show ?thesis by (rule that)
qed

lemma transcode_delivers:
  assumes "alone K" "ffmpeg_ok K" "env_wired E DepQueries" "env_wired E DepR2" "env_wired E DepAsynq"
    "w_faults w = []" "constraints (w_db w)" "env_uuid_Parse E raw = Some i"
    "find_row (\<lambda>v. v_ID v = i) (videos (w_db w)) = Some v" "v_Status v = PROCESSING"
    "v_RetryCount v < MaxRetries" "upload_valid K (v_R2Key v) w"
  shows "delivered i (snd (HandleTranscode E K (Some raw) w))"
proof -
  obtain d' where d': "ripe i d'" and inc: "\<And>w'. calm_in (w_db w) w' \<Longrightarrow>
      IncrementVideoRetry i w' = (Inr (v\<lparr>v_RetryCount := v_RetryCount v + 1\<rparr>), w'\<lparr>w_db := d'\<rparr>)"
    by (rule IncrementVideoRetry_calm [OF assms(7,9,10,11)]) blast
  let ?v = "v\<lparr>v_RetryCount := v_RetryCount v + 1\<rparr>"
  have get: "GetVideoByID i w = (Inr v, w)"
    using assms(6,9) by (simp add: GetVideoByID_def calm_query one_row_def)
  have i: "interfere K st w = (Inr (), w)" for st
    using assms(1) by (simp add: interfere_def alone_def Let_def)
  have "HandleTranscode E K (Some raw) w = transcode_attempt E K ?v (w\<lparr>w_db := d'\<rparr>)"
    using assms(3-6,8,10,11) inc [of w]
    by (simp add: HandleTranscode_def tryM_run get bindM_run i calm_in_def)
  moreover have "v_ID v = i" using find_row_Some [OF assms(9)] by simp
  then have "runs (\<lambda>w. calm_in d' w \<and> upload_valid K (v_R2Key ?v) w) (transcode_attempt E K ?v) (\<lambda>_. delivered i)"
    using runs_attempt [OF assms(1,2), of ?v d' E] d' by simp
  then have "delivered i (snd (transcode_attempt E K ?v (w\<lparr>w_db := d'\<rparr>)))"
    using runsD [of _ _ _ "w\<lparr>w_db := d'\<rparr>"] assms(6,12) by (fastforce simp: calm_in_def upload_valid_def)
  ultimately show ?thesis by simp
qed

section \<open>What the validation accepts\<close>

definition allowed_video :: "ffprobeStream \<Rightarrow> bool" where
  "allowed_video s \<longleftrightarrow> fs_CodecName s \<in> set videoCodecAllowlist \<and>
     minDimension \<le> fs_Width s \<and> fs_Width s \<le> maxDimension \<and>
     minDimension \<le> fs_Height s \<and> fs_Height s \<le> maxDimension \<and>
     (fs_BitRate s \<noteq> [] \<longrightarrow> (case ParseInt64 (fs_BitRate s) of None \<Rightarrow> False | Some b \<Rightarrow> b \<le> maxBitRate))"

definition allowed_streams :: "ffprobeStream list \<Rightarrow> bool" where
  "allowed_streams ss \<longleftrightarrow> list_ex (\<lambda>s. fs_CodecType s = ''video'') ss \<and>
     list_all (\<lambda>s. fs_CodecType s = ''video'' \<longrightarrow> allowed_video s) ss \<and>
     list_all (\<lambda>s. fs_CodecType s = ''audio'' \<longrightarrow> fs_CodecName s \<in> set audioCodecAllowlist) ss"

lemma check_video_stream_iff: "check_video_stream s = Inr () \<longleftrightarrow> allowed_video s"
  by (auto simp: check_video_stream_def allowed_video_def invalid_media_def videoCodecAllowlist_def
      split: option.split)

lemma check_video_streams_iff:
  "check_video_streams ss n = Inr m \<longleftrightarrow>
     list_all (\<lambda>s. fs_CodecType s = ''video'' \<longrightarrow> allowed_video s) ss \<and>
     m = n + length (filter (\<lambda>s. fs_CodecType s = ''video'') ss)"
proof (induction ss arbitrary: n)
  case (Cons s ss)
  show ?case
  proof (cases "check_video_stream s")
    case (Inl e)
    then have "\<not> allowed_video s" using check_video_stream_iff [of s] by simp
    then show ?thesis using Inl Cons by simp
  next
    case (Inr u)
    then have "allowed_video s" using check_video_stream_iff [of s] by simp
    then show ?thesis using Inr Cons by auto
  qed
qed auto

lemma check_audio_streams_iff:
  "check_audio_streams ss = Inr () \<longleftrightarrow>
     list_all (\<lambda>s. fs_CodecType s = ''audio'' \<longrightarrow> fs_CodecName s \<in> set audioCodecAllowlist) ss"
  by (induction ss) (auto simp: invalid_media_def)

lemma ValidateMedia_iff:
  "ValidateMedia r n = Inr () \<longleftrightarrow> MinUploadBytes \<le> n \<and> n \<le> MaxUploadBytes \<and>
     allowed_streams (fr_Streams r) \<and> check_duration (ff_Duration (fr_Format r)) = Inr ()"
proof -
  let ?ss = "fr_Streams r"
  let ?k = "length (filter (\<lambda>s. fs_CodecType s = ''video'') ?ss)"
  have ex: "list_ex (\<lambda>s. fs_CodecType s = ''video'') ?ss \<longleftrightarrow> ?k \<noteq> 0"
    by (auto simp: list_ex_iff filter_empty_conv)
  show ?thesis
  proof (cases "check_video_streams ?ss 0")
    case (Inl e)
    then have "\<not> list_all (\<lambda>s. fs_CodecType s = ''video'' \<longrightarrow> allowed_video s) ?ss"
      using check_video_streams_iff [of ?ss 0] by auto
    then show ?thesis using Inl by (auto simp: ValidateMedia_def invalid_media_def allowed_streams_def)
  next
    case (Inr m)
    then have v: "list_all (\<lambda>s. fs_CodecType s = ''video'' \<longrightarrow> allowed_video s) ?ss" "m = ?k"
      using check_video_streams_iff [of ?ss 0] by auto
    show ?thesis
      using Inr v ex check_audio_streams_iff [of ?ss]
      by (cases "check_audio_streams ?ss")
         (auto simp: ValidateMedia_def invalid_media_def allowed_streams_def)
  qed
qed

text \<open>A number of seconds in the range, or not a number at all.\<close>

lemma check_duration_iff:
  "check_duration s = Inr () \<longleftrightarrow> (case ParseFloat s of None \<Rightarrow> False
     | Some f \<Rightarrow> s \<noteq> [] \<and> (f = NaN \<or> \<not> fl_less f minDuration \<and> \<not> fl_greater f maxDuration))"
  by (cases "ParseFloat s") (auto simp: check_duration_def invalid_media_def)

section \<open>An example\<close>

definition stream0 :: ffprobeStream where
  "stream0 = \<lparr>fs_CodecName = ''h264'', fs_CodecType = ''video'', fs_Width = 640, fs_Height = 480,
     fs_BitRate = []\<rparr>"

definition probe0 :: "string \<Rightarrow> ffprobeResult" where
  "probe0 s = \<lparr>fr_Streams = [stream0], fr_Format = \<lparr>ff_Duration = s, ff_Size = [], ff_BitRate = []\<rparr>\<rparr>"

text \<open>A worker that is alone, whose probe reports twelve seconds of h264.\<close>

definition K1 :: worker where
  "K1 = \<lparr>wk_ffprobe = (\<lambda>_. ProbeJSON (probe0 ''12'')), wk_ffmpeg = (\<lambda>args _. Inr [(last args, ''x'')]),
         wk_odd_int32 = - 2147483648, wk_others = (\<lambda>_ d. d)\<rparr>"

lemma K1_ok: "alone K1" "ffmpeg_ok K1"
  by (simp_all add: K1_def alone_def ffmpeg_ok_def)

lemma bits_0: "bits 0 = 0" by (subst bits.simps) simp

lemma bits_rec: "n > 0 \<Longrightarrow> bits n = Suc (bits (n div 2))" by (subst bits.simps) simp

lemma bits_1: "bits (Suc 0) = Suc 0" using bits_rec [of 1] bits_0 by simp

lemma bits_12: "bits 12 = 4" using bits_rec [of 12] bits_rec [of 6] bits_rec [of 3] bits_1 by simp

lemma parse_12: "ParseFloat ''12'' = Some (Fin False 6755399441055744 (- 49))"
proof -
  have "parse_decimal ''12'' = Some (12, 0)"
    by (simp add: parse_decimal_def is_digit_def digits_val_def digit_val_def byte_def Let_def)
  moreover have "nearest_float False 12 1 = Some (Fin False 6755399441055744 (- 49))"
    by (simp add: nearest_float_def bits_1 bits_12 scaled_def Let_def round_half_even_def)
  ultimately show ?thesis by (simp add: ParseFloat_def signed_def Let_def ascii_lower_def byte_def)
qed

lemma parse_nan: "ParseFloat ''nan'' = Some NaN"
proof -
  have "map ascii_lower ''nan'' = ''nan''" by code_simp
  then show ?thesis by (simp add: ParseFloat_def signed_def Let_def)
qed

lemma probe0_valid: "ValidateMedia (probe0 ''12'') 2048 = Inr ()" "ValidateMedia (probe0 ''nan'') 2048 = Inr ()"
  by (simp_all add: ValidateMedia_iff check_duration_iff parse_12 parse_nan probe0_def stream0_def allowed_streams_def
      allowed_video_def minDuration_def maxDuration_def videoCodecAllowlist_def minDimension_def
      maxDimension_def MinUploadBytes_def MaxUploadBytes_def)

definition processing0 :: Video where
  "processing0 = video0\<lparr>v_Status := PROCESSING, v_HlsPrefix := None, v_DurationSeconds := None\<rparr>"

definition processing_world :: world where
  "processing_world = world0\<lparr>w_db := db0\<lparr>videos := [processing0]\<rparr>,
     w_objects := [\<lparr>o_key = ''uploads/1/10'', o_size = Some 2048, o_body = replicate 2048 (CHR ''v'')\<rparr>]\<rparr>"

lemma processing_facts:
  "w_faults processing_world = []" "constraints (w_db processing_world)"
  "find_row (\<lambda>v. v_ID v = 10) (videos (w_db processing_world)) = Some processing0"
  "v_Status processing0 = PROCESSING" "v_RetryCount processing0 < MaxRetries"
  "upload_valid K1 (v_R2Key processing0) processing_world"
proof -
  show "constraints (w_db processing_world)"
    by (simp add: processing_world_def processing0_def constraints_def users_ok_def videos_ok_def follows_ok_def
        likes_ok_def comments_ok_def notifications_ok_def sample_defs user_row_ok_def video_row_ok_def
        comment_row_ok_def char_length_def int32_ok_def)
  show "upload_valid K1 (v_R2Key processing0) processing_world"
    using probe0_valid(1)
    by (simp add: upload_valid_def processing_world_def processing0_def video0_def K1_def
        probe0_def parseFFmpegDuration_def parse_12)
qed (simp_all add: processing_world_def processing0_def video0_def world0_def find_row_def MaxRetries_def)

text \<open>
  A duration that is not a number passes the validation.  Where the conversion of NaN gives
  the smallest 32-bit integer, as on amd64, the row cannot be marked \<^verbatim>\<open>READY\<close>, so
  the task is retried until the attempts are used up instead of failing at once.
\<close>

lemma nan_duration_accepted:
  "ValidateMedia (probe0 ''nan'') 2048 = Inr () \<and>
   \<not> video_row_ok (processing0\<lparr>v_Status := READY,
       v_DurationSeconds := Some (round_int32 (wk_odd_int32 K1) (parseFFmpegDuration ''nan''))\<rparr>)"
  using probe0_valid(2) by (simp add: parseFFmpegDuration_def parse_nan K1_def video_row_ok_def)

end
