(* ===== verification/Erasure.thy ===== *)
theory Erasure
  imports Refusals Lockout Samples
begin

text \<open>
  Account deletion as the client sees it: all of the account or nothing, and the answer
  tells which.  A row that is there is always found by the final statement, so the quiet
  exit for a subject without a local row is not taken.  The last section is an account
  whose deletion leaves a wrong comment counter behind.
\<close>

section \<open>All or nothing\<close>

text \<open>The errors by which a deletion can fail when the user has a row.\<close>

definition loud :: "goerr \<Rightarrow> bool" where
  "loud e \<longleftrightarrow> \<not> errors_Is e ErrNoLocalUser"

lemma loud_Wrap [simp]: "loud (Wrap ErrInternal m)"
  by (simp add: loud_def Wrap_def)

lemma exec_error:
  "fst (exec f w) = Inl e \<Longrightarrow> (\<exists>m. e = Opaque m) \<or> f (pg_now w) (w_db w) = Inl e"
  by (auto simp: exec_def bindM_run fault_def constraint_error_def pg_now_def
      split: list.splits option.splits sum.splits prod.splits if_splits)

definition has_row :: "uuid \<Rightarrow> db \<Rightarrow> bool" where
  "has_row u d \<longleftrightarrow> u \<in> u_ID ` set (users d)"

lemma tombstone_found:
  "triple (has_row u) (TombstoneUser E u) (\<lambda>_ _. True) (\<lambda>e _. \<not> errors_Is e ErrNoRows)"
proof (rule tripleI)
  fix w e
  assume u: "has_row u (w_db w)" and e: "fst (TombstoneUser E u w) = Inl e"
  obtain r where "find_row (\<lambda>r. u_ID r = u) (users (w_db w)) = Some r"
    using find_row_None [of "\<lambda>r. u_ID r = u" "users (w_db w)"] u by (fastforce simp: has_row_def)
  then show "\<not> errors_Is e ErrNoRows"
    using exec_error [OF e [unfolded TombstoneUser_def update_user_one_def]] by auto
qed simp

lemma has_row_stmts:
  "preserves (has_row u) (DecrementLikesForUser x)" "preserves (has_row u) (DecrementCommentsForUser x)"
  "preserves (has_row u) (DeleteVideosByUser x)" "preserves (has_row u) (DeleteFollowsByFollower x)"
  "preserves (has_row u) (DeleteFollowsByFollowee x)" "preserves (has_row u) (DeleteLikesByUser x)"
  "preserves (has_row u) (DeleteCommentsByUser x)" "preserves (has_row u) (DeleteNotificationsForUser x)"
  "preserves (has_row u) (DeleteNotificationsByActor x)"
  unfolding DecrementLikesForUser_def DecrementCommentsForUser_def DeleteVideosByUser_def
    DeleteFollowsByFollower_def DeleteFollowsByFollowee_def DeleteLikesByUser_def
    DeleteCommentsByUser_def DeleteNotificationsForUser_def DeleteNotificationsByActor_def
  by (rule preserves_exec,
      auto simp: has_row_def decrement_likes_for_def decrement_comments_for_def)+

lemma delete_user_tx_loud:
  "triple (has_row u) (delete_user_tx E u) (\<lambda>_ _. True) (\<lambda>e _. loud e)"
proof -
  have t: "triple (has_row u) (tryM m (\<lambda>err. throw (Wrap ErrInternal (h err))) k) (\<lambda>_ _. True) (\<lambda>e _. loud e)"
    if "preserves (has_row u) m" "\<And>x. triple (has_row u) (k x) (\<lambda>_ _. True) (\<lambda>e _. loud e)"
    for m :: "'x io" and h and k :: "'x \<Rightarrow> string list io"
    by (rule triple_tryM [OF that(1) [unfolded preserves_def] _ that(2)]) (simp add: triple_throw)
  have last: "triple (has_row u) (tryM (TombstoneUser E u)
      (\<lambda>err. if errors_Is err ErrNoRows then throw (Sentinel ErrNoLocalUser)
             else throw (Wrap ErrInternal (''tombstone user: '' @ Error err)))
      (\<lambda>_. ok (collect_keys rows))) (\<lambda>_ _. True) (\<lambda>e _. loud e)" for rows
    by (rule triple_tryM [OF tombstone_found])
       (auto simp: triple_def throw_def ok_def)
  show ?thesis
    unfolding delete_user_tx_def Let_def by (intro t has_row_stmts last preserves_dbsame [OF dbsame_reads(8)])
qed

lemma triple_both:
  assumes "triple P m Q E" "triple P' m Q' E'"
  shows "triple (\<lambda>d. P d \<and> P' d) m (\<lambda>x d. Q x d \<and> Q' x d) (\<lambda>e d. E e d \<and> E' e d)"
  using tripleD [OF assms(1)] tripleD [OF assms(2)] by (intro tripleI) blast+

text \<open>A transaction that fails has left the tables alone, with an error of the body or its own.\<close>

lemma runTx_error:
  assumes "fst (runTx fn w) = Inl e"
  shows "w_db (snd (runTx fn w)) = w_db w"
    "(\<exists>m. e = Wrap ErrInternal m) \<or> fst (fn (snd (fault w))) = Inl e"
  using assms
  by (auto simp: runTx_def tryM_run throw_run rollback_to_def split: sum.splits prod.splits)

lemma runTx_value:
  assumes "fst (runTx fn w) = Inr x"
  shows "fst (fn (snd (fault w))) = Inr x \<and> w_db (snd (runTx fn w)) = w_db (snd (fn (snd (fault w)))) \<and>
    w_queue (snd (runTx fn w)) = w_queue (snd (fn (snd (fault w))))"
proof -
  obtain r v where f: "fn (snd (fault w)) = (r, v)" by (cases "fn (snd (fault w))")
  obtain r' v' where c: "fault v = (r', v')" by (cases "fault v")
  have "w_db v' = w_db v" "w_queue v' = w_queue v" using fault_frame(1,3) [of v] by (simp_all add: c)
  then show ?thesis
    using assms f c by (auto simp: runTx_def tryM_run throw_run split: sum.splits)
qed

text \<open>The deletion of a user with a row.\<close>

lemma deleteUserData_all_or_nothing:
  assumes "has_row u (w_db w)"
  shows "case fst (deleteUserData E u w) of
      Inl _ \<Rightarrow> w_db (snd (deleteUserData E u w)) = w_db w
    | Inr _ \<Rightarrow> account_erased E u (w_db (snd (deleteUserData E u w)))"
proof -
  let ?tx = "runTx (delete_user_tx E u)"
  have r: "has_row u (w_db (snd (fault w)))" using assms by simp
  show ?thesis
  proof (cases "fst (?tx w)")
    case (Inl e)
    have "loud e"
      using runTx_error(2) [OF Inl] tripleD(2) [OF delete_user_tx_loud r] by auto
    then show ?thesis
      using Inl runTx_error(1) [OF Inl]
      by (simp add: deleteUserData_def collectUserR2Keys_def tryM_run throw_run loud_def)
  next
    case (Inr keys)
    have e: "account_erased E u (w_db (snd (?tx w)))"
      using tripleD(1) [OF delete_user_tx_erases TrueI] runTx_value [OF Inr] by metis
    have "dbsame.rel (tryM (EnqueueCleanupObjects keys) (\<lambda>_. ok ()) (\<lambda>_. ok ()))"
      by (intro dbsame_intros dbsame_enqueue)
    then have "w_db (snd (tryM (EnqueueCleanupObjects keys) (\<lambda>_. ok ()) (\<lambda>_. ok ()) (snd (?tx w)))) = w_db (snd (?tx w))"
      by (simp add: dbsame.rel_def)
    moreover have "fst (tryM (EnqueueCleanupObjects keys) (\<lambda>_. ok ()) (\<lambda>_. ok ()) v) = Inr ()" for v
      by (simp add: run_simps split: sum.split)
    ultimately show ?thesis
      using Inr e by (simp add: deleteUserData_def collectUserR2Keys_def run_simps)
  qed
qed

lemma DeleteMe_all_or_nothing:
  assumes "has_row (u_ID user) (w_db w)" "req_user q = Some user" "env_wired E DepRun" "env_wired E DepQueue"
  shows "w_out (snd (DeleteMe E q w)) = w_out w @ [\<lparr>r_status = 204, r_body = NoBody\<rparr>] \<and>
      account_erased E (u_ID user) (w_db (snd (DeleteMe E q w))) \<or>
    (\<exists>e. w_out (snd (DeleteMe E q w)) = w_out w @ [error_response e]) \<and>
      w_db (snd (DeleteMe E q w)) = w_db w"
proof -
  let ?m = "deleteUserData E (u_ID user)"
  have o: "w_out (snd (?m w)) = w_out w" using quiet_deleteUserData(1) by (simp add: quiet.rel_def)
  have re: "w_out (snd (RespondError e v)) = w_out v @ [error_response e]" for e v
    by (simp add: RespondError_def error_response_def write_response_def split: prod.split)
  have rd: "w_db (snd (RespondError e v)) = w_db v" for e v
    using dbsame_Respond(5) by (simp add: dbsame.rel_def)
  show ?thesis
    using deleteUserData_all_or_nothing [OF assms(1), of E] assms(2-4) o re rd
    by (cases "fst (?m w)") (auto simp: DeleteMe_def tryM_run write_response_def)
qed

section \<open>A counter that drifts\<close>

text \<open>Bob's video with two comments by alice, who deletes her account.\<close>

definition drift_db :: db where
  "drift_db = db0\<lparr>videos := [video0\<lparr>v_UserID := 2\<rparr>],
     comments := [comment0 20 1 None, comment0 21 1 None]\<rparr>"

definition drift_world :: world where
  "drift_world = world0\<lparr>w_db := drift_db\<rparr>"

lemma drift_before: "constraints drift_db" "comments_exact drift_db"
  by (simp_all add: drift_db_def constraints_def users_ok_def videos_ok_def follows_ok_def likes_ok_def
      comments_ok_def notifications_ok_def sample_defs user_row_ok_def video_row_ok_def
      comment_row_ok_def char_length_def int32_ok_def comments_exact_def comment_rows_def)

lemma calm_runTx:
  assumes "w_faults w = []" "w_faults (snd (fn w)) = []"
  shows "runTx fn w = (case fst (fn w) of
      Inl e \<Rightarrow> (Inl e, rollback_to (w_db w) (snd (fn w))) | Inr x \<Rightarrow> fn w)"
  using assms by (cases "fn w") (auto simp: runTx_def tryM_run calm_fault split: sum.split)

text \<open>The tables after each statement of the cascade that changes them.\<close>

definition drift_1 :: db where
  "drift_1 = drift_db\<lparr>videos := [video0\<lparr>v_UserID := 2, v_CommentsCount := 1\<rparr>]\<rparr>"

definition drift_2 :: db where
  "drift_2 = drift_1\<lparr>comments := []\<rparr>"

definition drift_3 :: db where
  "drift_3 = drift_2\<lparr>users := [alice\<lparr>u_IsActive := False, u_DeletedAt := Some 4000,
     u_Username := ''deleted_1''\<rparr>, bob, carol]\<rparr>"

lemma drift_constraints: "constraints drift_1" "constraints drift_2" "constraints drift_3"
  by (simp_all add: drift_1_def drift_2_def drift_3_def drift_db_def constraints_def users_ok_def
      videos_ok_def follows_ok_def likes_ok_def comments_ok_def notifications_ok_def sample_defs
      user_row_ok_def video_row_ok_def comment_row_ok_def char_length_def int32_ok_def)

lemma drift_steps:
  "decrement_likes_for 1 drift_db = drift_db" "decrement_comments_for 1 drift_db = drift_1"
  "delete_videos (\<lambda>v. v_UserID v = 1) drift_1 = drift_1"
  "delete_comments (\<lambda>c. c_UserID c = 1) drift_1 = drift_2"
  "users drift_2 = [alice, bob, carol]" "follows drift_1 = []" "likes drift_1 = []" "notifications drift_2 = []"
  by (simp_all add: decrement_likes_for_def decrement_comments_for_def delete_videos_def delete_comments_def
      delete_comments_where_def cascade.simps child_of_def drift_1_def drift_2_def drift_db_def sample_defs update_rows_def Let_def)

lemma drift_tx:
  assumes "w_faults w = []" "w_db w = drift_db" "w_clock w = 4000"
  shows "delete_user_tx E0 1 w = (Inr [], w\<lparr>w_db := drift_3\<rparr>)"
proof -
  have keys: "ListVideoKeysByUser 1 w = (Inr [], w)"
    using assms(1,2)
    by (simp add: ListVideoKeysByUser_def calm_query drift_db_def sample_defs video_keys_def)
  have same: "drift_1\<lparr>follows := []\<rparr> = drift_1" "drift_1\<lparr>likes := []\<rparr> = drift_1"
    "drift_2\<lparr>notifications := []\<rparr> = drift_2" "w\<lparr>w_db := drift_db\<rparr> = w"
    using assms(2) by (simp_all add: drift_1_def drift_2_def drift_db_def sample_defs)
  have "nat_text 1 = ''1''" by code_simp
  then have name: "env_uuid_String E0 1 = ''1''" by (simp add: E0_def)
  have t: "TombstoneUser E0 1 (w\<lparr>w_db := drift_2\<rparr>) =
      (Inr (alice\<lparr>u_IsActive := False, u_DeletedAt := Some 4000, u_Username := ''deleted_1''\<rparr>),
       w\<lparr>w_db := drift_3\<rparr>)"
    using assms(1,3) drift_constraints(3)
    by (simp add: TombstoneUser_def update_user_one_def calm_exec find_row_def update_rows_def
        drift_steps(5) pg_now_def drift_3_def name alice_def bob_def carol_def user0_def)
  show ?thesis
    using assms(1) drift_before(1) drift_constraints
    by (simp add: delete_user_tx_def Let_def tryM_run keys DecrementLikesForUser_def assms(2) drift_steps
        DecrementCommentsForUser_def DeleteVideosByUser_def DeleteFollowsByFollower_def
        DeleteFollowsByFollowee_def DeleteLikesByUser_def DeleteCommentsByUser_def
        DeleteNotificationsForUser_def DeleteNotificationsByActor_def calm_exec same t ok_run collect_keys_def)
qed

lemma drift_after: "w_db (snd (DeleteMe E0 (request0 (Some alice) []) drift_world)) = drift_3"
proof -
  have w: "w_faults drift_world = []" "w_db drift_world = drift_db" "w_clock drift_world = 4000"
    by (simp_all add: drift_world_def world0_def)
  note tx = drift_tx [OF w]
  have r: "runTx (delete_user_tx E0 1) drift_world = (Inr [], drift_world\<lparr>w_db := drift_3\<rparr>)"
    using w(1) by (subst calm_runTx) (simp_all add: tx)
  have a: "u_ID alice = 1" "env_wired E0 x" for x by (simp_all add: alice_def user0_def E0_def)
  show ?thesis
    using w(1)
    by (simp add: DeleteMe_def deleteUserData_def collectUserR2Keys_def tryM_run r a request0_def
        ok_run EnqueueCleanupObjects_def calm_write)
qed

lemma drift_wrong: "\<not> comments_exact drift_3"
  by (simp add: drift_3_def drift_2_def drift_1_def drift_db_def comments_exact_def comment_rows_def)

end
