(* ===== verification/Confirming.thy ===== *)
theory Confirming
  imports Erasure Cleaning
begin

text \<open>
  When an upload is confirmed: the only change \<^verbatim>\<open>POST /api/videos/confirm\<close> ever makes
  to the tables, and what must hold for it.
\<close>

text \<open>The stored object has a size within the bounds.\<close>

definition size_ok :: "string \<Rightarrow> world \<Rightarrow> bool" where
  "size_ok key w \<longleftrightarrow> (case find (\<lambda>b. o_key b = key) (w_objects w) of
      None \<Rightarrow> False
    | Some b \<Rightarrow> (case o_size b of None \<Rightarrow> False | Some n \<Rightarrow> MinUploadBytes \<le> n \<and> n \<le> MaxUploadBytes))"

text \<open>The row is the caller's, pending, and has the key the client names.\<close>

definition confirmable :: "User \<Rightarrow> uuid \<Rightarrow> string \<Rightarrow> world \<Rightarrow> bool" where
  "confirmable user i key w \<longleftrightarrow> (case find_row (\<lambda>v. v_ID v = i) (videos (w_db w)) of
      None \<Rightarrow> False
    | Some v \<Rightarrow> v_UserID v = u_ID user \<and> v_Status v = PENDING_UPLOAD \<and> v_R2Key v = key) \<and>
    size_ok key w"

definition confirmed_tables :: "User \<Rightarrow> uuid \<Rightarrow> string \<Rightarrow> db \<Rightarrow> db" where
  "confirmed_tables user i key d = d\<lparr>videos := update_rows
     (\<lambda>v. v_ID v = i \<and> v_UserID v = u_ID user \<and> v_Status v = PENDING_UPLOAD \<and> v_R2Key v = key)
     (\<lambda>v. v\<lparr>v_Status := PROCESSING, v_RetryCount := 0\<rparr>) (videos d)\<rparr>"

lemma HeadObject_value:
  "fst (HeadObject E key w) = Inr n \<Longrightarrow> MinUploadBytes \<le> n \<Longrightarrow> n \<le> MaxUploadBytes \<Longrightarrow> size_ok key w"
  by (auto simp: HeadObject_def store_get_def tryM_run bindM_run ok_run throw_run size_ok_def
      split: if_splits sum.splits option.splits)

lemma HeadObject_frame:
  "w_db (snd (HeadObject E key w)) = w_db w" "w_queue (snd (HeadObject E key w)) = w_queue w"
  by (auto simp: HeadObject_def store_get_def tryM_run bindM_run ok_run throw_run split: sum.split option.split)

lemma ConfirmVideoProcessing_value:
  assumes "fst (ConfirmVideoProcessing i (u_ID user) key w) = Inr x"
  shows "w_db (snd (ConfirmVideoProcessing i (u_ID user) key w)) = confirmed_tables user i key (w_db w)" "v_ID x = i"
  using assms
  by (auto simp: ConfirmVideoProcessing_def update_video_one_def exec_def bindM_run confirmed_tables_def
      split: sum.splits option.splits prod.splits if_splits dest!: find_row_Some)

lemma EnqueueTranscode_value:
  assumes "fst (EnqueueTranscode s w) = Inr ()"
  shows "TranscodeVideo s \<in> q_task ` set (w_queue (snd (EnqueueTranscode s w)))"
    "w_db (snd (EnqueueTranscode s w)) = w_db w"
  using assms
  by (auto simp: EnqueueTranscode_def NewTranscodeTask_def client_Enqueue_def tryM_run bindM_run throw_run ok_run
      split: if_splits sum.splits)

lemma confirm_tx_value:
  assumes "fst (confirm_tx E user i key w) = Inr x"
  shows "confirmable user i key w" "w_db (snd (confirm_tx E user i key w)) = confirmed_tables user i key (w_db w)"
    "TranscodeVideo (env_uuid_String E i) \<in> q_task ` set (w_queue (snd (confirm_tx E user i key w)))"
proof -
  let ?get = "GetVideoByIDForUpdate i"
  obtain v where v: "fst (?get w) = Inr v"
    using assms by (cases "fst (?get w)") (auto simp: confirm_tx_def tryM_run throw_run split: if_splits)
  let ?w1 = "snd (?get w)"
  have row: "find_row (\<lambda>v. v_ID v = i) (videos (w_db w)) = Some v" and f1: "w_db ?w1 = w_db w" "w_objects ?w1 = w_objects w"
    using v by (auto simp: GetVideoByIDForUpdate_def query_def bindM_run one_row_def split: sum.splits option.splits)
  have id: "v_ID v = i" using find_row_Some [OF row] by simp
  have g: "v_UserID v = u_ID user" "v_Status v = PENDING_UPLOAD" "v_R2Key v = key"
    using assms v by (auto simp: confirm_tx_def tryM_run throw_run split: if_splits)
  let ?head = "HeadObject E key"
  obtain n where n: "fst (?head ?w1) = Inr n"
    using assms v g by (cases "fst (?head ?w1)") (auto simp: confirm_tx_def tryM_run throw_run split: if_splits)
  let ?w2 = "snd (?head ?w1)"
  have size: "MinUploadBytes \<le> n" "n \<le> MaxUploadBytes"
    using assms v g n by (auto simp: confirm_tx_def tryM_run throw_run Let_def split: if_splits sum.splits)
  let ?conf = "ConfirmVideoProcessing i (u_ID user) key"
  have step: "confirm_tx E user i key w = tryM ?conf
      (\<lambda>cerr. if errors_Is cerr ErrNoRows then throw (Wrap ErrVideoStatusConflict ''video state changed concurrently'')
              else throw (Wrap ErrInternal ''confirm video''))
      (\<lambda>confirmed. tryM (EnqueueTranscode (env_uuid_String E (v_ID confirmed)))
          (\<lambda>_. throw (Wrap ErrInternal ''enqueue transcode'')) (\<lambda>_. ok confirmed)) ?w2"
    using v g n size id by (simp add: confirm_tx_def tryM_run)
  obtain c where c: "fst (?conf ?w2) = Inr c"
    using assms unfolding step by (cases "fst (?conf ?w2)") (auto simp: tryM_run throw_run split: if_splits)
  let ?enq = "EnqueueTranscode (env_uuid_String E i)"
  note cv = ConfirmVideoProcessing_value [OF c]
  obtain u where e: "fst (?enq (snd (?conf ?w2))) = Inr u"
    using assms c cv(2) unfolding step
    by (cases "fst (?enq (snd (?conf ?w2)))") (auto simp: tryM_run throw_run)
  have fin: "snd (confirm_tx E user i key w) = snd (?enq (snd (?conf ?w2)))"
    using c cv(2) e unfolding step by (simp add: tryM_run ok_run)
  show "confirmable user i key w"
    using HeadObject_value [OF n size] row g f1 by (simp add: confirmable_def size_ok_def)
  show "w_db (snd (confirm_tx E user i key w)) = confirmed_tables user i key (w_db w)"
    unfolding fin using EnqueueTranscode_value(2) e cv(1) HeadObject_frame(1) f1(1) by simp
  show "TranscodeVideo (env_uuid_String E i) \<in> q_task ` set (w_queue (snd (confirm_tx E user i key w)))"
    unfolding fin using EnqueueTranscode_value(1) e by simp
qed

lemma confirm_changes:
  assumes "w_db (snd (ConfirmUpload E q b w)) \<noteq> w_db w"
  obtains user and body :: confirmRequest and i where "req_user q = Some user" "env_uuid_Parse E (cf_VideoID body) = Some i"
    "confirmable user i (TrimSpace (cf_R2Key body)) w"
    "w_db (snd (ConfirmUpload E q b w)) = confirmed_tables user i (TrimSpace (cf_R2Key body)) (w_db w)"
    "TranscodeVideo (env_uuid_String E i) \<in> q_task ` set (w_queue (snd (ConfirmUpload E q b w)))"
proof -
  have re: "w_db (snd (RespondError e v)) = w_db v" for e v by (rule same_tables [OF dbsame_Respond(5)])
  obtain user body i v where q: "req_user q = Some user" "b = Bound body v" "Validate v = Inr ()"
    "env_uuid_Parse E (cf_VideoID body) = Some i"
    using assms by (auto simp: ConfirmUpload_def re split: option.splits bound.splits sum.splits)
  let ?key = "TrimSpace (cf_R2Key body)"
  let ?tx = "runTx (confirm_tx E user i ?key)"
  have run: "ConfirmUpload E q b w = tryM ?tx RespondError (\<lambda>c. RespondOK (confirmResponse E c)) w"
    using q by (simp add: ConfirmUpload_def)
  have "\<exists>c. fst (?tx w) = Inr c"
  proof (cases "fst (?tx w)")
    case (Inl e)
    then show ?thesis using assms runTx_error(1) [OF Inl] unfolding run by (simp add: tryM_run re)
  qed simp
  then obtain c where c: "fst (?tx w) = Inr c" by blast
  have out: "w_db (snd (RespondOK j u)) = w_db u" "w_queue (snd (RespondOK j u)) = w_queue u" for j u
    by (simp_all add: RespondOK_def write_response_def)
  let ?u = "snd (fault w)"
  note tx = runTx_value [OF c]
  have val: "fst (confirm_tx E user i ?key ?u) = Inr c" using tx by simp
  note val = confirm_tx_value [OF val]
  have queue: "w_queue (snd (?tx w)) = w_queue (snd (confirm_tx E user i ?key ?u))"
    using tx by simp
  show thesis
  proof (rule that [OF q(1,4)])
    show "confirmable user i ?key w" using val(1) by (simp add: confirmable_def size_ok_def)
    show "w_db (snd (ConfirmUpload E q b w)) = confirmed_tables user i ?key (w_db w)"
      using c tx val(2) unfolding run by (simp add: tryM_run out)
    show "TranscodeVideo (env_uuid_String E i) \<in> q_task ` set (w_queue (snd (ConfirmUpload E q b w)))"
      using c val(3) queue unfolding run by (simp add: tryM_run out)
  qed
qed

text \<open>A failed commit: the tables are as before, but the transcode task is in the queue.\<close>

definition confirm_body :: "confirmRequest bound" where
  "confirm_body = Bound \<lparr>cf_VideoID = ''10'', cf_R2Key = ''uploads/1/10''\<rparr> None"

lemma trim_key: "TrimSpace ''uploads/1/10'' = ''uploads/1/10''"
  by code_simp

definition pending0 :: Video where
  "pending0 = video0\<lparr>v_Status := PENDING_UPLOAD, v_HlsPrefix := None, v_DurationSeconds := None\<rparr>"

lemma confirmed_pending:
  "constraints (db0\<lparr>videos := [pending0\<lparr>v_Status := PROCESSING, v_RetryCount := 0\<rparr>]\<rparr>)"
  by (simp add: pending0_def constraints_def users_ok_def videos_ok_def follows_ok_def likes_ok_def
      comments_ok_def notifications_ok_def sample_defs user_row_ok_def video_row_ok_def
      comment_row_ok_def char_length_def int32_ok_def)

lemma pending_tx:
  assumes "w_faults w = None # None # None # None # fs" "w_db w = db0\<lparr>videos := [pending0]\<rparr>"
    "w_objects w = [\<lparr>o_key = ''uploads/1/10'', o_size = Some 2048, o_body = []\<rparr>]"
  shows "confirm_tx E0 alice 10 ''uploads/1/10'' w = (Inr (pending0\<lparr>v_Status := PROCESSING, v_RetryCount := 0\<rparr>),
    w\<lparr>w_db := db0\<lparr>videos := [pending0\<lparr>v_Status := PROCESSING, v_RetryCount := 0\<rparr>]\<rparr>, w_faults := fs,
      w_queue := w_queue w @ [\<lparr>q_task = TranscodeVideo ''10'', q_delay = 0, q_max_retry = Some 1\<rparr>]\<rparr>)"
proof -
  have name: "env_uuid_String E0 10 = ''10''"
  proof -
    have "nat_text 10 = ''10''" by code_simp
    then show ?thesis by (simp add: E0_def)
  qed
  have p: "v_ID pending0 = 10" "v_UserID pending0 = 1" "v_Status pending0 = PENDING_UPLOAD"
    "v_R2Key pending0 = ''uploads/1/10''" "u_ID alice = 1"
    by (simp_all add: pending0_def video0_def alice_def user0_def)
  show ?thesis
    using assms confirmed_pending
    by (simp add: confirm_tx_def tryM_run GetVideoByIDForUpdate_def query_def bindM_run fault_def one_row_def
        find_row_def p HeadObject_def store_get_def ok_run MinUploadBytes_def MaxUploadBytes_def
        ConfirmVideoProcessing_def update_video_one_def exec_def update_rows_def EnqueueTranscode_def name
        NewTranscodeTask_def client_Enqueue_def)
qed

lemma fault_next:
  "w_faults w = None # fs \<Longrightarrow> fault w = (Inr (), w\<lparr>w_faults := fs\<rparr>)"
  "w_faults w = Some m # fs \<Longrightarrow> fault w = (Inl (Opaque m), w\<lparr>w_faults := fs\<rparr>)"
  by (simp_all add: fault_def)

text \<open>Six calls leave the process: begin, select, HEAD, update, enqueue, commit.\<close>

definition confirm_world :: "string option \<Rightarrow> world" where
  "confirm_world commit = world0\<lparr>w_db := db0\<lparr>videos := [pending0]\<rparr>,
     w_objects := [\<lparr>o_key = ''uploads/1/10'', o_size = Some 2048, o_body = []\<rparr>],
     w_faults := [None, None, None, None, None, commit]\<rparr>"

abbreviation confirm_after :: "string option \<Rightarrow> world" where
  "confirm_after commit \<equiv> snd (ConfirmUpload E0 (request0 (Some alice) []) confirm_body (confirm_world commit))"

lemma confirm_run:
  "w_db (confirm_after None) = db0\<lparr>videos := [pending0\<lparr>v_Status := PROCESSING, v_RetryCount := 0\<rparr>]\<rparr>"
  "w_db (confirm_after (Some m)) = w_db (confirm_world (Some m))"
  "map q_task (w_queue (confirm_after (Some m))) = [TranscodeVideo ''10'']"
proof -
  have parse: "env_uuid_Parse E0 ''10'' = Some 10" by (rule due_video(2))
  let ?v = "\<lambda>c. (confirm_world c)\<lparr>w_faults := [None, None, None, None, c]\<rparr>"
  have tx: "confirm_tx E0 alice 10 ''uploads/1/10'' (?v c) =
    (Inr (pending0\<lparr>v_Status := PROCESSING, v_RetryCount := 0\<rparr>),
     (?v c)\<lparr>w_db := db0\<lparr>videos := [pending0\<lparr>v_Status := PROCESSING, v_RetryCount := 0\<rparr>]\<rparr>, w_faults := [c],
       w_queue := [\<lparr>q_task = TranscodeVideo ''10'', q_delay = 0, q_max_retry = Some 1\<rparr>]\<rparr>)" for c
    by (subst pending_tx [where fs = "[c]"]) (simp_all add: confirm_world_def world0_def)
  have opened: "fault (confirm_world c) = (Inr (), ?v c)" for c
    by (simp add: confirm_world_def fault_def)
  have re: "w_db (snd (RespondError e v)) = w_db v" "w_queue (snd (RespondError e v)) = w_queue v" for e v
    by (simp_all add: RespondError_def write_response_def split: prod.split)
  note run = ConfirmUpload_def request0_def confirm_body_def Validate_def parse trim_key runTx_def tryM_run opened tx
    rollback_to_def re
  show "w_db (confirm_after None) = db0\<lparr>videos := [pending0\<lparr>v_Status := PROCESSING, v_RetryCount := 0\<rparr>]\<rparr>"
    by (simp add: run fault_next calm_fault RespondOK_def write_response_def)
  show "w_db (confirm_after (Some m)) = w_db (confirm_world (Some m))"
    by (simp add: run fault_next calm_fault)
  show "map q_task (w_queue (confirm_after (Some m))) = [TranscodeVideo ''10'']"
    by (simp add: run fault_next calm_fault)
qed

lemma confirm_changed: "w_db (confirm_after None) \<noteq> w_db (confirm_world None)"
proof -
  have "w_db (confirm_world None) = db0\<lparr>videos := [pending0]\<rparr>" by (simp add: confirm_world_def)
  moreover have "pending0\<lparr>v_Status := PROCESSING, v_RetryCount := 0\<rparr> \<noteq> pending0"
    by (simp add: pending0_def video0_def)
  ultimately show ?thesis by (simp add: confirm_run(1) db0_def)
qed

end
