(* ===== verification/Urls.thy ===== *)
theory Urls
  imports StdLemmas
begin

text \<open>
  What is used of \<^verbatim>\<open>net/url\<close>: the query of a URL and its parameters, as
  \<^verbatim>\<open>URL.Query\<close> and \<^verbatim>\<open>Values.Get\<close> give them to the server; and that
  parameters of plain characters arrive as they were written.
\<close>

definition cut :: "char \<Rightarrow> string \<Rightarrow> string \<times> string" where
  "cut sep s = (case split2 sep s of None \<Rightarrow> (s, []) | Some p \<Rightarrow> p)"

text \<open>\<^verbatim>\<open>unescape\<close>; only in a query a plus sign stands for a space.\<close>

fun url_unescape :: "bool \<Rightarrow> string \<Rightarrow> string option" where
  "url_unescape inQuery [] = Some []"
| "url_unescape inQuery (c # cs) =
    (if c = CHR ''%'' then
       (case cs of
          a # b # r \<Rightarrow>
            (case (hex_val a, hex_val b) of
               (Some x, Some y) \<Rightarrow> map_option ((#) (of_byte (16 * x + y))) (url_unescape inQuery r)
             | _ \<Rightarrow> None)
        | _ \<Rightarrow> None)
     else map_option ((#) (if inQuery \<and> c = CHR ''+'' then CHR '' '' else c)) (url_unescape inQuery cs))"

text \<open>\<^verbatim>\<open>ParseQuery\<close>: a part that is empty, has a semicolon or does not unescape is skipped.\<close>

definition query_pair :: "string \<Rightarrow> (string \<times> string) list" where
  "query_pair part =
    (if part = [] \<or> CHR '';'' \<in> set part then []
     else case cut (CHR ''='') part of (k, v) \<Rightarrow>
       (case (url_unescape True k, url_unescape True v) of
          (Some k', Some v') \<Rightarrow> [(k', v')]
        | _ \<Rightarrow> []))"

definition ParseQuery :: "string \<Rightarrow> (string \<times> string) list" where
  "ParseQuery q = concat (map query_pair (split_on (CHR ''&'') q))"

definition RawQuery :: "string \<Rightarrow> string" where
  "RawQuery u = snd (cut (CHR ''?'') (fst (cut (CHR ''#'') u)))"

definition Query_Get :: "string \<Rightarrow> string \<Rightarrow> string" where
  "Query_Get u k = (case map_of (ParseQuery (RawQuery u)) k of None \<Rightarrow> [] | Some v \<Rightarrow> v)"

section \<open>Plain text\<close>

text \<open>Text without the characters that mean something in a URL, and text fit for a parameter.\<close>

definition url_plain :: "string \<Rightarrow> bool" where
  "url_plain s \<longleftrightarrow> CHR ''?'' \<notin> set s \<and> CHR ''#'' \<notin> set s"

definition param_plain :: "string \<Rightarrow> bool" where
  "param_plain s \<longleftrightarrow> set s \<inter> {CHR ''?'', CHR ''#'', CHR ''&'', CHR '';'', CHR ''='', CHR ''%'', CHR ''+''} = {}"

lemma cut_none: "sep \<notin> set s \<Longrightarrow> cut sep s = (s, [])"
proof -
  assume "sep \<notin> set s"
  then have "split2 sep s = None" by (induction s) auto
  then show ?thesis by (simp add: cut_def)
qed

lemma cut_append: "sep \<notin> set a \<Longrightarrow> cut sep (a @ sep # b) = (a, b)"
  by (simp add: cut_def split2_append)

lemma split_on_append: "sep \<notin> set a \<Longrightarrow> split_on sep (a @ sep # b) = a # split_on sep b"
  by (induction a) auto

lemma split_on_none: "sep \<notin> set a \<Longrightarrow> split_on sep a = [a]"
  by (induction a) auto

lemma unescape_plain: "CHR ''%'' \<notin> set s \<Longrightarrow> CHR ''+'' \<notin> set s \<Longrightarrow> url_unescape q s = Some s"
  by (induction s) auto

lemma query_pair_plain:
  assumes "param_plain k" "param_plain v"
  shows "query_pair (k @ CHR ''='' # v) = [(k, v)]"
  using assms by (simp add: query_pair_def param_plain_def cut_append unescape_plain)

text \<open>A URL with two plain parameters.\<close>

lemma query_two:
  assumes "url_plain p" "param_plain k" "param_plain v" "param_plain l" "param_plain x"
  shows "ParseQuery (RawQuery (p @ ''?'' @ k @ ''='' @ v @ ''&'' @ l @ ''='' @ x)) = [(k, v), (l, x)]"
proof -
  define a where "a = k @ CHR ''='' # v"
  define b where "b = l @ CHR ''='' # x"
  have sep: "CHR ''&'' \<notin> set a" "CHR ''&'' \<notin> set b" using assms by (auto simp: a_def b_def param_plain_def)
  have "CHR ''#'' \<notin> set (p @ CHR ''?'' # a @ CHR ''&'' # b)"
    using assms by (auto simp: a_def b_def url_plain_def param_plain_def)
  then have "RawQuery (p @ CHR ''?'' # a @ CHR ''&'' # b) = a @ CHR ''&'' # b"
    using assms(1) by (simp add: RawQuery_def cut_none url_plain_def cut_append)
  then have "ParseQuery (RawQuery (p @ CHR ''?'' # a @ CHR ''&'' # b)) = query_pair a @ query_pair b"
    using sep by (simp add: ParseQuery_def split_on_append split_on_none)
  then show ?thesis using assms by (simp add: a_def b_def query_pair_plain)
qed

lemma b64_char_plain: "n < 64 \<Longrightarrow> 45 \<le> byte (b64_char n) \<and> byte (b64_char n) \<notin> {47, 58, 59, 60, 61, 62, 63}"
  by (auto simp: b64_char_def byte_punct)

lemma b64_param_plain: "param_plain (b64_encode s)"
proof -
  have "45 \<le> byte c \<and> byte c \<notin> {47, 58, 59, 60, 61, 62, 63}" if "c \<in> set (b64_encode s)" for c
    using that b64_char_plain sextets_less by (auto simp: b64_encode_sextets)
  then show ?thesis by (fastforce simp: param_plain_def byte_def)
qed

end
