(* ===== verification/Playlists.thy ===== *)
theory Playlists
  imports Refusals Samples Urls
begin

text \<open>
  The master playlist from one end to the other: what the worker writes, what the gateway
  makes of it, and that the URLs in the result let a client without a login in.
\<close>

section \<open>Lines\<close>

lemma split_on_unlines:
  "list_all (\<lambda>l. newline \<notin> set l) ls \<Longrightarrow> split_on newline (unlines ls) = ls @ [[]]"
proof (induction ls)
  case (Cons l ls)
  have "unlines (l # ls) = l @ newline # unlines ls" by (simp add: unlines_def)
  then show ?case using Cons by (simp add: split_on_append)
qed (simp add: unlines_def)

lemma raw_lines_unlines: "list_all (\<lambda>l. newline \<notin> set l) ls \<Longrightarrow> raw_lines (unlines ls) = ls"
  by (simp add: raw_lines_def split_on_unlines)

section \<open>Visible text\<close>

definition visible :: "char \<Rightarrow> bool" where
  "visible c \<longleftrightarrow> 33 \<le> byte c \<and> byte c \<le> 126"

text \<open>A line without blanks: what the program puts into a playlist.\<close>

definition solid :: "string \<Rightarrow> bool" where
  "solid l \<longleftrightarrow> list_all visible l"

lemma spaces_invisible:
  "list_all (\<lambda>p. \<not> visible (hd p)) space_seqs" "list_all (\<lambda>p. \<not> visible (hd p)) (map rev space_seqs)"
  by code_simp+

lemma trim_visible:
  assumes "visible c" "list_all (\<lambda>p. \<not> visible (hd p)) seqs"
  shows "trim_left seqs (c # s) = c # s"
proof -
  have "\<not> (p \<noteq> [] \<and> prefix_of p (c # s))" if "p \<in> set seqs" for p
    using assms that by (cases p) (auto simp: list_all_iff prefix_of_def)
  then have "find (\<lambda>p. p \<noteq> [] \<and> prefix_of p (c # s)) seqs = None" by (simp add: find_None_iff)
  then show ?thesis by (subst trim_left.simps) simp
qed

lemma TrimSpace_solid:
  assumes "solid l"
  shows "TrimSpace l = l"
proof (cases l)
  case Nil
  have "trim_left s [] = []" for s
    by (subst trim_left.simps) (auto simp: prefix_of_def find_Some_iff split: option.split)
  then show ?thesis using Nil by (simp add: TrimSpace_def)
next
  case (Cons c s)
  then have "trim_left space_seqs l = l"
    using assms trim_visible [OF _ spaces_invisible(1)] by (simp add: solid_def)
  moreover obtain d t where r: "rev l = d # t" using Cons by (cases "rev l") auto
  then have "visible d" using assms by (metis list.set_intros(1) list_all_iff set_rev solid_def)
  then have "trim_left (map rev space_seqs) (rev l) = rev l"
    using trim_visible [OF _ spaces_invisible(2)] by (simp add: r)
  ultimately show ?thesis by (simp add: TrimSpace_def)
qed

lemma solid_chars: "solid l \<Longrightarrow> newline \<notin> set l" "solid l \<Longrightarrow> drop_CR l = l"
proof -
  assume s: "solid l"
  then show "newline \<notin> set l" by (auto simp: solid_def list_all_iff visible_def newline_def byte_def)
  have "CHR 0x0D \<notin> set l" using s by (auto simp: solid_def list_all_iff visible_def byte_def)
  then show "drop_CR l = l" by (auto simp: drop_CR_def dest: last_in_set)
qed

lemma solid_append [simp]: "solid (a @ b) \<longleftrightarrow> solid a \<and> solid b"
  by (simp add: solid_def)

lemma digits_solid: "list_all is_digit s \<Longrightarrow> solid s"
  by (auto simp: solid_def visible_def list_all_iff is_digit_def byte_def)

section \<open>The worker's playlist\<close>

definition stream_inf :: "transcode_variant \<Rightarrow> string" where
  "stream_inf v = ''#EXT-X-STREAM-INF:BANDWIDTH='' @ FormatInt (tv_Bandwidth v) @ '',RESOLUTION='' @ tv_Resolution v"

definition variant_path :: "string \<Rightarrow> transcode_variant \<Rightarrow> string" where
  "variant_path h v = h @ ''/'' @ tv_Dir v @ ''/index.m3u8''"

definition master_lines :: "string \<Rightarrow> (transcode_variant \<Rightarrow> string) \<Rightarrow> string list" where
  "master_lines h entry = [''#EXTM3U'', ''#EXT-X-VERSION:3''] @
     concat (map (\<lambda>v. [stream_inf v, entry v]) transcodeVariants)"

lemma master_playlist_lines: "master_playlist h transcodeVariants = unlines (master_lines h (variant_path h))"
  by (simp add: master_playlist_def master_lines_def unlines_def transcodeVariants_def stream_inf_def
      variant_path_def newline_def)

text \<open>The prefix of a video: two identifiers in their textual form.\<close>

definition id_text :: "string \<Rightarrow> bool" where
  "id_text s \<longleftrightarrow> solid s \<and> CHR ''/'' \<notin> set s \<and> length s \<le> 64"

definition hls_prefix :: "string \<Rightarrow> string \<Rightarrow> string" where
  "hls_prefix u v = ''hls/'' @ u @ ''/'' @ v"

lemma line_variant_path:
  assumes "id_text u" "id_text v" "CHR ''/'' \<notin> set (tv_Dir t)"
  shows "line_variant (variant_path (hls_prefix u v) t) = tv_Dir t"
proof -
  let ?p = "variant_path (hls_prefix u v) t"
  have "\<not> suffix_of ''/'' ?p"
    by (simp add: variant_path_def suffix_of_def prefix_of_def)
  then have t: "TrimSuffix ?p ''/'' = ?p" by (simp add: TrimSuffix_def)
  have "?p = ''hls'' @ CHR ''/'' # u @ CHR ''/'' # v @ CHR ''/'' # tv_Dir t @ CHR ''/'' # ''index.m3u8''"
    by (simp add: variant_path_def hls_prefix_def)
  then have "split_on (CHR ''/'') ?p = [''hls'', u, v, tv_Dir t, ''index.m3u8'']"
    using assms by (simp only: split_on_append id_text_def) (simp add: split_on_append split_on_none)
  then show ?thesis by (simp add: line_variant_def t)
qed

lemma master_line_path:
  assumes "id_text u" "id_text v" "t \<in> set transcodeVariants"
  shows "master_line E base i token (variant_path (hls_prefix u v) t) = variant_url E base i (tv_Dir t) token"
proof -
  let ?p = "variant_path (hls_prefix u v) t"
  have d: "CHR ''/'' \<notin> set (tv_Dir t)" "solid (tv_Dir t)" "tv_Dir t \<noteq> []"
    using assms(3) by (auto simp: transcodeVariants_def solid_def visible_def byte_def)
  have "solid ?p"
    using assms(1,2) d(2)
    by (simp add: variant_path_def hls_prefix_def id_text_def) (simp add: solid_def visible_def byte_def)
  then have "TrimSpace ?p = ?p" by (rule TrimSpace_solid)
  moreover have "\<not> plain_line ?p"
    by (simp add: plain_line_def variant_path_def hls_prefix_def prefix_of_def)
  ultimately show ?thesis
    using line_variant_path [OF assms(1,2) d(1)] d(3) by (simp add: master_line_def Let_def)
qed

lemma FormatInt_solid: "solid (FormatInt n)"
  by (auto simp: solid_def visible_def list_all_iff is_digit_def byte_def dest!: FormatInt_chars)

lemma tag_line:
  assumes "solid l"
  shows "master_line E base i token (CHR ''#'' # l) = CHR ''#'' # l"
proof -
  have "solid (CHR ''#'' # l)" using assms by (simp add: solid_def visible_def byte_def)
  then have "TrimSpace (CHR ''#'' # l) = CHR ''#'' # l" by (rule TrimSpace_solid)
  then show ?thesis by (simp add: master_line_def plain_line_def prefix_of_def)
qed

lemma stream_inf_tag:
  assumes "t \<in> set transcodeVariants"
  obtains l where "stream_inf t = CHR ''#'' # l" "solid l"
proof
  show "stream_inf t = CHR ''#'' # (''EXT-X-STREAM-INF:BANDWIDTH='' @ FormatInt (tv_Bandwidth t) @
      '',RESOLUTION='' @ tv_Resolution t)" by (simp add: stream_inf_def)
  have "solid (tv_Resolution t)"
    using assms by (auto simp: transcodeVariants_def solid_def visible_def byte_def)
  then show "solid (''EXT-X-STREAM-INF:BANDWIDTH='' @ FormatInt (tv_Bandwidth t) @
      '',RESOLUTION='' @ tv_Resolution t)"
    using FormatInt_solid [of "tv_Bandwidth t"]
    by (simp only: solid_append) (simp add: solid_def visible_def byte_def)
qed

lemma path_solid:
  assumes "id_text u" "id_text v" "t \<in> set transcodeVariants"
  shows "solid (variant_path (hls_prefix u v) t)" "length (variant_path (hls_prefix u v) t) < scan_limit"
proof -
  have "solid (tv_Dir t)" "length (tv_Dir t) = 4"
    using assms(3) by (auto simp: transcodeVariants_def solid_def visible_def byte_def)
  then show "solid (variant_path (hls_prefix u v) t)" "length (variant_path (hls_prefix u v) t) < scan_limit"
    using assms(1,2)
    by (simp_all add: variant_path_def hls_prefix_def id_text_def scan_limit_def)
       (simp add: solid_def visible_def byte_def)
qed

lemma stream_inf_length: "t \<in> set transcodeVariants \<Longrightarrow> length (stream_inf t) < scan_limit"
  using nat_text_length [of 800000 6] nat_text_length [of 1500000 7]
  by (auto simp: transcodeVariants_def stream_inf_def scan_limit_def FormatInt_def)

lemma rewrite_master:
  assumes "id_text u" "id_text v" "base \<noteq> []" "secret \<noteq> []"
    "NewMediaToken E (env_uuid_String E i) secret ttl now = Inr (token, expiry)"
  shows "RewriteMasterPlaylist E (master_playlist (hls_prefix u v) transcodeVariants) base i secret ttl now =
    Inr (unlines (master_lines (hls_prefix u v) (\<lambda>t. variant_url E base i (tv_Dir t) token)))"
proof -
  let ?h = "hls_prefix u v" let ?ls = "master_lines ?h (variant_path ?h)"
  note p = path_solid [OF assms(1,2)]
  have tags: "solid l \<and> length l < scan_limit \<and> master_line E base i token l = l"
    if "l \<in> {''#EXTM3U'', ''#EXT-X-VERSION:3''}" for l
    using that tag_line [of "tl l"] by (auto simp: solid_def visible_def byte_def scan_limit_def)
  have inf: "solid (stream_inf t) \<and> length (stream_inf t) < scan_limit \<and>
      master_line E base i token (stream_inf t) = stream_inf t" if t: "t \<in> set transcodeVariants" for t
  proof -
    obtain l where l: "stream_inf t = CHR ''#'' # l" "solid l" by (rule stream_inf_tag [OF t])
    then show ?thesis using tag_line [OF l(2)] stream_inf_length [OF t]
      by (simp add: solid_def visible_def byte_def)
  qed
  have solid: "solid l" and short: "length l < scan_limit" if "l \<in> set ?ls" for l
    using that tags inf p by (auto simp: master_lines_def)
  have raw: "raw_lines (unlines ?ls) = ?ls"
    by (rule raw_lines_unlines) (use solid solid_chars(1) in \<open>auto simp: list_all_iff\<close>)
  have cr: "map (\<lambda>l. master_line E base i token (drop_CR l)) ?ls = map (master_line E base i token) ?ls"
    using solid solid_chars(2) by (intro map_cong refl) simp
  have "map (master_line E base i token) ?ls = master_lines ?h (\<lambda>t. variant_url E base i (tv_Dir t) token)"
    using tags inf master_line_path [OF assms(1,2)]
    by (simp add: master_lines_def transcodeVariants_def)
  moreover have "\<not> list_ex (\<lambda>l. length l \<ge> scan_limit) ?ls"
    using short by (fastforce simp: list_ex_iff)
  ultimately show ?thesis
    using assms(3-5) by (simp add: RewriteMasterPlaylist_def master_playlist_lines raw cr)
qed

text \<open>The token in the URLs is accepted, without a login, while it lasts.\<close>

lemma url_token_opens:
  assumes "NewMediaToken E (env_uuid_String E i) (env_MediaTokenSecret E) ttl issued = Inr (token, expiry)"
    "int64_ok (unix_of expiry)" "req_user q = None" "req_query q ''token'' = token"
    "unix_of (w_clock w) \<le> unix_of expiry"
  shows "playlist_authorized E q i w = (Inr (), w)"
proof -
  have t: "token = SignMediaToken E (env_uuid_String E i) (env_MediaTokenSecret E) expiry"
    using assms(1) by (auto simp: NewMediaToken_def Let_def split: if_splits)
  have "token \<noteq> []" by (simp add: t SignMediaToken_def Let_def b64_encode_Nil_iff)
  moreover have "VerifyMediaToken E token (env_uuid_String E i) (env_MediaTokenSecret E) (w_clock w) = Inr ()"
    using assms(5) unfolding t verify_signed [OF assms(2)] by simp
  ultimately show ?thesis
    using assms(3,4) by (simp add: playlist_authorized_def now_io_def bindM_run ok_run)
qed

text \<open>What the server reads from the URL of a variant, and where it goes with it.\<close>

lemma variant_url_query:
  assumes "url_plain base" "url_plain (env_uuid_String E i)" "param_plain v"
    "NewMediaToken E (env_uuid_String E i) secret ttl issued = Inr (token, expiry)"
  shows "Query_Get (variant_url E base i v token) ''variant'' = v"
    "Query_Get (variant_url E base i v token) ''token'' = token"
proof -
  let ?p = "base @ ''/api/videos/'' @ env_uuid_String E i @ ''/playlist.m3u8''"
  have "token = SignMediaToken E (env_uuid_String E i) secret expiry"
    using assms(4) by (auto simp: NewMediaToken_def Let_def split: if_splits)
  then have "param_plain token" by (simp add: SignMediaToken_def Let_def b64_param_plain)
  moreover have "url_plain ?p" using assms(1,2) by (simp add: url_plain_def)
  moreover have "variant_url E base i v token = ?p @ ''?'' @ ''variant'' @ ''='' @ v @ ''&'' @ ''token'' @ ''='' @ token"
    by (simp add: variant_url_def)
  ultimately have "ParseQuery (RawQuery (variant_url E base i v token)) = [(''variant'', v), (''token'', token)]"
    using query_two [of ?p "''variant''" v "''token''" token] assms(3) by (simp add: param_plain_def)
  then show "Query_Get (variant_url E base i v token) ''variant'' = v"
    "Query_Get (variant_url E base i v token) ''token'' = token" by (simp_all add: Query_Get_def)
qed

lemma variant_chosen:
  assumes "t \<in> set transcodeVariants" "req_query q ''variant'' = tv_Dir t"
  shows "choose_playlist E q h i = serveVariantPlaylist E h (tv_Dir t)"
proof -
  have d: "tv_Dir t \<in> {''480p'', ''720p''}" using assms(1) by (auto simp: transcodeVariants_def)
  then have "solid (tv_Dir t)" by (auto simp: solid_def visible_def byte_def)
  then show ?thesis using d assms(2)
    by (auto simp: choose_playlist_def TrimSpace_solid allowedVariants_def hlsMaxVariant_def
        less_char_def)
qed

end
