(* ===== verification/Config.thy ===== *)
theory Config
  imports Media StdLemmas
begin

text \<open>
  The configuration, \<^verbatim>\<open>shared/config.go\<close>: what \<^verbatim>\<open>LoadAPI\<close> and
  \<^verbatim>\<open>LoadWorker\<close> read from the environment, with \<^verbatim>\<open>time.ParseDuration\<close>
  down to the 64-bit arithmetic and the one rounding of its fractions.
\<close>

section \<open>Durations\<close>

text \<open>
  Floating-point operations on operands that are not negative: the exact result,
  rounded.  A divisor that grew out of range is infinite, the quotient zero.
\<close>

definition rounded :: "nat \<Rightarrow> nat \<Rightarrow> float64" where
  "rounded p q = (case nearest_float False p q of None \<Rightarrow> Inf False | Some f \<Rightarrow> f)"

fun fl_times :: "float64 \<Rightarrow> float64 \<Rightarrow> float64" where
  "fl_times (Fin _ m s) (Fin _ m' s') = rounded (m * m' * 2 ^ nat (s + s')) (2 ^ nat (- (s + s')))"
| "fl_times _ _ = Inf False"

fun fl_over :: "float64 \<Rightarrow> float64 \<Rightarrow> float64" where
  "fl_over (Fin _ m s) (Fin _ m' s') = rounded (m * 2 ^ nat (s - s')) (m' * 2 ^ nat (s' - s))"
| "fl_over _ _ = Fin False 0 0"

fun fl_floor :: "float64 \<Rightarrow> nat" where
  "fl_floor (Fin _ m s) = m * 2 ^ nat s div 2 ^ nat (- s)"
| "fl_floor _ = 0"

text \<open>\<^verbatim>\<open>leadingInt\<close>: \<^verbatim>\<open>None\<close> above 2 to the 63.\<close>

fun leadingInt :: "nat \<Rightarrow> string \<Rightarrow> (nat \<times> string) option" where
  "leadingInt x [] = Some (x, [])"
| "leadingInt x (c # cs) =
     (if \<not> is_digit c then Some (x, c # cs)
      else if x > 2 ^ 63 div 10 then None
      else let y = x * 10 + digit_val c in if y > 2 ^ 63 then None else leadingInt y cs)"

text \<open>\<^verbatim>\<open>leadingFraction\<close>: digits that would overflow are skipped.\<close>

fun leadingFraction :: "nat \<Rightarrow> float64 \<Rightarrow> bool \<Rightarrow> string \<Rightarrow> nat \<times> float64 \<times> string" where
  "leadingFraction x scale over [] = (x, scale, [])"
| "leadingFraction x scale over (c # cs) =
     (if \<not> is_digit c then (x, scale, c # cs)
      else if over \<or> x > (2 ^ 63 - 1) div 10 then leadingFraction x scale True cs
      else let y = x * 10 + digit_val c in
        if y > 2 ^ 63 then leadingFraction x scale True cs
        else leadingFraction y (fl_times scale (rounded 10 1)) False cs)"

definition micro :: "nat \<Rightarrow> nat \<Rightarrow> string" where
  "micro a b = [of_byte a, of_byte b, CHR ''s'']"

definition unitMap :: "string \<Rightarrow> nat option" where
  "unitMap u = map_of
     [(''ns'', 1), (''us'', 1000), (micro 0xC2 0xB5, 1000), (micro 0xCE 0xBC, 1000),
      (''ms'', 1000000), (''s'', 1000000000), (''m'', 60 * 1000000000), (''h'', 3600 * 1000000000)] u"

text \<open>The quoting of the package's messages: bytes that are not printable ASCII in hexadecimal.\<close>

definition time_quote :: "string \<Rightarrow> string" where
  "time_quote s = [CHR 0x22] @ concat (map (\<lambda>c.
     if byte c < 32 \<or> byte c \<ge> 128 then CHR 0x5C # CHR ''x'' # hex_encode [c]
     else if c = CHR 0x22 \<or> c = CHR 0x5C then [CHR 0x5C, c] else [c]) s) @ [CHR 0x22]"

definition bad_duration :: "string \<Rightarrow> goerr" where
  "bad_duration orig = Opaque (''time: invalid duration '' @ time_quote orig)"

text \<open>One number with its unit: the value in nanoseconds and the rest of the text.\<close>

definition fraction_value :: "nat \<Rightarrow> float64 \<Rightarrow> nat \<Rightarrow> nat" where
  "fraction_value f scale unit = fl_floor (fl_times (rounded f 1) (fl_over (rounded unit 1) scale))"

definition duration_value :: "string \<Rightarrow> nat \<Rightarrow> nat \<Rightarrow> float64 \<Rightarrow> string \<Rightarrow> goerr + (nat \<times> string)" where
  "duration_value orig v f scale s =
    (let in_unit = (\<lambda>c. c \<noteq> CHR ''.'' \<and> \<not> is_digit c); u = takeWhile in_unit s in
     if u = [] then Inl (Opaque (''time: missing unit in duration '' @ time_quote orig))
     else case unitMap u of
       None \<Rightarrow> Inl (Opaque (''time: unknown unit '' @ time_quote u @ '' in duration '' @ time_quote orig))
     | Some unit \<Rightarrow>
        if v > 2 ^ 63 div unit then Inl (bad_duration orig)
        else let v' = v * unit + (if f > 0 then fraction_value f scale unit else 0) in
          if f > 0 \<and> v' > 2 ^ 63 then Inl (bad_duration orig)
          else Inr (v', dropWhile in_unit s))"

definition duration_term :: "string \<Rightarrow> string \<Rightarrow> goerr + (nat \<times> string)" where
  "duration_term orig s =
    (if s = [] \<or> \<not> (hd s = CHR ''.'' \<or> is_digit (hd s)) then Inl (bad_duration orig)
     else case leadingInt 0 s of
       None \<Rightarrow> Inl (bad_duration orig)
     | Some (v, r) \<Rightarrow>
        let pre = length r \<noteq> length s;
            dot = r \<noteq> [] \<and> hd r = CHR ''.'';
            (f, scale, r2) = (if dot then leadingFraction 0 (rounded 1 1) False (tl r)
                              else (0, rounded 1 1, r));
            post = dot \<and> length r2 \<noteq> length (tl r)
        in if \<not> pre \<and> \<not> post then Inl (bad_duration orig)
           else duration_value orig v f scale r2)"

lemma leadingInt_length: "leadingInt x s = Some (v, r) \<Longrightarrow> length r \<le> length s"
  by (induction x s rule: leadingInt.induct) (auto simp: Let_def split: if_splits)

lemma leadingFraction_length: "leadingFraction x sc b s = (f, sc', r) \<Longrightarrow> length r \<le> length s"
  by (induction x sc b s rule: leadingFraction.induct) (auto simp: Let_def split: if_splits)

lemma dropWhile_shorter: "takeWhile P s \<noteq> [] \<Longrightarrow> length (dropWhile P s) < length s"
  by (cases s) (auto split: if_splits simp: less_Suc_eq_le length_dropWhile_le)

lemma duration_value_length:
  "duration_value orig v f scale s = Inr (v', r) \<Longrightarrow> length r < length s"
  by (auto simp: duration_value_def Let_def dropWhile_shorter split: if_splits option.splits)

lemma duration_term_length:
  assumes "duration_term orig s = Inr (v, r)"
  shows "length r < length s"
proof -
  from assms obtain x r1 where 1: "leadingInt 0 s = Some (x, r1)"
    by (auto simp: duration_term_def split: if_splits option.splits)
  obtain f sc r2 where 2: "(if r1 \<noteq> [] \<and> hd r1 = CHR ''.'' then leadingFraction 0 (rounded 1 1) False (tl r1)
      else (0, rounded 1 1, r1)) = (f, sc, r2)" by (metis prod_cases3)
  have "length r2 \<le> length r1"
    using 2 by (auto split: if_splits dest!: leadingFraction_length)
  moreover from assms 1 2 have "duration_value orig x f sc r2 = Inr (v, r)"
    by (auto simp: duration_term_def Let_def split: if_splits)
  ultimately show ?thesis using leadingInt_length [OF 1] duration_value_length by fastforce
qed

text \<open>The sum of the terms, in \<^verbatim>\<open>uint64\<close>.\<close>

function duration_sum :: "string \<Rightarrow> nat \<Rightarrow> string \<Rightarrow> goerr + nat" where
  "duration_sum orig d s =
    (if s = [] then Inr d
     else case duration_term orig s of
       Inl e \<Rightarrow> Inl e
     | Inr (v, r) \<Rightarrow>
        let d' = (d + v) mod 2 ^ 64 in
        if d' > 2 ^ 63 then Inl (bad_duration orig) else duration_sum orig d' r)"
  by pat_completeness auto
termination by (relation "measure (\<lambda>(_, _, s). length s)") (auto dest: duration_term_length)

declare duration_sum.simps [simp del]

definition ParseDuration :: "string \<Rightarrow> goerr + int" where
  "ParseDuration orig =
    (case signed orig of (neg, s) \<Rightarrow>
      if s = ''0'' then Inr 0
      else if s = [] then Inl (bad_duration orig)
      else case duration_sum orig 0 s of
        Inl e \<Rightarrow> Inl e
      | Inr d \<Rightarrow>
          if neg then Inr (- int d)
          else if d > 2 ^ 63 - 1 then Inl (bad_duration orig) else Inr (int d))"

lemma duration_sum_bound:
  "d \<le> 2 ^ 63 \<Longrightarrow> duration_sum orig d s = Inr x \<Longrightarrow> x \<le> 2 ^ 63"
  by (induction orig d s rule: duration_sum.induct, subst (asm) (2) duration_sum.simps)
     (auto simp: Let_def split: if_splits sum.splits)

lemma ParseDuration_int64: "ParseDuration s = Inr d \<Longrightarrow> int64_ok d"
  by (auto simp: ParseDuration_def int64_ok_def split: prod.splits if_splits sum.splits
      dest: duration_sum_bound [rotated])

section \<open>Reading the environment\<close>

text \<open>\<^verbatim>\<open>os.Getenv\<close>: the empty text for a variable that is not set.\<close>

type_synonym environment = "string \<Rightarrow> string"

definition envDuration :: "environment \<Rightarrow> string \<Rightarrow> int \<Rightarrow> goerr + int" where
  "envDuration getenv name def =
    (let v = getenv name in
     if v = [] then Inr def
     else case ParseDuration v of
       Inl err \<Rightarrow> Inl (Errorf_tail (''invalid duration for '' @ name @ ''='' @ Quote v) err)
     | Inr d \<Rightarrow> Inr d)"

text \<open>\<^verbatim>\<open>strconv.Atoi\<close> and the text of its error.\<close>

definition Atoi :: "string \<Rightarrow> goerr + int" where
  "Atoi v = (case ParseInt64 v of
       Some n \<Rightarrow> Inr n
     | None \<Rightarrow> Inl (Opaque (''strconv.Atoi: parsing '' @ Quote v @ '': '' @
         (let ds = (case v of c # cs \<Rightarrow> if c = CHR ''+'' \<or> c = CHR ''-'' then cs else v | [] \<Rightarrow> [])
          in if ds \<noteq> [] \<and> list_all is_digit ds then ''value out of range'' else ''invalid syntax''))))"

definition ParseIntFromEnv :: "environment \<Rightarrow> string \<Rightarrow> int \<Rightarrow> goerr + int" where
  "ParseIntFromEnv getenv name def =
    (let v = getenv name in
     if v = [] then Inr def
     else case Atoi v of
       Inl err \<Rightarrow> Inl (Errorf_tail (''invalid int for '' @ name @ ''='' @ Quote v) err)
     | Inr n \<Rightarrow> Inr n)"

definition envInt :: "environment \<Rightarrow> string \<Rightarrow> int \<Rightarrow> goerr + int" where
  "envInt getenv name def =
    (let v = getenv name in
     if v = [] then Inr def
     else case Atoi v of
       Inl err \<Rightarrow> Inl (Errorf_tail (''invalid int for '' @ name @ ''='' @ Quote v) err)
     | Inr n \<Rightarrow>
         if n \<le> 0 then Inl (Opaque (''invalid int for '' @ name @ ''='' @ Quote v @ '': must be > 0''))
         else Inr n)"

text \<open>Names and values alternate.\<close>

fun require_pairs :: "string list \<Rightarrow> goerr + unit" where
  "require_pairs (name # v # kv) =
     (if v = [] then Inl (Opaque (''missing required env var: '' @ name)) else require_pairs kv)"
| "require_pairs _ = Inr ()"

definition requireFields :: "string list \<Rightarrow> goerr + unit" where
  "requireFields kv =
    (if odd (length kv)
     then Inl (Opaque (''requireFields: odd number of arguments ('' @ FormatInt (int (length kv)) @ '')''))
     else require_pairs kv)"

section \<open>The two configurations\<close>

record APIConfig =
  ac_APIBaseURL :: string
  ac_DatabaseURL :: string
  ac_RedisAddr :: string
  ac_RedisPassword :: string
  ac_ZitadelIssuerURL :: string
  ac_ZitadelClientID :: string
  ac_ZitadelAPIClientID :: string
  ac_ZitadelTargetSigningKey :: string
  ac_R2AccountID :: string
  ac_R2AccessKeyID :: string
  ac_R2SecretAccessKey :: string
  ac_R2Bucket :: string
  ac_R2Endpoint :: string
  ac_MediaTokenSecret :: string
  ac_MediaTokenTTL :: int
  ac_PresignUploadExpiry :: int

record WorkerConfig =
  wc_WorkerDatabaseURL :: string
  wc_RedisAddr :: string
  wc_RedisPassword :: string
  wc_R2AccountID :: string
  wc_R2AccessKeyID :: string
  wc_R2SecretAccessKey :: string
  wc_R2Bucket :: string
  wc_R2Endpoint :: string
  wc_TranscodeTimeout :: int
  wc_ReconcileInterval :: int
  wc_ReconcileBatch :: int
  wc_ReconcileDryRun :: bool

definition seconds :: "int \<Rightarrow> int" where "seconds n = n * 1000000000"

definition LoadAPI :: "environment \<Rightarrow> goerr + APIConfig" where
  "LoadAPI getenv =
    (case envDuration getenv ''MEDIA_TOKEN_TTL'' (seconds (15 * 60)) of
       Inl err \<Rightarrow> Inl err
     | Inr ttl \<Rightarrow>
    (case envDuration getenv ''PRESIGN_UPLOAD_EXPIRY'' (seconds (15 * 60)) of
       Inl err \<Rightarrow> Inl err
     | Inr expiry \<Rightarrow>
        let c = \<lparr>ac_APIBaseURL = getenv ''API_BASE_URL'', ac_DatabaseURL = getenv ''DATABASE_URL'',
                 ac_RedisAddr = getenv ''REDIS_ADDR'', ac_RedisPassword = getenv ''REDIS_PASSWORD'',
                 ac_ZitadelIssuerURL = getenv ''ZITADEL_ISSUER_URL'',
                 ac_ZitadelClientID = getenv ''ZITADEL_CLIENT_ID'',
                 ac_ZitadelAPIClientID = getenv ''ZITADEL_API_CLIENT_ID'',
                 ac_ZitadelTargetSigningKey = getenv ''ZITADEL_TARGET_SIGNING_KEY'',
                 ac_R2AccountID = getenv ''R2_ACCOUNT_ID'', ac_R2AccessKeyID = getenv ''R2_ACCESS_KEY_ID'',
                 ac_R2SecretAccessKey = getenv ''R2_SECRET_ACCESS_KEY'',
                 ac_R2Bucket = getenv ''R2_BUCKET'', ac_R2Endpoint = getenv ''R2_ENDPOINT'',
                 ac_MediaTokenSecret = getenv ''MEDIA_TOKEN_SECRET'',
                 ac_MediaTokenTTL = ttl, ac_PresignUploadExpiry = expiry\<rparr>
        in case requireFields
             [''API_BASE_URL'', ac_APIBaseURL c, ''DATABASE_URL'', ac_DatabaseURL c,
              ''REDIS_ADDR'', ac_RedisAddr c, ''REDIS_PASSWORD'', ac_RedisPassword c,
              ''ZITADEL_ISSUER_URL'', ac_ZitadelIssuerURL c,
              ''ZITADEL_CLIENT_ID'', ac_ZitadelClientID c,
              ''ZITADEL_API_CLIENT_ID'', ac_ZitadelAPIClientID c,
              ''ZITADEL_TARGET_SIGNING_KEY'', ac_ZitadelTargetSigningKey c,
              ''R2_ACCOUNT_ID'', ac_R2AccountID c, ''R2_ACCESS_KEY_ID'', ac_R2AccessKeyID c,
              ''R2_SECRET_ACCESS_KEY'', ac_R2SecretAccessKey c, ''R2_BUCKET'', ac_R2Bucket c,
              ''R2_ENDPOINT'', ac_R2Endpoint c, ''MEDIA_TOKEN_SECRET'', ac_MediaTokenSecret c] of
           Inl err \<Rightarrow> Inl err
         | Inr _ \<Rightarrow> Inr c))"

definition LoadWorker :: "environment \<Rightarrow> goerr + WorkerConfig" where
  "LoadWorker getenv =
    (case envDuration getenv ''TRANSCODE_TIMEOUT'' (seconds (5 * 60)) of
       Inl err \<Rightarrow> Inl err
     | Inr timeout \<Rightarrow>
    (case envDuration getenv ''RECONCILE_INTERVAL'' (seconds 3600) of
       Inl err \<Rightarrow> Inl err
     | Inr ri \<Rightarrow>
    (case envInt getenv ''RECONCILE_BATCH'' 100 of
       Inl err \<Rightarrow> Inl err
     | Inr batch \<Rightarrow>
        let c = \<lparr>wc_WorkerDatabaseURL = getenv ''WORKER_DATABASE_URL'', wc_RedisAddr = getenv ''REDIS_ADDR'',
                 wc_RedisPassword = getenv ''REDIS_PASSWORD'', wc_R2AccountID = getenv ''R2_ACCOUNT_ID'',
                 wc_R2AccessKeyID = getenv ''R2_ACCESS_KEY_ID'',
                 wc_R2SecretAccessKey = getenv ''R2_SECRET_ACCESS_KEY'',
                 wc_R2Bucket = getenv ''R2_BUCKET'', wc_R2Endpoint = getenv ''R2_ENDPOINT'',
                 wc_TranscodeTimeout = timeout, wc_ReconcileInterval = ri, wc_ReconcileBatch = batch,
                 wc_ReconcileDryRun = (getenv ''RECONCILE_DRY_RUN'' = ''true'')\<rparr>
        in case requireFields
             [''WORKER_DATABASE_URL'', wc_WorkerDatabaseURL c, ''REDIS_ADDR'', wc_RedisAddr c,
              ''REDIS_PASSWORD'', wc_RedisPassword c, ''R2_ACCOUNT_ID'', wc_R2AccountID c,
              ''R2_ACCESS_KEY_ID'', wc_R2AccessKeyID c, ''R2_SECRET_ACCESS_KEY'', wc_R2SecretAccessKey c,
              ''R2_BUCKET'', wc_R2Bucket c, ''R2_ENDPOINT'', wc_R2Endpoint c] of
           Inl err \<Rightarrow> Inl err
         | Inr _ \<Rightarrow> Inr c)))"

text \<open>What a configuration that loads promises to the constructors of the clients.\<close>

definition api_required :: "string list" where
  "api_required = [''API_BASE_URL'', ''DATABASE_URL'', ''REDIS_ADDR'', ''REDIS_PASSWORD'',
     ''ZITADEL_ISSUER_URL'', ''ZITADEL_CLIENT_ID'', ''ZITADEL_API_CLIENT_ID'',
     ''ZITADEL_TARGET_SIGNING_KEY'', ''R2_ACCOUNT_ID'', ''R2_ACCESS_KEY_ID'', ''R2_SECRET_ACCESS_KEY'',
     ''R2_BUCKET'', ''R2_ENDPOINT'', ''MEDIA_TOKEN_SECRET'']"

definition api_complete :: "APIConfig \<Rightarrow> bool" where
  "api_complete c \<longleftrightarrow> [] \<notin> {ac_APIBaseURL c, ac_DatabaseURL c, ac_RedisAddr c, ac_RedisPassword c,
     ac_ZitadelIssuerURL c, ac_ZitadelClientID c, ac_ZitadelAPIClientID c, ac_ZitadelTargetSigningKey c,
     ac_R2AccountID c, ac_R2AccessKeyID c, ac_R2SecretAccessKey c, ac_R2Bucket c, ac_R2Endpoint c,
     ac_MediaTokenSecret c}"

definition worker_complete :: "WorkerConfig \<Rightarrow> bool" where
  "worker_complete c \<longleftrightarrow> [] \<notin> {wc_WorkerDatabaseURL c, wc_RedisAddr c, wc_RedisPassword c,
     wc_R2AccountID c, wc_R2AccessKeyID c, wc_R2SecretAccessKey c, wc_R2Bucket c, wc_R2Endpoint c} \<and>
     0 < wc_ReconcileBatch c"

definition duration_set :: "environment \<Rightarrow> string \<Rightarrow> bool" where
  "duration_set getenv name \<longleftrightarrow> getenv name = [] \<or> \<not> isl (ParseDuration (getenv name))"

lemma envDuration_ok: "(\<exists>d. envDuration getenv name def = Inr d) \<longleftrightarrow> duration_set getenv name"
  by (auto simp: envDuration_def duration_set_def Let_def split: sum.splits)

lemma envInt_positive: "0 < def \<Longrightarrow> envInt getenv name def = Inr n \<Longrightarrow> 0 < n"
  by (auto simp: envInt_def Let_def split: if_splits sum.splits)

lemma LoadAPI_complete: "LoadAPI getenv = Inr c \<Longrightarrow> api_complete c"
  by (auto simp: LoadAPI_def requireFields_def api_complete_def Let_def split: sum.splits if_splits)

lemma LoadWorker_complete:
  assumes "LoadWorker getenv = Inr c"
  shows "worker_complete c"
proof -
  from assms obtain b where "envInt getenv ''RECONCILE_BATCH'' 100 = Inr b" "wc_ReconcileBatch c = b"
    by (auto simp: LoadWorker_def Let_def split: sum.splits)
  then have "0 < wc_ReconcileBatch c" using envInt_positive [of 100] by simp
  then show ?thesis using assms
    by (auto simp: LoadWorker_def requireFields_def worker_complete_def Let_def split: sum.splits if_splits)
qed

lemma LoadAPI_loads:
  "(\<exists>c. LoadAPI getenv = Inr c) \<longleftrightarrow> [] \<notin> getenv ` set api_required \<and>
     duration_set getenv ''MEDIA_TOKEN_TTL'' \<and> duration_set getenv ''PRESIGN_UPLOAD_EXPIRY''"
  unfolding envDuration_ok [of _ _ "seconds (15 * 60)", symmetric]
  by (auto simp: LoadAPI_def requireFields_def api_required_def Let_def split: sum.splits)

lemma LoadWorker_loads:
  "(\<exists>c. LoadWorker getenv = Inr c) \<longleftrightarrow>
     [] \<notin> getenv ` {''WORKER_DATABASE_URL'', ''REDIS_ADDR'', ''REDIS_PASSWORD'', ''R2_ACCOUNT_ID'',
       ''R2_ACCESS_KEY_ID'', ''R2_SECRET_ACCESS_KEY'', ''R2_BUCKET'', ''R2_ENDPOINT''} \<and>
     duration_set getenv ''TRANSCODE_TIMEOUT'' \<and> duration_set getenv ''RECONCILE_INTERVAL'' \<and>
     (\<exists>n. envInt getenv ''RECONCILE_BATCH'' 100 = Inr n)"
  unfolding envDuration_ok [of _ "''TRANSCODE_TIMEOUT''" "seconds (5 * 60)", symmetric]
    envDuration_ok [of _ "''RECONCILE_INTERVAL''" "seconds 3600", symmetric]
  by (auto simp: LoadWorker_def requireFields_def Let_def split: sum.splits)

end
