(* ===== verification/Startup.thy ===== *)
theory Startup
  imports Config Router
begin

text \<open>
  The life of the two processes, \<^verbatim>\<open>api-gateway/main.go\<close> and
  \<^verbatim>\<open>transcoder-worker/main.go\<close>: the constructors of the clients
  (\<^verbatim>\<open>shared/db.go\<close>, \<^verbatim>\<open>r2.go\<close>, \<^verbatim>\<open>redis.go\<close>,
  \<^verbatim>\<open>middleware/auth.go\<close>), the retries of the token verifier, the wiring of
  the router, the order of the shutdown and the exit codes.

  The state of a process is its clock and the trace of what it did; what drivers,
  servers and the network answer is the record \<^verbatim>\<open>host\<close>.
\<close>

section \<open>The state of a process\<close>

datatype event =
    OpenPool string int int
  | ClosePool
  | BuildR2 string string
  | OpenAsynq string
  | CloseAsynq
  | Discover int
  | VerifierReady
  | Listening string APIConfig
  | Draining
  | Consuming int

record process =
  pr_now :: int
  pr_trace :: "event list"

type_synonym 'a boot = "(process, goerr, 'a) prog"

definition emit :: "event \<Rightarrow> (process, 'e, unit) prog" where
  "emit ev = (\<lambda>p. (Inr (), p\<lparr>pr_trace := pr_trace p @ [ev]\<rparr>))"

definition pass_time :: "int \<Rightarrow> (process, 'e, unit) prog" where
  "pass_time d = (\<lambda>p. (Inr (), p\<lparr>pr_now := pr_now p + d\<rparr>))"

definition clock :: "(process, 'e, int) prog" where
  "clock = (\<lambda>p. (Inr (pr_now p), p))"

text \<open>
  The parts of an issuer URL (\<^verbatim>\<open>net/url\<close>), and what the verifier library is
  given: a host, with a port and without TLS, or with TLS and perhaps a port.
\<close>

record issuer_url =
  iu_Scheme :: string
  iu_Hostname :: string
  iu_Port :: string

datatype zitadel = Insecure string string | Secure string "nat option"

text \<open>
  The answers of the outside: an error for \<^verbatim>\<open>sql.Open\<close>, duration and error of a
  ping and of the OIDC discovery at a time (with its timeout), the parsed issuer, the
  error that ends the HTTP server or the task server (none when a signal ends it), and
  the errors of the closing calls, which are only logged.
\<close>

record host =
  ho_open :: "string \<Rightarrow> goerr option"
  ho_ping :: "string \<Rightarrow> int \<Rightarrow> int \<times> goerr option"
  ho_aws :: "goerr option"
  ho_url :: "string \<Rightarrow> goerr + issuer_url"
  ho_discover :: "zitadel \<Rightarrow> string \<Rightarrow> int \<Rightarrow> int \<Rightarrow> int \<times> goerr option"
  ho_listen :: "string \<Rightarrow> goerr option"
  ho_run :: "goerr option"

definition failed_with :: "goerr option \<Rightarrow> (goerr \<Rightarrow> goerr) \<Rightarrow> unit boot" where
  "failed_with r f = (case r of None \<Rightarrow> ok () | Some err \<Rightarrow> throw (f err))"

section \<open>Clients\<close>

definition NewSQLDB :: "host \<Rightarrow> string \<Rightarrow> int \<Rightarrow> int \<Rightarrow> unit boot" where
  "NewSQLDB H dsn maxConns maxIdle =
    (if dsn = [] then throw (Opaque ''NewSQLDB: dsn is empty'')
     else if maxConns \<le> 0
       then throw (Opaque (''NewSQLDB: maxConns must be > 0, got '' @ FormatInt maxConns))
     else if maxIdle < 0
       then throw (Opaque (''NewSQLDB: maxIdle must be >= 0, got '' @ FormatInt maxIdle))
     else bindM (failed_with (ho_open H dsn) (Errorf_tail ''sql.Open'')) (\<lambda>_.
       bindM (emit (OpenPool dsn maxConns maxIdle)) (\<lambda>_.
       bindM clock (\<lambda>now. case ho_ping H dsn now of (d, r) \<Rightarrow>
         bindM (pass_time d) (\<lambda>_. case r of
             None \<Rightarrow> ok ()
           | Some err \<Rightarrow> bindM (emit ClosePool) (\<lambda>_. throw (Errorf_tail ''ping database'' err)))))))"

record R2Config =
  r2_AccountID :: string
  r2_AccessKeyID :: string
  r2_SecretAccessKey :: string
  r2_Bucket :: string
  r2_Endpoint :: string

definition NewR2Client :: "host \<Rightarrow> R2Config \<Rightarrow> unit boot" where
  "NewR2Client H cfg =
    (if r2_AccountID cfg = [] then throw (Opaque ''NewR2Client: AccountID is empty'')
     else if r2_AccessKeyID cfg = [] then throw (Opaque ''NewR2Client: AccessKeyID is empty'')
     else if r2_SecretAccessKey cfg = [] then throw (Opaque ''NewR2Client: SecretAccessKey is empty'')
     else if r2_Bucket cfg = [] then throw (Opaque ''NewR2Client: Bucket is empty'')
     else if r2_Endpoint cfg = [] then throw (Opaque ''NewR2Client: Endpoint is empty'')
     else bindM (failed_with (ho_aws H) (Errorf_tail ''NewR2Client: load aws config''))
       (\<lambda>_. emit (BuildR2 (r2_Endpoint cfg) (r2_Bucket cfg))))"

record RedisConfig =
  rd_Addr :: string
  rd_Password :: string

definition sec03 :: string where
  "sec03 = '': Password is empty (SEC-03 requires password auth)''"

definition NewAsynqClient :: "RedisConfig \<Rightarrow> unit boot" where
  "NewAsynqClient cfg =
    (if rd_Addr cfg = [] then throw (Opaque ''NewAsynqClient: Addr is empty'')
     else if rd_Password cfg = [] then throw (Opaque (''NewAsynqClient'' @ sec03))
     else emit (OpenAsynq (rd_Addr cfg)))"

definition DefaultWorkerConcurrency :: int where "DefaultWorkerConcurrency = 1"

text \<open>The task server, given by its concurrency; it has the one default queue.\<close>

definition NewAsynqServer :: "RedisConfig \<Rightarrow> int \<Rightarrow> int boot" where
  "NewAsynqServer cfg concurrency =
    (if rd_Addr cfg = [] then throw (Opaque ''NewAsynqServer: Addr is empty'')
     else if rd_Password cfg = [] then throw (Opaque (''NewAsynqServer'' @ sec03))
     else ok (if concurrency \<le> 0 then DefaultWorkerConcurrency else concurrency))"

section \<open>The token verifier\<close>

text \<open>\<^verbatim>\<open>strconv.ParseUint(port, 10, 16)\<close>.\<close>

definition ParseUint16 :: "string \<Rightarrow> goerr + nat" where
  "ParseUint16 s =
    (case parse_nat s of
       None \<Rightarrow> Inl (Opaque (''strconv.ParseUint: parsing '' @ Quote s @ '': invalid syntax''))
     | Some n \<Rightarrow>
        if n < 2 ^ 16 then Inr n
        else Inl (Opaque (''strconv.ParseUint: parsing '' @ Quote s @ '': value out of range'')))"

definition zitadelFromIssuerURL :: "host \<Rightarrow> string \<Rightarrow> goerr + zitadel" where
  "zitadelFromIssuerURL H issuerURL =
    (case ho_url H issuerURL of
       Inl err \<Rightarrow> Inl (Errorf_tail ''parse issuer url'' err)
     | Inr u \<Rightarrow>
        let hname = iu_Hostname u; port = iu_Port u in
        if hname = [] then Inl (Opaque (''invalid issuer url '' @ Quote issuerURL @ '': empty host''))
        else if iu_Scheme u = ''http'' then Inr (Insecure hname (if port = [] then ''80'' else port))
        else if iu_Scheme u = ''https'' then
          (if port = [] \<or> port = ''443'' then Inr (Secure hname None)
           else case ParseUint16 port of
             Inl err \<Rightarrow> Inl (Errorf_tail (''invalid issuer port '' @ Quote port) err)
           | Inr p \<Rightarrow> Inr (Secure hname (Some p)))
        else Inl (Opaque (''unsupported issuer url scheme '' @ Quote (iu_Scheme u) @
               '' (want http or https): '' @ issuerURL)))"

text \<open>The last argument is what the deadline of the context leaves for the discovery.\<close>

definition NewZitadelVerifier :: "host \<Rightarrow> string \<Rightarrow> string \<Rightarrow> int \<Rightarrow> unit boot" where
  "NewZitadelVerifier H issuerURL apiClientID timeout =
    (if issuerURL = [] then throw (Opaque ''NewZitadelVerifier: issuerURL is empty'')
     else if apiClientID = [] then throw (Opaque ''NewZitadelVerifier: apiClientID is empty'')
     else bindM (liftR (zitadelFromIssuerURL H issuerURL)) (\<lambda>z.
       bindM (emit (Discover timeout)) (\<lambda>_. bindM clock (\<lambda>now.
       case ho_discover H z apiClientID now timeout of (d, r) \<Rightarrow>
         bindM (pass_time d) (\<lambda>_.
         bindM (failed_with r (Errorf_tail ''zitadel authorization.New'')) (\<lambda>_.
         emit VerifierReady))))))"

definition verifierRetryBudget :: int where "verifierRetryBudget = seconds 60"

definition verifierRetryDelays :: "int list" where
  "verifierRetryDelays = [0, seconds 5, seconds 10, seconds 20]"

text \<open>
  \<^verbatim>\<open>select\<close> between the context and the timer: the argument is the time the context
  is cancelled, if ever.
\<close>

definition sleep :: "int option \<Rightarrow> int \<Rightarrow> bool boot" where
  "sleep cancel delay = bindM clock (\<lambda>now. case cancel of
       None \<Rightarrow> bindM (pass_time delay) (\<lambda>_. ok True)
     | Some c \<Rightarrow>
         if c < now + delay then bindM (pass_time (max 0 (c - now))) (\<lambda>_. ok False)
         else bindM (pass_time delay) (\<lambda>_. ok True))"

text \<open>The elapsed time these messages quote is left out; they only reach the log.\<close>

definition retry_error :: "string \<Rightarrow> nat \<Rightarrow> goerr option \<Rightarrow> goerr" where
  "retry_error what attempts lastErr =
    (let msg = what @ '' (attempts '' @ FormatInt (int attempts) @ '')'' in
     case lastErr of None \<Rightarrow> Opaque (msg @ '': %!w(<nil>)'') | Some err \<Rightarrow> Errorf_tail msg err)"

fun verifier_attempts ::
  "host \<Rightarrow> int option \<Rightarrow> string \<Rightarrow> string \<Rightarrow> int \<Rightarrow> nat \<Rightarrow> goerr option \<Rightarrow> int list \<Rightarrow> unit boot"
where
  "verifier_attempts H cancel issuer client start attempt lastErr [] =
     throw (retry_error ''verifier retry exhausted'' attempt lastErr)"
| "verifier_attempts H cancel issuer client start attempt lastErr (delay # delays) =
     bindM (sleep cancel delay) (\<lambda>elapsed.
       if \<not> elapsed
       then throw (Errorf_tail (''retry cancelled before attempt '' @ FormatInt (int attempt + 1))
              (Sentinel ErrCanceled))
       else bindM clock (\<lambda>now.
         let remaining = start + verifierRetryBudget - now in
         if remaining < seconds 5
         then throw (retry_error ''verifier retry budget exhausted'' (attempt + 1) lastErr)
         else tryM (NewZitadelVerifier H issuer client remaining)
           (\<lambda>err. verifier_attempts H cancel issuer client start (attempt + 1) (Some err) delays) ok))"

definition buildVerifierWithRetry :: "host \<Rightarrow> int option \<Rightarrow> string \<Rightarrow> string \<Rightarrow> unit boot" where
  "buildVerifierWithRetry H cancel issuer client = bindM clock (\<lambda>start.
     verifier_attempts H cancel issuer client start 0 None verifierRetryDelays)"

section \<open>The gateway\<close>

text \<open>What the router is built from: which pointers are set, and the configuration.\<close>

record RouterDeps =
  rt_Queries :: bool
  rt_DB :: bool
  rt_R2 :: bool
  rt_Queue :: bool
  rt_Cfg :: "APIConfig option"
  rt_WebhookSigningKey :: string

fun nil_check :: "(bool \<times> string) list \<Rightarrow> goerr + unit" where
  "nil_check [] = Inr ()"
| "nil_check ((present, msg) # xs) = (if present then nil_check xs else Inl (Opaque msg))"

definition NewVideoHandler :: "RouterDeps \<Rightarrow> goerr + unit" where
  "NewVideoHandler d = nil_check
     [(rt_Queries d, ''NewVideoHandler: queries is nil''), (rt_DB d, ''NewVideoHandler: db is nil''),
      (rt_R2 d, ''NewVideoHandler: r2 is nil''), (rt_Queue d, ''NewVideoHandler: queue is nil''),
      (rt_Cfg d \<noteq> None, ''NewVideoHandler: cfg is nil'')]"

definition NewFeedHandler :: "RouterDeps \<Rightarrow> goerr + unit" where
  "NewFeedHandler d = nil_check
     [(rt_Queries d, ''NewFeedHandler: queries is nil''), (rt_R2 d, ''NewFeedHandler: r2 is nil''),
      (rt_Cfg d \<noteq> None, ''NewFeedHandler: cfg is nil'')]"

definition NewSearchHandler :: "RouterDeps \<Rightarrow> goerr + unit" where
  "NewSearchHandler d = nil_check
     [(rt_Queries d, ''NewSearchHandler: queries is nil''), (rt_R2 d, ''NewSearchHandler: r2 is nil''),
      (rt_Cfg d \<noteq> None, ''NewSearchHandler: cfg is nil'')]"

definition NewSocialHandler :: "RouterDeps \<Rightarrow> goerr + unit" where
  "NewSocialHandler d = nil_check
     [(rt_Queries d \<and> rt_DB d, ''NewSocialHandler: queries and db must be non-nil'')]"

definition NewAccountHandler :: "RouterDeps \<Rightarrow> goerr + unit" where
  "NewAccountHandler d = nil_check
     [(rt_Queries d, ''NewAccountHandler: queries is nil''), (rt_DB d, ''NewAccountHandler: db is nil''),
      (rt_Queue d, ''NewAccountHandler: queue is nil'')]"

text \<open>The constructors in the order of \<^verbatim>\<open>NewRouter\<close>, which panics at the first error.\<close>

definition router_parts :: "RouterDeps \<Rightarrow> (string \<times> (goerr + unit)) list" where
  "router_parts d =
     [(''NewRateLimitWebhook'', RateLimitConfig_validate webhookLimit),
      (''NewRateLimitAuth'', RateLimitConfig_validate authLimit),
      (''NewVideoHandler'', NewVideoHandler d), (''NewFeedHandler'', NewFeedHandler d),
      (''NewSearchHandler'', NewSearchHandler d), (''NewSocialHandler'', NewSocialHandler d),
      (''NewAccountHandler'', NewAccountHandler d)]"

fun first_panic :: "(string \<times> (goerr + unit)) list \<Rightarrow> string option" where
  "first_panic [] = None"
| "first_panic ((name, r) # xs) = (case r of
      Inl err \<Rightarrow> Some (''api-gateway: '' @ name @ '': '' @ Error err)
    | Inr _ \<Rightarrow> first_panic xs)"

text \<open>
  The environment of the handlers of a router: the fields of the configuration, and
  the pointers they test before they work.  The webhook handler always gets its
  deletion function.
\<close>

definition handler_env :: "env \<Rightarrow> RouterDeps \<Rightarrow> env" where
  "handler_env E d = E\<lparr>
     env_wired := (\<lambda>x. case x of
         DepQueries \<Rightarrow> rt_Queries d | DepRun \<Rightarrow> rt_DB d | DepR2 \<Rightarrow> rt_R2 d | DepQueue \<Rightarrow> rt_Queue d
       | DepConfig \<Rightarrow> rt_Cfg d \<noteq> None | DepDelete \<Rightarrow> True | _ \<Rightarrow> env_wired E x),
     env_APIBaseURL := (case rt_Cfg d of None \<Rightarrow> [] | Some c \<Rightarrow> ac_APIBaseURL c),
     env_MediaTokenSecret := (case rt_Cfg d of None \<Rightarrow> [] | Some c \<Rightarrow> ac_MediaTokenSecret c),
     env_MediaTokenTTL := (case rt_Cfg d of None \<Rightarrow> 0 | Some c \<Rightarrow> ac_MediaTokenTTL c),
     env_PresignUploadExpiry := (case rt_Cfg d of None \<Rightarrow> 0 | Some c \<Rightarrow> ac_PresignUploadExpiry c),
     env_WebhookSigningKey := rt_WebhookSigningKey d\<rparr>"

text \<open>\<^verbatim>\<open>os.Exit(1)\<close> when the call fails.\<close>

definition or_exit :: "'a boot \<Rightarrow> ('a \<Rightarrow> (process, nat, 'b) prog) \<Rightarrow> (process, nat, 'b) prog" where
  "or_exit m k = (\<lambda>p. case m p of (Inl _, p') \<Rightarrow> (Inl 1, p') | (Inr x, p') \<Rightarrow> k x p')"

definition APIPoolMaxConns :: int where "APIPoolMaxConns = 10"
definition WorkerPoolMaxConns :: int where "WorkerPoolMaxConns = 5"
definition defaultAddr :: string where "defaultAddr = '':8080''"

definition gateway_deps :: "APIConfig \<Rightarrow> RouterDeps" where
  "gateway_deps cfg = \<lparr>rt_Queries = True, rt_DB = True, rt_R2 = True, rt_Queue = True, rt_Cfg = Some cfg,
     rt_WebhookSigningKey = ac_ZitadelTargetSigningKey cfg\<rparr>"

text \<open>
  The server runs until it fails or a signal arrives; then requests are drained and
  the pool and the producer closed.  A panic ends a Go program with code 2.
\<close>

definition gateway_serve :: "host \<Rightarrow> string \<Rightarrow> APIConfig \<Rightarrow> (process, nat, unit) prog" where
  "gateway_serve H addr cfg =
    (case first_panic (router_parts (gateway_deps cfg)) of
       Some _ \<Rightarrow> throw 2
     | None \<Rightarrow> bindM (emit (Listening addr cfg)) (\<lambda>_.
         case ho_listen H addr of
           Some _ \<Rightarrow> throw 1
         | None \<Rightarrow> bindM (emit Draining) (\<lambda>_. bindM (emit ClosePool) (\<lambda>_. emit CloseAsynq))))"

definition gateway_main :: "host \<Rightarrow> environment \<Rightarrow> (process, nat, unit) prog" where
  "gateway_main H getenv =
    (let addr = (if getenv ''API_GATEWAY_ADDR'' = [] then defaultAddr else getenv ''API_GATEWAY_ADDR'') in
     or_exit (liftR (LoadAPI getenv)) (\<lambda>cfg.
     or_exit (NewSQLDB H (ac_DatabaseURL cfg) APIPoolMaxConns 2) (\<lambda>_.
     or_exit (NewR2Client H \<lparr>r2_AccountID = ac_R2AccountID cfg, r2_AccessKeyID = ac_R2AccessKeyID cfg,
                r2_SecretAccessKey = ac_R2SecretAccessKey cfg, r2_Bucket = ac_R2Bucket cfg,
                r2_Endpoint = ac_R2Endpoint cfg\<rparr>) (\<lambda>_.
     or_exit (NewAsynqClient \<lparr>rd_Addr = ac_RedisAddr cfg, rd_Password = ac_RedisPassword cfg\<rparr>) (\<lambda>_.
     or_exit (buildVerifierWithRetry H None (ac_ZitadelIssuerURL cfg) (ac_ZitadelAPIClientID cfg)) (\<lambda>_.
     gateway_serve H addr cfg))))))"

section \<open>The worker\<close>

text \<open>The second argument says whether the logger is set.\<close>

definition NewWorker :: "host \<Rightarrow> bool \<Rightarrow> WorkerConfig option \<Rightarrow> WorkerConfig boot" where
  "NewWorker H has_logger cfg_opt = (case cfg_opt of
      None \<Rightarrow> throw (Opaque ''NewWorker: cfg is nil'')
    | Some cfg \<Rightarrow>
       if \<not> has_logger then throw (Opaque ''NewWorker: logger is nil'')
       else tryM (NewSQLDB H (wc_WorkerDatabaseURL cfg) WorkerPoolMaxConns WorkerPoolMaxConns)
         (\<lambda>err. throw (Errorf_tail ''NewWorker: open postgres pool'' err)) (\<lambda>_.
       tryM (NewR2Client H \<lparr>r2_AccountID = wc_R2AccountID cfg, r2_AccessKeyID = wc_R2AccessKeyID cfg,
               r2_SecretAccessKey = wc_R2SecretAccessKey cfg, r2_Bucket = wc_R2Bucket cfg,
               r2_Endpoint = wc_R2Endpoint cfg\<rparr>)
         (\<lambda>err. bindM (emit ClosePool) (\<lambda>_. throw (Errorf_tail ''NewWorker: r2 client'' err))) (\<lambda>_.
       tryM (NewAsynqClient \<lparr>rd_Addr = wc_RedisAddr cfg, rd_Password = wc_RedisPassword cfg\<rparr>)
         (\<lambda>err. bindM (emit ClosePool) (\<lambda>_. throw (Errorf_tail ''NewWorker: asynq client'' err)))
         (\<lambda>_. ok cfg))))"

text \<open>\<^verbatim>\<open>Worker.Close\<close> on a wired worker.\<close>

definition Worker_Close :: "(process, 'e, unit) prog" where
  "Worker_Close = bindM (emit CloseAsynq) (\<lambda>_. emit ClosePool)"

definition Worker_run :: "host \<Rightarrow> WorkerConfig \<Rightarrow> unit boot" where
  "Worker_run H cfg =
    tryM (NewAsynqServer \<lparr>rd_Addr = wc_RedisAddr cfg, rd_Password = wc_RedisPassword cfg\<rparr>
            DefaultWorkerConcurrency)
      (\<lambda>err. throw (Errorf_tail ''build asynq server'' err))
      (\<lambda>n. bindM (emit (Consuming n)) (\<lambda>_. failed_with (ho_run H) (Errorf_tail ''asynq server run'')))"

text \<open>\<^verbatim>\<open>os.Exit\<close> skips the deferred \<^verbatim>\<open>Close\<close>.\<close>

definition worker_main :: "host \<Rightarrow> environment \<Rightarrow> (process, nat, unit) prog" where
  "worker_main H getenv =
     or_exit (liftR (LoadWorker getenv)) (\<lambda>cfg.
     or_exit (NewWorker H True (Some cfg)) (\<lambda>w p.
       case Worker_run H w p of
         (Inl err, p') \<Rightarrow> throw (if errors_Is err ErrCanceled then 0 else 2) p'
       | (Inr _, p') \<Rightarrow> Worker_Close p'))"

section \<open>The reconciliation ticker\<close>

datatype ticker_event = Tick | Done

definition ticker_interval :: "WorkerConfig \<Rightarrow> int" where
  "ticker_interval cfg = (if wc_ReconcileInterval cfg \<le> 0 then seconds 3600 else wc_ReconcileInterval cfg)"

fun runReconcileTicker :: "WorkerConfig \<Rightarrow> ticker_event list \<Rightarrow> unit io" where
  "runReconcileTicker cfg [] = ok ()"
| "runReconcileTicker cfg (Done # _) = ok ()"
| "runReconcileTicker cfg (Tick # evs) =
     tryM (EnqueueReconcileTick (wc_ReconcileBatch cfg) (wc_ReconcileDryRun cfg))
       (\<lambda>_. runReconcileTicker cfg evs) (\<lambda>_. runReconcileTicker cfg evs)"

end
