(* ===== verification/Booting.thy ===== *)
theory Booting
  imports Startup
begin

text \<open>
  What holds of the two processes from their start to their exit: the retries of
  the token verifier stay within a bound, the gateway serves only with every client
  built, the worker closes what it opened when it cannot start.
\<close>

section \<open>Running the steps\<close>

lemma emit_run [run_simps]: "emit ev p = (Inr (), p\<lparr>pr_trace := pr_trace p @ [ev]\<rparr>)"
  by (simp add: emit_def)

lemma pass_time_run [run_simps]: "pass_time d p = (Inr (), p\<lparr>pr_now := pr_now p + d\<rparr>)"
  by (simp add: pass_time_def)

lemma clock_run [run_simps]: "clock p = (Inr (pr_now p), p)"
  by (simp add: clock_def)

lemma failed_with_run [run_simps]:
  "failed_with r f p = (case r of None \<Rightarrow> Inr () | Some err \<Rightarrow> Inl (f err), p)"
  by (simp add: failed_with_def run_simps split: option.split)

section \<open>The retries of the verifier\<close>

text \<open>The discovery respects the deadline of its context.\<close>

definition prompt :: "host \<Rightarrow> bool" where
  "prompt H \<longleftrightarrow> (\<forall>z c now t. 0 \<le> t \<longrightarrow> 0 \<le> fst (ho_discover H z c now t) \<and> fst (ho_discover H z c now t) \<le> t)"

lemma promptD: "prompt H \<Longrightarrow> 0 \<le> t \<Longrightarrow> ho_discover H z c now t = (d, r) \<Longrightarrow> 0 \<le> d \<and> d \<le> t"
  unfolding prompt_def by (metis fst_conv)

text \<open>One attempt: at most one discovery, and the time it is given.\<close>

lemma verifier_attempt:
  assumes "prompt H" "0 \<le> t" "NewZitadelVerifier H issuer client t p = (r, p')"
  shows "\<exists>ts. pr_trace p' = pr_trace p @ map Discover ts @ (if isl r then [] else [VerifierReady]) \<and>
    set ts \<subseteq> {t} \<and> length ts \<le> 1 \<and> pr_now p \<le> pr_now p' \<and> pr_now p' \<le> pr_now p + t"
proof -
  consider (bad) "issuer = [] \<or> client = [] \<or> isl (zitadelFromIssuerURL H issuer)"
    | (asked) z d x where "issuer \<noteq> []" "client \<noteq> []" "zitadelFromIssuerURL H issuer = Inr z"
        "ho_discover H z client (pr_now p) t = (d, x)"
    by (cases "zitadelFromIssuerURL H issuer") (auto, metis surj_pair)
  then show ?thesis
  proof cases
    case bad
    then have "isl r" "p' = p" using assms(3)
      by (auto simp: NewZitadelVerifier_def run_simps isl_def split: if_splits sum.splits)
    then show ?thesis using assms(2) by (intro exI [of _ "[]"]) auto
  next
    case asked
    then have "0 \<le> d" "d \<le> t" using promptD [OF assms(1,2)] by blast+
    then show ?thesis using assms(3) asked
      by (intro exI [of _ "[t]"])
         (auto simp: NewZitadelVerifier_def run_simps split: option.splits)
  qed
qed

lemma sleep_bounds:
  assumes "0 \<le> delay" "sleep cancel delay p = (r, p')"
  shows "pr_trace p' = pr_trace p" "pr_now p \<le> pr_now p'" "pr_now p' \<le> pr_now p + delay" "\<not> isl r"
  using assms by (auto simp: sleep_def run_simps split: option.splits if_splits)

text \<open>
  Whatever the answers, there are at most as many attempts as delays, each with at
  least five seconds, and only the last sleep can go over the budget.
\<close>

lemma verifier_attempts_bound:
  assumes "prompt H" "\<forall>d \<in> set delays. 0 \<le> d \<and> d \<le> D" "0 \<le> D"
    "start \<le> pr_now p" "pr_now p \<le> start + verifierRetryBudget"
    "verifier_attempts H cancel issuer client start attempt lastErr delays p = (r, p')"
  shows "\<exists>ts. pr_trace p' = pr_trace p @ map Discover ts @ (if isl r then [] else [VerifierReady]) \<and>
    length ts \<le> length delays \<and> set ts \<subseteq> {seconds 5 .. verifierRetryBudget} \<and>
    start \<le> pr_now p' \<and> pr_now p' \<le> start + verifierRetryBudget + D"
  using assms(2-)
proof (induction delays arbitrary: attempt lastErr p)
  case Nil
  then show ?case by (intro exI [of _ "[]"]) (auto simp: run_simps)
next
  case (Cons delay delays)
  obtain b0 p1 where s0: "sleep cancel delay p = (b0, p1)" by force
  have b: "pr_trace p1 = pr_trace p" "pr_now p \<le> pr_now p1" "pr_now p1 \<le> pr_now p + delay" "\<not> isl b0"
    using sleep_bounds [OF _ s0] Cons.prems(1) by auto
  then obtain b where s: "sleep cancel delay p = (Inr b, p1)" using s0 by (cases b0) auto
  let ?rem = "start + verifierRetryBudget - pr_now p1"
  show ?case
  proof (cases "\<not> b \<or> ?rem < seconds 5")
    case True
    then have "isl r" "p' = p1" using Cons.prems(5) s
      by (auto simp: run_simps Let_def isl_def split: if_splits)
    then show ?thesis using b Cons.prems by (intro exI [of _ "[]"]) auto
  next
    case False
    obtain x p2 where v: "NewZitadelVerifier H issuer client ?rem p1 = (x, p2)" by force
    have rem: "seconds 5 \<le> ?rem" "?rem \<le> verifierRetryBudget" using False b(2) Cons.prems(3) by auto
    then have "0 \<le> ?rem" by (simp add: seconds_def)
    from verifier_attempt [OF assms(1) this v] obtain ts where
      ts: "pr_trace p2 = pr_trace p1 @ map Discover ts @ (if isl x then [] else [VerifierReady])"
        "set ts \<subseteq> {?rem}" "length ts \<le> 1" "pr_now p1 \<le> pr_now p2" "pr_now p2 \<le> pr_now p1 + ?rem"
      by blast
    show ?thesis
    proof (cases x)
      case (Inr u)
      then have "r = Inr u" "p' = p2" using Cons.prems(5) s v False
        by (auto simp: run_simps Let_def)
      then show ?thesis using ts b rem Cons.prems Inr
        by (intro exI [of _ ts]) (auto simp: subset_iff)
    next
      case (Inl err)
      have "verifier_attempts H cancel issuer client start (attempt + 1) (Some err) delays p2 = (r, p')"
        using Cons.prems(5) s v False Inl by (auto simp: run_simps Let_def)
      moreover have "start \<le> pr_now p2" "pr_now p2 \<le> start + verifierRetryBudget"
        using ts b Cons.prems(3) by auto
      ultimately obtain ts' where ts':
        "pr_trace p' = pr_trace p2 @ map Discover ts' @ (if isl r then [] else [VerifierReady])"
        "length ts' \<le> length delays" "set ts' \<subseteq> {seconds 5 .. verifierRetryBudget}"
        "start \<le> pr_now p'" "pr_now p' \<le> start + verifierRetryBudget + D"
        using Cons.IH Cons.prems(1,2) by fastforce
      then show ?thesis using ts b rem Inl
        by (intro exI [of _ "ts @ ts'"]) (auto simp: subset_iff)
    qed
  qed
qed

lemma buildVerifier_bound:
  assumes "prompt H" "buildVerifierWithRetry H cancel issuer client p = (r, p')"
  shows "\<exists>ts. pr_trace p' = pr_trace p @ map Discover ts @ (if isl r then [] else [VerifierReady]) \<and>
    length ts \<le> 4 \<and> set ts \<subseteq> {seconds 5 .. seconds 60} \<and>
    pr_now p \<le> pr_now p' \<and> pr_now p' \<le> pr_now p + seconds 80"
proof -
  have "verifier_attempts H cancel issuer client (pr_now p) 0 None verifierRetryDelays p = (r, p')"
    using assms(2) by (simp add: buildVerifierWithRetry_def run_simps)
  then have "\<exists>ts. pr_trace p' = pr_trace p @ map Discover ts @ (if isl r then [] else [VerifierReady]) \<and>
    length ts \<le> length verifierRetryDelays \<and> set ts \<subseteq> {seconds 5 .. verifierRetryBudget} \<and>
    pr_now p \<le> pr_now p' \<and> pr_now p' \<le> pr_now p + verifierRetryBudget + seconds 20"
    by (intro verifier_attempts_bound [OF assms(1)])
       (auto simp: verifierRetryDelays_def verifierRetryBudget_def seconds_def)
  moreover have "length verifierRetryDelays = 4" "verifierRetryBudget = seconds 60"
    "pr_now p + seconds 60 + seconds 20 = pr_now p + seconds 80"
    by (simp_all add: verifierRetryDelays_def verifierRetryBudget_def seconds_def)
  ultimately show ?thesis by (simp only:)
qed

section \<open>The gateway\<close>

text \<open>No handler finds a dependency or a setting missing.\<close>

definition fully_wired :: "env \<Rightarrow> bool" where
  "fully_wired E \<longleftrightarrow> env_wired E DepQueries \<and> env_wired E DepRun \<and> env_wired E DepR2 \<and>
     env_wired E DepQueue \<and> env_wired E DepConfig \<and> env_wired E DepDelete \<and>
     env_APIBaseURL E \<noteq> [] \<and> env_MediaTokenSecret E \<noteq> [] \<and> env_WebhookSigningKey E \<noteq> []"

lemma gateway_wired: "api_complete cfg \<Longrightarrow> fully_wired (handler_env E (gateway_deps cfg))"
  by (auto simp: fully_wired_def handler_env_def gateway_deps_def api_complete_def)

lemma router_never_panics: "first_panic (router_parts (gateway_deps cfg)) = None"
  by (simp add: router_parts_def gateway_deps_def NewVideoHandler_def NewFeedHandler_def
      NewSearchHandler_def NewSocialHandler_def NewAccountHandler_def RateLimitConfig_validate_def
      webhookLimit_def authLimit_def minute_def)

lemma or_exit_run: "or_exit m k p = (case m p of (Inl _, p') \<Rightarrow> (Inl 1, p') | (Inr x, p') \<Rightarrow> k x p')"
  by (simp add: or_exit_def)

lemma or_exit_cases:
  assumes "or_exit m k p = (r, p')"
  obtains (failed) e where "m p = (Inl e, p')" "r = Inl 1"
    | (going) x p1 where "m p = (Inr x, p1)" "k x p1 = (r, p')"
  using assms by (auto simp: or_exit_run split: prod.splits sum.splits)

text \<open>What the constructors leave in the trace.\<close>

lemma NewSQLDB_trace:
  "NewSQLDB H dsn m i p = (r, p') \<Longrightarrow>
    pr_trace p' = pr_trace p \<or>
    pr_trace p' = pr_trace p @ OpenPool dsn m i # (if isl r then [ClosePool] else [])"
  "NewSQLDB H dsn m i p = (Inr u, p') \<Longrightarrow> pr_trace p' = pr_trace p @ [OpenPool dsn m i]"
  by (auto simp: NewSQLDB_def run_simps split: if_splits option.splits prod.splits)

lemma NewR2Client_trace:
  "NewR2Client H c p = (Inl e, p') \<Longrightarrow> p' = p"
  "NewR2Client H c p = (Inr u, p') \<Longrightarrow> pr_trace p' = pr_trace p @ [BuildR2 (r2_Endpoint c) (r2_Bucket c)]"
  by (auto simp: NewR2Client_def run_simps split: if_splits option.splits)

lemma NewAsynqClient_trace:
  "NewAsynqClient c p = (Inl e, p') \<Longrightarrow> p' = p"
  "NewAsynqClient c p = (Inr u, p') \<Longrightarrow> pr_trace p' = pr_trace p @ [OpenAsynq (rd_Addr c)]"
  by (auto simp: NewAsynqClient_def run_simps split: if_splits)

definition gateway_prefix :: "APIConfig \<Rightarrow> event list" where
  "gateway_prefix cfg = [OpenPool (ac_DatabaseURL cfg) APIPoolMaxConns 2,
     BuildR2 (ac_R2Endpoint cfg) (ac_R2Bucket cfg), OpenAsynq (ac_RedisAddr cfg)]"

definition shutdown :: "event list" where
  "shutdown = [Draining, ClosePool, CloseAsynq]"

lemma gateway_serve_trace:
  "gateway_serve H addr cfg p = (r, p') \<Longrightarrow>
    pr_trace p' = pr_trace p @ Listening addr cfg # (if isl r then [] else shutdown) \<and> r \<in> {Inl 1, Inr ()}"
  by (auto simp: gateway_serve_def router_never_panics shutdown_def run_simps split: option.splits)

definition no_listen :: "event list \<Rightarrow> bool" where
  "no_listen tr \<longleftrightarrow> (\<forall>a c. Listening a c \<notin> set tr)"

text \<open>Either the gateway exits with 1 and never listened, or everything was built first.\<close>

lemma gateway_main_trace:
  assumes "prompt H" "gateway_main H getenv p = (r, p')" "no_listen (pr_trace p)"
  shows "r = Inl 1 \<and> no_listen (pr_trace p') \<or>
    (\<exists>cfg addr ts. LoadAPI getenv = Inr cfg \<and> length ts \<le> 4 \<and> r \<in> {Inl 1, Inr ()} \<and>
      pr_trace p' = pr_trace p @ gateway_prefix cfg @ map Discover ts @
        [VerifierReady, Listening addr cfg] @ (if isl r then [] else shutdown))"
proof (cases "LoadAPI getenv")
  case (Inl e)
  then show ?thesis using assms(2,3) by (simp add: gateway_main_def or_exit_run run_simps)
next
  case (Inr cfg)
  let ?addr = "if getenv ''API_GATEWAY_ADDR'' = [] then defaultAddr else getenv ''API_GATEWAY_ADDR''"
  let ?r2 = "\<lparr>r2_AccountID = ac_R2AccountID cfg, r2_AccessKeyID = ac_R2AccessKeyID cfg,
     r2_SecretAccessKey = ac_R2SecretAccessKey cfg, r2_Bucket = ac_R2Bucket cfg,
     r2_Endpoint = ac_R2Endpoint cfg\<rparr>"
  let ?rd = "\<lparr>rd_Addr = ac_RedisAddr cfg, rd_Password = ac_RedisPassword cfg\<rparr>"
  have run: "or_exit (NewSQLDB H (ac_DatabaseURL cfg) APIPoolMaxConns 2) (\<lambda>_.
     or_exit (NewR2Client H ?r2) (\<lambda>_. or_exit (NewAsynqClient ?rd) (\<lambda>_.
     or_exit (buildVerifierWithRetry H None (ac_ZitadelIssuerURL cfg) (ac_ZitadelAPIClientID cfg)) (\<lambda>_.
     gateway_serve H ?addr cfg)))) p = (r, p')"
    using assms(2) by (simp add: gateway_main_def or_exit_run run_simps Inr Let_def)
  from run show ?thesis
  proof (cases rule: or_exit_cases)
    case (failed e)
    then show ?thesis using NewSQLDB_trace(1) [OF failed(1)] assms(3) by (auto simp: no_listen_def)
  next
    case (going u p1)
    note 1 = NewSQLDB_trace(2) [OF going(1)]
    from going(2) show ?thesis
    proof (cases rule: or_exit_cases)
      case (failed e)
      then show ?thesis using NewR2Client_trace(1) [OF failed(1)] 1 assms(3) by (auto simp: no_listen_def)
    next
      case (going u2 p2)
      note 2 = NewR2Client_trace(2) [OF going(1)]
      from going(2) show ?thesis
      proof (cases rule: or_exit_cases)
        case (failed e)
        then show ?thesis using NewAsynqClient_trace(1) [OF failed(1)] 1 2 assms(3)
          by (auto simp: no_listen_def)
      next
        case (going u3 p3)
        note 3 = NewAsynqClient_trace(2) [OF going(1)]
        from going(2) show ?thesis
        proof (cases rule: or_exit_cases)
          case (failed e)
          then show ?thesis using buildVerifier_bound [OF assms(1) failed(1)] 1 2 3 assms(3)
            by (auto simp: no_listen_def)
        next
          case (going u4 p4)
          from buildVerifier_bound [OF assms(1) going(1)] gateway_serve_trace [OF going(2)]
          show ?thesis using 1 2 3 Inr by (auto simp: gateway_prefix_def)
        qed
      qed
    qed
  qed
qed

text \<open>
  The life of a gateway started with an empty trace: it exits with 1 without having
  listened, or it listened with everything built, and when it ends without an error it
  drained the requests before it closed its clients.
\<close>

definition gateway_life :: "environment \<Rightarrow> (nat + unit) \<times> process \<Rightarrow> bool" where
  "gateway_life getenv out \<longleftrightarrow> (case out of (r, p) \<Rightarrow>
     r = Inl 1 \<and> no_listen (pr_trace p) \<or>
     (\<exists>cfg addr ts. LoadAPI getenv = Inr cfg \<and> (\<forall>E. fully_wired (handler_env E (gateway_deps cfg))) \<and>
       length ts \<le> 4 \<and> r \<in> {Inl 1, Inr ()} \<and>
       pr_trace p = gateway_prefix cfg @ map Discover ts @
         [VerifierReady, Listening addr cfg] @ (if isl r then [] else shutdown)))"

definition fresh :: "int \<Rightarrow> process" where
  "fresh t = \<lparr>pr_now = t, pr_trace = []\<rparr>"

lemma gateway_lives: "prompt H \<Longrightarrow> gateway_life getenv (gateway_main H getenv (fresh t))"
  using gateway_main_trace [of H getenv "fresh t"] gateway_wired [OF LoadAPI_complete]
  by (cases "gateway_main H getenv (fresh t)")
     (fastforce simp: gateway_life_def fresh_def no_listen_def)

section \<open>The worker\<close>

text \<open>Pools that are open.\<close>

fun open_pools :: "event list \<Rightarrow> int" where
  "open_pools [] = 0"
| "open_pools (ev # tr) = (case ev of OpenPool _ _ _ \<Rightarrow> 1 | ClosePool \<Rightarrow> - 1 | _ \<Rightarrow> 0) + open_pools tr"

lemma open_pools_append [simp]: "open_pools (xs @ ys) = open_pools xs + open_pools ys"
  by (induction xs) auto

lemma NewSQLDB_fails: "NewSQLDB H dsn m i p = (Inl e, p') \<Longrightarrow> open_pools (pr_trace p') = open_pools (pr_trace p)"
  using NewSQLDB_trace(1) by fastforce

lemma tryM_cases:
  assumes "tryM m h k p = (r, p')"
  obtains (failed) e p1 where "m p = (Inl e, p1)" "h e p1 = (r, p')"
    | (going) x p1 where "m p = (Inr x, p1)" "k x p1 = (r, p')"
  using assms by (cases "m p") (auto simp: tryM_def split: sum.splits)

definition worker_prefix :: "WorkerConfig \<Rightarrow> event list" where
  "worker_prefix cfg = [OpenPool (wc_WorkerDatabaseURL cfg) WorkerPoolMaxConns WorkerPoolMaxConns,
     BuildR2 (wc_R2Endpoint cfg) (wc_R2Bucket cfg), OpenAsynq (wc_RedisAddr cfg)]"

text \<open>A worker that cannot be built closes its pool.\<close>

lemma NewWorker_trace:
  assumes "NewWorker H True (Some cfg) p = (r, p')"
  shows "isl r \<and> open_pools (pr_trace p') = open_pools (pr_trace p) \<or>
    r = Inr cfg \<and> pr_trace p' = pr_trace p @ worker_prefix cfg"
proof -
  let ?r2 = "\<lparr>r2_AccountID = wc_R2AccountID cfg, r2_AccessKeyID = wc_R2AccessKeyID cfg,
     r2_SecretAccessKey = wc_R2SecretAccessKey cfg, r2_Bucket = wc_R2Bucket cfg,
     r2_Endpoint = wc_R2Endpoint cfg\<rparr>"
  let ?rd = "\<lparr>rd_Addr = wc_RedisAddr cfg, rd_Password = wc_RedisPassword cfg\<rparr>"
  from assms have "tryM (NewSQLDB H (wc_WorkerDatabaseURL cfg) WorkerPoolMaxConns WorkerPoolMaxConns)
     (\<lambda>err. throw (Errorf_tail ''NewWorker: open postgres pool'' err))
     (\<lambda>_. tryM (NewR2Client H ?r2)
       (\<lambda>err. bindM (emit ClosePool) (\<lambda>_. throw (Errorf_tail ''NewWorker: r2 client'' err)))
       (\<lambda>_. tryM (NewAsynqClient ?rd)
         (\<lambda>err. bindM (emit ClosePool) (\<lambda>_. throw (Errorf_tail ''NewWorker: asynq client'' err)))
         (\<lambda>_. ok cfg))) p = (r, p')" by (simp add: NewWorker_def)
  then show ?thesis
  proof (cases rule: tryM_cases)
    case (failed e p1)
    then show ?thesis using NewSQLDB_fails [OF failed(1)] by (auto simp: run_simps)
  next
    case (going u p1)
    note 1 = NewSQLDB_trace(2) [OF going(1)]
    from going(2) show ?thesis
    proof (cases rule: tryM_cases)
      case (failed e p2)
      then show ?thesis using NewR2Client_trace(1) [OF failed(1)] 1 by (auto simp: run_simps)
    next
      case (going u2 p2)
      note 2 = NewR2Client_trace(2) [OF going(1)]
      from going(2) show ?thesis
      proof (cases rule: tryM_cases)
        case (failed e p3)
        then show ?thesis using NewAsynqClient_trace(1) [OF failed(1)] 1 2 by (auto simp: run_simps)
      next
        case (going u3 p3)
        then show ?thesis using NewAsynqClient_trace(2) [OF going(1)] 1 2
          by (auto simp: run_simps worker_prefix_def)
      qed
    qed
  qed
qed

text \<open>
  The life of a worker: exit code 1 with no pool left open, or it consumed tasks, one
  at a time; it closes its clients when a signal ended the server.
\<close>

definition worker_life :: "environment \<Rightarrow> (nat + unit) \<times> process \<Rightarrow> bool" where
  "worker_life getenv out \<longleftrightarrow> (case out of (r, p) \<Rightarrow>
     r = Inl 1 \<and> open_pools (pr_trace p) = 0 \<or>
     (\<exists>cfg. LoadWorker getenv = Inr cfg \<and> worker_complete cfg \<and> r \<in> {Inl 0, Inl 2, Inr ()} \<and>
       pr_trace p = worker_prefix cfg @ Consuming 1 # (if isl r then [] else [CloseAsynq, ClosePool])))"

lemma Worker_run_trace:
  assumes "worker_complete cfg"
  shows "Worker_run H cfg p = (r, p') \<Longrightarrow> pr_trace p' = pr_trace p @ [Consuming 1]"
  using assms by (auto simp: Worker_run_def NewAsynqServer_def DefaultWorkerConcurrency_def
      worker_complete_def run_simps split: if_splits option.splits)

lemma worker_lives: "worker_life getenv (worker_main H getenv (fresh t))"
proof (cases "LoadWorker getenv")
  case (Inl e)
  then show ?thesis by (simp add: worker_main_def or_exit_run run_simps worker_life_def fresh_def)
next
  case (Inr cfg)
  note c = LoadWorker_complete [OF Inr]
  obtain r p where n: "NewWorker H True (Some cfg) (fresh t) = (r, p)" by force
  show ?thesis
  proof (cases r)
    case (Inl e)
    then show ?thesis using n NewWorker_trace [OF n] \<open>LoadWorker getenv = Inr cfg\<close>
      by (simp add: worker_main_def or_exit_run run_simps worker_life_def fresh_def)
  next
    case (Inr x)
    then have p: "x = cfg" "pr_trace p = worker_prefix cfg" using NewWorker_trace [OF n] by (auto simp: fresh_def)
    obtain r2 p2 where w: "Worker_run H cfg p = (r2, p2)" by force
    show ?thesis
      using n Inr p w Worker_run_trace [OF c w] c \<open>LoadWorker getenv = Inr cfg\<close>
      by (auto simp: worker_main_def or_exit_run run_simps worker_life_def Worker_Close_def split: sum.splits)
  qed
qed

section \<open>Concrete hosts\<close>

text \<open>Every call answers at once; or the issuer never does, and the deadline ends the call.\<close>

definition host0 :: host where
  "host0 = \<lparr>ho_open = (\<lambda>_. None), ho_ping = (\<lambda>_ _. (0, None)), ho_aws = None,
     ho_url = (\<lambda>_. Inr \<lparr>iu_Scheme = ''http'', iu_Hostname = ''auth'', iu_Port = []\<rparr>),
     ho_discover = (\<lambda>_ _ _ _. (0, None)), ho_listen = (\<lambda>_. None), ho_run = None\<rparr>"

definition hanging_issuer :: host where
  "hanging_issuer = host0\<lparr>ho_discover := (\<lambda>_ _ _ t. (t, Some (Opaque ''context deadline exceeded'')))\<rparr>"

definition settings :: environment where
  "settings name = (if name \<in> {''API_GATEWAY_ADDR'', ''MEDIA_TOKEN_TTL'', ''PRESIGN_UPLOAD_EXPIRY'',
     ''TRANSCODE_TIMEOUT'', ''RECONCILE_INTERVAL'', ''RECONCILE_BATCH'', ''RECONCILE_DRY_RUN''}
   then [] else ''x'')"

lemma hosts_prompt: "prompt host0" "prompt hanging_issuer"
  by (simp_all add: prompt_def host0_def hanging_issuer_def)

lemma hanging_run:
  "snd (buildVerifierWithRetry hanging_issuer None ''http://auth'' ''api'' (fresh 0)) =
     \<lparr>pr_now = seconds 65, pr_trace = [Discover (seconds 60)]\<rparr>"
  by (simp add: buildVerifierWithRetry_def verifierRetryDelays_def sleep_def NewZitadelVerifier_def
      zitadelFromIssuerURL_def hanging_issuer_def host0_def fresh_def run_simps verifierRetryBudget_def
      seconds_def)

lemma host0_serves:
  "fst (gateway_main host0 settings (fresh 0)) = Inr ()"
  "fst (worker_main host0 settings (fresh 0)) = Inr ()"
proof -
  obtain c where c: "LoadAPI settings = Inr c"
    using LoadAPI_loads [of settings] by (auto simp: duration_set_def settings_def api_required_def)
  show "fst (gateway_main host0 settings (fresh 0)) = Inr ()"
    using LoadAPI_complete [OF c]
    by (auto simp: gateway_main_def or_exit_run run_simps c NewSQLDB_def NewR2Client_def NewAsynqClient_def
        buildVerifierWithRetry_def verifierRetryDelays_def sleep_def NewZitadelVerifier_def
        zitadelFromIssuerURL_def host0_def fresh_def verifierRetryBudget_def seconds_def gateway_serve_def
        router_never_panics api_complete_def APIPoolMaxConns_def)
  obtain w where w: "LoadWorker settings = Inr w"
    using LoadWorker_loads [of settings] by (auto simp: duration_set_def settings_def envInt_def)
  show "fst (worker_main host0 settings (fresh 0)) = Inr ()"
    using LoadWorker_complete [OF w]
    by (auto simp: worker_main_def or_exit_run run_simps w NewWorker_def NewSQLDB_def NewR2Client_def
        NewAsynqClient_def Worker_run_def NewAsynqServer_def Worker_Close_def host0_def fresh_def
        worker_complete_def WorkerPoolMaxConns_def)
qed

end
