(* ===== verification/Sweeping.thy ===== *)
theory Sweeping
  imports Cleaning
begin

text \<open>
  The reconciliation sweep over time: what a tick enqueues, and the users it looks
  at when many are waiting.
\<close>

section \<open>What a listing returns\<close>

context step_rel
begin

lemma rel_tryM_value:
  assumes "rel m" "\<And>e. rel (h e)" "\<And>w x. fst (m w) = Inr x \<Longrightarrow> rel (k x)"
  shows "rel (tryM m h k)"
proof (rule relI)
  fix w
  have m: "R w (snd (m w))" using assms(1) by (rule relD)
  show "R w (snd (tryM m h k w))"
  proof (cases "fst (m w)")
    case (Inl e)
    then show ?thesis using R_trans [OF m relD [OF assms(2)]] by (simp add: tryM_run)
  next
    case (Inr x)
    then show ?thesis using R_trans [OF m relD [OF assms(3)]] by (simp add: tryM_run)
  qed
qed

end

lemma cap_keys_set: "set (fst (cap_keys m ks page)) \<subseteq> set ks \<union> set page"
  by (induction m ks page rule: cap_keys.induct) (auto simp: Let_def)

lemma list_loop_set:
  "fst (list_loop E p m ks pages w) = Inr found \<Longrightarrow> set found \<subseteq> set ks \<union> set (concat pages)"
proof (induction E p m ks pages arbitrary: w rule: list_loop.induct)
  case (1 E p m ks)
  then show ?case by (simp add: run_simps)
next
  case (2 E p m ks page pages)
  obtain ks' full where c: "cap_keys m ks page = (ks', full)" by force
  then have "set ks' \<subseteq> set ks \<union> set page" using cap_keys_set [of m ks page] by simp
  moreover from 2(2) c have "full \<and> found = ks' \<or>
      \<not> full \<and> fst (list_loop E p m ks' pages (snd (fault w))) = Inr found"
    by (auto simp: run_simps split: sum.splits if_splits)
  ultimately show ?case using 2(1) [OF c [symmetric]] by fastforce
qed

lemma ListObjectsByPrefix_prefix:
  assumes "fst (ListObjectsByPrefix E p m w) = Inr found" "k \<in> set found"
  shows "prefix_of p k"
proof -
  from assms(1) have "fst (list_loop E p m [] (list_pages p (w_objects w)) w) = Inr found"
    by (auto simp: ListObjectsByPrefix_def stored_def run_simps split: option.splits)
  from list_loop_set [OF this] assms(2) show ?thesis
    by (auto simp: concat_list_pages simp del: set_concat)
qed

section \<open>What a sweep enqueues\<close>

definition orphan_of :: "env \<Rightarrow> uuid \<Rightarrow> string \<Rightarrow> bool" where
  "orphan_of E u k \<longleftrightarrow>
     list_ex (\<lambda>root. prefix_of (root @ ''/'' @ env_uuid_String E u @ ''/'') k) reconcilePrefixes"

lemma list_prefixes_orphans:
  assumes "fst (list_prefixes E u roots ks w) = Inr found" "k \<in> set found"
    "set roots \<subseteq> set reconcilePrefixes" "\<forall>k \<in> set ks. orphan_of E u k"
  shows "orphan_of E u k"
  using assms
proof (induction roots arbitrary: ks w)
  case Nil
  then show ?case by (simp add: run_simps)
next
  case (Cons root roots)
  let ?p = "root @ ''/'' @ env_uuid_String E u @ ''/''"
  obtain more where more: "fst (ListObjectsByPrefix E ?p 0 w) = Inr more"
    "fst (list_prefixes E u roots (ks @ more) (snd (ListObjectsByPrefix E ?p 0 w))) = Inr found"
    using Cons.prems(1) by (auto simp: Let_def run_simps split: sum.splits)
  have "\<forall>k \<in> set more. orphan_of E u k"
    using ListObjectsByPrefix_prefix [OF more(1)] Cons.prems(3)
    by (auto simp: orphan_of_def list_ex_iff)
  then show ?case using Cons.IH [OF more(2)] Cons.prems by auto
qed

text \<open>The tables stay and every task added names objects of some of the given users.\<close>

definition sweeps_for :: "env \<Rightarrow> uuid set \<Rightarrow> queued \<Rightarrow> bool" where
  "sweeps_for E us q \<longleftrightarrow> (case q_task q of
      CleanupObjects keys \<Rightarrow> list_all (\<lambda>k. \<exists>u \<in> us. orphan_of E u k) keys
    | _ \<Rightarrow> False)"

definition swept :: "env \<Rightarrow> uuid set \<Rightarrow> world \<Rightarrow> world \<Rightarrow> bool" where
  "swept E us w w' \<longleftrightarrow> w_db w' = w_db w \<and>
     (\<exists>new. w_queue w' = w_queue w @ new \<and> list_all (sweeps_for E us) new)"

interpretation sw: step_rel "swept E us" for E us
  by unfold_locales (auto simp: swept_def)

lemma sw_quiet: "(\<And>w. w_db (snd (m w)) = w_db w \<and> w_queue (snd (m w)) = w_queue w) \<Longrightarrow> sw.rel E us m"
  by (simp add: sw.rel_def swept_def)

lemma sw_fault: "sw.rel E us fault"
  by (rule sw_quiet) simp

lemma sw_list: "sw.rel E us (ListObjectsByPrefix E' p m)"
proof -
  have "sw.rel E us (list_loop E' p m ks pages)" for ks pages
  proof (induction pages arbitrary: ks)
    case (Cons page pages)
    then show ?case unfolding list_loop.simps by (intro sw.rel_intros sw_fault)
  qed (simp add: sw.rel_ok)
  moreover have "sw.rel E us stored" by (rule sw_quiet) (simp add: stored_def)
  ultimately show ?thesis unfolding ListObjectsByPrefix_def by (intro sw.rel_intros)
qed

lemma sw_prefixes: "sw.rel E us (list_prefixes E' u roots ks)"
  by (induction roots arbitrary: ks) (auto simp: Let_def intro!: sw.rel_intros sw_list)

lemma sw_enqueue:
  assumes "u \<in> us" "\<forall>k \<in> set keys. orphan_of E u k"
  shows "sw.rel E us (EnqueueCleanupObjects keys)"
proof -
  have "sw.rel E us (client_Enqueue (CleanupObjects keys) d r)" for d r
    unfolding client_Enqueue_def
  proof (intro sw.rel_bindM sw_fault sw.relI)
    fix w
    show "swept E us w (snd (Inr (), w\<lparr>w_queue := w_queue w @
        [\<lparr>q_task = CleanupObjects keys, q_delay = d, q_max_retry = r\<rparr>]\<rparr>))"
      using assms by (auto simp: swept_def sweeps_for_def list_all_iff)
  qed
  then show ?thesis unfolding EnqueueCleanupObjects_def by (intro sw.rel_intros)
qed

lemma sw_user: "u \<in> us \<Longrightarrow> sw.rel E us (reconcile_user E dr u)"
  unfolding reconcile_user_def listUserOrphanKeys_def logged_def
  by (intro sw.rel_tryM_value sw_prefixes sw.rel_ok sw.rel_if sw.rel_tryM sw_enqueue)
     (auto intro: list_prefixes_orphans)

lemma sw_users: "set ids \<subseteq> us \<Longrightarrow> sw.rel E us (reconcile_users E dr ids)"
  by (induction ids) (auto intro!: sw.rel_intros sw_fault sw_user)

section \<open>The users of a batch\<close>

text \<open>Once a batch is full it stays the same: those deleted later come after it.\<close>

lemma sorted_filter_less:
  fixes f :: "'a \<Rightarrow> 'k::linorder"
  shows "sort_key f (filter (\<lambda>x. f x < t) xs) = takeWhile (\<lambda>x. f x < t) (sort_key f xs)"
proof -
  have "filter (\<lambda>x. f x < t) ys = takeWhile (\<lambda>x. f x < t) ys" if "sorted (map f ys)" for ys
    using that by (induction ys)
      (auto simp: filter_empty_conv takeWhile_eq_Nil_iff not_less, metis hd_in_set order_trans not_less)
  then show ?thesis by (simp add: filter_sort [symmetric])
qed

lemma take_takeWhile: "n \<le> length (takeWhile P xs) \<Longrightarrow> take n (takeWhile P xs) = take n xs"
  by (metis append_eq_conv_conj take_append takeWhile_dropWhile_id diff_is_0_eq take_0 append_Nil2)

definition tombstones :: "db \<Rightarrow> User list" where
  "tombstones d = sort_key (\<lambda>u. the (u_DeletedAt u))
     (filter (\<lambda>u. \<not> u_IsActive u \<and> u_DeletedAt u \<noteq> None) (users d))"

lemma eligible_tombstones:
  "eligible_users w = takeWhile (\<lambda>u. the (u_DeletedAt u) < pg_now w - hours24) (tombstones (w_db w))"
proof -
  have *: "filter (\<lambda>u. \<not> u_IsActive u \<and> (case u_DeletedAt u of None \<Rightarrow> False | Some t \<Rightarrow> t < pg_now w - hours24)) us
      = filter (\<lambda>u. the (u_DeletedAt u) < pg_now w - hours24)
          (filter (\<lambda>u. \<not> u_IsActive u \<and> u_DeletedAt u \<noteq> None) us)" for us
    by (induction us) (auto split: option.splits)
  show ?thesis by (simp only: eligible_users_def tombstones_def sorted_filter_less [symmetric] *)
qed

lemma batch_stays:
  assumes "n \<le> length (eligible_users w)" "w_db w' = w_db w" "w_clock w \<le> w_clock w'"
  shows "take n (eligible_users w') = take n (eligible_users w)"
proof -
  have mono: "pg_now w \<le> pg_now w'" using assms(3) by (simp add: pg_now_def zdiv_mono1)
  have *: "length (takeWhile P xs) \<le> length (takeWhile Q xs)" if "\<And>x. P x \<Longrightarrow> Q x"
    for P Q and xs :: "User list" using that by (induction xs) auto
  have "length (eligible_users w) \<le> length (eligible_users w')"
    unfolding eligible_tombstones assms(2) using mono by (intro *) auto
  then show ?thesis using assms(1,2) unfolding eligible_tombstones
    by (simp add: take_takeWhile)
qed

text \<open>A series of ticks at the given times.\<close>

fun ticks :: "env \<Rightarrow> int \<Rightarrow> bool \<Rightarrow> time list \<Rightarrow> world \<Rightarrow> world" where
  "ticks E n dr [] w = w"
| "ticks E n dr (t # ts) w = ticks E n dr ts (snd (HandleReconcileTick E (Some (n, dr)) (w\<lparr>w_clock := t\<rparr>)))"

definition batch_ids :: "nat \<Rightarrow> world \<Rightarrow> uuid set" where
  "batch_ids n w = u_ID ` set (take n (eligible_users w))"

lemma eligible_fault [simp]: "eligible_users (snd (fault w)) = eligible_users w"
  by (simp add: eligible_tombstones pg_now_def)

lemma tick_sweeps:
  assumes "0 < n" "n < 2 ^ 31"
  shows "swept E (batch_ids (nat n) w) w (snd (HandleReconcileTick E (Some (n, dr)) w))"
proof -
  have n: "signed_take_bit 31 n = n" using assms by (simp add: signed_take_bit_int_eq_self)
  have eq: "HandleReconcileTick E (Some (n, dr)) w = (if env_wired E DepQueries \<and> env_wired E DepR2 \<and>
      env_wired E DepAsynq \<and> env_wired E DepLogger
    then tryM (ListUsersEligibleForReconcile n) throw (reconcile_users E dr) w else ok () w)"
    using assms(1) by (simp add: HandleReconcileTick_def n)
  have q: "w_db (snd (ListUsersEligibleForReconcile n w)) = w_db w"
      "w_queue (snd (ListUsersEligibleForReconcile n w)) = w_queue w"
      "fst (ListUsersEligibleForReconcile n w) = Inr ids \<Longrightarrow> set ids = batch_ids (nat n) w" for ids
    using assms(1)
    by (auto simp: ListUsersEligibleForReconcile_def run_simps batch_ids_def split: sum.splits)
  have s: "swept E us w (snd (ListUsersEligibleForReconcile n w))" for us
    using q(1,2) by (simp add: swept_def)
  show ?thesis
  proof (cases "fst (ListUsersEligibleForReconcile n w)")
    case (Inl e)
    then show ?thesis using s by (simp add: eq run_simps sw.R_refl)
  next
    case (Inr ids)
    then show ?thesis using sw.R_trans [OF s sw.relD [OF sw_users]] q(3) [OF Inr]
      by (simp add: eq run_simps sw.R_refl)
  qed
qed

lemma ticks_sweep:
  assumes "0 < n" "n < 2 ^ 31" "nat n \<le> length (eligible_users w)" "list_all (\<lambda>t. w_clock w \<le> t) ts"
    "w_db w' = w_db w"
  shows "swept E (batch_ids (nat n) w) w' (ticks E n dr ts w')"
  using assms(4,5)
proof (induction ts arbitrary: w')
  case Nil
  then show ?case by (simp add: sw.R_refl)
next
  case (Cons t ts)
  let ?w = "w'\<lparr>w_clock := t\<rparr>"
  have "take (nat n) (eligible_users ?w) = take (nat n) (eligible_users w)"
    using Cons.prems by (intro batch_stays [OF assms(3)]) auto
  then have s: "swept E (batch_ids (nat n) w) ?w (snd (HandleReconcileTick E (Some (n, dr)) ?w))"
    using tick_sweeps [OF assms(1,2), of E ?w dr] by (simp add: batch_ids_def)
  then have "swept E (batch_ids (nat n) w) w' (snd (HandleReconcileTick E (Some (n, dr)) ?w))"
    by (simp add: swept_def)
  moreover have "swept E (batch_ids (nat n) w) (snd (HandleReconcileTick E (Some (n, dr)) ?w))
      (ticks E n dr (t # ts) w')"
    using Cons.IH [of "snd (HandleReconcileTick E (Some (n, dr)) ?w)"] Cons.prems s by (simp add: swept_def)
  ultimately show ?case by (rule sw.R_trans)
qed

section \<open>Two users waiting\<close>

text \<open>Two deleted users past the grace period, and an orphan of the one deleted later.\<close>

definition removed :: "User \<Rightarrow> time \<Rightarrow> User" where
  "removed u t = u\<lparr>u_IsActive := False, u_DeletedAt := Some t\<rparr>"

definition sweep_world :: world where
  "sweep_world = world0\<lparr>w_db := db0\<lparr>users := [removed bob 2000, removed alice 1000]\<rparr>,
     w_objects := [\<lparr>o_key = ''uploads/2/9'', o_size = Some 1, o_body = ''b''\<rparr>], w_clock := 2 * hours24\<rparr>"

lemma sweep_world_batch:
  "eligible_users sweep_world = [removed alice 1000, removed bob 2000]" "batch_ids 1 sweep_world = {1}"
  by (simp_all add: eligible_users_def batch_ids_def sweep_world_def world0_def db0_def removed_def
      alice_def bob_def user0_def pg_now_def hours24_def)

end
