(* ===== verification/Network.thy ===== *)
theory Network
  imports Lockout Refusals
begin

text \<open>
  The service as its users understand it, without tables: who has an account, which
  videos are on the shelf, who follows and likes whom and what, which remarks stand.
  \<^verbatim>\<open>act\<close> lists what anybody may do to this state, each action in one step and under the
  condition the service promises; \<^verbatim>\<open>net_of\<close> reads the state off the tables.
\<close>

section \<open>The abstract state\<close>

record member =
  m_Subject :: string
  m_Active :: bool
  m_Private :: bool

record remark =
  k_Author :: uuid
  k_Video :: uuid
  k_Parent :: "uuid option"

record net =
  people :: "uuid \<rightharpoonup> member"
  shelf :: "uuid \<rightharpoonup> uuid \<times> video_status"
  fans :: "(uuid \<times> uuid) set"
  hearts :: "(uuid \<times> uuid) set"
  remarks :: "uuid \<rightharpoonup> remark"

text \<open>The entries of a map that satisfy a predicate.\<close>

definition keep :: "('k \<Rightarrow> 'v \<Rightarrow> bool) \<Rightarrow> ('k \<rightharpoonup> 'v) \<Rightarrow> 'k \<rightharpoonup> 'v" where
  "keep Q m = (\<lambda>i. case m i of None \<Rightarrow> None | Some y \<Rightarrow> if Q i y then Some y else None)"

text \<open>A remark with everything said below it.\<close>

definition answers_to :: "(uuid \<rightharpoonup> remark) \<Rightarrow> (uuid \<times> uuid) set" where
  "answers_to rs = {(i, p). \<exists>r. rs i = Some r \<and> k_Parent r = Some p}"

definition thread :: "(uuid \<rightharpoonup> remark) \<Rightarrow> uuid set \<Rightarrow> uuid set" where
  "thread rs S = {i. \<exists>p \<in> S. (i, p) \<in> (answers_to rs)\<^sup>*}"

definition drop_threads :: "uuid set \<Rightarrow> net \<Rightarrow> net" where
  "drop_threads S n = n\<lparr>remarks := keep (\<lambda>i _. i \<notin> thread (remarks n) S) (remarks n)\<rparr>"

definition drop_videos :: "uuid set \<Rightarrow> net \<Rightarrow> net" where
  "drop_videos V n = n\<lparr>shelf := keep (\<lambda>v _. v \<notin> V) (shelf n),
     hearts := {(u, v) \<in> hearts n. v \<notin> V},
     remarks := keep (\<lambda>_ r. k_Video r \<notin> V) (remarks n)\<rparr>"

text \<open>The owner sees a video always, others when it is ready and its owner is active and open to them.\<close>

definition can_see :: "net \<Rightarrow> uuid \<Rightarrow> uuid \<Rightarrow> bool" where
  "can_see n u v \<longleftrightarrow> (\<exists>x s. shelf n v = Some (x, s) \<and>
     (x = u \<or> s = READY \<and> (\<exists>m. people n x = Some m \<and> m_Active m \<and> (m_Private m \<longrightarrow> (u, x) \<in> fans n))))"

text \<open>The subject and the privacy setting stay with the account; everything else goes.\<close>

definition leaves :: "uuid \<Rightarrow> member \<Rightarrow> net \<Rightarrow> net" where
  "leaves u m n =
    (let n1 = drop_videos {v. \<exists>s. shelf n v = Some (u, s)} n;
         n2 = drop_threads {i. \<exists>r. remarks n1 i = Some r \<and> k_Author r = u} n1
     in n2\<lparr>people := (people n)(u \<mapsto> m\<lparr>m_Active := False\<rparr>),
           fans := {(a, b) \<in> fans n. a \<noteq> u \<and> b \<noteq> u},
           hearts := {(a, v) \<in> hearts n1. a \<noteq> u}\<rparr>)"

datatype actor = Member uuid | Provider | Worker

inductive act :: "actor \<Rightarrow> net \<Rightarrow> net \<Rightarrow> bool" where
  like: "can_see n u v \<Longrightarrow> act (Member u) n (n\<lparr>hearts := insert (u, v) (hearts n)\<rparr>)"
| unlike: "can_see n u v \<Longrightarrow> act (Member u) n (n\<lparr>hearts := hearts n - {(u, v)}\<rparr>)"
| follow: "u \<noteq> t \<Longrightarrow> people n t = Some m \<Longrightarrow> m_Active m \<Longrightarrow>
    act (Member u) n (n\<lparr>fans := insert (u, t) (fans n)\<rparr>)"
| unfollow: "act (Member u) n (n\<lparr>fans := fans n - {(u, t)}\<rparr>)"
| say: "can_see n u v \<Longrightarrow> remarks n c = None \<Longrightarrow>
    act (Member u) n (n\<lparr>remarks := (remarks n)(c \<mapsto> \<lparr>k_Author = u, k_Video = v, k_Parent = None\<rparr>)\<rparr>)"
| answer: "can_see n u v \<Longrightarrow> remarks n c = None \<Longrightarrow> remarks n p = Some r \<Longrightarrow> k_Video r = v \<Longrightarrow>
    act (Member u) n (n\<lparr>remarks := (remarks n)(c \<mapsto> \<lparr>k_Author = u, k_Video = v, k_Parent = Some p\<rparr>)\<rparr>)"
| withdraw: "remarks n c = Some r \<Longrightarrow> k_Author r = u \<Longrightarrow> act (Member u) n (drop_threads {c} n)"
| upload: "shelf n v = None \<Longrightarrow> (u, PENDING_UPLOAD) \<notin> ran (shelf n) \<Longrightarrow>
    act (Member u) n (n\<lparr>shelf := (shelf n)(v \<mapsto> (u, PENDING_UPLOAD))\<rparr>)"
| confirm: "shelf n v = Some (u, PENDING_UPLOAD) \<Longrightarrow>
    act (Member u) n (n\<lparr>shelf := (shelf n)(v \<mapsto> (u, PROCESSING))\<rparr>)"
| remove: "shelf n v = Some (u, s) \<Longrightarrow> s \<noteq> DELETED \<Longrightarrow>
    act (Member u) n (n\<lparr>shelf := (shelf n)(v \<mapsto> (u, DELETED))\<rparr>)"
| profile: "people n u = Some m \<Longrightarrow>
    act (Member u) n (n\<lparr>people := (people n)(u \<mapsto> m\<lparr>m_Private := p\<rparr>)\<rparr>)"
| leave: "people n u = Some m \<Longrightarrow> act (Member u) n (leaves u m n)"
| expel: "people n u = Some m \<Longrightarrow> act Provider n (leaves u m n)"
| suspend: "people n u = Some m \<Longrightarrow>
    act Provider n (n\<lparr>people := (people n)(u \<mapsto> m\<lparr>m_Active := False\<rparr>)\<rparr>)"
| publish: "shelf n v = Some (x, PROCESSING) \<Longrightarrow>
    act Worker n (n\<lparr>shelf := (shelf n)(v \<mapsto> (x, READY))\<rparr>)"
| reject: "shelf n v = Some (x, s) \<Longrightarrow> s \<noteq> DELETED \<Longrightarrow>
    act Worker n (n\<lparr>shelf := (shelf n)(v \<mapsto> (x, FAILED))\<rparr>)"
| purge: "shelf n v = Some (x, DELETED) \<Longrightarrow> act Worker n (drop_videos {v} n)"

text \<open>A subject that comes for the first time gets an account.\<close>

inductive joins :: "string \<Rightarrow> net \<Rightarrow> net \<Rightarrow> bool" for s n where
  known: "joins s n n"
| fresh: "people n u = None \<Longrightarrow> \<forall>m \<in> ran (people n). m_Subject m \<noteq> s \<Longrightarrow>
    joins s n (n\<lparr>people := (people n)(u \<mapsto> \<lparr>m_Subject = s, m_Active = True, m_Private = False\<rparr>)\<rparr>)"

section \<open>Tables as maps\<close>

definition by_key :: "('r \<Rightarrow> 'k) \<Rightarrow> ('r \<Rightarrow> 'v) \<Rightarrow> 'r list \<Rightarrow> 'k \<rightharpoonup> 'v" where
  "by_key K V xs = map_of (map (\<lambda>x. (K x, V x)) xs)"

lemma by_key_Some: "by_key K V xs i = Some y \<Longrightarrow> \<exists>x \<in> set xs. K x = i \<and> V x = y"
  unfolding by_key_def by (drule map_of_SomeD) auto

lemma by_key_None: "by_key K V xs i = None \<longleftrightarrow> i \<notin> K ` set xs"
  by (auto simp: by_key_def map_of_eq_None_iff image_image)

lemma by_key_in: "distinct (map K xs) \<Longrightarrow> x \<in> set xs \<Longrightarrow> by_key K V xs (K x) = Some (V x)"
  by (auto simp: by_key_def o_def intro!: map_of_is_SomeI)

lemma by_key_eq:
  assumes "distinct (map K xs)" "\<And>x. x \<in> set xs \<Longrightarrow> m (K x) = Some (V x)"
    "\<And>i. i \<notin> K ` set xs \<Longrightarrow> m i = None"
  shows "by_key K V xs = m"
proof
  fix i
  show "by_key K V xs i = m i"
    using assms(2,3) by_key_in [OF assms(1), of _ V] by_key_None [of K V xs i]
    by (cases "i \<in> K ` set xs") auto
qed

lemma by_key_append: "K x \<notin> K ` set xs \<Longrightarrow> by_key K V (xs @ [x]) = (by_key K V xs)(K x \<mapsto> V x)"
  using by_key_None [of K V xs "K x"]
  by (auto simp: by_key_def map_add_def fun_eq_iff split: option.split)

lemma by_key_same:
  "(\<And>x. x \<in> set xs \<Longrightarrow> P x \<Longrightarrow> K (f x) = K x \<and> V (f x) = V x) \<Longrightarrow>
    by_key K V (update_rows P f xs) = by_key K V xs"
  by (auto simp: by_key_def update_rows_def intro!: arg_cong [where f = map_of])

lemma by_key_update:
  assumes "distinct (map K xs)" "x \<in> set xs" "P x" "\<And>y. y \<in> set xs \<Longrightarrow> P y \<Longrightarrow> K y = K x"
    "K (f x) = K x"
  shows "by_key K V (update_rows P f xs) = (by_key K V xs)(K x \<mapsto> V (f x))"
proof -
  have one: "y = x" if "y \<in> set xs" "P y" for y using key_inj [OF assms(1)] assms(2,4) that by blast
  have keys: "map K (update_rows P f xs) = map K xs"
    using one assms(5) by (auto simp: update_rows_def)
  show ?thesis
  proof (rule by_key_eq)
    show "distinct (map K (update_rows P f xs))" using keys assms(1) by simp
  next
    fix z assume "z \<in> set (update_rows P f xs)"
    then obtain y where y: "y \<in> set xs" "z = (if P y then f y else y)" by (auto simp: update_rows_set)
    show "((by_key K V xs)(K x \<mapsto> V (f x))) (K z) = Some (V z)"
    proof (cases "P y")
      case True
      then show ?thesis using one y assms(5) by auto
    next
      case False
      then have "K y \<noteq> K x" using key_inj [OF assms(1) y(1) assms(2)] assms(3) by blast
      then show ?thesis using False y by_key_in [OF assms(1) y(1)] by simp
    qed
  next
    fix i assume "i \<notin> K ` set (update_rows P f xs)"
    then have i: "i \<notin> K ` set xs" using keys by (metis list.set_map)
    then have "by_key K V xs i = None" by (simp add: by_key_None)
    then show "((by_key K V xs)(K x \<mapsto> V (f x))) i = None" using i assms(2) by auto
  qed
qed

lemma by_key_filter:
  assumes "distinct (map K xs)" "\<And>x. x \<in> set xs \<Longrightarrow> P x \<longleftrightarrow> Q (K x) (V x)"
  shows "by_key K V (filter P xs) = keep Q (by_key K V xs)"
proof (rule by_key_eq)
  show "distinct (map K (filter P xs))" using assms(1) by (rule distinct_map_filter)
next
  fix x assume "x \<in> set (filter P xs)"
  then show "keep Q (by_key K V xs) (K x) = Some (V x)"
    using assms(2) by_key_in [OF assms(1), of x V] by (auto simp: keep_def)
next
  fix i assume i: "i \<notin> K ` set (filter P xs)"
  show "keep Q (by_key K V xs) i = None"
  proof (cases "by_key K V xs i")
    case (Some y)
    then obtain x where "x \<in> set xs" "K x = i" "V x = y" using by_key_Some by metis
    then show ?thesis using i Some assms(2) by (auto simp: keep_def)
  qed (simp add: keep_def)
qed

text \<open>The abstract state of the tables.\<close>

definition member_of :: "User \<Rightarrow> member" where
  "member_of u = \<lparr>m_Subject = u_ZitadelID u, m_Active = u_IsActive u, m_Private = u_IsPrivate u\<rparr>"

definition remark_of :: "Comment \<Rightarrow> remark" where
  "remark_of c = \<lparr>k_Author = c_UserID c, k_Video = c_VideoID c, k_Parent = c_ParentID c\<rparr>"

definition net_of :: "db \<Rightarrow> net" where
  "net_of d = \<lparr>
     people = by_key u_ID member_of (users d),
     shelf = by_key v_ID (\<lambda>v. (v_UserID v, v_Status v)) (videos d),
     fans = (\<lambda>f. (f_FollowerID f, f_FolloweeID f)) ` set (follows d),
     hearts = (\<lambda>l. (l_UserID l, l_VideoID l)) ` set (likes d),
     remarks = by_key c_ID remark_of (comments d)\<rparr>"

section \<open>The cascade removes threads\<close>

definition parents :: "Comment list \<Rightarrow> (uuid \<times> uuid) set" where
  "parents cs = {(c_ID c, p) |c p. c \<in> set cs \<and> c_ParentID c = Some p}"

lemma parentsI: "c \<in> set cs \<Longrightarrow> c_ParentID c = Some p \<Longrightarrow> (c_ID c, p) \<in> parents cs"
  by (auto simp: parents_def)

lemma answers_parents:
  assumes "distinct (map c_ID cs)"
  shows "answers_to (by_key c_ID remark_of cs) = parents cs"
proof -
  have "by_key c_ID remark_of cs i = Some r \<longleftrightarrow> (\<exists>c \<in> set cs. c_ID c = i \<and> remark_of c = r)" for i r
    using by_key_Some by_key_in [OF assms, of _ remark_of] by fastforce
  then show ?thesis by (force simp: answers_to_def parents_def remark_of_def)
qed

text \<open>On its way up to a row that satisfies \<^verbatim>\<open>H\<close>, a path first runs through rows that do not.\<close>

lemma first_hit:
  assumes "distinct (map c_ID cs)" "c \<in> set cs"
  shows "(\<exists>h \<in> set cs. H h \<and> (c_ID c, c_ID h) \<in> (parents cs)\<^sup>*) \<longleftrightarrow>
    H c \<or> (\<exists>h \<in> set cs. H h \<and> (c_ID c, c_ID h) \<in> (parents (filter (\<lambda>c. \<not> H c) cs))\<^sup>+)"
    (is "?l \<longleftrightarrow> ?r")
proof
  let ?cs' = "filter (\<lambda>c. \<not> H c) cs"
  have step: "c \<in> set cs \<longrightarrow> c_ID c = j \<longrightarrow> H c \<or> (\<exists>h \<in> set cs. H h \<and> (j, c_ID h) \<in> (parents ?cs')\<^sup>+)"
    if "(j, c_ID h) \<in> (parents cs)\<^sup>*" "h \<in> set cs" "H h" for j c h
    using that
  proof (induction arbitrary: c rule: converse_rtrancl_induct)
    case base
    then show ?case using key_inj [OF assms(1)] by blast
  next
    case (step j k)
    show ?case
    proof (intro impI)
      assume c: "c \<in> set cs" "c_ID c = j"
      obtain x where x: "x \<in> set cs" "c_ID x = j" "c_ParentID x = Some k"
        using step.hyps(1) by (auto simp: parents_def)
      have "x = c" using key_inj [OF assms(1) x(1) c(1)] x(2) c(2) by simp
      show "H c \<or> (\<exists>h \<in> set cs. H h \<and> (j, c_ID h) \<in> (parents ?cs')\<^sup>+)"
      proof (cases "H c")
        case False
        then have jk: "(j, k) \<in> parents ?cs'" using x \<open>x = c\<close> by (auto simp: parents_def)
        have "k \<in> c_ID ` set cs"
        proof (cases rule: converse_rtranclE [OF step.hyps(2)])
          case 1
          then show ?thesis using step.prems by simp
        next
          case (2 l)
          then show ?thesis by (auto simp: parents_def)
        qed
        then obtain y where y: "y \<in> set cs" "c_ID y = k" by blast
        have "H y \<or> (\<exists>h \<in> set cs. H h \<and> (k, c_ID h) \<in> (parents ?cs')\<^sup>+)"
          using step.IH step.prems y by blast
        then show ?thesis using jk y by (blast intro: trancl_into_trancl2 r_into_trancl)
      qed simp
    qed
  qed
  assume ?l
  then show ?r using step assms(2) by blast
next
  have "parents (filter (\<lambda>c. \<not> H c) cs) \<subseteq> parents cs" by (auto simp: parents_def)
  then have "(parents (filter (\<lambda>c. \<not> H c) cs))\<^sup>+ \<subseteq> (parents cs)\<^sup>*"
    by (meson rtrancl_mono subset_trans trancl_into_rtrancl subrelI)
  moreover assume ?r
  ultimately show ?l using assms(2) by blast
qed

lemma child_of_parent: "child_of ids c \<longleftrightarrow> (\<exists>i \<in> set ids. c_ParentID c = Some i)"
  by (auto simp: child_of_def split: option.split)

lemma below_hits:
  assumes "distinct (map c_ID cs)" "c \<in> set cs"
  shows "(\<exists>i \<in> set ids. (c_ID c, i) \<in> (parents cs)\<^sup>+) \<longleftrightarrow>
    (\<exists>h \<in> set cs. child_of ids h \<and> (c_ID c, c_ID h) \<in> (parents cs)\<^sup>*)"
proof
  assume "\<exists>i \<in> set ids. (c_ID c, i) \<in> (parents cs)\<^sup>+"
  then obtain i k where "i \<in> set ids" "(c_ID c, k) \<in> (parents cs)\<^sup>*" "(k, i) \<in> parents cs"
    by (meson tranclD2)
  then show "\<exists>h \<in> set cs. child_of ids h \<and> (c_ID c, c_ID h) \<in> (parents cs)\<^sup>*"
    by (auto simp: parents_def child_of_parent)
next
  assume "\<exists>h \<in> set cs. child_of ids h \<and> (c_ID c, c_ID h) \<in> (parents cs)\<^sup>*"
  then obtain h i where h: "h \<in> set cs" "(c_ID c, c_ID h) \<in> (parents cs)\<^sup>*"
      "c_ParentID h = Some i" "i \<in> set ids"
    unfolding child_of_parent by blast
  then show "\<exists>i \<in> set ids. (c_ID c, i) \<in> (parents cs)\<^sup>+"
    using parentsI [OF h(1,3)] by (meson rtrancl_into_trancl1)
qed

lemma cascade_eq:
  "distinct (map c_ID cs) \<Longrightarrow>
    cascade ids cs = filter (\<lambda>c. \<not> (\<exists>i \<in> set ids. (c_ID c, i) \<in> (parents cs)\<^sup>+)) cs"
proof (induction ids cs rule: cascade.induct)
  case (1 ids cs)
  let ?hits = "filter (child_of ids) cs" and ?rest = "filter (\<lambda>c. \<not> child_of ids c) cs"
  have below: "(\<exists>i \<in> set ids. (c_ID c, i) \<in> (parents cs)\<^sup>+) \<longleftrightarrow>
      child_of ids c \<or> (\<exists>h \<in> set cs. child_of ids h \<and> (c_ID c, c_ID h) \<in> (parents ?rest)\<^sup>+)"
    if "c \<in> set cs" for c
    using below_hits [OF 1(2) that] first_hit [OF 1(2) that, of "child_of ids"] by simp
  show ?case
  proof (cases ?hits)
    case Nil
    then have "\<not> child_of ids h" if "h \<in> set cs" for h using that by (simp add: filter_empty_conv)
    then have "filter (\<lambda>c. \<not> (\<exists>i \<in> set ids. (c_ID c, i) \<in> (parents cs)\<^sup>+)) cs = cs"
      using below by (simp add: filter_id_conv)
    then show ?thesis using Nil by (subst cascade.simps) simp
  next
    case (Cons hit hits)
    have "cascade ids cs = cascade (map c_ID ?hits) ?rest"
      by (subst cascade.simps) (simp add: Cons)
    also have "\<dots> = filter (\<lambda>c. \<not> (\<exists>i \<in> set (map c_ID ?hits). (c_ID c, i) \<in> (parents ?rest)\<^sup>+)) ?rest"
      using 1(1) [OF Cons] 1(2) distinct_map_filter unfolding Cons by blast
    also have "\<dots> = filter (\<lambda>c. \<not> (\<exists>i \<in> set ids. (c_ID c, i) \<in> (parents cs)\<^sup>+)) cs"
      unfolding filter_filter by (rule filter_cong [OF refl]) (auto simp: below)
    finally show ?thesis .
  qed
qed

lemma delete_comments_where_eq:
  assumes "distinct (map c_ID cs)"
  shows "delete_comments_where P cs =
    filter (\<lambda>c. \<not> (\<exists>h \<in> set cs. P h \<and> (c_ID c, c_ID h) \<in> (parents cs)\<^sup>*)) cs"
proof -
  have "delete_comments_where P cs = filter (\<lambda>c. \<not> P c \<and>
      \<not> (\<exists>h \<in> set cs. P h \<and> (c_ID c, c_ID h) \<in> (parents (filter (\<lambda>c. \<not> P c) cs))\<^sup>+)) cs"
    using assms
    by (auto simp: delete_comments_where_def cascade_eq distinct_map_filter intro!: filter_cong)
  also have "\<dots> = filter (\<lambda>c. \<not> (\<exists>h \<in> set cs. P h \<and> (c_ID c, c_ID h) \<in> (parents cs)\<^sup>*)) cs"
    by (rule filter_cong [OF refl]) (simp add: first_hit [OF assms])
  finally show ?thesis .
qed

lemma net_delete_comments:
  assumes "distinct (map c_ID (comments d))"
  shows "net_of (delete_comments P d) = drop_threads (c_ID ` {c \<in> set (comments d). P c}) (net_of d)"
proof -
  have "by_key c_ID remark_of (delete_comments_where P (comments d)) =
      keep (\<lambda>i _. i \<notin> thread (by_key c_ID remark_of (comments d)) (c_ID ` {c \<in> set (comments d). P c}))
        (by_key c_ID remark_of (comments d))"
    unfolding delete_comments_where_eq [OF assms]
    by (rule by_key_filter [OF assms]) (auto simp: thread_def answers_parents [OF assms])
  then show ?thesis by (simp add: net_of_def delete_comments_def drop_threads_def)
qed

lemma net_delete_videos:
  assumes "constraints d"
  shows "net_of (delete_videos P d) = drop_videos (v_ID ` {v \<in> set (videos d). P v}) (net_of d)"
proof -
  have v: "distinct (map v_ID (videos d))" and c: "comments_ok d" "distinct (map c_ID (comments d))"
    using assms by (auto simp: constraints_def videos_ok_def comments_ok_def)
  have gone: "P x \<longleftrightarrow> v_ID x \<in> v_ID ` {v \<in> set (videos d). P v}" if "x \<in> set (videos d)" for x
    using that key_inj [OF v] by blast
  have "by_key v_ID (\<lambda>v. (v_UserID v, v_Status v)) (filter (\<lambda>v. \<not> P v) (videos d)) =
      keep (\<lambda>i _. i \<notin> v_ID ` {v \<in> set (videos d). P v}) (by_key v_ID (\<lambda>v. (v_UserID v, v_Status v)) (videos d))"
    by (rule by_key_filter [OF v]) (simp add: gone)
  moreover have "by_key c_ID remark_of (comments (delete_videos P d)) =
      keep (\<lambda>_ r. k_Video r \<notin> v_ID ` {v \<in> set (videos d). P v}) (by_key c_ID remark_of (comments d))"
    unfolding delete_videos_comments [OF c(1)] by (rule by_key_filter [OF c(2)]) (simp add: remark_of_def)
  moreover have "follows (delete_videos P d) = follows d" by (simp add: delete_videos_def Let_def)
  ultimately show ?thesis
    by (auto simp: net_of_def drop_videos_def delete_videos_videos delete_videos_likes)
qed

end
