(* ===== verification/Actions.thy ===== *)
theory Actions
  imports Network
begin

text \<open>
  What the gateway's handlers do, seen on the abstract state: each request is at most one
  action of \<^verbatim>\<open>act\<close>, by the user it is made for.  \<^verbatim>\<open>acts a d m\<close> says that of a
  computation started on the tables \<^verbatim>\<open>d\<close>; statements that the abstract state does not see
  satisfy \<^verbatim>\<open>nets.rel\<close>, another instance of \<^verbatim>\<open>table_rel\<close>.
\<close>

section \<open>What the abstract state does not see\<close>

definition same_net :: "world \<Rightarrow> world \<Rightarrow> bool" where
  "same_net w w' \<longleftrightarrow> supply_le w w' \<and>
     (constraints (w_db w) \<longrightarrow> constraints (w_db w') \<and> net_of (w_db w') = net_of (w_db w))"

interpretation nets: table_rel same_net
  by unfold_locales (auto simp: same_net_def supply_le_def)

definition on_net :: "(net \<Rightarrow> bool) \<Rightarrow> db \<Rightarrow> bool" where
  "on_net P d \<longleftrightarrow> constraints d \<and> P (net_of d)"

lemma nets_triple: "nets.rel m \<Longrightarrow> triple (on_net P) m (\<lambda>_. on_net P) (\<lambda>_. on_net P)"
  by (rule tripleI; drule nets.relD) (auto simp: same_net_def on_net_def)

lemma nets_exec:
  assumes "\<And>now d x d'. constraints d \<Longrightarrow> f now d = Inr (x, d') \<Longrightarrow> net_of d' = net_of d"
  shows "nets.rel (exec f)"
proof -
  have t: "triple (on_net ((=) N)) (exec f) (\<lambda>_. on_net ((=) N)) (\<lambda>_. on_net ((=) N))" for N
    by (rule triple_exec) (auto simp: on_net_def assms)
  have "constraints (w_db w) \<longrightarrow> constraints (w_db (snd (exec f w))) \<and>
      net_of (w_db (snd (exec f w))) = net_of (w_db w)" for w
    using tripleD [OF t [of "net_of (w_db w)"], of w] by (cases "fst (exec f w)") (auto simp: on_net_def)
  then show ?thesis using supplied_exec [of f]
    by (simp add: nets.rel_def supplied.rel_def same_net_def)
qed

lemma nets_exec_insert:
  assumes "\<And>i now d x d'. constraints d \<Longrightarrow> f i now d = Inr (x, d') \<Longrightarrow> net_of d' = net_of d"
  shows "nets.rel (exec_insert f)"
  unfolding exec_insert_def by (intro nets.rel_bindM nets.rel_new_uuid nets_exec) (rule assms)

abbreviation shelf_entry :: "Video \<Rightarrow> uuid \<times> video_status" where
  "shelf_entry v \<equiv> (v_UserID v, v_Status v)"

lemma net_update_videos:
  "(\<And>v. v \<in> set (videos d) \<Longrightarrow> P v \<Longrightarrow> v_ID (f v) = v_ID v \<and> shelf_entry (f v) = shelf_entry v) \<Longrightarrow>
    net_of (d\<lparr>videos := update_rows P f (videos d)\<rparr>) = net_of d"
  by (simp add: net_of_def by_key_same)

lemma nets_videos:
  assumes "\<And>now v. v_ID (f now v) = v_ID v \<and> shelf_entry (f now v) = shelf_entry v"
  shows "nets.rel (update_video_one P f)" "nets.rel (update_videos P f)"
  unfolding update_video_one_def update_videos_def
  by (rule nets_exec, use assms in \<open>auto intro!: net_update_videos split: option.splits\<close>)+

lemma nets_stmts:
  "nets.rel (UpdatePendingVideoR2Key i k)" "nets.rel (UpdatePendingVideoMetadata i t de)"
  "nets.rel (IncrementVideoRetry i)" "nets.rel (IncrementLikesCount i)" "nets.rel (DecrementLikesCount i)"
  "nets.rel (IncrementCommentsCount i)" "nets.rel (DecrementCommentsCountBy i m)"
  "nets.rel (IncrementViews i)"
  unfolding video_stmts by (rule nets_videos, simp)+

lemma nets_for_user:
  "nets.rel (DecrementLikesForUser u)" "nets.rel (DecrementCommentsForUser u)"
  unfolding DecrementLikesForUser_def DecrementCommentsForUser_def decrement_likes_for_def
    decrement_comments_for_def
  by (rule nets_exec, auto intro!: net_update_videos)+

lemma nets_notifications:
  "nets.rel (InsertNotification u a ty pl)" "nets.rel (DeleteNotificationsForUser u)"
  "nets.rel (DeleteNotificationsByActor u)" "nets.rel (MarkAllNotificationsRead u)"
  unfolding InsertNotification_def DeleteNotificationsForUser_def DeleteNotificationsByActor_def
    MarkAllNotificationsRead_def
  by (rule nets_exec nets_exec_insert, auto simp: net_of_def Let_def)+

lemma nets_social_notification: "nets.rel (insertSocialNotification u a t p)"
  unfolding insertSocialNotification_def by (intro nets.read_intros nets_notifications)

lemmas nets_intros = nets.read_intros nets_stmts nets_for_user nets_notifications nets_social_notification

section \<open>At most one action\<close>

definition did :: "actor \<Rightarrow> db \<Rightarrow> db \<Rightarrow> bool" where
  "did a d0 = on_net (\<lambda>n. n = net_of d0 \<or> act a (net_of d0) n)"

definition acts :: "actor \<Rightarrow> db \<Rightarrow> 'a io \<Rightarrow> bool" where
  "acts a d0 m \<longleftrightarrow> (constraints d0 \<longrightarrow> triple (\<lambda>d. d = d0) m (\<lambda>_. did a d0) (\<lambda>_. did a d0))"

definition finds :: "db \<Rightarrow> 'a io \<Rightarrow> ('a \<Rightarrow> bool) \<Rightarrow> bool" where
  "finds d0 m \<phi> \<longleftrightarrow> triple (\<lambda>d. d = d0) m (\<lambda>x d. d = d0 \<and> \<phi> x) (\<lambda>_ d. d = d0)"

lemma did_refl: "constraints d0 \<Longrightarrow> did a d0 d0"
  by (simp add: did_def on_net_def)

lemma acts_nets: "nets.rel m \<Longrightarrow> acts a d0 m"
  unfolding acts_def did_def
  by (intro impI, rule triple_weaken [OF nets_triple [where P = "\<lambda>n. n = net_of d0"]])
     (auto simp: on_net_def)

lemma acts_find:
  assumes "finds d0 m \<phi>" "\<And>e. acts a d0 (h e)"
    "\<And>x. constraints d0 \<Longrightarrow> \<phi> x \<Longrightarrow> acts a d0 (k x)"
  shows "acts a d0 (tryM m h k)"
  unfolding acts_def
proof
  assume c: "constraints d0"
  show "triple (\<lambda>d. d = d0) (tryM m h k) (\<lambda>_. did a d0) (\<lambda>_. did a d0)"
  proof (rule triple_tryM [OF assms(1) [unfolded finds_def]])
    show "triple (\<lambda>d. d = d0) (h e) (\<lambda>_. did a d0) (\<lambda>_. did a d0)" for e
      using assms(2) c by (simp add: acts_def)
    show "triple (\<lambda>d. d = d0 \<and> \<phi> x) (k x) (\<lambda>_. did a d0) (\<lambda>_. did a d0)" for x
      using assms(3) [of x] c by (cases "\<phi> x") (simp_all add: acts_def triple_def)
  qed
qed

lemma finds_same: "dbsame.rel m \<Longrightarrow> finds d0 m (\<lambda>_. True)"
  unfolding finds_def using triple_dbsame [of m "\<lambda>d. d = d0"] by simp

lemma acts_same:
  "dbsame.rel m \<Longrightarrow> (\<And>e. acts a d0 (h e)) \<Longrightarrow> (\<And>x. acts a d0 (k x)) \<Longrightarrow> acts a d0 (tryM m h k)"
  by (rule acts_find [OF finds_same])

lemma acts_reads:
  "reads.rel m \<Longrightarrow> (\<And>e. acts a d0 (h e)) \<Longrightarrow> (\<And>x. acts a d0 (k x)) \<Longrightarrow> acts a d0 (tryM m h k)"
  by (rule acts_same) (auto simp: reads.rel_def dbsame.rel_def unchanged_def)

lemma acts_then:
  assumes "acts a d0 m" "\<And>e. nets.rel (h e)" "\<And>x. nets.rel (k x)"
  shows "acts a d0 (tryM m h k)"
  using assms(1) unfolding acts_def did_def
  by (auto intro: triple_tryM nets_triple assms(2,3))

lemma acts_runTx: "acts a d0 fn \<Longrightarrow> acts a d0 (runTx fn)"
  unfolding acts_def
  by (intro impI triple_runTx) (auto intro: did_refl elim!: triple_weaken)

lemma acts_cases:
  "(b \<Longrightarrow> acts a d0 m) \<Longrightarrow> (\<not> b \<Longrightarrow> acts a d0 m') \<Longrightarrow> acts a d0 (if b then m else m')"
  "(x = None \<Longrightarrow> acts a d0 m) \<Longrightarrow> (\<And>y. x = Some y \<Longrightarrow> acts a d0 (f y)) \<Longrightarrow>
    acts a d0 (case x of None \<Rightarrow> m | Some y \<Rightarrow> f y)"
  by (cases x; simp)+

lemma acts_sum:
  "(\<And>e. x = Inl e \<Longrightarrow> acts a d0 (g e)) \<Longrightarrow> (\<And>y. x = Inr y \<Longrightarrow> acts a d0 (f y)) \<Longrightarrow>
    acts a d0 (case x of Inl e \<Rightarrow> g e | Inr y \<Rightarrow> f y)"
  by (cases x) auto

lemma acts_bound:
  "(\<And>e. x = BindError e \<Longrightarrow> acts a d0 (g e)) \<Longrightarrow> (\<And>y v. x = Bound y v \<Longrightarrow> acts a d0 (f y v)) \<Longrightarrow>
    acts a d0 (case x of BindError e \<Rightarrow> g e | Bound y v \<Rightarrow> f y v)"
  by (cases x) auto

lemma acts_prod: "(\<And>y z. x = (y, z) \<Longrightarrow> acts a d0 (f y z)) \<Longrightarrow> acts a d0 (case x of (y, z) \<Rightarrow> f y z)"
  by (cases x) auto

lemma acts_error: "acts a d0 (RespondError e)"
  by (intro acts_nets nets_intros)

lemma acts_throw: "acts a d0 (throw e)"
  by (intro acts_nets nets_intros)

text \<open>A statement that succeeds has done what the abstract action does.\<close>

lemma acts_exec:
  assumes "\<And>now x d'. constraints d0 \<Longrightarrow> f now d0 = Inr (x, d') \<Longrightarrow> constraints d' \<Longrightarrow>
    net_of d' = net_of d0 \<or> act a (net_of d0) (net_of d')"
  shows "acts a d0 (exec f)"
  unfolding acts_def did_def
  by (intro impI triple_exec) (use assms in \<open>auto simp: on_net_def\<close>)

lemma acts_exec_insert:
  assumes "\<And>i now x d'. constraints d0 \<Longrightarrow> f i now d0 = Inr (x, d') \<Longrightarrow> constraints d' \<Longrightarrow>
    net_of d' = net_of d0 \<or> act a (net_of d0) (net_of d')"
  shows "acts a d0 (exec_insert f)"
  unfolding acts_def did_def
  by (intro impI triple_exec_insert) (use assms in \<open>auto simp: on_net_def\<close>)

section \<open>The statements\<close>

lemma net_entries:
  "find_row (\<lambda>u. u_ID u = i) (users d) = Some u \<Longrightarrow> constraints d \<Longrightarrow> people (net_of d) i = Some (member_of u)"
  "find_row (\<lambda>v. v_ID v = i) (videos d) = Some v \<Longrightarrow> constraints d \<Longrightarrow>
    shelf (net_of d) i = Some (v_UserID v, v_Status v)"
  "c \<in> set (comments d) \<Longrightarrow> constraints d \<Longrightarrow> remarks (net_of d) (c_ID c) = Some (remark_of c)"
  by (auto simp: net_of_def constraints_def users_ok_def videos_ok_def comments_ok_def
      dest!: find_row_Some intro: by_key_in)

lemma net_can_see:
  assumes "constraints d" "find_row (\<lambda>v. v_ID v = i) (videos d) = Some v" "may_access d u v"
  shows "can_see (net_of d) u i"
proof -
  have s: "shelf (net_of d) i = Some (v_UserID v, v_Status v)" by (rule net_entries(2) [OF assms(2,1)])
  have f: "(a, b) \<in> fans (net_of d)" if "follows_edge d a b" for a b
    using that by (auto simp: net_of_def follows_edge_def list_ex_iff)
  show ?thesis
  proof (cases "v_UserID v = u")
    case False
    then have r: "v_Status v = READY" "owner_visible d (v_UserID v) u"
      using assms(3) by (auto simp: may_access_def)
    then obtain x where x: "find_row (\<lambda>x. u_ID x = v_UserID v) (users d) = Some x" "u_IsActive x"
      "u_IsPrivate x \<longrightarrow> follows_edge d u (v_UserID v)"
      by (auto simp: owner_visible_def split: option.splits)
    then show ?thesis
      using s r(1) net_entries(1) [OF x(1) assms(1)] f by (auto simp: can_see_def member_of_def)
  qed (use s in \<open>auto simp: can_see_def\<close>)
qed

lemma acts_InsertLike:
  assumes "can_see (net_of d) u i"
  shows "acts (Member u) d (InsertLike u i)"
  unfolding InsertLike_def
proof (rule acts_exec, rule disjI2)
  fix now x d'
  assume "(if list_ex (\<lambda>l. l_UserID l = u \<and> l_VideoID l = i) (likes d) then Inl (Sentinel ErrNoRows)
     else let l = \<lparr>l_UserID = u, l_VideoID = i, l_CreatedAt = now\<rparr>
          in Inr (l, d\<lparr>likes := likes d @ [l]\<rparr>)) = Inr (x, d')"
  then have "net_of d' = net_of d\<lparr>hearts := insert (u, i) (hearts (net_of d))\<rparr>"
    by (auto simp: net_of_def Let_def split: if_splits)
  then show "act (Member u) (net_of d) (net_of d')" using act.like [OF assms] by simp
qed

lemma acts_DeleteLike:
  assumes "can_see (net_of d) u i"
  shows "acts (Member u) d (DeleteLike u i)"
  unfolding DeleteLike_def
proof (rule acts_exec, rule disjI2)
  fix now x d'
  assume "(let P = \<lambda>l. l_UserID l = u \<and> l_VideoID l = i in
      case find_row P (likes d) of None \<Rightarrow> Inl (Sentinel ErrNoRows)
      | Some l \<Rightarrow> Inr (l, d\<lparr>likes := filter (\<lambda>l. \<not> P l) (likes d)\<rparr>)) = Inr (x, d')"
  then have "net_of d' = net_of d\<lparr>hearts := hearts (net_of d) - {(u, i)}\<rparr>"
    by (auto simp: net_of_def Let_def split: option.splits)
  then show "act (Member u) (net_of d) (net_of d')" using act.unlike [OF assms] by simp
qed

lemma acts_FollowUser:
  assumes "u \<noteq> t" "people (net_of d) t = Some m" "m_Active m"
  shows "acts (Member u) d (FollowUser u t)"
  unfolding FollowUser_def
proof (rule acts_exec)
  fix now x d'
  assume "(if follows_edge d u t then Inr ((), d)
     else Inr ((), d\<lparr>follows := follows d @
       [\<lparr>f_FollowerID = u, f_FolloweeID = t, f_CreatedAt = now\<rparr>]\<rparr>)) = Inr (x, d')"
  then have "net_of d' = net_of d \<or> net_of d' = net_of d\<lparr>fans := insert (u, t) (fans (net_of d))\<rparr>"
    by (auto simp: net_of_def split: if_splits)
  then show "net_of d' = net_of d \<or> act (Member u) (net_of d) (net_of d')"
    using act.follow [OF assms] by auto
qed

lemma acts_DeleteFollow: "acts (Member u) d (DeleteFollow u t)"
  unfolding DeleteFollow_def
proof (rule acts_exec, rule disjI2)
  fix now x d'
  assume "Inr ((), d\<lparr>follows := filter (\<lambda>f. \<not> (f_FollowerID f = u \<and> f_FolloweeID f = t)) (follows d)\<rparr>) =
    Inr (x, d')"
  then have "net_of d' = net_of d\<lparr>fans := fans (net_of d) - {(u, t)}\<rparr>"
    by (auto simp: net_of_def)
  then show "act (Member u) (net_of d) (net_of d')" using act.unfollow by simp
qed

lemma acts_InsertComment:
  assumes "can_see (net_of d) u i" "\<And>p. par = Some p \<Longrightarrow> \<exists>r. remarks (net_of d) p = Some r \<and> k_Video r = i"
  shows "acts (Member u) d (InsertComment i u par co)"
  unfolding InsertComment_def
proof (rule acts_exec_insert, rule disjI2)
  fix c now x d'
  assume ok: "constraints d'" and
    "(let c = \<lparr>c_ID = c, c_VideoID = i, c_UserID = u, c_ParentID = par, c_Content = co, c_CreatedAt = now\<rparr>
     in Inr (c, d\<lparr>comments := comments d @ [c]\<rparr>)) = Inr (x, d')"
  then have x: "d' = d\<lparr>comments := comments d @ [x]\<rparr>"
    "remark_of x = \<lparr>k_Author = u, k_Video = i, k_Parent = par\<rparr>" "c_ID x = c"
    by (auto simp: Let_def remark_of_def)
  have new: "c \<notin> c_ID ` set (comments d)" using ok x by (auto simp: constraints_def comments_ok_def)
  then have "net_of d' = net_of d\<lparr>remarks := (remarks (net_of d))(c \<mapsto> remark_of x)\<rparr>"
    by (simp add: x net_of_def by_key_append)
  moreover have "remarks (net_of d) c = None" using new by (simp add: net_of_def by_key_None)
  ultimately show "act (Member u) (net_of d) (net_of d')"
    using act.say [OF assms(1)] act.answer [OF assms(1)] assms(2) x(2) by (cases par) auto
qed

lemma acts_DeleteCommentByID:
  assumes "c \<in> set (comments d)" "c_UserID c = u"
  shows "acts (Member u) d (DeleteCommentByID (c_ID c))"
  unfolding DeleteCommentByID_def
proof (rule acts_exec, rule disjI2)
  fix now x d'
  assume ok: "constraints d" and "Inr ((), delete_comments (\<lambda>x. c_ID x = c_ID c) d) = Inr (x, d')"
  then have d': "d' = delete_comments (\<lambda>x. c_ID x = c_ID c) d" by simp
  have "c_ID ` {x \<in> set (comments d). c_ID x = c_ID c} = {c_ID c}" using assms(1) by auto
  moreover have "distinct (map c_ID (comments d))" using ok by (simp add: constraints_def comments_ok_def)
  ultimately have "net_of d' = drop_threads {c_ID c} (net_of d)"
    unfolding d' by (simp add: net_delete_comments)
  then show "act (Member u) (net_of d) (net_of d')"
    using act.withdraw [OF net_entries(3) [OF assms(1) ok], of u] assms(2) by (simp add: remark_of_def)
qed

lemma acts_InsertVideo: "acts (Member u) d (InsertVideo u k t de)"
  unfolding InsertVideo_def
proof (rule acts_exec_insert, rule disjI2)
  fix i now x d'
  assume ok: "constraints d'" and
    "(let v = \<lparr>v_ID = i, v_UserID = u, v_Title = t, v_Description = de, v_R2Key = k,
         v_HlsPrefix = None, v_ThumbnailKey = None, v_DurationSeconds = None,
         v_Status = PENDING_UPLOAD, v_RetryCount = 0, v_LikesCount = 0, v_ViewsCount = 0,
         v_CommentsCount = 0, v_CreatedAt = now, v_DeletedAt = None\<rparr>
       in Inr (v, d\<lparr>videos := videos d @ [v]\<rparr>)) = Inr (x, d')"
  then have x: "d' = d\<lparr>videos := videos d @ [x]\<rparr>" "v_ID x = i" "v_UserID x = u" "v_Status x = PENDING_UPLOAD"
    by (auto simp: Let_def)
  have new: "i \<notin> v_ID ` set (videos d)" using ok x by (auto simp: constraints_def videos_ok_def)
  have "net_of d' = net_of d\<lparr>shelf := (shelf (net_of d))(i \<mapsto> (u, PENDING_UPLOAD))\<rparr>"
    using new x by (simp add: net_of_def by_key_append)
  moreover have "shelf (net_of d) i = None" using new by (simp add: net_of_def by_key_None)
  moreover have "(u, PENDING_UPLOAD) \<notin> ran (shelf (net_of d))"
  proof
    assume "(u, PENDING_UPLOAD) \<in> ran (shelf (net_of d))"
    then obtain v where "v \<in> set (videos d)" "v_UserID v = u" "v_Status v = PENDING_UPLOAD"
      by (auto simp: net_of_def ran_def dest!: by_key_Some)
    then show False using ok x by (auto simp: constraints_def videos_ok_def)
  qed
  ultimately show "act (Member u) (net_of d) (net_of d')" using act.upload by simp
qed

text \<open>An update of the one row with a given identifier.\<close>

lemma net_update_one:
  assumes "constraints d" "v \<in> set (videos d)" "P v" "\<And>y. P y \<Longrightarrow> v_ID y = v_ID v" "v_ID (f v) = v_ID v"
  shows "net_of (d\<lparr>videos := update_rows P f (videos d)\<rparr>) =
    net_of d\<lparr>shelf := (shelf (net_of d))(v_ID v \<mapsto> shelf_entry (f v))\<rparr>"
proof -
  have "distinct (map v_ID (videos d))" using assms(1) by (simp add: constraints_def videos_ok_def)
  then have "by_key v_ID shelf_entry (update_rows P f (videos d)) =
      (by_key v_ID shelf_entry (videos d))(v_ID v \<mapsto> shelf_entry (f v))"
    using assms(2-5) by (intro by_key_update) blast+
  then show ?thesis by (simp add: net_of_def)
qed

lemma acts_update_video:
  assumes "\<And>now v. constraints d \<Longrightarrow> v \<in> set (videos d) \<Longrightarrow> P v \<Longrightarrow> shelf (net_of d) (v_ID v) = Some (shelf_entry v) \<Longrightarrow>
      constraints (d\<lparr>videos := update_rows P (f now) (videos d)\<rparr>) \<Longrightarrow>
      act a (net_of d) (net_of d\<lparr>shelf := (shelf (net_of d))(v_ID v \<mapsto> shelf_entry (f now v))\<rparr>)"
    "\<And>v. P v \<Longrightarrow> v_ID v = i" "\<And>now v. v_ID (f now v) = v_ID v"
  shows "acts a d (update_video_one P f)"
  unfolding update_video_one_def
proof (rule acts_exec, rule disjI2)
  fix now x d'
  assume ok: "constraints d" "constraints d'" and e: "(case find_row P (videos d) of
      None \<Rightarrow> Inl (Sentinel ErrNoRows)
    | Some v \<Rightarrow> Inr (f now v, d\<lparr>videos := update_rows P (f now) (videos d)\<rparr>)) = Inr (x, d')"
  then obtain v where v: "find_row P (videos d) = Some v" "d' = d\<lparr>videos := update_rows P (f now) (videos d)\<rparr>"
    by (auto split: option.splits)
  have v': "v \<in> set (videos d)" "P v" using find_row_Some [OF v(1)] by auto
  have "shelf (net_of d) (v_ID v) = Some (shelf_entry v)"
    using v' ok(1) by (auto simp: net_of_def constraints_def videos_ok_def intro: by_key_in)
  moreover have "net_of d' = net_of d\<lparr>shelf := (shelf (net_of d))(v_ID v \<mapsto> shelf_entry (f now v))\<rparr>"
    unfolding v(2) using ok(1) v' assms(2,3) by (intro net_update_one) auto
  ultimately show "act a (net_of d) (net_of d')" using assms(1) ok v' v(2) by simp
qed

lemma acts_ConfirmVideoProcessing: "acts (Member u) d (ConfirmVideoProcessing i u k)"
  unfolding ConfirmVideoProcessing_def
  by (rule acts_update_video [where i = i]) (auto intro: act.confirm)

lemma acts_MarkVideoDeleted:
  assumes "find_row (\<lambda>v. v_ID v = i) (videos d) = Some v" "v_Status v \<noteq> DELETED"
  shows "acts (Member u) d (MarkVideoDeleted i u)"
  unfolding MarkVideoDeleted_def
  by (rule acts_update_video [where i = i])
     (use assms net_entries(2) [OF assms(1)] in \<open>auto intro: act.remove\<close>)

lemma video_rows_ok: "constraints d \<Longrightarrow> v \<in> set (videos d) \<Longrightarrow> video_row_ok v"
  by (simp add: constraints_def videos_ok_def list_all_iff)

lemma acts_worker_videos:
  "acts Worker d (MarkVideoReady i h th du)" "acts Worker d (MarkVideoFailed i)"
proof -
  show "acts Worker d (MarkVideoReady i h th du)"
    unfolding MarkVideoReady_def by (rule acts_update_video [where i = i]) (auto intro: act.publish)
  show "acts Worker d (MarkVideoFailed i)" unfolding MarkVideoFailed_def
  proof (rule acts_update_video [where i = i])
    fix now v
    let ?d' = "d\<lparr>videos := update_rows (\<lambda>v. v_ID v = i) ((\<lambda>_ v. v\<lparr>v_Status := FAILED\<rparr>) now) (videos d)\<rparr>"
    assume v: "constraints d" "v \<in> set (videos d)" "v_ID v = i" "constraints ?d'"
      and s: "shelf (net_of d) (v_ID v) = Some (shelf_entry v)"
    have "v\<lparr>v_Status := FAILED\<rparr> \<in> set (videos ?d')" using v(2,3) by (auto simp: update_rows_set)
    then have "video_row_ok (v\<lparr>v_Status := FAILED\<rparr>)" by (rule video_rows_ok [OF v(4)])
    moreover have "video_row_ok v" by (rule video_rows_ok [OF v(1,2)])
    ultimately have "v_Status v \<noteq> DELETED" by (auto simp: video_row_ok_def)
    then show "act Worker (net_of d) (net_of d\<lparr>shelf := (shelf (net_of d))(v_ID v \<mapsto>
        shelf_entry ((\<lambda>_ v. v\<lparr>v_Status := FAILED\<rparr>) now v))\<rparr>)"
      using act.reject s by simp
  qed auto
qed

lemma acts_DeleteVideoRow:
  assumes "find_row (\<lambda>v. v_ID v = i) (videos d) = Some v" "v_Status v = DELETED"
  shows "acts Worker d (DeleteVideoRow i)"
  unfolding DeleteVideoRow_def
proof (rule acts_exec, rule disjI2)
  fix now x d'
  assume ok: "constraints d" and "Inr ((), delete_videos (\<lambda>v. v_ID v = i) d) = Inr (x, d')"
  then have d': "d' = delete_videos (\<lambda>v. v_ID v = i) d" by simp
  have "v_ID ` {v \<in> set (videos d). v_ID v = i} = {i}" using find_row_Some [OF assms(1)] by auto
  then have "net_of d' = drop_videos {i} (net_of d)"
    unfolding d' using ok by (simp add: net_delete_videos)
  then show "act Worker (net_of d) (net_of d')"
    using act.purge [of "net_of d" i] net_entries(2) [OF assms(1) ok] assms(2) by simp
qed

lemma net_update_user:
  assumes "constraints d" "find_row (\<lambda>u. u_ID u = i) (users d) = Some u" "\<And>x. u_ID (f x) = u_ID x"
  shows "net_of (d\<lparr>users := update_rows (\<lambda>u. u_ID u = i) f (users d)\<rparr>) =
    net_of d\<lparr>people := (people (net_of d))(i \<mapsto> member_of (f u))\<rparr>"
proof -
  have "u \<in> set (users d)" "u_ID u = i" using find_row_Some [OF assms(2)] by auto
  then show ?thesis
    using assms by_key_update [of u_ID "users d" u "\<lambda>u. u_ID u = i" f member_of]
    by (simp add: net_of_def constraints_def users_ok_def)
qed

lemma acts_update_user:
  assumes "\<And>now u. find_row (\<lambda>u. u_ID u = i) (users d) = Some u \<Longrightarrow> people (net_of d) i = Some (member_of u) \<Longrightarrow>
      act a (net_of d) (net_of d\<lparr>people := (people (net_of d))(i \<mapsto> member_of (f now u))\<rparr>)"
    "\<And>now x. u_ID (f now x) = u_ID x"
  shows "acts a d (update_user_one (\<lambda>u. u_ID u = i) f)"
  unfolding update_user_one_def
proof (rule acts_exec, rule disjI2)
  fix now x d'
  assume ok: "constraints d" and "(case find_row (\<lambda>u. u_ID u = i) (users d) of
      None \<Rightarrow> Inl (Sentinel ErrNoRows)
    | Some u \<Rightarrow> Inr (f now u, d\<lparr>users := update_rows (\<lambda>u. u_ID u = i) (f now) (users d)\<rparr>)) = Inr (x, d')"
  then obtain u where u: "find_row (\<lambda>u. u_ID u = i) (users d) = Some u"
    "d' = d\<lparr>users := update_rows (\<lambda>u. u_ID u = i) (f now) (users d)\<rparr>"
    by (auto split: option.splits)
  show "act a (net_of d) (net_of d')"
    unfolding u(2) net_update_user [OF ok u(1) assms(2)]
    using assms(1) [OF u(1) net_entries(1) [OF u(1) ok]] .
qed

lemma acts_UpdateUserProfile: "acts (Member u) d (UpdateUserProfile u dn bi av pr)"
  unfolding UpdateUserProfile_def
proof (rule acts_update_user)
  fix now r
  assume "people (net_of d) u = Some (member_of r)"
  from act.profile [OF this, of "case pr of None \<Rightarrow> u_IsPrivate r | Some b \<Rightarrow> b"]
  show "act (Member u) (net_of d) (net_of d\<lparr>people := (people (net_of d))(u \<mapsto> member_of
     ((\<lambda>_ u. u\<lparr>u_DisplayName := coalesce dn (u_DisplayName u), u_Bio := coalesce bi (u_Bio u),
        u_AvatarUrl := coalesce av (u_AvatarUrl u),
        u_IsPrivate := (case pr of None \<Rightarrow> u_IsPrivate u | Some b \<Rightarrow> b)\<rparr>) now r))\<rparr>)"
    by (simp add: member_of_def)
qed simp

lemma acts_DeactivateUser: "acts Provider d (DeactivateUser i)"
  unfolding DeactivateUser_def
proof (rule acts_update_user)
  fix now r
  assume "people (net_of d) i = Some (member_of r)"
  from act.suspend [OF this]
  show "act Provider (net_of d) (net_of d\<lparr>people := (people (net_of d))(i \<mapsto> member_of
     ((\<lambda>now u. u\<lparr>u_IsActive := False,
        u_DeletedAt := (case u_DeletedAt u of None \<Rightarrow> Some now | Some t \<Rightarrow> Some t)\<rparr>) now r))\<rparr>)"
    by (simp add: member_of_def)
qed simp

section \<open>The handlers\<close>

lemma finds_rows:
  "finds d (GetUserByID i) (\<lambda>u. find_row (\<lambda>u. u_ID u = i) (users d) = Some u)"
  "finds d (GetVideoByID i) (\<lambda>v. find_row (\<lambda>v. v_ID v = i) (videos d) = Some v)"
  "finds d (GetCommentByID i) (\<lambda>r. cr_comment r \<in> set (comments d) \<and> c_ID (cr_comment r) = i)"
  unfolding finds_def GetUserByID_def GetVideoByID_def GetCommentByID_def
  by (rule triple_query; auto simp: one_row_def join_author_def split: option.splits dest: find_row_Some)+

lemma finds_access:
  "finds d (assertVideoOwnerOrVisible u i)
     (\<lambda>v. find_row (\<lambda>v. v_ID v = i) (videos d) = Some v \<and> may_access d u v)"
  unfolding finds_def by (rule video_access_sound)

lemma parsed_user: "parseAuthVideoParam E q = Inr (u, i) \<Longrightarrow> req_user q = Some u"
  by (auto simp: parseAuthVideoParam_def split: option.splits)

lemmas acts_steps = acts_cases acts_sum acts_prod acts_bound acts_error acts_runTx

lemma acts_LikeVideo:
  assumes "req_user q = Some user"
  shows "acts (Member (u_ID user)) d (LikeVideo E q)"
proof -
  have t: "acts (Member (u_ID user)) d (like_tx E user i v)" if "can_see (net_of d) (u_ID user) i" for i v
    unfolding like_tx_def by (intro acts_then acts_InsertLike that nets_intros)
  show ?thesis
    unfolding LikeVideo_def not_configured_def
    by (intro acts_steps acts_find [OF finds_access] acts_then nets_intros)
      (use assms in \<open>auto dest!: parsed_user intro!: t intro: net_can_see\<close>)
qed

lemma acts_UnlikeVideo:
  assumes "req_user q = Some user"
  shows "acts (Member (u_ID user)) d (UnlikeVideo E q)"
proof -
  have t: "acts (Member (u_ID user)) d (unlike_tx user i)" if "can_see (net_of d) (u_ID user) i" for i
    unfolding unlike_tx_def by (intro acts_then acts_DeleteLike that nets_intros)
  show ?thesis
    unfolding UnlikeVideo_def not_configured_def
    by (intro acts_steps acts_find [OF finds_access] acts_then nets_intros)
      (use assms in \<open>auto dest!: parsed_user intro!: t intro: net_can_see\<close>)
qed

lemma acts_CreateComment:
  assumes "req_user q = Some user"
  shows "acts (Member (u_ID user)) d (CreateComment E q b)"
proof -
  have t: "acts (Member (u_ID user)) d (create_comment_tx E user i v co)"
    if "can_see (net_of d) (u_ID user) i" for i v co
    unfolding create_comment_tx_def by (intro acts_then acts_InsertComment that nets_intros) simp
  show ?thesis
    unfolding CreateComment_def not_configured_def
    by (intro acts_steps acts_find [OF finds_access] acts_then nets_intros)
      (use assms in \<open>auto dest!: parsed_user intro!: t intro: net_can_see\<close>)
qed

lemma acts_ReplyComment:
  assumes "req_user q = Some user"
  shows "acts (Member (u_ID user)) d (ReplyComment E q b)"
proof -
  have t: "acts (Member (u_ID user)) d (reply_tx E user c v co)"
    if "constraints d" "can_see (net_of d) (u_ID user) (c_VideoID c)" "c \<in> set (comments d)" for c v co
  proof -
    have "remarks (net_of d) (c_ID c) = Some (remark_of c)" "k_Video (remark_of c) = c_VideoID c"
      using net_entries(3) [OF that(3,1)] by (auto simp: remark_of_def)
    then show ?thesis
      unfolding reply_tx_def by (intro acts_then acts_InsertComment that(2) nets_intros) auto
  qed
  show ?thesis
    unfolding ReplyComment_def not_configured_def Let_def
    by (intro acts_steps acts_find [OF finds_rows(3)] acts_find [OF finds_access] acts_then nets_intros)
      (use assms in \<open>auto intro!: t intro: net_can_see\<close>)
qed

lemma acts_DeleteComment:
  assumes "req_user q = Some user"
  shows "acts (Member (u_ID user)) d (DeleteComment E q)"
proof -
  have t: "acts (Member (u_ID user)) d (delete_comment_tx (c_ID c) i)"
    if "c \<in> set (comments d)" "c_UserID c = u_ID user" for c i
    unfolding delete_comment_tx_def
    by (intro acts_same dbsame_reads acts_then acts_DeleteCommentByID that acts_nets nets_intros)
  show ?thesis
    unfolding DeleteComment_def not_configured_def Let_def
    by (intro acts_steps acts_find [OF finds_rows(3)] acts_then nets_intros)
      (use assms in \<open>auto intro!: t\<close>)
qed

lemma acts_FollowUser_handler:
  assumes "req_user q = Some user"
  shows "acts (Member (u_ID user)) d (UserHandler_FollowUser E q)"
proof -
  have t: "acts (Member (u_ID user)) d (FollowUser (u_ID user) t)"
    if "constraints d" "find_row (\<lambda>u. u_ID u = t) (users d) = Some u" "u_IsActive u" "u_ID user \<noteq> t" for u t
    by (rule acts_FollowUser [OF that(4) net_entries(1) [OF that(2,1)]]) (simp add: member_of_def that)
  show ?thesis
    unfolding UserHandler_FollowUser_def user_not_configured_def insertFollowNotification_def Let_def
    by (intro acts_steps acts_find [OF finds_rows(1)] acts_then nets_intros)
      (use assms in \<open>auto intro!: t\<close>)
qed

lemma acts_UnfollowUser:
  assumes "req_user q = Some user"
  shows "acts (Member (u_ID user)) d (UnfollowUser E q)"
  unfolding UnfollowUser_def user_not_configured_def
  by (intro acts_steps acts_then nets_intros) (use assms in \<open>auto intro!: acts_DeleteFollow\<close>)

lemma acts_UpdateMe:
  assumes "req_user q = Some user"
  shows "acts (Member (u_ID user)) d (UpdateMe q b)"
  unfolding UpdateMe_def
  by (intro acts_steps acts_then nets_intros) (use assms in \<open>auto intro!: acts_UpdateUserProfile\<close>)

lemma acts_UploadIntent:
  assumes "req_user q = Some user"
  shows "acts (Member (u_ID user)) d (UploadIntent E q b)"
proof -
  have c: "acts (Member (u_ID user)) d (create_pending E user t de)" for t de
    unfolding create_pending_def bindM_def Let_def
    by (intro acts_same dbsame_new_uuid acts_then acts_InsertVideo acts_nets nets_intros)
  have r: "nets.rel (reuse_pending E user v t de)" for v t de
    unfolding reuse_pending_def Let_def by (intro nets_intros)
  have p: "acts (Member (u_ID user)) d (pending_for E user t de)" for t de
    unfolding pending_for_def
    by (intro acts_same dbsame_reads acts_steps c acts_nets r nets_intros)
  show ?thesis
    unfolding UploadIntent_def Let_def
    by (intro acts_steps acts_then nets_intros) (use assms in \<open>auto intro!: p\<close>)
qed

lemma acts_ConfirmUpload:
  assumes "req_user q = Some user"
  shows "acts (Member (u_ID user)) d (ConfirmUpload E q b)"
proof -
  have c: "acts (Member (u_ID user)) d (tryM (ConfirmVideoProcessing i (v_UserID v) k) h g)"
    if "\<not> v_UserID v \<noteq> u_ID user" "\<And>e. nets.rel (h e)" "\<And>x. nets.rel (g x)" for i k v h and g :: "Video \<Rightarrow> Video io"
  proof -
    have "v_UserID v = u_ID user" using that(1) by simp
    then show ?thesis using acts_then [OF acts_ConfirmVideoProcessing that(2,3)] by simp
  qed
  have t: "acts (Member (u_ID user)) d (confirm_tx E user i k)" for i k
    unfolding confirm_tx_def Let_def
    by (intro c acts_reads acts_steps acts_throw reads.read_intros nets_intros)
  show ?thesis
    unfolding ConfirmUpload_def Let_def
    by (intro acts_steps acts_then nets_intros) (use assms in \<open>auto intro!: t\<close>)
qed

lemma acts_DeleteVideo:
  assumes "req_user q = Some user"
  shows "acts (Member (u_ID user)) d (DeleteVideo E q)"
  unfolding DeleteVideo_def video_not_configured_def
  by (intro acts_steps acts_find [OF finds_rows(2)] acts_then nets_intros acts_nets [OF nets.rel_write])
    (use assms in \<open>auto dest!: parsed_user intro!: acts_MarkVideoDeleted\<close>)

section \<open>Account deletion\<close>

definition becomes :: "net \<Rightarrow> (net \<Rightarrow> net) \<Rightarrow> 'a io \<Rightarrow> bool" where
  "becomes n f m \<longleftrightarrow> triple (on_net ((=) n)) m (\<lambda>_. on_net ((=) (f n))) (\<lambda>_ _. True)"

lemma becomes_exec:
  "(\<And>d. constraints d \<Longrightarrow> net_of d = n \<Longrightarrow> net_of (g d) = f n) \<Longrightarrow> becomes n f (exec (\<lambda>_ d. Inr ((), g d)))"
  unfolding becomes_def by (rule triple_exec) (auto simp: on_net_def)

lemma becomes_deletes:
  "becomes n (\<lambda>n. drop_videos {v. \<exists>s. shelf n v = Some (u, s)} n) (DeleteVideosByUser u)"
  "becomes n (\<lambda>n. n\<lparr>fans := {(a, b) \<in> fans n. a \<noteq> u}\<rparr>) (DeleteFollowsByFollower u)"
  "becomes n (\<lambda>n. n\<lparr>fans := {(a, b) \<in> fans n. b \<noteq> u}\<rparr>) (DeleteFollowsByFollowee u)"
  "becomes n (\<lambda>n. n\<lparr>hearts := {(a, v) \<in> hearts n. a \<noteq> u}\<rparr>) (DeleteLikesByUser u)"
  "becomes n (\<lambda>n. drop_threads {i. \<exists>r. remarks n i = Some r \<and> k_Author r = u} n) (DeleteCommentsByUser u)"
proof -
  have v: "v_ID ` {v \<in> set (videos d). v_UserID v = u} = {v. \<exists>s. shelf (net_of d) v = Some (u, s)}"
    if "constraints d" for d
  proof -
    have "distinct (map v_ID (videos d))" using that by (simp add: constraints_def videos_ok_def)
    from by_key_in [OF this, where V = shelf_entry] show ?thesis
      by (force simp: net_of_def dest!: by_key_Some)
  qed
  have c: "c_ID ` {c \<in> set (comments d). c_UserID c = u} = {i. \<exists>r. remarks (net_of d) i = Some r \<and> k_Author r = u}"
    "distinct (map c_ID (comments d))" if "constraints d" for d
  proof -
    show dist: "distinct (map c_ID (comments d))" using that by (simp add: constraints_def comments_ok_def)
    from by_key_in [OF dist, where V = remark_of]
    show "c_ID ` {c \<in> set (comments d). c_UserID c = u} = {i. \<exists>r. remarks (net_of d) i = Some r \<and> k_Author r = u}"
      by (force simp: net_of_def remark_of_def dest!: by_key_Some)
  qed
  show "becomes n (\<lambda>n. drop_videos {v. \<exists>s. shelf n v = Some (u, s)} n) (DeleteVideosByUser u)"
    unfolding DeleteVideosByUser_def by (rule becomes_exec) (simp add: net_delete_videos v)
  show "becomes n (\<lambda>n. drop_threads {i. \<exists>r. remarks n i = Some r \<and> k_Author r = u} n) (DeleteCommentsByUser u)"
    unfolding DeleteCommentsByUser_def by (rule becomes_exec) (simp add: net_delete_comments c)
qed (unfold DeleteFollowsByFollower_def DeleteFollowsByFollowee_def DeleteLikesByUser_def,
  (rule becomes_exec, auto simp: net_of_def)+)

lemma becomes_tombstone:
  "triple (on_net ((=) n)) (TombstoneUser E u)
     (\<lambda>_. on_net (\<lambda>n'. \<exists>m. people n u = Some m \<and> n' = n\<lparr>people := (people n)(u \<mapsto> m\<lparr>m_Active := False\<rparr>)\<rparr>))
     (\<lambda>_ _. True)"
  unfolding TombstoneUser_def
proof (rule triple_update_user_one)
  fix now d r
  let ?f = "\<lambda>u. u\<lparr>u_IsActive := False, u_DeletedAt := Some now,
        u_Username := ''deleted_'' @ env_uuid_String E (u_ID u),
        u_DisplayName := None, u_Bio := None, u_AvatarUrl := None\<rparr>"
  assume d: "on_net ((=) n) d" "find_row (\<lambda>r. u_ID r = u) (users d) = Some r"
    and ok: "constraints (d\<lparr>users := update_rows (\<lambda>r. u_ID r = u) ?f (users d)\<rparr>)"
  have n: "constraints d" "n = net_of d" using d(1) by (auto simp: on_net_def)
  have "net_of (d\<lparr>users := update_rows (\<lambda>r. u_ID r = u) ?f (users d)\<rparr>) =
      n\<lparr>people := (people n)(u \<mapsto> member_of (?f r))\<rparr>"
    unfolding n(2) by (rule net_update_user [OF n(1) d(2)]) simp
  moreover have "people n u = Some (member_of r)" unfolding n(2) by (rule net_entries(1) [OF d(2) n(1)])
  moreover have "member_of (?f r) = (member_of r)\<lparr>m_Active := False\<rparr>" by (simp add: member_of_def)
  ultimately show "on_net (\<lambda>n'. \<exists>m. people n u = Some m \<and> n' = n\<lparr>people := (people n)(u \<mapsto> m\<lparr>m_Active := False\<rparr>)\<rparr>)
      (d\<lparr>users := update_rows (\<lambda>r. u_ID r = u) ?f (users d)\<rparr>)"
    using ok by (simp add: on_net_def)
qed simp

lemma delete_user_tx_leaves:
  "triple (on_net ((=) n)) (delete_user_tx E u)
     (\<lambda>_. on_net (\<lambda>n'. \<exists>m. people n u = Some m \<and> n' = leaves u m n)) (\<lambda>_ _. True)"
proof -
  note t = triple_tryM [OF _ triple_any_error]
  note b = becomes_deletes [unfolded becomes_def]
  have s: "triple (on_net P) m (\<lambda>_. on_net P) (\<lambda>_ _. True)" if "nets.rel m" for P and m :: "'x io"
    by (rule triple_weaken [OF nets_triple [OF that]]) auto
  show ?thesis
    unfolding delete_user_tx_def Let_def
    apply (rule t, rule s, rule nets.rel_reads)
    apply (rule t, rule s, rule nets_for_user)
    apply (rule t, rule s, rule nets_for_user)
    apply (rule t, rule b)
    apply (rule t, rule b)
    apply (rule t, rule b)
    apply (rule t, rule b)
    apply (rule t, rule b)
    apply (rule t, rule s, rule nets_notifications)
    apply (rule t, rule s, rule nets_notifications)
    apply (rule triple_tryM, rule becomes_tombstone)
     apply (intro triple_if triple_any_error)
    apply (rule triple_ok)
    apply (auto simp: on_net_def leaves_def drop_videos_def drop_threads_def Let_def)
    done
qed

lemma acts_deleteUserData:
  assumes "\<And>n m. people n u = Some m \<Longrightarrow> act a n (leaves u m n)"
  shows "acts a d (deleteUserData E u)"
proof -
  have "acts a d (runTx (delete_user_tx E u))"
    unfolding acts_def
  proof (intro impI triple_runTx)
    assume "constraints d"
    then show "triple (\<lambda>x. x = d) (delete_user_tx E u) (\<lambda>_. did a d) (\<lambda>_ _. True)"
      by (intro triple_weaken [OF delete_user_tx_leaves [of "net_of d"]])
         (auto simp: on_net_def did_def intro: assms)
  qed (simp add: did_refl)
  then show ?thesis
    unfolding deleteUserData_def collectUserR2Keys_def by (intro acts_then nets_intros)
qed

lemma acts_DeleteMe:
  assumes "req_user q = Some user"
  shows "acts (Member (u_ID user)) d (DeleteMe E q)"
  unfolding DeleteMe_def
  by (intro acts_steps acts_then nets_intros acts_deleteUserData) (use assms in \<open>auto intro: act.leave\<close>)

lemma acts_webhook: "acts Provider d (WebhookHandler_Handle E raw evt q)"
proof -
  have u: "acts Provider d (handleUserDeactivated s)" for s
    unfolding handleUserDeactivated_def lookupUserIDByZitadelID_def processed_def
    by (intro acts_reads acts_steps acts_then acts_DeactivateUser acts_nets reads.read_intros nets_intros)
  have r: "acts Provider d (handleUserRemoved E s)" for s
    unfolding handleUserRemoved_def lookupUserIDByZitadelID_def processed_def DeleteUserData_def
    by (intro acts_reads acts_steps acts_then acts_deleteUserData acts_throw act.expel
        acts_nets reads.read_intros nets_intros)
  show ?thesis
    unfolding WebhookHandler_Handle_def Let_def
    by (intro acts_reads acts_steps u r reads.read_intros)
qed

end
