(* ===== verification/Service.thy ===== *)
theory Service
  imports Actions
begin

text \<open>
  The refinement: one request is at most a joining and one action of the user its token
  names, or one of the identity provider; a task of the worker is actions of the worker; so
  every run of the system is a run of the abstract service.
\<close>

section \<open>Routes\<close>

fun from_provider :: "route \<Rightarrow> bool" where
  "from_provider (WebhookRoute _ _) = True"
| "from_provider _ = False"

lemma acts_route_handler:
  assumes "req_user q = Some user" "\<not> from_provider r"
  shows "acts (Member (u_ID user)) d (route_handler E r q)"
proof (cases "read_only r")
  case True
  then show ?thesis by (cases r) (simp_all add: acts_nets nets.rel_reading_handlers)
next
  case False
  have "nets.rel (TrackView E q)" "nets.rel (MarkAllRead E q)"
    unfolding TrackView_def MarkAllRead_def not_configured_def notification_not_configured_def Let_def
    by (intro nets_intros)+
  then show ?thesis
    using False assms
    by (cases r)
      (simp_all add: acts_nets acts_LikeVideo acts_UnlikeVideo acts_CreateComment acts_ReplyComment
        acts_DeleteComment acts_FollowUser_handler acts_UnfollowUser acts_UpdateMe acts_UploadIntent
        acts_ConfirmUpload acts_DeleteVideo acts_DeleteMe)
qed

section \<open>The user of a token\<close>

definition subject_of :: "env \<Rightarrow> request \<Rightarrow> string option" where
  "subject_of E q =
    (case extractBearer q of
       Inl _ \<Rightarrow> None
     | Inr t \<Rightarrow> (case env_CheckToken E t of Inl _ \<Rightarrow> None | Inr s \<Rightarrow> if s = [] then None else Some s))"

lemma no_subject_None: "no_subject E q \<longleftrightarrow> subject_of E q = None"
  by (auto simp: no_subject_def subject_of_def split: sum.split)

definition joined :: "string \<Rightarrow> db \<Rightarrow> db \<Rightarrow> bool" where
  "joined s d0 = on_net (joins s (net_of d0))"

lemma joined_refl: "constraints d \<Longrightarrow> joined s d d"
  by (simp add: joined_def on_net_def joins.known)

lemma joined_user:
  "u \<in> set (users d) \<Longrightarrow> constraints d \<Longrightarrow> people (net_of d) (u_ID u) = Some (member_of u)"
  by (auto simp: net_of_def constraints_def users_ok_def intro: by_key_in)

lemma CreateUser_joins:
  "triple (\<lambda>d. d = d0) (CreateUser s n dn)
     (\<lambda>u d. joined s d0 d \<and> u \<in> set (users d) \<and> u_ZitadelID u = s) (\<lambda>_ d. d = d0)"
  unfolding CreateUser_def
proof (rule triple_exec_insert, goal_cases)
  case (1 i now d u d')
  then have new: "s \<notin> u_ZitadelID ` set (users d)" and u: "u_ID u = i"
    "member_of u = \<lparr>m_Subject = s, m_Active = True, m_Private = False\<rparr>" "d' = d\<lparr>users := users d @ [u]\<rparr>"
    by (auto simp: Let_def member_of_def split: if_splits)
  have i: "i \<notin> u_ID ` set (users d)" using 1(3) u(1,3) by (auto simp: constraints_def users_ok_def)
  have "net_of d' = net_of d\<lparr>people := (people (net_of d))(i \<mapsto> member_of u)\<rparr>"
    using i u by (simp add: net_of_def by_key_append)
  moreover have "joins s (net_of d) (net_of d\<lparr>people := (people (net_of d))(i \<mapsto> member_of u)\<rparr>)"
    unfolding u(2)
  proof (rule joins.fresh)
    show "people (net_of d) i = None" using i by (simp add: net_of_def by_key_None)
    show "\<forall>m \<in> ran (people (net_of d)). m_Subject m \<noteq> s"
      using new by (auto simp: net_of_def ran_def member_of_def dest!: by_key_Some)
  qed
  ultimately show ?case using 1(1,3) u by (auto simp: joined_def on_net_def member_of_def)
qed simp

lemma getOrCreateUser_joins:
  assumes "constraints d0"
  shows "triple (\<lambda>d. d = d0) (getOrCreateUser s)
     (\<lambda>u d. joined s d0 d \<and> u \<in> set (users d) \<and> u_ZitadelID u = s) (\<lambda>_. joined s d0)"
proof -
  have f: "triple (\<lambda>d. d = d0) (GetUserByZitadelID s)
      (\<lambda>u d. d = d0 \<and> u \<in> set (users d) \<and> u_ZitadelID u = s) (\<lambda>_ d. d = d0)"
    unfolding GetUserByZitadelID_def
    by (rule triple_query) (auto simp: one_row_def split: option.splits dest: find_row_Some)
  have n: "triple (\<lambda>d. d = d0) newUsername (\<lambda>_ d. d = d0) (\<lambda>_ d. d = d0)"
    unfolding newUsername_def by (intro triple_dbsame dbsame_intros)
  note refl = joined_refl [OF assms]
  show ?thesis
    unfolding getOrCreateUser_def
    by (rule triple_tryM [OF f], intro triple_if triple_throw triple_tryM [OF n]
        triple_tryM [OF CreateUser_joins] triple_tryM [OF f])
      (auto simp: refl intro!: triple_ok)
qed

text \<open>What the middleware hands on: the request as it came, or with the active user of the subject.\<close>

definition vouched :: "request \<Rightarrow> string option \<Rightarrow> request \<Rightarrow> db \<Rightarrow> bool" where
  "vouched q s q' d \<longleftrightarrow> q' = q \<or> (\<exists>user. q' = q\<lparr>req_user := Some user\<rparr> \<and> user \<in> set (users d) \<and>
     s = Some (u_ZitadelID user) \<and> u_IsActive user)"

definition met :: "string option \<Rightarrow> db \<Rightarrow> db \<Rightarrow> bool" where
  "met s d0 d \<longleftrightarrow> (case s of None \<Rightarrow> d = d0 | Some s \<Rightarrow> joined s d0 d)"

lemma resolveUser_vouches:
  assumes "constraints d0"
  shows "triple (\<lambda>d. d = d0) (resolveUser E q)
     (\<lambda>q' d. met (subject_of E q) d0 d \<and> vouched q (subject_of E q) q' d) (\<lambda>_. met (subject_of E q) d0)"
proof (cases "subject_of E q")
  case None
  then have n: "no_subject E q" by (simp add: no_subject_None)
  show ?thesis
    by (rule tripleI; use no_subject_run [OF n] None in \<open>auto simp: met_def vouched_def idle_def\<close>)
next
  case (Some s)
  then obtain t where t: "extractBearer q = Inr t" "env_CheckToken E t = Inr s" "s \<noteq> []"
    by (auto simp: subject_of_def split: sum.splits if_splits)
  let ?Q = "\<lambda>q' d. joined s d0 d \<and> vouched q (Some s) q' d" and ?E = "\<lambda>_. joined s d0"
  have c: "triple (\<lambda>d. d = d0) (CheckToken E t) (\<lambda>x d. d = d0 \<and> x = s) (\<lambda>_ d. d = d0)"
    unfolding CheckToken_def t(2) by (rule tripleI) (auto simp: run_simps split: sum.splits)
  have reject: "triple P (bindM (RespondError e) (\<lambda>_. ok q)) ?Q ?E" if "\<And>d. P d \<Longrightarrow> joined s d0 d" for P e
  proof -
    have "triple P (RespondError e) (\<lambda>_. P) (\<lambda>_. joined s d0)"
      using triple_dbsame [OF dbsame_Respond(5), of P]
      by (rule triple_weaken) (auto intro: that)
    then show ?thesis by (rule triple_bindM) (auto intro!: triple_ok that simp: vouched_def)
  qed
  have u: "triple (\<lambda>d. d = d0 \<and> x = s) (getOrCreateUser x)
      (\<lambda>u d. joined s d0 d \<and> u \<in> set (users d) \<and> u_ZitadelID u = s) (\<lambda>_. joined s d0)" for x
    using getOrCreateUser_joins [OF assms] by (cases "x = s") (auto simp: triple_def)
  have active: "triple (\<lambda>d. joined s d0 d \<and> user \<in> set (users d) \<and> u_ZitadelID user = s)
      (if \<not> u_IsActive user then bindM (RespondError e) (\<lambda>_. ok q) else ok (q\<lparr>req_user := Some user\<rparr>)) ?Q ?E"
    for user e by (intro triple_if reject triple_ok) (auto simp: vouched_def)
  have "triple (\<lambda>d. d = d0) (resolveUser E q) ?Q ?E"
    unfolding resolveUser_def t(1) Let_def sum.case
    by (rule triple_tryM [OF c], rule reject, simp add: joined_refl [OF assms], rule triple_if,
        rule reject, simp add: joined_refl [OF assms], rule triple_tryM [OF u], rule reject, assumption,
        rule active)
  moreover have "met (Some s) = joined s" by (simp add: met_def fun_eq_iff)
  ultimately show ?thesis by (simp add: Some)
qed

section \<open>One request\<close>

text \<open>What a request in the name of a subject may do.\<close>

definition serves :: "string option \<Rightarrow> net \<Rightarrow> net \<Rightarrow> bool" where
  "serves subj n n' \<longleftrightarrow>
    (case subj of
       None \<Rightarrow> n' = n
     | Some s \<Rightarrow> \<exists>n1. joins s n n1 \<and> (n' = n1 \<or>
         (\<exists>u m. people n1 u = Some m \<and> m_Subject m = s \<and> m_Active m \<and> act (Member u) n1 n')))"

definition requested :: "env \<Rightarrow> route \<Rightarrow> request \<Rightarrow> net \<Rightarrow> net \<Rightarrow> bool" where
  "requested E r q n n' \<longleftrightarrow>
    (if from_provider r then n' = n \<or> act Provider n n' else serves (subject_of E q) n n')"

lemma triple_each:
  "(\<And>d0. P d0 \<Longrightarrow> triple (\<lambda>d. d = d0) m Q E) \<Longrightarrow> triple P m Q E"
  by (simp add: triple_def)

lemma requested_serves: "\<not> from_provider r \<Longrightarrow> requested E r q = serves (subject_of E q)"
  by (simp add: requested_def [abs_def])

lemma subject_same: "subject_of E (q\<lparr>req_user := x\<rparr>) = subject_of E q"
  by (simp add: subject_of_def extractBearer_def Let_def)

lemma acts_bind_reads: "reads.rel m \<Longrightarrow> (\<And>x. acts a d (k x)) \<Longrightarrow> acts a d (bindM m k)"
  unfolding bindM_def by (intro acts_reads acts_throw)

lemma acts_limited:
  "acts a d (h q) \<Longrightarrow> acts a d (RateLimitAuth E h q)" "acts a d (h q) \<Longrightarrow> acts a d (RateLimitWebhook E h q)"
  unfolding RateLimitAuth_def RateLimitWebhook_def Let_def
  by (intro acts_steps acts_bind_reads reads.read_intros, assumption)+

lemma nets_limited:
  "nets.rel (h q) \<Longrightarrow> nets.rel (RateLimitWebhook E h q)"
  unfolding RateLimitWebhook_def Let_def by (intro nets_intros)

lemma met_serves: "constraints d0 \<Longrightarrow> met s d0 d \<Longrightarrow> on_net (serves s (net_of d0)) d"
  by (auto simp: met_def joined_def on_net_def serves_def split: option.splits)

lemma met_still:
  assumes "constraints d0" "\<And>d. P d \<Longrightarrow> met s d0 d" "nets.rel m"
  shows "triple P m (\<lambda>_. on_net (serves s (net_of d0))) (\<lambda>_. on_net (serves s (net_of d0)))"
  by (rule triple_weaken [OF nets_triple [OF assms(3)]]) (use assms(1,2) met_serves in auto)

lemma did_serves:
  assumes "constraints d0" "met s d0 d1" "user \<in> set (users d1)" "s = Some (u_ZitadelID user)" "u_IsActive user"
    "did (Member (u_ID user)) d1 d"
  shows "on_net (serves s (net_of d0)) d"
proof -
  have j: "joins (u_ZitadelID user) (net_of d0) (net_of d1)" "constraints d1"
    using assms(2,4) by (auto simp: met_def joined_def on_net_def)
  have "people (net_of d1) (u_ID user) = Some (member_of user)" by (rule joined_user [OF assms(3) j(2)])
  moreover have "m_Subject (member_of user) = u_ZitadelID user" "m_Active (member_of user)"
    using assms(5) by (simp_all add: member_of_def)
  ultimately show ?thesis
    using assms(4,6) j(1) unfolding did_def on_net_def serves_def by auto
qed

lemma resolved_next:
  assumes "constraints d0" "req_user q = None"
    "\<And>q' user d1. req_user q' = Some user \<Longrightarrow> acts (Member (u_ID user)) d1 (next_handler q')"
    "nets.rel (next_handler q)"
  shows "triple (\<lambda>d. d = d0) (tryM (resolveUser E q) throw next_handler)
    (\<lambda>_. on_net (serves (subject_of E q) (net_of d0))) (\<lambda>_. on_net (serves (subject_of E q) (net_of d0)))"
proof (rule triple_tryM [OF resolveUser_vouches [OF assms(1)]])
  fix e :: goerr
  show "triple (met (subject_of E q) d0) (throw e)
      (\<lambda>_. on_net (serves (subject_of E q) (net_of d0))) (\<lambda>_. on_net (serves (subject_of E q) (net_of d0)))"
    by (rule triple_throw) (rule met_serves [OF assms(1)])
next
  fix q'
  show "triple (\<lambda>d. met (subject_of E q) d0 d \<and> vouched q (subject_of E q) q' d) (next_handler q')
      (\<lambda>_. on_net (serves (subject_of E q) (net_of d0))) (\<lambda>_. on_net (serves (subject_of E q) (net_of d0)))"
  proof (rule triple_each)
    fix d1 assume d1: "met (subject_of E q) d0 d1 \<and> vouched q (subject_of E q) q' d1"
    show "triple (\<lambda>d. d = d1) (next_handler q')
      (\<lambda>_. on_net (serves (subject_of E q) (net_of d0))) (\<lambda>_. on_net (serves (subject_of E q) (net_of d0)))"
    proof (cases "q' = q")
      case True
      then show ?thesis using d1 assms(4) by (intro met_still [OF assms(1)]) simp_all
    next
      case False
      then obtain user where u: "q' = q\<lparr>req_user := Some user\<rparr>" "user \<in> set (users d1)"
        "subject_of E q = Some (u_ZitadelID user)" "u_IsActive user"
        using d1 by (auto simp: vouched_def)
      have "constraints d1" using d1 assms(1) by (auto simp: met_def joined_def on_net_def split: option.splits)
      then have "triple (\<lambda>d. d = d1) (next_handler q') (\<lambda>_. did (Member (u_ID user)) d1)
          (\<lambda>_. did (Member (u_ID user)) d1)"
        using assms(3) [of q' user d1] u(1) by (simp add: acts_def)
      then show ?thesis
        using did_serves [OF assms(1) _ u(2,3,4)] d1 by (auto elim!: triple_weaken)
    qed
  qed
qed

lemma router_requested:
  assumes "constraints d0" "req_user q = None"
  shows "triple (\<lambda>d. d = d0) (NewRouter E r q)
    (\<lambda>_. on_net (requested E r q (net_of d0))) (\<lambda>_. on_net (requested E r q (net_of d0)))"
proof -
  have reading: "nets.rel (RateLimitWebhook E (route_handler E PlaylistRoute) q')" "nets.rel HealthHandler" for q'
    by (simp_all add: nets_limited nets.rel_reading_handlers)
  have next_ok: "triple (\<lambda>d. d = d0) (tryM (resolveUser E q) throw h)
      (\<lambda>_. on_net (requested E r q (net_of d0))) (\<lambda>_. on_net (requested E r q (net_of d0)))"
    if "\<And>q' user d1. req_user q' = Some user \<Longrightarrow> acts (Member (u_ID user)) d1 (h q')" "nets.rel (h q)"
      "\<not> from_provider r" for h
    using resolved_next [where next_handler = h, OF assms that(1,2)] requested_serves [OF that(3)] by simp
  have still: "triple (\<lambda>d. d = d0) m
      (\<lambda>_. on_net (requested E r q (net_of d0))) (\<lambda>_. on_net (requested E r q (net_of d0)))"
    if "nets.rel m" "\<not> from_provider r" for m :: "unit io"
    unfolding requested_serves [OF that(2)]
    by (rule met_still [OF assms(1) _ that(1)])
      (simp add: met_def joined_refl [OF assms(1)] split: option.split)
  consider (group) "grouped r" | "r = HealthRoute" | raw evt where "r = WebhookRoute raw evt" | "r = PlaylistRoute"
    by (cases r) auto
  then show ?thesis
  proof cases
    case group
    have "nets.rel (RateLimitAuth E (route_handler E r) q)"
      unfolding RateLimitAuth_def assms(2) by (simp add: nets.rel_Respond)
    moreover have "\<not> from_provider r" using group by (cases r) auto
    ultimately show ?thesis
      unfolding NewRouter_grouped [OF group] Authenticate_def
      by (intro next_ok acts_limited acts_route_handler)
  next
    case 2
    then show ?thesis using still [OF reading(2)] by (simp add: NewRouter_def)
  next
    case 3
    have "triple (\<lambda>d. d = d0) (RateLimitWebhook E (route_handler E r) q) (\<lambda>_. did Provider d0) (\<lambda>_. did Provider d0)"
      using acts_limited(2) [of Provider d0 "route_handler E r" q E] acts_webhook assms(1) 3
      by (simp add: acts_def)
    moreover have "did Provider d0 = on_net (requested E r q (net_of d0))"
      unfolding did_def 3 requested_def [abs_def] by simp
    ultimately show ?thesis by (simp add: NewRouter_def 3)
  next
    case 4
    have "acts a d1 (RateLimitWebhook E (route_handler E r) q')" for a d1 q'
      unfolding 4 by (intro acts_nets reading)
    then have "triple (\<lambda>d. d = d0) (tryM (resolveUser E q) throw (RateLimitWebhook E (route_handler E r)))
        (\<lambda>_. on_net (requested E r q (net_of d0))) (\<lambda>_. on_net (requested E r q (net_of d0)))"
      using reading(1) [of q] 4 by (intro next_ok) simp_all
    then show ?thesis
      using still [OF reading(1) [of q]] by (simp add: NewRouter_def AuthenticateOptional_def 4)
  qed
qed

lemma serve_requested:
  assumes "constraints (w_db w)"
  shows "on_net (requested E r q (net_of (w_db w))) (w_db (snd (serve E r q w)))"
proof -
  have "requested E r (q\<lparr>req_user := None\<rparr>) = requested E r q"
    by (simp add: requested_def [abs_def] subject_same)
  then have t: "triple (\<lambda>d. d = w_db w) (serve E r q)
      (\<lambda>_. on_net (requested E r q (net_of (w_db w)))) (\<lambda>_. on_net (requested E r q (net_of (w_db w))))"
    unfolding serve_def
    using router_requested [OF assms, of "q\<lparr>req_user := None\<rparr>" E r]
    by (intro triple_tryM) (auto intro: nets_triple nets.rel_HTTPErrorHandler triple_ok)
  show ?thesis using tripleD [OF t, of w] by (cases "fst (serve E r q w)") auto
qed

section \<open>The worker\<close>

lemma acts_HandleCleanupVideo: "acts Worker d (HandleCleanupVideo E pv)"
proof -
  have o': "acts Worker d (delete_outputs E v)"
    if "find_row (\<lambda>v. v_ID v = i) (videos d) = Some v" "\<not> v_Status v \<noteq> DELETED" for i v
  proof -
    have "v_ID v = i" using find_row_Some [OF that(1)] by simp
    then have "acts Worker d (DeleteVideoRow (v_ID v))" using that by (intro acts_DeleteVideoRow) simp_all
    then show ?thesis
      unfolding delete_outputs_def Let_def by (intro acts_reads acts_throw reads.read_intros)
  qed
  have f: "acts Worker d (finish_video E v)"
    if "find_row (\<lambda>v. v_ID v = i) (videos d) = Some v" "\<not> v_Status v \<noteq> DELETED" for i v
    unfolding finish_video_def Let_def
    by (intro acts_steps acts_reads o' [OF that] acts_throw acts_nets [OF nets.rel_ok] reads.read_intros)
  have n: "nets.rel (logged (EnqueueWithDelay t x))" for t x
    unfolding logged_def by (intro nets_intros)
  show ?thesis
    unfolding HandleCleanupVideo_def Let_def
    by (intro acts_steps acts_find [OF finds_rows(2)] acts_bind_reads f acts_nets [OF nets.rel_ok]
        acts_nets [OF n] reads.read_intros)
qed

section \<open>Runs\<close>

text \<open>A move of the service: somebody joins, or somebody acts.\<close>

inductive moves :: "net \<Rightarrow> net \<Rightarrow> bool" where
  joining: "joins s n n' \<Longrightarrow> moves n n'"
| acting: "act a n n' \<Longrightarrow> moves n n'"

lemma act_moves: "act a n n' \<Longrightarrow> moves\<^sup>*\<^sup>* n n'"
  by (rule r_into_rtranclp) (rule moves.acting)

lemma requested_moves: "requested E r q n n' \<Longrightarrow> moves\<^sup>*\<^sup>* n n'"
  by (auto simp: requested_def serves_def split: if_splits option.splits
      intro: moves.intros rtranclp.rtrancl_into_rtrancl converse_rtranclp_into_rtranclp)

definition refined :: "world \<Rightarrow> world \<Rightarrow> bool" where
  "refined w w' \<longleftrightarrow> supply_le w w' \<and> (constraints (w_db w) \<longrightarrow>
     constraints (w_db w') \<and> moves\<^sup>*\<^sup>* (net_of (w_db w)) (net_of (w_db w')))"

interpretation refines: table_rel refined
  by unfold_locales (auto simp: refined_def supply_le_def)

lemma refined_acts:
  assumes "\<And>d. acts a d m" "supplied.rel m"
  shows "refines.rel m"
proof (rule refines.relI)
  fix w
  have "did a (w_db w) (w_db (snd (m w)))" if "constraints (w_db w)"
    using assms(1) [of "w_db w"] that tripleD [of "\<lambda>d. d = w_db w" m _ _ w]
    by (cases "fst (m w)") (auto simp: acts_def)
  then show "refined w (snd (m w))"
    using supplied.relD [OF assms(2)]
    by (auto simp: refined_def did_def on_net_def intro: act_moves)
qed

lemma refined_same: "nets.rel m \<Longrightarrow> refines.rel m"
  by (auto simp: nets.rel_def refines.rel_def same_net_def refined_def)

interpretation refining: task_rel refined E for E
  by unfold_locales
    ((rule refined_same, rule nets_stmts) |
     rule refined_acts, rule acts_worker_videos acts_HandleCleanupVideo,
     rule supply_sys.video_writes supply_sys.cleanup_write)+

definition serviceable :: "worker \<Rightarrow> bool" where
  "serviceable K \<longleftrightarrow> others_respect (\<lambda>d d'. moves\<^sup>*\<^sup>* (net_of d) (net_of d')) K"

lemma refining_others: "serviceable K \<Longrightarrow> refining.others_ok K"
  by (auto simp: refining.others_ok_def refines.rel_def interfere_def Let_def refined_def
      serviceable_def others_respect_def supply_le_def)

lemma refined_step:
  assumes "system_step E K w w'" "serviceable K"
  shows "refined w w'"
  using assms(1)
proof cases
  case (request t r q fs)
  have "supply_le w w'"
    using supply_sys.rel_step [OF assms(1)] by (simp add: supply_sys.others_ok_def supplied.rel_def
        supply_le_def interfere_def Let_def)
  then show ?thesis
    using serve_requested [of "at_step t fs w" E r q] requested_moves
    by (auto simp: refined_def request(1) on_net_def)
next
  case (task x t fs)
  have "refined w (at_step t fs w)" by (rule refines.R_frame) (simp_all add: supply_le_def)
  moreover have "refined (at_step t fs w) w'"
    unfolding task(1) by (rule refines.relD) (rule refining.rel_HandleTask [OF refining_others [OF assms(2)]])
  ultimately show ?thesis by (rule refines.R_trans)
qed (auto simp: refined_def supply_le_def sweep_def)

lemma refined_run: "run E K w w' \<Longrightarrow> serviceable K \<Longrightarrow> refined w w'"
  by (induction rule: rtranclp_induct) (auto intro: refines.R_refl refined_step refines.R_trans)

end
