(* ===== verification/Responses.thy ===== *)
theory Responses
  imports Refusals
begin

text \<open>
  The types of the responses: what the body of a successful answer of each route looks
  like, and that every response the gateway writes is of the type of its route or a proper
  error.
\<close>

section \<open>Types\<close>

text \<open>An object type lists its fields in the order of the struct; a field may be left out if it is not required.\<close>

datatype jtype =
    TBool | TInt | TText | TId | TJson | TOpt jtype | TList jtype | TRec "(string \<times> bool \<times> jtype) list"

fun has_type :: "json \<Rightarrow> jtype \<Rightarrow> bool"
and has_fields :: "(string \<times> json) list \<Rightarrow> (string \<times> bool \<times> jtype) list \<Rightarrow> bool"
where
  "has_type j TBool = (case j of JBool _ \<Rightarrow> True | _ \<Rightarrow> False)"
| "has_type j TInt = (case j of JInt _ \<Rightarrow> True | _ \<Rightarrow> False)"
| "has_type j TText = (case j of JStr _ \<Rightarrow> True | _ \<Rightarrow> False)"
| "has_type j TId = (case j of JUuid _ \<Rightarrow> True | _ \<Rightarrow> False)"
| "has_type j TJson = True"
| "has_type j (TOpt t) = (j = JNull \<or> has_type j t)"
| "has_type j (TList t) = (case j of JArr js \<Rightarrow> list_all (\<lambda>j. has_type j t) js | _ \<Rightarrow> False)"
| "has_type j (TRec fs) = (case j of JObj kvs \<Rightarrow> has_fields kvs fs | _ \<Rightarrow> False)"
| "has_fields kvs [] = (kvs = [])"
| "has_fields kvs ((k, required, t) # fs) =
    (case kvs of
       (k', j) # rest \<Rightarrow>
         if k' = k then has_type j t \<and> has_fields rest fs else \<not> required \<and> has_fields kvs fs
     | [] \<Rightarrow> \<not> required \<and> has_fields [] fs)"

definition object :: "(string \<times> jtype) list \<Rightarrow> jtype" where
  "object fs = TRec (map (\<lambda>(k, t). (k, True, t)) fs)"

definition summary_type :: jtype where
  "summary_type = object [(''id'', TId), (''username'', TText), (''display_name'', TOpt TText),
     (''avatar_url'', TOpt TText), (''is_private'', TBool)]"

definition profile_type_fields :: "(string \<times> jtype) list" where
  "profile_type_fields = [(''id'', TId), (''username'', TText), (''display_name'', TOpt TText),
     (''bio'', TOpt TText), (''avatar_url'', TOpt TText), (''is_private'', TBool),
     (''is_active'', TBool), (''created_at'', TText)]"

definition video_type_fields :: "(string \<times> jtype) list" where
  "video_type_fields = [(''id'', TId), (''user_id'', TId), (''title'', TOpt TText),
     (''description'', TOpt TText), (''duration_seconds'', TOpt TInt), (''status'', TText),
     (''retry_count'', TInt), (''likes_count'', TInt), (''views_count'', TInt),
     (''comments_count'', TInt), (''created_at'', TText),
     (''thumbnail_url'', TOpt TText), (''hls_playlist_url'', TOpt TText),
     (''liked_by_me'', TOpt TBool), (''is_owner'', TBool)]"

definition video_type :: jtype where
  "video_type = object (video_type_fields @ [(''user'', summary_type)])"

definition comment_type :: jtype where
  "comment_type = object [(''id'', TId), (''video_id'', TId), (''user_id'', TId),
     (''parent_id'', TOpt TId), (''content'', TText), (''created_at'', TText), (''user'', summary_type)]"

definition notification_type :: jtype where
  "notification_type = object [(''id'', TId), (''user_id'', TId), (''actor_id'', TId), (''type'', TText),
     (''payload'', TJson), (''is_read'', TBool), (''created_at'', TText)]"

definition follow_type :: jtype where
  "follow_type = object [(''follower_id'', TId), (''followee_id'', TId), (''is_following'', TBool),
     (''created_at'', TText)]"

definition like_type :: jtype where
  "like_type = object [(''video_id'', TId), (''liked'', TBool), (''likes_count'', TInt)]"

definition intent_type :: jtype where
  "intent_type = object [(''video_id'', TText), (''r2_key'', TText), (''http_method'', TText),
     (''upload_url'', TText), (''upload_headers'', object [(''Content-Type'', TText)]),
     (''min_size_bytes'', TInt), (''max_size_bytes'', TInt), (''expires_at'', TText)]"

definition search_type :: jtype where
  "search_type = object
     [(''data'', object [(''users'', TList summary_type), (''videos'', TList video_type)]),
      (''pagination'', TRec [(''users_next_cursor'', False, TText), (''videos_next_cursor'', False, TText)])]"

section \<open>Shapes of answers\<close>

datatype shape =
    Empty
  | Data "int list" jtype
  | Items jtype
  | Plain jtype
  | Playlist

fun success :: "route \<Rightarrow> shape" where
  "success HealthRoute = Plain (object [(''status'', TText)])"
| "success (WebhookRoute _ _) = Data [200] (object [(''status'', TText)])"
| "success GetMeRoute = Data [200] (object profile_type_fields)"
| "success (UpdateMeRoute _) = Data [200] (object profile_type_fields)"
| "success GetUserRoute = Data [200] (object (profile_type_fields @
     [(''is_following'', TBool), (''follower_count'', TInt), (''following_count'', TInt)]))"
| "success UserVideosRoute = Items (object video_type_fields)"
| "success FollowRoute = Data [200] follow_type"
| "success UnfollowRoute = Data [200] follow_type"
| "success FollowersRoute = Items (object [(''user'', summary_type), (''created_at'', TText)])"
| "success FollowingRoute = Items (object [(''user'', summary_type), (''created_at'', TText)])"
| "success (UploadIntentRoute _) = Data [200, 201] intent_type"
| "success (ConfirmRoute _) = Data [200] (object [(''video_id'', TText), (''status'', TText), (''retry_count'', TInt)])"
| "success FeedRoute = Items video_type"
| "success SearchRoute = Plain search_type"
| "success VideoDetailRoute = Data [200] video_type"
| "success VideoStatusRoute = Data [200] (object [(''id'', TText), (''status'', TText),
     (''retry_count'', TInt), (''duration_seconds'', TOpt TInt)])"
| "success PlaylistRoute = Playlist"
| "success DeleteVideoRoute = Empty"
| "success LikeRoute = Data [200] like_type"
| "success UnlikeRoute = Data [200] like_type"
| "success ViewRoute = Data [200] (object [(''video_id'', TId), (''views_count'', TInt)])"
| "success (CreateCommentRoute _) = Data [201] comment_type"
| "success ListCommentsRoute = Items comment_type"
| "success DeleteCommentRoute = Empty"
| "success (ReplyRoute _) = Data [201] comment_type"
| "success NotificationsRoute = Items notification_type"
| "success ReadAllRoute = Data [200] (object [(''updated_count'', TInt)])"
| "success DeleteMeRoute = Empty"

definition answer_ok :: "shape \<Rightarrow> int \<Rightarrow> body \<Rightarrow> bool" where
  "answer_ok s status b = (case b of
       BodyError c _ _ \<Rightarrow> c \<in> set knownErrorCodes \<and> status = httpStatusForCode c
     | NoBody \<Rightarrow> s = Empty \<and> status = 204
     | BodyData j \<Rightarrow> (case s of Data ss t \<Rightarrow> status \<in> set ss \<and> has_type j t | _ \<Rightarrow> False)
     | BodyList js _ \<Rightarrow> (case s of Items t \<Rightarrow> status = 200 \<and> list_all (\<lambda>j. has_type j t) js | _ \<Rightarrow> False)
     | BodyJSON j \<Rightarrow> (case s of Plain t \<Rightarrow> status = 200 \<and> has_type j t | _ \<Rightarrow> False)
     | BodyBytes ct _ \<Rightarrow> s = Playlist \<and> status = 200 \<and> ct = hls_content_type)"

definition typed :: "shape \<Rightarrow> response \<Rightarrow> bool" where
  "typed s r \<longleftrightarrow> answer_ok s (r_status r) (r_body r)"

section \<open>Proper errors\<close>

definition proper :: "goerr \<Rightarrow> bool" where
  "proper e \<longleftrightarrow> (case As_APIError e of None \<Rightarrow> True
     | Some (c, _, _, s) \<Rightarrow> (c = [] \<or> c \<in> set knownErrorCodes) \<and> s = 0)"

lemma proper_classify:
  assumes "proper e" "ClassifyError (Some e) = (status, code, msg, details)"
  shows "answer_ok s status (BodyError code msg details)"
proof -
  have "(c = [] \<or> c \<in> set knownErrorCodes) \<and> s = 0" if "As_APIError e = Some (c, m, d, s)" for c m d s
    using assms(1) that by (simp add: proper_def)
  then have "status = httpStatusForCode code \<and> code \<in> set knownErrorCodes"
    by (rule classify_consistent [OF _ assms(2)])
  then show ?thesis by (simp add: answer_ok_def)
qed

lemma proper_Wrap [simp]: "proper (Wrap s m)"
  by (simp add: proper_def Wrap_def)

lemma proper_sentinel [simp]: "proper (Sentinel s)"
  by (simp add: proper_def)

lemma known_codes: "CodeValidationError \<in> set knownErrorCodes" "CodeInternalError \<in> set knownErrorCodes"
  "CodeUploadSizeInvalid \<in> set knownErrorCodes"
  by (simp_all add: knownErrorCodes_def)

lemma proper_API [simp]:
  "c \<in> set knownErrorCodes \<Longrightarrow> proper (NewAPIError c m)"
  "c \<in> set knownErrorCodes \<Longrightarrow> proper (WithDetails (NewAPIError c m) ds)"
  "c \<in> set knownErrorCodes \<Longrightarrow> proper (WithCause (NewAPIError c m) e)"
  by (simp_all add: proper_def NewAPIError_def)

lemma proper_field_error [simp]: "proper (field_error m f d)"
  by (simp add: field_error_def known_codes)

lemma proper_validator: "proper (translateValidationError v)"
proof (cases v)
  case (ValidationErrors ves)
  have "proper (foldl (\<lambda>e fe. WithDetails e [\<lparr>fe_Field = fieldName fe, fe_Message = fieldMessage fe\<rparr>])
      (APIErr CodeValidationError m ds None 0) ves)" for m ds
    by (induction ves arbitrary: ds) (simp_all add: proper_def known_codes)
  then show ?thesis by (simp add: ValidationErrors translateValidationError_def NewAPIError_def)
qed (simp add: translateValidationError_def known_codes)

lemma proper_results:
  "Validate v = Inl e \<Longrightarrow> proper e" "parseAuthVideoParam E q = Inl e \<Longrightarrow> proper e"
  "bindCommentContent b = Inl e \<Longrightarrow> proper e" "page_params E q = Inl e \<Longrightarrow> proper e"
proof -
  show v: "Validate v = Inl e \<Longrightarrow> proper e" for v e
    by (auto simp: Validate_def proper_validator split: option.splits)
  show "parseAuthVideoParam E q = Inl e \<Longrightarrow> proper e" "page_params E q = Inl e \<Longrightarrow> proper e"
    by (auto simp: parseAuthVideoParam_def page_params_def split: option.splits sum.splits)
  show "bindCommentContent b = Inl e \<Longrightarrow> proper e"
    by (auto simp: bindCommentContent_def Let_def known_codes intro: v split: bound.splits sum.splits if_splits)
qed

text \<open>The errors of a computation are proper.\<close>

definition fails_proper :: "'a io \<Rightarrow> bool" where
  "fails_proper m \<longleftrightarrow> (\<forall>w e. fst (m w) = Inl e \<longrightarrow> proper e)"

lemma fails_throw: "proper e \<Longrightarrow> fails_proper (throw e)"
  by (simp add: fails_proper_def throw_def)

lemma fails_ok: "fails_proper (ok x)"
  by (simp add: fails_proper_def ok_def)

lemma fails_tryM:
  "(\<And>e. fails_proper (h e)) \<Longrightarrow> (\<And>x. fails_proper (k x)) \<Longrightarrow> fails_proper (tryM m h k)"
  by (auto simp: fails_proper_def tryM_run split: sum.splits)

lemma fails_rethrow: "fails_proper m \<Longrightarrow> (\<And>x. fails_proper (k x)) \<Longrightarrow> fails_proper (tryM m throw k)"
  by (auto simp: fails_proper_def tryM_run throw_def split: sum.splits)

lemma fails_handle:
  "fails_proper m \<Longrightarrow> (\<And>e. proper e \<Longrightarrow> fails_proper (h e)) \<Longrightarrow> (\<And>x. fails_proper (k x)) \<Longrightarrow>
    fails_proper (tryM m h k)"
  unfolding fails_proper_def tryM_run by (auto split: sum.splits) blast

lemma fails_bindM: "fails_proper m \<Longrightarrow> (\<And>x. fails_proper (k x)) \<Longrightarrow> fails_proper (bindM m k)"
  unfolding bindM_def by (rule fails_rethrow)

lemma fails_succeeds: "succeeds m \<Longrightarrow> fails_proper m"
  unfolding succeeds_def fails_proper_def by (metis old.sum.distinct(2))

lemma fails_cases:
  "(b \<Longrightarrow> fails_proper m) \<Longrightarrow> (\<not> b \<Longrightarrow> fails_proper m') \<Longrightarrow> fails_proper (if b then m else m')"
  "(x = None \<Longrightarrow> fails_proper m) \<Longrightarrow> (\<And>y. fails_proper (f y)) \<Longrightarrow>
    fails_proper (case x of None \<Rightarrow> m | Some y \<Rightarrow> f y)"
  by (cases x; simp)+

lemma fails_sum:
  "(\<And>e. z = Inl e \<Longrightarrow> fails_proper (g e)) \<Longrightarrow> (\<And>y. fails_proper (f' y)) \<Longrightarrow>
    fails_proper (case z of Inl e \<Rightarrow> g e | Inr y \<Rightarrow> f' y)"
  by (cases z) auto

lemma fails_runTx: "fails_proper fn \<Longrightarrow> fails_proper (runTx fn)"
  unfolding runTx_def
  by (rule fails_tryM, rule fails_throw, simp)
    (auto simp: fails_proper_def split: prod.splits sum.splits dest: spec, metis fst_conv)

lemmas fails_intros = fails_throw fails_ok fails_rethrow fails_bindM fails_tryM fails_cases fails_sum
  fails_runTx fails_succeeds [OF succeeds_now] fails_succeeds [OF succeeds_new_uuid] proper_Wrap proper_sentinel proper_API
  known_codes

lemma fails_access:
  "fails_proper (assertOwnerActiveVisible o' v)" "fails_proper (assertVideoOwnerOrVisible v i)"
  "fails_proper (assertVideoReadyVisible o' v)"
  unfolding assertVideoReadyVisible_def assertVideoOwnerOrVisible_def assertOwnerActiveVisible_def
  by (intro fails_intros)+

lemma proper_if: "proper e \<Longrightarrow> proper e' \<Longrightarrow> proper (if b then e else e')"
  by simp

lemma fails_transactions:
  "fails_proper (like_tx E u i v)" "fails_proper (unlike_tx u i)" "fails_proper (create_comment_tx E u i v s)"
  "fails_proper (delete_comment_tx i j)" "fails_proper (reply_tx E u c v s)" "fails_proper (confirm_tx E u i k)"
  "fails_proper (pending_for E u t de)" "fails_proper (playlist_authorized E q i)"
  unfolding social_txs confirm_tx_def pending_for_def create_pending_def reuse_pending_def
    playlist_authorized_def Let_def
  by (intro fails_intros proper_if)+

lemma fails_account: "fails_proper (deleteUserData E x)" "fails_proper (DeleteUserData E x)"
proof -
  have "fails_proper (runTx (delete_user_tx E x))"
    unfolding delete_user_tx_def Let_def by (intro fails_intros)
  then have "fails_proper (collectUserR2Keys E x)"
    unfolding collectUserR2Keys_def by (rule fails_handle; intro fails_intros)
  then show d: "fails_proper (deleteUserData E x)"
    unfolding deleteUserData_def by (intro fails_intros)
  show "fails_proper (DeleteUserData E x)" unfolding DeleteUserData_def by (intro fails_intros d)
qed

section \<open>Typed output\<close>

definition grows :: "shape \<Rightarrow> world \<Rightarrow> world \<Rightarrow> bool" where
  "grows s w w' \<longleftrightarrow> (\<exists>rs. w_out w' = w_out w @ rs \<and> list_all (typed s) rs)"

interpretation answers: step_rel "grows s" for s
proof unfold_locales
  show "grows s w w" for w by (auto simp: grows_def)
next
  fix u v w assume "grows s u v" "grows s v w"
  then obtain rs rs' where "w_out v = w_out u @ rs" "w_out w = w_out v @ rs'"
    "list_all (typed s) rs" "list_all (typed s) rs'" by (auto simp: grows_def)
  then show "grows s u w" unfolding grows_def by (intro exI [of _ "rs @ rs'"]) simp
qed

lemma answers_quiet: "quiet.rel m \<Longrightarrow> answers.rel s m"
  by (simp add: quiet.rel_def answers.rel_def grows_def)

lemma answers_write: "answer_ok s st b \<Longrightarrow> answers.rel s (write_response st b)"
  by (simp add: answers.rel_def grows_def write_response_def typed_def)

lemma answers_error: "proper e \<Longrightarrow> answers.rel s (RespondError e)"
  unfolding RespondError_def
  by (cases "ClassifyError (Some e)") (simp add: answers_write proper_classify)

lemma answers_data:
  "has_type j t \<Longrightarrow> 200 \<in> set ss \<Longrightarrow> answers.rel (Data ss t) (RespondOK j)"
  "has_type j t \<Longrightarrow> 201 \<in> set ss \<Longrightarrow> answers.rel (Data ss t) (RespondCreated j)"
  "(\<And>j. j \<in> set js \<Longrightarrow> has_type j t) \<Longrightarrow> answers.rel (Items t) (RespondList js c)"
  "answers.rel Empty RespondNoContent" "answers.rel Empty (write_response 204 NoBody)"
  "answers.rel Playlist (write_response 200 (BodyBytes hls_content_type p))"
  "has_type j t \<Longrightarrow> answers.rel (Plain t) (write_response 200 (BodyJSON j))"
  by (auto simp: RespondOK_def RespondCreated_def RespondList_def RespondNoContent_def answer_ok_def
      list_all_iff intro!: answers_write)

text \<open>An error that is passed on to the client.\<close>

lemma answers_pass:
  assumes "answers.rel s m" "fails_proper m" "\<And>x. answers.rel s (k x)"
  shows "answers.rel s (tryM m RespondError k)"
proof (rule answers.relI)
  fix w
  have m: "grows s w (snd (m w))" using assms(1) by (rule answers.relD)
  show "grows s w (snd (tryM m RespondError k w))"
  proof (cases "fst (m w)")
    case (Inl e)
    then have "proper e" using assms(2) by (auto simp: fails_proper_def)
    then show ?thesis
      using answers.R_trans [OF m answers.relD [OF answers_error]] Inl by (simp add: tryM_run)
  next
    case (Inr x)
    then show ?thesis using answers.R_trans [OF m answers.relD [OF assms(3)]] by (simp add: tryM_run)
  qed
qed

text \<open>A value that is known to have a property.\<close>

definition returns :: "('a \<Rightarrow> bool) \<Rightarrow> 'a io \<Rightarrow> bool" where
  "returns P m \<longleftrightarrow> (\<forall>w x. fst (m w) = Inr x \<longrightarrow> P x)"

lemma answers_value:
  assumes "answers.rel s m" "returns P m" "\<And>e. answers.rel s (h e)" "\<And>x. P x \<Longrightarrow> answers.rel s (k x)"
  shows "answers.rel s (tryM m h k)"
proof (rule answers.relI)
  fix w
  have m: "grows s w (snd (m w))" using assms(1) by (rule answers.relD)
  show "grows s w (snd (tryM m h k w))"
  proof (cases "fst (m w)")
    case (Inl e)
    then show ?thesis using answers.R_trans [OF m answers.relD [OF assms(3)]] by (simp add: tryM_run)
  next
    case (Inr x)
    then have "P x" using assms(2) by (auto simp: returns_def)
    then show ?thesis
      using answers.R_trans [OF m answers.relD [OF assms(4)]] Inr by (simp add: tryM_run)
  qed
qed

lemma answers_bind_value:
  "answers.rel s m \<Longrightarrow> returns P m \<Longrightarrow> (\<And>x. P x \<Longrightarrow> answers.rel s (k x)) \<Longrightarrow> answers.rel s (bindM m k)"
  unfolding bindM_def by (rule answers_value [where P = P]) (auto intro: answers.rel_throw)

lemma returns_tryM:
  assumes "returns P m" "\<And>e. returns Q (h e)" "\<And>x. P x \<Longrightarrow> returns Q (k x)"
  shows "returns Q (tryM m h k)"
  using assms by (fastforce simp: returns_def tryM_run split: sum.splits)

lemma returns_any: "(\<And>e. returns Q (h e)) \<Longrightarrow> (\<And>x. returns Q (k x)) \<Longrightarrow> returns Q (tryM m h k)"
  by (rule returns_tryM [where P = "\<lambda>_. True"]) (auto simp: returns_def)

lemma returns_bindM: "returns P m \<Longrightarrow> (\<And>x. P x \<Longrightarrow> returns Q (k x)) \<Longrightarrow> returns Q (bindM m k)"
  unfolding bindM_def by (erule returns_tryM) (auto simp: returns_def throw_def)

lemma returns_bind_any: "(\<And>x. returns Q (k x)) \<Longrightarrow> returns Q (bindM m k)"
  unfolding bindM_def by (rule returns_any) (simp_all add: returns_def throw_def)

lemma returns_ok: "P x \<Longrightarrow> returns P (ok x)"
  by (simp add: returns_def ok_def)

lemma returns_throw: "returns P (throw e)"
  by (simp add: returns_def throw_def)

lemma returns_if: "returns P m \<Longrightarrow> returns P m' \<Longrightarrow> returns P (if b then m else m')"
  by simp

lemma returns_mapM: "(\<And>x. returns P (f x)) \<Longrightarrow> returns (list_all P) (mapM xs f)"
proof (induction xs)
  case (Cons x xs)
  then show ?case
    unfolding mapM.simps by (intro returns_bindM [of P] returns_bindM [of "list_all P"] returns_ok) auto
qed (simp add: returns_ok)

section \<open>The wire forms\<close>

lemmas type_defs = object_def summary_type_def profile_type_fields_def video_type_fields_def video_type_def
  comment_type_def notification_type_def follow_type_def like_type_def intent_type_def search_type_def

lemma json_opt_type [simp]: "json_opt s = JNull \<or> (case json_opt s of JStr _ \<Rightarrow> True | _ \<Rightarrow> False)"
  by (simp add: json_opt_def split: option.split)

lemma json_int_opt_type [simp]:
  "json_int_opt i = JNull \<or> (case json_int_opt i of JInt _ \<Rightarrow> True | _ \<Rightarrow> False)"
  by (simp add: json_int_opt_def split: option.split)

lemma summary_typed [simp]: "has_type (UserSummary u) summary_type"
  by (simp add: UserSummary_def type_defs)

lemma wire_types [simp]:
  "has_type (LikeObject i b n) like_type"
  "has_type (viewObject i n) (object [(''video_id'', TId), (''views_count'', TInt)])"
  "has_type (commentObjectFromRow r) comment_type"
  "has_type (notificationObjectFromRow x) notification_type"
  "has_type (followObject a c f t) follow_type"
  "has_type (userFromDB u) (object profile_type_fields)"
  "has_type (videoToItem b v) (object video_type_fields)"
  "has_type (followListItem fr) (object [(''user'', summary_type), (''created_at'', TText)])"
  "has_type (uploadIntentResponse E i k url tm) intent_type"
  "has_type (confirmResponse E v) (object [(''video_id'', TText), (''status'', TText), (''retry_count'', TInt)])"
  "has_type (videoStatusResponse E v) (object [(''id'', TText), (''status'', TText),
     (''retry_count'', TInt), (''duration_seconds'', TOpt TInt)])"
  using summary_typed
  by (simp_all add: LikeObject_def viewObject_def commentObjectFromRow_def notificationObjectFromRow_def
      followObject_def userFromDB_def profile_fields_def videoToItem_def video_fields_def followListItem_def
      uploadIntentResponse_def confirmResponse_def videoStatusResponse_def comment_type_def
      notification_type_def follow_type_def like_type_def intent_type_def object_def
      profile_type_fields_def video_type_fields_def Let_def split: option.split)

lemma profile_stats_typed [simp]:
  "has_type (profile_with_stats row) (object (profile_type_fields @
     [(''is_following'', TBool), (''follower_count'', TInt), (''following_count'', TInt)]))"
  by (simp add: profile_with_stats_def profile_fields_def profile_type_fields_def object_def)

lemma video_object_typed: "returns (\<lambda>j. has_type j video_type) (VideoObject E r b)"
  unfolding VideoObject_def Let_def
  by (intro returns_bind_any returns_ok)
    (use summary_typed in \<open>simp add: video_fields_def video_type_def video_type_fields_def object_def\<close>)

lemma video_objects_typed:
  "returns (\<lambda>j. has_type j video_type) (videoObjectFromDetail E r b)"
  "returns (list_all (\<lambda>j. has_type j video_type)) (mapM rows (videoObjectFromFeedRow E))"
  "returns (list_all (\<lambda>j. has_type j video_type)) (mapM rows (videoObjectFromSearchRow E v))"
  unfolding objects by (intro returns_mapM video_object_typed)+

lemma search_typed [simp]:
  assumes "list_all (\<lambda>j. has_type j summary_type) (fst us)" "list_all (\<lambda>j. has_type j video_type) (fst vs)"
  shows "has_type (search_envelope us vs) search_type"
  using assms by (auto simp: search_envelope_def search_type_def object_def split: option.split)

section \<open>The handlers\<close>

lemma answers_bound:
  "(\<And>e. x = BindError e \<Longrightarrow> answers.rel s (g e)) \<Longrightarrow> (\<And>y v. x = Bound y v \<Longrightarrow> answers.rel s (f y v)) \<Longrightarrow>
    answers.rel s (case x of BindError e \<Rightarrow> g e | Bound y v \<Rightarrow> f y v)"
  by (cases x) auto

lemmas answers_intros = answers_pass answers_error answers_data answers.rel_intros answers_bound
  fails_access fails_transactions fails_account fails_runTx

lemma answers_not_configured:
  "answers.rel s not_configured" "answers.rel s user_not_configured" "answers.rel s notification_not_configured"
  "answers.rel s video_not_configured"
  by (simp_all add: not_configured_def user_not_configured_def notification_not_configured_def
      video_not_configured_def answers_error)

lemmas quiet_calls = quiet_intros quiet_visibility quiet_R2 quiet_enqueue quiet_search quiet_parts
  quiet_upload quiet_playlist quiet_lookup quiet_follow quiet_deleteUserData quiet_VideoObject
  quiet_social_txs

text \<open>What is left of a handler are its calls and the types of the values it sends.\<close>

lemma social_typed:
  "answers.rel (success LikeRoute) (LikeVideo E q)" "answers.rel (success UnlikeRoute) (UnlikeVideo E q)"
  "answers.rel (success ViewRoute) (TrackView E q)"
  "answers.rel (success (CreateCommentRoute b)) (CreateComment E q b)"
  "answers.rel (success (ReplyRoute b)) (ReplyComment E q b)"
  "answers.rel (success DeleteCommentRoute) (DeleteComment E q)"
  "answers.rel (success ListCommentsRoute) (ListComments E q)"
  unfolding LikeVideo_def UnlikeVideo_def TrackView_def CreateComment_def ReplyComment_def
    DeleteComment_def ListComments_def Let_def success.simps
  by (intro answers_intros answers_not_configured;
      (rule answers_quiet, intro quiet_calls | force simp: proper_results))+

lemma profiles_typed:
  "answers.rel (success HealthRoute) HealthHandler" "answers.rel (success GetMeRoute) (GetMe q)"
  "answers.rel (success (UpdateMeRoute bu)) (UpdateMe q bu)"
  "answers.rel (success GetUserRoute) (GetUserProfile E q)"
  "answers.rel (success UserVideosRoute) (GetUserVideos E q)"
  "answers.rel (success FollowRoute) (UserHandler_FollowUser E q)"
  "answers.rel (success UnfollowRoute) (UnfollowUser E q)"
  "answers.rel (success DeleteMeRoute) (DeleteMe E q)"
  unfolding HealthHandler_def GetMe_def UpdateMe_def GetUserProfile_def GetUserVideos_def
    user_videos_page_def UserHandler_FollowUser_def UnfollowUser_def DeleteMe_def Let_def success.simps
  by (intro answers_intros answers_not_configured;
      (rule answers_quiet, intro quiet_calls | force simp: proper_results | force simp: object_def))+

lemma follow_lists_typed:
  "answers.rel (success FollowersRoute) (UserHandler_ListFollowers E q)"
  "answers.rel (success FollowingRoute) (UserHandler_ListFollowing E q)"
  unfolding UserHandler_ListFollowers_def UserHandler_ListFollowing_def assertCanSeeFollowList_def
    Let_def success.simps
  by (intro answers_intros answers_not_configured;
      (rule answers_quiet, intro quiet_calls | force simp: proper_results))+

lemma lists_typed:
  "answers.rel (success NotificationsRoute) (NotificationHandler_List E q)"
  "answers.rel (success ReadAllRoute) (MarkAllRead E q)"
  unfolding NotificationHandler_List_def MarkAllRead_def Let_def success.simps
  by (intro answers_intros answers_not_configured;
      (rule answers_quiet, intro quiet_calls | force simp: proper_results | force simp: object_def))+

lemma answers_objects:
  "(\<And>j. has_type j video_type \<Longrightarrow> answers.rel s (k j)) \<Longrightarrow>
    answers.rel s (bindM (videoObjectFromDetail E r b) k)"
  "(\<And>js. list_all (\<lambda>j. has_type j video_type) js \<Longrightarrow> answers.rel s (g js)) \<Longrightarrow>
    answers.rel s (bindM (mapM rows (videoObjectFromFeedRow E)) g)"
proof -
  have q: "quiet.rel (videoObjectFromDetail E r b)" "quiet.rel (mapM rows (videoObjectFromFeedRow E))"
    unfolding objects by (intro quiet_calls)+
  show "answers.rel s (bindM (videoObjectFromDetail E r b) k)"
    if "\<And>j. has_type j video_type \<Longrightarrow> answers.rel s (k j)"
    using answers_bind_value [OF answers_quiet [OF q(1)] video_objects_typed(1)] that .
  show "answers.rel s (bindM (mapM rows (videoObjectFromFeedRow E)) g)"
    if "\<And>js. list_all (\<lambda>j. has_type j video_type) js \<Longrightarrow> answers.rel s (g js)"
    using answers_bind_value [OF answers_quiet [OF q(2)] video_objects_typed(2)] that .
qed

lemma feed_typed: "answers.rel (success FeedRoute) (HomeFeed E q)"
  unfolding HomeFeed_def success.simps
  by (intro answers_objects answers_intros;
      (rule answers_quiet, intro quiet_calls | force simp: proper_results list_all_iff))

lemma fails_search:
  "fails_proper (search_users_part u qs off m)" "fails_proper (search_videos_part E u qs off m)"
  unfolding search_users_part_def search_videos_part_def Let_def objects VideoObject_def
    buildThumbnailURL_def buildPlaylistURL_def
  by (intro fails_intros fails_succeeds succeeds_intros)+

lemma returns_search:
  "returns (\<lambda>us. list_all (\<lambda>j. has_type j summary_type) (fst us)) (search_users_part u qs off m)"
  "returns (\<lambda>vs. list_all (\<lambda>j. has_type j video_type) (fst vs)) (search_videos_part E u qs off m)"
proof -
  show "returns (\<lambda>us. list_all (\<lambda>j. has_type j summary_type) (fst us)) (search_users_part u qs off m)"
    unfolding search_users_part_def Let_def
    by (auto intro!: returns_any returns_throw returns_ok simp: list_all_iff)
  have page: "returns (\<lambda>vs. list_all (\<lambda>j. has_type j video_type) (fst vs))
      (bindM (mapM xs (videoObjectFromSearchRow E u)) (\<lambda>items. ok (items, c)))" for xs c
    by (rule returns_bindM [OF video_objects_typed(3)]) (simp add: returns_ok)
  then show "returns (\<lambda>vs. list_all (\<lambda>j. has_type j video_type) (fst vs)) (search_videos_part E u qs off m)"
    unfolding search_videos_part_def Let_def by (intro returns_any returns_if returns_throw page)
qed

text \<open>Both halves of a search: the value of one is kept while the other is asked for.\<close>

lemma answers_pass_value:
  assumes "answers.rel s m" "fails_proper m" "returns P m" "\<And>x. P x \<Longrightarrow> answers.rel s (k x)"
  shows "answers.rel s (tryM m RespondError k)"
proof -
  have "tryM m RespondError k = tryM m RespondError (\<lambda>x. if P x then k x else ok ())"
    using assms(3) by (auto simp: fun_eq_iff tryM_run returns_def split: sum.split)
  then show ?thesis
    using answers_pass [OF assms(1,2), of "\<lambda>x. if P x then k x else ok ()"] assms(4)
    by (simp add: answers.rel_ok)
qed

lemma search_route_typed: "answers.rel (success SearchRoute) (Search E q)"
proof -
  let ?U = "\<lambda>us. list_all (\<lambda>j. has_type j summary_type) (fst us)"
  let ?V = "\<lambda>vs. list_all (\<lambda>j. has_type j video_type) (fst vs)"
  have u: "answers.rel s (if b then search_users_part x qs off m else ok ([], None))"
    "fails_proper (if b then search_users_part x qs off m else ok ([], None))"
    "returns ?U (if b then search_users_part x qs off m else ok ([], None))" for s b x qs off m
    by (simp_all add: answers_quiet quiet_parts answers.rel_ok fails_search fails_ok returns_search returns_ok)
  have v: "answers.rel s (if b then search_videos_part E x qs off m else ok ([], None))"
    "fails_proper (if b then search_videos_part E x qs off m else ok ([], None))"
    "returns ?V (if b then search_videos_part E x qs off m else ok ([], None))" for s b x qs off m
    by (simp_all add: answers_quiet quiet_parts answers.rel_ok fails_search fails_ok returns_search returns_ok)
  show ?thesis
    unfolding Search_def Let_def success.simps
    by (intro answers_pass_value [OF u] answers_pass_value [OF v] answers_intros; force)
qed

lemma detail_typed: "answers.rel (success VideoDetailRoute) (VideoHandler_GetVideoDetail E q)"
  unfolding VideoHandler_GetVideoDetail_def Let_def success.simps
  by (intro answers_objects answers_intros answers_not_configured;
      (rule answers_quiet, intro quiet_calls | force))

lemma videos_typed:
  "answers.rel (success (UploadIntentRoute bi)) (UploadIntent E q bi)"
  "answers.rel (success (ConfirmRoute bc)) (ConfirmUpload E q bc)"
  "answers.rel (success DeleteVideoRoute) (DeleteVideo E q)"
  "answers.rel (success VideoStatusRoute) (GetVideoStatus E q)"
  unfolding UploadIntent_def ConfirmUpload_def DeleteVideo_def GetVideoStatus_def Let_def success.simps
  by (intro answers_intros answers_not_configured;
      (rule answers_quiet, intro quiet_calls | force simp: proper_results known_codes))+

lemma playlist_typed: "answers.rel (success PlaylistRoute) (GetPlaylist E q)"
  unfolding GetPlaylist_def choose_playlist_def serveMasterPlaylist_def serveVariantPlaylist_def
    variant_error_def Let_def success.simps
  by (intro answers_intros answers_not_configured;
      (rule answers_quiet, intro quiet_calls | force simp: known_codes))+

lemma webhook_typed: "answers.rel (success (WebhookRoute raw evt)) (WebhookHandler_Handle E raw' evt' q)"
  unfolding WebhookHandler_Handle_def handleUserDeactivated_def handleUserRemoved_def processed_def
    Let_def success.simps
  by (intro answers_intros; (rule answers_quiet, intro quiet_calls | force simp: object_def))+

section \<open>Whole requests\<close>

lemma handlers_typed: "answers.rel (success r) (route_handler E r q)"
  by (cases r)
    (simp_all only: route_handler.simps social_typed profiles_typed follow_lists_typed lists_typed feed_typed
      detail_typed videos_typed playlist_typed webhook_typed search_route_typed)

lemma quiet_middleware: "quiet.rel (getOrCreateUser sub)" "quiet.rel (CheckToken E t)" "quiet.rel (allow E l i)"
  by (simp_all add: quiet_account allow_once)

lemma chain_typed:
  assumes "\<And>q. answers.rel s (h q)"
  shows "answers.rel s (RateLimitAuth E h q)" "answers.rel s (RateLimitWebhook E h q)"
    "answers.rel s (tryM (resolveUser E q) throw h)"
  unfolding RateLimitAuth_def RateLimitWebhook_def resolveUser_def Let_def
  by (intro answers.rel_intros assms answers_error answers_quiet [OF quiet_middleware(1)]
      answers_quiet [OF quiet_middleware(2)] answers_quiet [OF quiet_middleware(3)] proper_Wrap)+

lemma router_typed: "answers.rel (success r) (NewRouter E r q)"
proof (cases "needs_token r q")
  case True
  then show ?thesis
    by (rule chain_token [of r q E]) (simp_all only: chain_typed handlers_typed)
next
  case False
  then show ?thesis
    by (rule chain_open [of r q E]) (simp_all only: chain_typed handlers_typed)
qed

lemma serve_typed:
  assumes "w_out w = []"
  shows "list_all (typed (success r)) (w_out (snd (serve E r q w)))"
proof -
  let ?v = "snd (NewRouter E r (q\<lparr>req_user := None\<rparr>) w)"
  have "grows (success r) w ?v" using router_typed by (rule answers.relD)
  then have t: "list_all (typed (success r)) (w_out ?v)" using assms by (auto simp: grows_def)
  have "w_out ?v \<noteq> []"
    using writes12D [OF chain12, of "q\<lparr>req_user := None\<rparr>" E r w] assms by fastforce
  then show ?thesis using t serve_out [OF assms] by simp
qed

end
