(* ===== verification/Paging.thy ===== *)
theory Paging
  imports Refusals
begin

text \<open>
  The list endpoints as a client uses them: it asks for a page and passes the cursor of
  the response on with the next request, until there is none.  The locale
  \<^verbatim>\<open>listing\<close> states what such an endpoint answers; with the laws of
  \<^verbatim>\<open>keyset\<close> and the round trip of the cursor encoding it follows that the
  client gets every row once, newest first.  It is interpreted on the comments, the
  notifications, the home feed, a user's videos and the two follow lists.
\<close>

section \<open>The client\<close>

definition with_cursor :: "string \<Rightarrow> request \<Rightarrow> request" where
  "with_cursor s q = q\<lparr>req_query := (req_query q)(''cursor'' := s)\<rparr>"

lemma with_cursor_simps [simp]:
  "req_user (with_cursor s q) = req_user q" "req_param (with_cursor s q) = req_param q"
  "req_query (with_cursor s q) ''cursor'' = s" "req_query (with_cursor s q) ''limit'' = req_query q ''limit''"
  by (simp_all add: with_cursor_def)

fun http_walk :: "nat \<Rightarrow> (request \<Rightarrow> unit io) \<Rightarrow> request \<Rightarrow> string \<Rightarrow> world \<Rightarrow> json list" where
  "http_walk 0 h q s w = []"
| "http_walk (Suc fuel) h q s w =
     (case r_body (last (w_out (snd (h (with_cursor s q) w)))) of
        BodyList items next_page \<Rightarrow>
          (case next_page of None \<Rightarrow> items | Some s' \<Rightarrow> items @ http_walk fuel h q s' w)
      | _ \<Rightarrow> [])"

section \<open>What a list endpoint answers\<close>

definition list_response ::
  "env \<Rightarrow> ('r \<Rightarrow> time \<times> uuid) \<Rightarrow> ('r \<Rightarrow> json) \<Rightarrow> int \<Rightarrow> 'r list \<Rightarrow> response"
where
  "list_response E key obj limit page =
     \<lparr>r_status = 200, r_body = BodyList (map obj page) (response_cursor E key limit page)\<rparr>"

text \<open>Keys the cursor encoding can carry; every row a statement inserts has one.\<close>

definition wire_key :: "time \<times> uuid \<Rightarrow> bool" where
  "wire_key k \<longleftrightarrow> rfc3339_ok (fst k) \<and> fst k \<noteq> zero_time \<and> snd k \<noteq> uuid_Nil"

lemma page_params_cursor:
  assumes "parseLimit (req_query q ''limit'') = Inr limit" "DecodeCursor E s = Inr c"
  shows "page_params E (with_cursor s q) = Inr (limit, cursor_arg c)"
  using assms by (simp add: page_params_def)

lemma decode_start: "DecodeCursor E [] = Inr (zero_time, uuid_Nil)" "cursor_arg (zero_time, uuid_Nil) = None"
  by (simp_all add: DecodeCursor_def cursor_arg_def)

lemma response_cursor_cases:
  assumes "uuid_codec E" "limit > 0" "\<forall>r \<in> set page. wire_key (key r)"
  shows "case response_cursor E key limit page of
      None \<Rightarrow> next_cursor key (nat limit) page = None
    | Some s \<Rightarrow> \<exists>c. DecodeCursor E s = Inr c \<and> next_cursor key (nat limit) page = Some c \<and>
        cursor_arg c = Some c"
proof (cases "int (length page) = limit")
  case True
  then have ne: "page \<noteq> []" using assms(2) by auto
  let ?k = "key (last page)"
  have k: "wire_key ?k" using assms(3) ne by simp
  then have "DecodeCursor E (EncodeCursor E (fst ?k) (snd ?k)) = Inr (fst ?k, snd ?k)"
    using assms(1) by (intro cursor_roundtrip) (simp_all add: wire_key_def)
  then show ?thesis
    using True ne k by (auto simp: response_cursor_def next_cursor_def cursor_arg_def wire_key_def)
next
  case False
  then show ?thesis using assms(2) by (auto simp: response_cursor_def next_cursor_def)
qed

locale listing =
  fixes E :: env and key :: "'r \<Rightarrow> time \<times> uuid" and obj :: "request \<Rightarrow> world \<Rightarrow> 'r \<Rightarrow> json"
    and h :: "request \<Rightarrow> unit io" and allowed :: "request \<Rightarrow> world \<Rightarrow> bool"
    and table :: "request \<Rightarrow> world \<Rightarrow> 'r list"
  assumes answer: "w_faults w = [] \<Longrightarrow> allowed q w \<Longrightarrow> page_params E q = Inr (limit, cur) \<Longrightarrow>
      w_out (snd (h q w)) =
        w_out w @ [list_response E key (obj q w) limit (keyset_page key cur (nat limit) (table q w))]"
    and cursor_free: "allowed (with_cursor s q) w = allowed q w" "table (with_cursor s q) w = table q w"
      "obj (with_cursor s q) w = obj q w"
    and keys: "constraints (w_db w) \<Longrightarrow> distinct (map key (table q w))"

sublocale listing \<subseteq> pages: keyset key "\<lambda>(q, w). table q w" "\<lambda>(q, w). constraints (w_db w)"
  by unfold_locales (auto intro: keys)

context listing
begin

lemma walk_step:
  assumes "w_faults w = []" "allowed q w" "uuid_codec E" "parseLimit (req_query q ''limit'') = Inr limit"
    "limit > 0" "\<forall>r \<in> set (table q w). wire_key (key r)" "constraints (w_db w)"
  shows "DecodeCursor E s = Inr c \<Longrightarrow> http_walk fuel h q s w =
    map (obj q w) (walk_pages fuel key (cursor_arg c) (nat limit) (table q w))"
proof (induction fuel arbitrary: s c)
  case (Suc fuel)
  let ?page = "keyset_page key (cursor_arg c) (nat limit) (table q w)"
  have "page_params E (with_cursor s q) = Inr (limit, cursor_arg c)"
    by (rule page_params_cursor [OF assms(4) Suc.prems])
  then have "w_out (snd (h (with_cursor s q) w)) = w_out w @ [list_response E key (obj q w) limit ?page]"
    using answer [of w "with_cursor s q" limit "cursor_arg c"] assms(1,2) by (simp add: cursor_free)
  then have step: "http_walk (Suc fuel) h q s w =
      (case response_cursor E key limit ?page of None \<Rightarrow> map (obj q w) ?page
       | Some s' \<Rightarrow> map (obj q w) ?page @ http_walk fuel h q s' w)"
    by (simp add: list_response_def)
  have "set ?page \<subseteq> set (table q w)"
    using pages.page_subset [of "cursor_arg c" "nat limit" "(q, w)"] by simp
  then have n: "\<forall>r \<in> set ?page. wire_key (key r)" using assms(6) by blast
  note rc = response_cursor_cases [OF assms(3,5) n]
  show ?case
  proof (cases "response_cursor E key limit ?page")
    case None
    then show ?thesis using rc by (simp add: step del: http_walk.simps)
  next
    case (Some s')
    then obtain c' where c': "DecodeCursor E s' = Inr c'" "next_cursor key (nat limit) ?page = Some c'"
      "cursor_arg c' = Some c'" using rc by auto
    then show ?thesis using Some Suc.IH [OF c'(1)] by (simp add: step del: http_walk.simps)
  qed
qed simp

lemma walk_all:
  assumes "w_faults w = []" "allowed q w" "uuid_codec E" "parseLimit (req_query q ''limit'') = Inr limit"
    "limit > 0" "\<forall>r \<in> set (table q w). wire_key (key r)" "constraints (w_db w)"
    "length (table q w) < fuel * nat limit"
  shows "http_walk fuel h q [] w = map (obj q w) (rev (sort_key key (table q w)))"
  using walk_step [OF assms(1-7) decode_start(1), of fuel] assms(5,7,8)
    pages.walk_complete [of "(q, w)" "nat limit" fuel]
  by (simp add: decode_start(2))

end

section \<open>Distinct keys\<close>

lemma distinct_filter_key:
  "distinct (map f xs) \<Longrightarrow> (\<And>x. f x = snd (k x)) \<Longrightarrow> distinct (map k (filter P xs))"
  by (auto simp: distinct_map inj_on_def distinct_filter)

lemma distinct_map_filter_key:
  assumes "distinct (map f xs)" "\<And>x y. g x = Some y \<Longrightarrow> snd (k y) = f x"
  shows "distinct (map k (List.map_filter g xs))"
  using assms(1)
proof (induction xs)
  case (Cons x xs)
  have "k y \<noteq> k z" if y: "g x = Some y" and z: "z \<in> set (List.map_filter g xs)" for y z
  proof -
    obtain x' where "x' \<in> set xs" "g x' = Some z"
      using z by (auto simp: List.map_filter_def)
    then have "snd (k z) \<in> f ` set xs" "snd (k y) = f x" using assms(2) y by auto
    then show ?thesis using Cons.prems by (metis distinct.simps(2) list.map(2) list.set_map)
  qed
  then show ?case using Cons by (auto simp: map_filter_simps split: option.split)
qed (simp add: map_filter_simps)

lemma video_keys_distinct: "videos_ok d \<Longrightarrow> distinct (map video_key (filter P (videos d)))"
  by (rule distinct_filter_key [where f = v_ID]) (simp_all add: videos_ok_def video_key_def)

lemma distinct_map_filter: "distinct (map f xs) \<Longrightarrow> distinct (map f (filter P xs))"
  by (simp add: distinct_map inj_on_def)

lemma feed_keys_distinct: "videos_ok d \<Longrightarrow> distinct (map detail_key (feed_rows d u vw))"
  unfolding feed_rows_def
  by (intro distinct_map_filter distinct_map_filter_key [where f = v_ID])
    (auto simp: videos_ok_def join_owner_def detail_key_def video_key_def)

lemma comment_keys_distinct: "comments_ok d \<Longrightarrow> distinct (map comment_key (video_comment_rows d i))"
  unfolding video_comment_rows_def
  by (intro distinct_map_filter_key [where f = c_ID])
    (auto simp: comments_ok_def join_author_def comment_key_def distinct_map_filter)

lemma notification_keys_distinct:
  "notifications_ok d \<Longrightarrow> distinct (map notification_key (filter P (notifications d)))"
  by (rule distinct_filter_key [where f = n_ID]) (simp_all add: notifications_ok_def notification_key_def)

lemma follower_keys_distinct:
  assumes "follows_ok d"
  shows "distinct (map follow_key (follower_rows d v t))" "distinct (map follow_key (following_rows d t))"
proof -
  have pairs: "distinct (map (\<lambda>f. (f_FollowerID f, f_FolloweeID f)) (follows d))"
    using assms by (simp add: follows_ok_def)
  have "distinct (map f_FollowerID (filter (\<lambda>f. f_FolloweeID f = t) (follows d)))"
    "distinct (map f_FolloweeID (filter (\<lambda>f. f_FollowerID f = t) (follows d)))"
    using distinct_map_filter [OF pairs] by (auto simp: distinct_map inj_on_def)
  then show "distinct (map follow_key (follower_rows d v t))" "distinct (map follow_key (following_rows d t))"
    unfolding follower_rows_def following_rows_def
    by (auto intro!: distinct_map_filter_key simp: follow_key_def dest: find_row_Some)
qed

section \<open>Runs without failures leave the world alone\<close>

definition calm_same :: "world \<Rightarrow> world \<Rightarrow> bool" where
  "calm_same w w' \<longleftrightarrow> (w_faults w = [] \<longrightarrow> w' = w)"

interpretation calmly: step_rel calm_same
  by unfold_locales (auto simp: calm_same_def)

lemma calmly_base: "calmly.rel fault" "calmly.rel now_io"
  by (simp_all add: calmly.rel_def calm_same_def calm_fault now_io_def)

lemma calmly_VideoObject: "calmly.rel (VideoObject E r b)"
proof -
  have p: "calmly.rel (PresignGet E k x)" for k x
    unfolding PresignGet_def
    by ((intro calmly.rel_intros calmly_base | simp add: calmly.rel_def calm_same_def)+)
  show ?thesis
    unfolding VideoObject_def buildThumbnailURL_def buildPlaylistURL_def Let_def
    by (intro calmly.rel_intros calmly_base p)
qed

definition feed_object :: "env \<Rightarrow> world \<Rightarrow> VideoDetailRow \<Rightarrow> json" where
  "feed_object E w r =
     (case fst (videoObjectFromFeedRow E r w) of Inl _ \<Rightarrow> JNull | Inr j \<Rightarrow> j)"

lemma feed_object_run:
  assumes "w_faults w = []"
  shows "videoObjectFromFeedRow E r w = (Inr (feed_object E w r), w)"
proof -
  let ?m = "VideoObject E r False"
  obtain j where "fst (?m w) = Inr j" using succeeds_VideoObject [of E r False] by (auto simp: succeeds_def)
  moreover have "snd (?m w) = w"
    using calmly.relD [OF calmly_VideoObject] assms by (auto simp: calm_same_def)
  ultimately have "?m w = (Inr j, w)" by (metis prod.collapse)
  then show ?thesis by (simp add: feed_object_def videoObjectFromFeedRow_def)
qed

lemma feed_objects_run:
  "w_faults w = [] \<Longrightarrow> mapM rs (videoObjectFromFeedRow E) w = (Inr (map (feed_object E w) rs), w)"
  by (induction rs) (simp_all add: run_simps feed_object_run)

section \<open>The endpoints\<close>

lemma page_params_parts:
  "page_params E q = Inr (limit, cur) \<Longrightarrow> parseLimit (req_query q ''limit'') = Inr limit \<and>
    (\<exists>c. DecodeCursor E (req_query q ''cursor'') = Inr c \<and> cursor_arg c = cur)"
  by (auto simp: page_params_def split: sum.splits)

definition comments_allowed :: "env \<Rightarrow> request \<Rightarrow> world \<Rightarrow> bool" where
  "comments_allowed E q w \<longleftrightarrow> env_wired E DepQueries \<and>
     (case parseAuthVideoParam E q of
        Inl _ \<Rightarrow> False
      | Inr (u, i) \<Rightarrow> (case access_result (w_db w) (u_ID u) i of Inl _ \<Rightarrow> False | Inr _ \<Rightarrow> True))"

definition comments_table :: "env \<Rightarrow> request \<Rightarrow> world \<Rightarrow> CommentRow list" where
  "comments_table E q w =
     (case parseAuthVideoParam E q of Inl _ \<Rightarrow> [] | Inr (u, i) \<Rightarrow> video_comment_rows (w_db w) i)"

lemma parse_with_cursor: "parseAuthVideoParam E (with_cursor s q) = parseAuthVideoParam E q"
  by (cases "req_user q") (simp_all add: parseAuthVideoParam_def)

interpretation comment_list: listing E comment_key "\<lambda>_ _. commentObjectFromRow" "ListComments E"
  "comments_allowed E" "comments_table E" for E
proof (unfold_locales, goal_cases)
  case (1 w q limit cur)
  then show ?case
    by (auto simp: ListComments_def comments_allowed_def comments_table_def run_simps video_access_calm
        calm_query calm_write RespondList_def ListCommentsByVideo_def list_response_def
        dest!: page_params_parts split: sum.splits)
qed (auto simp: comments_allowed_def comments_table_def parse_with_cursor constraints_def
    comment_keys_distinct split: sum.split)

definition notifications_allowed :: "env \<Rightarrow> request \<Rightarrow> world \<Rightarrow> bool" where
  "notifications_allowed E q w \<longleftrightarrow> env_wired E DepQueries \<and> req_user q \<noteq> None"

definition notifications_table :: "request \<Rightarrow> world \<Rightarrow> Notification list" where
  "notifications_table q w = (case req_user q of
      None \<Rightarrow> [] | Some u \<Rightarrow> filter (\<lambda>n. n_UserID n = u_ID u) (notifications (w_db w)))"

interpretation notification_list: listing E notification_key "\<lambda>_ _. notificationObjectFromRow"
  "NotificationHandler_List E" "notifications_allowed E" notifications_table for E
  by unfold_locales
    (auto simp: NotificationHandler_List_def notifications_allowed_def notifications_table_def run_simps
      calm_query calm_write RespondList_def ListNotifications_def list_response_def constraints_def
      notification_keys_distinct split: option.split)

definition feed_allowed :: "env \<Rightarrow> request \<Rightarrow> world \<Rightarrow> bool" where
  "feed_allowed E q w \<longleftrightarrow> env_wired E DepQueries \<and> env_wired E DepR2 \<and> env_wired E DepConfig \<and>
     req_user q \<noteq> None"

definition feed_table :: "request \<Rightarrow> world \<Rightarrow> VideoDetailRow list" where
  "feed_table q w = (case req_user q of
      None \<Rightarrow> [] | Some u \<Rightarrow> feed_rows (w_db w) (u_ID u) (Some (u_ID u)))"

interpretation feed_list: listing E detail_key "\<lambda>_ w. feed_object E w" "HomeFeed E"
  "feed_allowed E" feed_table for E
  by unfold_locales
    (auto simp: HomeFeed_def feed_allowed_def feed_table_def run_simps calm_query calm_write
      RespondList_def ListFeedVideos_def list_response_def constraints_def feed_keys_distinct
      feed_objects_run split: option.split)

text \<open>The lists of a user named in the path.\<close>

definition path_user :: "env \<Rightarrow> request \<Rightarrow> db \<Rightarrow> (User \<times> User) option" where
  "path_user E q d =
     (case req_user q of
        None \<Rightarrow> None
      | Some viewer \<Rightarrow>
         (case env_uuid_Parse E (req_param q ''id'') of
            None \<Rightarrow> None
          | Some i \<Rightarrow> map_option (Pair viewer) (find_row (\<lambda>u. u_ID u = i) (users d))))"

lemma path_userD:
  "path_user E q d = Some (viewer, u) \<Longrightarrow> req_user q = Some viewer \<and>
    env_uuid_Parse E (req_param q ''id'') = Some (u_ID u) \<and> find_row (\<lambda>x. u_ID x = u_ID u) (users d) = Some u"
  by (auto simp: path_user_def split: option.splits dest: find_row_Some)

lemma path_user_cursor: "path_user E (with_cursor s q) d = path_user E q d"
  by (cases "req_user q") (simp_all add: path_user_def)

definition follows_allowed :: "env \<Rightarrow> request \<Rightarrow> world \<Rightarrow> bool" where
  "follows_allowed E q w \<longleftrightarrow> env_wired E DepQueries \<and>
     (case path_user E q (w_db w) of
        None \<Rightarrow> False | Some (viewer, u) \<Rightarrow> may_list_follows (w_db w) (u_ID viewer) u)"

definition followers_table :: "env \<Rightarrow> request \<Rightarrow> world \<Rightarrow> FollowRow list" where
  "followers_table E q w = (case path_user E q (w_db w) of
      None \<Rightarrow> [] | Some (viewer, u) \<Rightarrow> follower_rows (w_db w) (u_ID viewer) (u_ID u))"

definition following_table :: "env \<Rightarrow> request \<Rightarrow> world \<Rightarrow> FollowRow list" where
  "following_table E q w = (case path_user E q (w_db w) of
      None \<Rightarrow> [] | Some (viewer, u) \<Rightarrow> following_rows (w_db w) (u_ID u))"

interpretation follower_list: listing E follow_key "\<lambda>_ _. followListItem" "UserHandler_ListFollowers E"
  "follows_allowed E" "followers_table E" for E
  by unfold_locales
    (auto simp: UserHandler_ListFollowers_def follows_allowed_def followers_table_def run_simps
      guard_calm calm_query calm_write RespondList_def ListFollowers_def list_response_def
      constraints_def follower_keys_distinct path_user_cursor dest!: path_userD split: option.splits)

interpretation following_list: listing E follow_key "\<lambda>_ _. followListItem" "UserHandler_ListFollowing E"
  "follows_allowed E" "following_table E" for E
  by unfold_locales
    (auto simp: UserHandler_ListFollowing_def follows_allowed_def following_table_def run_simps
      guard_calm calm_query calm_write RespondList_def ListFollowing_def list_response_def
      constraints_def follower_keys_distinct path_user_cursor dest!: path_userD split: option.splits)

definition videos_allowed :: "env \<Rightarrow> request \<Rightarrow> world \<Rightarrow> bool" where
  "videos_allowed E q w \<longleftrightarrow>
     (case path_user E q (w_db w) of
        None \<Rightarrow> False | Some (viewer, u) \<Rightarrow> may_list_follows (w_db w) (u_ID viewer) u)"

definition videos_table :: "env \<Rightarrow> request \<Rightarrow> world \<Rightarrow> Video list" where
  "videos_table E q w = (case path_user E q (w_db w) of
      None \<Rightarrow> [] | Some (viewer, u) \<Rightarrow> user_video_rows (w_db w) (u_ID u) (u_ID u = u_ID viewer))"

definition video_item :: "env \<Rightarrow> request \<Rightarrow> world \<Rightarrow> Video \<Rightarrow> json" where
  "video_item E q w v = (case path_user E q (w_db w) of
      None \<Rightarrow> JNull | Some (viewer, u) \<Rightarrow> videoToItem (u_ID u = u_ID viewer) v)"

lemma user_videos_page_calm:
  assumes "w_faults w = []" "page_params E q = Inr (limit, cur)"
  shows "w_out (snd (user_videos_page E q u own w)) = w_out w @
    [list_response E video_key (videoToItem own) limit
       (keyset_page video_key cur (nat limit) (user_video_rows (w_db w) (u_ID u) own))]"
  using assms
  by (simp add: user_videos_page_def run_simps ListVideosByUser_def calm_query calm_write
      RespondList_def list_response_def)

lemma user_videos_guard:
  assumes "w_faults w = []" "path_user E q (w_db w) = Some (viewer, u)"
    "may_list_follows (w_db w) (u_ID viewer) u"
  shows "GetUserVideos E q w = user_videos_page E q u (u_ID u = u_ID viewer) w"
proof -
  note p = path_userD [OF assms(2)]
  have g: "GetUserByID (u_ID u) w = (Inr u, w)"
    using p assms(1) by (simp add: GetUserByID_def calm_query one_row_def)
  have f: "IsFollowing (u_ID viewer) (u_ID u) w = (Inr (follows_edge (w_db w) (u_ID viewer) (u_ID u)), w)"
    using assms(1) by (simp add: IsFollowing_def calm_query)
  show ?thesis
    using p assms(3) by (auto simp: GetUserVideos_def Let_def tryM_run g f may_list_follows_def)
qed

interpretation video_list: listing E video_key "video_item E" "GetUserVideos E"
  "videos_allowed E" "videos_table E" for E
proof (unfold_locales, goal_cases)
  case (1 w q limit cur)
  then obtain viewer u where p: "path_user E q (w_db w) = Some (viewer, u)"
    and m: "may_list_follows (w_db w) (u_ID viewer) u"
    by (auto simp: videos_allowed_def split: option.splits)
  have "video_item E q w = videoToItem (u_ID u = u_ID viewer)"
    by (rule ext) (simp add: video_item_def p)
  then show ?case
    using user_videos_page_calm [OF 1(1,3)] by (simp add: user_videos_guard [OF 1(1) p m] videos_table_def p)
qed (auto simp: videos_allowed_def videos_table_def video_item_def path_user_cursor constraints_def
    user_video_rows_def video_keys_distinct split: option.split)

text \<open>A client that may see a video and follows the cursors gets every comment once.\<close>

lemma comment_walk_complete:
  assumes "w_faults w = []" "comments_allowed E q w" "uuid_codec E"
    "parseLimit (req_query q ''limit'') = Inr limit" "constraints (w_db w)"
    "list_all (\<lambda>r. wire_key (comment_key r)) (comments_table E q w)"
    "length (comments_table E q w) < fuel * nat limit"
  shows "http_walk fuel (ListComments E) q [] w =
    map commentObjectFromRow (rev (sort_key comment_key (comments_table E q w)))"
  using comment_list.walk_all [OF assms(1-4) parseLimit_pos [OF assms(4)]] assms(5-7)
  by (simp add: list_all_iff)

end
