(* ===== verification/Patterns.thy ===== *)
theory Patterns
  imports Lists "HOL-Library.Sublist"
begin

text \<open>
  Search patterns and offset cursors: escaping makes a LIKE pattern literal, so a
  search term matches exactly the texts that contain it; an offset cursor decodes to
  the offset it was made of as long as that is accepted at all.
\<close>

section \<open>Escaping\<close>

definition escape1 :: "char \<Rightarrow> string" where
  "escape1 c = (if c \<in> {CHR 0x5C, CHR ''%'', CHR ''_''} then [CHR 0x5C, c] else [c])"

lemma replace_char_append: "replace_char c r (s @ t) = replace_char c r s @ replace_char c r t"
  by (simp add: replace_char_def)

lemma escape_eq: "escapeSQLWildcards s = concat (map escape1 s)"
proof (induction s)
  case Nil
  then show ?case by (simp add: escapeSQLWildcards_def replace_char_def)
next
  case (Cons c s)
  have "escapeSQLWildcards (c # s) = escapeSQLWildcards [c] @ escapeSQLWildcards s"
    using replace_char_append [where s = "[c]" and t = s]
    by (simp add: escapeSQLWildcards_def Let_def replace_char_append)
  moreover have "escapeSQLWildcards [c] = escape1 c"
    by (auto simp: escapeSQLWildcards_def escape1_def replace_char_def Let_def)
  ultimately show ?case using Cons by simp
qed

lemma ascii_lower_special:
  "ascii_lower c \<in> {CHR 0x5C, CHR ''%'', CHR ''_''} \<longleftrightarrow> c \<in> {CHR 0x5C, CHR ''%'', CHR ''_''}"
proof -
  have "of_byte (byte c + 32) \<noteq> x" if "65 \<le> byte c" "byte c \<le> 90" "x \<in> {CHR 0x5C, CHR ''%'', CHR ''_''}" for x
  proof
    assume "of_byte (byte c + 32) = x"
    then have "byte x = byte c + 32" using that(2) byte_of_byte [of "byte c + 32"] by simp
    then show False using that by (auto simp: byte_def)
  qed
  moreover have "\<not> (65 \<le> byte c \<and> byte c \<le> 90)" if "c \<in> {CHR 0x5C, CHR ''%'', CHR ''_''}"
    using that by (auto simp: byte_def)
  ultimately show ?thesis unfolding ascii_lower_def by (auto split: if_splits)
qed

lemma ascii_lower_fixed: "c \<in> {CHR 0x5C, CHR ''%'', CHR ''_''} \<Longrightarrow> ascii_lower c = c"
  by (auto simp: ascii_lower_def byte_def)

lemma lower_escape1: "map ascii_lower (escape1 c) = escape1 (ascii_lower c)"
proof (cases "c \<in> {CHR 0x5C, CHR ''%'', CHR ''_''}")
  case True
  then show ?thesis using ascii_lower_fixed [OF True] ascii_lower_fixed [of "CHR 0x5C"]
    by (simp add: escape1_def)
next
  case False
  then show ?thesis using ascii_lower_special [of c] by (simp add: escape1_def)
qed

lemma lower_escape:
  "map ascii_lower (escapeSQLWildcards s) = escapeSQLWildcards (map ascii_lower s)"
  by (simp add: escape_eq map_concat lower_escape1 comp_def)

section \<open>Matching\<close>

lemma like_literal: "like_match (concat (map escape1 q) @ p) s \<longleftrightarrow> (\<exists>t. s = q @ t \<and> like_match p t)"
proof (induction q arbitrary: s)
  case (Cons c q)
  have "like_match (escape1 c @ r) s = (case s of [] \<Rightarrow> False | d # ds \<Rightarrow> d = c \<and> like_match r ds)" for r
    by (auto simp: escape1_def like_match.simps(2) split: list.split)
  then show ?case using Cons by (auto split: list.split)
qed simp

lemma like_percent_end: "like_match ''%'' s"
  by (induction s) (simp_all add: like_match.simps(2))

lemma like_percent: "like_match (CHR ''%'' # p) s \<longleftrightarrow> (\<exists>u t. s = u @ t \<and> like_match p t)"
proof (induction s)
  case (Cons c s)
  have "like_match (CHR ''%'' # p) (c # s) \<longleftrightarrow> like_match p (c # s) \<or> like_match (CHR ''%'' # p) s"
    by (subst like_match.simps(2)) simp
  also have "\<dots> \<longleftrightarrow> (\<exists>u t. c # s = u @ t \<and> like_match p t)"
    unfolding Cons by (metis append_Cons append_Nil append_eq_Cons_conv)
  finally show ?case .
qed (auto simp: like_match.simps(2))

lemma like_around: "like_match (around (escapeSQLWildcards q)) s \<longleftrightarrow> sublist q s"
  unfolding around_def escape_eq
  by (auto simp: like_percent like_literal like_percent_end sublist_def)

lemma ilike_contains:
  "ilike s (around (escapeSQLWildcards q)) \<longleftrightarrow> sublist (map ascii_lower q) (map ascii_lower s)"
proof -
  have "map ascii_lower (around p) = around (map ascii_lower p)" for p
    using ascii_lower_fixed [of "CHR ''%''"] by (simp add: around_def)
  then show ?thesis by (simp add: ilike_def lower_escape like_around)
qed

section \<open>Offset cursors\<close>

lemma parse_encode_offset:
  assumes "int64_ok n"
  shows "parseOffsetCursor (encodeOffsetCursor n) =
    (if n < 0 \<or> n > maxOffset then Inl (Opaque ''invalid cursor format'') else Inr n)"
proof -
  obtain t where t: "t = ''offset:'' @ FormatInt n" by blast
  have "offset_text t = FormatInt n" "t \<noteq> []"
    by (simp_all add: t offset_text_def prefix_of_def)
  then show ?thesis
    using assms
    unfolding parseOffsetCursor_def encodeOffsetCursor_def Let_def t [symmetric]
    by (simp add: b64_encode_Nil_iff b64_decode_encode ParseInt64_FormatInt)
qed

end
