(* ===== verification/Examples.thy ===== *)
theory Examples
  imports Samples Paging Lockout Patterns
begin

text \<open>
  More of the concrete world: a worker whose subprocesses succeed and that has the tables
  to itself, requests that carry a token or a path parameter, and a few runs evaluated.
\<close>

definition K0 :: worker where
  "K0 = \<lparr>wk_ffprobe = (\<lambda>_. ProbeExit ''no such file''),
         wk_ffmpeg = (\<lambda>_ _. Inr []), wk_odd_int32 = - 2147483648, wk_others = (\<lambda>_ d. d)\<rparr>"

lemma K0_alone: "alone K0"
  by (simp add: alone_def K0_def)

lemma world0_simps [simp]:
  "w_db world0 = db0" "w_clock world0 = 4000" "w_faults world0 = []" "w_out world0 = []"
  "w_next world0 = 0" "w_queue world0 = []" "w_objects world0 = []"
  by (simp_all add: world0_def)

definition empty_world :: world where
  "empty_world = world0\<lparr>w_db := empty_db\<rparr>"

definition bearer_request :: "string \<Rightarrow> string \<Rightarrow> request" where
  "bearer_request t i = (request0 None i)\<lparr>req_header :=
     (\<lambda>h. if h = ''Authorization'' then ''Bearer '' @ t else [])\<rparr>"

lemma bearer_simps [simp]:
  "req_param (bearer_request t i) n = i" "req_query (bearer_request t i) n = []"
  "req_user (bearer_request t i) = None"
  by (simp_all add: bearer_request_def request0_def)

lemma bearer_extract: "extractBearer (bearer_request ''good'' i) = Inr ''good''"
  by (simp add: extractBearer_def bearer_request_def request0_def Let_def bearer_prefix_def prefix_of_def)

lemma E0_good: "env_CheckToken E0 ''good'' = Inr ''zalice''"
  by (simp add: E0_def)

text \<open>The token is alice's.\<close>

lemma good_token:
  assumes "w_faults w = []" "users (w_db w) = [alice, bob, carol]"
  shows "resolveUser E0 (bearer_request ''good'' i) w =
    (Inr ((bearer_request ''good'' i)\<lparr>req_user := Some alice\<rparr>), w)"
  using assms
  by (simp add: resolveUser_def extractBearer_def bearer_request_def request0_def Let_def bearer_prefix_def
      prefix_of_def CheckToken_def run_simps calm_fault E0_good getOrCreateUser_def GetUserByZitadelID_def
      calm_query one_row_def find_row_def alice_def bob_def carol_def user0_def)

definition calm_world :: world where
  "calm_world = at_step 5000 [] world0"

lemma calm_world_simps [simp]:
  "w_faults calm_world = []" "w_db calm_world = db0" "w_clock calm_world = 5000" "w_out calm_world = []"
  by (simp_all add: calm_world_def at_step_def world0_def)

lemma run_request:
  "w_clock w \<le> t \<Longrightarrow> run E K w (snd (serve E r q (at_step t fs w)))"
  by (intro r_into_rtranclp system_step.request)

lemma run_calm: "run E K world0 (snd (serve E r q calm_world))"
  unfolding calm_world_def by (rule run_request) (simp add: world0_def)

lemma db0_users: "users db0 = [alice, bob, carol]"
  by (simp add: db0_def)

lemma parse10: "env_uuid_Parse E0 ''10'' = Some 10"
  by (simp add: E0_def parse_nat_def is_digit_def digits_val_def digit_val_def byte_def)

lemma db0_videos: "videos db0 = [video0]"
  by (simp add: db0_def)

definition inactive_world :: world where
  "inactive_world = world0\<lparr>w_db := db0\<lparr>users := [alice\<lparr>u_IsActive := False\<rparr>, bob, carol]\<rparr>\<rparr>"

lemma inactive_constraints: "constraints (w_db inactive_world)"
  by (simp add: inactive_world_def constraints_def users_ok_def videos_ok_def follows_ok_def likes_ok_def
      comments_ok_def notifications_ok_def sample_defs user_row_ok_def video_row_ok_def
      comment_row_ok_def char_length_def int32_ok_def)

text \<open>Alice deletes her video.\<close>

lemma deleted_constraints:
  "constraints (db0\<lparr>videos := [video0\<lparr>v_Status := DELETED, v_DeletedAt := Some 5000\<rparr>]\<rparr>)"
  by (simp add: constraints_def users_ok_def videos_ok_def follows_ok_def likes_ok_def
      comments_ok_def notifications_ok_def sample_defs user_row_ok_def video_row_ok_def
      comment_row_ok_def char_length_def int32_ok_def)

lemma handler_delete_run:
  assumes "w_faults w = []" "w_db w = db0" "w_clock w = 5000" "req_user q = Some alice"
    "req_param q ''id'' = ''10''"
  shows "videos (w_db (snd (DeleteVideo E0 q w))) = [video0\<lparr>v_Status := DELETED, v_DeletedAt := Some 5000\<rparr>]"
    "w_next (snd (DeleteVideo E0 q w)) = w_next w" "fst (DeleteVideo E0 q w) = Inr ()"
proof -
  let ?v = "video0\<lparr>v_Status := DELETED, v_DeletedAt := Some 5000\<rparr>"
  let ?w = "w\<lparr>w_db := db0\<lparr>videos := [?v]\<rparr>\<rparr>"
  have vs: "videos db0 = [video0]" "v_ID video0 = 10" "v_UserID video0 = 1" "v_Status video0 = READY"
    "u_ID alice = 1" by (simp_all add: sample_defs)
  have p: "parseAuthVideoParam E0 q = Inr (alice, 10)"
    using assms(4,5) by (simp add: parseAuthVideoParam_def parse10)
  have g: "GetVideoByID 10 w = (Inr video0, w)"
    using assms(1,2) by (simp add: GetVideoByID_def calm_query one_row_def find_row_def vs)
  have m: "MarkVideoDeleted 10 1 w = (Inr ?v, ?w)"
    using assms(1-3) deleted_constraints
    by (simp add: MarkVideoDeleted_def update_video_one_def calm_exec find_row_def update_rows_def vs pg_now_def)
  have "DeleteVideo E0 q w = tryM (EnqueueCleanupVideo (env_uuid_String E0 10) cleanup_delay)
      (\<lambda>_. write_response 204 NoBody) (\<lambda>_. write_response 204 NoBody) ?w"
    by (simp add: DeleteVideo_def p g m tryM_run vs) (simp add: E0_def vs)
  moreover have "videos (w_db (snd (tryM (EnqueueCleanupVideo s d)
      (\<lambda>_. write_response 204 NoBody) (\<lambda>_. write_response 204 NoBody) ?w))) = [?v] \<and>
      w_next (snd (tryM (EnqueueCleanupVideo s d)
      (\<lambda>_. write_response 204 NoBody) (\<lambda>_. write_response 204 NoBody) ?w)) = w_next w \<and>
      fst (tryM (EnqueueCleanupVideo s d)
      (\<lambda>_. write_response 204 NoBody) (\<lambda>_. write_response 204 NoBody) ?w) = Inr ()" for s d
    using assms(1)
    by (simp add: EnqueueCleanupVideo_def NewCleanupVideoTask_def run_simps calm_client calm_write)
  ultimately show "videos (w_db (snd (DeleteVideo E0 q w))) = [?v]"
    "w_next (snd (DeleteVideo E0 q w)) = w_next w" "fst (DeleteVideo E0 q w) = Inr ()" by simp_all
qed

lemma delete_run:
  "videos (w_db (snd (serve E0 DeleteVideoRoute (bearer_request ''good'' ''10'') calm_world))) =
     [video0\<lparr>v_Status := DELETED, v_DeletedAt := Some 5000\<rparr>]"
  "w_next (snd (serve E0 DeleteVideoRoute (bearer_request ''good'' ''10'') calm_world)) = 0"
proof -
  let ?q = "bearer_request ''good'' ''10''"
  obtain w where w: "w_faults w = []" "w_db w = db0" "w_clock w = 5000" "w_next w = 0"
    and r: "RateLimitAuth E0 (route_handler E0 DeleteVideoRoute) (?q\<lparr>req_user := Some alice\<rparr>) calm_world =
      DeleteVideo E0 (?q\<lparr>req_user := Some alice\<rparr>) w"
    by (atomize_elim, simp add: RateLimitAuth_def Let_def run_simps allow_def set_entry_def E0_def
        sample_defs calm_world_def at_step_def world0_def) (rule exI, intro conjI, rule_tac [5] refl, simp_all)
  note d = handler_delete_run [OF w(1-3), of "?q\<lparr>req_user := Some alice\<rparr>"]
  have "resolveUser E0 (?q\<lparr>req_user := None\<rparr>) calm_world = (Inr (?q\<lparr>req_user := Some alice\<rparr>), calm_world)"
    using good_token [of calm_world "''10''"] by (simp add: db0_users bearer_request_def request0_def)
  then have "NewRouter E0 DeleteVideoRoute (?q\<lparr>req_user := None\<rparr>) calm_world =
      DeleteVideo E0 (?q\<lparr>req_user := Some alice\<rparr>) w"
    by (simp add: NewRouter_grouped Authenticate_def tryM_run r)
  then show "videos (w_db (snd (serve E0 DeleteVideoRoute ?q calm_world))) =
     [video0\<lparr>v_Status := DELETED, v_DeletedAt := Some 5000\<rparr>]"
    "w_next (snd (serve E0 DeleteVideoRoute ?q calm_world)) = 0"
    using d w by (simp_all add: serve_def tryM_run ok_run)
qed

lemma E0_wired [simp]: "env_wired E0 x"
  by (simp add: E0_def)

lemma parse11: "env_uuid_Parse E0 ''11'' = Some 11"
  by (simp add: E0_def parse_nat_def is_digit_def digits_val_def digit_val_def byte_def)

lemma request_10: "parseAuthVideoParam E0 (request0 (Some u) ''10'') = Inr (u, 10)"
  by (simp add: parseAuthVideoParam_def request0_def parse10)

lemma request_11: "parseAuthVideoParam E0 (request0 (Some u) ''11'') = Inr (u, 11)"
  by (simp add: parseAuthVideoParam_def request0_def parse11)

text \<open>The video belongs to carol, who is private.\<close>

definition private_world :: world where
  "private_world = world0\<lparr>w_db := db0\<lparr>videos := [video0\<lparr>v_UserID := 3\<rparr>]\<rparr>\<rparr>"

lemma private_world_simps [simp]: "w_faults private_world = []" "w_out private_world = []"
  by (simp_all add: private_world_def)

lemma private_hidden:
  "\<not> may_access (w_db private_world) (u_ID bob) (video0\<lparr>v_UserID := 3\<rparr>)"
  "videos (w_db private_world) = [video0\<lparr>v_UserID := 3\<rparr>]"
  by (simp_all add: private_world_def may_access_def owner_visible_def find_row_def follows_edge_def sample_defs)

lemma private_missing: "v_ID video0 = 10"
  by (simp add: video0_def)

lemma wire_small: "0 \<le> t \<Longrightarrow> t < 10000 \<Longrightarrow> i \<noteq> 0 \<Longrightarrow> wire_key (t, i)"
  by (simp add: wire_key_def rfc3339_ok_def zero_time_def)

lemma bob_feed:
  "list_all (\<lambda>r. wire_key (detail_key r)) (feed_table (request0 (Some bob) []) world0)"
  "length (feed_table (request0 (Some bob) []) world0) = 1"
  by (simp_all add: feed_table_def request0_def feed_rows_def map_filter_simps join_owner_def find_row_def
      sample_defs detail_key_def video_key_def wire_small)

lemma bob_comments:
  "comments_allowed E0 (request0 (Some bob) ''10'') world0"
  "list_all (\<lambda>r. wire_key (comment_key r)) (comments_table E0 (request0 (Some bob) ''10'') world0)"
  "length (comments_table E0 (request0 (Some bob) ''10'') world0) = 2"
  by (simp_all add: comments_allowed_def comments_table_def request_10 access_result_def may_access_def
      owner_visible_def video_comment_rows_def map_filter_simps join_author_def find_row_def sample_defs
      comment_key_def wire_small)

text \<open>Alice follows carol, who is private.\<close>

definition leak_world :: world where
  "leak_world = world0\<lparr>w_db := db0\<lparr>follows :=
     [\<lparr>f_FollowerID = 1, f_FolloweeID = 3, f_CreatedAt = 1500\<rparr>]\<rparr>\<rparr>"

lemma E0_hmac: "env_hmac_sha256 E0 = (\<lambda>key msg. key @ msg)"
  by (simp add: E0_def)

lemma parse3: "env_uuid_Parse E0 ''3'' = Some 3"
  by (simp add: E0_def parse_nat_def is_digit_def digits_val_def digit_val_def byte_def)

definition alice_follows :: FollowRow where
  "alice_follows = \<lparr>fr_user = alice, fr_CreatedAt = 1500, fr_IsFollowingBack = False\<rparr>"

lemma leak_rows: "follower_rows (w_db leak_world) 2 3 = [alice_follows]"
  by (simp add: leak_world_def follower_rows_def map_filter_simps find_row_def follows_edge_def
      alice_follows_def sample_defs)

lemma leak_facts:
  "w_faults leak_world = []" "w_out leak_world = []"
  "page_params E0 (request0 (Some bob) ''3'') = Inr (20, None)"
  "find_row (\<lambda>u. u_ID u = 3) (users (w_db leak_world)) = Some carol"
  "\<not> may_list_follows (w_db leak_world) 2 carol" "u_ID bob = 2"
  "r_body (followers_response E0 (request0 (Some bob) ''3'') (w_db leak_world) 2 3 20 None) =
     BodyList [followListItem alice_follows] None"
  "req_param (request0 (Some bob) ''3'') ''id'' = ''3''" "req_user (request0 (Some bob) ''3'') = Some bob"
  "r_status (followers_response E0 (request0 (Some bob) ''3'') (w_db leak_world) 2 3 20 None) = 200"
  by (simp_all add: followers_response_def leak_rows keyset_page_def response_cursor_def)
     (simp_all add: before_def leak_world_def page_params_def request0_def parseLimit_def videoListDefaultLimit_def
       DecodeCursor_def cursor_arg_def find_row_def may_list_follows_def follows_edge_def sample_defs)

text \<open>
  \<^verbatim>\<open>ClassifyError\<close> sends \<^verbatim>\<open>err.Error()\<close> of any error that is not an API error,
  and the account handler puts the text of the database error into it: a failing statement
  of \<^verbatim>\<open>DELETE /api/me\<close> is quoted in the body of the 500.
\<close>

lemma internal_text_reaches_client:
  "w_out (snd (DeleteMe E0 (request0 (Some alice) [])
     (world0\<lparr>w_faults := [None, Some ''pq: password authentication failed for user mokibox'']\<rparr>))) =
   [\<lparr>r_status = 500, r_body = BodyError ''INTERNAL_ERROR''
      ''list video keys: pq: password authentication failed for user mokibox: internal error'' []\<rparr>]"
  by (simp add: DeleteMe_def deleteUserData_def collectUserR2Keys_def runTx_def tryM_run delete_user_tx_def
      Let_def ListVideoKeysByUser_def query_def bindM_run fault_def throw_run rollback_to_def request0_def
      RespondError_def ClassifyError_def Wrap_def httpStatusFor_def codeFor_def code_defs write_response_def
      world0_def E0_wired)

end
