(* ===== verification/Races.thy ===== *)
theory Races
  imports Examples
begin

text \<open>
  Transactions that overlap.  The gateway begins its transactions with the isolation level
  of the connection, in Postgres READ COMMITTED: another transaction may commit between two
  statements, a row that an open transaction has written waits for its end.  Deleting a
  comment counts first and deletes later, and its counter drifts by what others commit in
  between; likes change their counter by the row they have just written, and any
  interleaving of them is exact.
\<close>

section \<open>Deleting a comment while others write\<close>

text \<open>The transaction after its first statement.\<close>

definition delete_counted :: "uuid \<Rightarrow> uuid \<Rightarrow> int \<Rightarrow> unit io" where
  "delete_counted commentID videoID subtree =
    tryM (DeleteCommentByID commentID)
      (\<lambda>_. throw (Wrap ErrInternal ''delete comment''))
      (\<lambda>_. if subtree > 0 then
             tryM (DecrementCommentsCountBy videoID subtree)
               (\<lambda>_. throw (Wrap ErrInternal ''update comments count'')) ok
           else ok ())"

text \<open>
  The first statement only reads, so the transaction holds no lock after it, and whatever
  \<^verbatim>\<open>others\<close> do in the meantime is what its second statement finds.
\<close>

definition raced_delete :: "(db \<Rightarrow> db) \<Rightarrow> uuid \<Rightarrow> uuid \<Rightarrow> unit io" where
  "raced_delete others commentID videoID =
    tryM (CountCommentSubtree commentID)
      (\<lambda>_. throw (Wrap ErrInternal ''count comment subtree''))
      (\<lambda>subtree w. delete_counted commentID videoID subtree (w\<lparr>w_db := others (w_db w)\<rparr>))"

lemma raced_alone: "raced_delete id = delete_comment_tx"
  by (simp add: raced_delete_def delete_comment_tx_def delete_counted_def fun_eq_iff)

definition thread_size :: "db \<Rightarrow> uuid \<Rightarrow> int" where
  "thread_size d i =
    (case subtree_rows (comments d) (map c_ID (filter (\<lambda>c. c_ID c = i) (comments d))) of
       None \<Rightarrow> 0
     | Some rows \<Rightarrow> int (length rows))"

text \<open>The counter of a video is its number of comments plus \<^verbatim>\<open>k\<close>, but not negative; the others are exact.\<close>

definition comments_off :: "uuid \<Rightarrow> int \<Rightarrow> db \<Rightarrow> bool" where
  "comments_off vid k d \<longleftrightarrow> (\<forall>v \<in> set (videos d). v_CommentsCount v =
     (if v_ID v = vid then max (comment_rows d vid + k) 0 else comment_rows d (v_ID v)))"

definition on_video :: "uuid \<Rightarrow> uuid \<Rightarrow> db \<Rightarrow> bool" where
  "on_video i vid d \<longleftrightarrow> list_all (\<lambda>c. c_ID c = i \<longrightarrow> c_VideoID c = vid) (comments d)"

lemma comments_off_0: "comments_off vid 0 d \<longleftrightarrow> comments_exact d"
  using comment_rows_nonneg [of d vid] by (auto simp: comments_off_def comments_exact_def)

lemma CountCommentSubtree_size:
  "fst (CountCommentSubtree i w) = Inr n \<Longrightarrow> n = thread_size (w_db w) i"
  by (auto simp: CountCommentSubtree_def query_def bindM_run thread_size_def fault_def
      split: sum.splits option.splits list.splits if_splits)

lemma delete_thread_gap:
  assumes "comments_inv d" "on_video i vid d"
  shows "comments_gap vid (- thread_size d i) (delete_comments (\<lambda>c. c_ID c = i) d)"
proof (cases "\<exists>c \<in> set (comments d). c_ID c = i")
  case True
  then obtain c where c: "c \<in> set (comments d)" "c_ID c = i" by blast
  have dist: "distinct (map c_ID (comments d))"
    using assms by (auto simp: comments_inv_def constraints_def comments_ok_def)
  have one: "map c_ID (filter (\<lambda>x. c_ID x = i) (comments d)) = [i]"
    using filter_key_single [OF dist c(1)] c(2) by simp
  obtain rows where "subtree_rows (comments d) [i] = Some rows"
    "comments_gap (c_VideoID c) (- int (length rows)) (delete_comments (\<lambda>x. c_ID x = i) d)"
    using delete_comment_gap [of d c thesis] assms(1) c by auto
  moreover have "c_VideoID c = vid" using assms(2) c by (auto simp: on_video_def list_all_iff)
  ultimately show ?thesis by (simp add: thread_size_def one)
next
  case False
  then have none: "filter (\<lambda>c. c_ID c = i) (comments d) = []"
    "filter (\<lambda>c. c_ID c \<noteq> i) (comments d) = comments d"
    by (auto simp: filter_empty_conv filter_id_conv)
  have "cascade [] cs = cs" for cs
    by (subst cascade.simps) (simp add: child_of_def filter_empty_conv split: option.split)
  then have "delete_comments (\<lambda>c. c_ID c = i) d = d"
    by (simp add: delete_comments_def delete_comments_where_def none)
  moreover have "thread_size d i = 0" by (simp add: thread_size_def none subtree_rows.simps)
  ultimately show ?thesis using assms(1) by (simp add: comments_gap_0 comments_inv_def)
qed

lemma comments_gap_max:
  assumes "comments_gap vid (- m) d"
  shows "comments_off vid (m - n) (d\<lparr>videos := update_rows (\<lambda>v. v_ID v = vid)
     (\<lambda>v. v\<lparr>v_CommentsCount := max (v_CommentsCount v - n) 0\<rparr>) (videos d)\<rparr>)"
  unfolding comments_off_def db.select_convs db.update_convs comment_rows_videos
  by (simp, rule update_rows_all) (use assms in \<open>auto simp: comments_gap_def algebra_simps\<close>)

lemma delete_counted_off:
  assumes "0 < n"
  shows "triple (\<lambda>d. comments_inv d \<and> on_video i vid d \<and> thread_size d i = m)
    (delete_counted i vid n) (\<lambda>_. comments_off vid (m - n)) (\<lambda>_ _. True)"
  unfolding delete_counted_def
proof (rule triple_tryM [where Q' = "\<lambda>_. comments_gap vid (- m)" and E' = "\<lambda>_ _. True"])
  show "triple (\<lambda>d. comments_inv d \<and> on_video i vid d \<and> thread_size d i = m) (DeleteCommentByID i)
      (\<lambda>_. comments_gap vid (- m)) (\<lambda>_ _. True)"
    unfolding DeleteCommentByID_def by (rule triple_exec) (auto dest: delete_thread_gap)
next
  fix x :: unit
  have "triple (comments_gap vid (- m)) (DecrementCommentsCountBy vid n)
      (\<lambda>_. comments_off vid (m - n)) (\<lambda>_ _. True)"
    unfolding DecrementCommentsCountBy_def by (rule triple_update_videos) (auto intro: comments_gap_max)
  then show "triple (comments_gap vid (- m)) (if n > 0 then tryM (DecrementCommentsCountBy vid n)
      (\<lambda>_. throw (Wrap ErrInternal ''update comments count'')) ok else ok ())
      (\<lambda>_. comments_off vid (m - n)) (\<lambda>_ _. True)"
    using assms by (simp, intro triple_tryM [OF _ triple_any_error] triple_ok)
qed (rule triple_any_error)

lemma fault_db: "fault w = (r, w') \<Longrightarrow> w_db w' = w_db w"
  by (auto simp: fault_def split: list.splits option.splits)

lemma runTx_result:
  assumes "fst (runTx m w) = Inr x"
  shows "\<exists>w0. w_db w0 = w_db w \<and> fst (m w0) = Inr x \<and> w_db (snd (runTx m w)) = w_db (snd (m w0))"
proof -
  obtain r w0 where f: "fault w = (r, w0)" by fastforce
  obtain s w1 where m: "m w0 = (s, w1)" by fastforce
  obtain t w2 where c: "fault w1 = (t, w2)" by fastforce
  have "s = Inr x \<and> w_db (snd (runTx m w)) = w_db w1"
    using assms fault_db [OF c]
    by (auto simp: runTx_def tryM_run throw_run f m c split: sum.splits)
  then show ?thesis using fault_db [OF f] m by (intro exI [of _ w0]) simp
qed

lemma raced_delete_off:
  assumes "fst (runTx (raced_delete others i vid) w) = Inr ()" "0 < thread_size (w_db w) i"
    "comments_inv (others (w_db w))" "on_video i vid (others (w_db w))"
  shows "comments_off vid (thread_size (others (w_db w)) i - thread_size (w_db w) i)
    (w_db (snd (runTx (raced_delete others i vid) w)))"
proof -
  let ?m = "raced_delete others i vid"
  obtain w0 where w0: "w_db w0 = w_db w" "fst (?m w0) = Inr ()"
      "w_db (snd (runTx ?m w)) = w_db (snd (?m w0))"
    using runTx_result [OF assms(1)] by blast
  obtain n where n: "fst (CountCommentSubtree i w0) = Inr n"
    using w0(2) by (auto simp: raced_delete_def tryM_run throw_run split: sum.splits)
  let ?w1 = "(snd (CountCommentSubtree i w0))\<lparr>w_db := others (w_db w)\<rparr>"
  have same: "w_db (snd (CountCommentSubtree i w0)) = w_db w"
    using w0(1) by (simp add: CountCommentSubtree_def query_def bindM_run fault_def
        split: sum.splits list.splits option.splits)
  have run: "?m w0 = delete_counted i vid n ?w1"
    by (simp add: raced_delete_def tryM_run n same)
  have "n = thread_size (w_db w) i" using CountCommentSubtree_size [OF n] w0(1) by simp
  then show ?thesis
    using tripleD [OF delete_counted_off [of n i vid "thread_size (others (w_db w)) i"], of ?w1]
      assms(2-4) w0(2,3) run by simp
qed

text \<open>While bob deletes his comment, alice answers below it.\<close>

definition alice_answers :: "db \<Rightarrow> db" where
  "alice_answers d =
    w_db (snd (runTx (reply_tx E0 alice (comment0 21 1 (Some 20)) video0 ''late'') (world0\<lparr>w_db := d\<rparr>)))"

definition answered_db :: db where
  "answered_db = db0\<lparr>videos := [video0\<lparr>v_CommentsCount := 3\<rparr>],
     comments := comments db0 @ [\<lparr>c_ID = 100, c_VideoID = 10, c_UserID = 1, c_ParentID = Some 21,
       c_Content = ''late'', c_CreatedAt = 4000\<rparr>]\<rparr>"

lemmas sample_constraints =
  constraints_def users_ok_def videos_ok_def follows_ok_def likes_ok_def comments_ok_def
  notifications_ok_def sample_defs user_row_ok_def video_row_ok_def comment_row_ok_def
  char_length_def int32_ok_def

lemma answered_constraints:
  "constraints answered_db" "constraints (answered_db\<lparr>videos := [video0]\<rparr>)"
  by (simp_all add: answered_db_def sample_constraints)

lemma alice_answers: "alice_answers db0 = answered_db"
proof -
  have i: "InsertComment 10 1 (Some 21) ''late'' world0 =
      (Inr \<lparr>c_ID = 100, c_VideoID = 10, c_UserID = 1, c_ParentID = Some 21, c_Content = ''late'',
         c_CreatedAt = 4000\<rparr>, world0\<lparr>w_db := answered_db\<lparr>videos := [video0]\<rparr>, w_next := 1\<rparr>)"
    using answered_constraints(2)
    by (simp add: InsertComment_def exec_insert_def new_uuid_def bindM_run calm_exec pg_now_def Let_def
        answered_db_def world0_def db0_def)
  have c: "IncrementCommentsCount 10 (world0\<lparr>w_db := answered_db\<lparr>videos := [video0]\<rparr>, w_next := 1\<rparr>) =
      (Inr (), world0\<lparr>w_db := answered_db, w_next := 1\<rparr>)"
    using answered_constraints(1)
    by (simp add: IncrementCommentsCount_def update_videos_def calm_exec update_rows_def
        answered_db_def video0_def db0_def)
  have r: "reply_recipients 1 1 1 = []" by (simp add: reply_recipients_def)
  have "reply_tx E0 alice (comment0 21 1 (Some 20)) video0 ''late'' world0 =
      (Inr 100, world0\<lparr>w_db := answered_db, w_next := 1\<rparr>)"
    using i c by (simp add: reply_tx_def comment0_def alice_def user0_def video0_def tryM_run r ok_run)
  moreover have same: "world0\<lparr>w_db := db0\<rparr> = world0" by (simp add: world0_def)
  ultimately show ?thesis
    unfolding alice_answers_def same by (simp add: runTx_def tryM_run fault_def)
qed

lemma answered_inv: "comments_inv answered_db"
proof -
  have "ranked_rows (comments answered_db)"
    unfolding ranked_rows_def ranks_def
    by (rule exI [of _ "\<lambda>i. if i = 20 then 0 else if i = 21 then 1 else 2"])
      (simp add: answered_db_def sample_defs)
  then show ?thesis
    using answered_constraints(1)
    by (simp add: comments_inv_def comments_exact_def comment_rows_def answered_db_def sample_defs)
qed

lemma thread_sizes: "thread_size db0 20 = 2" "thread_size answered_db 20 = 3"
  by (simp_all add: thread_size_def subtree_rows.simps replies_def answered_db_def sample_defs)

lemma bob_deletes:
  "fst (runTx (raced_delete alice_answers 20 10) world0) = Inr ()"
  "videos (w_db (snd (runTx (raced_delete alice_answers 20 10) world0))) = [video0\<lparr>v_CommentsCount := 1\<rparr>]"
  "comments (w_db (snd (runTx (raced_delete alice_answers 20 10) world0))) = []"
proof -
  let ?d1 = "answered_db\<lparr>comments := []\<rparr>" and ?d2 = "answered_db\<lparr>videos := [video0\<lparr>v_CommentsCount := 1\<rparr>], comments := []\<rparr>"
  have k: "constraints ?d1" "constraints ?d2" by (simp_all add: answered_db_def sample_constraints)
  have n: "CountCommentSubtree 20 world0 = (Inr 2, world0)"
    using thread_sizes(1)
    by (auto simp: CountCommentSubtree_def calm_query thread_size_def int32_ok_def split: option.splits)
  have "delete_comments (\<lambda>c. c_ID c = 20) answered_db = ?d1"
    by (simp add: delete_comments_def delete_comments_where_def cascade.simps child_of_def
        answered_db_def sample_defs)
  then have d: "DeleteCommentByID 20 (world0\<lparr>w_db := answered_db\<rparr>) = (Inr (), world0\<lparr>w_db := ?d1\<rparr>)"
    using k(1) by (simp add: DeleteCommentByID_def calm_exec)
  have u: "DecrementCommentsCountBy 10 2 (world0\<lparr>w_db := ?d1\<rparr>) = (Inr (), world0\<lparr>w_db := ?d2\<rparr>)"
    using k(2)
    by (simp add: DecrementCommentsCountBy_def update_videos_def calm_exec update_rows_def
        answered_db_def video0_def db0_def)
  have "runTx (raced_delete alice_answers 20 10) world0 = (Inr (), world0\<lparr>w_db := ?d2\<rparr>)"
    by (simp add: runTx_def raced_delete_def delete_counted_def tryM_run fault_def n alice_answers d u ok_run)
  then show "fst (runTx (raced_delete alice_answers 20 10) world0) = Inr ()"
    "videos (w_db (snd (runTx (raced_delete alice_answers 20 10) world0))) = [video0\<lparr>v_CommentsCount := 1\<rparr>]"
    "comments (w_db (snd (runTx (raced_delete alice_answers 20 10) world0))) = []" by simp_all
qed

section \<open>Likes in any interleaving\<close>

text \<open>What a successful run of a computation makes of the tables.\<close>

definition does :: "'a io \<Rightarrow> 'a \<Rightarrow> db \<Rightarrow> db \<Rightarrow> bool" where
  "does m x d d' \<longleftrightarrow> (\<exists>w. w_db w = d \<and> fst (m w) = Inr x \<and> w_db (snd (m w)) = d')"

lemma does_triple: "does m x d d' \<Longrightarrow> triple P m Q E \<Longrightarrow> P d \<Longrightarrow> Q x d'"
  using tripleD(1) by (fastforce simp: does_def)

lemma does_tryM:
  assumes "does (tryM m h k) x d d'"
  obtains y d1 where "does m y d d1" "does (k y) x d1 d'"
    | e w where "w_db w = d" "fst (m w) = Inl e" "does (h e) x (w_db (snd (m w))) d'"
proof -
  obtain w where w: "w_db w = d" "fst (tryM m h k w) = Inr x" "w_db (snd (tryM m h k w)) = d'"
    using assms by (auto simp: does_def)
  show thesis
  proof (cases "fst (m w)")
    case (Inl e)
    then show thesis using w that(2) [of w e] by (auto simp: does_def tryM_run)
  next
    case (Inr y)
    then show thesis using w that(1) [of y "w_db (snd (m w))"] by (auto simp: does_def tryM_run)
  qed
qed

lemma does_ok: "does (ok x) y d d' \<longleftrightarrow> y = x \<and> d' = d"
proof -
  have "\<exists>w. w_db w = d" by (rule exI [of _ "undefined\<lparr>w_db := d\<rparr>"]) simp
  then show ?thesis by (auto simp: does_def ok_run)
qed

lemma does_throw: "\<not> does (throw e) x d d'"
  by (simp add: does_def throw_run)

text \<open>
  A transaction that has written a like row and is still open: the row, whether it is new
  or deleted, and whether the counter has been changed as well.  Until the end of the
  transaction nobody else gets at the row.
\<close>

datatype open_tx = Open (tx_row: Like) (tx_new: bool) (tx_counted: bool)

definition like_key :: "Like \<Rightarrow> uuid \<times> uuid" where
  "like_key l = (l_UserID l, l_VideoID l)"

definition row_free :: "uuid \<Rightarrow> uuid \<Rightarrow> open_tx list \<Rightarrow> bool" where
  "row_free u v op \<longleftrightarrow> (u, v) \<notin> (\<lambda>t. like_key (tx_row t)) ` set op"

definition count_like :: "bool \<Rightarrow> uuid \<Rightarrow> unit io" where
  "count_like new = (if new then IncrementLikesCount else DecrementLikesCount)"

text \<open>What the database restores when the transaction is rolled back.\<close>

definition undo :: "open_tx \<Rightarrow> db \<Rightarrow> db" where
  "undo t d = (let l = tx_row t; back = (if tx_new t then - 1 else 1) in
     d\<lparr>likes := (if tx_new t then filter (\<lambda>x. like_key x \<noteq> like_key l) (likes d) else likes d @ [l]),
       videos := (if tx_counted t
         then update_rows (\<lambda>v. v_ID v = l_VideoID l) (\<lambda>v. v\<lparr>v_LikesCount := v_LikesCount v + back\<rparr>) (videos d)
         else videos d)\<rparr>)"

inductive like_step :: "db \<times> open_tx list \<Rightarrow> db \<times> open_tx list \<Rightarrow> bool" where
  insert: "row_free u v op \<Longrightarrow> does (InsertLike u v) l d d' \<Longrightarrow> like_step (d, op) (d', Open l True False # op)"
| remove: "row_free u v op \<Longrightarrow> does (DeleteLike u v) l d d' \<Longrightarrow> like_step (d, op) (d', Open l False False # op)"
| count: "does (count_like new (l_VideoID l)) () d d' \<Longrightarrow>
    like_step (d, a @ Open l new False # b) (d', a @ Open l new True # b)"
| commit: "like_step (d, a @ Open l new True # b) (d, a @ b)"
| rollback: "like_step (d, a @ t # b) (undo t d, a @ b)"
| other: "like_view d' = like_view d \<Longrightarrow> like_step (d, op) (d', op)"

text \<open>By how much the open transactions will still change the counter of a video.\<close>

definition uncounted :: "open_tx list \<Rightarrow> uuid \<Rightarrow> int" where
  "uncounted op vid = sum_list (map (\<lambda>t. if l_VideoID (tx_row t) = vid \<and> \<not> tx_counted t
     then (if tx_new t then 1 else - 1) else 0) op)"

definition like_keys :: "db \<Rightarrow> (uuid \<times> uuid) list" where
  "like_keys d = map like_key (likes d)"

definition open_ok :: "db \<times> open_tx list \<Rightarrow> bool" where
  "open_ok s \<longleftrightarrow> (case s of (d, op) \<Rightarrow>
     distinct (like_keys d) \<and> distinct (map (\<lambda>t. like_key (tx_row t)) op) \<and>
     (\<forall>t \<in> set op. tx_new t \<longleftrightarrow> like_key (tx_row t) \<in> set (like_keys d)) \<and>
     (\<forall>v \<in> set (videos d). v_LikesCount v + uncounted op (v_ID v) = like_rows d (v_ID v)))"

lemma uncounted_simps [simp]:
  "uncounted [] vid = 0"
  "uncounted (t # op) vid = (if l_VideoID (tx_row t) = vid \<and> \<not> tx_counted t
     then (if tx_new t then 1 else - 1) else 0) + uncounted op vid"
  "uncounted (a @ b) vid = uncounted a vid + uncounted b vid"
  by (simp_all add: uncounted_def)

lemma open_ok_closed: "open_ok (d, []) \<longleftrightarrow> distinct (like_keys d) \<and> likes_exact d"
  by (auto simp: open_ok_def likes_exact_def)

lemma open_okD:
  assumes "open_ok (d, op)"
  shows "distinct (like_keys d)" "distinct (map (\<lambda>t. like_key (tx_row t)) op)"
    "t \<in> set op \<Longrightarrow> tx_new t \<longleftrightarrow> like_key (tx_row t) \<in> set (like_keys d)"
    "v \<in> set (videos d) \<Longrightarrow> v_LikesCount v + uncounted op (v_ID v) = like_rows d (v_ID v)"
  using assms unfolding open_ok_def by blast+

text \<open>One row more or less.\<close>

lemma count_without:
  "distinct (map like_key ls) \<Longrightarrow> k \<in> like_key ` set ls \<Longrightarrow>
    count_rows (\<lambda>l. l_VideoID l = vid) ls =
      count_rows (\<lambda>l. l_VideoID l = vid) (filter (\<lambda>l. like_key l \<noteq> k) ls) + (if snd k = vid then 1 else 0)"
proof (induction ls)
  case (Cons l ls)
  show ?case
  proof (cases "like_key l = k")
    case True
    then have "filter (\<lambda>l. like_key l \<noteq> k) ls = ls"
      using Cons.prems(1) by (auto simp: filter_id_conv) (metis image_eqI)
    then show ?thesis using True by (auto simp: like_key_def)
  next
    case False
    then show ?thesis using Cons by auto
  qed
qed simp

lemma new_rows_bound:
  assumes "open_ok (d, op)"
  shows "int (count_rows (\<lambda>t. l_VideoID (tx_row t) = vid \<and> tx_new t) op) \<le> like_rows d vid"
proof -
  let ?ts = "filter (\<lambda>t. l_VideoID (tx_row t) = vid \<and> tx_new t) op"
  let ?ls = "filter (\<lambda>l. l_VideoID l = vid) (likes d)"
  have "set (map (\<lambda>t. like_key (tx_row t)) ?ts) \<subseteq> set (map like_key ?ls)"
  proof
    fix k assume "k \<in> set (map (\<lambda>t. like_key (tx_row t)) ?ts)"
    then obtain t where t: "t \<in> set op" "tx_new t" "k = like_key (tx_row t)" "snd k = vid"
      by (auto simp: like_key_def)
    then have "k \<in> like_key ` set (likes d)" using assms by (auto simp: open_ok_def like_keys_def)
    then show "k \<in> set (map like_key ?ls)" using t(4) by (auto simp: like_key_def)
  qed
  then have "card (set (map (\<lambda>t. like_key (tx_row t)) ?ts)) \<le> card (set (map like_key ?ls))"
    by (rule card_mono [OF finite_set])
  also have "\<dots> \<le> length ?ls" using card_length [of "map like_key ?ls"] by simp
  finally have "card (set (map (\<lambda>t. like_key (tx_row t)) ?ts)) \<le> length ?ls" .
  moreover have "card (set (map (\<lambda>t. like_key (tx_row t)) ?ts)) = length (map (\<lambda>t. like_key (tx_row t)) ?ts)"
    using assms by (intro distinct_card) (auto simp: open_ok_def intro: distinct_map_filter)
  ultimately show ?thesis unfolding like_rows_def count_rows_def by simp
qed

lemma uncounted_le: "uncounted op vid \<le> int (count_rows (\<lambda>t. l_VideoID (tx_row t) = vid \<and> tx_new t) op)"
  by (induction op) (auto simp: uncounted_def)

lemma counter_positive:
  assumes "open_ok (d, a @ Open l False False # b)" "v \<in> set (videos d)" "v_ID v = l_VideoID l"
  shows "0 < v_LikesCount v"
proof -
  have "v_LikesCount v + uncounted (a @ Open l False False # b) (v_ID v) = like_rows d (v_ID v)"
    using assms(1,2) unfolding open_ok_def by blast
  moreover have "uncounted (a @ Open l False False # b) (v_ID v) = uncounted a (v_ID v) + uncounted b (v_ID v) - 1"
    using assms(3) by simp
  ultimately show ?thesis
    using new_rows_bound [OF assms(1), of "v_ID v"] uncounted_le [of a "v_ID v"] uncounted_le [of b "v_ID v"]
    by simp
qed

section \<open>Every step keeps the books\<close>

lemma does_InsertLike:
  "does (InsertLike u v) l d d' \<Longrightarrow>
    like_key l = (u, v) \<and> (u, v) \<notin> set (like_keys d) \<and> d' = d\<lparr>likes := likes d @ [l]\<rparr>"
proof (erule does_triple [where P = "\<lambda>x. x = d" and E = "\<lambda>_ _. True"])
  show "triple (\<lambda>x. x = d) (InsertLike u v) (\<lambda>l d'. like_key l = (u, v) \<and> (u, v) \<notin> set (like_keys d) \<and>
      d' = d\<lparr>likes := likes d @ [l]\<rparr>) (\<lambda>_ _. True)"
    unfolding InsertLike_def
    by (rule triple_exec)
      (auto simp: Let_def like_key_def like_keys_def list_ex_iff split: if_splits)
qed simp

lemma does_DeleteLike:
  "does (DeleteLike u v) l d d' \<Longrightarrow>
    l \<in> set (likes d) \<and> like_key l = (u, v) \<and> d' = d\<lparr>likes := filter (\<lambda>x. like_key x \<noteq> (u, v)) (likes d)\<rparr>"
proof (erule does_triple [where P = "\<lambda>x. x = d" and E = "\<lambda>_ _. True"])
  show "triple (\<lambda>x. x = d) (DeleteLike u v) (\<lambda>l d'. l \<in> set (likes d) \<and> like_key l = (u, v) \<and>
      d' = d\<lparr>likes := filter (\<lambda>x. like_key x \<noteq> (u, v)) (likes d)\<rparr>) (\<lambda>_ _. True)"
    unfolding DeleteLike_def
    by (rule triple_exec)
      (auto simp: Let_def like_key_def split: option.splits dest!: find_row_Some)
qed simp

lemma does_count_like:
  "does (count_like new i) () d d' \<Longrightarrow>
    d' = d\<lparr>videos := update_rows (\<lambda>v. v_ID v = i \<and> (new \<or> v_LikesCount v > 0))
      (\<lambda>v. v\<lparr>v_LikesCount := v_LikesCount v + (if new then 1 else - 1)\<rparr>) (videos d)\<rparr>"
proof (erule does_triple [where P = "\<lambda>x. x = d" and E = "\<lambda>_ _. True"])
  show "triple (\<lambda>x. x = d) (count_like new i)
     (\<lambda>_ d'. d' = d\<lparr>videos := update_rows (\<lambda>v. v_ID v = i \<and> (new \<or> v_LikesCount v > 0))
      (\<lambda>v. v\<lparr>v_LikesCount := v_LikesCount v + (if new then 1 else - 1)\<rparr>) (videos d)\<rparr>) (\<lambda>_ _. True)"
    unfolding count_like_def IncrementLikesCount_def DecrementLikesCount_def
    by (cases new) (auto intro!: triple_update_videos simp: update_rows_def)
qed simp

lemma open_ok_insert:
  assumes "open_ok (d, op)" "row_free u v op" "does (InsertLike u v) l d d'"
  shows "open_ok (d', Open l True False # op)"
proof -
  note i = does_InsertLike [OF assms(3)]
  have "like_rows d' j = like_rows d j + (if l_VideoID l = j then 1 else 0)" for j
    using i by (simp add: like_rows_def)
  then show ?thesis
    using assms(1,2) i by (auto simp: open_ok_def like_keys_def row_free_def image_iff)
qed

lemma like_rows_without:
  assumes "distinct (like_keys d)" "k \<in> set (like_keys d)"
    "likes d' = filter (\<lambda>x. like_key x \<noteq> k) (likes d)"
  shows "like_rows d j = like_rows d' j + (if snd k = j then 1 else 0)"
    "like_keys d' = filter (\<lambda>x. x \<noteq> k) (like_keys d)"
  using count_without [of "likes d" k j] assms
  by (simp_all add: like_rows_def like_keys_def filter_map comp_def)

lemma open_ok_remove:
  assumes "open_ok (d, op)" "row_free u v op" "does (DeleteLike u v) l d d'"
  shows "open_ok (d', Open l False False # op)"
proof -
  note r = does_DeleteLike [OF assms(3)]
  have k: "(u, v) \<in> set (like_keys d)" using r by (force simp: like_keys_def)
  have dist: "distinct (like_keys d)" using assms(1) by (simp add: open_ok_def)
  have l: "likes d' = filter (\<lambda>x. like_key x \<noteq> (u, v)) (likes d)" "videos d' = videos d" using r by simp_all
  note rows = like_rows_without [OF dist k l(1)]
  have "l_VideoID l = v" "like_key l = (u, v)" using r by (auto simp: like_key_def)
  then show ?thesis
    using assms(1,2) rows l(2) by (auto simp: open_ok_def row_free_def image_iff)
qed

lemma open_ok_count:
  assumes "open_ok (d, a @ Open l new False # b)" "does (count_like new (l_VideoID l)) () d d'"
  shows "open_ok (d', a @ Open l new True # b)"
proof -
  note c = does_count_like [OF assms(2)]
  have vs: "videos d' = update_rows (\<lambda>v. v_ID v = l_VideoID l \<and> (new \<or> v_LikesCount v > 0))
      (\<lambda>v. v\<lparr>v_LikesCount := v_LikesCount v + (if new then 1 else - 1)\<rparr>) (videos d)"
    unfolding c by simp
  have same: "like_keys d' = like_keys d" "like_rows d' j = like_rows d j" for j
    using c by (simp_all add: like_keys_def like_rows_def)
  have pos: "new \<or> 0 < v_LikesCount v" if "v \<in> set (videos d)" "v_ID v = l_VideoID l" for v
    using counter_positive [of d a l b] assms(1) that by (cases new) auto
  have before: "v_LikesCount v + uncounted (a @ Open l new False # b) (v_ID v) = like_rows d (v_ID v)"
    if "v \<in> set (videos d)" for v by (rule open_okD(4) [OF assms(1) that])
  have "\<forall>v \<in> set (videos d'). v_LikesCount v + uncounted (a @ Open l new True # b) (v_ID v) = like_rows d (v_ID v)"
    unfolding vs
  proof (rule update_rows_all)
    fix v assume v: "v \<in> set (videos d)"
    let ?v = "if v_ID v = l_VideoID l \<and> (new \<or> 0 < v_LikesCount v)
      then v\<lparr>v_LikesCount := v_LikesCount v + (if new then 1 else - 1)\<rparr> else v"
    show "v_LikesCount ?v + uncounted (a @ Open l new True # b) (v_ID ?v) = like_rows d (v_ID ?v)"
      using before [OF v] pos [OF v] by (cases "v_ID v = l_VideoID l") (auto split: if_splits)
  qed
  then show ?thesis using assms(1) same by (auto simp: open_ok_def)
qed

lemma open_ok_rollback:
  assumes "open_ok (d, a @ t # b)"
  shows "open_ok (undo t d, a @ b)"
proof -
  let ?k = "like_key (tx_row t)"
  have ok: "distinct (like_keys d)" "tx_new t \<longleftrightarrow> ?k \<in> set (like_keys d)"
    "\<forall>x \<in> set (a @ b). ?k \<noteq> like_key (tx_row x)"
    using assms by (auto simp: open_ok_def)
  have keys: "set (like_keys (undo t d)) = (if tx_new t then set (like_keys d) - {?k} else insert ?k (set (like_keys d)))"
    "distinct (like_keys (undo t d))"
    using ok(1,2) by (auto simp: undo_def Let_def like_keys_def distinct_map_filter)
  have rows: "like_rows (undo t d) j = like_rows d j + (if l_VideoID (tx_row t) = j then if tx_new t then - 1 else 1 else 0)" for j
  proof (cases "tx_new t")
    case True
    then show ?thesis
      using like_rows_without(1) [of d ?k "undo t d" j] ok(1,2) by (simp add: undo_def Let_def like_key_def)
  next
    case False
    then show ?thesis by (simp add: undo_def Let_def like_rows_def)
  qed
  have count: "\<forall>v \<in> set (videos d). v_LikesCount v + uncounted (a @ t # b) (v_ID v) = like_rows d (v_ID v)"
    using assms by (simp add: open_ok_def)
  have "\<forall>v \<in> set (videos (undo t d)). v_LikesCount v + uncounted (a @ b) (v_ID v) = like_rows (undo t d) (v_ID v)"
  proof (cases "tx_counted t")
    case True
    then have vs: "videos (undo t d) = update_rows (\<lambda>v. v_ID v = l_VideoID (tx_row t))
        (\<lambda>v. v\<lparr>v_LikesCount := v_LikesCount v + (if tx_new t then - 1 else 1)\<rparr>) (videos d)"
      by (simp add: undo_def Let_def)
    show ?thesis unfolding rows vs by (rule update_rows_all) (use count True in auto)
  next
    case False
    then have "videos (undo t d) = videos d" by (simp add: undo_def Let_def)
    then show ?thesis using count False unfolding rows by auto
  qed
  moreover have "tx_new x \<longleftrightarrow> like_key (tx_row x) \<in> set (like_keys (undo t d))" if "x \<in> set (a @ b)" for x
  proof -
    have "like_key (tx_row x) \<noteq> ?k" using ok(3) that by metis
    then show ?thesis using open_okD(3) [OF assms, of x] that unfolding keys(1) by auto
  qed
  ultimately show ?thesis using assms keys(2) by (simp add: open_ok_def)
qed

lemma open_ok_commit: "open_ok (d, a @ Open l new True # b) \<Longrightarrow> open_ok (d, a @ b)"
  by (auto simp: open_ok_def)

lemma open_ok_other:
  assumes "like_view d' = like_view d" "open_ok (d, op)"
  shows "open_ok (d', op)"
proof -
  have v: "\<exists>v' \<in> set (videos d). v_ID v' = v_ID v \<and> v_LikesCount v' = v_LikesCount v" if "v \<in> set (videos d')" for v
  proof -
    have "(v_ID v, v_LikesCount v) \<in> set (fst (like_view d'))" using that by (auto simp: like_view_def)
    then show ?thesis unfolding assms(1) by (auto simp: like_view_def)
  qed
  have l: "likes d' = likes d" using assms(1) by (simp add: like_view_def)
  then have "\<forall>v \<in> set (videos d'). v_LikesCount v + uncounted op (v_ID v) = like_rows d' (v_ID v)"
    using assms(2) v by (fastforce simp: open_ok_def like_rows_def)
  then show ?thesis using assms(2) l by (simp add: open_ok_def like_keys_def)
qed

lemma open_ok_step: "like_step s s' \<Longrightarrow> open_ok s \<Longrightarrow> open_ok s'"
  by (induction rule: like_step.induct)
    (blast intro: open_ok_insert open_ok_remove open_ok_count open_ok_commit open_ok_rollback open_ok_other)+

lemma open_ok_steps: "like_step\<^sup>*\<^sup>* s s' \<Longrightarrow> open_ok s \<Longrightarrow> open_ok s'"
  by (induction rule: rtranclp_induct) (auto intro: open_ok_step)

section \<open>The transactions of the handlers are such steps\<close>

lemma notification_view:
  "triple (\<lambda>d. like_view d = L) (insertSocialNotification u a t p) (\<lambda>_ d. like_view d = L) (\<lambda>_ _. True)"
  unfolding insertSocialNotification_def InsertNotification_def
  by (rule triple_tryM [where Q' = "\<lambda>_ d. like_view d = L" and E' = "\<lambda>_ _. True"])
    (intro triple_exec_insert triple_any_error triple_ok; auto simp: Let_def)+

lemma failed_like: "fst (InsertLike u v w) = Inl e \<Longrightarrow> w_db (snd (InsertLike u v w)) = w_db w"
  "fst (DeleteLike u v w) = Inl e \<Longrightarrow> w_db (snd (DeleteLike u v w)) = w_db w"
  using tripleD(2) [where P = "\<lambda>d. d = w_db w" and E = "\<lambda>_ d. d = w_db w" and Q = "\<lambda>_ _. True"]
    triple_exec [where P = "\<lambda>d. d = w_db w" and E = "\<lambda>_ d. d = w_db w" and Q = "\<lambda>_ _. True"]
  by (auto simp: InsertLike_def DeleteLike_def)

lemma like_step_add:
  assumes "row_free u v op" "does (InsertLike u v) l d d1" "does (IncrementLikesCount v) () d1 d2"
  shows "like_step\<^sup>*\<^sup>* (d, op) (d2, op)"
proof -
  have l: "l_VideoID l = v" using does_InsertLike [OF assms(2)] by (auto simp: like_key_def)
  have "like_step (d, op) (d1, Open l True False # op)" by (rule like_step.insert [OF assms(1,2)])
  moreover have "like_step (d1, [] @ Open l True False # op) (d2, [] @ Open l True True # op)"
    by (rule like_step.count) (use assms(3) l in \<open>simp add: count_like_def\<close>)
  moreover have "like_step (d2, [] @ Open l True True # op) (d2, [] @ op)" by (rule like_step.commit)
  ultimately show ?thesis by (simp add: converse_rtranclp_into_rtranclp)
qed

lemma like_step_sub:
  assumes "row_free u v op" "does (DeleteLike u v) l d d1" "does (DecrementLikesCount v) () d1 d2"
  shows "like_step\<^sup>*\<^sup>* (d, op) (d2, op)"
proof -
  have l: "l_VideoID l = v" using does_DeleteLike [OF assms(2)] by (auto simp: like_key_def)
  have "like_step (d, op) (d1, Open l False False # op)" by (rule like_step.remove [OF assms(1,2)])
  moreover have "like_step (d1, [] @ Open l False False # op) (d2, [] @ Open l False True # op)"
    by (rule like_step.count) (use assms(3) l in \<open>simp add: count_like_def\<close>)
  moreover have "like_step (d2, [] @ Open l False True # op) (d2, [] @ op)" by (rule like_step.commit)
  ultimately show ?thesis by (simp add: converse_rtranclp_into_rtranclp)
qed

lemma like_tx_steps:
  assumes "does (like_tx E user v video) () d d'" "row_free (u_ID user) v op"
  shows "like_step\<^sup>*\<^sup>* (d, op) (d', op)"
  using assms(1) unfolding like_tx_def
proof (rule does_tryM)
  fix e w assume w: "w_db w = d" "fst (InsertLike (u_ID user) v w) = Inl e"
    "does (if errors_Is e ErrNoRows then ok () else throw (Wrap ErrInternal ''insert like''))
      () (w_db (snd (InsertLike (u_ID user) v w))) d'"
  then have "d' = d" by (auto simp: failed_like does_ok does_throw split: if_splits)
  then show ?thesis by simp
next
  fix l d1 assume ins: "does (InsertLike (u_ID user) v) l d d1"
    and rest: "does (tryM (IncrementLikesCount v) (\<lambda>_. throw (Wrap ErrInternal ''update likes count''))
        (\<lambda>_. if u_ID user \<noteq> v_UserID video
             then tryM (insertSocialNotification (v_UserID video) (u_ID user) ''like''
                      [(''username'', u_Username user), (''video_id'', env_uuid_String E v)])
                 (\<lambda>_. throw (Wrap ErrInternal ''insert notification'')) ok
             else ok ())) () d1 d'"
  from rest show ?thesis
  proof (rule does_tryM)
    fix y d2 assume inc: "does (IncrementLikesCount v) y d1 d2"
      and last: "does (if u_ID user \<noteq> v_UserID video
             then tryM (insertSocialNotification (v_UserID video) (u_ID user) ''like''
                      [(''username'', u_Username user), (''video_id'', env_uuid_String E v)])
                 (\<lambda>_. throw (Wrap ErrInternal ''insert notification'')) ok
             else ok ()) () d2 d'"
    have "triple (\<lambda>d. like_view d = like_view d2) (if u_ID user \<noteq> v_UserID video
             then tryM (insertSocialNotification (v_UserID video) (u_ID user) ''like''
                      [(''username'', u_Username user), (''video_id'', env_uuid_String E v)])
                 (\<lambda>_. throw (Wrap ErrInternal ''insert notification'')) ok
             else ok ()) (\<lambda>_ d. like_view d = like_view d2) (\<lambda>_ _. True)"
      by (intro triple_if triple_tryM [OF notification_view triple_any_error] triple_ok)
    then have "like_view d' = like_view d2" by (rule does_triple [OF last]) simp
    then have "like_step (d2, op) (d', op)" by (rule like_step.other)
    then show ?thesis using like_step_add [OF assms(2) ins] inc by (auto intro: rtranclp.rtrancl_into_rtrancl)
  qed (simp add: does_throw)
qed

lemma unlike_tx_steps:
  assumes "does (unlike_tx user v) () d d'" "row_free (u_ID user) v op"
  shows "like_step\<^sup>*\<^sup>* (d, op) (d', op)"
  using assms(1) unfolding unlike_tx_def
proof (rule does_tryM)
  fix e w assume w: "w_db w = d" "fst (DeleteLike (u_ID user) v w) = Inl e"
    "does (if errors_Is e ErrNoRows then ok () else throw (Wrap ErrInternal ''delete like''))
      () (w_db (snd (DeleteLike (u_ID user) v w))) d'"
  then have "d' = d" by (auto simp: failed_like does_ok does_throw split: if_splits)
  then show ?thesis by simp
next
  fix l d1 assume del: "does (DeleteLike (u_ID user) v) l d d1"
    and rest: "does (tryM (DecrementLikesCount v)
        (\<lambda>_. throw (Wrap ErrInternal ''update likes count'')) ok) () d1 d'"
  from rest show ?thesis
  proof (rule does_tryM)
    fix y d2 assume "does (DecrementLikesCount v) y d1 d2" "does (ok y) () d2 d'"
    then show ?thesis using like_step_sub [OF assms(2) del] by (simp add: does_ok)
  qed (simp add: does_throw)
qed

text \<open>Bob and carol like the same video at the same time: both rows first, both counts later.\<close>

definition liked_db :: "Like list \<Rightarrow> int \<Rightarrow> db" where
  "liked_db ls n = db0\<lparr>videos := [video0\<lparr>v_LikesCount := n\<rparr>], likes := ls\<rparr>"

definition like0 :: "uuid \<Rightarrow> Like" where
  "like0 u = \<lparr>l_UserID = u, l_VideoID = 10, l_CreatedAt = 4000\<rparr>"

lemma liked_constraints:
  "constraints (liked_db [like0 2] 0)" "constraints (liked_db [like0 2, like0 3] 0)"
  "constraints (liked_db [like0 2, like0 3] 1)" "constraints (liked_db [like0 2, like0 3] 2)"
  by (simp_all add: liked_db_def like0_def sample_constraints)

lemma does_insert0:
  assumes "list_all (\<lambda>l. l_UserID l \<noteq> u) ls" "constraints (liked_db (ls @ [like0 u]) n)"
  shows "does (InsertLike u 10) (like0 u) (liked_db ls n) (liked_db (ls @ [like0 u]) n)"
proof -
  have "\<not> list_ex (\<lambda>l. l_UserID l = u \<and> l_VideoID l = 10) ls"
    using assms(1) by (auto simp: list_ex_iff list_all_iff)
  then have "InsertLike u 10 (world0\<lparr>w_db := liked_db ls n\<rparr>) =
      (Inr (like0 u), world0\<lparr>w_db := liked_db (ls @ [like0 u]) n\<rparr>)"
    using assms(2)
    by (simp add: InsertLike_def calm_exec liked_db_def like0_def pg_now_def Let_def)
  then show ?thesis
    unfolding does_def by (intro exI [of _ "world0\<lparr>w_db := liked_db ls n\<rparr>"]) simp
qed

lemma does_count0:
  assumes "constraints (liked_db ls (n + 1))"
  shows "does (count_like True 10) () (liked_db ls n) (liked_db ls (n + 1))"
proof -
  have "count_like True 10 (world0\<lparr>w_db := liked_db ls n\<rparr>) = (Inr (), world0\<lparr>w_db := liked_db ls (n + 1)\<rparr>)"
    using assms
    by (simp add: count_like_def IncrementLikesCount_def update_videos_def calm_exec liked_db_def
        update_rows_def video0_def db0_def)
  then show ?thesis
    unfolding does_def by (intro exI [of _ "world0\<lparr>w_db := liked_db ls n\<rparr>"]) simp
qed

lemma overlapping_likes: "like_step\<^sup>*\<^sup>* (db0, []) (liked_db [like0 2, like0 3] 2, [])"
proof -
  let ?b = "Open (like0 2) True" and ?c = "Open (like0 3) True" and ?both = "[like0 2, like0 3]"
  have "like_step (liked_db [] 0, []) (liked_db [like0 2] 0, [?b False])"
    using does_insert0 [of 2 "[]" 0] liked_constraints(1)
    by (intro like_step.insert [where u = 2 and v = 10]) (simp_all add: row_free_def)
  moreover have "like_step (liked_db [like0 2] 0, [?b False]) (liked_db ?both 0, [?c False, ?b False])"
    using does_insert0 [of 3 "[like0 2]" 0] liked_constraints(2)
    by (intro like_step.insert [where u = 3 and v = 10]) (simp_all add: row_free_def like_key_def like0_def)
  moreover have "like_step (liked_db ?both 0, [?c False] @ ?b False # []) (liked_db ?both 1, [?c False] @ ?b True # [])"
    using does_count0 [of ?both 0] liked_constraints(3) by (intro like_step.count) (simp add: like0_def)
  moreover have "like_step (liked_db ?both 1, [?c False] @ ?b True # []) (liked_db ?both 1, [?c False] @ [])"
    by (rule like_step.commit)
  moreover have "like_step (liked_db ?both 1, [] @ ?c False # []) (liked_db ?both 2, [] @ ?c True # [])"
    using does_count0 [of ?both 1] liked_constraints(4) by (intro like_step.count) (simp add: like0_def)
  moreover have "like_step (liked_db ?both 2, [] @ ?c True # []) (liked_db ?both 2, [] @ [])"
    by (rule like_step.commit)
  moreover have "liked_db [] 0 = db0" by (simp add: liked_db_def sample_defs)
  ultimately show ?thesis by (simp add: converse_rtranclp_into_rtranclp)
qed

end
