(* ===== verification/Performing.thy ===== *)
theory Performing
  imports Actions Delivery Erasure
begin

text \<open>
  The other direction of the refinement: what a member is permitted to do and asks for
  is done.  Without failures the six routes that act on one video, member or comment
  by its identifier change the tables exactly as the abstract action says when it is
  permitted, and answer with an error and change nothing when it is not.
\<close>

section \<open>Writes that keep the constraints\<close>

lemma constraints_likes:
  assumes "constraints d" "distinct (map (\<lambda>l. (l_UserID l, l_VideoID l)) ls)"
    "list_all (\<lambda>l. l_UserID l \<in> u_ID ` set (users d) \<and> l_VideoID l \<in> v_ID ` set (videos d)) ls"
  shows "constraints (d\<lparr>likes := ls\<rparr>)"
  using assms
  by (simp add: constraints_def users_ok_def videos_ok_def follows_ok_def likes_ok_def comments_ok_def
      notifications_ok_def cong: option.case_cong)

lemma constraints_follows:
  assumes "constraints d" "distinct (map (\<lambda>f. (f_FollowerID f, f_FolloweeID f)) fs)"
    "list_all (\<lambda>f. f_FollowerID f \<noteq> f_FolloweeID f \<and> f_FollowerID f \<in> u_ID ` set (users d) \<and>
       f_FolloweeID f \<in> u_ID ` set (users d)) fs"
  shows "constraints (d\<lparr>follows := fs\<rparr>)"
  using assms
  by (simp add: constraints_def users_ok_def videos_ok_def follows_ok_def likes_ok_def comments_ok_def
      notifications_ok_def cong: option.case_cong)

lemma constraints_comments:
  assumes "constraints d" "comments_ok (d\<lparr>comments := cs\<rparr>)"
  shows "constraints (d\<lparr>comments := cs\<rparr>)"
  using assms
  by (simp add: constraints_def users_ok_def videos_ok_def follows_ok_def likes_ok_def notifications_ok_def
      cong: option.case_cong)

lemma constraints_notification:
  assumes "constraints d" "i \<notin> n_ID ` set (notifications d)" "n_ID n = i" "notification_row_ok n"
    "n_UserID n \<in> u_ID ` set (users d)" "n_ActorID n \<in> u_ID ` set (users d)"
  shows "constraints (d\<lparr>notifications := notifications d @ [n]\<rparr>)"
  using assms
  by (simp add: constraints_def users_ok_def videos_ok_def follows_ok_def likes_ok_def comments_ok_def
      notifications_ok_def cong: option.case_cong)

lemma constraints_like_row:
  assumes "constraints d" "u \<in> u_ID ` set (users d)" "i \<in> v_ID ` set (videos d)"
    "\<not> list_ex (\<lambda>l. l_UserID l = u \<and> l_VideoID l = i) (likes d)"
  shows "constraints (d\<lparr>likes := likes d @ [\<lparr>l_UserID = u, l_VideoID = i, l_CreatedAt = t\<rparr>]\<rparr>)"
  using assms
  by (intro constraints_likes) (auto simp: constraints_def likes_ok_def list_ex_iff)

lemma constraints_less_likes: "constraints d \<Longrightarrow> constraints (d\<lparr>likes := filter P (likes d)\<rparr>)"
  by (rule constraints_likes) (auto simp: constraints_def likes_ok_def list_all_iff distinct_map_filter)

lemma constraints_follow_row:
  assumes "constraints d" "u \<in> u_ID ` set (users d)" "t \<in> u_ID ` set (users d)" "u \<noteq> t"
    "\<not> follows_edge d u t"
  shows "constraints (d\<lparr>follows := follows d @ [\<lparr>f_FollowerID = u, f_FolloweeID = t, f_CreatedAt = c\<rparr>]\<rparr>)"
  using assms
  by (intro constraints_follows) (auto simp: constraints_def follows_ok_def list_ex_iff follows_edge_def)

lemma constraints_less_follows: "constraints d \<Longrightarrow> constraints (d\<lparr>follows := filter P (follows d)\<rparr>)"
  by (rule constraints_follows) (auto simp: constraints_def follows_ok_def list_all_iff distinct_map_filter)

text \<open>After the cascade every reply still has its parent.\<close>

lemma constraints_delete_comments:
  assumes "constraints d"
  shows "constraints (delete_comments P d)"
proof -
  have ok: "comments_ok d" using assms by (simp add: constraints_def)
  have dist: "distinct (map c_ID (comments d))" using ok by (simp add: comments_ok_def)
  let ?gone = "\<lambda>c. \<exists>h \<in> set (comments d). P h \<and> (c_ID c, c_ID h) \<in> (parents (comments d))\<^sup>*"
  let ?cs = "filter (\<lambda>c. \<not> ?gone c) (comments d)"
  have parent: "(p, c_VideoID c) \<in> (\<lambda>c. (c_ID c, c_VideoID c)) ` set ?cs"
    if c: "c \<in> set ?cs" and p: "c_ParentID c = Some p" for c p
  proof -
    have "(p, c_VideoID c) \<in> (\<lambda>c. (c_ID c, c_VideoID c)) ` set (comments d)"
      using ok c p by (auto simp: comments_ok_def list_all_iff)
    then obtain x where x: "x \<in> set (comments d)" "c_ID x = p" "c_VideoID x = c_VideoID c" by auto
    have "(c_ID c, p) \<in> parents (comments d)" using c p by (auto intro: parentsI)
    then have "\<not> ?gone x" using c x(2) by (auto intro: converse_rtrancl_into_rtrancl)
    then show ?thesis using x by force
  qed
  have eq: "comments_ok (d\<lparr>comments := cs\<rparr>) \<longleftrightarrow> distinct (map c_ID cs) \<and>
      list_all (\<lambda>c. comment_row_ok c \<and> c_UserID c \<in> u_ID ` set (users d) \<and>
        c_VideoID c \<in> v_ID ` set (videos d) \<and>
        (case c_ParentID c of None \<Rightarrow> True
         | Some p \<Rightarrow> (p, c_VideoID c) \<in> (\<lambda>c. (c_ID c, c_VideoID c)) ` set cs)) cs" for cs
    by (simp add: comments_ok_def cong: option.case_cong)
  have "comments_ok (d\<lparr>comments := ?cs\<rparr>)"
    unfolding eq
  proof (intro conjI)
    show "distinct (map c_ID ?cs)" by (rule distinct_map_filter [OF dist])
    show "list_all (\<lambda>c. comment_row_ok c \<and> c_UserID c \<in> u_ID ` set (users d) \<and>
        c_VideoID c \<in> v_ID ` set (videos d) \<and>
        (case c_ParentID c of None \<Rightarrow> True
         | Some p \<Rightarrow> (p, c_VideoID c) \<in> (\<lambda>c. (c_ID c, c_VideoID c)) ` set ?cs)) ?cs"
      unfolding list_all_iff
    proof
      fix c assume c: "c \<in> set ?cs"
      then have "comment_row_ok c \<and> c_UserID c \<in> u_ID ` set (users d) \<and> c_VideoID c \<in> v_ID ` set (videos d)"
        using ok by (simp add: comments_ok_def list_all_iff)
      then show "comment_row_ok c \<and> c_UserID c \<in> u_ID ` set (users d) \<and> c_VideoID c \<in> v_ID ` set (videos d) \<and>
        (case c_ParentID c of None \<Rightarrow> True
         | Some p \<Rightarrow> (p, c_VideoID c) \<in> (\<lambda>c. (c_ID c, c_VideoID c)) ` set ?cs)"
        using parent [OF c] by (auto split: option.split)
    qed
  qed
  then show ?thesis
    unfolding delete_comments_def delete_comments_where_eq [OF dist] by (rule constraints_comments [OF assms])
qed

lemma constraints_drop_pending:
  assumes "constraints d" "\<And>v. v_ID (f v) = v_ID v" "\<And>v. v_R2Key (f v) = v_R2Key v"
    "\<And>v. v_UserID (f v) = v_UserID v" "\<And>v. v_Status (f v) \<noteq> PENDING_UPLOAD"
    "\<And>v. video_row_ok v \<Longrightarrow> video_row_ok (f v)"
  shows "constraints (d\<lparr>videos := update_rows c f (videos d)\<rparr>)"
proof -
  let ?vs = "update_rows c f (videos d)" and ?P = "\<lambda>v. v_Status v = PENDING_UPLOAD"
  have ids: "map v_ID ?vs = map v_ID (videos d)" "map v_R2Key ?vs = map v_R2Key (videos d)"
    "v_ID ` set ?vs = v_ID ` set (videos d)"
    using assms(2,3) by (simp_all add: map_update_rows_same set_update_rows_same)
  have "filter ?P (update_rows c f vs) = filter (\<lambda>v. ?P v \<and> \<not> c v) vs" for vs
    using assms(5) by (induction vs) (auto simp: update_rows_def)
  moreover have "distinct (map v_UserID (filter (\<lambda>v. ?P v \<and> \<not> c v) (videos d)))"
    using assms(1) distinct_map_filter [of v_UserID "filter ?P (videos d)" "\<lambda>v. \<not> c v"]
    by (simp add: constraints_def videos_ok_def conj_commute)
  ultimately have pending: "distinct (map v_UserID (filter ?P ?vs))" by simp
  have "list_all (\<lambda>v. video_row_ok v \<and> v_UserID v \<in> u_ID ` set (users d)) ?vs"
    using assms(1,4,6) by (auto simp: constraints_def videos_ok_def list_all_iff update_rows_set split: if_splits)
  then show ?thesis
    using assms(1) pending
    by (simp add: constraints_def users_ok_def videos_ok_def follows_ok_def likes_ok_def comments_ok_def
        notifications_ok_def ids cong: option.case_cong)
qed

section \<open>What is asked for\<close>

text \<open>The abstract action a request of member \<^verbatim>\<open>u\<close> about \<^verbatim>\<open>i\<close> stands for, if it is permitted.\<close>

fun wanted :: "route \<Rightarrow> uuid \<Rightarrow> uuid \<Rightarrow> net \<Rightarrow> net option" where
  "wanted LikeRoute u i n = (if can_see n u i then Some (n\<lparr>hearts := insert (u, i) (hearts n)\<rparr>) else None)"
| "wanted UnlikeRoute u i n = (if can_see n u i then Some (n\<lparr>hearts := hearts n - {(u, i)}\<rparr>) else None)"
| "wanted FollowRoute u i n = (if u \<noteq> i \<and> (\<exists>m. people n i = Some m \<and> m_Active m)
     then Some (n\<lparr>fans := insert (u, i) (fans n)\<rparr>) else None)"
| "wanted UnfollowRoute u i n = Some (n\<lparr>fans := fans n - {(u, i)}\<rparr>)"
| "wanted DeleteVideoRoute u i n = (if \<exists>s. shelf n i = Some (u, s)
     then Some (n\<lparr>shelf := (shelf n)(i \<mapsto> (u, DELETED))\<rparr>) else None)"
| "wanted DeleteCommentRoute u i n = (if \<exists>r. remarks n i = Some r \<and> k_Author r = u
     then Some (drop_threads {i} n) else None)"
| "wanted _ u i n = None"

fun direct :: "route \<Rightarrow> bool" where
  "direct LikeRoute = True"
| "direct UnlikeRoute = True"
| "direct FollowRoute = True"
| "direct UnfollowRoute = True"
| "direct DeleteVideoRoute = True"
| "direct DeleteCommentRoute = True"
| "direct _ = False"

text \<open>One response, a success exactly when the action was permitted, and then exactly the action.\<close>

definition outcome :: "net option \<Rightarrow> world \<Rightarrow> world \<Rightarrow> bool" where
  "outcome g w w' \<longleftrightarrow> (\<exists>r. w_out w' = w_out w @ [r] \<and>
     (case g of
        None \<Rightarrow> r_status r \<in> {400, 404} \<and> w_db w' = w_db w
      | Some n \<Rightarrow> r_status r \<in> {200, 204} \<and> net_of (w_db w') = n))"

text \<open>
  No counter is at the end of its range, and the next identifier drawn is not the one of a
  stored notification.
\<close>

definition roomy :: "world \<Rightarrow> bool" where
  "roomy w \<longleftrightarrow> list_all (\<lambda>v. v_LikesCount v < 2147483647) (videos (w_db w)) \<and>
     w_uuids w (w_next w) \<notin> n_ID ` set (notifications (w_db w)) \<and>
     int (length (comments (w_db w))) \<le> 2147483647"

lemma refused:
  assumes "w_faults w = []" "m w = RespondError (Wrap e s) w" "e \<in> {ErrNotFound, ErrSelfFollow}"
  shows "outcome None w (snd (m w))"
  using assms(3)
  by (auto simp: outcome_def assms(2) calm_RespondError [OF assms(1)] error_response_def Wrap_def
      ClassifyError_def httpStatusFor_def codeFor_def)

lemma can_see_access:
  assumes "constraints d"
  shows "can_see (net_of d) u i \<longleftrightarrow>
    (\<exists>v. find_row (\<lambda>v. v_ID v = i) (videos d) = Some v \<and> may_access d u v)"
proof
  assume "can_see (net_of d) u i"
  then obtain x s where s: "shelf (net_of d) i = Some (x, s)" and c: "x = u \<or> s = READY \<and>
      (\<exists>m. people (net_of d) x = Some m \<and> m_Active m \<and> (m_Private m \<longrightarrow> (u, x) \<in> fans (net_of d)))"
    by (auto simp: can_see_def)
  obtain v where v: "v \<in> set (videos d)" "v_ID v = i" "v_UserID v = x" "v_Status v = s"
    using s by (auto simp: net_of_def dest!: by_key_Some)
  have "distinct (map v_ID (videos d))" "distinct (map u_ID (users d))"
    using assms by (auto simp: constraints_def videos_ok_def users_ok_def)
  note one = find_row_key [OF this(1) v(1)] find_row_key [OF this(2)]
  have "may_access d u v"
  proof (cases "x = u")
    case False
    then obtain m where m: "s = READY" "people (net_of d) x = Some m" "m_Active m"
        "m_Private m \<longrightarrow> (u, x) \<in> fans (net_of d)" using c by blast
    then obtain y where y: "y \<in> set (users d)" "u_ID y = x" "member_of y = m"
      by (auto simp: net_of_def dest!: by_key_Some)
    have "(u, x) \<in> fans (net_of d) \<Longrightarrow> follows_edge d u x"
      by (auto simp: net_of_def follows_edge_def list_ex_iff)
    then show ?thesis
      using m y v one(2) [OF y(1)] by (auto simp: may_access_def owner_visible_def member_of_def)
  qed (use v in \<open>simp add: may_access_def\<close>)
  then show "\<exists>v. find_row (\<lambda>v. v_ID v = i) (videos d) = Some v \<and> may_access d u v"
    using one(1) v(2) by auto
qed (auto intro: net_can_see [OF assms])

section \<open>Likes\<close>

lemma runTx_done:
  "w_faults w = [] \<Longrightarrow> fn w = (Inr x, w') \<Longrightarrow> w_faults w' = [] \<Longrightarrow> runTx fn w = (Inr x, w')"
  by (simp add: calm_runTx)

lemma video_in: "find_row (\<lambda>v. v_ID v = i) (videos d) = Some v \<Longrightarrow> v \<in> set (videos d) \<and> v_ID v = i"
  by (drule find_row_Some) simp

lemma find_row_update:
  assumes "find_row (\<lambda>v. v_ID v = i) vs = Some v" "\<And>v. v_ID (f v) = v_ID v"
  shows "\<exists>v'. find_row (\<lambda>v. v_ID v = i) (update_rows P f vs) = Some v'"
proof -
  have "v_ID ` set (update_rows P f vs) = v_ID ` set vs" by (rule set_update_rows_same) (rule assms(2))
  moreover have "i \<in> v_ID ` set vs" using find_row_Some [OF assms(1)] by auto
  ultimately have "\<exists>x \<in> set (update_rows P f vs). v_ID x = i" by (metis imageE)
  then show ?thesis
    using find_row_None [of "\<lambda>v. v_ID v = i" "update_rows P f vs"]
    by (cases "find_row (\<lambda>v. v_ID v = i) (update_rows P f vs)") auto
qed

definition likes_more :: "uuid \<Rightarrow> db \<Rightarrow> db" where
  "likes_more i d = d\<lparr>videos := update_rows (\<lambda>v. v_ID v = i)
     (\<lambda>v. v\<lparr>v_LikesCount := v_LikesCount v + 1\<rparr>) (videos d)\<rparr>"

definition likes_fewer :: "uuid \<Rightarrow> db \<Rightarrow> db" where
  "likes_fewer i d = d\<lparr>videos := update_rows (\<lambda>v. v_ID v = i \<and> v_LikesCount v > 0)
     (\<lambda>v. v\<lparr>v_LikesCount := v_LikesCount v - 1\<rparr>) (videos d)\<rparr>"

lemma likes_counts_ok:
  assumes "constraints d"
  shows "list_all (\<lambda>v. v_LikesCount v < 2147483647) (videos d) \<Longrightarrow> constraints (likes_more i d)"
    "constraints (likes_fewer i d)"
  unfolding likes_more_def likes_fewer_def
  by (rule constraints_update_videos; use assms in \<open>auto simp: video_row_ok_def int32_ok_def list_all_iff\<close>)+

lemma likes_counts_net:
  "net_of (likes_more i d) = net_of d" "net_of (likes_fewer i d) = net_of d"
  "users (likes_more i d) = users d" "notifications (likes_more i d) = notifications d"
  by (simp_all add: likes_more_def likes_fewer_def net_update_videos)

lemma likes_counts_rows:
  assumes "find_row (\<lambda>v. v_ID v = i) (videos d) = Some v"
  shows "\<exists>v'. find_row (\<lambda>v. v_ID v = i) (videos (likes_more j d)) = Some v'"
    "\<exists>v'. find_row (\<lambda>v. v_ID v = i) (videos (likes_fewer j d)) = Some v'"
  using find_row_update [OF assms] by (simp_all add: likes_more_def likes_fewer_def)

lemma notify_calm:
  assumes "w_faults w = []" "constraints (w_db w)" "w_uuids w (w_next w) \<notin> n_ID ` set (notifications (w_db w))"
    "u \<in> u_ID ` set (users (w_db w))" "a \<in> u_ID ` set (users (w_db w))" "t \<in> {''follow'', ''like'', ''comment''}"
  obtains w' where "insertSocialNotification u a t p w = (Inr (), w')"
    "InsertNotification u a t (json_map p) w = (Inr (last (notifications (w_db w'))), w')"
    "w_faults w' = []" "w_out w' = w_out w" "net_of (w_db w') = net_of (w_db w)"
    "videos (w_db w') = videos (w_db w)" "constraints (w_db w')"
proof -
  let ?n = "\<lparr>n_ID = w_uuids w (w_next w), n_UserID = u, n_ActorID = a, n_Type = t, n_Payload = json_map p,
    n_IsRead = False, n_CreatedAt = pg_now w\<rparr>"
  let ?w' = "w\<lparr>w_next := Suc (w_next w), w_db := (w_db w)\<lparr>notifications := notifications (w_db w) @ [?n]\<rparr>\<rparr>"
  have k: "constraints ((w_db w)\<lparr>notifications := notifications (w_db w) @ [?n]\<rparr>)"
    by (rule constraints_notification [OF assms(2,3)]) (use assms in \<open>auto simp: notification_row_ok_def\<close>)
  have "InsertNotification u a t (json_map p) w = (Inr ?n, ?w')"
    using assms(1) k
    by (simp add: InsertNotification_def exec_insert_def new_uuid_def bindM_run calm_exec Let_def pg_now_def)
  moreover from this have "insertSocialNotification u a t p w = (Inr (), ?w')"
    by (simp add: insertSocialNotification_def tryM_run ok_run)
  ultimately show thesis
    using that [of ?w'] assms(1) k by (simp add: net_of_def)
qed

lemma like_tx_calm:
  assumes "w_faults w = []" "constraints (w_db w)" "roomy w" "user \<in> set (users (w_db w))"
    "find_row (\<lambda>v. v_ID v = i) (videos (w_db w)) = Some video"
  obtains w' v' where "runTx (like_tx E user i video) w = (Inr (), w')" "w_faults w' = []" "w_out w' = w_out w"
    "net_of (w_db w') = net_of (w_db w)\<lparr>hearts := insert (u_ID user, i) (hearts (net_of (w_db w)))\<rparr>"
    "find_row (\<lambda>v. v_ID v = i) (videos (w_db w')) = Some v'"
proof (cases "list_ex (\<lambda>l. l_UserID l = u_ID user \<and> l_VideoID l = i) (likes (w_db w))")
  case True
  then have "InsertLike (u_ID user) i w = (Inl (Sentinel ErrNoRows), w)"
    using assms(1) by (simp add: InsertLike_def calm_exec)
  then have "like_tx E user i video w = (Inr (), w)" by (simp add: like_tx_def tryM_run ok_run)
  then have run: "runTx (like_tx E user i video) w = (Inr (), w)" by (rule runTx_done [OF assms(1) _ assms(1)])
  have "(u_ID user, i) \<in> hearts (net_of (w_db w))" using True by (force simp: net_of_def list_ex_iff)
  then have "net_of (w_db w) = net_of (w_db w)\<lparr>hearts := insert (u_ID user, i) (hearts (net_of (w_db w)))\<rparr>"
    by (simp add: insert_absorb)
  then show thesis using that [OF run assms(1) refl _ assms(5)] by simp
next
  case False
  let ?u = "u_ID user" and ?d = "w_db w"
  let ?l = "\<lparr>l_UserID = ?u, l_VideoID = i, l_CreatedAt = pg_now w\<rparr>"
  let ?d1 = "?d\<lparr>likes := likes ?d @ [?l]\<rparr>" let ?d2 = "likes_more i ?d1"
  let ?w1 = "w\<lparr>w_db := ?d1\<rparr>" and ?w2 = "w\<lparr>w_db := ?d2\<rparr>"
  have u: "?u \<in> u_ID ` set (users ?d)" using assms(4) by simp
  have i: "i \<in> v_ID ` set (videos ?d)" using video_in [OF assms(5)] by force
  have k1: "constraints ?d1" by (rule constraints_like_row [OF assms(2) u i False])
  have k2: "constraints ?d2" by (rule likes_counts_ok(1) [OF k1]) (use assms(3) in \<open>simp add: roomy_def\<close>)
  have ins: "InsertLike ?u i w = (Inr ?l, ?w1)"
    using assms(1) False k1 by (simp add: InsertLike_def calm_exec Let_def)
  have inc: "IncrementLikesCount i ?w1 = (Inr (), ?w2)"
    using assms(1) k2 by (simp add: IncrementLikesCount_def update_videos_def calm_exec likes_more_def)
  have net2: "net_of ?d2 = net_of ?d\<lparr>hearts := insert (?u, i) (hearts (net_of ?d))\<rparr>"
    by (simp add: likes_counts_net) (simp add: net_of_def)
  obtain v2 where v2: "find_row (\<lambda>v. v_ID v = i) (videos ?d2) = Some v2"
    using likes_counts_rows(1) [of i ?d1 video i] assms(5) by auto
  have tx: "like_tx E user i video w = (if ?u \<noteq> v_UserID video
      then tryM (insertSocialNotification (v_UserID video) ?u ''like''
             [(''username'', u_Username user), (''video_id'', env_uuid_String E i)])
           (\<lambda>_. throw (Wrap ErrInternal ''insert notification'')) ok
      else ok ()) ?w2"
    by (simp add: like_tx_def tryM_run ins inc)
  show thesis
  proof (cases "?u = v_UserID video")
    case True
    then have "like_tx E user i video w = (Inr (), ?w2)" unfolding tx by (simp add: ok_run)
    then have "runTx (like_tx E user i video) w = (Inr (), ?w2)" by (rule runTx_done [OF assms(1)]) (simp add: assms(1))
    then show thesis using that [of ?w2 v2] assms(1) net2 v2 by simp
  next
    case False
    have owner: "v_UserID video \<in> u_ID ` set (users ?d)"
      using assms(2) video_in [OF assms(5)] by (auto simp: constraints_def videos_ok_def list_all_iff)
    obtain w3 where w3: "insertSocialNotification (v_UserID video) ?u ''like''
        [(''username'', u_Username user), (''video_id'', env_uuid_String E i)] ?w2 = (Inr (), w3)"
      "w_faults w3 = []" "w_out w3 = w_out ?w2" "net_of (w_db w3) = net_of (w_db ?w2)"
      "videos (w_db w3) = videos (w_db ?w2)"
      by (rule notify_calm [where w = ?w2 and u = "v_UserID video" and a = ?u and t = "''like''"])
        (use assms(1,3) k2 owner u in \<open>auto simp: roomy_def likes_counts_net\<close>)
    have "like_tx E user i video w = (Inr (), w3)" unfolding tx using False by (simp add: tryM_run ok_run w3(1))
    then have "runTx (like_tx E user i video) w = (Inr (), w3)" by (rule runTx_done [OF assms(1) _ w3(2)])
    then show thesis using that [of w3 v2] w3(2-5) net2 v2 by simp
  qed
qed

lemma unlike_tx_calm:
  assumes "w_faults w = []" "constraints (w_db w)" "find_row (\<lambda>v. v_ID v = i) (videos (w_db w)) = Some video"
  obtains w' v' where "runTx (unlike_tx user i) w = (Inr (), w')" "w_faults w' = []" "w_out w' = w_out w"
    "net_of (w_db w') = net_of (w_db w)\<lparr>hearts := hearts (net_of (w_db w)) - {(u_ID user, i)}\<rparr>"
    "find_row (\<lambda>v. v_ID v = i) (videos (w_db w')) = Some v'"
proof (cases "find_row (\<lambda>l. l_UserID l = u_ID user \<and> l_VideoID l = i) (likes (w_db w))")
  case None
  then have "DeleteLike (u_ID user) i w = (Inl (Sentinel ErrNoRows), w)"
    using assms(1) by (simp add: DeleteLike_def calm_exec Let_def)
  then have "unlike_tx user i w = (Inr (), w)" by (simp add: unlike_tx_def tryM_run ok_run)
  then have run: "runTx (unlike_tx user i) w = (Inr (), w)" by (rule runTx_done [OF assms(1) _ assms(1)])
  have "(u_ID user, i) \<notin> hearts (net_of (w_db w))"
    using None by (auto simp: net_of_def find_row_None)
  then have "net_of (w_db w) = net_of (w_db w)\<lparr>hearts := hearts (net_of (w_db w)) - {(u_ID user, i)}\<rparr>" by simp
  then show thesis using that [OF run assms(1) refl _ assms(3)] by simp
next
  case (Some l)
  let ?u = "u_ID user" and ?d = "w_db w"
  define d1 where "d1 = ?d\<lparr>likes := filter (\<lambda>l. \<not> (l_UserID l = ?u \<and> l_VideoID l = i)) (likes ?d)\<rparr>"
  let ?d2 = "likes_fewer i d1"
  have k: "constraints d1" "constraints ?d2"
    using constraints_less_likes [OF assms(2)] likes_counts_ok(2) by (auto simp: d1_def)
  have del: "DeleteLike ?u i w = (Inr l, w\<lparr>w_db := d1\<rparr>)"
    using assms(1) Some k(1) by (simp add: DeleteLike_def calm_exec Let_def d1_def)
  have dec: "DecrementLikesCount i (w\<lparr>w_db := d1\<rparr>) = (Inr (), w\<lparr>w_db := ?d2\<rparr>)"
    using assms(1) k(2) by (simp add: DecrementLikesCount_def update_videos_def calm_exec likes_fewer_def)
  have "unlike_tx user i w = (Inr (), w\<lparr>w_db := ?d2\<rparr>)" by (simp add: unlike_tx_def tryM_run ok_run del dec)
  then have run: "runTx (unlike_tx user i) w = (Inr (), w\<lparr>w_db := ?d2\<rparr>)"
    by (rule runTx_done [OF assms(1)]) (simp add: assms(1))
  have net2: "net_of ?d2 = net_of ?d\<lparr>hearts := hearts (net_of ?d) - {(?u, i)}\<rparr>"
    unfolding likes_counts_net by (auto simp: net_of_def d1_def)
  obtain v2 where "find_row (\<lambda>v. v_ID v = i) (videos ?d2) = Some v2"
    using likes_counts_rows(2) [of i d1 video i] assms(3) by (auto simp: d1_def)
  then show thesis using that [OF run] assms(1) net2 by simp
qed

text \<open>The part the two handlers share: look, change, read back, answer.\<close>

lemma like_outcome:
  assumes "w_faults w = []" "constraints (w_db w)"
    and run: "\<And>v. find_row (\<lambda>v. v_ID v = i) (videos (w_db w)) = Some v \<Longrightarrow> may_access (w_db w) u v \<Longrightarrow>
      \<exists>w' v'. tx v w = (Inr (), w') \<and> w_faults w' = [] \<and> w_out w' = w_out w \<and>
        net_of (w_db w') = n \<and> find_row (\<lambda>v. v_ID v = i) (videos (w_db w')) = Some v'"
    and r: "\<And>video. reply video = RespondOK (f video)"
  shows "outcome (if can_see (net_of (w_db w)) u i then Some n else None) w
    (snd (tryM (assertVideoOwnerOrVisible u i) RespondError (\<lambda>video.
      tryM (tx video) RespondError (\<lambda>_.
      tryM (GetVideoByID i) (\<lambda>_. RespondError (Wrap ErrInternal ''load video'')) reply)) w))"
    (is "outcome _ w (snd (?m w))")
proof (cases "can_see (net_of (w_db w)) u i")
  case True
  then obtain v where v: "find_row (\<lambda>v. v_ID v = i) (videos (w_db w)) = Some v" "may_access (w_db w) u v"
    using can_see_access [OF assms(2)] by blast
  obtain w' v' where w': "tx v w = (Inr (), w')" "w_faults w' = []" "w_out w' = w_out w"
      "net_of (w_db w') = n" "find_row (\<lambda>v. v_ID v = i) (videos (w_db w')) = Some v'"
    using run [OF v] by blast
  have "assertVideoOwnerOrVisible u i w = (Inr v, w)"
    using assms(1) v by (simp add: video_access_calm access_result_def)
  moreover have "GetVideoByID i w' = (Inr v', w')"
    using w'(2,5) by (simp add: GetVideoByID_def calm_query one_row_def)
  ultimately have "?m w = (Inr (), w'\<lparr>w_out := w_out w' @ [\<lparr>r_status = 200, r_body = BodyData (f v')\<rparr>]\<rparr>)"
    using w'(1,2) by (simp add: tryM_run r RespondOK_def calm_write)
  then show ?thesis using True w'(3,4) by (simp add: outcome_def)
next
  case False
  then have "assertVideoOwnerOrVisible u i w = (Inl video_hidden, w)"
    using assms(1) can_see_access [OF assms(2)]
    by (auto simp: video_access_calm access_result_def split: option.split)
  then have "?m w = RespondError (Wrap ErrNotFound ''video not found'') w"
    by (simp add: tryM_run video_hidden_def)
  then show ?thesis using refused [OF assms(1), of ?m] False by simp
qed

lemma LikeVideo_outcome:
  assumes "w_faults w = []" "\<And>x. env_wired E x" "constraints (w_db w)" "roomy w" "user \<in> set (users (w_db w))"
    "parseAuthVideoParam E q = Inr (user, i)"
  shows "outcome (wanted LikeRoute (u_ID user) i (net_of (w_db w))) w (snd (LikeVideo E q w))"
    "outcome (wanted UnlikeRoute (u_ID user) i (net_of (w_db w))) w (snd (UnlikeVideo E q w))"
proof -
  have e: "LikeVideo E q = tryM (assertVideoOwnerOrVisible (u_ID user) i) RespondError (\<lambda>video.
      tryM (runTx (like_tx E user i video)) RespondError (\<lambda>_.
      tryM (GetVideoByID i) (\<lambda>_. RespondError (Wrap ErrInternal ''load video''))
        (\<lambda>refreshed. RespondOK (LikeObject i True (v_LikesCount refreshed)))))"
    "UnlikeVideo E q = tryM (assertVideoOwnerOrVisible (u_ID user) i) RespondError (\<lambda>video.
      tryM (runTx (unlike_tx user i)) RespondError (\<lambda>_.
      tryM (GetVideoByID i) (\<lambda>_. RespondError (Wrap ErrInternal ''load video''))
        (\<lambda>refreshed. RespondOK (LikeObject i False (v_LikesCount refreshed)))))"
    using assms(2) by (simp_all add: LikeVideo_def UnlikeVideo_def assms(6))
  show "outcome (wanted LikeRoute (u_ID user) i (net_of (w_db w))) w (snd (LikeVideo E q w))"
    unfolding e wanted.simps
  proof (rule like_outcome [OF assms(1,3)])
    fix v assume v: "find_row (\<lambda>v. v_ID v = i) (videos (w_db w)) = Some v"
    show "\<exists>w' v'. runTx (like_tx E user i v) w = (Inr (), w') \<and> w_faults w' = [] \<and> w_out w' = w_out w \<and>
        net_of (w_db w') = net_of (w_db w)\<lparr>hearts := insert (u_ID user, i) (hearts (net_of (w_db w)))\<rparr> \<and>
        find_row (\<lambda>v. v_ID v = i) (videos (w_db w')) = Some v'"
      by (rule like_tx_calm [OF assms(1,3-5) v]) blast
  qed (rule refl)
  show "outcome (wanted UnlikeRoute (u_ID user) i (net_of (w_db w))) w (snd (UnlikeVideo E q w))"
    unfolding e wanted.simps
  proof (rule like_outcome [OF assms(1,3)])
    fix v assume v: "find_row (\<lambda>v. v_ID v = i) (videos (w_db w)) = Some v"
    show "\<exists>w' v'. runTx (unlike_tx user i) w = (Inr (), w') \<and> w_faults w' = [] \<and> w_out w' = w_out w \<and>
        net_of (w_db w') = net_of (w_db w)\<lparr>hearts := hearts (net_of (w_db w)) - {(u_ID user, i)}\<rparr> \<and>
        find_row (\<lambda>v. v_ID v = i) (videos (w_db w')) = Some v'"
      by (rule unlike_tx_calm [OF assms(1,3) v]) blast
  qed (rule refl)
qed

section \<open>Follows\<close>

lemma person:
  assumes "constraints d"
  shows "(\<exists>m. people (net_of d) i = Some m \<and> m_Active m) \<longleftrightarrow>
    (\<exists>u. find_row (\<lambda>u. u_ID u = i) (users d) = Some u \<and> u_IsActive u)"
proof (cases "find_row (\<lambda>u. u_ID u = i) (users d)")
  case None
  then have "people (net_of d) i = None" by (auto simp: net_of_def by_key_None find_row_None)
  then show ?thesis using None by simp
next
  case (Some u)
  then show ?thesis using net_entries(1) [OF Some assms] by (simp add: member_of_def)
qed

lemma FollowUser_outcome:
  assumes "w_faults w = []" "\<And>x. env_wired E x" "constraints (w_db w)" "roomy w" "user \<in> set (users (w_db w))"
    "req_user q = Some user" "env_uuid_Parse E (req_param q ''id'') = Some i"
  shows "outcome (wanted FollowRoute (u_ID user) i (net_of (w_db w))) w (snd (UserHandler_FollowUser E q w))"
proof (cases "u_ID user = i")
  case True
  then have "UserHandler_FollowUser E q w = RespondError (Wrap ErrSelfFollow ''cannot follow yourself'') w"
    by (simp add: UserHandler_FollowUser_def assms(2,6,7))
  then show ?thesis using refused [OF assms(1)] True by simp
next
  case other: False
  let ?u = "u_ID user" and ?d = "w_db w"
  have get: "GetUserByID i w = (one_row (find_row (\<lambda>u. u_ID u = i) (users ?d)), w)"
    using assms(1) by (simp add: GetUserByID_def calm_query)
  show ?thesis
  proof (cases "\<exists>m. people (net_of ?d) i = Some m \<and> m_Active m")
    case False
    then have "UserHandler_FollowUser E q w = RespondError (Wrap ErrNotFound ''user not found'') w"
      using other get
      by (cases "find_row (\<lambda>u. u_ID u = i) (users ?d)")
        (auto simp: UserHandler_FollowUser_def assms(2,6,7) person [OF assms(3)] tryM_run one_row_def)
    moreover have "wanted FollowRoute ?u i (net_of ?d) = None" using False by simp
    ultimately show ?thesis using refused [OF assms(1)] by simp
  next
    case True
    then obtain t where t: "find_row (\<lambda>u. u_ID u = i) (users ?d) = Some t" "u_IsActive t"
      using person [OF assms(3)] by blast
    have ti: "t \<in> set (users ?d)" "u_ID t = i" using find_row_Some [OF t(1)] by auto
    define d1 where "d1 = (if follows_edge ?d ?u i then ?d else ?d\<lparr>follows := follows ?d @
       [\<lparr>f_FollowerID = ?u, f_FolloweeID = i, f_CreatedAt = pg_now w\<rparr>]\<rparr>)"
    have k: "constraints d1"
      using assms(3,5) ti other by (auto simp: d1_def intro!: constraints_follow_row)
    have fol: "FollowUser ?u i w = (Inr (), w\<lparr>w_db := d1\<rparr>)"
      using assms(1) k by (cases "follows_edge ?d ?u i") (simp_all add: FollowUser_def calm_exec d1_def)
    have net1: "net_of d1 = net_of ?d\<lparr>fans := insert (?u, i) (fans (net_of ?d))\<rparr>"
    proof (cases "follows_edge ?d ?u i")
      case True
      then have "(?u, i) \<in> fans (net_of ?d)" by (force simp: net_of_def follows_edge_def list_ex_iff)
      then show ?thesis using True by (simp add: d1_def insert_absorb)
    qed (simp add: d1_def net_of_def)
    have "list_ex (\<lambda>f. f_FollowerID f = ?u \<and> f_FolloweeID f = i) (follows d1)"
      by (cases "follows_edge ?d ?u i") (simp_all add: d1_def follows_edge_def)
    then have "find_row (\<lambda>f. f_FollowerID f = ?u \<and> f_FolloweeID f = i) (follows d1) \<noteq> None"
      unfolding find_row_None by (simp add: list_ex_iff)
    then obtain f where f: "GetFollow ?u i (w\<lparr>w_db := d1\<rparr>) = (Inr f, w\<lparr>w_db := d1\<rparr>)"
      using assms(1) by (auto simp: GetFollow_def calm_query one_row_def)
    obtain w3 where w3: "InsertNotification i ?u ''follow'' (json_map [(''username'', u_Username user)])
        (w\<lparr>w_db := d1\<rparr>) = (Inr (last (notifications (w_db w3))), w3)" "w_faults w3 = []" "w_out w3 = w_out w"
        "net_of (w_db w3) = net_of d1"
      by (rule notify_calm [where w = "w\<lparr>w_db := d1\<rparr>" and u = i and a = ?u and t = "''follow''"
            and p = "[(''username'', u_Username user)]"])
        (use assms(1,4,5) k ti in \<open>auto simp: roomy_def d1_def\<close>)
    have told: "insertFollowNotification E t user (w\<lparr>w_db := d1\<rparr>) = (Inr (), w3)"
      by (simp add: insertFollowNotification_def assms(2) ti(2) tryM_run ok_run w3(1))
    have "UserHandler_FollowUser E q w = RespondOK (followObject (f_FollowerID f) (f_FolloweeID f) True
        (formatVideoTime (f_CreatedAt f))) w3"
      using other t(2) by (simp add: UserHandler_FollowUser_def assms(2,6,7) tryM_run get t(1) one_row_def
          fol f told Let_def)
    then show ?thesis
      using True other w3(2-4) net1 by (auto simp: outcome_def RespondOK_def calm_write)
  qed
qed

lemma UnfollowUser_outcome:
  assumes "w_faults w = []" "\<And>x. env_wired E x" "constraints (w_db w)"
    "req_user q = Some user" "env_uuid_Parse E (req_param q ''id'') = Some i"
  shows "outcome (wanted UnfollowRoute (u_ID user) i (net_of (w_db w))) w (snd (UnfollowUser E q w))"
proof -
  define d1 where "d1 = (w_db w)\<lparr>follows := filter (\<lambda>f. \<not> (f_FollowerID f = u_ID user \<and> f_FolloweeID f = i))
    (follows (w_db w))\<rparr>"
  have "constraints d1" unfolding d1_def by (rule constraints_less_follows [OF assms(3)])
  then have "DeleteFollow (u_ID user) i w = (Inr (), w\<lparr>w_db := d1\<rparr>)"
    using assms(1) by (simp add: DeleteFollow_def calm_exec d1_def)
  then have "UnfollowUser E q w = (Inr (), w\<lparr>w_db := d1, w_out := w_out w @
      [\<lparr>r_status = 200, r_body = BodyData (followObject (u_ID user) i False [])\<rparr>]\<rparr>)"
    using assms(1) by (simp add: UnfollowUser_def assms(2,4,5) tryM_run RespondOK_def calm_write)
  moreover have "net_of d1 = net_of (w_db w)\<lparr>fans := fans (net_of (w_db w)) - {(u_ID user, i)}\<rparr>"
    by (auto simp: d1_def net_of_def)
  ultimately show ?thesis by (auto simp: outcome_def)
qed

section \<open>Deleting\<close>

lemma shelf_owner:
  assumes "constraints d"
  shows "(\<exists>s. shelf (net_of d) i = Some (u, s)) \<longleftrightarrow>
    (\<exists>v. find_row (\<lambda>v. v_ID v = i) (videos d) = Some v \<and> v_UserID v = u)"
proof (cases "find_row (\<lambda>v. v_ID v = i) (videos d)")
  case None
  then have "shelf (net_of d) i = None" by (auto simp: net_of_def by_key_None find_row_None)
  then show ?thesis using None by simp
next
  case (Some v)
  then show ?thesis using net_entries(2) [OF Some assms] by auto
qed

lemma DeleteVideo_outcome:
  assumes "w_faults w = []" "\<And>x. env_wired E x" "constraints (w_db w)"
    "parseAuthVideoParam E q = Inr (user, i)"
  shows "outcome (wanted DeleteVideoRoute (u_ID user) i (net_of (w_db w))) w (snd (DeleteVideo E q w))"
proof -
  let ?u = "u_ID user" and ?d = "w_db w"
  have get: "GetVideoByID i w = (one_row (find_row (\<lambda>v. v_ID v = i) (videos ?d)), w)"
    using assms(1) by (simp add: GetVideoByID_def calm_query)
  show ?thesis
  proof (cases "\<exists>s. shelf (net_of ?d) i = Some (?u, s)")
    case False
    then have "DeleteVideo E q w = RespondError (Wrap ErrNotFound ''video not found'') w"
      using shelf_owner [OF assms(3), of i ?u] get
      by (cases "find_row (\<lambda>v. v_ID v = i) (videos ?d)")
        (simp_all add: DeleteVideo_def assms(2,4) tryM_run one_row_def)
    moreover have "wanted DeleteVideoRoute ?u i (net_of ?d) = None" using False by simp
    ultimately show ?thesis using refused [OF assms(1)] by simp
  next
    case True
    then obtain v where v: "find_row (\<lambda>v. v_ID v = i) (videos ?d) = Some v" "v_UserID v = ?u"
      using shelf_owner [OF assms(3)] by blast
    have vi: "v \<in> set (videos ?d)" "v_ID v = i" using video_in [OF v(1)] by auto
    show ?thesis
    proof (cases "v_Status v = DELETED")
      case True
      then have "DeleteVideo E q w = write_response 204 NoBody w"
        by (simp add: DeleteVideo_def assms(2,4) tryM_run get v one_row_def)
      moreover have "(shelf (net_of ?d))(i \<mapsto> (?u, DELETED)) = shelf (net_of ?d)"
        using net_entries(2) [OF v(1) assms(3)] v(2) True by (simp add: fun_upd_idem)
      ultimately show ?thesis
        using net_entries(2) [OF v(1) assms(3)] v(2) by (simp add: outcome_def calm_write assms(1))
    next
      case False
      let ?f = "\<lambda>v. v\<lparr>v_Status := DELETED, v_DeletedAt := Some (pg_now w)\<rparr>"
      let ?P = "\<lambda>v. v_ID v = i \<and> v_UserID v = ?u"
      define d1 where "d1 = ?d\<lparr>videos := update_rows ?P ?f (videos ?d)\<rparr>"
      have dist: "distinct (map v_ID (videos ?d))" using assms(3) by (simp add: constraints_def videos_ok_def)
      have k: "constraints d1"
        unfolding d1_def
        by (rule constraints_drop_pending [OF assms(3)]) (simp_all add: video_row_ok_def)
      have "find_row ?P (videos ?d) = Some v"
      proof (cases "find_row ?P (videos ?d)")
        case None
        then show ?thesis using vi v(2) by (auto simp: find_row_None)
      next
        case (Some x)
        then have "x \<in> set (videos ?d)" "v_ID x = v_ID v" using find_row_Some [OF Some] vi by auto
        then show ?thesis using Some key_inj [OF dist _ vi(1)] by simp
      qed
      then have mark: "MarkVideoDeleted i ?u w = (Inr (?f v), w\<lparr>w_db := d1\<rparr>)"
        using assms(1) k by (simp add: MarkVideoDeleted_def update_video_one_def calm_exec d1_def)
      have "net_of d1 = net_of ?d\<lparr>shelf := (shelf (net_of ?d))(v_ID v \<mapsto> shelf_entry (?f v))\<rparr>"
        unfolding d1_def by (rule net_update_one [OF assms(3) vi(1)]) (use vi v in auto)
      then have net1: "net_of d1 = net_of ?d\<lparr>shelf := (shelf (net_of ?d))(i \<mapsto> (?u, DELETED))\<rparr>"
        using vi(2) v(2) by simp
      obtain r w3 where w3: "EnqueueCleanupVideo (env_uuid_String E i) cleanup_delay (w\<lparr>w_db := d1\<rparr>) = (r, w3)"
        by fastforce
      then have same: "w_faults w3 = []" "w_db w3 = d1" "w_out w3 = w_out w"
        using assms(1)
        by (auto simp: EnqueueCleanupVideo_def NewCleanupVideoTask_def run_simps calm_client split: if_splits)
      have "DeleteVideo E q w = write_response 204 NoBody w3"
        using False vi(2)
        by (cases r) (simp_all add: DeleteVideo_def assms(2,4) tryM_run get v one_row_def mark w3)
      then show ?thesis
        using True same net1 by (simp add: outcome_def calm_write)
    qed
  qed
qed

lemma remark_author:
  assumes "constraints d"
  shows "(\<exists>r. remarks (net_of d) i = Some r \<and> k_Author r = u) \<longleftrightarrow>
    (\<exists>c. find_row (\<lambda>c. c_ID c = i) (comments d) = Some c \<and> c_UserID c = u)"
proof (cases "find_row (\<lambda>c. c_ID c = i) (comments d)")
  case None
  then have "remarks (net_of d) i = None" by (auto simp: net_of_def by_key_None find_row_None)
  then show ?thesis using None by simp
next
  case (Some c)
  then have "c \<in> set (comments d)" "c_ID c = i" using find_row_Some by fastforce+
  then show ?thesis using Some net_entries(3) [of c d] assms by (simp add: remark_of_def)
qed

lemma count_calm:
  assumes "w_faults w = []" "constraints (w_db w)" "ranked_rows (comments (w_db w))" "roomy w"
    "c \<in> set (comments (w_db w))"
  obtains n where "CountCommentSubtree (c_ID c) w = (Inr n, w)" "0 < n"
proof -
  have dist: "distinct (map c_ID (comments (w_db w)))"
    using assms(2) by (simp add: constraints_def comments_ok_def)
  have one: "map c_ID (filter (\<lambda>x. c_ID x = c_ID c) (comments (w_db w))) = [c_ID c]"
    using filter_key_single [OF dist assms(5)] by simp
  obtain rows where rows: "subtree_rows (comments (w_db w)) [c_ID c] = Some rows" "distinct rows"
      "c_ID c \<in> set rows" "set rows \<subseteq> c_ID ` set (comments (w_db w))"
    by (rule subtree_delete [OF dist assms(3,5)])
  have "length rows = card (set rows)" using rows(2) by (simp add: distinct_card)
  also have "\<dots> \<le> card (c_ID ` set (comments (w_db w)))" using rows(4) by (intro card_mono) auto
  also have "\<dots> \<le> length (comments (w_db w))" using card_length [of "map c_ID (comments (w_db w))"] by simp
  finally have "int32_ok (int (length rows))" using assms(4) by (simp add: roomy_def int32_ok_def)
  then have "CountCommentSubtree (c_ID c) w = (Inr (int (length rows)), w)"
    using assms(1) by (simp add: CountCommentSubtree_def calm_query one rows(1))
  moreover have "0 < int (length rows)" using rows(3) by (cases rows) auto
  ultimately show thesis by (rule that)
qed

lemma DeleteComment_outcome:
  assumes "w_faults w = []" "\<And>x. env_wired E x" "constraints (w_db w)" "ranked_rows (comments (w_db w))"
    "roomy w" "req_user q = Some user" "env_uuid_Parse E (req_param q ''id'') = Some i"
  shows "outcome (wanted DeleteCommentRoute (u_ID user) i (net_of (w_db w))) w (snd (DeleteComment E q w))"
proof -
  let ?u = "u_ID user" and ?d = "w_db w"
  have row: "\<exists>r. GetCommentByID i w = (Inr r, w) \<and> cr_comment r = c"
    if "find_row (\<lambda>c. c_ID c = i) (comments ?d) = Some c" for c
  proof -
    have "c_UserID c \<in> u_ID ` set (users ?d)"
      using assms(3) find_row_Some [OF that] by (auto simp: constraints_def comments_ok_def list_all_iff)
    then have "find_row (\<lambda>u. u_ID u = c_UserID c) (users ?d) \<noteq> None" unfolding find_row_None by auto
    then obtain x where "find_row (\<lambda>u. u_ID u = c_UserID c) (users ?d) = Some x" by auto
    then show ?thesis using assms(1) that by (simp add: GetCommentByID_def calm_query one_row_def join_author_def)
  qed
  show ?thesis
  proof (cases "\<exists>c. find_row (\<lambda>c. c_ID c = i) (comments ?d) = Some c \<and> c_UserID c = ?u")
    case False
    have "DeleteComment E q w = RespondError (Wrap ErrNotFound ''comment not found'') w"
    proof (cases "find_row (\<lambda>c. c_ID c = i) (comments ?d)")
      case None
      then have "GetCommentByID i w = (Inl (Sentinel ErrNoRows), w)"
        using assms(1) by (simp add: GetCommentByID_def calm_query one_row_def)
      then show ?thesis by (simp add: DeleteComment_def assms(2,6,7) tryM_run)
    next
      case (Some c)
      then obtain r where "GetCommentByID i w = (Inr r, w)" "cr_comment r = c" using row by blast
      then show ?thesis using False Some by (simp add: DeleteComment_def assms(2,6,7) tryM_run)
    qed
    moreover have "wanted DeleteCommentRoute ?u i (net_of ?d) = None"
      using False remark_author [OF assms(3), of i ?u] by auto
    ultimately show ?thesis using refused [OF assms(1)] by simp
  next
    case True
    then obtain c where c: "find_row (\<lambda>c. c_ID c = i) (comments ?d) = Some c" "c_UserID c = ?u" by blast
    have ci: "c \<in> set (comments ?d)" "c_ID c = i" using find_row_Some [OF c(1)] by auto
    obtain r where r: "GetCommentByID i w = (Inr r, w)" "cr_comment r = c" using row [OF c(1)] by blast
    obtain n where n: "CountCommentSubtree i w = (Inr n, w)" "0 < n"
      using count_calm [OF assms(1,3-5) ci(1)] ci(2) by blast
    define d1 where "d1 = delete_comments (\<lambda>c. c_ID c = i) ?d"
    define d2 where "d2 = d1\<lparr>videos := update_rows (\<lambda>v. v_ID v = c_VideoID c)
      (\<lambda>v. v\<lparr>v_CommentsCount := max (v_CommentsCount v - n) 0\<rparr>) (videos d1)\<rparr>"
    have k1: "constraints d1" unfolding d1_def by (rule constraints_delete_comments [OF assms(3)])
    have k2: "constraints d2" unfolding d2_def
      by (rule constraints_update_videos [OF k1]) (use n(2) in \<open>auto simp: video_row_ok_def int32_ok_def\<close>)
    have del: "DeleteCommentByID i w = (Inr (), w\<lparr>w_db := d1\<rparr>)"
      using assms(1) k1 by (simp add: DeleteCommentByID_def calm_exec d1_def)
    have dec: "DecrementCommentsCountBy (c_VideoID c) n (w\<lparr>w_db := d1\<rparr>) = (Inr (), w\<lparr>w_db := d2\<rparr>)"
      using assms(1) k2 by (simp add: DecrementCommentsCountBy_def update_videos_def calm_exec d2_def)
    have "delete_comment_tx i (c_VideoID c) w = (Inr (), w\<lparr>w_db := d2\<rparr>)"
      using n(2) by (simp add: delete_comment_tx_def tryM_run ok_run n(1) del dec)
    then have "runTx (delete_comment_tx i (c_VideoID c)) w = (Inr (), w\<lparr>w_db := d2\<rparr>)"
      by (rule runTx_done [OF assms(1)]) (simp add: assms(1))
    then have run: "DeleteComment E q w = RespondNoContent (w\<lparr>w_db := d2\<rparr>)"
      using c(2) by (simp add: DeleteComment_def assms(2,6,7) tryM_run r Let_def)
    have "c_ID ` {x \<in> set (comments ?d). c_ID x = i} = {i}" using ci by auto
    then have "net_of d1 = drop_threads {i} (net_of ?d)"
      unfolding d1_def using assms(3) by (simp add: net_delete_comments constraints_def comments_ok_def)
    then have "net_of d2 = drop_threads {i} (net_of ?d)" by (simp add: d2_def net_update_videos)
    moreover have "wanted DeleteCommentRoute ?u i (net_of ?d) = Some (drop_threads {i} (net_of ?d))"
      using True remark_author [OF assms(3), of i ?u] by simp
    ultimately show ?thesis
      using assms(1) by (simp add: run outcome_def RespondNoContent_def calm_write)
  qed
qed

section \<open>The six routes\<close>

lemma direct_outcome:
  assumes "w_faults w = []" "\<And>x. env_wired E x" "replies_inv (w_db w)" "roomy w" "user \<in> set (users (w_db w))"
    "req_user q = Some user" "env_uuid_Parse E (req_param q ''id'') = Some i" "direct r"
  shows "outcome (wanted r (u_ID user) i (net_of (w_db w))) w (snd (route_handler E r q w))"
proof -
  have inv: "constraints (w_db w)" "ranked_rows (comments (w_db w))" using assms(3) by (simp_all add: replies_inv_def)
  have p: "parseAuthVideoParam E q = Inr (user, i)" by (simp add: parseAuthVideoParam_def assms(6,7))
  show ?thesis
    using assms(8) LikeVideo_outcome [OF assms(1,2) inv(1) assms(4,5) p]
      FollowUser_outcome [OF assms(1,2) inv(1) assms(4-7)] UnfollowUser_outcome [OF assms(1,2) inv(1) assms(6,7)]
      DeleteVideo_outcome [OF assms(1,2) inv(1) p] DeleteComment_outcome [OF assms(1,2) inv assms(4,6,7)]
    by (cases r) (simp_all del: wanted.simps)
qed

end
