(* ===== verification/Smoke.thy ===== *)
theory Smoke
  imports Router
begin

text \<open>
  The smoke tests under \<^verbatim>\<open>scripts/smoketest/\<close>, which the repository runs against a
  real Postgres, are programs over the same queries as the handlers; here they run on the
  tables of the model.  This theory has what they share; the other theories whose
  name begins with Smoke have the programs.

  Every program has its own copies of the helpers (\<^verbatim>\<open>ensureUser\<close>,
  \<^verbatim>\<open>insertReady\<close>, ...), which differ in details; a definition is prefixed with the
  name of its program.  A run starts when the database answers the ping; \<^verbatim>\<open>sql.Open\<close>
  does not connect and does not fail with the pgx driver.
\<close>

section \<open>Statements the tests write by hand\<close>

text \<open>Deleting users takes with it what references them.\<close>

definition delete_users :: "(User \<Rightarrow> bool) \<Rightarrow> db \<Rightarrow> db" where
  "delete_users P d =
    (let gone = map u_ID (filter P (users d));
         d1 = delete_videos (\<lambda>v. v_UserID v \<in> set gone) d;
         d2 = delete_comments (\<lambda>c. c_UserID c \<in> set gone) d1
     in d2\<lparr>users := filter (\<lambda>u. \<not> P u) (users d),
           follows := filter (\<lambda>f. f_FollowerID f \<notin> set gone \<and> f_FolloweeID f \<notin> set gone) (follows d),
           likes := filter (\<lambda>l. l_UserID l \<notin> set gone) (likes d1),
           notifications := filter (\<lambda>n. n_UserID n \<notin> set gone \<and> n_ActorID n \<notin> set gone)
             (notifications d)\<rparr>)"

text \<open>\<^verbatim>\<open>DELETE FROM users WHERE username LIKE pattern\<close>, and the same on titles.\<close>

definition DeleteUsersLike :: "string \<Rightarrow> unit io" where
  "DeleteUsersLike pat = exec (\<lambda>_ d. Inr ((), delete_users (\<lambda>u. like_match pat (u_Username u)) d))"

definition like_title :: "string \<Rightarrow> Video \<Rightarrow> bool" where
  "like_title pat v = (case v_Title v of None \<Rightarrow> False | Some t \<Rightarrow> like_match pat t)"

definition DeleteVideosLike :: "string \<Rightarrow> unit io" where
  "DeleteVideosLike pat = exec (\<lambda>_ d. Inr ((), delete_videos (like_title pat) d))"

definition SelectUserByUsername :: "string \<Rightarrow> User io" where
  "SelectUserByUsername name = query (\<lambda>d. one_row (find_row (\<lambda>u. u_Username u = name) (users d)))"

definition SetUserFlags :: "uuid \<Rightarrow> bool \<Rightarrow> bool \<Rightarrow> unit io" where
  "SetUserFlags i isPrivate isActive = exec (\<lambda>_ d. Inr ((), d\<lparr>users := update_rows (\<lambda>u. u_ID u = i)
     (\<lambda>u. u\<lparr>u_IsPrivate := isPrivate, u_IsActive := isActive\<rparr>) (users d)\<rparr>))"

text \<open>\<^verbatim>\<open>SELECT COUNT(*) FROM table WHERE ...\<close>\<close>

definition count_where :: "(db \<Rightarrow> 'a list) \<Rightarrow> ('a \<Rightarrow> bool) \<Rightarrow> int io" where
  "count_where table P = query (\<lambda>d. Inr (int (count_rows P (table d))))"

definition likes_of :: "uuid \<Rightarrow> uuid \<Rightarrow> Like \<Rightarrow> bool" where
  "likes_of userID videoID l \<longleftrightarrow> l_UserID l = userID \<and> l_VideoID l = videoID"

definition notified :: "uuid \<Rightarrow> uuid \<Rightarrow> string \<Rightarrow> Notification \<Rightarrow> bool" where
  "notified userID actorID typ n \<longleftrightarrow> n_UserID n = userID \<and> n_ActorID n = actorID \<and> n_Type n = typ"

text \<open>\<^verbatim>\<open>SELECT payload ... ORDER BY created_at DESC LIMIT 1\<close>\<close>

definition LatestPayload :: "uuid \<Rightarrow> string \<Rightarrow> json io" where
  "LatestPayload userID typ = query (\<lambda>d. one_row (map_option n_Payload (find_row (\<lambda>_. True)
     (rev (sort_key n_CreatedAt
        (filter (\<lambda>n. n_UserID n = userID \<and> n_Type n = typ) (notifications d)))))))"

section \<open>The style of the tests\<close>

text \<open>
  \<^verbatim>\<open>if err != nil { return fmt.Errorf("p: %w", err) }\<close>;
  \<^verbatim>\<open>if !c { return fmt.Errorf(msg) }\<close>; and a reload whose error is dropped, which
  leaves the zero row.
\<close>

definition must :: "string \<Rightarrow> 'a io \<Rightarrow> ('a \<Rightarrow> 'b io) \<Rightarrow> 'b io" where
  "must p m k = tryM m (\<lambda>err. throw (Errorf_tail p err)) k"

definition expect :: "bool \<Rightarrow> string \<Rightarrow> 'b io \<Rightarrow> 'b io" where
  "expect c msg k = (if c then k else throw (Opaque msg))"

definition reload_count :: "(Video \<Rightarrow> int) \<Rightarrow> uuid \<Rightarrow> int io" where
  "reload_count f i = tryM (GetVideoByID i) (\<lambda>_. ok 0) (\<lambda>v. ok (f v))"

text \<open>\<^verbatim>\<open>fmt.Errorf("%s=%d, want %d", ...)\<close>\<close>

definition want :: "string \<Rightarrow> int \<Rightarrow> int \<Rightarrow> string" where
  "want what n m = what @ ''='' @ FormatInt n @ '', want '' @ FormatInt m"

text \<open>Decoding a JSON object into a \<^verbatim>\<open>map[string]string\<close>; reading a missing key gives the empty string.\<close>

fun json_text :: "env \<Rightarrow> json \<Rightarrow> string option" where
  "json_text E (JStr s) = Some s"
| "json_text E (JUuid i) = Some (env_uuid_String E i)"
| "json_text E JNull = Some []"
| "json_text E _ = None"

fun unmarshal_fields :: "env \<Rightarrow> (string \<times> json) list \<Rightarrow> (string \<times> string) list option" where
  "unmarshal_fields E [] = Some []"
| "unmarshal_fields E ((k, j) # kvs) =
     (case json_text E j of
        None \<Rightarrow> None
      | Some s \<Rightarrow> map_option (\<lambda>m. (k, s) # m) (unmarshal_fields E kvs))"

fun unmarshal_map :: "env \<Rightarrow> json \<Rightarrow> goerr + (string \<times> string) list" where
  "unmarshal_map E (JObj kvs) =
     (case unmarshal_fields E kvs of
        None \<Rightarrow> Inl (Opaque ''json: cannot unmarshal into Go value of type string'')
      | Some m \<Rightarrow> Inr m)"
| "unmarshal_map E JNull = Inr []"
| "unmarshal_map E _ = Inl (Opaque ''json: cannot unmarshal into Go value of type map[string]string'')"

definition field :: "(string \<times> string) list \<Rightarrow> string \<Rightarrow> string" where
  "field m k = (case map_of m k of None \<Rightarrow> [] | Some s \<Rightarrow> s)"

text \<open>\<^verbatim>\<open>%v\<close> of a map lists the keys in order, which is the order of the fields of a payload.\<close>

fun join_text :: "string \<Rightarrow> string list \<Rightarrow> string" where
  "join_text sep [] = []"
| "join_text sep [x] = x"
| "join_text sep (x # xs) = x @ sep @ join_text sep xs"

definition map_text :: "(string \<times> string) list \<Rightarrow> string" where
  "map_text m = ''map['' @ join_text '' '' (map (\<lambda>(k, s). k @ '':'' @ s) m) @ '']''"

section \<open>Helpers that are alike in several tests\<close>

text \<open>
  A user of that name from an earlier run, else a new one.  Any error of the lookup leads
  to the creation.
\<close>

definition find_or_create :: "string \<Rightarrow> string \<Rightarrow> (User \<Rightarrow> User io) \<Rightarrow> (User \<Rightarrow> User io) \<Rightarrow> User io" where
  "find_or_create zitadelPrefix username found created =
     tryM (SelectUserByUsername username)
       (\<lambda>_. bindM (CreateUser (zitadelPrefix @ username) username (Some username)) created) found"

text \<open>The row is returned as it was created, whatever the second statement does.\<close>

definition flags_unchecked :: "bool \<Rightarrow> bool \<Rightarrow> User \<Rightarrow> User io" where
  "flags_unchecked isPrivate isActive u =
    (if isPrivate \<or> \<not> isActive
     then tryM (SetUserFlags (u_ID u) isPrivate isActive) (\<lambda>_. ok u) (\<lambda>_. ok u) else ok u)"

text \<open>A video inserted and taken to READY by the statements of the upload and the worker.\<close>

definition source_key :: "env \<Rightarrow> uuid \<Rightarrow> uuid \<Rightarrow> string \<Rightarrow> string" where
  "source_key E owner i slug = ''uploads/'' @ env_uuid_String E owner @ ''/'' @ env_uuid_String E i @
     ''/source-'' @ slug @ ''.mp4''"

definition insert_ready ::
  "env \<Rightarrow> string \<Rightarrow> int \<Rightarrow> (string \<Rightarrow> goerr \<Rightarrow> goerr) \<Rightarrow> uuid \<Rightarrow> string \<Rightarrow> Video io"
where
  "insert_ready E title duration wrap owner slug =
     bindM new_uuid (\<lambda>i.
     bindM (InsertVideo owner (source_key E owner i slug) (Some (title @ slug)) None) (\<lambda>v.
     tryM (UpdateVideoToProcessing (v_ID v)) (\<lambda>err. throw (wrap ''UpdateVideoToProcessing'' err)) (\<lambda>_.
     tryM (MarkVideoReady (v_ID v)
         (Some (''hls/'' @ env_uuid_String E owner @ ''/'' @ env_uuid_String E (v_ID v) @ ''/''))
         (Some (''thumbs/'' @ env_uuid_String E owner @ ''/'' @ env_uuid_String E (v_ID v) @ ''.jpg''))
         (Some duration))
       (\<lambda>err. throw (wrap ''MarkVideoReady'' err)) ok)))"

definition unwrapped :: "string \<Rightarrow> goerr \<Rightarrow> goerr" where
  "unwrapped _ err = err"

text \<open>
  A transaction as the tests write it: begin, a deferred rollback, the body, commit.  An
  error of the body or of the commit leaves the tables as they were.
\<close>

definition txWith :: "(goerr \<Rightarrow> goerr) \<Rightarrow> (goerr \<Rightarrow> goerr) \<Rightarrow> 'a io \<Rightarrow> 'a io" where
  "txWith beginErr commitErr body =
     tryM fault (\<lambda>err. throw (beginErr err))
       (\<lambda>_ w0. case body w0 of
          (Inl e, w) \<Rightarrow> (Inl e, rollback_to (w_db w0) w)
        | (Inr x, w) \<Rightarrow>
            (case fault w of
               (Inl err, w') \<Rightarrow> (Inl (commitErr err), rollback_to (w_db w0) w')
             | (Inr _, w') \<Rightarrow> (Inr x, w')))"

end
