(* ===== verification/SmokeSocial.thy ===== *)
theory SmokeSocial
  imports Smoke
begin

text \<open>
  The tests of the social statements: \<^verbatim>\<open>phase7_like\<close>, \<^verbatim>\<open>phase7_comment\<close>
  and \<^verbatim>\<open>phase7_notification\<close>.  The transactions of the first two are meant to mirror
  those of the handlers.
\<close>

section \<open>phase7 like\<close>

definition like_prefix :: string where "like_prefix = ''smoke-test-phase7a-''"

definition like_ensureUser :: "string \<Rightarrow> bool \<Rightarrow> bool \<Rightarrow> User io" where
  "like_ensureUser username isPrivate isActive =
     find_or_create ''smoke-phase7a-'' username ok (flags_unchecked isPrivate isActive)"

definition like_insertReady :: "env \<Rightarrow> uuid \<Rightarrow> string \<Rightarrow> Video io" where
  "like_insertReady E = insert_ready E ''phase7a-smoke-'' 12 unwrapped"

definition like_likeTx :: "env \<Rightarrow> User \<Rightarrow> Video \<Rightarrow> unit io" where
  "like_likeTx E actor video = txWith (Errorf_tail ''begin'') (\<lambda>err. err)
    (tryM (InsertLike (u_ID actor) (v_ID video))
      (\<lambda>lerr. if errors_Is lerr ErrNoRows then ok ()
              else throw (Errorf_tail ''insert like'' lerr))
      (\<lambda>_. must ''increment likes'' (IncrementLikesCount (v_ID video)) (\<lambda>_.
        if u_ID actor \<noteq> v_UserID video then
          must ''insert notification''
            (InsertNotification (v_UserID video) (u_ID actor) ''like'' (json_map
               [(''username'', u_Username actor), (''video_id'', env_uuid_String E (v_ID video))]))
            (\<lambda>_. ok ())
        else ok ())))"

definition like_unlikeTx :: "User \<Rightarrow> Video \<Rightarrow> unit io" where
  "like_unlikeTx actor video = txWith (Errorf_tail ''begin'') (\<lambda>err. err)
    (tryM (DeleteLike (u_ID actor) (v_ID video))
      (\<lambda>derr. if errors_Is derr ErrNoRows then ok ()
              else throw (Errorf_tail ''delete like'' derr))
      (\<lambda>_. must ''decrement likes'' (DecrementLikesCount (v_ID video)) ok))"

text \<open>The like: counter, row, notification and its payload; and the like again.\<close>

definition like_liked :: "env \<Rightarrow> User \<Rightarrow> User \<Rightarrow> Video \<Rightarrow> unit io" where
  "like_liked E owner liker video =
     must ''like tx'' (like_likeTx E liker video) (\<lambda>_.
     must ''reload video'' (GetVideoByID (v_ID video)) (\<lambda>v.
     expect (v_LikesCount v = 1) (want ''likes_count'' (v_LikesCount v) 1) (
     must ''count likes'' (count_where likes (likes_of (u_ID liker) (v_ID video))) (\<lambda>likeRows.
     expect (likeRows = 1) (want ''likes rows'' likeRows 1) (
     must ''count like notifs''
       (count_where notifications (notified (u_ID owner) (u_ID liker) ''like'')) (\<lambda>likeNotif.
     expect (likeNotif = 1) (want ''like notifications'' likeNotif 1) (
     must ''load like payload'' (LatestPayload (u_ID owner) ''like'') (\<lambda>payload.
     must ''unmarshal payload'' (liftR (unmarshal_map E payload)) (\<lambda>parsed.
     expect (field parsed ''username'' = u_Username liker \<and>
             field parsed ''video_id'' = env_uuid_String E (v_ID video))
       (''payload mismatch: '' @ map_text parsed) (
     must ''re-like tx'' (like_likeTx E liker video) (\<lambda>_.
     bindM (reload_count v_LikesCount (v_ID video)) (\<lambda>n.
     expect (n = 1) (want ''likes_count after re-like'' n 1) (ok ())))))))))))))"

definition like_unliked :: "User \<Rightarrow> Video \<Rightarrow> unit io" where
  "like_unliked liker video =
     must ''unlike tx'' (like_unlikeTx liker video) (\<lambda>_.
     bindM (reload_count v_LikesCount (v_ID video)) (\<lambda>n.
     expect (n = 0) (want ''likes_count after unlike'' n 0) (
     bindM (count_where likes (likes_of (u_ID liker) (v_ID video))) (\<lambda>likeRows.
     expect (likeRows = 0) (want ''likes rows after unlike'' likeRows 0) (
     must ''re-unlike tx'' (like_unlikeTx liker video) (\<lambda>_.
     bindM (reload_count v_LikesCount (v_ID video)) (\<lambda>n.
     expect (n = 0) (want ''likes_count after re-unlike'' n 0) (ok ()))))))))"

text \<open>The owner's own like, the views, and the owner's like of a video that is not READY.\<close>

definition like_owned :: "env \<Rightarrow> User \<Rightarrow> Video \<Rightarrow> unit io" where
  "like_owned E owner video =
     must ''self-like tx'' (like_likeTx E owner video) (\<lambda>_.
     bindM (count_where notifications (notified (u_ID owner) (u_ID owner) ''like'')) (\<lambda>selfNotif.
     expect (selfNotif = 0) (want ''self-like notifications'' selfNotif 0) (
     must ''IncrementViews'' (IncrementViews (v_ID video)) (\<lambda>_.
     must ''IncrementViews 2'' (IncrementViews (v_ID video)) (\<lambda>_.
     bindM (reload_count v_ViewsCount (v_ID video)) (\<lambda>n.
     expect (n = 2) (want ''views_count'' n 2) (
     bindM new_uuid (\<lambda>i.
     must ''insert processing video''
       (InsertVideo (u_ID owner) (source_key E (u_ID owner) i ''proc'') (Some ''phase7a-proc'') None) (\<lambda>proc.
     must ''to processing'' (UpdateVideoToProcessing (v_ID proc)) (\<lambda>_.
     must ''owner like on PROCESSING'' (like_likeTx E owner proc) ok))))))))))"

definition like_run :: "env \<Rightarrow> unit io" where
  "like_run E =
     must ''ping'' fault (\<lambda>_.
     must ''pre-clean users'' (DeleteUsersLike (like_prefix @ ''%'')) (\<lambda>_.
     must ''seed owner'' (like_ensureUser (like_prefix @ ''owner'') False True) (\<lambda>owner.
     must ''seed liker'' (like_ensureUser (like_prefix @ ''liker'') False True) (\<lambda>liker.
     must ''seed ready video'' (like_insertReady E (u_ID owner) ''a'') (\<lambda>video.
     bindM (like_liked E owner liker video) (\<lambda>_.
     bindM (like_unliked liker video) (\<lambda>_.
     like_owned E owner video)))))))"

section \<open>phase7 comment\<close>

definition comment_prefix :: string where "comment_prefix = ''smoke-test-phase7b-''"

definition comment_ensureUser :: "string \<Rightarrow> User io" where
  "comment_ensureUser username = find_or_create ''smoke-phase7b-'' username ok ok"

definition comment_insertReady :: "env \<Rightarrow> uuid \<Rightarrow> string \<Rightarrow> Video io" where
  "comment_insertReady E = insert_ready E ''phase7b-smoke-'' 12 unwrapped"

text \<open>The recipients are a map of at most two entries; see \<^verbatim>\<open>reply_recipients\<close>.\<close>

definition comment_notify :: "env \<Rightarrow> User \<Rightarrow> Video \<Rightarrow> uuid \<Rightarrow> uuid list \<Rightarrow> unit io" where
  "comment_notify E actor video commentID recipients =
     forM recipients (\<lambda>recipient. must ''notify''
       (InsertNotification recipient (u_ID actor) ''comment'' (json_map
          [(''comment_id'', env_uuid_String E commentID), (''username'', u_Username actor),
           (''video_id'', env_uuid_String E (v_ID video))])) (\<lambda>_. ok ()))"

definition comment_commentTx :: "env \<Rightarrow> User \<Rightarrow> Video \<Rightarrow> uuid option \<Rightarrow> string \<Rightarrow> Comment io" where
  "comment_commentTx E actor video parentID content = txWith (Errorf_tail ''begin'') (Errorf_tail ''commit'')
    (must ''insert'' (InsertComment (v_ID video) (u_ID actor) parentID content) (\<lambda>comment.
     must ''increment'' (IncrementCommentsCount (v_ID video)) (\<lambda>_.
     bindM (case parentID of
         None \<Rightarrow> ok (if v_UserID video \<noteq> u_ID actor then [v_UserID video] else [])
       | Some p \<Rightarrow> must ''load parent'' (GetCommentByID p) (\<lambda>parent.
           ok (reply_recipients (u_ID actor) (v_UserID video) (c_UserID (cr_comment parent))))) (\<lambda>recipients.
     bindM (comment_notify E actor video (c_ID comment) recipients) (\<lambda>_. ok comment)))))"

definition comment_created :: "env \<Rightarrow> User \<Rightarrow> User \<Rightarrow> Video \<Rightarrow> Comment io" where
  "comment_created E owner commenter video =
     must ''create comment'' (comment_commentTx E commenter video None ''nice one'') (\<lambda>upper.
     bindM (reload_count v_CommentsCount (v_ID video)) (\<lambda>n.
     expect (n = 1) (want ''comments_count'' n 1) (
     bindM (count_where notifications (notified (u_ID owner) (u_ID commenter) ''comment'')) (\<lambda>notif.
     expect (notif = 1) (want ''comment notifications'' notif 1) (
     must ''load payload'' (LatestPayload (u_ID owner) ''comment'') (\<lambda>payload.
     must ''unmarshal payload'' (liftR (unmarshal_map E payload)) (\<lambda>parsed.
     expect (field parsed ''comment_id'' \<noteq> [] \<and>
             field parsed ''video_id'' = env_uuid_String E (v_ID video))
       (''payload mismatch: '' @ map_text parsed) (
     must ''self comment'' (comment_commentTx E owner video None ''owner note'') (\<lambda>_.
     bindM (count_where notifications (notified (u_ID owner) (u_ID owner) ''comment'')) (\<lambda>notif.
     expect (notif = 0) (want ''self-comment notifications'' notif 0) (
     bindM (reload_count v_CommentsCount (v_ID video)) (\<lambda>n.
     expect (n = 2) (want ''comments_count after self-comment'' n 2) (ok upper)))))))))))))"

definition comment_listed :: "Video \<Rightarrow> unit io" where
  "comment_listed video =
     must ''list comments'' (ListCommentsByVideo (v_ID video) None 10) (\<lambda>rows.
     expect (length rows = 2) (''listed '' @ nat_text (length rows) @ '' comments, want 2'') (
     expect (\<not> c_CreatedAt (cr_comment (rows ! 0)) < c_CreatedAt (cr_comment (rows ! 1)))
       ''list not ordered created_at DESC'' (
     expect (u_Username (cr_author (rows ! 0)) \<noteq> []) ''joined username empty'' (ok ()))))"

text \<open>A reply to another's comment and one to the author's own.\<close>

definition comment_replied :: "env \<Rightarrow> User \<Rightarrow> User \<Rightarrow> Video \<Rightarrow> Comment \<Rightarrow> Comment io" where
  "comment_replied E owner commenter video upper =
     must ''reply'' (comment_commentTx E owner video (Some (c_ID upper)) ''thanks!'') (\<lambda>reply.
     bindM (count_where notifications (notified (u_ID commenter) (u_ID owner) ''comment'')) (\<lambda>notif.
     expect (notif = 1) (want ''reply notif to parent author'' notif 1) (
     bindM (reload_count v_CommentsCount (v_ID video)) (\<lambda>n.
     expect (n = 3) (want ''comments_count after reply'' n 3) (
     must ''self-reply'' (comment_commentTx E commenter video (Some (c_ID upper)) ''self reply'') (\<lambda>_.
     bindM (count_where notifications (notified (u_ID commenter) (u_ID commenter) ''comment'')) (\<lambda>notif.
     expect (notif = 0) (want ''self-reply notif'' notif 0) (
     bindM (reload_count v_CommentsCount (v_ID video)) (\<lambda>n.
     expect (n = 4) (want ''comments_count after self-reply'' n 4) (ok reply))))))))))"

text \<open>
  The transaction that deletes the comment has no deferred rollback: on an error of its
  body it stays open until the process ends, which undoes it.
\<close>

definition comment_deleteTx :: "uuid \<Rightarrow> uuid \<Rightarrow> int \<Rightarrow> unit io" where
  "comment_deleteTx topID videoID subtree =
     txWith (Errorf_tail ''begin delete tx'') (Errorf_tail ''commit delete'')
       (must ''delete comment'' (DeleteCommentByID topID) (\<lambda>_.
        must ''decrement by'' (DecrementCommentsCountBy videoID subtree) ok))"

definition comment_deleted :: "Video \<Rightarrow> Comment \<Rightarrow> Comment \<Rightarrow> unit io" where
  "comment_deleted video upper reply =
     must ''count subtree'' (CountCommentSubtree (c_ID upper)) (\<lambda>subtree.
     expect (subtree = 3) (want ''subtree'' subtree 3) (
     bindM (comment_deleteTx (c_ID upper) (v_ID video) subtree) (\<lambda>_.
     bindM (reload_count v_CommentsCount (v_ID video)) (\<lambda>n.
     expect (n = 1) (want ''comments_count after subtree delete'' n 1) (
     tryM (GetCommentByID (c_ID reply))
       (\<lambda>err. expect (errors_Is err ErrNoRows)
          (''reply should be cascade-deleted, err='' @ Error err) (ok ()))
       (\<lambda>_. throw (Opaque ''reply should be cascade-deleted, err=<nil>'')))))))"

definition comment_run :: "env \<Rightarrow> string \<Rightarrow> unit io" where
  "comment_run E dsn =
     expect (dsn \<noteq> []) ''DATABASE_URL required (superuser DSN)'' (
     must ''ping'' fault (\<lambda>_.
     must ''pre-clean users'' (DeleteUsersLike (comment_prefix @ ''%'')) (\<lambda>_.
     must ''seed owner'' (comment_ensureUser (comment_prefix @ ''owner'')) (\<lambda>owner.
     must ''seed commenter'' (comment_ensureUser (comment_prefix @ ''commenter'')) (\<lambda>commenter.
     must ''seed ready video'' (comment_insertReady E (u_ID owner) ''b'') (\<lambda>video.
     bindM (comment_created E owner commenter video) (\<lambda>upper.
     bindM (comment_listed video) (\<lambda>_.
     bindM (comment_replied E owner commenter video upper) (\<lambda>reply.
     comment_deleted video upper reply)))))))))"

section \<open>phase7 notification\<close>

definition notification_prefix :: string where "notification_prefix = ''smoke-test-phase7c-''"

definition notification_ensureUser :: "string \<Rightarrow> User io" where
  "notification_ensureUser username = find_or_create ''smoke-phase7c-'' username ok ok"

definition notification_total :: nat where "notification_total = 5"
definition notification_page :: nat where "notification_page = 2"

definition notification_seeded :: "User \<Rightarrow> User \<Rightarrow> unit io" where
  "notification_seeded recipient actor =
     (let payload = json_map [(''username'', u_Username actor)] in
      bindM (forM [0 ..< notification_total] (\<lambda>i. must (''insert notif '' @ nat_text i)
        (InsertNotification (u_ID recipient) (u_ID actor) ''follow'' payload) (\<lambda>_. ok ()))) (\<lambda>_.
      must ''insert other-user notif''
        (InsertNotification (u_ID actor) (u_ID recipient) ''follow'' payload) (\<lambda>_. ok ())))"

text \<open>
  The rows of one page against the identifiers seen so far.  A payload that is not NULL is
  never of length 0.
\<close>

fun notification_rows ::
  "env \<Rightarrow> uuid \<Rightarrow> string list \<Rightarrow> Notification list \<Rightarrow> goerr + string list"
where
  "notification_rows E recipient seen [] = Inr seen"
| "notification_rows E recipient seen (r # rs) =
    (let i = env_uuid_String E (n_ID r) in
     if i \<in> set seen then Inl (Opaque (''duplicate row across pages: '' @ i))
     else if n_UserID r \<noteq> recipient then Inl (Opaque (''leaked other-user notification '' @ i))
     else notification_rows E recipient (i # seen) rs)"

text \<open>
  The loop over the pages has no bound of its own; \<^verbatim>\<open>None\<close> is a run that takes
  more than the given number of pages.
\<close>

fun notification_pages ::
  "nat \<Rightarrow> env \<Rightarrow> uuid \<Rightarrow> nat \<Rightarrow> cursor \<Rightarrow> string list \<Rightarrow> string list option io"
where
  "notification_pages 0 E recipient page cur seen = ok None"
| "notification_pages (Suc fuel) E recipient page cur seen =
     must (''list page '' @ nat_text page) (ListNotifications recipient cur notification_page) (\<lambda>rows.
     bindM (liftR (notification_rows E recipient seen rows)) (\<lambda>seen'.
     if length rows < notification_page then ok (Some seen')
     else notification_pages fuel E recipient (Suc page) (Some (notification_key (last rows))) seen'))"

definition notification_marked :: "User \<Rightarrow> User \<Rightarrow> unit io" where
  "notification_marked recipient actor =
     must ''mark all read'' (MarkAllNotificationsRead (u_ID recipient)) (\<lambda>updated.
     expect (updated = int notification_total) (want ''updated'' updated (int notification_total)) (
     must ''mark all read (idempotent)'' (MarkAllNotificationsRead (u_ID recipient)) (\<lambda>again.
     expect (again = 0) (''idempotent mark returned '' @ FormatInt again @ '', want 0'') (
     bindM (count_where notifications (\<lambda>n. n_UserID n = u_ID actor \<and> \<not> n_IsRead n)) (\<lambda>otherUnread.
     expect (otherUnread = 1) (want ''actor unread'' otherUnread 1 @ '' (untouched)'') (
     bindM (count_where notifications (\<lambda>n. n_UserID n = u_ID recipient \<and> \<not> n_IsRead n)) (\<lambda>recipientUnread.
     expect (recipientUnread = 0) (want ''recipient unread'' recipientUnread 0) (ok ()))))))))"

definition notification_run :: "nat \<Rightarrow> env \<Rightarrow> string \<Rightarrow> unit option io" where
  "notification_run fuel E dsn =
     expect (dsn \<noteq> []) ''DATABASE_URL required (superuser DSN)'' (
     must ''ping'' fault (\<lambda>_.
     must ''pre-clean users'' (DeleteUsersLike (notification_prefix @ ''%'')) (\<lambda>_.
     must ''seed recipient'' (notification_ensureUser (notification_prefix @ ''recipient'')) (\<lambda>recipient.
     must ''seed actor'' (notification_ensureUser (notification_prefix @ ''actor'')) (\<lambda>actor.
     bindM (notification_seeded recipient actor) (\<lambda>_.
     bindM (notification_pages fuel E (u_ID recipient) 0 None []) (\<lambda>walk. case walk of
         None \<Rightarrow> ok None
       | Some seen \<Rightarrow>
          expect (length seen = notification_total)
            (''paged list saw '' @ nat_text (length seen) @ '', want '' @ nat_text notification_total) (
          bindM (notification_marked recipient actor) (\<lambda>_. ok (Some ()))))))))))"

end
