(* ===== verification/SmokeDeletes.thy ===== *)
theory SmokeDeletes
  imports Smoke Startup
begin

text \<open>
  The tests of the deletions, \<^verbatim>\<open>phase8_delete_video\<close> here and
  \<^verbatim>\<open>phase8_delete_user\<close> in \<^verbatim>\<open>SmokeAccounts\<close>, look into the queue
  with asynq's inspector, a page of 50 tasks at a time, and begin by draining it; that loop
  may not end, so a run has a result or none.
\<close>

section \<open>The inspector\<close>

text \<open>
  The order in which asynq lists tasks, and the identifiers it gives them.  A task with a
  delay is in the scheduled set, any other is pending.  The clock does not move within a
  run, so a task of this run is due at the present time plus its delay.
\<close>

record inspector =
  in_order :: "queued list \<Rightarrow> queued list"
  in_id :: "queued \<Rightarrow> string"

definition inspector_page :: nat where "inspector_page = 50"

definition scheduled :: "queued \<Rightarrow> bool" where
  "scheduled t \<longleftrightarrow> q_delay t > 0"

definition list_tasks :: "inspector \<Rightarrow> (queued \<Rightarrow> bool) \<Rightarrow> queued list io" where
  "list_tasks I here = bindM fault (\<lambda>_ w.
     (Inr (take inspector_page (filter here (in_order I (w_queue w)))), w))"

definition DeleteTask :: "queued \<Rightarrow> unit io" where
  "DeleteTask t = bindM fault (\<lambda>_ w. (Inr (), w\<lparr>w_queue := remove1 t (w_queue w)\<rparr>))"

definition of_type :: "string \<Rightarrow> queued \<Rightarrow> bool" where
  "of_type typ t \<longleftrightarrow> task_type (q_task t) = typ"

fun delete_tasks :: "inspector \<Rightarrow> string \<Rightarrow> queued list \<Rightarrow> nat io" where
  "delete_tasks I typ [] = ok 0"
| "delete_tasks I typ (t # ts) =
    (if \<not> of_type typ t then delete_tasks I typ ts
     else must (''DeleteTask '' @ in_id I t) (DeleteTask t)
       (\<lambda>_. bindM (delete_tasks I typ ts) (\<lambda>matched. ok (Suc matched))))"

text \<open>The loop: the tasks of a page that match are deleted, and the listing starts again.\<close>

partial_function (option) drain ::
  "inspector \<Rightarrow> string \<Rightarrow> (queued \<Rightarrow> bool) \<Rightarrow> string \<Rightarrow> world \<Rightarrow> ((goerr + unit) \<times> world) option"
where
  [code]: "drain I listing here typ w =
    (let r = list_tasks I here w in case fst r of
       Inl err \<Rightarrow> Some (Inl (Errorf_tail listing err), snd r)
     | Inr tasks \<Rightarrow>
        if tasks = [] then Some (Inr (), snd r)
        else let s = delete_tasks I typ tasks (snd r) in case fst s of
            Inl err \<Rightarrow> Some (Inl err, snd s)
          | Inr matched \<Rightarrow>
             if matched = 0 \<and> length tasks < inspector_page then Some (Inr (), snd s)
             else drain I listing here typ (snd s))"

definition drainScheduled :: "inspector \<Rightarrow> string \<Rightarrow> world \<Rightarrow> ((goerr + unit) \<times> world) option" where
  "drainScheduled I = drain I ''ListScheduledTasks'' scheduled"

definition drainQueue :: "inspector \<Rightarrow> string \<Rightarrow> world \<Rightarrow> ((goerr + unit) \<times> world) option" where
  "drainQueue I = drain I ''ListPendingTasks'' (\<lambda>t. \<not> scheduled t)"

text \<open>What comes before the drain, the drain, and the rest of a run.\<close>

definition drained ::
  "unit io \<Rightarrow> (world \<Rightarrow> ((goerr + unit) \<times> world) option) \<Rightarrow> unit io \<Rightarrow>
   world \<Rightarrow> ((goerr + unit) \<times> world) option"
where
  "drained m loop k w =
    (case fst (m w) of
       Inl err \<Rightarrow> Some (Inl err, snd (m w))
     | Inr _ \<Rightarrow>
        (case loop (snd (m w)) of
           None \<Rightarrow> None
         | Some r \<Rightarrow> Some (case fst r of
             Inl err \<Rightarrow> (Inl (Errorf_tail ''drain pre'' err), snd r)
           | Inr _ \<Rightarrow> k (snd r))))"

text \<open>The client of the queue is built first; the address has a default.\<close>

definition smoke_asynq :: "string \<Rightarrow> string \<Rightarrow> unit io" where
  "smoke_asynq addr pw =
     must ''asynq client'' (liftR (fst (NewAsynqClient
         \<lparr>rd_Addr = (if addr = [] then ''redis:6379'' else addr), rd_Password = pw\<rparr>
         \<lparr>pr_now = 0, pr_trace = []\<rparr>))) ok"

section \<open>phase8 delete video\<close>

text \<open>Times in messages are printed as RFC 3339 here; Go prints them with its time zone.\<close>

definition dv_prefix :: string where "dv_prefix = ''smoke-test-phase8b-''"

definition dv_ensureUser :: "string \<Rightarrow> bool \<Rightarrow> bool \<Rightarrow> User io" where
  "dv_ensureUser username isPrivate isActive =
     find_or_create ''smoke-phase8b-'' username ok (flags_unchecked isPrivate isActive)"

definition dv_insertReady :: "env \<Rightarrow> uuid \<Rightarrow> string \<Rightarrow> Video io" where
  "dv_insertReady E = insert_ready E ''phase8b-smoke-'' 12 unwrapped"

definition dv_likeTx :: "User \<Rightarrow> Video \<Rightarrow> unit io" where
  "dv_likeTx actor video = txWith (Errorf_tail ''begin'') (\<lambda>err. err)
    (tryM (InsertLike (u_ID actor) (v_ID video))
      (\<lambda>lerr. if errors_Is lerr ErrNoRows then ok () else throw (Errorf_tail ''insert like'' lerr))
      (\<lambda>_. must ''increment'' (IncrementLikesCount (v_ID video)) ok))"

definition dv_commentTx :: "User \<Rightarrow> Video \<Rightarrow> string \<Rightarrow> unit io" where
  "dv_commentTx actor video content = txWith (Errorf_tail ''begin'') (\<lambda>err. err)
    (must ''insert'' (InsertComment (v_ID video) (u_ID actor) None content) (\<lambda>_.
     must ''increment'' (IncrementCommentsCount (v_ID video)) ok))"

definition dv_pre :: "env \<Rightarrow> User \<Rightarrow> Video \<Rightarrow> unit io" where
  "dv_pre E other video =
     must ''seed like'' (dv_likeTx other video) (\<lambda>_.
     must ''seed comment'' (dv_commentTx other video ''first'') (\<lambda>_.
     must ''reload pre'' (GetVideoByID (v_ID video)) (\<lambda>v.
     expect (v_Status v = READY) (''pre: video status='' @ Quote (status_text (v_Status v)) @ '', want READY'') (
     expect (v_LikesCount v = 1) (want ''pre: video likes_count'' (v_LikesCount v) 1) (
     expect (v_CommentsCount v = 1) (want ''pre: video comments_count'' (v_CommentsCount v) 1) (
     expect (v_DeletedAt v = None) ''pre: video deleted_at should be NULL'' (ok ())))))))"

definition cleanup_hours :: int where "cleanup_hours = 24 * 60 * minute"

text \<open>The call under test, and the row after it: the counters stay.\<close>

definition dv_delete :: "env \<Rightarrow> User \<Rightarrow> Video \<Rightarrow> unit io" where
  "dv_delete E owner video =
     must ''MarkVideoDeleted'' (MarkVideoDeleted (v_ID video) (u_ID owner)) (\<lambda>updated.
     expect (v_Status updated = DELETED)
       (''post: video status='' @ Quote (status_text (v_Status updated)) @ '', want DELETED'') (
     expect (v_DeletedAt updated \<noteq> None) ''post: video deleted_at NULL, want NOT NULL'' (
     must ''EnqueueCleanupVideo''
       (EnqueueCleanupVideo (env_uuid_String E (v_ID updated)) cleanup_hours) (\<lambda>_.
     must ''reload post'' (GetVideoByID (v_ID video)) (\<lambda>v2.
     expect (v_Status v2 = DELETED)
       (''post2: video status='' @ Quote (status_text (v_Status v2)) @ '', want DELETED'') (
     expect (v_DeletedAt v2 \<noteq> None) ''post2: video deleted_at NULL, want NOT NULL'' (
     expect (v_LikesCount v2 = 1)
       (want ''post2: video likes_count'' (v_LikesCount v2) 1 @ '' (preserved on tombstone)'') (
     expect (v_CommentsCount v2 = 1)
       (want ''post2: video comments_count'' (v_CommentsCount v2) 1 @ '' (preserved on tombstone)'') (
     tryM (exec (\<lambda>_ d. Inr ((), d\<lparr>videos := update_rows (\<lambda>v. v_ID v = v_ID video)
         (\<lambda>v. v\<lparr>v_DeletedAt := None\<rparr>) (videos d)\<rparr>))) (\<lambda>_. ok ())
       (\<lambda>_. throw (Opaque ''constraint: UPDATE deleted_at=NULL should fail, got nil'')))))))))))"

text \<open>The cleanup task of a video among the tasks of a page.\<close>

fun cleans :: "string \<Rightarrow> queued \<Rightarrow> bool" where
  "cleans videoID t = (case q_task t of CleanupVideo i \<Rightarrow> i = videoID | _ \<Rightarrow> False)"

definition findCleanupVideoScheduled :: "inspector \<Rightarrow> string \<Rightarrow> (string \<times> time) option io" where
  "findCleanupVideoScheduled I videoID =
     must ''ListScheduledTasks'' (list_tasks I scheduled) (\<lambda>tasks.
     bindM now_io (\<lambda>now. ok (map_option (\<lambda>t. (in_id I t, now + q_delay t))
       (find_row (cleans videoID) tasks))))"

definition dv_queue :: "inspector \<Rightarrow> env \<Rightarrow> User \<Rightarrow> Video \<Rightarrow> unit io" where
  "dv_queue I E other video =
    (let i = env_uuid_String E (v_ID video) in
     must ''inspector'' (findCleanupVideoScheduled I i) (\<lambda>found. case found of
       None \<Rightarrow> throw (Opaque (''cleanup:video not enqueued for video '' @ i))
     | Some (_, processAt) \<Rightarrow>
         bindM now_io (\<lambda>now.
         let lower = now + 23 * 60 * minute + 55 * minute; upper = now + 24 * 60 * minute + 5 * minute in
         expect (\<not> (processAt < lower \<or> processAt > upper))
           (''cleanup:video scheduled at '' @ Format_RFC3339Nano processAt @ '', want in ['' @
            Format_RFC3339Nano lower @ '', '' @ Format_RFC3339Nano upper @ '']'') (
         must ''ListPendingTasks'' (list_tasks I (\<lambda>t. \<not> scheduled t)) (\<lambda>pending.
         expect (\<not> list_ex (cleans i) pending)
           (''cleanup:video for '' @ i @ '' in PENDING set (delay not honoured)'') (
         tryM (MarkVideoDeleted (v_ID video) (u_ID other))
           (\<lambda>err. expect (errors_Is err ErrNoRows)
              (''non-owner MarkVideoDeleted: err='' @ Error err @ '', want sql.ErrNoRows'') (ok ()))
           (\<lambda>_. throw (Opaque ''non-owner MarkVideoDeleted: err=<nil>, want sql.ErrNoRows''))))))))"

definition dv_run ::
  "inspector \<Rightarrow> env \<Rightarrow> string \<Rightarrow> string \<Rightarrow> world \<Rightarrow> ((goerr + unit) \<times> world) option"
where
  "dv_run I E addr pw = drained
    (must ''ping'' fault (\<lambda>_.
     bindM (smoke_asynq addr pw) (\<lambda>_.
     must ''pre-clean users'' (DeleteUsersLike (dv_prefix @ ''%'')) ok)))
    (drainScheduled I ''cleanup:video'')
    (must ''seed owner'' (dv_ensureUser (dv_prefix @ ''owner'') False True) (\<lambda>owner.
     must ''seed other'' (dv_ensureUser (dv_prefix @ ''other'') False True) (\<lambda>other.
     must ''seed video'' (dv_insertReady E (u_ID owner) ''owner'') (\<lambda>video.
     bindM (dv_pre E other video) (\<lambda>_.
     bindM (dv_delete E owner video) (\<lambda>_.
     dv_queue I E other video))))))"

end
