(* ===== verification/SmokeAccounts.thy ===== *)
theory SmokeAccounts
  imports SmokeDeletes
begin

text \<open>
  The test of the account deletion, \<^verbatim>\<open>phase8_delete_user\<close>, and \<^verbatim>\<open>phase4\<close>,
  the round trip of a pending upload through the database and a presigned URL.
\<close>

section \<open>phase8 delete user\<close>

definition du_prefix :: string where "du_prefix = ''smoke-test-phase8a-''"

definition du_ensureUser :: "string \<Rightarrow> bool \<Rightarrow> bool \<Rightarrow> User io" where
  "du_ensureUser username isPrivate isActive =
     find_or_create ''smoke-phase8a-'' username ok (flags_unchecked isPrivate isActive)"

definition du_insertReady :: "env \<Rightarrow> uuid \<Rightarrow> string \<Rightarrow> Video io" where
  "du_insertReady E = insert_ready E ''phase8a-smoke-'' 12 unwrapped"

definition du_likeTx :: "env \<Rightarrow> User \<Rightarrow> Video \<Rightarrow> unit io" where
  "du_likeTx E actor video = txWith (Errorf_tail ''begin'') (\<lambda>err. err)
    (tryM (InsertLike (u_ID actor) (v_ID video))
      (\<lambda>lerr. if errors_Is lerr ErrNoRows then ok () else throw (Errorf_tail ''insert like'' lerr))
      (\<lambda>_. must ''increment'' (IncrementLikesCount (v_ID video)) (\<lambda>_.
        if u_ID actor \<noteq> v_UserID video then
          must ''notif'' (InsertNotification (v_UserID video) (u_ID actor) ''like'' (json_map
            [(''username'', u_Username actor), (''video_id'', env_uuid_String E (v_ID video))])) (\<lambda>_. ok ())
        else ok ())))"

definition du_commentTx :: "env \<Rightarrow> User \<Rightarrow> Video \<Rightarrow> string \<Rightarrow> unit io" where
  "du_commentTx E actor video content = txWith (Errorf_tail ''begin'') (\<lambda>err. err)
    (must ''insert'' (InsertComment (v_ID video) (u_ID actor) None content) (\<lambda>c.
     must ''increment'' (IncrementCommentsCount (v_ID video)) (\<lambda>_.
        if u_ID actor \<noteq> v_UserID video then
          must ''notif'' (InsertNotification (v_UserID video) (u_ID actor) ''comment'' (json_map
            [(''comment_id'', env_uuid_String E (c_ID c)), (''username'', u_Username actor),
             (''video_id'', env_uuid_String E (v_ID video))])) (\<lambda>_. ok ())
        else ok ())))"

text \<open>A table and a column, by name, as the texts of the two assertions name them.\<close>

definition column :: "string \<Rightarrow> string \<Rightarrow> db \<Rightarrow> uuid list option" where
  "column table col d =
    (if (table, col) = (''videos'', ''user_id'') then Some (map v_UserID (videos d))
     else if (table, col) = (''likes'', ''user_id'') then Some (map l_UserID (likes d))
     else if (table, col) = (''comments'', ''user_id'') then Some (map c_UserID (comments d))
     else if (table, col) = (''follows'', ''follower_id'') then Some (map f_FollowerID (follows d))
     else if (table, col) = (''follows'', ''followee_id'') then Some (map f_FolloweeID (follows d))
     else if (table, col) = (''notifications'', ''actor_id'') then Some (map n_ActorID (notifications d))
     else None)"

definition column_count :: "string \<Rightarrow> string \<Rightarrow> uuid \<Rightarrow> int io" where
  "column_count table col userID = query (\<lambda>d. case column table col d of
       None \<Rightarrow> Inl (Opaque ''ERROR: undefined table or column'')
     | Some ids \<Rightarrow> Inr (int (count_rows (\<lambda>i. i = userID) ids)))"

definition assertTableCount2 :: "env \<Rightarrow> string \<Rightarrow> string \<Rightarrow> uuid \<Rightarrow> int \<Rightarrow> unit io" where
  "assertTableCount2 E table col userID n =
     must (''count '' @ table) (column_count table col userID) (\<lambda>m.
     expect (m = n) (table @ '' by '' @ col @ ''='' @ env_uuid_String E userID @ '' = '' @ FormatInt m @
       '', want '' @ FormatInt n) (ok ()))"

definition assertTableCount :: "env \<Rightarrow> string \<Rightarrow> uuid \<Rightarrow> int \<Rightarrow> unit io" where
  "assertTableCount E table userID n =
     must (''count '' @ table) (column_count table ''user_id'' userID) (\<lambda>m.
     expect (m = n) (table @ '' by user_id='' @ env_uuid_String E userID @ '' = '' @ FormatInt m @
       '', want '' @ FormatInt n) (ok ()))"

definition findCleanupObjectsKeys :: "inspector \<Rightarrow> string list option io" where
  "findCleanupObjectsKeys I =
     must ''ListPendingTasks'' (list_tasks I (\<lambda>t. \<not> scheduled t)) (\<lambda>tasks.
     ok (case find_row (of_type ''cleanup:objects'') tasks of
           None \<Rightarrow> None
         | Some t \<Rightarrow> (case q_task t of CleanupObjects keys \<Rightarrow> Some keys | _ \<Rightarrow> None)))"

record du_cast =
  du_A :: User
  du_videoA :: Video
  du_videoB :: Video

definition du_seeded :: "env \<Rightarrow> du_cast io" where
  "du_seeded E =
     must ''seed A'' (du_ensureUser (du_prefix @ ''A'') False True) (\<lambda>userA.
     must ''seed videoA'' (du_insertReady E (u_ID userA) ''A'') (\<lambda>videoA.
     must ''seed B'' (du_ensureUser (du_prefix @ ''B'') False True) (\<lambda>userB.
     must ''seed videoB'' (du_insertReady E (u_ID userB) ''B'') (\<lambda>videoB.
     must ''seed C'' (du_ensureUser (du_prefix @ ''C'') False True) (\<lambda>userC.
     must ''seed C like B'' (du_likeTx E userC videoB) (\<lambda>_.
     must ''A like B'' (du_likeTx E userA videoB) (\<lambda>_.
     must ''A comment B'' (du_commentTx E userA videoB ''nice'') (\<lambda>_.
     must ''A follow B'' (FollowUser (u_ID userA) (u_ID userB)) (\<lambda>_.
     must ''B follow A'' (FollowUser (u_ID userB) (u_ID userA)) (\<lambda>_.
     ok \<lparr>du_A = userA, du_videoA = videoA, du_videoB = videoB\<rparr>))))))))))"

definition du_pre :: "env \<Rightarrow> du_cast \<Rightarrow> unit io" where
  "du_pre E c =
    (let a = u_ID (du_A c) in
     must ''reload videoB pre'' (GetVideoByID (v_ID (du_videoB c))) (\<lambda>v.
     expect (v_LikesCount v = 2) (want ''pre: videoB.likes_count'' (v_LikesCount v) 2) (
     expect (v_CommentsCount v = 1) (want ''pre: videoB.comments_count'' (v_CommentsCount v) 1) (
     must ''pre videos A'' (assertTableCount E ''videos'' a 1) (\<lambda>_.
     must ''pre likes A'' (assertTableCount E ''likes'' a 1) (\<lambda>_.
     must ''pre comments A'' (assertTableCount E ''comments'' a 1) (\<lambda>_.
     must ''pre follows A (follower)'' (assertTableCount2 E ''follows'' ''follower_id'' a 1) (\<lambda>_.
     must ''pre follows A (followee)'' (assertTableCount2 E ''follows'' ''followee_id'' a 1) ok))))))))"

definition du_post :: "env \<Rightarrow> du_cast \<Rightarrow> unit io" where
  "du_post E c =
    (let a = u_ID (du_A c) in
     must ''reload videoB post'' (GetVideoByID (v_ID (du_videoB c))) (\<lambda>v.
     expect (v_LikesCount v = 1)
       (want ''post: videoB.likes_count'' (v_LikesCount v) 1 @ '' (A'' @ [CHR 0x27] @ ''s 1 like removed)'') (
     expect (v_CommentsCount v = 0)
       (want ''post: videoB.comments_count'' (v_CommentsCount v) 0 @ '' (A'' @ [CHR 0x27] @ ''s 1 comment removed)'') (
     must ''post videos A'' (assertTableCount E ''videos'' a 0) (\<lambda>_.
     must ''post likes A'' (assertTableCount E ''likes'' a 0) (\<lambda>_.
     must ''post comments A'' (assertTableCount E ''comments'' a 0) (\<lambda>_.
     must ''post follows A (follower)'' (assertTableCount2 E ''follows'' ''follower_id'' a 0) (\<lambda>_.
     must ''post follows A (followee)'' (assertTableCount2 E ''follows'' ''followee_id'' a 0) (\<lambda>_.
     must ''post notif actor A'' (assertTableCount2 E ''notifications'' ''actor_id'' a 0) ok)))))))))"

definition du_tombstone :: "env \<Rightarrow> uuid \<Rightarrow> unit io" where
  "du_tombstone E a =
     must ''reload userA'' (GetUserByID a) (\<lambda>t.
     expect (\<not> u_IsActive t) ''tombstone: userA.is_active=true, want false'' (
     expect (u_DeletedAt t \<noteq> None) ''tombstone: userA.deleted_at NULL, want NOT NULL'' (
     expect (prefix_of ''deleted_'' (u_Username t)) (''tombstone: userA.username='' @ Quote (u_Username t) @
       '', want '' @ [CHR 0x27] @ ''deleted_<id>'' @ [CHR 0x27] @ '' prefix'') (
     expect (u_Username t = ''deleted_'' @ env_uuid_String E a) (''tombstone: userA.username='' @
       Quote (u_Username t) @ '', want exact '' @ [CHR 0x27] @ ''deleted_'' @ env_uuid_String E a @ [CHR 0x27]) (
     expect (u_DisplayName t = None) (''tombstone: userA.display_name should be null, got '' @
       Quote (case u_DisplayName t of None \<Rightarrow> [] | Some s \<Rightarrow> s)) (
     expect (u_Bio t = None) ''tombstone: userA.bio should be null'' (
     expect (u_AvatarUrl t = None) ''tombstone: userA.avatar_url should be null'' (ok ()))))))))"

definition list_text :: "string list \<Rightarrow> string" where
  "list_text xs = ''['' @ join_text '' '' xs @ '']''"

definition du_queue :: "inspector \<Rightarrow> Video \<Rightarrow> unit io" where
  "du_queue I videoA =
     must ''inspector'' (findCleanupObjectsKeys I) (\<lambda>found. case found of
       None \<Rightarrow> throw (Opaque ''cleanup:objects task not enqueued'')
     | Some keys \<Rightarrow>
        expect (v_R2Key videoA \<in> set keys) (''cleanup:objects missing r2_key '' @ Quote (v_R2Key videoA) @
          ''; got '' @ list_text keys) (
        let wantThumb = (case v_ThumbnailKey videoA of None \<Rightarrow> [] | Some k \<Rightarrow> k) in
        expect (\<not> (wantThumb \<noteq> [] \<and> wantThumb \<notin> set keys))
          (''cleanup:objects missing thumbnail '' @ Quote wantThumb @ ''; got '' @ list_text keys) (ok ())))"

definition du_rest :: "inspector \<Rightarrow> env \<Rightarrow> unit io" where
  "du_rest I E =
     bindM (du_seeded E) (\<lambda>c.
     bindM (du_pre E c) (\<lambda>_.
     must ''DeleteUserData'' (DeleteUserData E (u_ID (du_A c))) (\<lambda>_.
     bindM (du_post E c) (\<lambda>_.
     bindM (du_tombstone E (u_ID (du_A c))) (\<lambda>_.
     du_queue I (du_videoA c))))))"

definition du_run ::
  "inspector \<Rightarrow> env \<Rightarrow> string \<Rightarrow> string \<Rightarrow> world \<Rightarrow> ((goerr + unit) \<times> world) option"
where
  "du_run I E addr pw = drained
    (must ''ping'' fault (\<lambda>_.
     bindM (smoke_asynq addr pw) (\<lambda>_.
     must ''pre-clean users'' (DeleteUsersLike (du_prefix @ ''%'')) ok)))
    (drainQueue I ''cleanup:objects'') (du_rest I E)"

section \<open>phase4\<close>

fun contains :: "string \<Rightarrow> string \<Rightarrow> bool" where
  "contains sub [] = (sub = [])"
| "contains sub (c # cs) = (prefix_of sub (c # cs) \<or> contains sub cs)"

definition isNoRows :: "goerr \<Rightarrow> bool" where
  "isNoRows err \<longleftrightarrow> err = Sentinel ErrNoRows \<or> contains ''no rows in result set'' (Error err)"

text \<open>\<^verbatim>\<open>strings.ReplaceAll(uuid.New().String(), "-", "")\<close>\<close>

definition plain_uuid :: "env \<Rightarrow> string io" where
  "plain_uuid E = bindM new_uuid (\<lambda>i. ok (filter (\<lambda>c. c \<noteq> CHR ''-'') (env_uuid_String E i)))"

text \<open>\<^verbatim>\<open>LIMIT 1\<close> without an order: the row inserted first, here.\<close>

definition pickExistingUser :: "env \<Rightarrow> uuid io" where
  "pickExistingUser E =
     tryM (query (\<lambda>d. one_row (map_option u_ID (find_row (\<lambda>_. True) (users d)))))
       (\<lambda>err. if \<not> isNoRows err then throw err
         else bindM (plain_uuid E) (\<lambda>sub.
              bindM (plain_uuid E) (\<lambda>name.
              must ''seed smoke user'' (exec_insert (\<lambda>i now d.
                  Inr (i, d\<lparr>users := users d @ [\<lparr>u_ID = i, u_ZitadelID = ''smoke-test-'' @ sub,
                    u_Username = ''smoke_'' @ take 10 name, u_DisplayName = Some ''smoke test'',
                    u_Bio = None, u_AvatarUrl = None, u_IsPrivate = False, u_IsActive = True,
                    u_DeletedAt = None, u_CreatedAt = now\<rparr>]\<rparr>))) ok)))
       ok"

definition cleanupVideo :: "uuid \<Rightarrow> unit io" where
  "cleanupVideo i = exec (\<lambda>_ d. Inr ((), delete_videos (\<lambda>v. v_ID v = i) d))"

definition null_text :: "string option \<Rightarrow> string" where
  "null_text s = (case s of None \<Rightarrow> ''{String: Valid:false}'' | Some t \<Rightarrow> ''{String:'' @ t @ '' Valid:true}'')"

text \<open>A pending upload left over by the user is removed; one user has at most one.\<close>

definition db_precleaned :: "uuid \<Rightarrow> unit io" where
  "db_precleaned userID =
     tryM (GetPendingVideoByUser userID)
       (\<lambda>err. if \<not> isNoRows err then throw (Errorf_tail ''GetPendingVideoByUser pre-check'' err) else ok ())
       (\<lambda>existing. must ''pre-cleanup'' (cleanupVideo (v_ID existing)) ok)"

definition db_inserted :: "env \<Rightarrow> uuid \<Rightarrow> Video io" where
  "db_inserted E userID =
     bindM (plain_uuid E) (\<lambda>i.
     let r2Key = ''uploads/'' @ env_uuid_String E userID @ ''/test-'' @ i @ ''/source.mp4'' in
     must ''InsertVideo'' (InsertVideo userID r2Key (Some ''smoke test title'')
       (Some ''smoke test description'')) (\<lambda>inserted.
     bindM new_uuid (\<lambda>unknown.
     tryM (GetVideoByID unknown)
       (\<lambda>err. if \<not> isNoRows err then throw (Opaque (''GetVideoByID wrong error type: '' @ Error err)) else
         must ''GetPendingVideoByUser'' (GetPendingVideoByUser userID) (\<lambda>fetched.
         expect (v_ID fetched = v_ID inserted) (''GetPendingVideoByUser returned id='' @
           env_uuid_String E (v_ID fetched) @ '', want '' @ env_uuid_String E (v_ID inserted)) (
         expect (v_R2Key fetched = r2Key)
           (''GetPendingVideoByUser returned r2_key='' @ v_R2Key fetched @ '', want '' @ r2Key) (
         expect (v_Title fetched = Some ''smoke test title'')
           (''GetPendingVideoByUser title mismatch: '' @ null_text (v_Title fetched)) (ok inserted)))))
       (\<lambda>_. throw (Opaque ''GetVideoByID should have returned an error for a missing id'')))))"

definition db_updated :: "uuid \<Rightarrow> Video \<Rightarrow> unit io" where
  "db_updated userID inserted =
     must ''UpdatePendingVideoMetadata'' (UpdatePendingVideoMetadata (v_ID inserted)
       (Some ''smoke updated title'') (Some ''smoke updated desc'')) (\<lambda>_.
     must ''GetPendingVideoByUser after metadata update'' (GetPendingVideoByUser userID) (\<lambda>refreshed.
     expect (v_Title refreshed = Some ''smoke updated title'')
       (''metadata title not refreshed: '' @ null_text (v_Title refreshed)) (
     expect (v_Description refreshed = Some ''smoke updated desc'')
       (''metadata description not refreshed: '' @ null_text (v_Description refreshed)) (
     must ''pre-metadata-err cleanup'' (cleanupVideo (v_ID inserted)) (\<lambda>_.
     tryM (UpdatePendingVideoMetadata (v_ID inserted) (Some ''x'') (Some ''y''))
       (\<lambda>err. if \<not> isNoRows err
              then throw (Opaque (''UpdatePendingVideoMetadata missing-row wrong error type: '' @ Error err))
              else ok ())
       (\<lambda>_. throw (Opaque ''UpdatePendingVideoMetadata on missing row should error'')))))))"

definition dbRoundtrip :: "env \<Rightarrow> string \<Rightarrow> unit io" where
  "dbRoundtrip E dbURL =
     expect (dbURL \<noteq> []) ''DATABASE_URL is empty'' (
     must ''sqlDB ping'' fault (\<lambda>_.
     must ''pick existing user'' (pickExistingUser E) (\<lambda>userID.
     bindM (db_precleaned userID) (\<lambda>_.
     bindM (db_inserted E userID) (\<lambda>inserted.
     db_updated userID inserted)))))"

definition r2Presign :: "host \<Rightarrow> env \<Rightarrow> R2Config \<Rightarrow> unit io" where
  "r2Presign H E cfg =
     expect (\<not> (r2_AccountID cfg = [] \<or> r2_AccessKeyID cfg = [] \<or> r2_SecretAccessKey cfg = [] \<or>
               r2_Bucket cfg = [] \<or> r2_Endpoint cfg = []))
       ''R2 env vars missing (R2_ACCOUNT_ID/R2_ACCESS_KEY_ID/R2_SECRET_ACCESS_KEY/R2_BUCKET/R2_ENDPOINT)'' (
     must ''NewR2Client'' (liftR (fst (NewR2Client H cfg \<lparr>pr_now = 0, pr_trace = []\<rparr>))) (\<lambda>_.
     bindM (plain_uuid E) (\<lambda>i.
     must ''PresignPut'' (PresignPut E (''uploads/smoke-test/'' @ i @ ''/source.mp4'')
       ''application/octet-stream'' (15 * minute)) (\<lambda>url.
     expect (contains ''X-Amz-Signature='' url)
       (''PresignPut URL missing X-Amz-Signature= marker: '' @ url) (ok ())))))"

definition phase4_run :: "host \<Rightarrow> env \<Rightarrow> string \<Rightarrow> R2Config \<Rightarrow> unit io" where
  "phase4_run H E dbURL cfg =
     must ''db roundtrip'' (dbRoundtrip E dbURL) (\<lambda>_. must ''r2 presign'' (r2Presign H E cfg) ok)"

end
