(* ===== verification/Mirrors.thy ===== *)
theory Mirrors
  imports SmokeSocial SmokeAccounts Access
begin

text \<open>
  The tests copy the transactions of the handlers instead of calling them.  A copy mirrors
  the original when, on every state and schedule of failures, it succeeds when the original
  does, with a related value, and leaves the same state; the texts of the errors differ.
  So what the tests check of their copies holds of the handlers.
\<close>

section \<open>Mirroring\<close>

definition same_outcome :: "('a \<Rightarrow> 'b \<Rightarrow> bool) \<Rightarrow> (goerr + 'a) \<times> world \<Rightarrow> (goerr + 'b) \<times> world \<Rightarrow> bool" where
  "same_outcome R r s \<longleftrightarrow> snd s = snd r \<and> rel_sum (\<lambda>_ _. True) R (fst r) (fst s)"

definition mirrors :: "('a \<Rightarrow> 'b \<Rightarrow> bool) \<Rightarrow> 'a io \<Rightarrow> 'b io \<Rightarrow> bool" where
  "mirrors R m n \<longleftrightarrow> (\<forall>w. same_outcome R (m w) (n w))"

lemma mirrorsI: "(\<And>w. same_outcome R (m w) (n w)) \<Longrightarrow> mirrors R m n"
  by (simp add: mirrors_def)

lemma mirrorsD: "mirrors R m n \<Longrightarrow> same_outcome R (m w) (n w)"
  by (simp add: mirrors_def)

lemma mirrors_ok: "R x y \<Longrightarrow> mirrors R (ok x) (ok y)"
  by (simp add: mirrors_def same_outcome_def run_simps)

lemma mirrors_throw: "mirrors R (throw e) (throw e')"
  by (simp add: mirrors_def same_outcome_def run_simps)

lemma mirrors_if: "(b \<Longrightarrow> mirrors R m n) \<Longrightarrow> (\<not> b \<Longrightarrow> mirrors R m' n') \<Longrightarrow>
    mirrors R (if b then m else m') (if b then n else n')"
  by simp

lemma outcome_tryM:
  assumes "same_outcome S (m w) (n w)"
    "\<And>e e' v. same_outcome R (h e v) (h' e' v)"
    "\<And>x y v. S x y \<Longrightarrow> fst (m w) = Inr x \<Longrightarrow> v = snd (m w) \<Longrightarrow> same_outcome R (k x v) (k' y v)"
  shows "same_outcome R (tryM m h k w) (tryM n h' k' w)"
proof (cases "fst (m w)")
  case (Inl e)
  then obtain e' where "fst (n w) = Inl e'" using assms(1) by (auto simp: same_outcome_def elim: rel_sum.cases)
  then show ?thesis using Inl assms(1,2) by (simp add: tryM_run same_outcome_def)
next
  case (Inr x)
  then obtain y where "fst (n w) = Inr y" "S x y"
    using assms(1) by (auto simp: same_outcome_def elim: rel_sum.cases)
  then show ?thesis using Inr assms(1) assms(3) [of x y] by (simp add: tryM_run same_outcome_def)
qed

lemma mirrors_tryM:
  assumes "mirrors S m n" "\<And>e e'. mirrors R (h e) (h' e')" "\<And>x y. S x y \<Longrightarrow> mirrors R (k x) (k' y)"
  shows "mirrors R (tryM m h k) (tryM n h' k')"
  by (rule mirrorsI, rule outcome_tryM [OF mirrorsD [OF assms(1)]]) (simp_all add: assms mirrorsD)

text \<open>The same first call: the handlers need to agree on the same error only.\<close>

lemma mirrors_call:
  assumes "\<And>e. mirrors R (h e) (h' e)" "\<And>x. mirrors R (k x) (k' x)"
  shows "mirrors R (tryM m h k) (tryM m h' k')"
  using mirrorsD [OF assms(1)] mirrorsD [OF assms(2)]
  by (auto simp: mirrors_def tryM_run split: sum.splits)

lemma mirrors_must:
  assumes "\<And>e. mirrors R (throw (Errorf_tail p e)) (h' e)" "\<And>x. mirrors R (k x) (k' x)"
  shows "mirrors R (must p m k) (tryM m h' k')"
  unfolding must_def by (rule mirrors_call) (rule assms)+

text \<open>The transaction of the tests against the one of the gateway.\<close>

lemma outcome_tx:
  assumes "\<And>w0. fault w = (Inr (), w0) \<Longrightarrow> same_outcome R (m w0) (n w0)"
  shows "same_outcome R (txWith b c m w) (runTx n w)"
proof -
  obtain r0 w0 where f: "fault w = (r0, w0)" by fastforce
  obtain r1 w1 where m: "m w0 = (r1, w1)" by fastforce
  obtain r2 w2 where n: "n w0 = (r2, w2)" by fastforce
  obtain r3 w3 where c: "fault w1 = (r3, w3)" by fastforce
  show ?thesis
  proof (cases r0)
    case (Inl e)
    then show ?thesis by (simp add: same_outcome_def txWith_def runTx_def tryM_run throw_run f)
  next
    case (Inr u)
    then have o: "w2 = w1" "rel_sum (\<lambda>_ _. True) R r1 r2"
      using assms [of w0] f m n by (simp_all add: same_outcome_def)
    have t: "txWith b c m w = (case r1 of
          Inl e \<Rightarrow> (Inl e, rollback_to (w_db w0) w1)
        | Inr x \<Rightarrow> (case r3 of Inl err \<Rightarrow> (Inl (c err), rollback_to (w_db w0) w3) | Inr _ \<Rightarrow> (Inr x, w3)))"
      by (cases r1; cases r3) (simp_all add: txWith_def tryM_run f m c Inr)
    have u: "runTx n w = (case r2 of
          Inl e \<Rightarrow> (Inl e, rollback_to (w_db w0) w1)
        | Inr x \<Rightarrow> (case r3 of
            Inl _ \<Rightarrow> (Inl (Wrap ErrInternal ''commit transaction''), rollback_to (w_db w0) w3)
          | Inr _ \<Rightarrow> (Inr x, w3)))"
      using n unfolding o(1) by (cases r2; cases r3) (simp_all add: runTx_def tryM_run f c Inr)
    from o(2) show ?thesis
      by (cases r1; cases r2; cases r3) (simp_all add: same_outcome_def t u)
  qed
qed

lemma mirrors_tx: "mirrors R m n \<Longrightarrow> mirrors R (txWith b c m) (runTx n)"
  by (rule mirrorsI, rule outcome_tx, rule mirrorsD)

lemma mirrors_notification:
  assumes "mirrors R k (k' ())"
  shows "mirrors R (must p (InsertNotification u a t (json_map kvs)) (\<lambda>_. k))
     (tryM (insertSocialNotification u a t kvs) (\<lambda>_. throw e) k')"
proof -
  have "mirrors (\<lambda>_ _. True) (InsertNotification u a t (json_map kvs)) (insertSocialNotification u a t kvs)"
    unfolding insertSocialNotification_def
    by (auto simp: mirrors_def same_outcome_def tryM_run run_simps split: sum.splits)
  then show ?thesis unfolding must_def by (rule mirrors_tryM) (use assms in \<open>simp_all add: mirrors_throw\<close>)
qed

lemmas mirrors_rules =
  mirrors_tx mirrors_notification mirrors_must mirrors_call mirrors_if mirrors_throw mirrors_ok

section \<open>Likes and comments\<close>

lemma like_mirrors:
  "mirrors (=) (like_likeTx E actor video) (runTx (like_tx E actor (v_ID video) video))"
  "mirrors (=) (du_likeTx E actor video) (runTx (like_tx E actor (v_ID video) video))"
  unfolding like_likeTx_def du_likeTx_def like_tx_def by (intro mirrors_rules refl)+

lemma unlike_mirrors: "mirrors (=) (like_unlikeTx actor video) (runTx (unlike_tx actor (v_ID video)))"
  unfolding like_unlikeTx_def unlike_tx_def by (intro mirrors_rules refl)

lemma du_comment_mirrors:
  "mirrors (\<lambda>_ _. True) (du_commentTx E actor video content)
     (runTx (create_comment_tx E actor (v_ID video) video content))"
  unfolding du_commentTx_def create_comment_tx_def comment_payload_def
  by (intro mirrors_rules TrueI)

lemma notify_one:
  "bindM (comment_notify E a v i [u]) (\<lambda>_. ok c) = must ''notify'' (InsertNotification u (u_ID a) ''comment''
     (json_map [(''comment_id'', env_uuid_String E i), (''username'', u_Username a),
       (''video_id'', env_uuid_String E (v_ID v))])) (\<lambda>_. ok c)"
  by (auto simp: fun_eq_iff comment_notify_def must_def run_simps split: sum.split)

lemma comment_mirrors:
  "mirrors (\<lambda>c i. i = c_ID c) (comment_commentTx E actor video None content)
     (runTx (create_comment_tx E actor (v_ID video) video content))"
proof -
  have "bindM (ok (if v_UserID video \<noteq> u_ID actor then [v_UserID video] else []))
      (\<lambda>rs. bindM (comment_notify E actor video i rs) (\<lambda>_. ok c)) =
    (if u_ID actor \<noteq> v_UserID video
     then bindM (comment_notify E actor video i [v_UserID video]) (\<lambda>_. ok c) else ok c)" for i c
  proof (cases "u_ID actor = v_UserID video")
    case True
    then show ?thesis by (simp add: fun_eq_iff comment_notify_def bindM_run ok_run)
  next
    case False
    then show ?thesis by (simp add: fun_eq_iff bindM_run [of "ok _"] ok_run)
  qed
  note one = this [unfolded notify_one]
  show ?thesis
    unfolding comment_commentTx_def create_comment_tx_def comment_payload_def option.case one
    by (intro mirrors_rules refl)
qed

section \<open>Replies\<close>

lemma notify_mirrors:
  "mirrors (\<lambda>_ _. True) (comment_notify E actor video i rs)
     (forM rs (\<lambda>r. insertSocialNotification r (u_ID actor) ''comment'' (comment_payload E actor (v_ID video) i)))"
  unfolding comment_notify_def comment_payload_def
proof (induction rs)
  case (Cons r rs)
  then show ?case
    unfolding forM.simps bindM_def insertSocialNotification_def
    by (intro mirrors_tryM [where S = "\<lambda>_ _. True"] mirrors_rules TrueI)
qed (simp add: mirrors_ok)

text \<open>
  The test reads the parent inside the transaction, after its insert; the handler has read
  it before.  On a quiet database both find the same row.
\<close>

lemma InsertComment_keeps:
  assumes "w_faults w = []" "GetCommentByID p w = (Inr row, w)" "fst (InsertComment vid u q s w) = Inr c"
  shows "w_faults (snd (InsertComment vid u q s w)) = []"
    "GetCommentByID p (snd (InsertComment vid u q s w)) = (Inr row, snd (InsertComment vid u q s w))"
proof -
  obtain c0 where c0: "find_row (\<lambda>c. c_ID c = p) (comments (w_db w)) = Some c0"
    "join_author (w_db w) c0 = Some row"
    using assms(1,2) by (auto simp: GetCommentByID_def calm_query one_row_def split: option.splits)
  have "find_row (\<lambda>c. c_ID c = p) (comments (w_db w) @ [x]) = Some c0" for x
    using c0(1) by (auto simp: find_row_def split: list.splits)
  then show "w_faults (snd (InsertComment vid u q s w)) = []"
    "GetCommentByID p (snd (InsertComment vid u q s w)) = (Inr row, snd (InsertComment vid u q s w))"
    using assms c0(2)
    by (auto simp: InsertComment_def exec_insert_def run_simps new_uuid_def calm_exec Let_def
        GetCommentByID_def calm_query one_row_def join_author_def split: if_splits)
qed

lemma IncrementCommentsCount_keeps:
  assumes "w_faults w = []" "GetCommentByID p w = (Inr row, w)"
  shows "w_faults (snd (IncrementCommentsCount i w)) = []"
    "GetCommentByID p (snd (IncrementCommentsCount i w)) = (Inr row, snd (IncrementCommentsCount i w))"
  using assms
  by (auto simp: IncrementCommentsCount_def update_videos_def calm_exec GetCommentByID_def calm_query
      one_row_def join_author_def split: option.splits)

lemma reply_mirrors:
  assumes "w_faults w = []" "GetCommentByID p w = (Inr row, w)"
    "c_VideoID (cr_comment row) = v_ID video" "c_ID (cr_comment row) = p"
  shows "same_outcome (\<lambda>c i. i = c_ID c) (comment_commentTx E actor video (Some p) content w)
    (runTx (reply_tx E actor (cr_comment row) video content) w)"
  unfolding comment_commentTx_def
proof (rule outcome_tx)
  fix w0 assume f: "fault w = (Inr (), w0)"
  then have w0: "w0 = w" using assms(1) by (simp add: calm_fault)
  show "same_outcome (\<lambda>c i. i = c_ID c) (must ''insert'' (InsertComment (v_ID video) (u_ID actor) (Some p) content)
      (\<lambda>comment. must ''increment'' (IncrementCommentsCount (v_ID video)) (\<lambda>_.
        bindM (case Some p of None \<Rightarrow> ok (if v_UserID video \<noteq> u_ID actor then [v_UserID video] else [])
          | Some p \<Rightarrow> must ''load parent'' (GetCommentByID p) (\<lambda>parent.
              ok (reply_recipients (u_ID actor) (v_UserID video) (c_UserID (cr_comment parent)))))
        (\<lambda>rs. bindM (comment_notify E actor video (c_ID comment) rs) (\<lambda>_. ok comment)))) w0)
    (reply_tx E actor (cr_comment row) video content w0)"
    unfolding must_def [of "''insert''"] must_def [of "''increment''"] reply_tx_def assms(3,4) w0
  proof (rule outcome_tryM [where S = "(=)"], goal_cases)
    case (3 c c' w1)
    then have w1: "w_faults w1 = []" "GetCommentByID p w1 = (Inr row, w1)"
      using InsertComment_keeps [OF assms(1,2)] by simp_all
    show ?case unfolding 3(1) [symmetric]
    proof (rule outcome_tryM [where S = "(=)"], goal_cases)
      case (3 x y w2)
      then have w2: "GetCommentByID p w2 = (Inr row, w2)"
        using IncrementCommentsCount_keeps [OF w1] by simp
      have k: "mirrors (\<lambda>c i. i = c_ID c) (bindM (comment_notify E actor video (c_ID c) rs) (\<lambda>_. ok c))
          (tryM (forM rs (\<lambda>r. insertSocialNotification r (u_ID actor) ''comment''
             (comment_payload E actor (v_ID video) (c_ID c)))) (\<lambda>_. throw e) (\<lambda>_. ok (c_ID c)))" for rs e
        unfolding bindM_def
        by (intro mirrors_tryM [OF notify_mirrors] mirrors_throw mirrors_ok refl)
      have l: "bindM (case Some p of None \<Rightarrow> ok rs
          | Some p \<Rightarrow> must ''load parent'' (GetCommentByID p) (\<lambda>parent. ok (f parent))) K w2 = K (f row) w2" for rs f K
        by (simp add: bindM_run must_def tryM_run w2 ok_run)
      show ?case unfolding l by (rule mirrorsD [OF k])
    qed (simp_all add: same_outcome_def rel_sum.intros throw_run sum.rel_refl)
  qed (simp_all add: same_outcome_def throw_run sum.rel_refl)
qed

end
