(* ===== verification/Drains.thy ===== *)
theory Drains
  imports Mirrors Lockout
begin

text \<open>
  Two things the deletion tests get wrong.  The loop that drains the queue ends exactly
  when fewer than a page of the listed tasks are of another type.  And
  \<^verbatim>\<open>phase8_delete_user\<close> does not clean up after itself: the tombstone it leaves
  has a new username, which the pre-clean does not match, and the old subject, which the
  next run wants to create again.
\<close>

section \<open>The drain\<close>

definition listing_order :: "inspector \<Rightarrow> bool" where
  "listing_order I \<longleftrightarrow> (\<forall>q. mset (in_order I q) = mset q)"

text \<open>The listed tasks that are of another type.\<close>

definition foreign :: "(queued \<Rightarrow> bool) \<Rightarrow> string \<Rightarrow> queued list \<Rightarrow> nat" where
  "foreign here kind q = count_rows (\<lambda>t. here t \<and> \<not> of_type kind t) q"

lemma foreign_mset: "foreign here kind q = size (filter_mset (\<lambda>t. here t \<and> \<not> of_type kind t) (mset q))"
  by (simp add: foreign_def count_rows_def flip: mset_filter)

lemma list_tasks_run:
  "snd (list_tasks I here w) = snd (fault w)"
  "fst (list_tasks I here w) = Inr ts \<Longrightarrow> ts = take inspector_page (filter here (in_order I (w_queue w)))"
  by (auto simp: list_tasks_def bindM_run fault_def split: sum.splits list.splits option.splits)

lemma fault_queue: "w_queue (snd (fault w)) = w_queue w"
  by (simp add: fault_def split: list.split option.split)

lemma DeleteTask_queue:
  "fst (DeleteTask t w) = Inr () \<Longrightarrow> mset (w_queue (snd (DeleteTask t w))) = mset (w_queue w) - {#t#}"
  using fault_queue [of w] by (auto simp: DeleteTask_def bindM_run split: sum.splits)

lemma delete_tasks_queue:
  assumes "fst (delete_tasks I kind ts w) = Inr n"
  shows "n = length (filter (of_type kind) ts)"
    "mset (w_queue (snd (delete_tasks I kind ts w))) = mset (w_queue w) - mset (filter (of_type kind) ts)"
  using assms
proof (induction ts arbitrary: w n)
  case (Cons t ts)
  { case 1
    then show ?case using Cons.IH(1)
      by (auto simp: must_def tryM_run bindM_run ok_run throw_run split: if_splits sum.splits) }
  { case 2
    then show ?case using Cons.IH(2) DeleteTask_queue [of t w]
      by (auto simp: must_def tryM_run bindM_run ok_run throw_run split: if_splits sum.splits) }
qed (simp_all add: ok_run)

text \<open>One round: it fails, it ends, or it takes some tasks of the type and no other away.\<close>

lemma page_of_queue:
  assumes "listing_order I"
  shows "mset (take inspector_page (filter here (in_order I q))) \<subseteq># mset (filter here q)"
proof -
  have "mset (take inspector_page (filter here (in_order I q))) \<subseteq># mset (filter here (in_order I q))"
    by (metis append_take_drop_id mset_append mset_subset_eq_add_left)
  then show ?thesis using assms by (simp add: listing_order_def)
qed

lemma drain_round:
  assumes "listing_order I" "fst (list_tasks I here w) = Inr ts"
    "fst (delete_tasks I kind ts (snd (list_tasks I here w))) = Inr n"
  defines "w' \<equiv> snd (delete_tasks I kind ts (snd (list_tasks I here w)))"
  shows "foreign here kind (w_queue w') = foreign here kind (w_queue w)"
    "n \<noteq> 0 \<Longrightarrow> length (w_queue w') < length (w_queue w)"
    "n = 0 \<Longrightarrow> length ts \<le> foreign here kind (w_queue w)"
proof -
  have ts: "ts = take inspector_page (filter here (in_order I (w_queue w)))"
    using list_tasks_run(2) [OF assms(2)] .
  have sub: "mset ts \<subseteq># mset (filter here (w_queue w))" unfolding ts by (rule page_of_queue [OF assms(1)])
  note d = delete_tasks_queue [OF assms(3)]
  have q: "mset (w_queue w') = mset (w_queue w) - mset (filter (of_type kind) ts)"
    using d(2) by (simp add: w'_def list_tasks_run(1) fault_queue)
  have z: "filter_mset (\<lambda>t. here t \<and> \<not> of_type kind t) (filter_mset (of_type kind) (mset ts)) = {#}"
    by (auto intro: multiset_eqI)
  show "foreign here kind (w_queue w') = foreign here kind (w_queue w)"
    by (simp only: foreign_mset q mset_filter filter_diff_mset z diff_empty)
  have "mset (filter (of_type kind) ts) \<subseteq># mset (w_queue w)"
    using sub by (metis mset_filter multiset_filter_subset subset_mset.order_trans)
  then have "size (mset (w_queue w')) = length (w_queue w) - n" "n \<le> length (w_queue w)"
    using size_mset_mono [of "mset (filter (of_type kind) ts)" "mset (w_queue w)"]
    by (simp_all add: q d(1) size_Diff_submset del: mset_filter)
  then show "n \<noteq> 0 \<Longrightarrow> length (w_queue w') < length (w_queue w)" by simp
  assume "n = 0"
  then have "filter_mset (\<lambda>t. \<not> of_type kind t) (mset ts) = mset ts"
    using d(1) by (simp add: filter_empty_conv filter_id_conv flip: mset_filter)
  then have "mset ts \<subseteq># filter_mset (\<lambda>t. \<not> of_type kind t) (mset (filter here (w_queue w)))"
    using multiset_filter_mono [OF sub, of "\<lambda>t. \<not> of_type kind t"] by simp
  then have "size (mset ts) \<le> size (filter_mset (\<lambda>t. \<not> of_type kind t) (mset (filter here (w_queue w))))"
    by (rule size_mset_mono)
  then show "length ts \<le> foreign here kind (w_queue w)"
    by (simp add: foreign_mset filter_filter_mset conj_commute)
qed

lemma drain_ends:
  assumes "listing_order I" "foreign here kind (w_queue w) < inspector_page"
  shows "\<exists>r. drain I listing here kind w = Some r"
  using assms(2)
proof (induction "length (w_queue w)" arbitrary: w rule: less_induct)
  case less
  let ?l = "list_tasks I here w"
  show ?case
  proof (cases "fst ?l")
    case (Inl e)
    then show ?thesis by (simp add: drain.simps [of I listing here kind w] Let_def)
  next
    case (Inr ts)
    let ?d = "delete_tasks I kind ts (snd ?l)"
    show ?thesis
    proof (cases "fst ?d")
      case (Inl e)
      then show ?thesis using Inr by (simp add: drain.simps [of I listing here kind w] Let_def)
    next
      case (Inr n)
      note r = drain_round [OF assms(1) \<open>fst ?l = Inr ts\<close> Inr]
      show ?thesis
      proof (cases "n = 0")
        case True
        then have "length ts < inspector_page" using r(3) less.prems by simp
        then show ?thesis using True Inr \<open>fst ?l = Inr ts\<close>
          by (simp add: drain.simps [of I listing here kind w] Let_def)
      next
        case False
        then have "\<exists>x. drain I listing here kind (snd ?d) = Some x"
          using less.hyps r less.prems by simp
        then show ?thesis using False Inr \<open>fst ?l = Inr ts\<close>
          by (simp add: drain.simps [of I listing here kind w] Let_def)
      qed
    qed
  qed
qed

text \<open>Calls that do not fail keep a schedule without failures.\<close>

lemma calm_list_tasks:
  "w_faults w = [] \<Longrightarrow> list_tasks I here w = (Inr (take inspector_page (filter here (in_order I (w_queue w)))), w)"
  by (simp add: list_tasks_def bindM_run calm_fault)

lemma calm_delete_tasks:
  assumes "w_faults w = []"
  shows "\<exists>n w'. delete_tasks I kind ts w = (Inr n, w') \<and> w_faults w' = []"
  using assms
proof (induction ts arbitrary: w)
  case (Cons t ts)
  have "DeleteTask t w = (Inr (), w\<lparr>w_queue := remove1 t (w_queue w)\<rparr>)"
    using Cons.prems by (simp add: DeleteTask_def bindM_run calm_fault)
  then show ?case
    using Cons.IH [of w] Cons.IH [of "w\<lparr>w_queue := remove1 t (w_queue w)\<rparr>"] Cons.prems
    by (auto simp: must_def tryM_run bindM_run ok_run)
qed (simp add: ok_run)

lemma drain_stuck:
  assumes "drain I listing here kind w = Some r"
  shows "listing_order I \<longrightarrow> w_faults w = [] \<longrightarrow> foreign here kind (w_queue w) < inspector_page"
proof (rule drain.raw_induct [where P = "\<lambda>I listing here kind w r. listing_order I \<longrightarrow>
    w_faults w = [] \<longrightarrow> foreign here kind (w_queue w) < inspector_page", OF _ assms], goal_cases)
  case (1 drain I listing here kind w r)
  show ?case
  proof (intro impI, rule ccontr)
    assume o: "listing_order I" and c: "w_faults w = []"
      and big: "\<not> foreign here kind (w_queue w) < inspector_page"
    define ts where "ts = take inspector_page (filter here (in_order I (w_queue w)))"
    have l: "list_tasks I here w = (Inr ts, w)" using c by (simp add: calm_list_tasks ts_def)
    obtain n w' where d: "delete_tasks I kind ts w = (Inr n, w')" and c': "w_faults w' = []"
      using calm_delete_tasks [OF c] by blast
    have r: "foreign here kind (w_queue w') = foreign here kind (w_queue w)"
      using drain_round(1) [OF o, of here w ts kind n] l d by simp
    have "foreign here kind q \<le> length (filter here q)" for q
      unfolding foreign_def count_rows_def by (induction q) auto
    then have "foreign here kind (w_queue w) \<le> length (filter here (w_queue w))" .
    also have "\<dots> = length (filter here (in_order I (w_queue w)))"
      using o by (metis listing_order_def mset_filter size_mset)
    finally have len: "length ts = inspector_page" using big by (simp add: ts_def)
    then have "ts \<noteq> []" by (auto simp: inspector_page_def)
    then have "drain I listing here kind w' = Some r" using 1(2) len by (simp add: l d Let_def)
    then show False using 1(1) [of I listing here kind w' r] big r c' o by simp
  qed
qed

lemma drain_returns:
  assumes "listing_order I" "w_faults w = []"
  shows "(\<exists>r. drain I listing here kind w = Some r) \<longleftrightarrow> foreign here kind (w_queue w) < inspector_page"
  using drain_ends [OF assms(1)] drain_stuck assms by blast

section \<open>What the test does to the accounts\<close>

context table_rel
begin

lemma rel_txWith: "rel (runTx m) \<Longrightarrow> rel (txWith b c m)"
proof -
  assume r: "rel (runTx m)"
  have "mirrors (=) m m"
    by (auto simp: mirrors_def same_outcome_def sum.rel_eq sum.rel_refl)
  then have "same_outcome (=) (txWith b c m w) (runTx m w)" for w
    using mirrorsD [OF mirrors_tx] by blast
  then have "snd (runTx m w) = snd (txWith b c m w)" for w by (simp add: same_outcome_def)
  then show ?thesis using r by (simp add: rel_def)
qed

lemma rel_must: "rel m \<Longrightarrow> (\<And>x. rel (k x)) \<Longrightarrow> rel (must p m k)"
  unfolding must_def by (intro rel_tryM rel_throw)

lemma rel_expect: "rel k \<Longrightarrow> rel (expect c msg k)"
  by (simp add: expect_def rel_throw)

lemma rel_smoke_reads:
  "rel (SelectUserByUsername n)" "rel (column_count t co u)" "rel (list_tasks I h)"
  unfolding SelectUserByUsername_def column_count_def list_tasks_def
  by (intro rel_query rel_bindM rel_fault rel_local | simp)+

lemmas smoke_intros = base_intros rel_reads rel_txWith rel_must rel_expect rel_smoke_reads

end

locale smoke_rel = statement_rel +
  assumes S_processing: "rel (UpdateVideoToProcessing i)"
begin

lemma rel_insert_ready: "rel (insert_ready E' t du wr u sl)"
  unfolding insert_ready_def by (intro smoke_intros S_intros S_processing)

lemma rel_du_ensureUser: "rel (du_ensureUser n False True)"
  unfolding du_ensureUser_def find_or_create_def flags_unchecked_def
  by simp (intro smoke_intros S_user)

lemma rel_du_txs: "rel (du_likeTx E' a v)" "rel (du_commentTx E' a v s)"
  unfolding du_likeTx_def du_commentTx_def by (intro smoke_intros S_social S_count)+

lemma rel_du_asserts: "rel (assertTableCount E' t u n)" "rel (assertTableCount2 E' t c u n)"
  unfolding assertTableCount_def assertTableCount2_def by (intro smoke_intros)+

lemma rel_DeleteUserData: "rel (DeleteUserData E u)"
  unfolding DeleteUserData_def by (intro base_intros S_deleteUserData)

lemma rel_du_queue: "rel (du_queue I v)"
  unfolding du_queue_def findCleanupObjectsKeys_def Let_def by (intro smoke_intros)

lemmas du_intros = smoke_intros rel_insert_ready rel_du_ensureUser rel_du_txs rel_du_asserts S_user
  rel_DeleteUserData rel_du_queue

text \<open>Everything after the first seed.\<close>

lemma rel_du_checks: "rel (du_pre E' c)" "rel (du_post E' c)" "rel (du_tombstone E' a)"
  unfolding du_pre_def du_post_def du_tombstone_def Let_def by (intro du_intros)+

end

interpretation constraints_smoke: smoke_rel "inv_rel constraints" E for E
  by unfold_locales (simp only: all_stmts UpdateVideoToProcessing_def constraints_rel)

interpretation accounts_smoke: smoke_rel keeps_users E for E
  by unfold_locales (simp only: UpdateVideoToProcessing_def accounts_video)

end
