(* ===== verification/Reruns.thy ===== *)
theory Reruns
  imports Drains
begin

text \<open>
  \<^verbatim>\<open>phase8_delete_user\<close> passes at most once on a database: after a run that passes,
  the next one fails at its first seed.  The argument follows one account: the run creates
  it under a fixed subject, no statement of the run takes the subject away, and the
  tombstone keeps it under a name the pre-clean does not match.
\<close>

section \<open>The account of the run\<close>

definition du_name :: string where "du_name = du_prefix @ ''A''"
definition du_subject :: string where "du_subject = ''smoke-phase8a-'' @ du_name"

definition unnamed :: "db \<Rightarrow> bool" where
  "unnamed d \<longleftrightarrow> (\<forall>u \<in> set (users d). u_Username u \<noteq> du_name)"

definition holds_subject :: "uuid \<Rightarrow> db \<Rightarrow> bool" where
  "holds_subject a d \<longleftrightarrow> constraints d \<and> (\<exists>u \<in> set (users d). u_ID u = a \<and> u_ZitadelID u = du_subject)"

definition left_behind :: "db \<Rightarrow> bool" where
  "left_behind d \<longleftrightarrow> (\<exists>u \<in> set (users d). u_ZitadelID u = du_subject \<and> prefix_of ''deleted_'' (u_Username u))"

abbreviation any_error :: "goerr \<Rightarrow> db \<Rightarrow> bool" where "any_error \<equiv> \<lambda>_ _. True"

lemma triple_must:
  assumes "triple P m Q any_error" "\<And>x. triple (Q x) (k x) R any_error"
  shows "triple P (must p m k) R any_error"
  unfolding must_def by (rule triple_tryM [OF assms(1) triple_any_error assms(2)])

lemma triple_expect: "(c \<Longrightarrow> triple P k Q any_error) \<Longrightarrow> triple P (expect c msg k) Q any_error"
  by (auto simp: expect_def intro: triple_throw)

lemma kept:
  assumes "inv.rel constraints m" "accounts.rel m"
  shows "triple (holds_subject a) m (\<lambda>_. holds_subject a) any_error"
proof -
  have "holds_subject a (w_db (snd (m w)))" if "holds_subject a (w_db w)" for w
    using that inv.relD [OF assms(1), of w] accounts.relD [OF assms(2), of w]
    by (fastforce simp: holds_subject_def inv_rel_def keeps_users_def users_kept_def same_account_def)
  then show ?thesis by (auto intro: tripleI)
qed

section \<open>The run, followed\<close>

lemma names_match: "like_match (du_prefix @ ''%'') du_name"
  by (simp add: du_prefix_def du_name_def like_match.simps(2))

lemma names_differ:
  assumes "prefix_of ''deleted_'' name"
  shows "\<not> like_match (du_prefix @ ''%'') name"
  using assms by (cases name) (auto simp: du_prefix_def prefix_of_def like_match.simps(2))

lemma seed_A:
  "triple (\<lambda>d. constraints d \<and> unnamed d) (du_ensureUser du_name False True)
     (\<lambda>u. holds_subject (u_ID u)) any_error"
proof -
  have s: "triple (\<lambda>d. constraints d \<and> unnamed d) (SelectUserByUsername du_name)
      (\<lambda>_ _. False) (\<lambda>_ d. constraints d \<and> unnamed d)"
    unfolding SelectUserByUsername_def
    by (rule triple_query) (auto simp: one_row_def unnamed_def dest: find_row_Some split: option.splits)
  have c: "triple (\<lambda>d. constraints d \<and> unnamed d)
      (CreateUser (''smoke-phase8a-'' @ du_name) du_name (Some du_name)) (\<lambda>u. holds_subject (u_ID u)) any_error"
    unfolding CreateUser_def
    by (rule triple_exec_insert) (auto simp: holds_subject_def du_subject_def Let_def split: if_splits)
  show ?thesis
    unfolding du_ensureUser_def find_or_create_def flags_unchecked_def
    by (rule triple_tryM [OF s triple_bindM [OF c]]) (auto simp: triple_def ok_run)
qed

lemma seeds:
  "triple (\<lambda>d. constraints d \<and> unnamed d) (du_seeded E) (\<lambda>c. holds_subject (u_ID (du_A c))) any_error"
  unfolding du_seeded_def
proof (rule triple_must, rule seed_A [unfolded du_name_def])
  fix a :: User
  note k = triple_must [OF kept]
  show "triple (holds_subject (u_ID a))
     (must ''seed videoA'' (du_insertReady E (u_ID a) ''A'') (\<lambda>videoA.
     must ''seed B'' (du_ensureUser (du_prefix @ ''B'') False True) (\<lambda>userB.
     must ''seed videoB'' (du_insertReady E (u_ID userB) ''B'') (\<lambda>videoB.
     must ''seed C'' (du_ensureUser (du_prefix @ ''C'') False True) (\<lambda>userC.
     must ''seed C like B'' (du_likeTx E userC videoB) (\<lambda>_.
     must ''A like B'' (du_likeTx E a videoB) (\<lambda>_.
     must ''A comment B'' (du_commentTx E a videoB ''nice'') (\<lambda>_.
     must ''A follow B'' (FollowUser (u_ID a) (u_ID userB)) (\<lambda>_.
     must ''B follow A'' (FollowUser (u_ID userB) (u_ID a)) (\<lambda>_.
     ok \<lparr>du_A = a, du_videoA = videoA, du_videoB = videoB\<rparr>)))))))))) (\<lambda>c. holds_subject (u_ID (du_A c))) any_error"
    unfolding du_insertReady_def
    by (intro k triple_ok constraints_smoke.du_intros accounts_smoke.du_intros) simp
qed

lemma tombstone_seen:
  "triple (holds_subject a) (du_tombstone E a) (\<lambda>_. left_behind) any_error"
  unfolding du_tombstone_def
proof (rule triple_must [where Q = "\<lambda>t d. holds_subject a d \<and> t \<in> set (users d) \<and> u_ID t = a"])
  show "triple (holds_subject a) (GetUserByID a) (\<lambda>t d. holds_subject a d \<and> t \<in> set (users d) \<and> u_ID t = a) any_error"
    unfolding GetUserByID_def
    by (rule triple_query) (auto simp: one_row_def dest: find_row_Some split: option.splits)
next
  fix t
  have "left_behind d" if "holds_subject a d" "t \<in> set (users d)" "u_ID t = a" "prefix_of ''deleted_'' (u_Username t)" for d
  proof -
    from that(1) obtain u where u: "u \<in> set (users d)" "u_ID u = a" "u_ZitadelID u = du_subject"
      unfolding holds_subject_def by blast
    moreover have "distinct (map u_ID (users d))"
      using that(1) by (simp add: holds_subject_def constraints_def users_ok_def)
    ultimately have "u = t" using that(2,3) by (auto simp: distinct_map inj_on_def)
    then show ?thesis using u that(4) by (auto simp: left_behind_def)
  qed
  then show "triple (\<lambda>d. holds_subject a d \<and> t \<in> set (users d) \<and> u_ID t = a)
     (expect (\<not> u_IsActive t) ''tombstone: userA.is_active=true, want false'' (
     expect (u_DeletedAt t \<noteq> None) ''tombstone: userA.deleted_at NULL, want NOT NULL'' (
     expect (prefix_of ''deleted_'' (u_Username t)) (''tombstone: userA.username='' @ Quote (u_Username t) @
       '', want '' @ [CHR 0x27] @ ''deleted_<id>'' @ [CHR 0x27] @ '' prefix'') (
     expect (u_Username t = ''deleted_'' @ env_uuid_String E a) (''tombstone: userA.username='' @
       Quote (u_Username t) @ '', want exact '' @ [CHR 0x27] @ ''deleted_'' @ env_uuid_String E a @ [CHR 0x27]) (
     expect (u_DisplayName t = None) (''tombstone: userA.display_name should be null, got '' @
       Quote (case u_DisplayName t of None \<Rightarrow> [] | Some s \<Rightarrow> s)) (
     expect (u_Bio t = None) ''tombstone: userA.bio should be null'' (
     expect (u_AvatarUrl t = None) ''tombstone: userA.avatar_url should be null'' (ok ()))))))))
     (\<lambda>_. left_behind) any_error"
    by (intro triple_expect triple_ok) auto
qed

lemma dbsame_du_queue: "dbsame.rel (du_queue I v)"
  unfolding du_queue_def findCleanupObjectsKeys_def must_def expect_def list_tasks_def Let_def
  by (intro dbsame_intros | simp add: dbsame.rel_def)+

lemma passing_rest:
  "triple (\<lambda>d. constraints d \<and> unnamed d) (du_rest I E) (\<lambda>_. left_behind) any_error"
  unfolding du_rest_def
proof (rule triple_bindM [OF seeds])
  fix c
  note k = constraints_smoke.rel_du_checks accounts_smoke.rel_du_checks
    constraints_smoke.rel_DeleteUserData accounts_smoke.rel_DeleteUserData
  show "triple (holds_subject (u_ID (du_A c))) (bindM (du_pre E c) (\<lambda>_.
     must ''DeleteUserData'' (DeleteUserData E (u_ID (du_A c))) (\<lambda>_.
     bindM (du_post E c) (\<lambda>_.
     bindM (du_tombstone E (u_ID (du_A c))) (\<lambda>_.
     du_queue I (du_videoA c)))))) (\<lambda>_. left_behind) any_error"
    by (intro triple_bindM [OF kept] triple_must [OF kept] triple_bindM [OF tombstone_seen] k)
       (rule triple_weaken [OF triple_dbsame [OF dbsame_du_queue]], simp_all)
qed

text \<open>The next run: no user of the name, but the subject is taken.\<close>

lemma failing_rest:
  "triple (\<lambda>d. unnamed d \<and> left_behind d) (du_rest I E) (\<lambda>_ _. False) any_error"
proof -
  have s: "triple (\<lambda>d. unnamed d \<and> left_behind d) (SelectUserByUsername du_name)
      (\<lambda>_ _. False) (\<lambda>_ d. unnamed d \<and> left_behind d)"
    unfolding SelectUserByUsername_def
    by (rule triple_query) (auto simp: one_row_def unnamed_def dest: find_row_Some split: option.splits)
  have c: "triple (\<lambda>d. unnamed d \<and> left_behind d)
      (CreateUser (''smoke-phase8a-'' @ du_name) du_name (Some du_name)) (\<lambda>_ _. False) any_error"
    unfolding CreateUser_def
    by (rule triple_exec_insert) (auto simp: left_behind_def du_subject_def Let_def image_iff split: if_splits)
  have "triple (\<lambda>d. unnamed d \<and> left_behind d) (du_ensureUser du_name False True) (\<lambda>_ _. False) any_error"
    unfolding du_ensureUser_def find_or_create_def
    by (rule triple_tryM [OF s triple_bindM [OF c]]) (auto simp: triple_def)
  then show ?thesis
    unfolding du_rest_def du_seeded_def du_name_def
    by (intro triple_bindM [where Q' = "\<lambda>_ _. False"] triple_must [where Q = "\<lambda>_ _. False"])
       (auto simp: triple_def)
qed

section \<open>Before the drain, and the drain\<close>

lemma delete_users_users: "users (delete_users P d) = filter (\<lambda>u. \<not> P u) (users d)"
  by (simp add: delete_users_def Let_def)

lemma pre_clean:
  "triple (\<lambda>_. True) (DeleteUsersLike (du_prefix @ ''%'')) (\<lambda>_ d. constraints d \<and> unnamed d) any_error"
  "triple left_behind (DeleteUsersLike (du_prefix @ ''%'')) (\<lambda>_ d. unnamed d \<and> left_behind d) any_error"
  unfolding DeleteUsersLike_def
  by (rule triple_exec, use names_match names_differ in
      \<open>auto simp: delete_users_users unnamed_def left_behind_def\<close>)+

lemma smoke_start:
  assumes "triple P (DeleteUsersLike pat) Q any_error"
  shows "triple P (must ''ping'' fault (\<lambda>_. bindM (smoke_asynq addr pw) (\<lambda>_.
     must ''pre-clean users'' (DeleteUsersLike pat) ok))) Q any_error"
proof -
  have q: "triple P (smoke_asynq addr pw) (\<lambda>_. P) any_error"
    unfolding smoke_asynq_def
    by (rule triple_must [where Q = "\<lambda>_. P"]) (auto simp: liftR_run ok_run triple_def split: sum.split)
  have f: "triple P fault (\<lambda>_. P) any_error"
    by (rule triple_weaken [OF triple_dbsame [OF dbsame_fault]]) simp_all
  have o: "triple P (must ''pre-clean users'' (DeleteUsersLike pat) ok) Q any_error"
    by (rule triple_must [OF assms], rule triple_ok) simp
  show ?thesis by (rule triple_must [OF f triple_bindM [OF q o]])
qed

lemma delete_tasks_db: "w_db (snd (delete_tasks I kind ts w)) = w_db w"
proof -
  have "dbsame.rel (delete_tasks I kind ts)"
  proof (induction ts)
    case (Cons t ts)
    have "dbsame.rel (DeleteTask t)"
      unfolding DeleteTask_def by (intro dbsame.rel_bindM dbsame_fault) (simp add: dbsame.rel_def)
    then show ?case using Cons unfolding delete_tasks.simps must_def
      by (intro dbsame_intros)
  qed (simp add: dbsame.rel_ok)
  then show ?thesis by (simp add: dbsame.rel_def)
qed

lemma list_tasks_db: "w_db (snd (list_tasks I here w)) = w_db w"
  by (simp add: list_tasks_run(1) fault_def split: list.split option.split)

lemma drain_db:
  assumes "drain I listing here kind w = Some r"
  shows "w_db (snd r) = w_db w"
proof (rule drain.raw_induct [where P = "\<lambda>I listing here kind w r. w_db (snd r) = w_db w", OF _ assms], goal_cases)
  case (1 drain I listing here kind w r)
  let ?l = "list_tasks I here w"
  note d = delete_tasks_db [of I kind _ "snd ?l"] list_tasks_db [of I here w]
  show ?case
  proof (cases "fst ?l")
    case (Inl e)
    then show ?thesis using 1(2) d by (auto simp: Let_def)
  next
    case (Inr ts)
    then show ?thesis
      using 1(2) 1(1) d
      by (cases "ts = []"; cases "fst (delete_tasks I kind ts (snd ?l))")
         (auto simp: Let_def split: if_splits)
  qed
qed

lemma drained_passes:
  assumes "drained m loop k w = Some (Inr (), w')" "triple P m Q any_error" "triple (Q ()) k R any_error"
    "\<And>w r. loop w = Some r \<Longrightarrow> w_db (snd r) = w_db w" "P (w_db w)"
  shows "R () (w_db w')"
proof -
  obtain w1 where m: "m w = (Inr (), w1)" "Q () (w_db w1)"
    using assms(1,5) tripleD(1) [OF assms(2), of w "()"]
    by (cases "m w"; cases "fst (m w)") (auto simp: drained_def)
  then obtain r where r: "loop w1 = Some r" using assms(1) by (auto simp: drained_def split: option.splits)
  then have k: "k (snd r) = (Inr (), w')"
    using assms(1) m by (auto simp: drained_def split: sum.splits)
  have "Q () (w_db (snd r))" using assms(4) [OF r] m(2) by simp
  then show ?thesis using tripleD(1) [OF assms(3), of "snd r" "()"] k by simp
qed

lemma du_passes_once:
  assumes "du_run I E addr pw w = Some (Inr (), w')"
  shows "du_run I' E' addr' pw' w' \<noteq> Some (Inr (), w'')"
proof
  assume again: "du_run I' E' addr' pw' w' = Some (Inr (), w'')"
  have "left_behind (w_db w')"
    using assms unfolding du_run_def drainQueue_def
    by (rule drained_passes [OF _ smoke_start [OF pre_clean(1)] passing_rest]) (auto dest: drain_db)
  then show False
    using drained_passes [OF again [unfolded du_run_def drainQueue_def] smoke_start [OF pre_clean(2)]
      failing_rest [of I' E']] by (blast dest: drain_db)
qed

end
