(* ===== verification/SmokeRuns.thy ===== *)
theory SmokeRuns
  imports Reruns SmokeSocial Examples
begin

text \<open>
  Runs of the tests on an empty database, with no failures: they pass.  The inspector lists
  tasks in the order they were queued; identifiers are drawn from a list.
\<close>

definition fresh_ids :: "uuid list" where
  "fresh_ids = [1, 2, 3, 4, 5, 6, 7, 8, 9, 10, 11, 12, 13, 14, 15, 16]"

definition fresh_world :: world where
  "fresh_world = empty_world\<lparr>w_uuids := (\<lambda>n. fresh_ids ! n)\<rparr>"

definition short_uuid :: "uuid \<Rightarrow> string" where
  "short_uuid i = (case find_row (\<lambda>(j, _). j = i) (zip fresh_ids ''abcdefghijklmnop'') of
     None \<Rightarrow> [] | Some (_, c) \<Rightarrow> [c])"

definition E1 :: env where
  "E1 = E0\<lparr>env_uuid_String := short_uuid\<rparr>"

definition I1 :: inspector where
  "I1 = \<lparr>in_order = (\<lambda>q. q), in_id = (\<lambda>_. ''id'')\<rparr>"

lemma I1_order: "listing_order I1"
  by (simp add: listing_order_def I1_def)

text \<open>A queue that is full of transcode tasks.\<close>

definition busy_world :: "nat \<Rightarrow> world" where
  "busy_world n = fresh_world\<lparr>w_queue := replicate n
     \<lparr>q_task = TranscodeVideo ''v'', q_delay = 0, q_max_retry = Some 1\<rparr>\<rparr>"

lemma busy_calm: "w_faults (busy_world n) = []"
  by (simp add: busy_world_def fresh_world_def empty_world_def)

lemma busy_foreign:
  "foreign (\<lambda>t. \<not> scheduled t) ''cleanup:objects'' (w_queue (busy_world n)) = n"
  "foreign scheduled ''cleanup:objects'' (w_queue (busy_world n)) = 0"
  by (simp_all add: foreign_def count_rows_def busy_world_def scheduled_def of_type_def)

section \<open>Runs that pass\<close>

lemma like_passes: "fst (like_run E1 fresh_world) = Inr ()"
  by code_simp

lemma notification_passes: "fst (notification_run 3 E1 ''dsn'' fresh_world) = Inr (Some ())"
  by code_simp

lemma dbRoundtrip_passes: "fst (dbRoundtrip E1 ''dsn'' fresh_world) = Inr ()"
  by code_simp

lemma dv_passes: "map_option fst (dv_run I1 E1 [] ''pw'' fresh_world) = Some (Inr ())"
  by code_simp

lemma du_passes: "map_option fst (du_run I1 E1 [] ''pw'' fresh_world) = Some (Inr ())"
  by code_simp

end
