(* ===== verification/SmokeSearch.thy ===== *)
theory SmokeSearch
  imports Smoke Startup
begin

text \<open>
  \<^verbatim>\<open>phase11_search\<close>: an HTTP server with the search handler behind the real
  bearer-token middleware, with a stub for the token verifier, and a client that asks it.
  The client reads the first response that the request writes.  Bodies are the values that
  are encoded as JSON, so the tests that look for a piece of text in a body look for the
  field with that value here; and a message leaves out the body it quotes.
\<close>

section \<open>Server and client\<close>

definition search_prefix :: string where "search_prefix = ''smoke-test-search-''"

definition CheckToken_stub :: "string \<Rightarrow> goerr + string" where
  "CheckToken_stub rawToken =
    (if rawToken = [] \<or> prefix_of ''invalid'' rawToken then Inl (Opaque ''unauthorized token'')
     else Inr rawToken)"

definition search_env :: "env \<Rightarrow> env" where
  "search_env E = E\<lparr>env_CheckToken := CheckToken_stub, env_wired := (\<lambda>_. True),
     env_APIBaseURL := ''http://localhost:8080'',
     env_MediaTokenSecret := ''secret-key-1234567890-secret-key-1234567890'',
     env_MediaTokenTTL := 15 * minute\<rparr>"

definition dummy_r2 :: R2Config where
  "dummy_r2 = \<lparr>r2_AccountID = ''dummy'', r2_AccessKeyID = ''dummy'', r2_SecretAccessKey = ''dummy'',
     r2_Bucket = ''mokibox'', r2_Endpoint = ''https://r2.example.com''\<rparr>"

text \<open>
  A query string as its pairs; only characters that need no escaping occur in it.  Echo's
  own error handler answers an error when nothing has been written.
\<close>

definition search_request :: "string option \<Rightarrow> (string \<times> string) list \<Rightarrow> request" where
  "search_request authorization params =
     \<lparr>req_user = None, req_param = (\<lambda>_. []), req_query = field params,
      req_header = (\<lambda>h. if h = ''Authorization''
         then (case authorization of None \<Rightarrow> [] | Some s \<Rightarrow> s) else []), req_RealIP = ''127.0.0.1''\<rparr>"

definition http_get :: "env \<Rightarrow> string option \<Rightarrow> (string \<times> string) list \<Rightarrow> response io" where
  "http_get E authorization params w =
    (let r = Authenticate (search_env E) (Search (search_env E)) (search_request authorization params)
           (w\<lparr>w_out := []\<rparr>);
         w' = (snd r)\<lparr>w_out := w_out w\<rparr>
     in case w_out (snd r) of
          resp # _ \<Rightarrow> (case fst r of Inl err \<Rightarrow> (Inl err, w') | Inr _ \<Rightarrow> (Inr resp, w'))
        | [] \<Rightarrow> (Inr \<lparr>r_status = 500,
             r_body = BodyJSON (JObj [(''message'', JStr ''Internal Server Error'')])\<rparr>, w'))"

definition doAuthGet :: "env \<Rightarrow> User \<Rightarrow> (string \<times> string) list \<Rightarrow> response io" where
  "doAuthGet E user params = http_get E (Some (''Bearer '' @ u_ZitadelID user)) params"

text \<open>\<^verbatim>\<open>if err != nil || code != want { return ... }\<close>; with an error the code is 0.\<close>

definition must_answer :: "int \<Rightarrow> (int \<Rightarrow> string) \<Rightarrow> response io \<Rightarrow> (body \<Rightarrow> 'a io) \<Rightarrow> 'a io" where
  "must_answer code msg m k =
     tryM m (\<lambda>_. throw (Opaque (msg 0)))
       (\<lambda>r. expect (r_status r = code) (msg (r_status r)) (k (r_body r)))"

definition got_code :: "string \<Rightarrow> int \<Rightarrow> int \<Rightarrow> string" where
  "got_code what expected code =
     ''FAIL: '' @ what @ '' returned code '' @ FormatInt code @ '', expected '' @ FormatInt expected"

section \<open>Reading a response\<close>

fun jfield :: "json \<Rightarrow> string \<Rightarrow> json" where
  "jfield (JObj kvs) k = (case map_of kvs k of None \<Rightarrow> JNull | Some j \<Rightarrow> j)"
| "jfield _ k = JNull"

text \<open>Decoding into a field: a missing or null one leaves the zero value, another type is an error.\<close>

fun decode_text :: "json \<Rightarrow> string option option" where
  "decode_text JNull = Some None"
| "decode_text (JStr s) = Some (Some s)"
| "decode_text _ = None"

fun decode_uuid :: "json \<Rightarrow> uuid option" where
  "decode_uuid JNull = Some 0"
| "decode_uuid (JUuid i) = Some i"
| "decode_uuid _ = None"

fun decode_list :: "(json \<Rightarrow> 'a option) \<Rightarrow> json \<Rightarrow> 'a list option" where
  "decode_list f JNull = Some []"
| "decode_list f (JArr js) = those (map f js)"
| "decode_list f _ = None"

record video_hit =
  vh_ID :: uuid
  vh_Title :: "string option"
  vh_ThumbnailURL :: "string option"
  vh_HLSPlaylistURL :: "string option"

definition decode_hit :: "json \<Rightarrow> video_hit option" where
  "decode_hit j =
     Option.bind (decode_uuid (jfield j ''id'')) (\<lambda>i.
     Option.bind (decode_text (jfield j ''title'')) (\<lambda>title.
     Option.bind (decode_text (jfield j ''thumbnail_url'')) (\<lambda>thumb.
     Option.bind (decode_text (jfield j ''hls_playlist_url'')) (\<lambda>hls.
     Some \<lparr>vh_ID = i, vh_Title = title, vh_ThumbnailURL = thumb, vh_HLSPlaylistURL = hls\<rparr>))))"

definition decode_user :: "json \<Rightarrow> uuid option" where
  "decode_user j = Option.bind (decode_uuid (jfield j ''id'')) (\<lambda>i.
     Option.bind (decode_text (jfield j ''username'')) (\<lambda>_. Some i))"

record search_result =
  sr_users :: "uuid list"
  sr_videos :: "video_hit list"

fun body_json :: "body \<Rightarrow> json option" where
  "body_json (BodyJSON j) = Some j"
| "body_json (BodyData j) = Some (JObj [(''data'', j)])"
| "body_json _ = None"

definition decode_search :: "body \<Rightarrow> goerr + search_result" where
  "decode_search b =
    (case Option.bind (body_json b) (\<lambda>j.
            Option.bind (decode_list decode_user (jfield (jfield j ''data'') ''users'')) (\<lambda>us.
            Option.bind (decode_list decode_hit (jfield (jfield j ''data'') ''videos'')) (\<lambda>vs.
            Option.bind (decode_text (jfield (jfield j ''pagination'') ''users_next_cursor'')) (\<lambda>_.
            Option.bind (decode_text (jfield (jfield j ''pagination'') ''videos_next_cursor'')) (\<lambda>_.
            Some \<lparr>sr_users = us, sr_videos = vs\<rparr>))))) of
       None \<Rightarrow> Inl (Opaque ''json: cannot unmarshal'')
     | Some r \<Rightarrow> Inr r)"

text \<open>The later responses are decoded into types with fewer fields, and the rest is not looked at.\<close>

definition decode_part :: "(json \<Rightarrow> 'a option) \<Rightarrow> string \<Rightarrow> body \<Rightarrow> goerr + 'a list" where
  "decode_part f k b =
    (case Option.bind (body_json b) (\<lambda>j. decode_list f (jfield (jfield j ''data'') k)) of
       None \<Rightarrow> Inl (Opaque ''json: cannot unmarshal'')
     | Some xs \<Rightarrow> Inr xs)"

definition decode_page :: "body \<Rightarrow> goerr + uuid list \<times> string option" where
  "decode_page b =
    (case Option.bind (body_json b) (\<lambda>j.
            Option.bind (decode_list (\<lambda>v. decode_uuid (jfield v ''id''))
                (jfield (jfield j ''data'') ''videos'')) (\<lambda>ids.
            Option.bind (decode_text (jfield (jfield j ''pagination'') ''videos_next_cursor'')) (\<lambda>c.
            Some (ids, c)))) of
       None \<Rightarrow> Inl (Opaque ''json: cannot unmarshal'')
     | Some r \<Rightarrow> Inr r)"

definition empty_array :: "string \<Rightarrow> body \<Rightarrow> bool" where
  "empty_array k b = (case body_json b of None \<Rightarrow> False
     | Some j \<Rightarrow> (case jfield (jfield j ''data'') k of JArr js \<Rightarrow> js = [] | _ \<Rightarrow> False))"

fun refuses_field :: "string \<Rightarrow> body \<Rightarrow> bool" where
  "refuses_field k (BodyError code _ details) \<longleftrightarrow>
     code = CodeValidationError \<and> list_ex (\<lambda>e. fe_Field e = k) details"
| "refuses_field k _ \<longleftrightarrow> False"

section \<open>Seeds\<close>

definition seedUser :: "env \<Rightarrow> string \<Rightarrow> string \<Rightarrow> bool \<Rightarrow> bool \<Rightarrow> User io" where
  "seedUser E username displayName isPrivate isActive = exec_insert (\<lambda>i now d.
     let u = \<lparr>u_ID = i, u_ZitadelID = ''zitadel-'' @ env_uuid_String E i, u_Username = username,
              u_DisplayName = Some displayName, u_Bio = None, u_AvatarUrl = None,
              u_IsPrivate = isPrivate, u_IsActive = isActive, u_DeletedAt = None, u_CreatedAt = now\<rparr>
     in Inr (u, d\<lparr>users := users d @ [u]\<rparr>))"

definition seedVideo ::
  "env \<Rightarrow> uuid \<Rightarrow> string \<Rightarrow> string \<Rightarrow> video_status \<Rightarrow> time option \<Rightarrow> Video io"
where
  "seedVideo E userID title desc status deletedAt = exec_insert (\<lambda>i now d.
     let v = \<lparr>v_ID = i, v_UserID = userID, v_Title = Some title, v_Description = Some desc,
              v_R2Key = ''videos/'' @ env_uuid_String E i @ ''/source.mp4'',
              v_HlsPrefix = Some (''hls/'' @ env_uuid_String E i),
              v_ThumbnailKey = Some (''thumbs/'' @ env_uuid_String E i @ ''.jpg''),
              v_DurationSeconds = None, v_Status = status, v_RetryCount = 0, v_LikesCount = 0,
              v_ViewsCount = 0, v_CommentsCount = 0, v_CreatedAt = now, v_DeletedAt = deletedAt\<rparr>
     in Inr (v, d\<lparr>videos := videos d @ [v]\<rparr>))"

definition cleanupSeedData :: "unit io" where
  "cleanupSeedData = DeleteUsersLike (search_prefix @ ''%'')"

definition seeded_name :: "User \<Rightarrow> bool" where
  "seeded_name u \<longleftrightarrow> like_match (search_prefix @ ''%'') (u_Username u)"

definition expected_count :: "int \<Rightarrow> string \<Rightarrow> int \<Rightarrow> string" where
  "expected_count n what m = ''expected '' @ FormatInt n @ '' '' @ what @ '', got '' @ FormatInt m"

definition verifySeedSanity :: "unit io" where
  "verifySeedSanity =
     must ''query user counts'' (query (\<lambda>d. Inr
       (int (count_rows (\<lambda>u. seeded_name u \<and> u_IsActive u) (users d)),
        int (count_rows (\<lambda>u. seeded_name u \<and> \<not> u_IsActive u) (users d))))) (\<lambda>(active, tombstones).
     expect (active = 4) (expected_count 4 ''active seeded users'' active) (
     expect (tombstones = 1) (expected_count 1 ''tombstoned seeded user'' tombstones) (
     must ''query video counts'' (query (\<lambda>d.
       let seeded = filter (like_title (search_prefix @ ''%'')) (videos d) in Inr
       (int (count_rows (\<lambda>v. v_Status v = READY \<and> v_DeletedAt v = None) seeded),
        int (count_rows (\<lambda>v. v_Status v = PENDING_UPLOAD) seeded),
        int (count_rows (\<lambda>v. v_DeletedAt v \<noteq> None) seeded)))) (\<lambda>(ready, pending, deleted).
     expect (ready = 3) (expected_count 3 ''READY videos'' ready) (
     expect (pending = 1) (expected_count 1 ''PENDING_UPLOAD video'' pending) (
     expect (deleted = 1) (expected_count 1 ''DELETED video'' deleted) (ok ())))))))"

record search_cast =
  sc_A :: User
  sc_B :: User
  sc_C :: User
  sc_D :: User
  sc_underscore :: User
  sc_A1 :: Video
  sc_B1 :: Video
  sc_C1 :: Video

definition search_seeded :: "env \<Rightarrow> search_cast io" where
  "search_seeded E =
    (let user = (\<lambda>n. seedUser E (search_prefix @ n)); video = (\<lambda>u n. seedVideo E (u_ID u) (search_prefix @ n)) in
     must ''seed userA'' (user ''userA'' ''User Alpha'' False True) (\<lambda>userA.
     must ''seed userB'' (user ''userB'' ''User Beta'' True True) (\<lambda>userB.
     must ''seed userC'' (user ''userC'' ''User Charlie'' True True) (\<lambda>userC.
     must ''seed userD'' (user ''userD'' ''User Delta'' False False) (\<lambda>userD.
     must ''seed userUnderscore'' (user ''user_underscore'' ''User Underscore'' False True) (\<lambda>userUnderscore.
     must ''follow userA -> userB'' (FollowUser (u_ID userA) (u_ID userB)) (\<lambda>_.
     must ''seed vidA1'' (video userA ''videoA1'' ''Description A1'' READY None) (\<lambda>vidA1.
     must ''seed vidA2'' (video userA ''videoA2'' ''Description A2'' PENDING_UPLOAD None) (\<lambda>_.
     bindM now_io (\<lambda>now.
     must ''seed vidA3'' (video userA ''videoA3'' ''Description A3'' DELETED (Some ((now div 1000) * 1000))) (\<lambda>_.
     must ''seed vidB1'' (video userB ''videoB1'' ''Description B1'' READY None) (\<lambda>vidB1.
     must ''seed vidC1'' (video userC ''videoC1'' ''Description C1'' READY None) (\<lambda>vidC1.
     ok \<lparr>sc_A = userA, sc_B = userB, sc_C = userC, sc_D = userD, sc_underscore = userUnderscore,
         sc_A1 = vidA1, sc_B1 = vidB1, sc_C1 = vidC1\<rparr>)))))))))))))"

section \<open>The requests\<close>

definition search_refused :: "env \<Rightarrow> search_cast \<Rightarrow> unit io" where
  "search_refused E c =
    (let ask = doAuthGet E (sc_A c) in
     must ''unauth request failed'' (http_get E None [(''q'', search_prefix)]) (\<lambda>r.
     expect (r_status r = 401) (''FAIL: unauthenticated request (no header) returned status '' @
       FormatInt (r_status r) @ '', expected 401'') (
     must ''invalid token request failed''
       (http_get E (Some ''Bearer invalid-token-123'') [(''q'', search_prefix)]) (\<lambda>r.
     expect (r_status r = 401) (''FAIL: invalid token request returned status '' @
       FormatInt (r_status r) @ '', expected 401'') (
     must_answer 400 (got_code ''empty q'' 400) (ask [(''q'', [])]) (\<lambda>b.
     expect (refuses_field ''q'' b) ''FAIL: empty q response missing validation error field q: '' (
     must_answer 400 (got_code ''long q'' 400) (ask [(''q'', replicate 101 (CHR ''a''))]) (\<lambda>_.
     must_answer 400 (got_code ''limit=0'' 400) (ask [(''q'', search_prefix), (''limit'', ''0'')]) (\<lambda>_.
     must_answer 400 (got_code ''type=invalid'' 400) (ask [(''q'', search_prefix), (''type'', ''invalid'')])
       (\<lambda>_. ok ()))))))))))"

definition nonempty :: "string option \<Rightarrow> bool" where
  "nonempty s \<longleftrightarrow> (case s of None \<Rightarrow> False | Some t \<Rightarrow> t \<noteq> [])"

text \<open>The checks on one video of the result, in the order of the loop's body.\<close>

definition hit_checked :: "search_cast \<Rightarrow> video_hit \<Rightarrow> unit io" where
  "hit_checked c h =
     expect (vh_ID h = v_ID (sc_A1 c) \<longrightarrow> nonempty (vh_ThumbnailURL h))
       ''FAIL: videoA1 thumbnail_url is null or empty'' (
     expect (vh_ID h = v_ID (sc_A1 c) \<longrightarrow> nonempty (vh_HLSPlaylistURL h))
       ''FAIL: videoA1 hls_playlist_url is null or empty'' (
     expect (vh_Title h \<noteq> Some (search_prefix @ ''videoA2''))
       ''FAIL: PENDING_UPLOAD videoA2 appeared in search results'' (
     expect (vh_Title h \<noteq> Some (search_prefix @ ''videoA3''))
       ''FAIL: deleted videoA3 appeared in search results'' (
     expect (vh_ID h \<noteq> v_ID (sc_C1 c))
       ''FAIL: unfollowed private videoC1 appeared in search results for userA'' (ok ())))))"

definition search_found :: "env \<Rightarrow> search_cast \<Rightarrow> unit io" where
  "search_found E c =
     must_answer 200 (got_code ''search happy path'' 200) (doAuthGet E (sc_A c) [(''q'', search_prefix)]) (\<lambda>b.
     must ''FAIL: unmarshal search response'' (liftR (decode_search b)) (\<lambda>r.
     expect (u_ID (sc_D c) \<notin> set (sr_users r)) ''FAIL: tombstoned userD appeared in search results'' (
     expect (u_ID (sc_A c) \<notin> set (sr_users r)) ''FAIL: viewer userA appeared in user search results'' (
     expect (u_ID (sc_B c) \<in> set (sr_users r))
       ''FAIL: userB (private, followed) not found in user search results'' (
     bindM (forM (sr_videos r) (hit_checked c)) (\<lambda>_.
     expect (v_ID (sc_A1 c) \<in> set (map vh_ID (sr_videos r)))
       ''FAIL: videoA1 not found in search video results'' (
     expect (v_ID (sc_B1 c) \<in> set (map vh_ID (sr_videos r)))
       ''FAIL: videoB1 (private, followed) not found in search video results'' (ok ()))))))))"

definition search_ranked :: "env \<Rightarrow> search_cast \<Rightarrow> unit io" where
  "search_ranked E c =
     must_answer 200 (\<lambda>code. ''FAIL: underscore search returned code '' @ FormatInt code)
       (doAuthGet E (sc_A c) [(''q'', search_prefix @ ''user_underscore'')]) (\<lambda>b.
     must ''FAIL: unmarshal underscore search response'' (liftR (decode_part decode_user ''users'' b)) (\<lambda>us.
     expect (us \<noteq> [] \<and> hd us = u_ID (sc_underscore c))
       ''FAIL: underscore exact match user not returned as top result'' (
     must_answer 200 (\<lambda>code. ''FAIL: owner self-search returned code '' @ FormatInt code)
       (doAuthGet E (sc_C c) [(''q'', search_prefix @ ''videoC1'')]) (\<lambda>b.
     must ''FAIL: unmarshal owner search response''
       (liftR (decode_part (\<lambda>v. decode_uuid (jfield v ''id'')) ''videos'' b)) (\<lambda>ids.
     expect (v_ID (sc_C1 c) \<in> set ids)
       ''FAIL: owner userC could not find their own private videoC1 in search'' (ok ()))))))"

definition search_typed :: "env \<Rightarrow> search_cast \<Rightarrow> unit io" where
  "search_typed E c =
     must_answer 200 (\<lambda>code. ''FAIL: type=users search returned code '' @ FormatInt code)
       (doAuthGet E (sc_A c) [(''q'', search_prefix), (''type'', ''users'')]) (\<lambda>b.
     expect (empty_array ''videos'' b) ''FAIL: type=users did not return videos:[] envelope: '' (
     must_answer 200 (\<lambda>code. ''FAIL: type=videos search returned code '' @ FormatInt code)
       (doAuthGet E (sc_A c) [(''q'', search_prefix), (''type'', ''videos'')]) (\<lambda>b.
     expect (empty_array ''users'' b) ''FAIL: type=videos did not return users:[] envelope: '' (ok ()))))"

definition search_paged :: "env \<Rightarrow> search_cast \<Rightarrow> unit io" where
  "search_paged E c =
    (let ask = (\<lambda>ps. doAuthGet E (sc_A c) ((''q'', search_prefix) # ps)) in
     must_answer 200 (\<lambda>code. ''FAIL: pagination page 1 returned code '' @ FormatInt code)
       (ask [(''type'', ''videos''), (''limit'', ''1'')]) (\<lambda>b.
     must ''FAIL: unmarshal page 1 response'' (liftR (decode_page b)) (\<lambda>p1.
     expect (length (fst p1) = 1)
       (''FAIL: page 1 expected 1 video, got '' @ nat_text (length (fst p1))) (
     expect (nonempty (snd p1)) ''FAIL: expected videos_next_cursor on page 1'' (
     must_answer 200 (\<lambda>code. ''FAIL: pagination page 2 returned code '' @ FormatInt code)
       (ask [(''type'', ''videos''), (''limit'', ''10''), (''cursor'', the (snd p1))]) (\<lambda>b.
     must ''FAIL: unmarshal page 2 response'' (liftR (decode_page b)) (\<lambda>p2.
     expect (fst p2 \<noteq> []) ''FAIL: page 2 expected remaining videos, got 0'' (
     expect (hd (fst p2) \<noteq> hd (fst p1))
       ''FAIL: page 2 returned same video as page 1'' (
     expect (snd p2 = None)
       (''FAIL: last page expected videos_next_cursor to be omitted (nil), got '' @
         (case snd p2 of None \<Rightarrow> [] | Some s \<Rightarrow> s)) (
     must_answer 200 (got_code ''limit=9999'' 200) (ask [(''limit'', ''9999'')]) (\<lambda>_. ok ())))))))))))"

section \<open>The run\<close>

definition search_checks :: "host \<Rightarrow> env \<Rightarrow> unit io" where
  "search_checks H E =
     bindM (search_seeded E) (\<lambda>c.
     must ''FAIL: seed sanity check failed'' verifySeedSanity (\<lambda>_.
     must ''NewR2Client'' (liftR (fst (NewR2Client H dummy_r2 \<lparr>pr_now = 0, pr_trace = []\<rparr>))) (\<lambda>_.
     bindM (search_refused E c) (\<lambda>_.
     bindM (search_found E c) (\<lambda>_.
     bindM (search_ranked E c) (\<lambda>_.
     bindM (search_typed E c) (\<lambda>_.
     search_paged E c)))))))"

text \<open>The clean-up at the end is deferred; its error is dropped.\<close>

definition runSmoke :: "host \<Rightarrow> env \<Rightarrow> string \<Rightarrow> unit io" where
  "runSmoke H E dsn =
     expect (dsn \<noteq> []) ''FAIL: DATABASE_URL environment variable is required'' (
     must ''ping postgres'' fault (\<lambda>_.
     must ''cleanupSeedData'' cleanupSeedData (\<lambda>_ w.
       let r = search_checks H E w in (fst r, snd (cleanupSeedData (snd r))))))"

definition search_main :: "host \<Rightarrow> env \<Rightarrow> string \<Rightarrow> unit io" where
  "search_main H E dsn =
     tryM (runSmoke H E dsn) (\<lambda>err. throw (Opaque (''FAIL (run 1): '' @ Error err))) (\<lambda>_.
     tryM (runSmoke H E dsn) (\<lambda>err. throw (Opaque (''FAIL (run 2): '' @ Error err))) ok)"

end
