(* ===== verification/SmokeFeeds.thy ===== *)
theory SmokeFeeds
  imports Smoke
begin

text \<open>
  The tests of the feed (\<^verbatim>\<open>phase6_feed\<close>), of the follow statements
  (\<^verbatim>\<open>phase6_follow\<close>) and of the rows the player needs (\<^verbatim>\<open>phase6_video\<close>, its
  database part).  These three remove their rows at the end.
\<close>

section \<open>phase6 feed\<close>

definition feed_prefix :: string where "feed_prefix = ''smoke-test-phase6-''"

definition feed_flags :: "string \<Rightarrow> bool \<Rightarrow> bool \<Rightarrow> User \<Rightarrow> User io" where
  "feed_flags p isPrivate isActive u =
     must p (SetUserFlags (u_ID u) isPrivate isActive)
       (\<lambda>_. ok (u\<lparr>u_IsPrivate := isPrivate, u_IsActive := isActive\<rparr>))"

definition feed_ensureUser :: "string \<Rightarrow> bool \<Rightarrow> bool \<Rightarrow> User io" where
  "feed_ensureUser username isPrivate isActive =
     tryM (SelectUserByUsername username)
       (\<lambda>_. must ''CreateUser'' (CreateUser (''smoke-phase6-'' @ username) username (Some username))
          (\<lambda>created. if isPrivate \<or> \<not> isActive
                     then feed_flags ''apply flags'' isPrivate isActive created else ok created))
       (\<lambda>u. if u_IsPrivate u \<noteq> isPrivate \<or> u_IsActive u \<noteq> isActive
            then feed_flags ''update user flags'' isPrivate isActive u else ok u)"

definition feed_insertReady :: "env \<Rightarrow> uuid \<Rightarrow> string \<Rightarrow> Video io" where
  "feed_insertReady E = insert_ready E ''phase6-smoke-'' 10 Errorf_tail"

text \<open>The like is a row without the counter.\<close>

definition feed_insertLike :: "uuid \<Rightarrow> uuid \<Rightarrow> unit io" where
  "feed_insertLike userID videoID = exec (\<lambda>now d.
     if list_ex (\<lambda>l. l_UserID l = userID \<and> l_VideoID l = videoID) (likes d) then Inr ((), d)
     else Inr ((), d\<lparr>likes := likes d @ [\<lparr>l_UserID = userID, l_VideoID = videoID, l_CreatedAt = now\<rparr>]\<rparr>))"

definition feed_cleanupVideos :: "unit io" where
  "feed_cleanupVideos = DeleteVideosLike ''phase6-smoke-%''"

definition users_like :: "string \<Rightarrow> db \<Rightarrow> uuid set" where
  "users_like pat d = u_ID ` set (filter (\<lambda>u. like_match pat (u_Username u)) (users d))"

definition feed_cleanupAll :: "unit io" where
  "feed_cleanupAll =
     bindM feed_cleanupVideos (\<lambda>_.
     bindM (exec (\<lambda>_ d. Inr ((), d\<lparr>likes :=
         filter (\<lambda>l. l_UserID l \<notin> users_like (feed_prefix @ ''%'') d) (likes d)\<rparr>))) (\<lambda>_.
     DeleteUsersLike (feed_prefix @ ''%'')))"

record feed_cast =
  fc_viewer :: User
  fc_ownerPub :: User
  fc_ownerPriv :: User
  fc_ownerInactive :: User
  fc_v1 :: Video
  fc_deleted :: Video

definition feed_seeded :: "env \<Rightarrow> feed_cast io" where
  "feed_seeded E =
     must ''seed viewer'' (feed_ensureUser (feed_prefix @ ''viewer'') False True) (\<lambda>viewer.
     must ''seed ownerPub'' (feed_ensureUser (feed_prefix @ ''owner-pub'') False True) (\<lambda>ownerPub.
     must ''seed ownerPriv'' (feed_ensureUser (feed_prefix @ ''owner-priv'') True True) (\<lambda>ownerPriv.
     must ''seed ownerInactive'' (feed_ensureUser (feed_prefix @ ''owner-inactive'') False False) (\<lambda>ownerInactive.
     must ''ensure follow viewer->owner-pub'' (FollowUser (u_ID viewer) (u_ID ownerPub)) (\<lambda>_.
     must ''ensure follow viewer->owner-priv'' (FollowUser (u_ID viewer) (u_ID ownerPriv)) (\<lambda>_.
     must ''cleanup'' feed_cleanupVideos (\<lambda>_.
     must ''insert pub video'' (feed_insertReady E (u_ID ownerPub) ''pub-1'') (\<lambda>v1.
     must ''insert priv video'' (feed_insertReady E (u_ID ownerPriv) ''priv-1'') (\<lambda>_.
     must ''insert inactive video'' (feed_insertReady E (u_ID ownerInactive) ''inactive-1'') (\<lambda>_.
     must ''insert self video'' (feed_insertReady E (u_ID viewer) ''self-1'') (\<lambda>_.
     must ''insert deleted'' (feed_insertReady E (u_ID ownerPub) ''deleted-1'') (\<lambda>deleted.
     must ''mark deleted'' (MarkVideoDeleted (v_ID deleted) (u_ID ownerPub)) (\<lambda>_.
     must ''like'' (feed_insertLike (u_ID viewer) (v_ID v1)) (\<lambda>_.
     ok \<lparr>fc_viewer = viewer, fc_ownerPub = ownerPub, fc_ownerPriv = ownerPriv,
         fc_ownerInactive = ownerInactive, fc_v1 = v1, fc_deleted = deleted\<rparr>))))))))))))))"

definition owned_by :: "User \<Rightarrow> VideoDetailRow \<Rightarrow> bool" where
  "owned_by u r \<longleftrightarrow> v_UserID (vd_video r) = u_ID u"

text \<open>A video listed twice would count by its last row.\<close>

definition got_liked :: "VideoDetailRow list \<Rightarrow> uuid \<Rightarrow> bool" where
  "got_liked rows i =
    (case find_row (\<lambda>r. v_ID (vd_video r) = i) (rev rows) of None \<Rightarrow> False | Some r \<Rightarrow> vd_LikedByMe r)"

definition feed_checked :: "feed_cast \<Rightarrow> VideoDetailRow list \<Rightarrow> unit io" where
  "feed_checked c rows =
     expect (length rows \<ge> 2) (''expected at least 2 rows in feed, got '' @ nat_text (length rows)) (
     expect (list_ex (\<lambda>r. v_ID (vd_video r) = v_ID (fc_v1 c)) rows)
       ''expected v1 (pub-1) in feed, missing'' (
     expect (list_ex (\<lambda>r. owned_by (fc_ownerPriv c) r \<and> u_IsPrivate (vd_owner r) \<and>
                          v_Status (vd_video r) = READY) rows)
       ''expected priv-1 (followed private owner) in feed, missing'' (
     expect (list_all (\<lambda>r. \<not> owned_by (fc_ownerInactive c) r) rows)
       ''inactive-1 should NOT be in feed (u.is_active=false)'' (
     expect (list_all (\<lambda>r. v_ID (vd_video r) \<noteq> v_ID (fc_deleted c)) rows)
       ''deleted-1 should NOT be in feed (status=DELETED)'' (
     expect (list_all (\<lambda>r. \<not> owned_by (fc_viewer c) r) rows)
       ''self-1 should NOT be in feed (excluded by v.user_id <> viewer)'' (
     expect (got_liked rows (v_ID (fc_v1 c))) ''v1 should be liked_by_me=true'' (
     expect (list_all (\<lambda>r. owned_by (fc_ownerPriv c) r \<longrightarrow> \<not> vd_LikedByMe r) rows)
       ''priv-1 should be liked_by_me=false (viewer never liked it)'' (ok ()))))))))"

definition feed_run :: "env \<Rightarrow> unit io" where
  "feed_run E =
     must ''ping'' fault (\<lambda>_.
     bindM (feed_seeded E) (\<lambda>c.
     must ''ListFeedVideos'' (ListFeedVideos (u_ID (fc_viewer c)) (Some (u_ID (fc_viewer c))) None 50) (\<lambda>rows.
     bindM (feed_checked c rows) (\<lambda>_.
     must ''cleanup'' feed_cleanupAll ok))))"

section \<open>phase6 follow\<close>

definition follow_prefix :: string where "follow_prefix = ''smoke-test-phase6c-''"

definition flags_checked :: "bool \<Rightarrow> bool \<Rightarrow> User \<Rightarrow> User io" where
  "flags_checked isPrivate isActive u =
    (if u_IsPrivate u \<noteq> isPrivate \<or> u_IsActive u \<noteq> isActive
     then bindM (SetUserFlags (u_ID u) isPrivate isActive) (\<lambda>_. ok u) else ok u)"

definition follow_ensureUser :: "string \<Rightarrow> bool \<Rightarrow> bool \<Rightarrow> User io" where
  "follow_ensureUser username isPrivate isActive =
     find_or_create ''smoke-phase6c-'' username (flags_checked isPrivate isActive)
       (flags_unchecked isPrivate isActive)"

text \<open>The insert without \<^verbatim>\<open>ON CONFLICT\<close>, which the constraints must refuse.\<close>

definition InsertFollowRow :: "uuid \<Rightarrow> uuid \<Rightarrow> unit io" where
  "InsertFollowRow follower followee = exec (\<lambda>now d. Inr ((), d\<lparr>follows := follows d @
     [\<lparr>f_FollowerID = follower, f_FolloweeID = followee, f_CreatedAt = now\<rparr>]\<rparr>))"

definition must_fail :: "'a io \<Rightarrow> string \<Rightarrow> 'b io \<Rightarrow> 'b io" where
  "must_fail m msg k = tryM m (\<lambda>_. k) (\<lambda>_. throw (Opaque msg))"

definition follow_edges :: "User \<Rightarrow> User \<Rightarrow> unit io" where
  "follow_edges follower followee =
     must ''FollowUser'' (FollowUser (u_ID follower) (u_ID followee)) (\<lambda>_.
     must ''FollowUser idempotent'' (FollowUser (u_ID follower) (u_ID followee)) (\<lambda>_.
     must_fail (InsertFollowRow (u_ID follower) (u_ID follower))
       ''self-follow should violate CHECK constraint'' (ok ())))"

definition follow_notified :: "env \<Rightarrow> User \<Rightarrow> User \<Rightarrow> unit io" where
  "follow_notified E follower followee =
     must ''InsertNotification'' (InsertNotification (u_ID followee) (u_ID follower) ''follow''
       (json_map [(''username'', u_Username follower)])) (\<lambda>notif.
     expect (n_Type notif = ''follow'') (''notification type expected follow, got '' @ Quote (n_Type notif)) (
     expect (n_UserID notif = u_ID followee) (''notification user_id expected '' @
       env_uuid_String E (u_ID followee) @ '', got '' @ env_uuid_String E (n_UserID notif)) (
     expect (n_ActorID notif = u_ID follower) (''notification actor_id expected '' @
       env_uuid_String E (u_ID follower) @ '', got '' @ env_uuid_String E (n_ActorID notif)) (ok ()))))"

definition usernames :: "FollowRow list \<Rightarrow> string list" where
  "usernames rows = map (\<lambda>r. u_Username (fr_user r)) rows"

definition follow_listed :: "env \<Rightarrow> User \<Rightarrow> User \<Rightarrow> unit io" where
  "follow_listed E follower followee =
     must ''ListFollowers'' (ListFollowers (u_ID follower) (u_ID followee) None 50) (\<lambda>followers.
     expect (length followers = 2) (''expected 2 followers for followee, got '' @
       nat_text (length followers) @ '': ['' @ join_text '' '' (usernames followers) @ '']'') (
     expect (follow_prefix @ ''follower'' \<in> set (usernames followers) \<and>
             follow_prefix @ ''third'' \<in> set (usernames followers))
       (''followers list missing expected users: '' @
          map_text (map (\<lambda>n. (n, ''true'')) (sort (remdups (usernames followers))))) (
     must ''ListFollowing'' (ListFollowing (u_ID follower) None 50) (\<lambda>following.
     expect (length following = 1)
       (''expected 1 following for follower, got '' @ nat_text (length following)) (
     expect (u_ID (fr_user (following ! 0)) = u_ID followee) (''following[0].ID expected '' @
       env_uuid_String E (u_ID followee) @ '', got '' @ env_uuid_String E (u_ID (fr_user (following ! 0)))) (
     must ''GetFollow'' (GetFollow (u_ID follower) (u_ID followee)) (\<lambda>follow.
     expect (f_CreatedAt follow \<noteq> zero_time) ''GetFollow created_at is zero'' (
     must ''IsFollowing'' (IsFollowing (u_ID follower) (u_ID followee)) (\<lambda>isFollowing.
     expect isFollowing ''IsFollowing expected true'' (
     must ''CountFollowers'' (CountFollowers (u_ID followee)) (\<lambda>nf.
     expect (nf = 2) (''CountFollowers expected 2, got '' @ FormatInt nf) (ok ()))))))))))))"

definition follow_removed :: "User \<Rightarrow> User \<Rightarrow> unit io" where
  "follow_removed follower followee =
     must ''DeleteFollow'' (DeleteFollow (u_ID follower) (u_ID followee)) (\<lambda>_.
     must ''DeleteFollow idempotent'' (DeleteFollow (u_ID follower) (u_ID followee)) (\<lambda>_.
     must_fail (GetFollow (u_ID follower) (u_ID followee)) ''GetFollow should ErrNoRows after delete'' (
     must ''ListFollowers after delete'' (ListFollowers (u_ID follower) (u_ID followee) None 50) (\<lambda>followers2.
     expect (length followers2 = 1)
       (''expected 1 follower after delete, got '' @ nat_text (length followers2)) (ok ())))))"

definition follow_private :: "User \<Rightarrow> unit io" where
  "follow_private followee =
     must ''set private'' (exec (\<lambda>_ d. Inr ((), d\<lparr>users := update_rows (\<lambda>u. u_ID u = u_ID followee)
       (\<lambda>u. u\<lparr>u_IsPrivate := True\<rparr>) (users d)\<rparr>))) (\<lambda>_.
     must ''seed viewer-x'' (follow_ensureUser (follow_prefix @ ''viewer-x'') False True) (\<lambda>viewer.
     must ''IsFollowing viewer-x'' (IsFollowing (u_ID viewer) (u_ID followee)) (\<lambda>followingViewer.
     expect (\<not> followingViewer) ''viewer-x should NOT be following followee'' (ok ()))))"

definition follow_cleaned :: "User \<Rightarrow> unit io" where
  "follow_cleaned followee =
     must ''cleanup notif'' (exec (\<lambda>_ d. Inr ((), d\<lparr>notifications := filter (\<lambda>n.
       \<not> (n_UserID n = u_ID followee \<or> n_ActorID n = u_ID followee)) (notifications d)\<rparr>))) (\<lambda>_.
     must ''cleanup follows'' (exec (\<lambda>_ d. Inr ((), d\<lparr>follows := filter (\<lambda>f.
       \<not> (f_FollowerID f \<in> users_like (follow_prefix @ ''%'') d \<or>
          f_FolloweeID f \<in> users_like (follow_prefix @ ''%'') d)) (follows d)\<rparr>))) (\<lambda>_.
     must ''cleanup users'' (DeleteUsersLike (follow_prefix @ ''%'')) ok))"

definition follow_run :: "env \<Rightarrow> unit io" where
  "follow_run E =
     must ''ping'' fault (\<lambda>_.
     must ''pre-clean users'' (DeleteUsersLike (follow_prefix @ ''%'')) (\<lambda>_.
     must ''seed follower'' (follow_ensureUser (follow_prefix @ ''follower'') False True) (\<lambda>follower.
     must ''seed followee'' (follow_ensureUser (follow_prefix @ ''followee'') False True) (\<lambda>followee.
     must ''seed third'' (follow_ensureUser (follow_prefix @ ''third'') False True) (\<lambda>third.
     bindM (follow_edges follower followee) (\<lambda>_.
     bindM (follow_notified E follower followee) (\<lambda>_.
     must ''FollowUser third->followee'' (FollowUser (u_ID third) (u_ID followee)) (\<lambda>_.
     bindM (follow_listed E follower followee) (\<lambda>_.
     bindM (follow_removed follower followee) (\<lambda>_.
     bindM (follow_private followee) (\<lambda>_.
     follow_cleaned followee)))))))))))"

section \<open>phase6 video, the part on the database\<close>

definition video_prefix :: string where "video_prefix = ''smoke-test-phase6b-''"

definition video_ensureUser :: "string \<Rightarrow> bool \<Rightarrow> bool \<Rightarrow> User io" where
  "video_ensureUser username isPrivate isActive =
     find_or_create ''smoke-phase6b-'' username (flags_checked isPrivate isActive)
       (flags_unchecked isPrivate isActive)"

definition video_insertReady :: "env \<Rightarrow> uuid \<Rightarrow> string \<Rightarrow> Video io" where
  "video_insertReady E = insert_ready E ''phase6b-smoke-'' 12 unwrapped"

definition runDBIntegration :: "env \<Rightarrow> unit io" where
  "runDBIntegration E =
     must ''ping'' fault (\<lambda>_.
     must ''seed owner'' (video_ensureUser (video_prefix @ ''owner'') False True) (\<lambda>owner.
     must ''cleanup videos'' (DeleteVideosLike ''phase6b-smoke-%'') (\<lambda>_.
     must ''insert'' (video_insertReady E (u_ID owner) ''smoke-1'') (\<lambda>v.
     must ''GetVideoByID'' (GetVideoByID (v_ID v)) (\<lambda>got.
     expect (v_Status got = READY) (''expected status=READY, got '' @ Quote (status_text (v_Status got))) (
     expect (v_HlsPrefix got \<noteq> None) ''expected hls_prefix to be set'' (
     expect (v_ThumbnailKey got \<noteq> None) ''expected thumbnail_key to be set'' (
     must ''cleanup videos'' (DeleteVideosLike ''phase6b-smoke-%'') (\<lambda>_.
     must ''cleanup users'' (DeleteUsersLike (video_prefix @ ''%'')) ok)))))))))"

end
