(* ===== verification/SmokePlaylists.thy ===== *)
theory SmokePlaylists
  imports SmokeFeeds SmokeAccounts Playlists
begin

text \<open>
  The part of \<^verbatim>\<open>phase6_video\<close> that calls the playlist rewriters and the media
  tokens.  A failed check adds a message and goes on; the places that return early leave the
  tests after them out.  The clock does not move during the tests.  The last check of the
  source compares an error with itself and is left out.
\<close>

definition smoke_videoID :: string where
  "smoke_videoID = ''11111111-1111-1111-1111-111111111111''"

definition smoke_secret :: string where "smoke_secret = ''test-secret-32-chars-1234567890ab''"
definition smoke_apiBase :: string where "smoke_apiBase = ''https://api.example.com''"
definition smoke_ttl :: int where "smoke_ttl = 15 * minute"

definition masterIn :: string where
  "masterIn = unlines [''#EXTM3U'', ''#EXT-X-VERSION:3'',
     ''#EXT-X-STREAM-INF:BANDWIDTH=800000,RESOLUTION=854x480'', ''480p/index.m3u8'',
     ''#EXT-X-STREAM-INF:BANDWIDTH=2500000,RESOLUTION=1280x720'', ''720p/index.m3u8'',
     ''#EXT-X-ENDLIST'']"

definition captions :: string where "captions = ''https://cdn.example.com/captions.m3u8''"

definition masterIn2 :: string where
  "masterIn2 = unlines [''#EXTM3U'',
     ''#EXT-X-MEDIA:TYPE=SUBTITLES,URI='' @ [CHR 0x22] @ captions @ [CHR 0x22], ''720p/index.m3u8'']"

definition masterIn3 :: string where "masterIn3 = unlines [''720p/index.m3u8'']"

text \<open>\<^verbatim>\<open>if !c { t.Errorf(msg) }\<close>; the tests in order until one returns.\<close>

definition check :: "bool \<Rightarrow> string \<Rightarrow> string list" where
  "check c msg = (if c then [] else [msg])"

fun run_tests :: "(string list \<times> bool) list \<Rightarrow> string list" where
  "run_tests [] = []"
| "run_tests ((msgs, returns) # ts) = msgs @ (if returns then [] else run_tests ts)"

definition master_rewritten :: "env \<Rightarrow> uuid \<Rightarrow> time \<Rightarrow> string \<Rightarrow> goerr + string" where
  "master_rewritten E i now body = RewriteMasterPlaylist E body smoke_apiBase i smoke_secret smoke_ttl now"

definition variant_start :: "string \<Rightarrow> string" where
  "variant_start v = smoke_apiBase @ ''/api/videos/'' @ smoke_videoID @ ''/playlist.m3u8?variant='' @ v @ ''&token=''"

definition rewrite_test1 :: "env \<Rightarrow> uuid \<Rightarrow> time \<Rightarrow> string list \<times> bool" where
  "rewrite_test1 E i now = (case master_rewritten E i now masterIn of
     Inl err \<Rightarrow> ([''rewriteMasterPlaylist: '' @ Error err], True)
   | Inr got \<Rightarrow>
       (check (contains (variant_start ''480p'') got) (''master rewrite missing 480p variant URL:'' @ [newline] @ got) @
        check (contains (variant_start ''720p'') got) (''master rewrite missing 720p variant URL:'' @ [newline] @ got) @
        check (contains ''#EXTM3U'' got) (''master rewrite dropped #EXTM3U tag:'' @ [newline] @ got), False))"

definition rewrite_test2 :: "env \<Rightarrow> uuid \<Rightarrow> time \<Rightarrow> string list \<times> bool" where
  "rewrite_test2 E i now = (case master_rewritten E i now masterIn2 of
     Inl err \<Rightarrow> ([''rewriteMasterPlaylist absolute: '' @ Error err], True)
   | Inr got \<Rightarrow> (check (contains captions got) (''master rewrite replaced absolute URI:'' @ [newline] @ got), False))"

definition is_error :: "goerr + 'a \<Rightarrow> bool" where
  "is_error r = (case r of Inl _ \<Rightarrow> True | Inr _ \<Rightarrow> False)"

definition rewrite_test3 :: "env \<Rightarrow> time \<Rightarrow> string list \<times> bool" where
  "rewrite_test3 E now =
    (check (is_error (RewriteMasterPlaylist E masterIn [] 0 smoke_secret smoke_ttl now))
       ''RewriteMasterPlaylist with empty apiBase should fail'', False)"

text \<open>The client of the fourth test is nil, so nothing is asked of a store.\<close>

definition rewrite_test4 :: "env \<Rightarrow> world \<Rightarrow> string list \<times> bool" where
  "rewrite_test4 E w =
    (let rewritten = (\<lambda>h. fst (RewriteVariantPlaylist (E\<lparr>env_wired := (\<lambda>d. d \<noteq> DepR2)\<rparr>)
           (unlines [''segment0.ts'']) h ''480p'' smoke_ttl w)) in
     (check (is_error (rewritten ''hls/x/y/'')) ''RewriteVariantPlaylist with nil R2 should fail'' @
      check (is_error (rewritten ''hls/x/y'')) ''RewriteVariantPlaylist without trailing slash should fail'',
      False))"

definition rewrite_test5 :: "env \<Rightarrow> time \<Rightarrow> string list \<times> bool" where
  "rewrite_test5 E now = (case NewMediaToken E smoke_videoID smoke_secret smoke_ttl now of
     Inl err \<Rightarrow> ([''NewMediaToken: '' @ Error err], True)
   | Inr (tok, expiry) \<Rightarrow>
       (check (\<not> expiry < now) (''NewMediaToken expiry in past: '' @ Format_RFC3339Nano expiry) @
        (case VerifyMediaToken E tok smoke_videoID smoke_secret now of
           Inl err \<Rightarrow> [''VerifyMediaToken round-trip: '' @ Error err] | Inr _ \<Rightarrow> []) @
        check (is_error (VerifyMediaToken E tok ''22222222-2222-2222-2222-222222222222'' smoke_secret now))
          ''VerifyMediaToken with wrong videoID should fail'' @
        check (is_error (VerifyMediaToken E tok smoke_videoID ''wrong-secret'' now))
          ''VerifyMediaToken with wrong secret should fail'', False))"

text \<open>
  \<^verbatim>\<open>url.Parse\<close> on a URL that begins with the scheme and the host of
  \<^verbatim>\<open>apiBase\<close> and a slash, as the rewritten line does: what can be wrong is a control
  character before the fragment, or an escape in the path or the fragment.
\<close>

definition Parse_on_apiBase :: "string \<Rightarrow> string option" where
  "Parse_on_apiBase uri = (case cut (CHR ''#'') uri of (u, frag) \<Rightarrow>
     if list_ex (\<lambda>c. byte c < 32 \<or> byte c = 127) u then Some ''net/url: invalid control character in URL''
     else if url_unescape False (fst (cut (CHR ''?'') (drop (length smoke_apiBase) u))) = None \<or>
             url_unescape False frag = None
       then Some ''invalid URL escape'' else None)"

definition rewrite_test6 :: "env \<Rightarrow> uuid \<Rightarrow> time \<Rightarrow> string list \<times> bool" where
  "rewrite_test6 E i now = (case master_rewritten E i now masterIn3 of
     Inl err \<Rightarrow> ([''rewriteMasterPlaylist URL-safe: '' @ Error err], True)
   | Inr rewritten3 \<Rightarrow>
      (let uri = TrimSpace rewritten3 in case Parse_on_apiBase uri of
         Some perr \<Rightarrow> ([''rewritten URI not a valid URL: parse '' @ Quote uri @ '': '' @ perr @ '': '' @ Quote uri], True)
       | None \<Rightarrow>
          (let tokParam = Query_Get uri ''token'' in
           if tokParam = [] then ([''rewritten URI has no token query param: '' @ Quote uri], True)
           else (case VerifyMediaToken E tokParam smoke_videoID smoke_secret now of
                   Inl verr \<Rightarrow> [''rewritten URI token fails verification: '' @ Error verr] | Inr _ \<Rightarrow> [], False))))"

text \<open>\<^verbatim>\<open>uuid.MustParse\<close> panics on text it cannot parse.\<close>

definition runRewriteTests :: "env \<Rightarrow> string list io" where
  "runRewriteTests E w = (case env_uuid_Parse E smoke_videoID of
     None \<Rightarrow> (Inl (Opaque ''panic: uuid: Parse''), w)
   | Some i \<Rightarrow>
      (let now = w_clock w in
       (Inr (run_tests [rewrite_test1 E i now, rewrite_test2 E i now, rewrite_test3 E now,
          rewrite_test4 E w, rewrite_test5 E now, rewrite_test6 E i now]), w)))"

definition video_run :: "env \<Rightarrow> unit io" where
  "video_run E =
     must ''rewrite tests'' (runRewriteTests E) (\<lambda>messages.
     expect (messages = []) (''rewrite tests failed: '' @ join_text ''; '' messages) (
     must ''db integration'' (runDBIntegration E) ok))"

section \<open>The tests pass\<close>

lemma contains_iff: "contains sub s \<longleftrightarrow> (\<exists>a b. s = a @ sub @ b)"
proof (induction s)
  case (Cons c cs)
  have "prefix_of sub (c # cs) \<longleftrightarrow> (\<exists>b. c # cs = sub @ b)"
    by (auto simp: prefix_of_def dest: sym) (metis append_take_drop_id)
  then show ?case using Cons by (auto simp: Cons_eq_append_conv)
qed simp

lemma contains_unlines:
  assumes "l \<in> set ls" "contains sub l"
  shows "contains sub (unlines ls)"
proof -
  obtain xs ys where "ls = xs @ l # ys" using assms(1) by (meson split_list)
  then have "unlines ls = unlines xs @ l @ newline # unlines ys" by (simp add: unlines_def)
  then show ?thesis using assms(2) by (metis append.assoc append_Cons contains_iff)
qed

lemma short_path_line:
  assumes "v \<in> {''480p'', ''720p''}"
  shows "master_line E base i token (v @ ''/index.m3u8'') = variant_url E base i v token"
proof -
  have "solid (v @ ''/index.m3u8'')" using assms by (auto simp: solid_def visible_def byte_def)
  then have "TrimSpace (v @ ''/index.m3u8'') = v @ ''/index.m3u8''" by (rule TrimSpace_solid)
  then show ?thesis using assms
    by (auto simp: master_line_def plain_line_def line_variant_def TrimSuffix_def suffix_of_def prefix_of_def)
qed

text \<open>A short playlist of solid lines is rewritten line by line.\<close>

lemma rewrite_lines:
  assumes "NewMediaToken E (env_uuid_String E i) smoke_secret smoke_ttl now = Inr (token, expiry)"
    "list_all (\<lambda>l. solid l \<and> length l < scan_limit) ls"
  shows "master_rewritten E i now (unlines ls) = Inr (unlines (map (master_line E smoke_apiBase i token) ls))"
proof -
  have "raw_lines (unlines ls) = ls"
    by (rule raw_lines_unlines) (use assms(2) solid_chars(1) in \<open>auto simp: list_all_iff\<close>)
  moreover have cr: "map (\<lambda>l. master_line E smoke_apiBase i token (drop_CR l)) ls =
      map (master_line E smoke_apiBase i token) ls"
    using assms(2) solid_chars(2) by (intro map_cong refl) (simp add: list_all_iff)
  moreover have "\<not> list_ex (\<lambda>l. length l \<ge> scan_limit) ls" using assms(2) by (fastforce simp: list_ex_iff list_all_iff)
  moreover have "smoke_apiBase \<noteq> []" "smoke_secret \<noteq> []" by (simp_all add: smoke_apiBase_def smoke_secret_def)
  ultimately show ?thesis using assms(1)
    by (simp add: master_rewritten_def RewriteMasterPlaylist_def cr del: map_eq_conv)
qed

text \<open>What the tests need: the identifier is read back, and the MAC tells the three inputs apart.\<close>

definition smoke_mac :: "env \<Rightarrow> string \<Rightarrow> string \<Rightarrow> time \<Rightarrow> string" where
  "smoke_mac E secret videoID now =
     env_hmac_sha256 E secret (token_payload videoID (FormatInt (unix_of (now + smoke_ttl))))"

definition macs_differ :: "env \<Rightarrow> time \<Rightarrow> bool" where
  "macs_differ E now \<longleftrightarrow>
     smoke_mac E smoke_secret ''22222222-2222-2222-2222-222222222222'' now \<noteq> smoke_mac E smoke_secret smoke_videoID now \<and>
     smoke_mac E ''wrong-secret'' smoke_videoID now \<noteq> smoke_mac E smoke_secret smoke_videoID now"

definition smoke_token :: "env \<Rightarrow> time \<Rightarrow> string" where
  "smoke_token E now = SignMediaToken E smoke_videoID smoke_secret (now + smoke_ttl)"

lemma smoke_ttl_pos: "0 < smoke_ttl"
  by (simp add: smoke_ttl_def minute_def)

lemma new_smoke_token: "NewMediaToken E smoke_videoID smoke_secret smoke_ttl now = Inr (smoke_token E now, now + smoke_ttl)"
proof -
  have "smoke_videoID \<noteq> []" "smoke_secret \<noteq> []" by (simp_all add: smoke_videoID_def smoke_secret_def)
  then show ?thesis using smoke_ttl_pos by (simp add: NewMediaToken_def smoke_token_def Let_def)
qed

lemma smoke_token_verified:
  assumes "int64_ok (unix_of (now + smoke_ttl))"
  shows "VerifyMediaToken E (smoke_token E now) v s now =
    (if smoke_mac E s v now = smoke_mac E smoke_secret smoke_videoID now then Inr ()
     else Inl (Errorf_head ErrMediaTokenInvalid ''signature mismatch''))"
proof -
  have "unix_of now \<le> unix_of (now + smoke_ttl)"
    by (simp add: unix_of_def zdiv_mono1 less_imp_le [OF smoke_ttl_pos])
  then show ?thesis by (simp add: smoke_token_def verify_signed [OF assms] smoke_mac_def)
qed

lemma tests_5_pass:
  assumes "int64_ok (unix_of (now + smoke_ttl))" "macs_differ E now"
  shows "rewrite_test5 E now = ([], False)"
  using assms(2) smoke_ttl_pos
  by (simp add: rewrite_test5_def new_smoke_token smoke_token_verified [OF assms(1)] macs_differ_def check_def
      is_error_def)

lemma tests_34_pass: "rewrite_test3 E now = ([], False)" "rewrite_test4 E w = ([], False)"
  by (simp_all add: rewrite_test3_def rewrite_test4_def RewriteMasterPlaylist_def RewriteVariantPlaylist_def
      check_def is_error_def throw_run)

lemma smoke_url:
  "env_uuid_String E i = smoke_videoID \<Longrightarrow> variant_url E smoke_apiBase i v token = variant_start v @ token"
  by (simp add: variant_url_def variant_start_def)

lemma tests_12_pass:
  assumes "env_uuid_String E i = smoke_videoID"
  shows "rewrite_test1 E i now = ([], False)" "rewrite_test2 E i now = ([], False)"
proof -
  note t = new_smoke_token [of E now, folded assms]
  let ?m = "master_line E smoke_apiBase i (smoke_token E now)"
  have tag: "solid l \<Longrightarrow> ?m (CHR ''#'' # l) = CHR ''#'' # l" for l by (rule tag_line)
  have seg: "?m ''480p/index.m3u8'' = variant_start ''480p'' @ smoke_token E now"
    "?m ''720p/index.m3u8'' = variant_start ''720p'' @ smoke_token E now"
    using short_path_line [of "''480p''" E smoke_apiBase i "smoke_token E now"]
      short_path_line [of "''720p''" E smoke_apiBase i "smoke_token E now"] smoke_url [OF assms] by simp_all
  have self: "contains a (a @ b)" for a b by (metis append_Nil contains_iff)
  have "contains captions (''#EXT-X-MEDIA:TYPE=SUBTITLES,URI='' @ [CHR 0x22] @ captions @ [CHR 0x22])"
    unfolding contains_iff by (metis append.assoc)
  note inside = contains_unlines [OF _ self] contains_unlines [OF _ this]
  show "rewrite_test1 E i now = ([], False)"
  proof -
    let ?ls = "[''#EXTM3U'', ''#EXT-X-VERSION:3'', ''#EXT-X-STREAM-INF:BANDWIDTH=800000,RESOLUTION=854x480'',
      ''480p/index.m3u8'', ''#EXT-X-STREAM-INF:BANDWIDTH=2500000,RESOLUTION=1280x720'', ''720p/index.m3u8'',
      ''#EXT-X-ENDLIST'']"
    have ls: "master_rewritten E i now masterIn = Inr (unlines (map ?m ?ls))"
      unfolding masterIn_def by (rule rewrite_lines [OF t]) (simp add: solid_def visible_def byte_def scan_limit_def)
    have "variant_start ''480p'' @ smoke_token E now \<in> set (map ?m ?ls)"
      "variant_start ''720p'' @ smoke_token E now \<in> set (map ?m ?ls)" "''#EXTM3U'' @ [] \<in> set (map ?m ?ls)"
      using tag [of "''EXTM3U''"] by (simp_all add: seg solid_def visible_def byte_def)
    note ls = ls this
    show ?thesis using inside(1) [OF ls(2)] inside(1) [OF ls(3)] inside(1) [OF ls(4)]
      by (simp add: rewrite_test1_def ls(1) check_def)
  qed
  show "rewrite_test2 E i now = ([], False)"
  proof -
    let ?c = "''#EXT-X-MEDIA:TYPE=SUBTITLES,URI='' @ [CHR 0x22] @ captions @ [CHR 0x22]"
    let ?ls = "[''#EXTM3U'', ?c, ''720p/index.m3u8'']"
    have "solid ?c \<and> length ?c < scan_limit" by (simp add: captions_def solid_def visible_def byte_def scan_limit_def)
    then have ls: "master_rewritten E i now masterIn2 = Inr (unlines (map ?m ?ls))"
      unfolding masterIn2_def by (intro rewrite_lines [OF t]) (simp add: solid_def visible_def byte_def scan_limit_def)
    have "solid (tl ?c)" by (simp add: captions_def solid_def visible_def byte_def)
    then have "?c \<in> set (map ?m ?ls)" using tag [of "tl ?c"] by simp
    note ls = ls this
    show ?thesis using inside(2) [OF ls(2)] by (simp add: rewrite_test2_def ls(1) check_def)
  qed
qed

text \<open>The rewritten line is a URL whose token is the one that was signed.\<close>

lemma TrimSpace_line:
  assumes "solid l" "l \<noteq> []"
  shows "TrimSpace (l @ [newline]) = l"
proof -
  obtain c s where l: "l = c # s" using assms(2) by (cases l) auto
  have "trim_left space_seqs (l @ [newline]) = l @ [newline]"
    using assms(1) trim_visible [OF _ spaces_invisible(1)] by (simp add: l solid_def)
  moreover have "trim_left (map rev space_seqs) (newline # rev l) = trim_left (map rev space_seqs) (rev l)"
    by (subst trim_left.simps) (simp add: space_seqs_def prefix_of_def newline_def)
  ultimately have "TrimSpace (l @ [newline]) = rev (trim_left (map rev space_seqs) (rev l))"
    by (simp add: TrimSpace_def)
  also have "rev (trim_left (map rev space_seqs) (rev l)) = TrimSpace l"
    using assms(1) trim_visible [OF _ spaces_invisible(1)] by (simp add: l solid_def TrimSpace_def)
  finally show ?thesis by (simp add: TrimSpace_solid [OF assms(1)])
qed

lemma b64_solid: "solid (b64_encode s)"
proof -
  have "visible (b64_char n)" if "n < 64" for n
    using that by (auto simp: b64_char_def visible_def byte_punct)
  then show ?thesis using sextets_less by (auto simp: solid_def list_all_iff b64_encode_sextets)
qed

lemma test_6_passes:
  assumes "env_uuid_String E i = smoke_videoID" "int64_ok (unix_of (now + smoke_ttl))"
  shows "rewrite_test6 E i now = ([], False)"
proof -
  note t = new_smoke_token [of E now, folded assms(1)]
  let ?tok = "smoke_token E now" let ?u = "variant_start ''720p'' @ ?tok"
  have tok: "solid ?tok" "param_plain ?tok" "?tok \<noteq> []"
    by (simp_all add: smoke_token_def SignMediaToken_def Let_def b64_solid b64_param_plain b64_encode_Nil_iff)
  have "master_line E smoke_apiBase i ?tok ''720p/index.m3u8'' = ?u"
    using short_path_line [of "''720p''" E smoke_apiBase i ?tok] smoke_url [OF assms(1)] by simp
  then have r: "master_rewritten E i now masterIn3 = Inr (?u @ [newline])"
    unfolding masterIn3_def
    by (subst rewrite_lines [OF t]) (simp_all add: solid_def visible_def byte_def scan_limit_def unlines_def)
  have start: "solid (variant_start ''720p'')" "url_plain (smoke_apiBase @ ''/api/videos/'' @ smoke_videoID)"
    by (simp_all add: variant_start_def smoke_apiBase_def smoke_videoID_def solid_def visible_def byte_def url_plain_def)
  have trim: "TrimSpace (?u @ [newline]) = ?u"
    by (rule TrimSpace_line) (use start(1) tok in \<open>simp_all only: solid_append append_is_Nil_conv simp_thms\<close>)
  have plain: "url_plain smoke_apiBase" "url_plain (env_uuid_String E i)"
    by (simp_all add: assms(1) smoke_apiBase_def smoke_videoID_def url_plain_def)
  have get: "Query_Get ?u ''token'' = ?tok"
    using variant_url_query(2) [OF plain _ t, of "''720p''"] smoke_url [OF assms(1)]
    by (simp add: param_plain_def)
  have frag: "cut (CHR ''#'') ?u = (?u, [])"
    by (rule cut_none) (use tok(2) in \<open>auto simp: variant_start_def smoke_apiBase_def smoke_videoID_def param_plain_def\<close>)
  have ctl: "\<not> list_ex (\<lambda>c. byte c < 32 \<or> byte c = 127) ?u"
    using start(1) tok(1) by (auto simp: solid_def list_all_iff list_ex_iff visible_def)
  have path: "fst (cut (CHR ''?'') (drop (length smoke_apiBase) ?u)) =
      ''/api/videos/'' @ smoke_videoID @ ''/playlist.m3u8''"
    using cut_append [of "CHR ''?''" "''/api/videos/'' @ smoke_videoID @ ''/playlist.m3u8''" "''variant=720p&token='' @ ?tok"]
    by (simp add: variant_start_def smoke_videoID_def)
  have "url_unescape False (''/api/videos/'' @ smoke_videoID @ ''/playlist.m3u8'') \<noteq> None"
    by (simp add: unescape_plain smoke_videoID_def)
  then have "Parse_on_apiBase ?u = None"
    by (simp only: Parse_on_apiBase_def frag prod.case ctl if_False path url_unescape.simps option.distinct simp_thms)
  then show ?thesis
    using smoke_token_verified [OF assms(2), of E smoke_videoID smoke_secret] tok(3)
    by (simp add: rewrite_test6_def r Let_def trim [unfolded append_assoc] get)
qed

text \<open>Whatever the MAC, as long as it tells the three inputs of the tests apart.\<close>

lemma rewrite_tests_pass:
  assumes "env_uuid_Parse E smoke_videoID = Some i" "env_uuid_String E i = smoke_videoID"
    "int64_ok (unix_of (w_clock w + smoke_ttl))" "macs_differ E (w_clock w)"
  shows "runRewriteTests E w = (Inr [], w)"
  by (simp add: runRewriteTests_def assms(1) Let_def tests_12_pass [OF assms(2)] tests_34_pass
      tests_5_pass [OF assms(3,4)] test_6_passes [OF assms(2,3)])

end
