(* ===== verification/SmokeTools.thy ===== *)
theory SmokeTools
  imports SmokeDeletes Access Store
begin

text \<open>
  The command-line helpers that the shell scripts under \<^verbatim>\<open>scripts/smoketest/\<close>
  call: \<^verbatim>\<open>reconcile_enqueue\<close>, \<^verbatim>\<open>phase5_enqueue\<close>, \<^verbatim>\<open>phase5_upload\<close>,
  \<^verbatim>\<open>reconcile_presign\<close>, \<^verbatim>\<open>r2_head\<close>, \<^verbatim>\<open>r2_get\<close> and
  \<^verbatim>\<open>r2_list\<close>.  The parsed flags and the environment variables are arguments; the
  result is what is printed on success.  \<^verbatim>\<open>log.Fatal\<close> is an error.
\<close>

section \<open>Queue\<close>

definition queue_client :: "string \<Rightarrow> string \<Rightarrow> unit io" where
  "queue_client addr pw =
     must ''NewAsynqClient'' (liftR (fst (NewAsynqClient \<lparr>rd_Addr = addr, rd_Password = pw\<rparr>
       \<lparr>pr_now = 0, pr_trace = []\<rparr>))) ok"

text \<open>The identifier that asynq gives the task is printed as well; it is left out.\<close>

definition reconcile_enqueue :: "string \<Rightarrow> string \<Rightarrow> int \<Rightarrow> bool \<Rightarrow> string io" where
  "reconcile_enqueue addr pw batch dryRun =
     expect (\<not> batch \<le> 0) ''-batch must be > 0'' (
     bindM (queue_client addr pw) (\<lambda>_.
     must ''enqueue'' (EnqueueReconcileTick batch dryRun) (\<lambda>_.
     ok (''reconcile:tick enqueued: queue=default batch='' @ FormatInt batch @ '' dry_run='' @
         (if dryRun then ''true'' else ''false'')))))"

text \<open>
  The producers of \<^verbatim>\<open>shared/redis.go\<close> with the one option this helper gives, the
  delay; there is no bound on the retries, so a transcode is retried as often as the queue's
  default says.
\<close>

definition enqueue_in :: "string \<Rightarrow> goerr + task \<Rightarrow> int \<Rightarrow> unit io" where
  "enqueue_in op built delay =
     must (op @ '': build task'') (liftR built) (\<lambda>t.
     must (op @ '': enqueue'') (client_Enqueue t delay None) ok)"

definition phase5_task :: "string \<Rightarrow> string \<Rightarrow> string \<Rightarrow> int \<Rightarrow> (string \<times> unit io) + string" where
  "phase5_task op videoID keys delay =
    (if op = ''transcode'' then
       (if videoID = [] then Inr ''-videoID required''
        else Inl (''transcode:video'', enqueue_in ''EnqueueTranscode'' (NewTranscodeTask videoID) delay))
     else if op = ''cleanup-objects'' then
       (if keys = [] then Inr ''-keys required''
        else Inl (''cleanup:objects'',
          enqueue_in ''EnqueueCleanupObjects'' (Inr (CleanupObjects (split_on (CHR '','') keys))) delay))
     else if op = ''cleanup-video'' then
       (if videoID = [] then Inr ''-videoID required''
        else Inl (''cleanup:video'', EnqueueCleanupVideo videoID delay))
     else Inr (''unknown -op '' @ Quote op))"

definition phase5_enqueue ::
  "string \<Rightarrow> string \<Rightarrow> string \<Rightarrow> string \<Rightarrow> string \<Rightarrow> int \<Rightarrow> string io"
where
  "phase5_enqueue addr pw op videoID keys delay =
     expect (op \<noteq> []) ''missing -op'' (
     bindM (queue_client addr pw) (\<lambda>_. case phase5_task op videoID keys delay of
       Inr msg \<Rightarrow> throw (Opaque msg)
     | Inl (typ', enqueue) \<Rightarrow> must ''enqueue'' enqueue (\<lambda>_. ok (''enqueued: queue=default type='' @ typ'))))"

section \<open>Store\<close>

definition phase5_upload :: "host \<Rightarrow> env \<Rightarrow> R2Config \<Rightarrow> string \<Rightarrow> string \<Rightarrow> string io" where
  "phase5_upload H E cfg file key =
     expect (\<not> (file = [] \<or> key = [])) ''missing -file or -key'' (
     must ''NewR2Client'' (liftR (fst (NewR2Client H cfg \<lparr>pr_now = 0, pr_trace = []\<rparr>))) (\<lambda>_.
     must ''UploadFile'' (UploadFile E key file ''video/mp4'') (\<lambda>_.
     ok (''uploaded '' @ file @ '' -> s3://'' @ r2_Bucket cfg @ ''/'' @ key))))"

text \<open>The other helpers use the S3 SDK directly; its configuration is loaded first.\<close>

definition aws_config :: "host \<Rightarrow> unit io" where
  "aws_config H = (case ho_aws H of None \<Rightarrow> ok () | Some err \<Rightarrow> throw err)"

definition presign_expiry :: int where "presign_expiry = 5 * minute"

definition reconcile_presign :: "host \<Rightarrow> env \<Rightarrow> bool \<Rightarrow> string \<Rightarrow> string io" where
  "reconcile_presign H E put key =
     expect (key \<noteq> []) ''missing -key'' (
     bindM (aws_config H) (\<lambda>_.
     bindM fault (\<lambda>_.
     bindM now_io (\<lambda>t.
     ok (if put then env_presign_put E key [] presign_expiry t
         else env_presign_get E key presign_expiry t)))))"

text \<open>The exit code and the text of \<^verbatim>\<open>r2_head\<close>: 0 present, 1 absent, 2 anything else.\<close>

definition r2_head :: "host \<Rightarrow> env \<Rightarrow> string \<Rightarrow> (nat \<times> string) io" where
  "r2_head H E key =
    (let fatal = (\<lambda>msg. ok (2, ''r2_head: '' @ msg)) in
     if key = [] then fatal ''missing -key''
     else tryM (aws_config H) (\<lambda>err. fatal (Error err)) (\<lambda>_.
       bindM (store_get E ''NotFound'' key) (\<lambda>r. case r of
         Inr _ \<Rightarrow> ok (0, ''EXISTS'')
       | Inl err \<Rightarrow>
          (if isNotFoundErr (entry_code err) then ok (1, ''MISSING'')
           else fatal (''head '' @ key @ '': '' @ entry_message err)))))"

text \<open>
  \<^verbatim>\<open>r2_get\<close> reads the body once, into a buffer of the announced size; how many bytes
  that read gives, \<^verbatim>\<open>n\<close>, is up to the transport.
\<close>

definition r2_get :: "host \<Rightarrow> env \<Rightarrow> nat \<Rightarrow> string \<Rightarrow> string io" where
  "r2_get H E n key =
     expect (key \<noteq> []) ''missing -key'' (
     bindM (aws_config H) (\<lambda>_.
     bindM (store_get E ''NoSuchKey'' key) (\<lambda>r. case r of
       Inl err \<Rightarrow> throw (if entry_code err = ''NoSuchKey'' then Opaque (''NoSuchKey: '' @ key)
                        else Opaque (entry_message err))
     | Inr out \<Rightarrow>
        let announced = (case o_size out of None \<Rightarrow> 0 | Some s \<Rightarrow> nat s);
            size = (if announced = 0 then 4096 else announced)
        in bindM fault (\<lambda>_. ok (take (min n size) (o_body out))))))"

definition object_line :: "object list \<Rightarrow> string \<Rightarrow> string" where
  "object_line objs k = ''  '' @ k @ '' ('' @
     FormatInt (case find (\<lambda>b. o_key b = k) objs of None \<Rightarrow> 0
       | Some b \<Rightarrow> (case o_size b of None \<Rightarrow> 0 | Some n \<Rightarrow> n)) @ '' bytes)''"

fun list_keys :: "string list list \<Rightarrow> string list io" where
  "list_keys [] = ok []"
| "list_keys (page # pages) = bindM fault (\<lambda>_. bindM (list_keys pages) (\<lambda>ks. ok (page @ ks)))"

definition r2_list :: "host \<Rightarrow> string \<Rightarrow> string \<Rightarrow> string list io" where
  "r2_list H bucket p =
     bindM (aws_config H) (\<lambda>_.
     bindM stored (\<lambda>objs.
     bindM (list_keys (list_pages p objs)) (\<lambda>keys.
     ok (map (object_line objs) keys @ [''total '' @ nat_text (length keys) @ '' objects under '' @ p @
          '' in '' @ bucket]))))"

section \<open>What the helpers tell\<close>

text \<open>Without failures the exit code of \<^verbatim>\<open>r2_head\<close> is whether the object is stored.\<close>

lemma r2_head_exact:
  assumes "w_faults w = []" "ho_aws H = None" "key \<noteq> []"
  shows "\<exists>msg. r2_head H E key w =
    (Inr (if list_ex (\<lambda>b. o_key b = key) (w_objects w) then 0 else 1, msg), w)"
  using assms
  by (auto simp: r2_head_def Let_def aws_config_def tryM_run bindM_run ok_run store_get_def calm_fault
      isNotFoundErr_def find_None_iff find_Some_iff list_ex_iff split: option.split)

text \<open>\<^verbatim>\<open>r2_get\<close> prints a prefix of the object, and all of it when the read gives all.\<close>

lemma r2_get_prefix:
  assumes "w_faults w = []" "ho_aws H = None" "key \<noteq> []"
    "find (\<lambda>b. o_key b = key) (w_objects w) = Some b" "o_size b = Some (int (length (o_body b)))"
  shows "r2_get H E n key w = (Inr (take n (o_body b)), w)"
  using assms
  by (auto simp: r2_get_def Let_def expect_def aws_config_def bindM_run ok_run store_get_def tryM_run
      calm_fault min_def split: option.split)

lemma calm_list_keys: "w_faults w = [] \<Longrightarrow> list_keys pages w = (Inr (concat pages), w)"
  by (induction pages) (simp_all add: bindM_run ok_run calm_fault)

lemma r2_list_complete:
  assumes "w_faults w = []" "ho_aws H = None"
  shows "r2_list H bucket p w = (let keys = sort (filter (prefix_of p) (map o_key (w_objects w))) in
    (Inr (map (object_line (w_objects w)) keys @
       [''total '' @ nat_text (length keys) @ '' objects under '' @ p @ '' in '' @ bucket]), w))"
proof -
  have "concat (list_pages p objs) = sort (filter (prefix_of p) (map o_key objs))" for objs
    by (simp add: list_pages_def Let_def list_page_size_def concat_chunks)
  then show ?thesis using assms
    by (simp add: r2_list_def aws_config_def bindM_run ok_run stored_def calm_list_keys Let_def)
qed

end
