(* ===== verification/Spec2Isabelle.thy ===== *)
theory Spec2Isabelle
  imports Delivery Confirming Playlists Booting Sweeping Service Responses Races Performing SmokeRuns SmokeSearch SmokePlaylists SmokeTools
begin

text \<open>
  A verification development for mokibox, a short-video backend: the API gateway
  (\<^verbatim>\<open>api-gateway/\<close>), the transcoder worker (\<^verbatim>\<open>transcoder-worker/\<close>) and
  the code they share (\<^verbatim>\<open>shared/\<close>).

  \<^bold>\<open>The program.\<close>  A client talks HTTP to the gateway.  A request passes the router, a rate
  limiter and the bearer-token middleware, which finds or creates the local row of the
  token's subject, and then one handler, which reads and writes Postgres through the
  generated queries, talks to the object store (R2), and hands work to the worker through a
  Redis queue.  An upload is an intent (a pending row and a presigned URL), a PUT to the
  store by the client, and a confirmation that queues a transcode task; the worker downloads,
  validates and transcodes, stores the renditions and marks the row READY.  Deletions queue
  cleanup tasks; a periodic sweep deletes what is left under the prefixes of deleted users.
  The identity provider deactivates and removes users through a signed webhook.

  \<^bold>\<open>State and effects.\<close>  \<^verbatim>\<open>World\<close> has the whole state as one record: the six tables of
  \<^verbatim>\<open>migrations/001_init.sql\<close> with their constraints, the objects of the bucket, the queued
  tasks, the worker's files, the rate limiter stores, the supply of UUIDs, the clock and the
  responses written.  A Go function that returns an error is a function from the world to a
  sum (\<^verbatim>\<open>Inl\<close> the error) and the new world; \<^verbatim>\<open>tryM call h k\<close> is the
  call-test-continue of the source (\<^verbatim>\<open>Prelude\<close>).  Every call that leaves the process consults a
  schedule of failures, so a statement proved for all worlds holds whichever calls fail.  A
  transaction restores the tables when its body or its commit fails, and nothing else.

  \<^bold>\<open>Where the code is.\<close>
  \<^item> \<^verbatim>\<open>Errors\<close>: \<^verbatim>\<open>shared/errors.go\<close>, \<^verbatim>\<open>shared/response.go\<close>,
    \<^verbatim>\<open>error_handler.go\<close>, \<^verbatim>\<open>request_validator.go\<close>.
  \<^item> \<^verbatim>\<open>GoStd\<close>, \<^verbatim>\<open>StdLemmas\<close>: what is used of strings, strconv, hex, base64 and time;
    \<^verbatim>\<open>Codec\<close>: \<^verbatim>\<open>shared/cursor.go\<close>, \<^verbatim>\<open>shared/mediatoken.go\<close>.
  \<^item> \<^verbatim>\<open>World\<close>, \<^verbatim>\<open>Sql\<close>, \<^verbatim>\<open>VideoQueries\<close>, \<^verbatim>\<open>UserQueries\<close>,
    \<^verbatim>\<open>SocialQueries\<close>: the rows and statements of \<^verbatim>\<open>shared/db/\<close> (search is in
    \<^verbatim>\<open>Lists\<close>) and \<^verbatim>\<open>handlers/tx.go\<close>.
  \<^item> \<^verbatim>\<open>R2\<close>: \<^verbatim>\<open>shared/r2.go\<close>; \<^verbatim>\<open>Queue\<close>: \<^verbatim>\<open>shared/redis.go\<close>,
    \<^verbatim>\<open>shared/models.go\<close>, \<^verbatim>\<open>handlers/queue.go\<close>.
  \<^item> \<^verbatim>\<open>Visibility\<close>, \<^verbatim>\<open>Social\<close>, \<^verbatim>\<open>Account\<close>, \<^verbatim>\<open>Profiles\<close>,
    \<^verbatim>\<open>Lists\<close>, \<^verbatim>\<open>Upload\<close>, \<^verbatim>\<open>Playback\<close>, \<^verbatim>\<open>Middleware\<close>,
    \<^verbatim>\<open>Router\<close>: the handlers, middleware and routes of the gateway; a Go handler is the
    definition of the same name, with its guards in order and the response of every branch.
  \<^item> \<^verbatim>\<open>Media\<close>, \<^verbatim>\<open>Transcode\<close>, \<^verbatim>\<open>Cleanup\<close>: \<^verbatim>\<open>ffprobe.go\<close>,
    \<^verbatim>\<open>transcode.go\<close>, \<^verbatim>\<open>cleanup.go\<close>, \<^verbatim>\<open>reconcile.go\<close>.
  \<^item> \<^verbatim>\<open>Config\<close>, \<^verbatim>\<open>Startup\<close>: \<^verbatim>\<open>shared/config.go\<close>, \<^verbatim>\<open>shared/db.go\<close>,
    the constructors of the clients, and both \<^verbatim>\<open>main.go\<close> from start to exit.
  \<^item> \<^verbatim>\<open>Smoke\<close>, \<^verbatim>\<open>SmokeSocial\<close>, \<^verbatim>\<open>SmokeFeeds\<close>, \<^verbatim>\<open>SmokeDeletes\<close>,
    \<^verbatim>\<open>SmokeAccounts\<close>, \<^verbatim>\<open>SmokeSearch\<close>, \<^verbatim>\<open>SmokePlaylists\<close>: the programs under
    \<^verbatim>\<open>scripts/smoketest/\<close> that test statements, transactions and rewriters, run here on the
    tables of the model.  \<^verbatim>\<open>Smoke\<close> has their common helpers; a definition is prefixed with
    its program.  \<^verbatim>\<open>SmokeTools\<close>: the command-line helpers; \<^verbatim>\<open>Urls\<close>: what is used of
    \<^verbatim>\<open>net/url\<close>.

  \<^bold>\<open>How things are proved.\<close>  The locale \<^verbatim>\<open>step_rel\<close> (Prelude) gives, for any reflexive and
  transitive relation between worlds, one rule per combinator; \<^verbatim>\<open>table_rel\<close>,
  \<^verbatim>\<open>handler_rel\<close>, \<^verbatim>\<open>task_rel\<close> and \<^verbatim>\<open>statement_rel\<close> (Systems), and \<^verbatim>\<open>smoke_rel\<close> (Drains), lift a relation
  that the writing statements satisfy to every route, every task, every step of the system
  and every run (\<^verbatim>\<open>Reach\<close>, \<^verbatim>\<open>Lockout\<close>, \<^verbatim>\<open>Network\<close>).  \<^verbatim>\<open>Triples\<close> and \<^verbatim>\<open>Hoare\<close> are Hoare logics
  over the tables and over the world.  \<^verbatim>\<open>keyset\<close> (Sql) and \<^verbatim>\<open>listing\<close> (Paging) are the
  contract of the paged lists, \<^verbatim>\<open>codec\<close> (StdLemmas) that of the text encodings.  All of
  them are interpreted on the definitions of the model.

  \<^bold>\<open>What is shown.\<close>
  \<^item> Invariants of every reachable state: likes counters are exact (\<^verbatim>\<open>Counters\<close>,
    \<^verbatim>\<open>SocialInv\<close>, \<^verbatim>\<open>Reach\<close>), replies form a forest and the recursive count equals the
    cascade (\<^verbatim>\<open>Subtree\<close>), statuses only advance (\<^verbatim>\<open>Lifecycle\<close>), a deactivated account
    stays locked out (\<^verbatim>\<open>Lockout\<close>).
  \<^item> Refinement: \<^verbatim>\<open>Service\<close> states what the social service promises as an abstract
    machine over videos, likes and follows.  \<^verbatim>\<open>Network\<close> and \<^verbatim>\<open>Actions\<close> show
    that every request is a step of it that its route allows, or no step at all;
    \<^verbatim>\<open>Performing\<close> that a permitted request whose calls succeed is performed and answered.
  \<^item> Typed answers: the body of every response has the shape of its route
    (\<^verbatim>\<open>Responses\<close>).
  \<^item> Interleaving (\<^verbatim>\<open>Races\<close>): overlapping like and unlike transactions keep the
    counters exact; a comment removed between the count and the delete of another request
    does not, and by how much it is off.
  \<^item> The gateway: who sees what (\<^verbatim>\<open>Access\<close>, \<^verbatim>\<open>Refusals\<close>), one answer per request and
    where there are two (\<^verbatim>\<open>Answers\<close>), complete page walks (\<^verbatim>\<open>Paging\<close>), search as
    substring (\<^verbatim>\<open>Patterns\<close>), account deletion (\<^verbatim>\<open>Account\<close>, \<^verbatim>\<open>Erasure\<close>), confirmation
    (\<^verbatim>\<open>Confirming\<close>), playlists and their tokens (\<^verbatim>\<open>Playlists\<close>).
  \<^item> The worker: deletes are exact (\<^verbatim>\<open>Store\<close>, \<^verbatim>\<open>Cleaning\<close>), what is published is complete
    and a valid upload is published (\<^verbatim>\<open>Publishing\<close>, \<^verbatim>\<open>Delivery\<close>), the sweep
    (\<^verbatim>\<open>Sweeping\<close>).
  \<^item> The processes: order of startup and shutdown, retries within the budget
    (\<^verbatim>\<open>Booting\<close>).
  \<^item> The tests: their copies of the handlers' transactions mirror the originals
    (\<^verbatim>\<open>Mirrors\<close>); when their drain of the queue ends (\<^verbatim>\<open>Drains\<close>); the account-deletion
    test passes once (\<^verbatim>\<open>Reruns\<close>).
  \<^verbatim>\<open>Samples\<close>, \<^verbatim>\<open>Examples\<close> and \<^verbatim>\<open>SmokeRuns\<close> are the concrete worlds and runs of the
  witnesses.

  \<^bold>\<open>Bounds and fuel.\<close>  The recursive SQL query is a \<^verbatim>\<open>partial_function\<close>; that it returns is
  proved for ranked rows.  The cascade and the retry loop are total by a measure.
  \<^verbatim>\<open>walk_pages\<close> takes a number of pages; any number that exceeds the rows over the page
  size gives the same, complete list; \<^verbatim>\<open>notification_pages\<close> counts pages in the same way.
  The drain of the queue is a \<^verbatim>\<open>partial_function\<close>, as it may not end.  Counters are checked against int4 by the constraints,
  \<^verbatim>\<open>RECONCILE_BATCH\<close> is converted to 32 bits, durations are computed on 64.

  \<^bold>\<open>Parameters.\<close>  The record \<^verbatim>\<open>env\<close> holds what is not in the repository:
  HMAC-SHA256, the text form of UUIDs, presigned URLs, the error classes of the S3 SDK, the
  token check of the OIDC library, the webhook signature check, the token bucket of the rate
  limiter; and what is fixed when the process starts: which dependencies are wired, the
  secrets, lifetimes and batch size.  \<^verbatim>\<open>worker\<close> holds ffprobe, ffmpeg and what other
  processes do to the tables meanwhile; \<^verbatim>\<open>host\<close> what drivers, servers and the network
  answer while a process starts.  What a property needs of them is a named hypothesis.

  \<^bold>\<open>Not modelled.\<close>  Log lines; the decoding of JSON bodies and the struct-tag validation
  (a decoded body, and the validator's verdict on it, are arguments of a route); the text
  of third-party errors; the SQL planner (a statement is the function its SQL text denotes;
  transactions interleave only where \<^verbatim>\<open>Races\<close> says so); the goroutines of the
  HTTP and queue servers (requests and tasks are steps of the system, in any order); of the
  smoke tests, their deadlines and log lines; unit tests.
\<close>

text \<open>C1: Like counters never drift.  In every state the system reaches from empty
  tables (or from any in which this holds), by requests to any route and by tasks in any order, with repeated deliveries and
  with any pattern of failing calls, each video's \<^verbatim>\<open>likes_count\<close> is the number of
  its rows in \<^verbatim>\<open>likes\<close>, and all table constraints hold.  What other processes do to
  the tables while a transcode runs may be anything that respects the same rule.\<close>

theorem likes_stay_exact:
  assumes "run E K w w'" "likes_inv (w_db w)"
    "others_respect (\<lambda>d d'. likes_inv d \<longrightarrow> likes_inv d') K"
  shows "constraints (w_db w') \<and> likes_exact (w_db w')"
proof -
  have "inv_rel likes_inv w w'" using assms(1) likes_others [OF assms(3)] by (rule likes_sys.rel_run)
  then show ?thesis using assms(2) by (simp add: inv_rel_def likes_inv_def)
qed

theorem likes_stay_exact_witness:
  "constraints (w_db (snd (serve E0 LikeRoute (bearer_request ''good'' ''10'') calm_world))) \<and>
   likes_exact (w_db (snd (serve E0 LikeRoute (bearer_request ''good'' ''10'') calm_world)))"
  by (rule likes_stay_exact [OF run_calm _ alone_respects [OF K0_alone]]) (simp_all add: db0_invs)

text \<open>C2: Likes stay exact when transactions overlap.  \<^verbatim>\<open>like_step\<close> interleaves the
  statements of any number of like and unlike transactions as READ COMMITTED allows (a row
  written by an open transaction is out of reach for the others), with commits and
  rollbacks in any order and anything that leaves likes and their counters alone in between; the
  transactions of \<^verbatim>\<open>LikeVideo\<close> and \<^verbatim>\<open>UnlikeVideo\<close> are sequences of such steps
  (\<^verbatim>\<open>like_tx_steps\<close>, \<^verbatim>\<open>unlike_tx_steps\<close>).  Whenever no transaction is open,
  every \<^verbatim>\<open>likes_count\<close> is the number of like rows; in particular the guard
  \<^verbatim>\<open>likes_count > 0\<close> of the decrement never swallows one.\<close>

theorem overlapping_likes_exact:
  assumes "like_step\<^sup>*\<^sup>* (d, []) (d', [])" "constraints d" "likes_exact d"
  shows "likes_exact d'"
proof -
  have "distinct (like_keys d)"
    using assms(2) by (simp add: constraints_def likes_ok_def like_keys_def like_key_def [abs_def])
  then show ?thesis using open_ok_steps [OF assms(1)] assms(3) by (simp add: open_ok_closed)
qed

theorem overlapping_likes_exact_witness:
  "likes_exact (liked_db [like0 2, like0 3] 2)"
  by (rule overlapping_likes_exact [OF overlapping_likes db0_constraints db0_exact(1)])



text \<open>C4: The system is the service.  Any run of the whole system, requests to any route and
  tasks of the worker and sweeps in any order, with repeated deliveries and any pattern of
  failing calls, is a run of the abstract service when one looks at the tables before and
  after: a sequence of first logins and permitted actions, among which the worker's are to publish
  or to fail a video in processing and to purge a deleted one.\<close>

theorem runs_refine_service:
  assumes "run E K w w'" "constraints (w_db w)" "serviceable K"
  shows "constraints (w_db w') \<and> moves\<^sup>*\<^sup>* (net_of (w_db w)) (net_of (w_db w'))"
  using refined_run [OF assms(1,3)] assms(2) by (simp add: refined_def)

theorem runs_refine_service_witness:
  "moves\<^sup>*\<^sup>* (net_of db0) (net_of (w_db (snd (serve E0 DeleteVideoRoute
     (bearer_request ''good'' ''10'') calm_world))))"
  using runs_refine_service [OF run_calm [of E0 K0 DeleteVideoRoute "bearer_request ''good'' ''10''"]]
    alone_respects [OF K0_alone] by (simp add: db0_constraints serviceable_def)



text \<open>C6: A video only moves forward.  Over any run of the system a video that is in
  the tables before and after keeps its owner, and its status is never earlier in
  \<^verbatim>\<open>PENDING_UPLOAD\<close>, \<^verbatim>\<open>PROCESSING\<close>, \<^verbatim>\<open>READY\<close>, \<^verbatim>\<open>FAILED\<close>,
  \<^verbatim>\<open>DELETED\<close> than it was; in particular a deleted video is never published again.
  The identifiers drawn during the run are new ones, as UUIDs are.\<close>

theorem video_status_monotone:
  assumes "run E K w w'" "others_respect videos_from K" "constraints (w_db w)"
    "v \<in> set (videos (w_db w))" "v' \<in> set (videos (w_db w'))" "v_ID v' = v_ID v"
    "v_ID v \<notin> drawn w w'"
  shows "v_UserID v' = v_UserID v \<and> v_Status v \<le> v_Status v' \<and>
    (v_Status v = DELETED \<longrightarrow> v_Status v' = DELETED)"
proof -
  obtain u where u: "u \<in> set (videos (w_db w))" "older u v'"
    using run_life [OF assms(1-3,5)] assms(6,7) by auto
  have "distinct (map v_ID (videos (w_db w)))"
    using assms(3) by (simp add: constraints_def videos_ok_def)
  then have "u = v" using key_inj [of v_ID] u assms(4,6) by (auto simp: older_def)
  then show ?thesis using u(2) by (auto simp: older_def)
qed

theorem video_status_monotone_witness:
  "\<exists>v'. videos (w_db (snd (serve E0 DeleteVideoRoute (bearer_request ''good'' ''10'') calm_world))) = [v'] \<and>
     v_UserID v' = v_UserID video0 \<and> v_Status video0 \<le> v_Status v'"
proof -
  let ?w = "snd (serve E0 DeleteVideoRoute (bearer_request ''good'' ''10'') calm_world)"
  let ?v = "video0\<lparr>v_Status := DELETED, v_DeletedAt := Some 5000\<rparr>"
  have "run E0 K0 world0 ?w" by (rule run_calm)
  then have "v_UserID ?v = v_UserID video0 \<and> v_Status video0 \<le> v_Status ?v \<and>
      (v_Status video0 = DELETED \<longrightarrow> v_Status ?v = DELETED)"
    by (rule video_status_monotone [OF _ alone_respects [OF K0_alone]])
       (simp_all add: delete_run drawn_def db0_constraints db0_videos videos_from_def older_in)
  then show ?thesis by (simp add: delete_run)
qed

text \<open>C7: A deactivated or deleted account stays out.  Once a user row is inactive, no
  token of the same subject authenticates a request in any later state of the system,
  with any failures: the middleware never attaches a user to the request, does not create
  a second account, and leaves the tables as they are.\<close>

theorem deactivated_stays_out:
  assumes "run E K w w'" "others_respect users_kept K" "constraints (w_db w)"
    "u \<in> set (users (w_db w))" "\<not> u_IsActive u"
    "extractBearer q = Inr t" "env_CheckToken E t = Inr (u_ZitadelID u)" "req_user q = None"
  shows "stays_out (w_db w') (resolveUser E q w')"
  using assms by (rule locked_out)

theorem deactivated_stays_out_witness:
  "stays_out (w_db inactive_world) (resolveUser E0 (bearer_request ''good'' []) inactive_world)"
  by (rule deactivated_stays_out [OF rtranclp.rtrancl_refl alone_respects [OF K0_alone]
        inactive_constraints, where u = "alice\<lparr>u_IsActive := False\<rparr>" and t = "''good''"])
     (simp_all add: inactive_world_def users_kept_refl bearer_extract E0_good alice_def user0_def)

text \<open>C8: Deleting a comment keeps the counters.  Whatever calls fail during
  \<^verbatim>\<open>DELETE /api/comments/:id\<close>, if every video's \<^verbatim>\<open>comments_count\<close> was the
  number of its comment rows before the request (and replies belong to a forest), it is
  so afterwards: the recursive count, the cascade and the counter update agree.\<close>

theorem delete_comment_keeps_counts:
  assumes "comments_inv (w_db w)"
  shows "comments_inv (w_db (snd (DeleteComment E q w)))"
  using social_comments_inv(6) [of E q] assms
  by (auto simp: preserves_def triple_def split: sum.splits)

theorem delete_comment_keeps_counts_witness:
  "comments_inv db0 \<and>
   comments_inv (w_db (snd (DeleteComment E0 (request0 (Some bob) ''20'') world0)))"
  using delete_comment_keeps_counts [of world0 E0 "request0 (Some bob) ''20''"] db0_invs
  by (simp add: world0_def)

text \<open>C9: A comment deleted while others answer.  The comment of the code says that
  \<^verbatim>\<open>comments_count\<close> can never drift on this path, because the counter and the rows
  commit together.  But the rows are counted by a statement of their own, and the
  transaction is READ COMMITTED: whatever others commit between the count and the
  delete (\<^verbatim>\<open>others\<close>, any function that keeps the tables and their counters right)
  is removed by the cascade and missing from the count.  The counter ends off by exactly the
  change of the thread, and is right if and only if there was none (or the counter is stopped at zero).\<close>

theorem comment_counter_races:
  assumes "fst (runTx (raced_delete others i vid) w) = Inr ()" "0 < thread_size (w_db w) i"
    "comments_inv (others (w_db w))" "on_video i vid (others (w_db w))"
  shows "comments_off vid (thread_size (others (w_db w)) i - thread_size (w_db w) i)
    (w_db (snd (runTx (raced_delete others i vid) w)))"
  using assms by (rule raced_delete_off)

theorem comment_counter_races_witness:
  "comments_inv db0 \<and> comments_inv (alice_answers db0) \<and>
   comments_off 10 1 (w_db (snd (runTx (raced_delete alice_answers 20 10) world0))) \<and>
   \<not> comments_exact (w_db (snd (runTx (raced_delete alice_answers 20 10) world0)))"
proof -
  have "on_video 20 10 answered_db" by (simp add: on_video_def answered_db_def sample_defs)
  then have "comments_off 10 1 (w_db (snd (runTx (raced_delete alice_answers 20 10) world0)))"
    using comment_counter_races [OF bob_deletes(1)] by (simp add: alice_answers thread_sizes answered_inv)
  then show ?thesis
    using bob_deletes(2,3)
    by (simp add: db0_invs alice_answers answered_inv comments_exact_def comment_rows_def video0_def)
qed



text \<open>C11: The recursive query ends, and agrees with the cascade.  \<^verbatim>\<open>WITH RECURSIVE\<close>
  over the replies would run for ever on a cycle of parents; in every state the system
  reaches there is none.  Started at any comment the iteration reaches its fixed point, and
  the number of rows it counts is the number of rows the delete of that comment removes with
  \<^verbatim>\<open>ON DELETE CASCADE\<close>.\<close>

theorem subtree_count_is_cascade:
  assumes "run E K w w'" "replies_inv (w_db w)"
    "others_respect (\<lambda>d d'. replies_inv d \<longrightarrow> replies_inv d') K" "c \<in> set (comments (w_db w'))"
  shows "\<exists>rows. subtree_rows (comments (w_db w')) [c_ID c] = Some rows \<and>
    length (comments (w_db w')) =
      length (delete_comments_where (\<lambda>x. c_ID x = c_ID c) (comments (w_db w'))) + length rows"
proof -
  have "inv_rel replies_inv w w'" using assms(1) replies_others [OF assms(3)] by (rule replies_sys.rel_run)
  then have inv: "replies_inv (w_db w')" using assms(2) by (simp add: inv_rel_def)
  have dist: "distinct (map c_ID (comments (w_db w')))" and rk: "ranked_rows (comments (w_db w'))"
    using inv by (simp_all add: replies_inv_def constraints_def comments_ok_def)
  obtain rows where rows: "subtree_rows (comments (w_db w')) [c_ID c] = Some rows" "distinct rows"
    "set rows \<subseteq> c_ID ` set (comments (w_db w'))"
    "delete_comments_where (\<lambda>x. c_ID x = c_ID c) (comments (w_db w')) =
       filter (\<lambda>x. c_ID x \<notin> set rows) (comments (w_db w'))"
    by (rule subtree_delete [OF dist rk assms(4)])
  moreover have "length (filter (\<lambda>x. c_ID x \<in> set rows) (comments (w_db w'))) = length rows"
    using count_rows_distinct [OF dist rows(2,3)] by (simp add: count_rows_def)
  ultimately show ?thesis
    using sum_length_filter_compl [of "\<lambda>x. c_ID x \<in> set rows" "comments (w_db w')"] by simp
qed

theorem subtree_count_is_cascade_witness:
  "\<exists>rows. subtree_rows (comments db0) [20] = Some rows \<and>
     length (comments db0) = length (delete_comments_where (\<lambda>x. c_ID x = 20) (comments db0)) + length rows"
  using subtree_count_is_cascade [of E0 K0 world0 world0 "comment0 20 2 None"]
    alone_respects [OF K0_alone] db0_invs
  by (simp add: world0_def db0_def comment0_def)

text \<open>C12: A hidden video is out of reach.  If no video with the identifier in the path
  is one the viewer may access (their own, or a finished one of an active owner who is public
  or followed), then liking, unliking, viewing or commenting on it leaves every table as it
  was, whichever calls fail on the way.\<close>

theorem hidden_video_untouched:
  assumes "acts_on_video r" "parseAuthVideoParam E q = Inr (user, i)"
    "list_all (\<lambda>v. v_ID v = i \<longrightarrow> \<not> may_access (w_db w) (u_ID user) v) (videos (w_db w))"
  shows "w_db (snd (route_handler E r q w)) = w_db w"
  using assms by (rule hidden_untouched)

theorem hidden_video_untouched_witness:
  "w_db (snd (route_handler E0 LikeRoute (request0 (Some bob) ''10'') private_world)) = w_db private_world"
  by (rule hidden_video_untouched [where user = bob and i = 10])
     (simp_all add: request_10 private_hidden)

text \<open>C13: A hidden video answers like a missing one.  Without failures, a video the viewer
  may not access and a video that does not exist get the same answer, the 404
  \<^verbatim>\<open>video not found\<close>, and nothing else in the world changes: the endpoints do
  not reveal that a hidden video exists.\<close>

theorem hidden_answers_as_missing:
  assumes "w_faults w = []" "env_wired E DepQueries" "env_wired E DepRun" "acts_on_video r"
    "parseAuthVideoParam E q = Inr (user, i)" "body_ok r"
    "list_all (\<lambda>v. v_ID v = i \<longrightarrow> \<not> may_access (w_db w) (u_ID user) v) (videos (w_db w))"
  shows "route_handler E r q w =
    (Inr (), w\<lparr>w_out := w_out w @ [\<lparr>r_status = 404,
       r_body = BodyError ''NOT_FOUND'' ''video not found: not found'' []\<rparr>]\<rparr>)"
  using hidden_calm [OF assms] by (simp add: hidden_response)

theorem hidden_answers_as_missing_witness:
  "route_handler E0 ViewRoute (request0 (Some bob) ''10'') private_world =
    (Inr (), private_world\<lparr>w_out := w_out private_world @ [\<lparr>r_status = 404,
       r_body = BodyError ''NOT_FOUND'' ''video not found: not found'' []\<rparr>]\<rparr>) \<and>
   route_handler E0 LikeRoute (request0 (Some bob) ''11'') private_world =
    (Inr (), private_world\<lparr>w_out := w_out private_world @ [\<lparr>r_status = 404,
       r_body = BodyError ''NOT_FOUND'' ''video not found: not found'' []\<rparr>]\<rparr>)"
  using hidden_answers_as_missing [of private_world E0 ViewRoute "request0 (Some bob) ''10''" bob 10]
    hidden_answers_as_missing [of private_world E0 LikeRoute "request0 (Some bob) ''11''" bob 11]
  by (simp add: private_world_simps request_10 request_11 private_hidden private_missing E0_wired)



text \<open>C15: An account is deleted completely or not at all.  For a user whose row is in the
  tables, \<^verbatim>\<open>DELETE /api/me\<close> has two outcomes, whichever calls fail: the answer is
  204, none of the user's videos, follows, likes, comments and notifications is left and the
  row is an anonymous tombstone; or the answer is an error and no table has changed.\<close>

theorem account_deletion_all_or_nothing:
  assumes "has_row (u_ID user) (w_db w)" "req_user q = Some user" "env_wired E DepRun" "env_wired E DepQueue"
  shows "w_out (snd (DeleteMe E q w)) = w_out w @ [\<lparr>r_status = 204, r_body = NoBody\<rparr>] \<and>
      account_erased E (u_ID user) (w_db (snd (DeleteMe E q w))) \<or>
    (\<exists>e. w_out (snd (DeleteMe E q w)) = w_out w @ [error_response e]) \<and>
      w_db (snd (DeleteMe E q w)) = w_db w"
  using assms by (rule DeleteMe_all_or_nothing)

theorem account_deletion_all_or_nothing_witness:
  "account_erased E0 (u_ID alice) (w_db (snd (DeleteMe E0 (request0 (Some alice) []) drift_world)))"
proof -
  have "has_row (u_ID alice) (w_db drift_world)" "w_db drift_world = drift_db"
    by (simp_all add: has_row_def drift_world_def drift_db_def db0_def)
  then show ?thesis
    using account_deletion_all_or_nothing [of alice drift_world "request0 (Some alice) []" E0]
      drift_after drift_wrong drift_before(2)
    by (auto simp: request0_def)
qed


text \<open>C17: Without a login nothing happens.  On each of the routes that need a login, a
  request whose token is missing, malformed or rejected leaves the tables, the queue and
  the bucket as they were, whichever calls fail; that the middleware goes on after a
  refusal (see below) does not matter, because the rate limiter refuses again.\<close>

theorem unauthenticated_changes_nothing:
  assumes "grouped r" "no_subject E q"
  shows "w_db (snd (serve E r q w)) = w_db w \<and> w_queue (snd (serve E r q w)) = w_queue w \<and>
    w_objects (snd (serve E r q w)) = w_objects w"
  using unauthenticated_idle [OF assms] by (simp add: idle_def)

theorem unauthenticated_changes_nothing_witness:
  "w_db (snd (serve E0 DeleteMeRoute (request0 None []) world0)) = db0"
  using unauthenticated_changes_nothing [of DeleteMeRoute E0 "request0 None []" world0]
  by (simp add: no_subject_def extractBearer_def request0_def)

text \<open>C18: A refused login is answered twice.  \<^verbatim>\<open>resolveUser\<close> returns the result of
  \<^verbatim>\<open>RespondError\<close>, which is nil once the 401 is written, so \<^verbatim>\<open>Authenticate\<close>
  goes on to the rate limiter, which writes a second 401 after it.\<close>

theorem missing_token_answered_twice:
  assumes "w_faults w = []" "w_out w = []" "grouped r" "extractBearer q = Inl err"
  shows "w_out (snd (serve E r q w)) =
    [error_response (Wrap ErrUnauthorized (Error err)),
     error_response (Wrap ErrUnauthorized ''rate limit requires authenticated user'')]"
  using assms by (rule missing_token_calm)

theorem missing_token_answered_twice_witness:
  "map r_status (w_out (snd (serve E0 GetMeRoute (request0 None []) world0))) = [401, 401]"
proof -
  have "extractBearer (request0 None []) = Inl (Opaque ''missing Authorization header'')"
    by (simp add: extractBearer_def request0_def)
  then show ?thesis
    using missing_token_answered_twice [of world0 GetMeRoute "request0 None []" _ E0]
    by (simp add: error_response_def ClassifyError_def Wrap_def httpStatusFor_def)
qed

text \<open>C19: A refused follow list is sent all the same.  The guard
  \<^verbatim>\<open>assertCanSeeFollowList\<close> writes the 404 and returns the nil of
  \<^verbatim>\<open>RespondError\<close>; the handler takes that for permission and writes the list of
  followers after it.\<close>

theorem refused_follow_list_leaks:
  assumes "w_faults w = []" "env_wired E DepQueries" "req_user q = Some viewer"
    "env_uuid_Parse E (req_param q ''id'') = Some t" "page_params E q = Inr (limit, cur)"
    "find_row (\<lambda>u. u_ID u = t) (users (w_db w)) = Some u"
    "\<not> may_list_follows (w_db w) (u_ID viewer) u"
  shows "w_out (snd (UserHandler_ListFollowers E q w)) = w_out w @
    [error_response (Wrap ErrNotFound ''user not found''),
     followers_response E q (w_db w) (u_ID viewer) t limit cur]"
  using followers_calm [OF assms(1-6)] assms(7) by simp

theorem refused_follow_list_leaks_witness:
  "map r_status (w_out (snd (UserHandler_ListFollowers E0 (request0 (Some bob) ''3'') leak_world))) = [404, 200] \<and>
   r_body (last (w_out (snd (UserHandler_ListFollowers E0 (request0 (Some bob) ''3'') leak_world)))) =
     BodyList [followListItem alice_follows] None"
  using refused_follow_list_leaks [of leak_world E0 "request0 (Some bob) ''3''" bob 3 20 None carol] leak_facts
  by (simp add: parse3 error_response_def ClassifyError_def Wrap_def httpStatusFor_def)

text \<open>C20: One answer per request.  With any failures, a request gets exactly one response,
  unless its login is refused (see above) or it asks for one of the two follow lists.  In
  particular the central error handler never adds a body to a response that has been
  written, and no path returns without one.\<close>

theorem answered_once:
  assumes "\<not> follow_list r" "w_out w = []"
    "needs_token r q \<Longrightarrow> identified E (q\<lparr>req_user := None\<rparr>) w"
  shows "\<exists>a. w_out (snd (serve E r q w)) = [a]"
  using assms by (rule serve_once)

theorem answered_once_witness:
  "\<exists>a. w_out (snd (serve E0 LikeRoute (bearer_request ''good'' ''10'') calm_world)) = [a]"
proof (rule answered_once)
  have "resolveUser E0 (bearer_request ''good'' ''10'') calm_world =
      (Inr ((bearer_request ''good'' ''10'')\<lparr>req_user := Some alice\<rparr>), calm_world)"
    by (rule good_token) (simp_all add: db0_users)
  then show "identified E0 ((bearer_request ''good'' ''10'')\<lparr>req_user := None\<rparr>) calm_world"
    by (simp add: identified_def bearer_request_def request0_def)
qed (simp_all add: follow_list_def)

text \<open>C21: Cursors survive the round trip.  For every time RFC 3339 can write and every
  identifier that is not nil, \<^verbatim>\<open>DecodeCursor\<close> undoes \<^verbatim>\<open>EncodeCursor\<close>; the
  zero time and the nil identifier stand for "no cursor" and are encoded as the empty
  string.\<close>

theorem cursor_decodes:
  assumes "uuid_codec E" "rfc3339_ok t" "t \<noteq> zero_time" "i \<noteq> uuid_Nil"
  shows "DecodeCursor E (EncodeCursor E t i) = Inr (t, i)"
  using assms by (rule cursor_roundtrip)

theorem cursor_decodes_witness: "DecodeCursor E0 (EncodeCursor E0 2000 10) = Inr (2000, 10)"
  by (rule cursor_decodes) (simp_all add: E0_uuid_codec rfc3339_ok_def zero_time_def)



text \<open>C23: A forged webhook is ignored.  A delivery whose signature the provider's check
  rejects changes nothing, whatever event it claims to be and whichever calls fail, and is
  answered with an error.\<close>

theorem forged_webhook_ignored:
  assumes "env_ValidateRequestPayload E raw (req_header q) (env_WebhookSigningKey E) = Some err"
  shows "w_db (snd (WebhookHandler_Handle E raw evt q w)) = w_db w \<and>
    w_queue (snd (WebhookHandler_Handle E raw evt q w)) = w_queue w \<and>
    w_objects (snd (WebhookHandler_Handle E raw evt q w)) = w_objects w \<and>
    (\<exists>e. w_out (snd (WebhookHandler_Handle E raw evt q w)) = w_out w @ [error_response e])"
  using forged_idle [OF assms] by (simp add: idle_def)

theorem forged_webhook_ignored_witness:
  "w_db (snd (WebhookHandler_Handle E0 ''{}''
     (Some \<lparr>ev_AggregateID = ''zalice'', ev_EventType = EventUserRemoved, ev_UserID = []\<rparr>)
     (request0 None []) world0)) = db0"
  using forged_webhook_ignored [of E0 "''{}''" "request0 None []" "Opaque ''bad signature''"]
  by (simp add: E0_def request0_def)


text \<open>C25: Deleting a prefix is exact.  If the store calls a key missing only when it is, a
  \<^verbatim>\<open>DeletePrefix\<close> that reports success has removed every object under the prefix,
  over all pages and batches, and no other object: \<^verbatim>\<open>hls/1/10/\<close> does not reach
  \<^verbatim>\<open>hls/1/100/\<close>.\<close>

theorem prefix_delete_exact:
  assumes "honest_store E" "fst (DeletePrefix E p w) = Inr ()"
  shows "w_objects (snd (DeletePrefix E p w)) = filter (\<lambda>b. \<not> prefix_of p (o_key b)) (w_objects w)"
  using assms by (rule DeletePrefix_exact)

theorem prefix_delete_exact_witness:
  "map o_key (w_objects (snd (DeletePrefix E0 ''hls/1/10/'' due_world))) = [''uploads/1/10'', ''hls/1/100/a'']"
  using prefix_delete_exact [of E0 "''hls/1/10/''" due_world] E0_honest
  by (simp add: due_prefix) (simp add: due_world_def object0_def prefix_of_def)



text \<open>C27: The row of a deleted video goes last.  If a run of the cleanup task removes the row,
  the video was deleted at least 24 hours ago and no object stored for it (the upload, the
  thumbnail, everything under its HLS prefix) is left in the bucket, whichever calls failed;
  so a partial failure always leaves the row from which a retry can go on.\<close>

theorem video_row_removed_last:
  assumes "honest_store E" "env_uuid_Parse E raw = Some i"
    "find_row (\<lambda>v. v_ID v = i) (videos (w_db w)) = Some v"
    "\<not> present i (snd (HandleCleanupVideo E (Some raw) w))"
  shows "due (w_clock w) v \<and>
    list_all (\<lambda>b. \<not> stored_for v (o_key b)) (w_objects (snd (HandleCleanupVideo E (Some raw) w)))"
  using assms by (rule cleanup_row_last)

theorem video_row_removed_last_witness:
  "list_all (\<lambda>b. \<not> stored_for old_video (o_key b))
     (w_objects (snd (HandleCleanupVideo E0 (Some ''10'') due_world)))"
  using video_row_removed_last [OF E0_honest due_video(2,1) due_gone] by simp

text \<open>C28: The cleanup task waits.  For a video that is not deleted, or was deleted less than
  24 hours ago, the cleanup task changes no table and no object, however often and early it is
  delivered and whichever calls fail.\<close>

theorem cleanup_keeps_grace:
  assumes "env_uuid_Parse E raw = Some i"
    "list_all (\<lambda>v. v_ID v = i \<longrightarrow> \<not> due (w_clock w) v) (videos (w_db w))"
  shows "w_db (snd (HandleCleanupVideo E (Some raw) w)) = w_db w \<and>
    w_objects (snd (HandleCleanupVideo E (Some raw) w)) = w_objects w"
  using assms by (rule cleanup_waits)

theorem cleanup_keeps_grace_witness:
  "w_db (snd (HandleCleanupVideo E0 (Some ''10'') world0)) = db0"
  using cleanup_keeps_grace [OF due_video(2), of world0]
  by (simp add: db0_def video0_def due_def)

text \<open>C29: What is published is complete.  Whichever calls fail, if the video was not
  \<^verbatim>\<open>READY\<close> before a run of the transcode task (and nobody else works on the tables
  meanwhile), then afterwards it is not \<^verbatim>\<open>READY\<close>, or its row names a thumbnail and
  a prefix, the thumbnail is in the bucket and under the prefix there is the master playlist
  that refers to both variants: the outputs are uploaded before the row is marked.\<close>

theorem published_video_complete:
  assumes "alone K" "env_uuid_Parse E raw = Some i" "none_ready i (w_db w)"
  shows "published_ok i (snd (HandleTranscode E K (Some raw) w))"
  using assms by (rule transcode_publishes)

theorem published_video_complete_witness:
  "\<exists>v. v \<in> set (videos (w_db (snd (HandleTranscode E0 K1 (Some ''10'') processing_world)))) \<and>
     complete (snd (HandleTranscode E0 K1 (Some ''10'') processing_world)) v"
proof -
  let ?w = "snd (HandleTranscode E0 K1 (Some ''10'') processing_world)"
  have "published_ok 10 ?w"
    by (rule published_video_complete [OF K1_ok(1) due_video(2)])
       (simp add: none_ready_def processing_world_def processing0_def video0_def)
  moreover have "has_ready 10 (w_db ?w)"
    by (rule transcode_delivers [OF K1_ok _ _ _ processing_facts(1,2) due_video(2) processing_facts(3-6)]) simp_all
  ultimately show ?thesis by (auto simp: published_ok_def has_ready_def)
qed

text \<open>C30: A valid upload is published.  If the row is \<^verbatim>\<open>PROCESSING\<close> with attempts
  left, its upload is in the bucket, the probe of its bytes passes the validation with a
  duration that is a number, ffmpeg writes its outputs and no call fails, then one run of the
  task makes the video \<^verbatim>\<open>READY\<close>: no check of the pipeline or of the tables stands in
  the way of a valid video.\<close>

theorem valid_upload_published:
  assumes "alone K" "ffmpeg_ok K" "env_wired E DepQueries" "env_wired E DepR2" "env_wired E DepAsynq"
    "w_faults w = []" "constraints (w_db w)" "env_uuid_Parse E raw = Some i"
    "find_row (\<lambda>v. v_ID v = i) (videos (w_db w)) = Some v" "v_Status v = PROCESSING"
    "v_RetryCount v < MaxRetries" "upload_valid K (v_R2Key v) w"
  shows "has_ready i (w_db (snd (HandleTranscode E K (Some raw) w)))"
  using assms by (rule transcode_delivers)

theorem valid_upload_published_witness:
  "has_ready 10 (w_db (snd (HandleTranscode E0 K1 (Some ''10'') processing_world)))"
  by (rule valid_upload_published [OF K1_ok _ _ _ processing_facts(1,2) due_video(2) processing_facts(3-6)]) simp_all

text \<open>C31: What the validation accepts.  \<^verbatim>\<open>ValidateMedia\<close> accepts exactly: a size within
  the upload bounds, at least one video stream, every video stream with an allowed codec,
  dimensions from 16 to 4096 and a bit rate within the limit, every audio stream with an
  allowed codec, and a duration that parses and is between 1 and 180 seconds, or is
  \<^verbatim>\<open>NaN\<close>: the two comparisons of the code are both false for it.\<close>

theorem validation_exact:
  "ValidateMedia r n = Inr () \<longleftrightarrow> MinUploadBytes \<le> n \<and> n \<le> MaxUploadBytes \<and>
     allowed_streams (fr_Streams r) \<and>
     (case ParseFloat (ff_Duration (fr_Format r)) of None \<Rightarrow> False
      | Some f \<Rightarrow> ff_Duration (fr_Format r) \<noteq> [] \<and>
          (f = NaN \<or> \<not> fl_less f minDuration \<and> \<not> fl_greater f maxDuration))"
  by (simp only: ValidateMedia_iff check_duration_iff)

text \<open>C32: A confirmation needs the upload.  Whichever calls fail, if
  \<^verbatim>\<open>POST /api/videos/confirm\<close> changes a table, then the video is the caller's, was
  \<^verbatim>\<open>PENDING_UPLOAD\<close> and has the key the client names, the object with that key is in
  the bucket with a size within the bounds, the only change is that the row is
  \<^verbatim>\<open>PROCESSING\<close> with a fresh retry budget, and a transcode task for it is in the
  queue.\<close>

theorem confirm_needs_upload:
  assumes "w_db (snd (ConfirmUpload E q b w)) \<noteq> w_db w"
  shows "\<exists>user body i. req_user q = Some user \<and> env_uuid_Parse E (cf_VideoID (body :: confirmRequest)) = Some i \<and>
    confirmable user i (TrimSpace (cf_R2Key body)) w \<and>
    w_db (snd (ConfirmUpload E q b w)) = confirmed_tables user i (TrimSpace (cf_R2Key body)) (w_db w) \<and>
    TranscodeVideo (env_uuid_String E i) \<in> q_task ` set (w_queue (snd (ConfirmUpload E q b w)))"
  by (rule confirm_changes [OF assms]) blast

theorem confirm_needs_upload_witness:
  "\<exists>i. TranscodeVideo (env_uuid_String E0 i) \<in> q_task ` set (w_queue (confirm_after None))"
  using confirm_needs_upload [OF confirm_changed] by blast


text \<open>C34: The links of a playlist work.  Given the master playlist the worker writes for a
  video, the gateway returns the same lines with each variant's path replaced by a URL.  A
  client that requests one of these URLs, without a login, is let in by the token in it until
  the token expires, and is served the variant whose line it followed: the query parameters
  arrive as they were written.\<close>

theorem playlist_links_work:
  assumes "id_text u" "id_text v" "base \<noteq> []" "url_plain base" "url_plain (env_uuid_String E i)"
    "int64_ok (unix_of expiry)" "t \<in> set transcodeVariants"
    "NewMediaToken E (env_uuid_String E i) (env_MediaTokenSecret E) ttl issued = Inr (token, expiry)"
    "req_user q = None" "req_query q = Query_Get (variant_url E base i (tv_Dir t) token)"
    "unix_of (w_clock w) \<le> unix_of expiry"
  shows "RewriteMasterPlaylist E (master_playlist (hls_prefix u v) transcodeVariants) base i
      (env_MediaTokenSecret E) ttl issued =
    Inr (unlines (master_lines (hls_prefix u v) (\<lambda>t. variant_url E base i (tv_Dir t) token))) \<and>
    playlist_authorized E q i w = (Inr (), w) \<and>
    choose_playlist E q (hls_prefix u v) i = serveVariantPlaylist E (hls_prefix u v) (tv_Dir t)"
proof (intro conjI)
  have d: "param_plain (tv_Dir t)" using assms(7) by (auto simp: transcodeVariants_def param_plain_def)
  note url = variant_url_query [OF assms(4,5) d assms(8)]
  have "env_MediaTokenSecret E \<noteq> []" using assms(8) by (auto simp: NewMediaToken_def split: if_splits)
  then show "RewriteMasterPlaylist E (master_playlist (hls_prefix u v) transcodeVariants) base i
      (env_MediaTokenSecret E) ttl issued =
    Inr (unlines (master_lines (hls_prefix u v) (\<lambda>t. variant_url E base i (tv_Dir t) token)))"
    using rewrite_master [OF assms(1-3) _ assms(8)] by simp
  show "playlist_authorized E q i w = (Inr (), w)"
    using url_token_opens [OF assms(8,6,9) _ assms(11)] url(2) assms(10) by simp
  show "choose_playlist E q (hls_prefix u v) i = serveVariantPlaylist E (hls_prefix u v) (tv_Dir t)"
    using variant_chosen [OF assms(7)] url(1) assms(10) by simp
qed

theorem playlist_links_work_witness:
  "\<exists>token t. t \<in> set transcodeVariants \<and>
    RewriteMasterPlaylist E0 (master_playlist (hls_prefix ''1'' ''10'') transcodeVariants) ''https://api'' 10
      ''secret'' 900000000000 0 =
    Inr (unlines (master_lines (hls_prefix ''1'' ''10'') (\<lambda>t. variant_url E0 ''https://api'' 10 (tv_Dir t) token))) \<and>
    playlist_authorized E0 ((request0 None ''10'')\<lparr>req_query := Query_Get
      (variant_url E0 ''https://api'' 10 (tv_Dir t) token)\<rparr>) 10 world0 = (Inr (), world0)"
proof -
  have s: "env_MediaTokenSecret E0 = ''secret''" "env_uuid_String E0 10 = ''10''" by (simp add: E0_def) code_simp
  have ids: "id_text ''1''" "id_text ''10''" by (simp_all add: id_text_def solid_def visible_def byte_def)
  have plain: "url_plain ''https://api''" "url_plain (env_uuid_String E0 10)" by (simp_all add: url_plain_def s)
  let ?k = "SignMediaToken E0 (env_uuid_String E0 10) ''secret'' 900000000000"
  let ?t = "hd transcodeVariants"
  have t: "?t \<in> set transcodeVariants" by (simp add: transcodeVariants_def)
  show ?thesis
    using playlist_links_work [OF ids _ plain, of 900000000000 ?t 900000000000 0 ?k
      "(request0 None ''10'')\<lparr>req_query := Query_Get (variant_url E0 ''https://api'' 10 (tv_Dir ?t) ?k)\<rparr>" world0] s t
    by (simp add: NewMediaToken_def unix_of_def int64_ok_def request0_def) blast
qed

text \<open>C35: Nothing serves half-built.  A gateway exits with code 1 and never listened, or its
  configuration was complete, it opened the pool, the object store client, the producer and
  the verifier (at most four discoveries) before it listened, its handlers find every
  dependency and setting they test, and when it ends without an error it drained its
  requests and then closed pool and producer.  A worker exits with code 1 and no pool open,
  or it consumed tasks, one at a time, and closed its clients when a signal ended it.\<close>

theorem processes_start_in_order:
  assumes "prompt H"
  shows "gateway_life getenv (gateway_main H getenv (fresh t)) \<and>
    worker_life getenv (worker_main H getenv (fresh t))"
  using gateway_lives [OF assms] worker_lives by blast

theorem processes_start_in_order_witness:
  "gateway_life settings (gateway_main host0 settings (fresh 0)) \<and>
   worker_life settings (worker_main host0 settings (fresh 0)) \<and>
   fst (gateway_main host0 settings (fresh 0)) = Inr () \<and>
   fst (worker_main host0 settings (fresh 0)) = Inr ()"
  using processes_start_in_order [OF hosts_prompt(1)] host0_serves by blast

text \<open>C36: The boot waits a bounded time.  Whatever the issuer answers, as long as a discovery
  respects the deadline it is given, building the verifier ends: at most four discoveries,
  each given between 5 and 60 seconds, and at most 80 seconds in all, the budget of 60 and
  the last back-off (the comment promises never to overshoot the budget).  The witness is an
  issuer that accepts and does not answer: the first attempt may take the whole budget, so
  it is the only one.\<close>

theorem verifier_retries_bounded:
  assumes "prompt H" "buildVerifierWithRetry H cancel issuer client p = (r, p')"
  shows "\<exists>ts. pr_trace p' = pr_trace p @ map Discover ts @ (if isl r then [] else [VerifierReady]) \<and>
    length ts \<le> 4 \<and> set ts \<subseteq> {seconds 5 .. seconds 60} \<and>
    pr_now p \<le> pr_now p' \<and> pr_now p' \<le> pr_now p + seconds 80"
  using assms by (rule buildVerifier_bound)

theorem verifier_retries_bounded_witness:
  "(\<exists>ts. pr_trace (snd (buildVerifierWithRetry hanging_issuer None ''http://auth'' ''api'' (fresh 0))) =
      map Discover ts \<and> length ts \<le> 4) \<and>
   snd (buildVerifierWithRetry hanging_issuer None ''http://auth'' ''api'' (fresh 0)) =
     \<lparr>pr_now = seconds 65, pr_trace = [Discover (seconds 60)]\<rparr>"
proof -
  let ?b = "buildVerifierWithRetry hanging_issuer None ''http://auth'' ''api'' (fresh 0)"
  have "\<exists>ts. pr_trace (snd ?b) = pr_trace (fresh 0) @ map Discover ts @
      (if isl (fst ?b) then [] else [VerifierReady]) \<and> length ts \<le> 4"
    using verifier_retries_bounded [OF hosts_prompt(2) prod.collapse [symmetric]] by blast
  then have "\<exists>ts. pr_trace (snd ?b) = map Discover ts \<and> length ts \<le> 4"
    unfolding hanging_run by (auto simp: fresh_def split: if_splits)
  then show ?thesis using hanging_run by blast
qed




text \<open>C39: When the tests stop draining.  \<^verbatim>\<open>drainQueue\<close> and \<^verbatim>\<open>drainScheduled\<close>
  always read the first page of 50 tasks and stop only at a page that is not full.  Whatever the
  order of the listing, if no call fails they return exactly when fewer than 50 of the listed
  tasks are of another type; otherwise they loop for ever, and the deadline of the run, which
  they do not look at, does not stop them.\<close>

theorem drains_end_iff:
  assumes "listing_order I" "w_faults w = []"
  shows "(drainQueue I kind w \<noteq> None \<longleftrightarrow>
      foreign (\<lambda>t. \<not> scheduled t) kind (w_queue w) < inspector_page) \<and>
    (drainScheduled I kind w \<noteq> None \<longleftrightarrow> foreign scheduled kind (w_queue w) < inspector_page)"
  unfolding drainQueue_def drainScheduled_def not_None_eq by (simp only: drain_returns [OF assms] simp_thms)

theorem drains_end_iff_witness:
  "drainQueue I1 ''cleanup:objects'' (busy_world 50) = None \<and>
   drainQueue I1 ''cleanup:objects'' (busy_world 49) \<noteq> None \<and>
   drainScheduled I1 ''cleanup:objects'' (busy_world 50) \<noteq> None"
  using drains_end_iff [OF I1_order busy_calm, of "''cleanup:objects''" 50]
    drains_end_iff [OF I1_order busy_calm, of "''cleanup:objects''" 49]
  by (simp add: busy_foreign inspector_page_def del: not_None_eq)

text \<open>C40: The account-deletion test passes once.  \<^verbatim>\<open>phase8_delete_user\<close> cleans up by
  username before it starts, so that it can be run again.  After a run that passes it cannot:
  the deleted account keeps the subject the next run needs under a username the clean-up does
  not match, and the next run on that database never passes, whatever fails and however it is
  configured.\<close>

theorem smoke_passes_once:
  assumes "du_run I E addr pw w = Some (Inr (), w')"
  shows "du_run I' E' addr' pw' w' \<noteq> Some (Inr (), w'')"
  using assms by (rule du_passes_once)

theorem smoke_passes_once_witness:
  "\<exists>w'. du_run I1 E1 [] ''pw'' fresh_world = Some (Inr (), w') \<and>
     du_run I1 E1 [] ''pw'' w' \<noteq> Some (Inr (), w')"
proof -
  obtain r where r: "du_run I1 E1 [] ''pw'' fresh_world = Some r" "fst r = Inr ()"
    using du_passes by (auto simp: map_option_eq_Some)
  then have "du_run I1 E1 [] ''pw'' fresh_world = Some (Inr (), snd r)" by (metis surjective_pairing)
  then show ?thesis using smoke_passes_once by blast
qed

end
